(* ===== verification/Prelude.thy ===== *)
theory Prelude
  imports Complex_Main "HOL-Library.List_Lexorder" "HOL-Library.Char_ord" "HOL-Library.Multiset"
begin

text \<open>
  Shared vocabulary of the development: JavaScript results (a thrown error is a
  string, its message), the falsy-to-null idiom \<open>x || null\<close>, default sorting and
  comparator sorting of arrays, and the list lemmas the table model rests on.
\<close>

section \<open>Results and falsy values\<close>

named_theorems js_simps \<open>unfolding rules for the JavaScript idioms\<close>
named_theorems sql_simps \<open>characteristic equations of the SQL statement primitives\<close>
named_theorems row_simps \<open>frame equations of the row updates\<close>

type_synonym 'a result = "string + 'a"

definition rbind :: "'a result \<Rightarrow> ('a \<Rightarrow> 'b result) \<Rightarrow> 'b result" where
  "rbind r f = (case r of Inl e \<Rightarrow> Inl e | Inr x \<Rightarrow> f x)"

lemma rbind_simps [simp]: "rbind (Inl e) f = Inl e" "rbind (Inr x) f = f x"
  by (simp_all add: rbind_def)

lemma rbind_Inr_iff: "rbind r f = Inr y \<longleftrightarrow> (\<exists>x. r = Inr x \<and> f x = Inr y)"
  by (cases r) auto

lemma rbind_Inr_E [elim]:
  assumes "rbind r f = Inr y"
  obtains x where "r = Inr x" and "f x = Inr y"
  using assms by (auto simp: rbind_Inr_iff)

lemma rbind_assoc: "rbind (rbind r f) g = rbind r (\<lambda>x. rbind (f x) g)"
  by (cases r) simp_all

definition check :: "bool \<Rightarrow> string \<Rightarrow> unit result" where
  "check b msg = (if b then Inr () else Inl msg)"

lemma check_Inr_iff [simp]: "check b msg = Inr u \<longleftrightarrow> b"
  by (auto simp: check_def)

text \<open>\<open>rmap f xs\<close> is \<open>xs.map(f)\<close> for an \<open>f\<close> that may throw: the first error wins.\<close>

fun rmap :: "('a \<Rightarrow> 'b result) \<Rightarrow> 'a list \<Rightarrow> 'b list result" where
  "rmap f [] = Inr []"
| "rmap f (x # xs) = rbind (f x) (\<lambda>y. rbind (rmap f xs) (\<lambda>ys. Inr (y # ys)))"

lemma rmap_Inr_length: "rmap f xs = Inr ys \<Longrightarrow> length ys = length xs"
  by (induction xs arbitrary: ys) (auto simp: rbind_Inr_iff)

lemma rmap_Inr_iff: "rmap f xs = Inr ys \<longleftrightarrow> list_all2 (\<lambda>x y. f x = Inr y) xs ys"
  by (induction xs arbitrary: ys) (auto simp: rbind_Inr_iff list_all2_Cons1)

lemma rmap_pure: "(\<And>x. x \<in> set xs \<Longrightarrow> f x = Inr (g x)) \<Longrightarrow> rmap f xs = Inr (map g xs)"
  by (induction xs) simp_all

text \<open>\<open>x || null\<close> on a nullable string, and \<open>Number(x || d)\<close> on a number.\<close>

definition or_null :: "string option \<Rightarrow> string option" where
  "or_null x = (if x = Some [] then None else x)"

definition or_num :: "int \<Rightarrow> int \<Rightarrow> int" where
  "or_num x d = (if x = 0 then d else x)"

lemma or_null_simps [simp]:
  "or_null None = None" "or_null (or_null x) = or_null x"
  "s \<noteq> [] \<Longrightarrow> or_null (Some s) = Some s"
  by (auto simp: or_null_def)

lemma or_null_eq_Some_iff [simp]: "or_null x = Some s \<longleftrightarrow> x = Some s \<and> s \<noteq> []"
  by (auto simp: or_null_def)

lemma or_num_nonzero [simp]: "x \<noteq> 0 \<Longrightarrow> or_num x d = x"
  by (simp add: or_num_def)

text \<open>\<open>sqlText(value)\<close> renders a null value as the empty text literal, not as NULL.\<close>

definition sqlText :: "string option \<Rightarrow> string" where
  "sqlText x = (case x of None \<Rightarrow> [] | Some s \<Rightarrow> s)"

lemma sqlText_simps [simp]: "sqlText None = []" "sqlText (Some s) = s"
  by (simp_all add: sqlText_def)

section \<open>Sorting arrays\<close>

text \<open>
  \<open>Array.prototype.sort\<close> is stable. \<open>sort_by\<close> inserts from the right and puts an
  element before the elements it ties with, which keeps their order.
\<close>

fun insert_by :: "('a \<Rightarrow> 'a \<Rightarrow> int) \<Rightarrow> 'a \<Rightarrow> 'a list \<Rightarrow> 'a list" where
  "insert_by cmp x [] = [x]"
| "insert_by cmp x (y # ys) = (if cmp x y \<le> 0 then x # y # ys else y # insert_by cmp x ys)"

fun sort_by :: "('a \<Rightarrow> 'a \<Rightarrow> int) \<Rightarrow> 'a list \<Rightarrow> 'a list" where
  "sort_by cmp [] = []"
| "sort_by cmp (x # xs) = insert_by cmp x (sort_by cmp xs)"

text \<open>The default order of \<open>sort()\<close> and of SQLite's BINARY collation: code units.\<close>

definition codeUnitCompare :: "string \<Rightarrow> string \<Rightarrow> int" where
  "codeUnitCompare s t = (if s = t then 0 else if s < t then - 1 else 1)"

definition sortStrings :: "string list \<Rightarrow> string list" where
  "sortStrings = sort_by codeUnitCompare"

lemma mset_insert_by [simp]: "mset (insert_by cmp x ys) = add_mset x (mset ys)"
  by (induction ys) auto

lemma mset_sort_by [simp]: "mset (sort_by cmp xs) = mset xs"
  by (induction xs) auto

lemma set_sort_by [simp]: "set (sort_by cmp xs) = set xs"
  by (metis mset_sort_by set_mset_mset)

lemma length_sort_by [simp]: "length (sort_by cmp xs) = length xs"
  by (metis mset_sort_by size_mset)

lemma sort_by_Nil_iff [simp]: "sort_by cmp xs = [] \<longleftrightarrow> xs = []"
  by (metis length_0_conv length_sort_by)

lemma distinct_map_sort_by [simp]: "distinct (map f (sort_by cmp xs)) = distinct (map f xs)"
  by (metis mset_map mset_sort_by mset_eq_imp_distinct_iff)

lemma filter_sort_by_Nil [simp]: "filter P (sort_by cmp xs) = [] \<longleftrightarrow> filter P xs = []"
  by (simp add: filter_empty_conv)

locale js_comparator =
  fixes cmp :: "'a \<Rightarrow> 'a \<Rightarrow> int"
  assumes cmp_total: "0 < cmp x y \<Longrightarrow> cmp y x \<le> 0"
    and cmp_trans: "cmp x y \<le> 0 \<Longrightarrow> cmp y z \<le> 0 \<Longrightarrow> cmp x z \<le> 0"
begin

lemma sorted_insert_by:
  "sorted_wrt (\<lambda>a b. cmp a b \<le> 0) ys \<Longrightarrow> sorted_wrt (\<lambda>a b. cmp a b \<le> 0) (insert_by cmp x ys)"
proof (induction ys)
  case Nil
  then show ?case by simp
next
  case (Cons y ys)
  have set: "set (insert_by cmp x ys) = insert x (set ys)"
    by (metis mset_insert_by set_mset_add_mset_insert set_mset_mset)
  show ?case
  proof (cases "cmp x y \<le> 0")
    case True
    with Cons.prems show ?thesis by (auto intro: cmp_trans)
  next
    case False
    then have "cmp y x \<le> 0" using cmp_total [of x y] by auto
    with False Cons set show ?thesis by auto
  qed
qed

lemma sorted_sort_by: "sorted_wrt (\<lambda>a b. cmp a b \<le> 0) (sort_by cmp xs)"
  by (induction xs) (auto intro: sorted_insert_by)

text \<open>An element that \<open>take\<close> keeps is never ordered after one it drops.\<close>

lemma take_sort_by_minimal:
  assumes "x \<in> set (take n (sort_by cmp xs))" and "y \<in> set (drop n (sort_by cmp xs))"
  shows "cmp x y \<le> 0"
  using sorted_sort_by [of xs] assms
  by (metis append_take_drop_id sorted_wrt_append)

text \<open>The first element of the sorted array that satisfies \<open>P\<close> is minimal among them.\<close>

lemma find_sort_by_minimal:
  assumes "find P (sort_by cmp xs) = Some x" and "y \<in> set xs" and "P y"
  shows "x \<in> set xs \<and> P x \<and> (x = y \<or> cmp x y \<le> 0)"
proof -
  from assms(1) obtain i where i: "i < length (sort_by cmp xs)" "P (sort_by cmp xs ! i)"
    "x = sort_by cmp xs ! i" "\<forall>j<i. \<not> P (sort_by cmp xs ! j)"
    by (auto simp: find_Some_iff)
  from assms(2) obtain j where j: "j < length (sort_by cmp xs)" "sort_by cmp xs ! j = y"
    by (metis in_set_conv_nth set_sort_by)
  with i assms(3) have "i \<le> j" by (meson not_le)
  moreover have "i < j \<Longrightarrow> cmp x y \<le> 0"
    using sorted_wrt_nth_less [OF sorted_sort_by [of xs]] i j by auto
  ultimately have "x = y \<or> cmp x y \<le> 0" using i j by (cases "i = j") auto
  moreover have "x \<in> set xs" using i by (metis nth_mem set_sort_by)
  ultimately show ?thesis using i by auto
qed

end

text \<open>Where ties are equal elements, sorting does not depend on the initial order.\<close>

locale js_strict_comparator = js_comparator +
  assumes cmp_antisym: "cmp x y \<le> 0 \<Longrightarrow> cmp y x \<le> 0 \<Longrightarrow> x = y"
begin

lemma sorted_unique:
  "sorted_wrt (\<lambda>a b. cmp a b \<le> 0) xs \<Longrightarrow> sorted_wrt (\<lambda>a b. cmp a b \<le> 0) ys
    \<Longrightarrow> mset xs = mset ys \<Longrightarrow> xs = ys"
proof (induction xs arbitrary: ys)
  case Nil
  then show ?case by simp
next
  case (Cons x xs)
  then obtain y zs where ys: "ys = y # zs" by (cases ys) auto
  have "x \<in> set ys" "y \<in> set (x # xs)"
    using Cons.prems(3) ys by (metis list.set_intros(1) set_mset_mset)+
  then have "x = y"
    using Cons.prems(1,2) ys by (auto intro: cmp_antisym)
  with Cons ys show ?case by auto
qed

lemma sort_by_cong: "mset xs = mset ys \<Longrightarrow> sort_by cmp xs = sort_by cmp ys"
  by (rule sorted_unique) (simp_all add: sorted_sort_by)

end

interpretation code_unit: js_strict_comparator codeUnitCompare
  by unfold_locales (auto simp: codeUnitCompare_def split: if_splits)

lemma set_sortStrings [simp]: "set (sortStrings xs) = set xs"
  by (simp only: sortStrings_def set_sort_by)

lemma length_sortStrings [simp]: "length (sortStrings xs) = length xs"
  by (simp only: sortStrings_def length_sort_by)

lemma distinct_sortStrings [simp]: "distinct (sortStrings xs) = distinct xs"
  unfolding sortStrings_def by (rule mset_eq_imp_distinct_iff) (rule mset_sort_by)

lemma sortStrings_cong: "mset xs = mset ys \<Longrightarrow> sortStrings xs = sortStrings ys"
  unfolding sortStrings_def by (rule code_unit.sort_by_cong)

section \<open>Tables with a primary key\<close>

text \<open>
  A table is the list of its rows. With the key distinct, a filter on the key selects at
  most the row \<open>find\<close> returns; every \<open>UPDATE ... WHERE key=?\<close> rests on these facts.
\<close>

lemma filter_absent_key:
  "k \<notin> key ` set xs \<Longrightarrow> filter (\<lambda>x. key x = k \<and> Q x) xs = []"
  by (induction xs) auto

lemma find_distinct_filter:
  assumes "distinct (map key xs)"
  shows "filter (\<lambda>x. key x = k \<and> Q x) xs =
    (case find (\<lambda>x. key x = k) xs of None \<Rightarrow> [] | Some x \<Rightarrow> if Q x then [x] else [])"
  using assms
proof (induction xs)
  case Nil
  then show ?case by simp
next
  case (Cons a xs)
  show ?case
  proof (cases "key a = k")
    case True
    with Cons.prems have "filter (\<lambda>x. key x = k \<and> Q x) xs = []"
      by (intro filter_absent_key) simp
    with True show ?thesis by simp
  next
    case False
    with Cons show ?thesis by simp
  qed
qed

lemma find_map_update:
  assumes "\<And>x. key (f x) = key x"
  shows "find (\<lambda>x. key x = k) (map (\<lambda>x. if P x then f x else x) xs) =
    map_option (\<lambda>x. if P x then f x else x) (find (\<lambda>x. key x = k) xs)"
  by (induction xs) (auto simp: assms)

lemma map_key_update:
  assumes "\<And>x. key (f x) = key x"
  shows "map key (map (\<lambda>x. if P x then f x else x) xs) = map key xs"
  by (induction xs) (auto simp: assms)

lemma find_key_SomeD:
  "find (\<lambda>x. key x = k) xs = Some x \<Longrightarrow> x \<in> set xs \<and> key x = k"
  by (auto simp: find_Some_iff)

lemma find_key_member:
  "distinct (map key xs) \<Longrightarrow> x \<in> set xs \<Longrightarrow> find (\<lambda>y. key y = key x) xs = Some x"
  by (induction xs) (auto simp: image_iff)

lemma find_key_None_iff: "find (\<lambda>x. key x = k) xs = None \<longleftrightarrow> k \<notin> key ` set xs"
  by (auto simp: find_None_iff)

end
