(* ===== verification/Record_Hash.thy ===== *)
theory Record_Hash
  imports Prelude
begin

text \<open>
  Canonical JSON and record hashes (\<open>workflow-kernel/record-hash.mjs\<close>). A JSON value is a
  datatype, an object the list of its own entries in property order. The services of the
  JavaScript runtime that the source calls but does not define (SHA-256, the decimal text
  of a number, ICU string collation, the ISO-8601 text of an instant) are the fields of the
  record \<open>runtime\<close>, which every hashing definition takes as its first argument. The two
  WeakMap caches of the source only memoize values that cannot change, so they do not occur.
\<close>

section \<open>JSON values\<close>

datatype json =
    JNull
  | JBool bool
  | JNum rat
  | JStr string
  | JArr "json list"
  | JObj "(string \<times> json) list"

abbreviation JInt :: "int \<Rightarrow> json" where
  "JInt i \<equiv> JNum (of_int i)"

definition JOptStr :: "string option \<Rightarrow> json" where
  "JOptStr x = (case x of None \<Rightarrow> JNull | Some s \<Rightarrow> JStr s)"

text \<open>Property access \<open>v?.k\<close>; \<open>None\<close> is \<open>undefined\<close>.\<close>

definition jget :: "string \<Rightarrow> json \<Rightarrow> json option" where
  "jget k v = (case v of JObj es \<Rightarrow> map_of es k | _ \<Rightarrow> None)"

fun jpath :: "string list \<Rightarrow> json \<Rightarrow> json option" where
  "jpath [] v = Some v"
| "jpath (k # ks) v = Option.bind (jget k v) (jpath ks)"

definition jstr :: "json option \<Rightarrow> string option" where
  "jstr v = (case v of Some (JStr s) \<Rightarrow> Some s | _ \<Rightarrow> None)"

definition jnum :: "json option \<Rightarrow> rat option" where
  "jnum v = (case v of Some (JNum q) \<Rightarrow> Some q | _ \<Rightarrow> None)"

definition jtruthy :: "json option \<Rightarrow> bool" where
  "jtruthy v = (case v of None \<Rightarrow> False | Some JNull \<Rightarrow> False | Some (JBool b) \<Rightarrow> b
    | Some (JNum q) \<Rightarrow> q \<noteq> 0 | Some (JStr s) \<Rightarrow> s \<noteq> [] | _ \<Rightarrow> True)"

definition isSafeInteger :: "rat \<Rightarrow> bool" where
  "isSafeInteger q = (q = of_int \<lfloor>q\<rfloor> \<and> \<bar>q\<bar> \<le> 9007199254740991)"

lemma jget_JObj [simp]: "jget k (JObj es) = map_of es k"
  by (simp add: jget_def)

lemma jstr_simps [simp]: "jstr (Some (JStr s)) = Some s" "jstr None = None" "jstr (Some JNull) = None"
  "jstr (Some (JOptStr x)) = x"
  by (simp_all add: jstr_def JOptStr_def split: option.splits)

lemma jnum_simps [simp]: "jnum (Some (JNum q)) = Some q" "jnum None = None" "jnum (Some JNull) = None"
  by (simp_all add: jnum_def)

lemma isSafeInteger_of_int [simp]: "isSafeInteger (of_int i) \<longleftrightarrow> \<bar>i\<bar> \<le> 9007199254740991"
proof -
  have "\<bar>of_int i :: rat\<bar> \<le> 9007199254740991 \<longleftrightarrow> of_int \<bar>i\<bar> \<le> (of_int 9007199254740991 :: rat)"
    by simp
  then show ?thesis by (simp only: isSafeInteger_def floor_of_int of_int_le_iff simp_thms)
qed

section \<open>Services of the runtime\<close>

record runtime =
  sha256_hex :: "string \<Rightarrow> string"
  number_text :: "rat \<Rightarrow> string"
  localeCompare :: "string \<Rightarrow> string \<Rightarrow> int"
  toISOString :: "int \<Rightarrow> string"
  string_number :: "string \<Rightarrow> rat option"

section \<open>JSON.stringify\<close>

definition hex_digit :: "nat \<Rightarrow> char" where
  "hex_digit n = ''0123456789abcdef'' ! (n mod 16)"

definition quote_char :: "char \<Rightarrow> string" where
  "quote_char c =
    (if c = CHR 0x22 then [CHR 0x5C, CHR 0x22]
     else if c = CHR 0x5C then [CHR 0x5C, CHR 0x5C]
     else if c = CHR 0x08 then [CHR 0x5C, CHR ''b'']
     else if c = CHR 0x09 then [CHR 0x5C, CHR ''t'']
     else if c = CHR 0x0A then [CHR 0x5C, CHR ''n'']
     else if c = CHR 0x0C then [CHR 0x5C, CHR ''f'']
     else if c = CHR 0x0D then [CHR 0x5C, CHR ''r'']
     else if (of_char c :: nat) < 32 then
       [CHR 0x5C, CHR ''u'', CHR ''0'', CHR ''0'', hex_digit (of_char c div 16), hex_digit (of_char c)]
     else [c])"

definition quote :: "string \<Rightarrow> string" where
  "quote s = [CHR 0x22] @ concat (map quote_char s) @ [CHR 0x22]"

fun join :: "string \<Rightarrow> string list \<Rightarrow> string" where
  "join sep [] = []"
| "join sep [x] = x"
| "join sep (x # y # xs) = x @ sep @ join sep (y # xs)"

primrec stringify :: "(rat \<Rightarrow> string) \<Rightarrow> json \<Rightarrow> string" where
  "stringify num JNull = ''null''"
| "stringify num (JBool b) = (if b then ''true'' else ''false'')"
| "stringify num (JNum q) = num q"
| "stringify num (JStr s) = quote s"
| "stringify num (JArr vs) = ''['' @ join '','' (map (stringify num) vs) @ '']''"
| "stringify num (JObj es) =
    ''{'' @ join '','' (map (\<lambda>(k, s). quote k @ '':'' @ s) (map (map_prod id (stringify num)) es)) @ ''}''"

section \<open>Coercions\<close>

text \<open>
  \<open>String(v)\<close> and \<open>Number(v)\<close> on JSON values; an array converts through the join of its
  elements, and \<open>None\<close> is NaN. The decimal syntax of numbers is the runtime's.
\<close>

primrec js_string :: "runtime \<Rightarrow> json \<Rightarrow> string" where
  "js_string rt JNull = ''null''"
| "js_string rt (JBool b) = (if b then ''true'' else ''false'')"
| "js_string rt (JNum q) = number_text rt q"
| "js_string rt (JStr s) = s"
| "js_string rt (JArr vs) = join '','' (map (\<lambda>(v, s). if v = JNull then [] else s) (zip vs (map (js_string rt) vs)))"
| "js_string rt (JObj es) = ''[object Object]''"

definition js_number :: "runtime \<Rightarrow> json option \<Rightarrow> rat option" where
  "js_number rt v = (case v of None \<Rightarrow> None | Some JNull \<Rightarrow> Some 0
    | Some (JBool b) \<Rightarrow> Some (if b then 1 else 0) | Some (JNum q) \<Rightarrow> Some q
    | Some w \<Rightarrow> string_number rt (js_string rt w))"

text \<open>\<open>v || d\<close> on JSON values, and its two common uses \<open>String(v || d)\<close> and \<open>Number(v || 0)\<close>.\<close>

definition or_else :: "json option \<Rightarrow> json \<Rightarrow> json" where
  "or_else v d = (case v of Some w \<Rightarrow> if jtruthy v then w else d | None \<Rightarrow> d)"

lemma js_number_JNum [simp]: "js_number rt (Some (JNum q)) = Some q"
  by (simp add: js_number_def)

lemma or_else_simps [simp]:
  "or_else None d = d" "or_else (Some (JStr [])) d = d" "or_else (Some JNull) d = d"
  "s \<noteq> [] \<Longrightarrow> or_else (Some (JStr s)) d = JStr s"
  by (simp_all add: or_else_def jtruthy_def)

section \<open>Key order\<close>

text \<open>
  \<open>Object.fromEntries\<close> builds an object, and the own properties of an object come in the
  order of the language: the array-index keys first, in ascending numeric order, then the
  others in the order of insertion.
\<close>

definition digit_value :: "char \<Rightarrow> nat" where
  "digit_value c = of_char c - 48"

definition decimal_value :: "string \<Rightarrow> nat" where
  "decimal_value s = foldl (\<lambda>n c. 10 * n + digit_value c) 0 s"

definition is_array_index :: "string \<Rightarrow> bool" where
  "is_array_index s = (s \<noteq> [] \<and> list_all (\<lambda>c. CHR ''0'' \<le> c \<and> c \<le> CHR ''9'') s
    \<and> (hd s = CHR ''0'' \<longrightarrow> s = ''0'') \<and> decimal_value s < 4294967295)"

definition index_compare :: "(string \<times> 'a) \<Rightarrow> (string \<times> 'a) \<Rightarrow> int" where
  "index_compare x y = int (decimal_value (fst x)) - int (decimal_value (fst y))"

definition fromEntries :: "(string \<times> 'a) list \<Rightarrow> (string \<times> 'a) list" where
  "fromEntries es =
    sort_by index_compare (filter (\<lambda>e. is_array_index (fst e)) es)
    @ filter (\<lambda>e. \<not> is_array_index (fst e)) es"

definition entry_compare :: "runtime \<Rightarrow> (string \<times> 'a) \<Rightarrow> (string \<times> 'a) \<Rightarrow> int" where
  "entry_compare rt x y = localeCompare rt (fst x) (fst y)"

primrec stable :: "runtime \<Rightarrow> json \<Rightarrow> json" where
  "stable rt JNull = JNull"
| "stable rt (JBool b) = JBool b"
| "stable rt (JNum q) = JNum q"
| "stable rt (JStr s) = JStr s"
| "stable rt (JArr vs) = JArr (map (stable rt) vs)"
| "stable rt (JObj es) =
    JObj (fromEntries (sort_by (entry_compare rt) (map (map_prod id (stable rt)) es)))"

definition stableStringify :: "runtime \<Rightarrow> json \<Rightarrow> string" where
  "stableStringify rt v = stringify (number_text rt) (stable rt v)"

definition digest :: "runtime \<Rightarrow> json \<Rightarrow> string" where
  "digest rt v = ''sha256:'' @ sha256_hex rt (stableStringify rt v)"

definition hashRecord :: "runtime \<Rightarrow> string \<Rightarrow> json \<Rightarrow> string" where
  "hashRecord rt kind v = digest rt (JObj [(''kind'', JStr kind), (''value'', v)])"

definition hashBytes :: "runtime \<Rightarrow> string \<Rightarrow> string" where
  "hashBytes rt s = ''sha256:'' @ sha256_hex rt s"

section \<open>Values that differ only in key order\<close>

inductive json_equiv :: "json \<Rightarrow> json \<Rightarrow> bool" where
  refl: "json_equiv v v"
| arr: "list_all2 json_equiv vs ws \<Longrightarrow> json_equiv (JArr vs) (JArr ws)"
| obj: "list_all2 (\<lambda>x y. fst x = fst y \<and> json_equiv (snd x) (snd y)) es fs \<Longrightarrow> mset fs = mset gs
    \<Longrightarrow> distinct (map fst es) \<Longrightarrow> json_equiv (JObj es) (JObj gs)"

text \<open>
  Collation orders the keys of a record when it is a total preorder on all strings and
  separates the keys in use; ICU collation ties only strings that differ in ignorable
  characters or in their normalization form.
\<close>

locale key_collation =
  fixes cmp :: "string \<Rightarrow> string \<Rightarrow> int" and key :: "string \<Rightarrow> bool"
  assumes collate_total: "0 < cmp x y \<Longrightarrow> cmp y x \<le> 0"
    and collate_trans: "cmp x y \<le> 0 \<Longrightarrow> cmp y z \<le> 0 \<Longrightarrow> cmp x z \<le> 0"
    and collate_separates: "key x \<Longrightarrow> key y \<Longrightarrow> cmp x y \<le> 0 \<Longrightarrow> cmp y x \<le> 0 \<Longrightarrow> x = y"
begin

lemma entry_comparator: "js_comparator (\<lambda>x y. cmp (fst x) (fst y))"
  by unfold_locales (auto intro: collate_total collate_trans)

text \<open>The sorted entries of an object do not depend on the order it lists them in.\<close>

lemma sort_entries_unique:
  assumes "sorted_wrt (\<lambda>x y. cmp (fst x) (fst y) \<le> 0) xs"
    and "sorted_wrt (\<lambda>x y. cmp (fst x) (fst y) \<le> 0) ys"
    and "mset xs = mset ys" and "distinct (map fst xs)" and "\<forall>e\<in>set xs. key (fst e)"
  shows "xs = ys"
  using assms
proof (induction xs arbitrary: ys)
  case Nil
  then show ?case by simp
next
  case (Cons x xs)
  then obtain y zs where ys: "ys = y # zs" by (cases ys) auto
  have mem: "x \<in> set ys" "y \<in> set (x # xs)"
    using Cons.prems(3) ys by (metis list.set_intros(1) set_mset_mset)+
  have "x = y"
  proof (rule ccontr)
    assume "x \<noteq> y"
    then have "cmp (fst x) (fst y) \<le> 0" "cmp (fst y) (fst x) \<le> 0"
      using Cons.prems(1,2) ys mem by auto
    moreover have "key (fst x)" "key (fst y)" using Cons.prems(5) mem by auto
    ultimately have "fst x = fst y" by (intro collate_separates)
    with Cons.prems(4) mem(2) \<open>x \<noteq> y\<close> show False
      by (metis distinct.simps(2) image_eqI list.map(2) list.set_map set_ConsD)
  qed
  with Cons ys show ?case by auto
qed

lemma sort_entries_cong:
  assumes "mset es = mset fs" and "distinct (map fst es)" and "\<forall>e\<in>set es. key (fst e)"
  shows "sort_by (\<lambda>x y. cmp (fst x) (fst y)) es = sort_by (\<lambda>x y. cmp (fst x) (fst y)) fs"
  by (rule sort_entries_unique)
    (use assms in \<open>simp_all add: js_comparator.sorted_sort_by [OF entry_comparator]\<close>)

end

interpretation code_unit_keys: key_collation codeUnitCompare "\<lambda>_. True"
  by unfold_locales (auto simp: codeUnitCompare_def split: if_splits)

primrec json_keys :: "json \<Rightarrow> string list" where
  "json_keys JNull = []"
| "json_keys (JBool b) = []"
| "json_keys (JNum q) = []"
| "json_keys (JStr s) = []"
| "json_keys (JArr vs) = concat (map json_keys vs)"
| "json_keys (JObj es) = map fst es @ concat (map snd (map (map_prod id json_keys) es))"

lemma entry_compare_eq: "entry_compare rt = (\<lambda>x y. localeCompare rt (fst x) (fst y))"
  by (intro ext) (simp add: entry_compare_def)

lemma stable_equiv:
  assumes ok: "key_collation (localeCompare rt) key"
  shows "json_equiv v w \<Longrightarrow> \<forall>k\<in>set (json_keys v). key k \<Longrightarrow> stable rt v = stable rt w"
proof (induction rule: json_equiv.induct)
  case (refl v)
  then show ?case by simp
next
  case (arr vs ws)
  have "map (stable rt) vs = map (stable rt) ws"
    using arr.IH arr.prems by (induction rule: list_all2_induct) auto
  then show ?case by simp
next
  case (obj es fs gs)
  let ?s = "map_prod id (stable rt)"
  have eq: "map ?s es = map ?s fs"
    using obj.IH obj.prems by (induction rule: list_all2_induct) (auto simp: map_prod_def split: prod.splits)
  have "mset (map ?s es) = mset (map ?s gs)"
    using eq obj.hyps by simp
  moreover have "distinct (map fst (map ?s es))"
    using obj.hyps by (simp add: comp_def)
  moreover have "\<forall>e\<in>set (map ?s es). key (fst e)"
    using obj.prems by auto
  ultimately have "sort_by (\<lambda>x y. localeCompare rt (fst x) (fst y)) (map ?s es) =
      sort_by (\<lambda>x y. localeCompare rt (fst x) (fst y)) (map ?s gs)"
    by (rule key_collation.sort_entries_cong [OF ok])
  then show ?case by (simp add: entry_compare_eq)
qed

lemma hashRecord_equiv:
  assumes "key_collation (localeCompare rt) key" and "json_equiv v w"
    and "\<forall>k\<in>set (json_keys v). key k"
  shows "hashRecord rt kind v = hashRecord rt kind w"
  using stable_equiv [OF assms] by (simp add: hashRecord_def digest_def stableStringify_def)

end
