(* ===== verification/Process_Identity.thy ===== *)
theory Process_Identity
  imports Record_Hash
begin

text \<open>
  Process identities (\<open>workflow-kernel/runtime/process-identity.mjs\<close>): the pid with its start
  time, its text suffix in a lease owner, and the test for a stale owner. What the operating
  system answers for a pid is the record \<open>os\<close>: the text of \<open>/proc/pid/stat\<close> or the error
  reading it, and whether \<open>kill(pid, 0)\<close> reports that no such process exists.
\<close>

section \<open>Decimal text\<close>

definition is_digit :: "char \<Rightarrow> bool" where
  "is_digit c = (CHR ''0'' \<le> c \<and> c \<le> CHR ''9'')"

definition digit_char :: "nat \<Rightarrow> char" where
  "digit_char d = char_of (48 + d)"

fun nat_text :: "nat \<Rightarrow> string" where
  "nat_text n = (if n < 10 then [digit_char n] else nat_text (n div 10) @ [digit_char (n mod 10)])"

declare nat_text.simps [simp del]

fun split_on :: "char \<Rightarrow> string \<Rightarrow> string list" where
  "split_on c [] = [[]]"
| "split_on c (x # xs) = (if x = c then [] # split_on c xs
    else (case split_on c xs of [] \<Rightarrow> [[x]] | w # ws \<Rightarrow> (x # w) # ws))"

section \<open>Identities\<close>

record process_identity =
  pid :: nat
  pidStartTime :: "string option"

datatype proc_stat = Stat string | Stat_missing | Stat_unreadable | Stat_unsupported

record os =
  proc_stat_of :: "nat \<Rightarrow> proc_stat"
  kill_no_process :: "nat \<Rightarrow> bool"

datatype observed = Present string | Missing | Unknown | Unsupported

definition normalizedPid :: "nat \<Rightarrow> nat option" where
  "normalizedPid n = (if 0 < n \<and> n \<le> 9007199254740991 then Some n else None)"

definition is_space :: "char \<Rightarrow> bool" where
  "is_space c = (c \<in> {CHR '' '', CHR 0x09, CHR 0x0A, CHR 0x0B, CHR 0x0C, CHR 0x0D, CHR 0xA0})"

fun words :: "string \<Rightarrow> string \<Rightarrow> string list" where
  "words w [] = (if w = [] then [] else [w])"
| "words w (x # xs) = (if is_space x then (if w = [] then words [] xs else w # words [] xs) else words (w @ [x]) xs)"

text \<open>The fields after the last closing parenthesis; field 22 is the start time.\<close>

definition stat_fields :: "string \<Rightarrow> string list" where
  "stat_fields raw = (if CHR '')'' \<in> set raw then words [] (rev (takeWhile (\<lambda>c. c \<noteq> CHR '')'') (rev raw))) else [])"

definition all_digits :: "string \<Rightarrow> bool" where
  "all_digits s = (s \<noteq> [] \<and> list_all is_digit s)"

definition observeProcessIdentity :: "os \<Rightarrow> nat \<Rightarrow> observed" where
  "observeProcessIdentity os p =
    (case normalizedPid p of None \<Rightarrow> Unknown
     | Some q \<Rightarrow> (case proc_stat_of os q of
         Stat_unsupported \<Rightarrow> Unsupported | Stat_missing \<Rightarrow> Missing | Stat_unreadable \<Rightarrow> Unknown
       | Stat raw \<Rightarrow> (let fields = stat_fields raw in
           if 19 < length fields \<and> all_digits (fields ! 19) then Present (fields ! 19) else Unknown)))"

definition processIdentityIsStale :: "os \<Rightarrow> process_identity \<Rightarrow> bool" where
  "processIdentityIsStale os i =
    (case normalizedPid (pid i) of None \<Rightarrow> False
     | Some p \<Rightarrow> (case observeProcessIdentity os p of
         Missing \<Rightarrow> True
       | Present t \<Rightarrow> (case pidStartTime i of None \<Rightarrow> False | Some s \<Rightarrow> s \<noteq> [] \<and> s \<noteq> t)
       | _ \<Rightarrow> kill_no_process os p))"

definition formatProcessIdentitySuffix :: "process_identity \<Rightarrow> string result" where
  "formatProcessIdentitySuffix i =
    (case normalizedPid (pid i) of None \<Rightarrow> Inl ''process_identity_pid_invalid''
     | Some p \<Rightarrow> Inr (''process:'' @ nat_text p @ '':'' @
         (case pidStartTime i of Some s \<Rightarrow> if all_digits s then s else ''unknown'' | None \<Rightarrow> ''unknown'')))"

definition parseProcessIdentitySuffix :: "string \<Rightarrow> process_identity option" where
  "parseProcessIdentitySuffix value =
    (case rev (split_on CHR '':'' value) of
       t # p # tag # rest \<Rightarrow>
         if tag = ''process'' \<and> all_digits p \<and> (all_digits t \<or> t = ''unknown'')
         then map_option (\<lambda>q. \<lparr>pid = q, pidStartTime = (if t = ''unknown'' then None else Some t)\<rparr>)
           (normalizedPid (decimal_value p))
         else None
     | _ \<Rightarrow> None)"

section \<open>The suffix is read back\<close>

lemma of_char_digit_char: "d < 10 \<Longrightarrow> of_char (digit_char d) = (48 + d :: nat)"
  by (simp add: digit_char_def)

lemma is_digit_iff: "is_digit c \<longleftrightarrow> 48 \<le> (of_char c :: nat) \<and> (of_char c :: nat) \<le> 57"
  by (simp add: is_digit_def less_eq_char_def)

lemma is_digit_digit_char [simp]: "d < 10 \<Longrightarrow> is_digit (digit_char d)"
  by (simp add: is_digit_iff of_char_digit_char)

lemma decimal_value_append [simp]: "decimal_value (s @ [c]) = 10 * decimal_value s + digit_value c"
  by (simp add: decimal_value_def)

lemma nat_text_value [simp]: "decimal_value (nat_text n) = n"
proof (induction n rule: nat_text.induct)
  case (1 n)
  show ?case
  proof (cases "n < 10")
    case True
    then show ?thesis
      by (simp add: nat_text.simps [of n] decimal_value_def digit_value_def of_char_digit_char)
  next
    case False
    have "digit_value (digit_char (n mod 10)) = n mod 10"
      by (simp add: digit_value_def of_char_digit_char)
    with False 1 show ?thesis by (simp add: nat_text.simps [of n])
  qed
qed

lemma nat_text_digits [simp]: "all_digits (nat_text n)"
proof (induction n rule: nat_text.induct)
  case (1 n)
  then show ?case
    by (cases "n < 10") (simp_all add: nat_text.simps [of n] all_digits_def)
qed

lemma split_on_nonempty [simp]: "split_on c s \<noteq> []"
  by (induction s) (auto split: list.splits)

lemma split_on_absent: "c \<notin> set s \<Longrightarrow> split_on c s = [s]"
  by (induction s) auto

lemma split_on_append: "split_on c (s @ c # t) = split_on c s @ split_on c t"
proof (induction s)
  case Nil
  then show ?case by simp
next
  case (Cons x xs)
  obtain w ws where "split_on c xs = w # ws" by (cases "split_on c xs") auto
  with Cons show ?case by simp
qed

lemma all_digits_no_colon: "all_digits s \<Longrightarrow> CHR '':'' \<notin> set s"
  by (auto simp: all_digits_def list_all_iff is_digit_def less_eq_char_def)

lemma parse_suffix:
  assumes "all_digits p" and "all_digits t \<or> t = ''unknown''"
  shows "parseProcessIdentitySuffix (owner @ '':process:'' @ p @ '':'' @ t) =
    map_option (\<lambda>q. \<lparr>pid = q, pidStartTime = (if t = ''unknown'' then None else Some t)\<rparr>)
      (normalizedPid (decimal_value p))"
proof -
  have t: "CHR '':'' \<notin> set t" using assms(2) all_digits_no_colon by auto
  have p: "CHR '':'' \<notin> set p" using assms(1) all_digits_no_colon by auto
  have "split_on CHR '':'' (owner @ CHR '':'' # ''process'' @ CHR '':'' # p @ CHR '':'' # t) =
      split_on CHR '':'' owner @ [''process'', p, t]"
    by (simp only: split_on_append split_on_absent [OF t] split_on_absent [OF p])
      (simp add: split_on_absent)
  then show ?thesis
    using assms by (simp add: parseProcessIdentitySuffix_def)
qed

end
