(* ===== verification/Campaign_Model.thy ===== *)
theory Campaign_Model
  imports Record_Hash
begin

text \<open>
  Rows of the campaign tables and the JavaScript objects read from them
  (\<open>store/migrations/004\<close>, \<open>005\<close>, \<open>006\<close>, \<open>022\<close>, \<open>sqlite-campaign-row-mappers.mjs\<close>). A row is
  a record, a nullable column an option. Timestamps are written by \<open>toISOString\<close> only, whose
  text has fixed width, so the model keeps the instant itself (milliseconds as \<open>int\<close>) and
  renders it where the code puts the text into an event. JSON columns hold the JSON value.
  \<open>mapCampaignNodeRow\<close> and \<open>mapCampaignRow\<close> turn a row into the object the operations use;
  both keep the field names, so the object is a record of the same type, normalized.
\<close>

section \<open>Statuses\<close>

datatype node_status =
    Queued | Leased | Running | Completed | Skipped | Failed_terminal | External_outcome_uncertain

datatype campaign_status =
    C_queued | C_running | C_paused | C_completed | C_failed | C_cancelled | C_stopped

datatype integration_status = Integ_none | Integ_pending | Integ_integrating | Integ_integrated

fun node_status_text :: "node_status \<Rightarrow> string" where
  "node_status_text Queued = ''queued''"
| "node_status_text Leased = ''leased''"
| "node_status_text Running = ''running''"
| "node_status_text Completed = ''completed''"
| "node_status_text Skipped = ''skipped''"
| "node_status_text Failed_terminal = ''failed_terminal''"
| "node_status_text External_outcome_uncertain = ''external_outcome_uncertain''"

fun campaign_status_text :: "campaign_status \<Rightarrow> string" where
  "campaign_status_text C_queued = ''queued''"
| "campaign_status_text C_running = ''running''"
| "campaign_status_text C_paused = ''paused''"
| "campaign_status_text C_completed = ''completed''"
| "campaign_status_text C_failed = ''failed''"
| "campaign_status_text C_cancelled = ''cancelled''"
| "campaign_status_text C_stopped = ''stopped''"

fun integration_status_text :: "integration_status \<Rightarrow> string" where
  "integration_status_text Integ_none = ''none''"
| "integration_status_text Integ_pending = ''pending''"
| "integration_status_text Integ_integrating = ''integrating''"
| "integration_status_text Integ_integrated = ''integrated''"

section \<open>Rows\<close>

record prepared =
  prepared_result :: "json option"
  prepared_result_sha256 :: "string option"
  prepared_attempt_id :: "string option"
  prepared_at :: "int option"
  prepared_requires_integration :: bool
  prepared_integration_key :: "string option"
  prepared_integration_status :: integration_status
  prepared_integration_started_at :: "int option"
  prepared_integration_receipt :: "json option"
  prepared_integration_receipt_sha256 :: "string option"
  prepared_integrated_at :: "int option"

record reviewer =
  role :: "string option"
  reviewer_id :: "string option"
  child_session_id :: "string option"
  review_hash :: "string option"
  prompt_hash :: "string option"
  resolved_model :: "string option"

record node_row =
  node_id :: string
  n_campaign_id :: string
  n_kind :: string
  round_index :: int
  n_status :: node_status
  priority :: int
  dependencies :: "string list"
  n_spec :: json
  attempt_count :: int
  max_attempts :: int
  attempt_id :: "string option"
  lease_generation :: int
  node_revision :: int
  lease_owner :: "string option"
  lease_expires_at :: "int option"
  failure_class :: "string option"
  failure_json :: "json option"
  failure_sha256 :: "string option"
  result_json :: "json option"
  result_sha256 :: "string option"
  prep :: prepared
  integrated_at :: "int option"
  review :: reviewer
  n_created_at :: int
  n_updated_at :: int

record campaign_row =
  campaign_id :: string
  paper_id :: string
  c_status :: campaign_status
  revision :: int
  current_round :: int
  current_review_round :: int
  current_phase :: string
  max_rounds :: int
  accumulated_run_ms :: int
  agent_call_count :: int
  cpu_job_count :: int
  gpu_job_count :: int
  token_count :: int
  cost_usd :: rat
  priced_agent_call_count :: int
  cost_known :: bool
  parent_campaign_id :: "string option"
  supersedes_campaign_id :: "string option"
  recovery_of_campaign_id :: "string option"
  c_spec :: json
  stop_reason :: "string option"
  last_resumed_at :: "int option"
  c_created_at :: int
  c_updated_at :: int

record event_row =
  event_id :: string
  e_campaign_id :: string
  e_node_id :: "string option"
  e_kind :: string
  event_json :: json
  event_sha256 :: string
  e_created_at :: int

record release_row =
  rel_campaign_id :: string
  rel_paper_id :: string
  rel_plan_hash :: string
  rel_package_node_id :: string
  rel_attempt_id :: string
  rel_lease_generation :: int
  rel_result_hash :: string
  rel_integration_descriptor_hash :: string
  rel_integration_receipt_hash :: string
  rel_bundle_hash :: string
  rel_materialization_receipt_hash :: string
  rel_bundle :: json
  rel_receipt :: json
  rel_receipt_hash :: string
  rel_package_completed_at :: int
  rel_promoted_at :: int

record paper_row =
  slug :: string
  venue_target :: string
  canonical_dir :: string
  metadata_json :: json
  p_created_at :: int

section \<open>Empty prepared result and settlement of an interrupted integration\<close>

definition no_prepared :: prepared where
  "no_prepared = \<lparr>prepared_result = None, prepared_result_sha256 = None, prepared_attempt_id = None,
    prepared_at = None, prepared_requires_integration = False, prepared_integration_key = None,
    prepared_integration_status = Integ_none, prepared_integration_started_at = None,
    prepared_integration_receipt = None, prepared_integration_receipt_sha256 = None,
    prepared_integrated_at = None\<rparr>"

definition interrupt_integration :: "prepared \<Rightarrow> prepared" where
  "interrupt_integration p =
    (if prepared_integration_status p = Integ_integrating
     then p\<lparr>prepared_integration_status := Integ_pending, prepared_integration_started_at := None\<rparr>
     else p)"

definition keep_integrated :: "prepared \<Rightarrow> prepared" where
  "keep_integrated p = (if prepared_integration_status p = Integ_integrated then p else no_prepared)"

abbreviation integ :: "node_row \<Rightarrow> integration_status" where
  "integ n \<equiv> prepared_integration_status (prep n)"

abbreviation prepared_hash :: "node_row \<Rightarrow> string option" where
  "prepared_hash n \<equiv> prepared_result_sha256 (prep n)"

section \<open>Row mappers\<close>

definition without_key :: "string \<Rightarrow> json \<Rightarrow> json" where
  "without_key k v = (case v of JObj es \<Rightarrow> JObj (filter (\<lambda>e. fst e \<noteq> k) es) | _ \<Rightarrow> v)"

definition normalize_prepared :: "prepared \<Rightarrow> prepared" where
  "normalize_prepared p = p\<lparr>prepared_result_sha256 := or_null (prepared_result_sha256 p),
    prepared_attempt_id := or_null (prepared_attempt_id p),
    prepared_integration_key := or_null (prepared_integration_key p),
    prepared_integration_receipt_sha256 := or_null (prepared_integration_receipt_sha256 p)\<rparr>"

definition normalize_reviewer :: "reviewer \<Rightarrow> reviewer" where
  "normalize_reviewer r = \<lparr>role = or_null (role r), reviewer_id = or_null (reviewer_id r),
    child_session_id = or_null (child_session_id r), review_hash = or_null (review_hash r),
    prompt_hash = or_null (prompt_hash r), resolved_model = or_null (resolved_model r)\<rparr>"

definition normalize_node :: "node_row \<Rightarrow> node_row" where
  "normalize_node n = n\<lparr>priority := or_num (priority n) 100, max_attempts := or_num (max_attempts n) 3,
    attempt_id := or_null (attempt_id n), lease_owner := or_null (lease_owner n),
    result_sha256 := or_null (result_sha256 n), failure_class := or_null (failure_class n),
    failure_sha256 := or_null (failure_sha256 n), prep := normalize_prepared (prep n),
    review := normalize_reviewer (review n)\<rparr>"

definition descriptor_hash :: "prepared \<Rightarrow> json option" where
  "descriptor_hash p = Option.bind (prepared_result p)
    (jpath [''workspaceAttemptIntegration'', ''workspaceAttemptIntegrationDescriptorHash''])"

definition integration_receipt_valid :: "runtime \<Rightarrow> prepared \<Rightarrow> json \<Rightarrow> bool" where
  "integration_receipt_valid rt p receipt =
    (let claimed = jget ''workspaceAttemptIntegrationReceiptHash'' receipt in
     jtruthy claimed
     \<and> claimed = map_option JStr (prepared_integration_receipt_sha256 p)
     \<and> claimed = Some (JStr (hashRecord rt ''WorkspaceAttemptIntegrationReceipt''
          (without_key ''workspaceAttemptIntegrationReceiptHash'' receipt)))
     \<and> jget ''descriptorHash'' receipt = Some (JOptStr (prepared_integration_key p)))"

definition mapCampaignNodeRow :: "runtime \<Rightarrow> node_row \<Rightarrow> node_row result" where
  "mapCampaignNodeRow rt n =
    (let p = normalize_prepared (prep n) in
     rbind (check (case prepared_result p of None \<Rightarrow> True
           | Some r \<Rightarrow> Some (hashRecord rt ''PaperCampaignNodeResult'' r) = prepared_result_sha256 p)
         ''campaign_prepared_result_hash_invalid'') (\<lambda>_.
     rbind (check (prepared_requires_integration p \<longrightarrow>
           jtruthy (descriptor_hash p)
           \<and> descriptor_hash p = map_option JStr (prepared_integration_key p))
         ''campaign_prepared_integration_binding_invalid'') (\<lambda>_.
     rbind (check (case prepared_integration_receipt p of None \<Rightarrow> True
           | Some receipt \<Rightarrow> integration_receipt_valid rt p receipt)
         ''campaign_prepared_integration_receipt_invalid'') (\<lambda>_.
     Inr (normalize_node n)))))"

definition mapCampaignRow :: "campaign_row \<Rightarrow> campaign_row" where
  "mapCampaignRow c = c\<lparr>revision := or_num (revision c) 1, max_rounds := or_num (max_rounds c) 1,
    current_round := current_review_round c,
    current_phase := (if current_phase c = [] then campaign_status_text (c_status c) else current_phase c),
    cost_known := (agent_call_count c = priced_agent_call_count c),
    cost_usd := (if agent_call_count c = priced_agent_call_count c then cost_usd c else 0),
    parent_campaign_id := or_null (parent_campaign_id c),
    supersedes_campaign_id := or_null (supersedes_campaign_id c),
    recovery_of_campaign_id := or_null (recovery_of_campaign_id c),
    stop_reason := or_null (stop_reason c)\<rparr>"

definition mapCampaignEventRow :: "event_row \<Rightarrow> event_row" where
  "mapCampaignEventRow e = e\<lparr>e_node_id := or_null (e_node_id e)\<rparr>"

lemma normalize_node_fields [simp]:
  "node_id (normalize_node n) = node_id n" "n_campaign_id (normalize_node n) = n_campaign_id n"
  "n_kind (normalize_node n) = n_kind n" "n_status (normalize_node n) = n_status n"
  "round_index (normalize_node n) = round_index n" "attempt_count (normalize_node n) = attempt_count n"
  "lease_generation (normalize_node n) = lease_generation n"
  "node_revision (normalize_node n) = node_revision n"
  "lease_expires_at (normalize_node n) = lease_expires_at n"
  "dependencies (normalize_node n) = dependencies n" "n_spec (normalize_node n) = n_spec n"
  "lease_owner (normalize_node n) = or_null (lease_owner n)"
  "attempt_id (normalize_node n) = or_null (attempt_id n)"
  "n_created_at (normalize_node n) = n_created_at n"
  "failure_json (normalize_node n) = failure_json n"
  "failure_class (normalize_node n) = or_null (failure_class n)"
  "result_sha256 (normalize_node n) = or_null (result_sha256 n)"
  "integ (normalize_node n) = integ n"
  "prepared_hash (normalize_node n) = or_null (prepared_hash n)"
  "prepared_result (prep (normalize_node n)) = prepared_result (prep n)"
  by (simp_all add: normalize_node_def normalize_prepared_def)

lemma mapCampaignNodeRow_Inr:
  "mapCampaignNodeRow rt n = Inr m \<Longrightarrow> m = normalize_node n"
  by (auto simp: mapCampaignNodeRow_def Let_def rbind_Inr_iff split: option.splits)

lemma mapCampaignRow_fields [simp]:
  "campaign_id (mapCampaignRow c) = campaign_id c" "c_status (mapCampaignRow c) = c_status c"
  "last_resumed_at (mapCampaignRow c) = last_resumed_at c" "c_spec (mapCampaignRow c) = c_spec c"
  "paper_id (mapCampaignRow c) = paper_id c"
  "stop_reason (mapCampaignRow c) = or_null (stop_reason c)"
  "revision (mapCampaignRow c) = or_num (revision c) 1"
  by (simp_all add: mapCampaignRow_def)

end
