(* ===== verification/Campaign_State_Policy.thy ===== *)
theory Campaign_State_Policy
  imports Campaign_Model
begin

text \<open>
  The pure state policy of a campaign (\<open>paper-domain/automation/campaign-state-policy.mjs\<close>):
  the operational projection of the node set, the choice of ready nodes, the transition of a
  failed node, the cancellation cascade and the commands an operator may apply.
\<close>

section \<open>Definitions\<close>

definition node_done :: "node_status \<Rightarrow> bool" where
  "node_done s = (s = Completed \<or> s = Skipped)"

definition campaign_terminal :: "campaign_status \<Rightarrow> bool" where
  "campaign_terminal s = (s = C_completed \<or> s = C_failed \<or> s = C_cancelled)"

definition campaign_settled :: "campaign_status \<Rightarrow> bool" where
  "campaign_settled s = (campaign_terminal s \<or> s = C_stopped)"

definition convergence_terminal_kind :: "string \<Rightarrow> bool" where
  "convergence_terminal_kind k = (k \<in> {''final-compile'', ''research-verify'', ''package'', ''release-package''})"

definition nodeOrder :: "runtime \<Rightarrow> node_row \<Rightarrow> node_row \<Rightarrow> int" where
  "nodeOrder rt left right =
    (let p = or_num (priority left) 100 - or_num (priority right) 100;
         c = n_created_at left - n_created_at right
     in if p \<noteq> 0 then p else if c \<noteq> 0 then c else localeCompare rt (node_id left) (node_id right))"

record projection =
  pr_status :: campaign_status
  pr_phase :: string
  pr_review_round :: int
  pr_terminal :: bool

definition or_kind :: "string option \<Rightarrow> string \<Rightarrow> string" where
  "or_kind k d = (case k of Some s \<Rightarrow> if s = [] then d else s | None \<Rightarrow> d)"

definition counts_for_round :: "node_row \<Rightarrow> bool" where
  "counts_for_round n = (round_index n > 0 \<and> n_kind n \<notin> {''package'', ''release-package''}
    \<and> n_status n \<in> {Leased, Running, Completed, Failed_terminal})"

definition max_list :: "int list \<Rightarrow> int" where
  "max_list xs = (if xs = [] then 0 else foldr max (tl xs) (hd xs))"

definition deriveCampaignOperationalProjection :: "runtime \<Rightarrow> node_row list \<Rightarrow> projection" where
  "deriveCampaignOperationalProjection rt nodes =
    (let ordered = sort_by (nodeOrder rt) nodes;
         terminalFailure = list_ex (\<lambda>n. n_status n = Failed_terminal) ordered;
         completed = (ordered \<noteq> [] \<and> list_all (\<lambda>n. node_done (n_status n)) ordered);
         active = find (\<lambda>n. n_status n \<in> {Running, Leased}) ordered;
         pending = find (\<lambda>n. n_status n \<notin> {Completed, Skipped, Failed_terminal}) ordered;
         reviewRounds = map round_index (filter counts_for_round ordered)
     in \<lparr>pr_status = (if terminalFailure then C_failed else if completed then C_completed else C_running),
         pr_phase = (if terminalFailure then ''failed'' else if completed then ''completed''
           else or_kind (map_option n_kind active) (or_kind (map_option n_kind pending) ''running'')),
         pr_review_round = max_list reviewRounds,
         pr_terminal = (terminalFailure \<or> completed)\<rparr>)"

definition node_ready :: "node_row list \<Rightarrow> node_row \<Rightarrow> bool" where
  "node_ready nodes n = (n_status n = Queued
    \<and> list_all (\<lambda>d. case map_of (rev (map (\<lambda>m. (node_id m, m)) nodes)) d of
        None \<Rightarrow> False | Some m \<Rightarrow> node_done (n_status m)) (dependencies n))"

definition selectReadyCampaignNodes :: "runtime \<Rightarrow> node_row list \<Rightarrow> int \<Rightarrow> node_row list" where
  "selectReadyCampaignNodes rt nodes limit =
    take (nat (max 1 (or_num limit 1))) (sort_by (nodeOrder rt) (filter (node_ready nodes) nodes))"

record failure_transition =
  ft_status :: node_status
  ft_can_retry :: bool
  ft_event_kind :: string

definition decideNodeFailureTransition :: "node_row \<Rightarrow> bool \<Rightarrow> failure_transition" where
  "decideNodeFailureTransition n retryable =
    (let retryLimit = (if integ n = Integ_integrated then max_attempts n + 1 else max_attempts n);
         canRetry = (retryable \<and> attempt_count n < retryLimit)
     in \<lparr>ft_status = (if canRetry then Queued else Failed_terminal), ft_can_retry = canRetry,
         ft_event_kind = (if canRetry then ''campaign_node_retry_queued''
           else ''campaign_node_failed_terminal'')\<rparr>)"

fun cascade_pass :: "node_row list \<Rightarrow> string list \<Rightarrow> bool \<Rightarrow> string list \<times> bool" where
  "cascade_pass [] cancelled changed = (cancelled, changed)"
| "cascade_pass (n # nodes) cancelled changed =
    (if node_id n \<notin> set cancelled \<and> list_ex (\<lambda>d. d \<in> set cancelled) (dependencies n)
     then cascade_pass nodes (cancelled @ [node_id n]) True
     else cascade_pass nodes cancelled changed)"

lemma cascade_pass_grows:
  "cascade_pass nodes c ch = (c', ch') \<Longrightarrow>
    set c \<subseteq> set c' \<and> set c' \<subseteq> set c \<union> node_id ` set nodes
    \<and> (ch \<longrightarrow> ch') \<and> (ch' \<and> \<not> ch \<longrightarrow> set c \<subset> set c')"
proof (induction nodes c ch rule: cascade_pass.induct)
  case (1 cancelled changed)
  then show ?case by simp
next
  case (2 n nodes cancelled changed)
  show ?case
  proof (cases "node_id n \<notin> set cancelled \<and> list_ex (\<lambda>d. d \<in> set cancelled) (dependencies n)")
    case True
    with 2(1) [OF True] 2(3) show ?thesis by auto
  next
    case False
    with 2(2) [OF False] 2(3) show ?thesis by auto
  qed
qed

function cascade_loop :: "node_row list \<Rightarrow> string list \<Rightarrow> string list" where
  "cascade_loop nodes cancelled =
    (case cascade_pass nodes cancelled False of
       (next, changed) \<Rightarrow> if changed then cascade_loop nodes next else next)"
  by pat_completeness auto

termination
proof (relation "measure (\<lambda>(nodes, c). card (node_id ` set nodes - set c))", goal_cases)
  case 1
  then show ?case by simp
next
  case (2 nodes c c' ch)
  then have "set c \<subset> set c'" "set c' \<subseteq> set c \<union> node_id ` set nodes"
    using cascade_pass_grows [of nodes c False c' ch] by auto
  then have "node_id ` set nodes - set c' \<subset> node_id ` set nodes - set c" by auto
  then show ?case by (simp add: psubset_card_mono)
qed

definition cascadeCancelledNodeIds :: "node_row list \<Rightarrow> string \<Rightarrow> string list result" where
  "cascadeCancelledNodeIds nodes rootNodeId =
    (if rootNodeId = [] then Inl ''rootNodeId is required''
     else Inr (sortStrings (cascade_loop nodes [rootNodeId])))"

definition selectFutureRoundNodeIds :: "node_row list \<Rightarrow> int \<Rightarrow> string list" where
  "selectFutureRoundNodeIds nodes afterRound =
    sortStrings (filter (\<lambda>i. i \<noteq> []) (map node_id (filter (\<lambda>n. round_index n > afterRound
      \<and> \<not> convergence_terminal_kind (n_kind n) \<and> n_status n = Queued) nodes)))"

definition decideCampaignCommand :: "campaign_row \<Rightarrow> string \<Rightarrow> (bool \<times> campaign_status) result" where
  "decideCampaignCommand c command =
    (let s = c_status c in
     if command = ''pause'' then Inr (s = C_running, C_paused)
     else if command = ''resume'' then Inr (s = C_paused \<or> s = C_stopped, C_running)
     else if command = ''cancel'' then Inr (\<not> campaign_terminal s, C_cancelled)
     else if command = ''fail'' then Inr (\<not> campaign_terminal s, C_failed)
     else if command = ''stop'' then Inr (\<not> campaign_settled s, C_stopped)
     else Inl (''unknown campaign command: '' @ command))"

definition decideManualNodeRetry :: "node_row \<Rightarrow> bool \<times> node_status" where
  "decideManualNodeRetry n = (n_status n = Failed_terminal, Queued)"

section \<open>Order and ready nodes\<close>

lemma nodeOrder_comparator:
  assumes "js_comparator (localeCompare rt)"
  shows "js_comparator (nodeOrder rt)"
proof (unfold_locales, goal_cases)
  case (1 x y)
  then show ?case
    by (auto simp: nodeOrder_def Let_def split: if_splits intro: js_comparator.cmp_total [OF assms])
next
  case (2 x y z)
  then show ?case
    by (auto simp: nodeOrder_def Let_def split: if_splits intro: js_comparator.cmp_trans [OF assms])
qed

lemma selectReady_subset:
  "n \<in> set (selectReadyCampaignNodes rt nodes limit) \<Longrightarrow> n \<in> set nodes \<and> node_ready nodes n"
  by (auto simp: selectReadyCampaignNodes_def dest!: in_set_takeD)

lemma selectReady_progress:
  "n \<in> set nodes \<Longrightarrow> node_ready nodes n \<Longrightarrow> selectReadyCampaignNodes rt nodes limit \<noteq> []"
proof -
  assume "n \<in> set nodes" "node_ready nodes n"
  then have "filter (node_ready nodes) nodes \<noteq> []"
    by (auto simp: filter_empty_conv)
  then show ?thesis by (simp add: selectReadyCampaignNodes_def)
qed

lemma node_ready_dependency:
  assumes "distinct (map node_id nodes)" and "node_ready nodes n" and "d \<in> set (dependencies n)"
  shows "\<exists>m\<in>set nodes. node_id m = d \<and> node_done (n_status m)"
proof -
  from assms(2,3) obtain m where "map_of (rev (map (\<lambda>m. (node_id m, m)) nodes)) d = Some m"
    and "node_done (n_status m)"
    by (auto simp: node_ready_def list_all_iff split: option.splits)
  then show ?thesis by (auto dest!: map_of_SomeD)
qed

section \<open>The cancellation cascade\<close>

text \<open>A node id is cascaded when it is the root or a chain of dependencies leads to the root.\<close>

inductive cascaded :: "node_row list \<Rightarrow> string \<Rightarrow> string \<Rightarrow> bool" for nodes origin where
  base: "cascaded nodes origin origin"
| dep: "n \<in> set nodes \<Longrightarrow> d \<in> set (dependencies n) \<Longrightarrow> cascaded nodes origin d
    \<Longrightarrow> cascaded nodes origin (node_id n)"

lemma cascade_pass_sound:
  "cascade_pass ns c ch = (c', ch') \<Longrightarrow> set ns \<subseteq> set nodes \<Longrightarrow> \<forall>i\<in>set c. cascaded nodes origin i
    \<Longrightarrow> \<forall>i\<in>set c'. cascaded nodes origin i"
proof (induction ns c ch rule: cascade_pass.induct)
  case (1 cancelled changed)
  then show ?case by simp
next
  case (2 n ns cancelled changed)
  show ?case
  proof (cases "node_id n \<notin> set cancelled \<and> list_ex (\<lambda>d. d \<in> set cancelled) (dependencies n)")
    case True
    then have "cascaded nodes origin (node_id n)"
      using 2(4,5) by (auto simp: list_ex_iff intro: cascaded.dep)
    with True 2(1) [OF True] 2(3-5) show ?thesis by auto
  next
    case False
    with 2(2) [OF False] 2(3-5) show ?thesis by auto
  qed
qed

lemma cascade_pass_closed:
  "cascade_pass ns c ch = (c', False) \<Longrightarrow> c' = c \<and> \<not> ch
    \<and> (\<forall>n\<in>set ns. (\<exists>d\<in>set (dependencies n). d \<in> set c) \<longrightarrow> node_id n \<in> set c)"
proof (induction ns c ch rule: cascade_pass.induct)
  case (1 cancelled changed)
  then show ?case by simp
next
  case (2 n ns cancelled changed)
  show ?case
  proof (cases "node_id n \<notin> set cancelled \<and> list_ex (\<lambda>d. d \<in> set cancelled) (dependencies n)")
    case True
    with 2(1) [OF True] 2(3) show ?thesis by auto
  next
    case False
    with 2(3) have pass: "cascade_pass ns cancelled changed = (c', False)" by (simp split: if_splits)
    with 2(2) [OF False] False show ?thesis by (simp add: list_ex_iff) blast
  qed
qed

lemma cascade_pass_distinct:
  "cascade_pass ns c ch = (c', ch') \<Longrightarrow> distinct c \<Longrightarrow> distinct c'"
  by (induction ns c ch rule: cascade_pass.induct) (auto split: if_splits)

declare cascade_loop.simps [simp del]

lemma cascade_loop_correct:
  "origin \<in> set c \<Longrightarrow> distinct c \<Longrightarrow> \<forall>i\<in>set c. cascaded nodes origin i
    \<Longrightarrow> distinct (cascade_loop nodes c) \<and> (\<forall>i. i \<in> set (cascade_loop nodes c) \<longleftrightarrow> cascaded nodes origin i)"
proof (induction nodes c rule: cascade_loop.induct)
  case (1 nodes c)
  obtain c' ch where pass: "cascade_pass nodes c False = (c', ch)" by force
  have sound: "\<forall>i\<in>set c'. cascaded nodes origin i"
    using cascade_pass_sound [OF pass] 1(4) by simp
  have mem: "origin \<in> set c'" "distinct c'"
    using cascade_pass_grows [OF pass] cascade_pass_distinct [OF pass] 1(2,3) by auto
  show ?case
  proof (cases ch)
    case True
    with 1(1) [OF pass [symmetric] True] sound mem pass show ?thesis
      by (simp add: cascade_loop.simps [of nodes c])
  next
    case False
    with pass have closed: "\<forall>n\<in>set nodes. (\<exists>d\<in>set (dependencies n). d \<in> set c') \<longrightarrow> node_id n \<in> set c'"
      using cascade_pass_closed [of nodes c False c'] by auto
    have "cascaded nodes origin i \<Longrightarrow> i \<in> set c'" for i
      by (induction rule: cascaded.induct) (use mem closed in auto)
    with sound mem pass False show ?thesis
      by (auto simp: cascade_loop.simps [of nodes c])
  qed
qed

lemma codeUnitCompare_le: "codeUnitCompare a b \<le> 0 \<longleftrightarrow> a \<le> b"
  by (auto simp: codeUnitCompare_def)

lemma codeUnitCompare_sorted: "sorted_wrt (\<lambda>a b. codeUnitCompare a b \<le> 0) = sorted"
  by (simp add: codeUnitCompare_le)

lemma cascadeCancelled_iff:
  assumes "cascadeCancelledNodeIds nodes origin = Inr ids"
  shows "distinct ids \<and> sorted ids \<and> (\<forall>i. i \<in> set ids \<longleftrightarrow> cascaded nodes origin i)"
proof -
  have ids: "ids = sortStrings (cascade_loop nodes [origin])"
    using assms by (simp add: cascadeCancelledNodeIds_def split: if_splits)
  have "sorted_wrt (\<lambda>a b. codeUnitCompare a b \<le> 0) ids"
    unfolding ids sortStrings_def by (rule code_unit.sorted_sort_by)
  then have "sorted ids"
    unfolding codeUnitCompare_sorted .
  moreover have "distinct (cascade_loop nodes [origin])
      \<and> (\<forall>i. i \<in> set (cascade_loop nodes [origin]) \<longleftrightarrow> cascaded nodes origin i)"
    by (rule cascade_loop_correct) (simp_all add: cascaded.base)
  ultimately show ?thesis unfolding ids by simp
qed

end
