(* ===== verification/Campaign_Database.thy ===== *)
theory Campaign_Database
  imports Campaign_State_Policy
begin

text \<open>
  The SQLite database of the campaign store and the way operations reach it: tables as row
  lists, statements returning the number of changed rows, transactions that roll back on the
  first error, the mutation boundary with its two backends
  (\<open>sqlite-campaign-mutation-boundary.mjs\<close>), the queries
  (\<open>sqlite-campaign-query-operations.mjs\<close>), the usage arithmetic
  (\<open>native-store-campaign-parameter-projection.mjs\<close>, \<open>sqlite-campaign-usage-budget-sql.mjs\<close>)
  and the event rows (\<open>sqlite-campaign-store.mjs\<close>).
\<close>

section \<open>Tables, statements, transactions\<close>

record db =
  campaigns :: "campaign_row list"
  nodes :: "node_row list"
  events :: "event_row list"
  releases :: "release_row list"
  papers :: "paper_row list"

type_synonym stmt = "db \<Rightarrow> (nat \<times> db) result"
type_synonym tx = "db \<Rightarrow> db result"
type_synonym 'a op = "db \<Rightarrow> 'a result \<times> db"

definition find_node :: "db \<Rightarrow> string \<Rightarrow> node_row option" where
  "find_node db i = find (\<lambda>n. node_id n = i) (nodes db)"

definition find_campaign :: "db \<Rightarrow> string \<Rightarrow> campaign_row option" where
  "find_campaign db i = find (\<lambda>c. campaign_id c = i) (campaigns db)"

definition campaign_has_status :: "db \<Rightarrow> string \<Rightarrow> campaign_status \<Rightarrow> bool" where
  "campaign_has_status db i s = list_ex (\<lambda>c. campaign_id c = i \<and> c_status c = s) (campaigns db)"

definition update_nodes :: "(db \<Rightarrow> node_row \<Rightarrow> bool) \<Rightarrow> (node_row \<Rightarrow> node_row) \<Rightarrow> stmt" where
  "update_nodes P f db = Inr (length (filter (P db) (nodes db)),
    db\<lparr>nodes := map (\<lambda>n. if P db n then f n else n) (nodes db)\<rparr>)"

definition update_campaigns :: "(db \<Rightarrow> campaign_row \<Rightarrow> bool) \<Rightarrow> (db \<Rightarrow> campaign_row \<Rightarrow> campaign_row) \<Rightarrow> stmt" where
  "update_campaigns P f db = Inr (length (filter (P db) (campaigns db)),
    db\<lparr>campaigns := map (\<lambda>c. if P db c then f db c else c) (campaigns db)\<rparr>)"

definition insert_event :: "event_row \<Rightarrow> stmt" where
  "insert_event e db =
    (if list_ex (\<lambda>x. event_id x = event_id e) (events db)
     then Inl ''UNIQUE constraint failed: campaign_events.event_id''
     else if \<not> list_ex (\<lambda>c. campaign_id c = e_campaign_id e) (campaigns db)
     then Inl ''FOREIGN KEY constraint failed''
     else Inr (1, db\<lparr>events := events db @ [e]\<rparr>))"

definition insert_node :: "node_row \<Rightarrow> stmt" where
  "insert_node n db =
    (if list_ex (\<lambda>x. node_id x = node_id n) (nodes db)
     then Inl ''UNIQUE constraint failed: campaign_nodes.node_id''
     else if \<not> list_ex (\<lambda>c. campaign_id c = n_campaign_id n) (campaigns db)
     then Inl ''FOREIGN KEY constraint failed''
     else Inr (1, db\<lparr>nodes := nodes db @ [n]\<rparr>))"

definition insert_campaign :: "campaign_row \<Rightarrow> stmt" where
  "insert_campaign c db =
    (if list_ex (\<lambda>x. campaign_id x = campaign_id c) (campaigns db)
     then Inl ''UNIQUE constraint failed: paper_campaigns.campaign_id''
     else Inr (1, db\<lparr>campaigns := campaigns db @ [c]\<rparr>))"

definition insert_or_ignore_paper :: "paper_row \<Rightarrow> stmt" where
  "insert_or_ignore_paper p db =
    (if list_ex (\<lambda>x. slug x = slug p) (papers db) then Inr (0, db)
     else Inr (1, db\<lparr>papers := papers db @ [p]\<rparr>))"

text \<open>
  A native transaction asserts that a statement changed exactly one row
  (\<open>runRequiredNativeStoreCampaignStatement\<close>); a legacy transaction puts \<open>changes()\<close> into a
  table with the constraint \<open>CHECK(changed=1)\<close> (\<open>guarded\<close>).
\<close>

definition run :: "stmt \<Rightarrow> tx" where
  "run st db = rbind (st db) (\<lambda>(_, db'). Inr db')"

definition required :: "string \<Rightarrow> stmt \<Rightarrow> tx" where
  "required code st db = rbind (st db) (\<lambda>(changes, db'). if changes = 1 then Inr db' else Inl code)"

definition guarded :: "stmt \<Rightarrow> tx" where
  "guarded = required ''CHECK constraint failed: changed=1''"

fun tx_seq :: "tx list \<Rightarrow> tx" where
  "tx_seq [] db = Inr db"
| "tx_seq (t # ts) db = rbind (t db) (tx_seq ts)"

datatype backend = Legacy | Native

definition mutation :: "backend \<Rightarrow> string \<Rightarrow> tx \<Rightarrow> tx \<Rightarrow> unit op" where
  "mutation be fallback statements native db =
    (case (case be of Legacy \<Rightarrow> statements db | Native \<Rightarrow> native db) of
       Inl e \<Rightarrow> (Inl (fallback @ '':'' @ (if e = [] then ''transaction_failed'' else e)), db)
     | Inr db' \<Rightarrow> (Inr (), db'))"

text \<open>Sequencing of operations, and the \<open>catch\<close> clause that replaces an error.\<close>

definition op_bind :: "'a op \<Rightarrow> ('a \<Rightarrow> 'b op) \<Rightarrow> 'b op" where
  "op_bind m k db = (case m db of (Inl e, db') \<Rightarrow> (Inl e, db') | (Inr x, db') \<Rightarrow> k x db')"

definition op_catch :: "'a op \<Rightarrow> (string \<Rightarrow> 'a op) \<Rightarrow> 'a op" where
  "op_catch m h db = (case m db of (Inl e, db') \<Rightarrow> h e db' | (Inr x, db') \<Rightarrow> (Inr x, db'))"

definition op_return :: "'a \<Rightarrow> 'a op" where
  "op_return x db = (Inr x, db)"

definition op_throw :: "string \<Rightarrow> 'a op" where
  "op_throw e db = (Inl e, db)"

definition op_read :: "(db \<Rightarrow> 'a result) \<Rightarrow> 'a op" where
  "op_read q db = (q db, db)"

section \<open>Queries\<close>

definition sqlNodeOrder :: "node_row \<Rightarrow> node_row \<Rightarrow> int" where
  "sqlNodeOrder x y =
    (if priority x \<noteq> priority y then priority x - priority y
     else if n_created_at x \<noteq> n_created_at y then n_created_at x - n_created_at y
     else codeUnitCompare (node_id x) (node_id y))"

definition campaign_nodes :: "db \<Rightarrow> string \<Rightarrow> node_row list" where
  "campaign_nodes db cid = filter (\<lambda>n. n_campaign_id n = cid) (nodes db)"

definition getCampaign :: "string \<Rightarrow> db \<Rightarrow> campaign_row option" where
  "getCampaign cid db = map_option mapCampaignRow (find_campaign db cid)"

definition listNodes :: "runtime \<Rightarrow> string \<Rightarrow> db \<Rightarrow> node_row list result" where
  "listNodes rt cid db = rmap (mapCampaignNodeRow rt) (sort_by sqlNodeOrder (campaign_nodes db cid))"

definition readNode :: "runtime \<Rightarrow> string \<Rightarrow> db \<Rightarrow> node_row option result" where
  "readNode rt i db = (case find_node db i of None \<Rightarrow> Inr None
    | Some n \<Rightarrow> rbind (mapCampaignNodeRow rt n) (\<lambda>m. Inr (Some m)))"

definition eventOrder :: "event_row \<Rightarrow> event_row \<Rightarrow> int" where
  "eventOrder x y = (if e_created_at x \<noteq> e_created_at y then e_created_at x - e_created_at y
    else codeUnitCompare (event_id x) (event_id y))"

definition select_events :: "(event_row \<Rightarrow> bool) \<Rightarrow> db \<Rightarrow> event_row list" where
  "select_events P db = sort_by eventOrder (filter P (events db))"

text \<open>
  \<open>listEvents\<close>: ascending without paging, otherwise the newest first; \<open>limit\<close> is clamped to
  1..1000.
\<close>

definition listEvents :: "string \<Rightarrow> int option \<Rightarrow> int option \<Rightarrow> db \<Rightarrow> event_row list" where
  "listEvents cid limit before db =
    (let rows = select_events (\<lambda>e. e_campaign_id e = cid
          \<and> (case before of None \<Rightarrow> True | Some t \<Rightarrow> e_created_at e < t)) db;
         ordered = (if limit = None \<and> before = None then rows else rev rows)
     in map mapCampaignEventRow (case limit of None \<Rightarrow> ordered
          | Some l \<Rightarrow> take (nat (max 1 (min 1000 (or_num l 50)))) ordered))"

text \<open>\<open>effective_status\<close>: a campaign is superseded when another one of its paper replaces it.\<close>

definition superseded :: "db \<Rightarrow> campaign_row \<Rightarrow> bool" where
  "superseded db c = list_ex (\<lambda>n. paper_id n = paper_id c
    \<and> (recovery_of_campaign_id n = Some (campaign_id c) \<or> supersedes_campaign_id n = Some (campaign_id c)))
    (campaigns db)"

definition campaignListOrder :: "campaign_row \<Rightarrow> campaign_row \<Rightarrow> int" where
  "campaignListOrder x y = (if c_updated_at x \<noteq> c_updated_at y then c_updated_at y - c_updated_at x
    else codeUnitCompare (campaign_id x) (campaign_id y))"

definition listCampaigns :: "campaign_status option \<Rightarrow> int \<Rightarrow> int \<Rightarrow> bool \<Rightarrow> db \<Rightarrow> campaign_row list" where
  "listCampaigns status limit offset effectiveOnly db =
    (let rows = sort_by campaignListOrder (filter (\<lambda>c. status = None \<or> status = Some (c_status c)) (campaigns db));
         page = take (nat (max 1 (min 1000 (or_num limit 100))))
           (drop (nat (max 0 (min 10000000 offset))) rows)
     in map mapCampaignRow (if effectiveOnly then filter (\<lambda>c. \<not> superseded db c) page else page))"

section \<open>SQL values\<close>

text \<open>Comparison of a number with a JSON value extracted from a column; NULL is replaced by 9e15.\<close>

definition within_limit :: "rat \<Rightarrow> json option \<Rightarrow> bool" where
  "within_limit q limit = (case limit of None \<Rightarrow> q \<le> 9000000000000000
    | Some JNull \<Rightarrow> q \<le> 9000000000000000
    | Some (JBool b) \<Rightarrow> q \<le> (if b then 1 else 0)
    | Some (JNum m) \<Rightarrow> q \<le> m
    | _ \<Rightarrow> True)"

text \<open>\<open>CAST(x AS INTEGER)\<close> truncates a number and reads the longest integer prefix of a text.\<close>

definition int_prefix :: "string \<Rightarrow> int" where
  "int_prefix s =
    (let t = dropWhile (\<lambda>c. c \<in> {CHR '' '', CHR 0x09, CHR 0x0A, CHR 0x0C, CHR 0x0D}) s;
         neg = (t \<noteq> [] \<and> hd t = CHR ''-'');
         u = (if t \<noteq> [] \<and> (hd t = CHR ''-'' \<or> hd t = CHR ''+'') then tl t else t);
         v = int (decimal_value (takeWhile (\<lambda>c. CHR ''0'' \<le> c \<and> c \<le> CHR ''9'') u))
     in if neg then - v else v)"

definition cast_integer :: "json option \<Rightarrow> int option" where
  "cast_integer v = (case v of None \<Rightarrow> None | Some JNull \<Rightarrow> None
    | Some (JNum q) \<Rightarrow> Some (if q \<ge> 0 then \<lfloor>q\<rfloor> else \<lceil>q\<rceil>)
    | Some (JBool b) \<Rightarrow> Some (if b then 1 else 0)
    | Some (JStr s) \<Rightarrow> Some (int_prefix s)
    | Some _ \<Rightarrow> Some 0)"

lemma cast_integer_JInt [simp]: "cast_integer (Some (JInt i)) = Some i"
  by (simp add: cast_integer_def)

section \<open>Usage and budgets\<close>

record usage_delta =
  agentCalls :: "int option"
  cpuJobs :: "int option"
  gpuJobs :: "int option"
  tokens :: "int option"
  costUsd :: "rat option"
  pricedAgentCalls :: "int option"

record usage =
  u_agent :: int
  u_cpu :: int
  u_gpu :: int
  u_tokens :: int
  u_cost_provided :: bool
  u_cost :: rat
  u_priced :: int

definition count_or_zero :: "int option \<Rightarrow> int" where
  "count_or_zero x = (case x of None \<Rightarrow> 0 | Some i \<Rightarrow> max 0 i)"

definition nativeStoreCampaignUsageParameters :: "usage_delta \<Rightarrow> usage" where
  "nativeStoreCampaignUsageParameters d =
    \<lparr>u_agent = count_or_zero (agentCalls d), u_cpu = count_or_zero (cpuJobs d),
     u_gpu = count_or_zero (gpuJobs d), u_tokens = count_or_zero (tokens d),
     u_cost_provided = (costUsd d \<noteq> None),
     u_cost = (case costUsd d of None \<Rightarrow> 0 | Some q \<Rightarrow> max 0 q),
     u_priced = (if costUsd d = None then 0
       else case pricedAgentCalls d of None \<Rightarrow> 1 | Some i \<Rightarrow> max 0 i)\<rparr>"

definition usage_set :: "usage \<Rightarrow> campaign_row \<Rightarrow> campaign_row" where
  "usage_set u c = c\<lparr>agent_call_count := agent_call_count c + u_agent u,
    cpu_job_count := cpu_job_count c + u_cpu u, gpu_job_count := gpu_job_count c + u_gpu u,
    token_count := token_count c + u_tokens u, cost_usd := cost_usd c + u_cost u,
    priced_agent_call_count := priced_agent_call_count c + u_priced u,
    cost_known := (agent_call_count c + u_agent u = priced_agent_call_count c + u_priced u)\<rparr>"

definition budget_limit :: "campaign_row \<Rightarrow> string \<Rightarrow> json option" where
  "budget_limit c k = jpath [''budgets'', k] (c_spec c)"

definition usage_budget :: "usage \<Rightarrow> campaign_row \<Rightarrow> bool" where
  "usage_budget u c =
    (within_limit (of_int (agent_call_count c + u_agent u)) (budget_limit c ''maxAgentCalls'')
     \<and> within_limit (of_int (cpu_job_count c + u_cpu u)) (budget_limit c ''maxCpuJobs'')
     \<and> within_limit (of_int (gpu_job_count c + u_gpu u)) (budget_limit c ''maxGpuJobs'')
     \<and> within_limit (of_int (token_count c + u_tokens u)) (budget_limit c ''maxTokenCount'')
     \<and> (u_cost_provided u \<longrightarrow> within_limit (cost_usd c + u_cost u) (budget_limit c ''maxCostUsd'')))"

definition opt_field :: "string \<Rightarrow> ('a \<Rightarrow> json) \<Rightarrow> 'a option \<Rightarrow> (string \<times> json) list" where
  "opt_field k f x = (case x of None \<Rightarrow> [] | Some v \<Rightarrow> [(k, f v)])"

definition usage_delta_json :: "usage_delta \<Rightarrow> json" where
  "usage_delta_json d = JObj (opt_field ''agentCalls'' JInt (agentCalls d)
    @ opt_field ''cpuJobs'' JInt (cpuJobs d) @ opt_field ''gpuJobs'' JInt (gpuJobs d)
    @ opt_field ''tokens'' JInt (tokens d) @ opt_field ''costUsd'' JNum (costUsd d)
    @ opt_field ''pricedAgentCalls'' JInt (pricedAgentCalls d))"

section \<open>Events\<close>

text \<open>What an operation draws from the clock and the random source: \<open>clock.nowIso()\<close>,
  \<open>clock.now().getTime()\<close> and the successive values of \<open>crypto.randomUUID()\<close>.\<close>

record env =
  nowIso :: int
  nowMs :: int
  randomUUID :: "nat \<Rightarrow> string"

definition slice_last :: "nat \<Rightarrow> string \<Rightarrow> string" where
  "slice_last k s = drop (length s - k) s"

definition event_payload :: "runtime \<Rightarrow> string \<Rightarrow> string option \<Rightarrow> string \<Rightarrow> json \<Rightarrow> int \<Rightarrow> json" where
  "event_payload rt campaignId nodeId kind detail createdAt =
    JObj [(''version'', JInt 1), (''kind'', JStr kind), (''campaignId'', JStr campaignId),
      (''nodeId'', JOptStr nodeId), (''detail'', detail), (''createdAt'', JStr (toISOString rt createdAt))]"

definition buildEvent :: "runtime \<Rightarrow> env \<Rightarrow> nat \<Rightarrow> string \<Rightarrow> string option \<Rightarrow> string \<Rightarrow> json \<Rightarrow> int \<Rightarrow> event_row" where
  "buildEvent rt env k campaignId nodeId kind detail createdAt =
    (let payload = event_payload rt campaignId (or_null nodeId) kind detail createdAt;
         eventHash = hashRecord rt ''PaperCampaignEvent'' payload
     in \<lparr>event_id = campaignId @ '':'' @ toISOString rt createdAt @ '':'' @ slice_last 16 eventHash
           @ '':'' @ take 8 (randomUUID env k),
         e_campaign_id = campaignId, e_node_id = or_null nodeId, e_kind = kind,
         event_json = payload, event_sha256 = eventHash, e_created_at = createdAt\<rparr>)"

lemma buildEvent_fields [simp]:
  "e_campaign_id (buildEvent rt env k cid nid kind detail t) = cid"
  "e_node_id (buildEvent rt env k cid nid kind detail t) = or_null nid"
  "e_kind (buildEvent rt env k cid nid kind detail t) = kind"
  "e_created_at (buildEvent rt env k cid nid kind detail t) = t"
  "event_json (buildEvent rt env k cid nid kind detail t) = event_payload rt cid (or_null nid) kind detail t"
  "event_sha256 (buildEvent rt env k cid nid kind detail t) =
    hashRecord rt ''PaperCampaignEvent'' (event_payload rt cid (or_null nid) kind detail t)"
  by (simp_all add: buildEvent_def Let_def)

lemma event_payload_fields [simp]:
  "jget ''detail'' (event_payload rt cid nid kind detail t) = Some detail"
  "jget ''campaignId'' (event_payload rt cid nid kind detail t) = Some (JStr cid)"
  "jget ''nodeId'' (event_payload rt cid nid kind detail t) = Some (JOptStr nid)"
  "jget ''kind'' (event_payload rt cid nid kind detail t) = Some (JStr kind)"
  by (simp_all add: event_payload_def)

end
