(* ===== verification/Campaign_Statements.thy ===== *)
theory Campaign_Statements
  imports Campaign_Database
begin

text \<open>
  The SQL statements of \<open>native-store-campaign-mutation-plan.mjs\<close>, one definition each, in the
  order of the plan. The WHERE clause is a predicate on the row and the database, the SET
  clause a record update; a comparison with NULL is false. The legacy backend issues the same
  statements with the parameters written into the text, except where the operation theories
  say otherwise.
\<close>

section \<open>Shared conditions\<close>

record fence =
  f_node :: string
  f_worker :: string
  f_attempt :: string
  f_generation :: int

definition unexpired :: "int \<Rightarrow> node_row \<Rightarrow> bool" where
  "unexpired now n = (case lease_expires_at n of None \<Rightarrow> False | Some t \<Rightarrow> t \<ge> now)"

definition lapsed :: "int \<Rightarrow> node_row \<Rightarrow> bool" where
  "lapsed now n = (case lease_expires_at n of None \<Rightarrow> False | Some t \<Rightarrow> t < now)"

text \<open>The attempt fence: the live lease of exactly this worker, attempt and generation.\<close>

definition holds_lease :: "fence \<Rightarrow> node_status \<Rightarrow> int \<Rightarrow> db \<Rightarrow> node_row \<Rightarrow> bool" where
  "holds_lease f s now db n =
    (node_id n = f_node f \<and> n_status n = s \<and> lease_owner n = Some (f_worker f)
     \<and> attempt_id n = Some (f_attempt f) \<and> lease_generation n = f_generation f
     \<and> unexpired now n \<and> campaign_has_status db (n_campaign_id n) C_running)"

abbreviation live_attempt :: "fence \<Rightarrow> int \<Rightarrow> db \<Rightarrow> node_row \<Rightarrow> bool" where
  "live_attempt f \<equiv> holds_lease f Running"

definition integration_in_progress :: "db \<Rightarrow> string \<Rightarrow> bool" where
  "integration_in_progress db cid = list_ex (\<lambda>n. n_campaign_id n = cid \<and> n_status n \<noteq> Completed
    \<and> integ n \<in> {Integ_integrating, Integ_integrated}) (nodes db)"

definition sibling_policy :: "db \<Rightarrow> string \<Rightarrow> bool" where
  "sibling_policy db cid = list_ex (\<lambda>c. campaign_id c = cid
    \<and> jpath [''terminalSiblingSettlementPolicyVersion''] (c_spec c) = Some (JNum 1)) (campaigns db)"

definition elapsed :: "int \<Rightarrow> int option \<Rightarrow> int" where
  "elapsed now resumed = (case resumed of None \<Rightarrow> 0 | Some t \<Rightarrow> max 0 (now - t))"

text \<open>
  Adding the elapsed time of a campaign that was never resumed yields NULL, which the column
  \<open>accumulated_run_ms\<close> rejects.
\<close>

definition update_elapsed :: "(db \<Rightarrow> campaign_row \<Rightarrow> bool) \<Rightarrow> (campaign_row \<Rightarrow> campaign_row) \<Rightarrow> int \<Rightarrow> stmt" where
  "update_elapsed P f now db =
    (if list_ex (\<lambda>c. P db c \<and> last_resumed_at c = None) (campaigns db)
     then Inl ''NOT NULL constraint failed: paper_campaigns.accumulated_run_ms''
     else update_campaigns P (\<lambda>_ c. f (c\<lparr>accumulated_run_ms :=
       accumulated_run_ms c + elapsed now (last_resumed_at c)\<rparr>)) db)"

definition event_of_attempt :: "string \<Rightarrow> int \<Rightarrow> event_row \<Rightarrow> bool" where
  "event_of_attempt attemptId generation e =
    (jpath [''detail'', ''attemptId''] (event_json e) = Some (JStr attemptId)
     \<and> cast_integer (jpath [''detail'', ''leaseGeneration''] (event_json e)) = Some generation)"

definition event_on_node :: "string \<Rightarrow> string \<Rightarrow> event_row \<Rightarrow> bool" where
  "event_on_node campaignId nodeId e = (e_campaign_id e = campaignId \<and> e_node_id e = Some nodeId)"

definition action_started :: "db \<Rightarrow> node_row \<Rightarrow> string \<Rightarrow> int \<Rightarrow> bool" where
  "action_started db n attemptId generation = list_ex (\<lambda>e.
    event_on_node (n_campaign_id n) (node_id n) e \<and> e_kind e = ''campaign_node_external_action_started''
    \<and> event_of_attempt attemptId generation e) (events db)"

section \<open>The operational projection\<close>

definition sql_terminal_failure :: "db \<Rightarrow> string \<Rightarrow> bool" where
  "sql_terminal_failure db cid = list_ex (\<lambda>n. n_status n = Failed_terminal) (campaign_nodes db cid)"

definition sql_complete :: "db \<Rightarrow> string \<Rightarrow> bool" where
  "sql_complete db cid = (campaign_nodes db cid \<noteq> []
    \<and> \<not> list_ex (\<lambda>n. n_status n \<notin> {Completed, Skipped}) (campaign_nodes db cid))"

definition sql_first_kind :: "db \<Rightarrow> string \<Rightarrow> (node_status \<Rightarrow> bool) \<Rightarrow> string option" where
  "sql_first_kind db cid P = map_option n_kind
    (find (\<lambda>n. P (n_status n)) (sort_by sqlNodeOrder (campaign_nodes db cid)))"

definition sql_current_round :: "db \<Rightarrow> string \<Rightarrow> int" where
  "sql_current_round db cid = max_list (map round_index (filter counts_for_round (campaign_nodes db cid)))"

definition coalesce :: "'a option \<Rightarrow> 'a \<Rightarrow> 'a" where
  "coalesce x d = (case x of None \<Rightarrow> d | Some v \<Rightarrow> v)"

definition sql_phase :: "db \<Rightarrow> string \<Rightarrow> string" where
  "sql_phase db cid =
    (if sql_terminal_failure db cid then ''failed'' else if sql_complete db cid then ''completed''
     else coalesce (sql_first_kind db cid (\<lambda>s. s \<in> {Running, Leased}))
       (coalesce (sql_first_kind db cid (\<lambda>s. s \<notin> {Completed, Skipped, Failed_terminal})) ''running''))"

definition sql_status :: "db \<Rightarrow> string \<Rightarrow> campaign_status" where
  "sql_status db cid = (if sql_terminal_failure db cid then C_failed
    else if sql_complete db cid then C_completed else C_running)"

definition projectCampaign :: "string \<Rightarrow> int \<Rightarrow> stmt" where
  "projectCampaign cid now =
    update_campaigns (\<lambda>db c. campaign_id c = cid \<and> c_status c = C_running)
      (\<lambda>db c. let terminal = (sql_terminal_failure db cid \<or> sql_complete db cid) in
        c\<lparr>accumulated_run_ms := accumulated_run_ms c +
            (if terminal then elapsed now (last_resumed_at c) else 0),
          last_resumed_at := (if terminal then None else last_resumed_at c),
          c_status := sql_status db cid, current_round := sql_current_round db cid,
          current_review_round := sql_current_round db cid, current_phase := sql_phase db cid,
          revision := revision c + 1, c_updated_at := now\<rparr>)"

section \<open>Creation\<close>

definition S_createCampaignPaper :: "string \<Rightarrow> string \<Rightarrow> string \<Rightarrow> json \<Rightarrow> int \<Rightarrow> stmt" where
  "S_createCampaignPaper paperId venue dir metadata now =
    insert_or_ignore_paper \<lparr>slug = paperId, venue_target = venue, canonical_dir = dir,
      metadata_json = metadata, p_created_at = now\<rparr>"

definition S_createCampaign :: "string \<Rightarrow> string \<Rightarrow> campaign_status \<Rightarrow> int \<Rightarrow> json \<Rightarrow> int \<Rightarrow> int option
    \<Rightarrow> string option \<Rightarrow> string option \<Rightarrow> string option \<Rightarrow> string \<Rightarrow> stmt" where
  "S_createCampaign cid paperId status maxRounds spec now resumed parent supersedes recovery phase =
    insert_campaign \<lparr>campaign_id = cid, paper_id = paperId, c_status = status, revision = 1,
      current_round = 0, current_review_round = 0, current_phase = phase, max_rounds = maxRounds,
      accumulated_run_ms = 0, agent_call_count = 0, cpu_job_count = 0, gpu_job_count = 0,
      token_count = 0, cost_usd = 0, priced_agent_call_count = 0, cost_known = False,
      parent_campaign_id = parent, supersedes_campaign_id = supersedes,
      recovery_of_campaign_id = recovery, c_spec = spec, stop_reason = None,
      last_resumed_at = resumed, c_created_at = now, c_updated_at = now\<rparr>"

definition fresh_node :: "string \<Rightarrow> string \<Rightarrow> string \<Rightarrow> int \<Rightarrow> int \<Rightarrow> string list \<Rightarrow> json \<Rightarrow> int \<Rightarrow> int
    \<Rightarrow> string option \<Rightarrow> node_row" where
  "fresh_node nodeId cid kind roundIndex prio deps spec maxAttempts now r =
    \<lparr>node_id = nodeId, n_campaign_id = cid, n_kind = kind, round_index = roundIndex,
     n_status = Queued, priority = prio, dependencies = deps, n_spec = spec, attempt_count = 0,
     max_attempts = maxAttempts, attempt_id = None, lease_generation = 0, node_revision = 0,
     lease_owner = None, lease_expires_at = None, failure_class = None, failure_json = None,
     failure_sha256 = None, result_json = None, result_sha256 = None, prep = no_prepared,
     integrated_at = None,
     review = \<lparr>role = r, reviewer_id = None, child_session_id = None, review_hash = None,
       prompt_hash = None, resolved_model = None\<rparr>,
     n_created_at = now, n_updated_at = now\<rparr>"

definition S_createCampaignNode :: "string \<Rightarrow> string \<Rightarrow> string \<Rightarrow> int \<Rightarrow> int \<Rightarrow> string list \<Rightarrow> json \<Rightarrow> int
    \<Rightarrow> int \<Rightarrow> string option \<Rightarrow> stmt" where
  "S_createCampaignNode nodeId cid kind roundIndex prio deps spec maxAttempts now r =
    insert_node (fresh_node nodeId cid kind roundIndex prio deps spec maxAttempts now r)"

definition S_createCampaignStart :: "int \<Rightarrow> string \<Rightarrow> stmt" where
  "S_createCampaignStart now cid =
    update_campaigns (\<lambda>_ c. campaign_id c = cid \<and> c_status c = C_queued)
      (\<lambda>_ c. c\<lparr>c_status := C_running, current_phase := ''dispatching'', c_updated_at := now\<rparr>)"

section \<open>Attempt fences and infrastructure reservations\<close>

definition S_assertIntegratedAttempt :: "fence \<Rightarrow> int \<Rightarrow> string \<Rightarrow> string \<Rightarrow> stmt" where
  "S_assertIntegratedAttempt f now key receiptHash =
    update_nodes (\<lambda>db n. live_attempt f now db n \<and> prepared_requires_integration (prep n)
      \<and> integ n = Integ_integrated \<and> prepared_integration_key (prep n) = Some key
      \<and> prepared_integration_receipt_sha256 (prep n) = Some receiptHash) (\<lambda>n. n)"

definition S_assertIntegratingAttempt :: "fence \<Rightarrow> int \<Rightarrow> string \<Rightarrow> stmt" where
  "S_assertIntegratingAttempt f now key =
    update_nodes (\<lambda>db n. live_attempt f now db n \<and> prepared_requires_integration (prep n)
      \<and> integ n \<in> {Integ_integrating, Integ_integrated} \<and> prepared_integration_key (prep n) = Some key
      \<and> prepared_hash n \<noteq> None) (\<lambda>n. n)"

definition S_infrastructureReservationEvents :: "string list \<Rightarrow> string \<Rightarrow> string \<Rightarrow> string \<Rightarrow> int \<Rightarrow> db \<Rightarrow> event_row list" where
  "S_infrastructureReservationEvents kinds cid nodeId attemptId generation =
    select_events (\<lambda>e. event_on_node cid nodeId e \<and> e_kind e \<in> set kinds
      \<and> event_of_attempt attemptId generation e)"

definition started_by :: "db \<Rightarrow> node_row \<Rightarrow> fence \<Rightarrow> bool" where
  "started_by db n f = list_ex (\<lambda>s. event_on_node (n_campaign_id n) (node_id n) s
    \<and> e_kind s = ''campaign_node_started''
    \<and> jpath [''detail'', ''workerId''] (event_json s) = Some (JStr (f_worker f))
    \<and> event_of_attempt (f_attempt f) (f_generation f) s
    \<and> cast_integer (jpath [''detail'', ''attempt''] (event_json s)) = Some (attempt_count n)) (events db)"

definition S_cancelInfrastructureNode :: "fence \<Rightarrow> int \<Rightarrow> int \<Rightarrow> stmt" where
  "S_cancelInfrastructureNode f now attemptCount =
    update_nodes (\<lambda>db n. node_id n = f_node f \<and> lease_generation n = f_generation f
        \<and> attempt_count n = attemptCount \<and> attempt_count n > 0 \<and> prepared_hash n = None
        \<and> \<not> action_started db n (f_attempt f) (f_generation f)
        \<and> ((n_status n = Running \<and> lease_owner n = Some (f_worker f) \<and> attempt_id n = Some (f_attempt f)
             \<and> unexpired now n \<and> campaign_has_status db (n_campaign_id n) C_running)
           \<or> (n_status n = Queued \<and> lease_owner n = None \<and> lease_expires_at n = None
             \<and> attempt_id n = None
             \<and> (campaign_has_status db (n_campaign_id n) C_paused \<or> campaign_has_status db (n_campaign_id n) C_running)
             \<and> started_by db n f)))
      (\<lambda>n. n\<lparr>n_status := Queued, attempt_count := attempt_count n - 1, lease_owner := None,
        lease_expires_at := None, attempt_id := None, failure_class := None, failure_json := None,
        failure_sha256 := None, node_revision := node_revision n + 1, n_updated_at := now\<rparr>)"

record refund =
  rf_agent :: int
  rf_cpu :: int
  rf_gpu :: int

definition refund_set :: "refund \<Rightarrow> int \<Rightarrow> campaign_row \<Rightarrow> campaign_row" where
  "refund_set r now c = c\<lparr>agent_call_count := agent_call_count c - rf_agent r,
    cpu_job_count := cpu_job_count c - rf_cpu r, gpu_job_count := gpu_job_count c - rf_gpu r,
    revision := revision c + 1, c_updated_at := now\<rparr>"

definition refund_covered :: "refund \<Rightarrow> campaign_row \<Rightarrow> bool" where
  "refund_covered r c = (agent_call_count c \<ge> rf_agent r \<and> cpu_job_count c \<ge> rf_cpu r
    \<and> gpu_job_count c \<ge> rf_gpu r)"

definition S_cancelInfrastructureUsage :: "refund \<Rightarrow> int \<Rightarrow> string \<Rightarrow> stmt" where
  "S_cancelInfrastructureUsage r now cid =
    update_campaigns (\<lambda>_ c. campaign_id c = cid \<and> c_status c \<in> {C_running, C_paused} \<and> refund_covered r c)
      (\<lambda>_. refund_set r now)"

definition S_reserveInfrastructureNode :: "fence \<Rightarrow> int \<Rightarrow> stmt" where
  "S_reserveInfrastructureNode f now =
    update_nodes (\<lambda>db n. live_attempt f now db n \<and> prepared_hash n = None
      \<and> \<not> (case attempt_id n of None \<Rightarrow> False | Some a \<Rightarrow> action_started db n a (lease_generation n))) (\<lambda>n. n)"

definition S_reserveInfrastructureUsage :: "usage \<Rightarrow> int \<Rightarrow> string \<Rightarrow> stmt" where
  "S_reserveInfrastructureUsage u now cid =
    update_campaigns (\<lambda>_ c. campaign_id c = cid \<and> c_status c = C_running \<and> usage_budget u c)
      (\<lambda>_ c. (usage_set u c)\<lparr>revision := revision c + 1, c_updated_at := now\<rparr>)"

definition S_externalActionEvents :: "string \<Rightarrow> string \<Rightarrow> string \<Rightarrow> db \<Rightarrow> event_row list" where
  "S_externalActionEvents cid nodeId actionId =
    select_events (\<lambda>e. event_on_node cid nodeId e
      \<and> e_kind e \<in> {''campaign_node_external_action_started'', ''campaign_node_external_action_completed''}
      \<and> jpath [''detail'', ''externalActionId''] (event_json e) = Some (JStr actionId))"

text \<open>The node statements of a started and of a completed external action are the same text.\<close>

definition S_markInfrastructureNode :: "fence \<Rightarrow> int \<Rightarrow> int \<Rightarrow> stmt" where
  "S_markInfrastructureNode f nodeRevision now =
    update_nodes (\<lambda>db n. live_attempt f now db n \<and> node_revision n = nodeRevision)
      (\<lambda>n. n\<lparr>node_revision := node_revision n + 1\<rparr>)"

definition S_updateCampaignUsage :: "usage \<Rightarrow> int \<Rightarrow> string \<Rightarrow> stmt" where
  "S_updateCampaignUsage u now cid =
    update_campaigns (\<lambda>_ c. campaign_id c = cid \<and> c_status c = C_running)
      (\<lambda>_ c. (usage_set u c)\<lparr>c_updated_at := now\<rparr>)"

section \<open>Lifecycle\<close>

definition release_lease :: "node_row \<Rightarrow> node_row" where
  "release_lease n = n\<lparr>lease_owner := None, lease_expires_at := None, attempt_id := None,
    node_revision := node_revision n + 1\<rparr>"

definition S_skipFutureNode :: "string \<Rightarrow> int \<Rightarrow> string \<Rightarrow> string \<Rightarrow> stmt" where
  "S_skipFutureNode reason now nodeId cid =
    update_nodes (\<lambda>_ n. node_id n = nodeId \<and> n_campaign_id n = cid \<and> n_status n = Queued)
      (\<lambda>n. (release_lease n)\<lparr>n_status := Skipped, failure_class := Some reason, n_updated_at := now\<rparr>)"

definition S_pauseCampaign :: "string \<Rightarrow> int \<Rightarrow> string \<Rightarrow> int \<Rightarrow> stmt" where
  "S_pauseCampaign reason now cid seen =
    update_elapsed (\<lambda>db c. campaign_id c = cid \<and> c_status c = C_running \<and> revision c = seen
        \<and> \<not> integration_in_progress db cid)
      (\<lambda>c. c\<lparr>c_status := C_paused, stop_reason := Some reason, last_resumed_at := None,
        revision := revision c + 1, c_updated_at := now\<rparr>) now"

definition S_pauseCampaignNodes :: "int \<Rightarrow> string \<Rightarrow> stmt" where
  "S_pauseCampaignNodes now cid =
    update_nodes (\<lambda>_ n. n_campaign_id n = cid \<and> n_status n \<in> {Leased, Running})
      (\<lambda>n. (release_lease n)\<lparr>n_status := Queued, n_updated_at := now\<rparr>)"

definition S_resumeCampaign :: "int \<Rightarrow> json \<Rightarrow> string \<Rightarrow> campaign_status \<Rightarrow> int \<Rightarrow> stmt" where
  "S_resumeCampaign now spec cid status seen =
    update_campaigns (\<lambda>_ c. campaign_id c = cid \<and> c_status c = status \<and> revision c = seen)
      (\<lambda>_ c. c\<lparr>c_status := C_running,
        current_phase := (if current_phase c = ''admitted-not-authorized'' then ''dispatching'' else current_phase c),
        stop_reason := None, last_resumed_at := Some now, c_spec := spec,
        revision := revision c + 1, c_updated_at := now\<rparr>)"

definition S_resumeNodes :: "int \<Rightarrow> string \<Rightarrow> string option \<Rightarrow> stmt" where
  "S_resumeNodes now cid stopReason =
    update_nodes (\<lambda>_ n. n_campaign_id n = cid \<and> n_status n = Skipped
        \<and> stopReason \<noteq> None \<and> failure_class n = stopReason)
      (\<lambda>n. (release_lease n)\<lparr>n_status := Queued, failure_class := None, failure_json := None,
        failure_sha256 := None, n_updated_at := now\<rparr>)"

definition S_extendCampaign :: "int \<Rightarrow> json \<Rightarrow> int \<Rightarrow> string \<Rightarrow> campaign_status \<Rightarrow> int \<Rightarrow> stmt" where
  "S_extendCampaign maxRounds spec now cid status seen =
    update_campaigns (\<lambda>_ c. campaign_id c = cid \<and> c_status c = status \<and> revision c = seen)
      (\<lambda>_ c. c\<lparr>c_status := C_running, stop_reason := None, max_rounds := maxRounds, c_spec := spec,
        last_resumed_at := Some now, revision := revision c + 1, c_updated_at := now\<rparr>)"

definition S_extendCampaignNode :: "string \<Rightarrow> string \<Rightarrow> string \<Rightarrow> int \<Rightarrow> int \<Rightarrow> string list \<Rightarrow> json \<Rightarrow> int
    \<Rightarrow> int \<Rightarrow> stmt" where
  "S_extendCampaignNode nodeId cid kind roundIndex prio deps spec maxAttempts now =
    insert_node (fresh_node nodeId cid kind roundIndex prio deps spec maxAttempts now None)"

definition S_extendSupersedePackage :: "int \<Rightarrow> string \<Rightarrow> stmt" where
  "S_extendSupersedePackage now cid =
    update_nodes (\<lambda>_ n. n_campaign_id n = cid \<and> n_kind n = ''package'' \<and> n_status n = Skipped
        \<and> failure_class n = Some ''referee_convergence_not_reached_within_budget'')
      (\<lambda>n. n\<lparr>failure_class := Some ''campaign_round_extension_superseded'', n_updated_at := now\<rparr>)"

text \<open>\<open>cancelCampaign\<close>, \<open>failCampaign\<close> and \<open>stopCampaign\<close> differ in the status they write.\<close>

definition S_settleCampaign :: "campaign_status \<Rightarrow> bool \<Rightarrow> int \<Rightarrow> string \<Rightarrow> string \<Rightarrow> campaign_status \<Rightarrow> int \<Rightarrow> stmt" where
  "S_settleCampaign settled resumed now reason cid status seen =
    (let P = (\<lambda>db c. campaign_id c = cid \<and> c_status c = status \<and> revision c = seen
               \<and> \<not> integration_in_progress db cid);
         f = (\<lambda>c. c\<lparr>c_status := settled, stop_reason := Some reason, last_resumed_at := None,
               revision := revision c + 1, c_updated_at := now\<rparr>)
     in if resumed then update_elapsed P f now else update_campaigns P (\<lambda>_. f))"

definition S_settleCampaignNodes :: "node_status \<Rightarrow> string \<Rightarrow> int \<Rightarrow> string \<Rightarrow> stmt" where
  "S_settleCampaignNodes status reason now cid =
    update_nodes (\<lambda>_ n. n_campaign_id n = cid \<and> n_status n \<in> {Queued, Leased, Running})
      (\<lambda>n. (release_lease n)\<lparr>n_status := status, failure_class := Some reason, n_updated_at := now\<rparr>)"

definition S_cancelNodeGuard :: "string \<Rightarrow> stmt" where
  "S_cancelNodeGuard cid = update_campaigns (\<lambda>_ c. campaign_id c = cid) (\<lambda>_ c. c)"

definition S_cancelNodeInspect :: "string \<Rightarrow> string \<Rightarrow> db \<Rightarrow> node_row option" where
  "S_cancelNodeInspect nodeId cid db = find (\<lambda>n. node_id n = nodeId \<and> n_campaign_id n = cid) (nodes db)"

definition S_cancelNodeStopCampaign :: "int \<Rightarrow> string \<Rightarrow> int \<Rightarrow> stmt" where
  "S_cancelNodeStopCampaign now cid seen =
    update_campaigns (\<lambda>_ c. campaign_id c = cid \<and> c_status c = C_running \<and> revision c = seen)
      (\<lambda>_ c. c\<lparr>c_status := C_stopped, stop_reason := Some ''operator_node_cancelled_required_path'',
        accumulated_run_ms := accumulated_run_ms c + elapsed now (last_resumed_at c),
        last_resumed_at := None, revision := revision c + 1, c_updated_at := now\<rparr>)"

definition cancel_one :: "string \<Rightarrow> json \<Rightarrow> string \<Rightarrow> int \<Rightarrow> node_row \<Rightarrow> node_row" where
  "cancel_one reason detail hash now n = (release_lease n)\<lparr>n_status := Skipped,
    failure_class := Some reason, failure_json := Some detail, failure_sha256 := Some hash,
    n_updated_at := now\<rparr>"

definition S_cancelOneNode :: "string \<Rightarrow> json \<Rightarrow> string \<Rightarrow> int \<Rightarrow> string \<Rightarrow> stmt" where
  "S_cancelOneNode reason detail hash now nodeId =
    update_nodes (\<lambda>_ n. node_id n = nodeId \<and> n_status n \<in> {Queued, Leased, Running})
      (cancel_one reason detail hash now)"

definition S_retryCampaign :: "string \<Rightarrow> int \<Rightarrow> int \<Rightarrow> string \<Rightarrow> campaign_status \<Rightarrow> int \<Rightarrow> stmt" where
  "S_retryCampaign phase roundIndex now cid status seen =
    update_campaigns (\<lambda>_ c. campaign_id c = cid \<and> c_status c = status \<and> revision c = seen)
      (\<lambda>_ c. c\<lparr>c_status := C_running, current_phase := phase,
        current_review_round := max (current_review_round c) roundIndex, stop_reason := None,
        last_resumed_at := Some (coalesce (last_resumed_at c) now),
        revision := revision c + 1, c_updated_at := now\<rparr>)"

definition reopen_node :: "int \<Rightarrow> node_row \<Rightarrow> node_row" where
  "reopen_node now n = (release_lease n)\<lparr>n_status := Queued, attempt_count := 0, failure_class := None,
    failure_json := None, failure_sha256 := None, prep := keep_integrated (prep n), n_updated_at := now\<rparr>"

definition S_retryNode :: "int \<Rightarrow> string \<Rightarrow> int \<Rightarrow> stmt" where
  "S_retryNode now nodeId nodeRevision =
    update_nodes (\<lambda>_ n. node_id n = nodeId \<and> n_status n = Failed_terminal \<and> node_revision n = nodeRevision)
      (reopen_node now)"

definition S_retrySiblingNode :: "int \<Rightarrow> string \<Rightarrow> string \<Rightarrow> string \<Rightarrow> integration_status \<Rightarrow> int \<Rightarrow> stmt" where
  "S_retrySiblingNode now siblingId cid terminalNodeId status nodeRevision =
    update_nodes (\<lambda>_ n. node_id n = siblingId \<and> n_campaign_id n = cid \<and> n_status n = Skipped
        \<and> failure_class n = Some ''campaign_terminal_sibling_cancelled''
        \<and> Option.bind (failure_json n) (jpath [''terminalNodeId'']) = Some (JStr terminalNodeId)
        \<and> integ n = status \<and> node_revision n = nodeRevision)
      (reopen_node now)"

definition S_recordUsage :: "usage \<Rightarrow> int \<Rightarrow> string \<Rightarrow> bool \<Rightarrow> stmt" where
  "S_recordUsage u now cid enforceBudget =
    update_campaigns (\<lambda>_ c. campaign_id c = cid \<and> c_status c = C_running \<and> (\<not> enforceBudget \<or> usage_budget u c))
      (\<lambda>_ c. (usage_set u c)\<lparr>c_updated_at := now\<rparr>)"

section \<open>Leases\<close>

definition sql_eq :: "'a option \<Rightarrow> 'a option \<Rightarrow> bool" where
  "sql_eq x y = (x \<noteq> None \<and> x = y)"

definition null_or_eq :: "'a option \<Rightarrow> 'a option \<Rightarrow> bool" where
  "null_or_eq p column = ((p = None \<and> column = None) \<or> sql_eq p column)"

definition S_recoverLease :: "int \<Rightarrow> int \<Rightarrow> string \<Rightarrow> string \<Rightarrow> node_status \<Rightarrow> string option \<Rightarrow> string option
    \<Rightarrow> int \<Rightarrow> bool \<Rightarrow> stmt" where
  "S_recoverLease decrement now nodeId cid status owner attemptId generation expired =
    update_nodes (\<lambda>db n. node_id n = nodeId \<and> n_campaign_id n = cid \<and> n_status n = status
        \<and> sql_eq owner (lease_owner n) \<and> null_or_eq attemptId (attempt_id n)
        \<and> lease_generation n = generation \<and> attempt_count n \<ge> decrement
        \<and> (expired \<longrightarrow> lapsed now n) \<and> campaign_has_status db cid C_running)
      (\<lambda>n. (release_lease n)\<lparr>n_status := Queued, attempt_count := attempt_count n - decrement,
        failure_class := Some ''lease_expired_recovered'',
        prep := interrupt_integration (prep n), n_updated_at := now\<rparr>)"

definition S_recoverLeaseUncertain :: "json \<Rightarrow> string \<Rightarrow> int \<Rightarrow> string \<Rightarrow> string \<Rightarrow> string option \<Rightarrow> string option
    \<Rightarrow> int \<Rightarrow> bool \<Rightarrow> stmt" where
  "S_recoverLeaseUncertain detail hash now nodeId cid owner attemptId generation expired =
    update_nodes (\<lambda>db n. node_id n = nodeId \<and> n_campaign_id n = cid \<and> n_status n = Running
        \<and> sql_eq owner (lease_owner n) \<and> sql_eq attemptId (attempt_id n)
        \<and> lease_generation n = generation \<and> prepared_hash n = None
        \<and> (expired \<longrightarrow> lapsed now n) \<and> campaign_has_status db cid C_running)
      (\<lambda>n. n\<lparr>n_status := External_outcome_uncertain, lease_owner := None, lease_expires_at := None,
        failure_class := Some ''external_outcome_uncertain'', failure_json := Some detail,
        failure_sha256 := Some hash, node_revision := node_revision n + 1, n_updated_at := now\<rparr>)"

definition S_recoverLeaseUsage :: "refund \<Rightarrow> int \<Rightarrow> string \<Rightarrow> stmt" where
  "S_recoverLeaseUsage r now cid =
    update_campaigns (\<lambda>_ c. campaign_id c = cid \<and> c_status c = C_running \<and> refund_covered r c)
      (\<lambda>_. refund_set r now)"

definition S_renewLease :: "int \<Rightarrow> int \<Rightarrow> fence \<Rightarrow> stmt" where
  "S_renewLease expires now f =
    update_nodes (live_attempt f now) (\<lambda>n. n\<lparr>lease_expires_at := Some expires, n_updated_at := now\<rparr>)"

definition dependencies_done :: "db \<Rightarrow> node_row \<Rightarrow> bool" where
  "dependencies_done db n = list_all (\<lambda>d. case find_node db d of None \<Rightarrow> False
    | Some m \<Rightarrow> node_done (n_status m)) (dependencies n)"

definition S_claimNode :: "string \<Rightarrow> int \<Rightarrow> string \<Rightarrow> int \<Rightarrow> string \<Rightarrow> string \<Rightarrow> int \<Rightarrow> stmt" where
  "S_claimNode workerId expires attemptId now nodeId cid nodeRevision =
    update_nodes (\<lambda>db n. node_id n = nodeId \<and> n_campaign_id n = cid \<and> n_status n = Queued
        \<and> node_revision n = nodeRevision \<and> campaign_has_status db cid C_running \<and> dependencies_done db n)
      (\<lambda>n. n\<lparr>n_status := Leased, lease_owner := Some workerId, lease_expires_at := Some expires,
        attempt_id := Some attemptId, lease_generation := lease_generation n + 1,
        node_revision := node_revision n + 1, n_updated_at := now\<rparr>)"

definition S_startNode :: "int \<Rightarrow> fence \<Rightarrow> stmt" where
  "S_startNode now f =
    update_nodes (holds_lease f Leased now)
      (\<lambda>n. n\<lparr>n_status := Running, attempt_count := attempt_count n + 1,
        node_revision := node_revision n + 1, n_updated_at := now\<rparr>)"

definition S_startNodeCampaign :: "string \<Rightarrow> int \<Rightarrow> usage \<Rightarrow> int \<Rightarrow> string \<Rightarrow> stmt" where
  "S_startNodeCampaign phase roundIndex u now cid =
    update_campaigns (\<lambda>_ c. campaign_id c = cid \<and> c_status c = C_running \<and> usage_budget u c)
      (\<lambda>_ c. (usage_set u c)\<lparr>current_phase := phase,
        current_review_round := max (current_review_round c) roundIndex,
        revision := revision c + 1, c_updated_at := now\<rparr>)"

definition fail_update :: "node_status \<Rightarrow> string \<Rightarrow> json \<Rightarrow> string \<Rightarrow> int \<Rightarrow> node_row \<Rightarrow> node_row" where
  "fail_update status class detail hash now n = n\<lparr>n_status := status, failure_class := Some class,
    failure_json := Some detail, failure_sha256 := Some hash, lease_owner := None,
    lease_expires_at := None, node_revision := node_revision n + 1, n_updated_at := now\<rparr>"

definition S_failNodeAbandonPrepared :: "node_status \<Rightarrow> string \<Rightarrow> json \<Rightarrow> string \<Rightarrow> int \<Rightarrow> fence \<Rightarrow> stmt" where
  "S_failNodeAbandonPrepared status class detail hash now f =
    update_nodes (live_attempt f now)
      (\<lambda>n. (fail_update status class detail hash now n)\<lparr>prep := no_prepared\<rparr>)"

definition S_failNodePreservePrepared :: "node_status \<Rightarrow> string \<Rightarrow> json \<Rightarrow> string \<Rightarrow> int \<Rightarrow> fence \<Rightarrow> stmt" where
  "S_failNodePreservePrepared status class detail hash now f =
    update_nodes (live_attempt f now)
      (\<lambda>n. (fail_update status class detail hash now n)\<lparr>prep := interrupt_integration (prep n)\<rparr>)"

definition S_inspectTerminalSiblingNodes :: "bool \<Rightarrow> string \<Rightarrow> string \<Rightarrow> db \<Rightarrow> node_row list" where
  "S_inspectTerminalSiblingNodes runningOnly cid nodeId db =
    sort_by (\<lambda>x y. codeUnitCompare (node_id x) (node_id y))
      (filter (\<lambda>n. n_campaign_id n = cid \<and> node_id n \<noteq> nodeId
        \<and> (n_status n \<in> {Leased, Running} \<or> (n_status n = Queued \<and> sibling_policy db cid))
        \<and> (runningOnly \<longrightarrow> campaign_has_status db cid C_running)) (nodes db))"

record settlement =
  st_status :: node_status
  st_class :: string
  st_detail :: json
  st_hash :: string

definition S_settleTerminalSiblingNodes :: "settlement \<Rightarrow> int \<Rightarrow> string \<Rightarrow> string \<Rightarrow> node_status \<Rightarrow> string option
    \<Rightarrow> string option \<Rightarrow> int \<Rightarrow> int \<Rightarrow> integration_status \<Rightarrow> stmt" where
  "S_settleTerminalSiblingNodes st now siblingId cid status owner attemptId generation nodeRevision integration =
    update_nodes (\<lambda>db n. node_id n = siblingId \<and> n_campaign_id n = cid \<and> n_status n = status
        \<and> null_or_eq owner (lease_owner n) \<and> null_or_eq attemptId (attempt_id n)
        \<and> lease_generation n = generation \<and> node_revision n = nodeRevision \<and> integ n = integration
        \<and> campaign_has_status db (n_campaign_id n) C_running
        \<and> (n_status n \<noteq> Queued \<or> sibling_policy db (n_campaign_id n)))
      (\<lambda>n. (release_lease n)\<lparr>n_status := st_status st, failure_class := Some (st_class st),
        failure_json := Some (st_detail st), failure_sha256 := Some (st_hash st), n_updated_at := now\<rparr>)"

section \<open>Prepared results and completion\<close>

definition S_prepareNode :: "json \<Rightarrow> string \<Rightarrow> fence \<Rightarrow> int \<Rightarrow> bool \<Rightarrow> string option \<Rightarrow> stmt" where
  "S_prepareNode res resultHash f now requiresIntegration key =
    update_nodes (\<lambda>db n. live_attempt f now db n \<and> prepared_hash n = None)
      (\<lambda>n. n\<lparr>prep := \<lparr>prepared_result = Some res, prepared_result_sha256 = Some resultHash,
          prepared_attempt_id = Some (f_attempt f), prepared_at = Some now,
          prepared_requires_integration = requiresIntegration, prepared_integration_key = key,
          prepared_integration_status = (if requiresIntegration then Integ_pending else Integ_none),
          prepared_integration_started_at = None, prepared_integration_receipt = None,
          prepared_integration_receipt_sha256 = None, prepared_integrated_at = None\<rparr>,
        node_revision := node_revision n + 1, n_updated_at := now\<rparr>)"

definition S_beginIntegrationNode :: "int \<Rightarrow> int \<Rightarrow> fence \<Rightarrow> string \<Rightarrow> stmt" where
  "S_beginIntegrationNode now expires f key =
    update_nodes (\<lambda>db n. live_attempt f now db n \<and> prepared_requires_integration (prep n)
        \<and> integ n = Integ_pending \<and> prepared_integration_key (prep n) = Some key \<and> prepared_hash n \<noteq> None)
      (\<lambda>n. n\<lparr>prep := (prep n)\<lparr>prepared_integration_status := Integ_integrating,
          prepared_integration_started_at := Some now\<rparr>,
        lease_expires_at := (case lease_expires_at n of None \<Rightarrow> None
          | Some t \<Rightarrow> if t < expires then Some expires else Some t),
        node_revision := node_revision n + 1, n_updated_at := now\<rparr>)"

definition S_markIntegratedNode :: "json \<Rightarrow> string \<Rightarrow> int \<Rightarrow> fence \<Rightarrow> string \<Rightarrow> stmt" where
  "S_markIntegratedNode receipt receiptHash now f key =
    update_nodes (\<lambda>db n. live_attempt f now db n \<and> prepared_requires_integration (prep n)
        \<and> integ n = Integ_integrating \<and> prepared_integration_key (prep n) = Some key
        \<and> prepared_hash n \<noteq> None \<and> prepared_integrated_at (prep n) = None)
      (\<lambda>n. n\<lparr>prep := (prep n)\<lparr>prepared_integration_status := Integ_integrated,
          prepared_integration_receipt := Some receipt,
          prepared_integration_receipt_sha256 := Some receiptHash, prepared_integrated_at := Some now\<rparr>,
        node_revision := node_revision n + 1, n_updated_at := now\<rparr>)"

text \<open>
  Completion may break a unique index: in one review wave no two referee nodes share the
  reviewer, the session or the review hash.
\<close>

definition referee_kind :: "string \<Rightarrow> bool" where
  "referee_kind k = (map (\<lambda>c. if CHR ''A'' \<le> c \<and> c \<le> CHR ''Z'' then char_of (of_char c + (32::nat)) else c)
    (take 17 k) = ''revision-referee-'')"

definition review_clash :: "node_row list \<Rightarrow> node_row \<Rightarrow> bool" where
  "review_clash ns n = (referee_kind (n_kind n) \<and> list_ex (\<lambda>m. node_id m \<noteq> node_id n
    \<and> referee_kind (n_kind m) \<and> n_campaign_id m = n_campaign_id n \<and> round_index m = round_index n
    \<and> (sql_eq (reviewer_id (review n)) (reviewer_id (review m))
       \<or> sql_eq (child_session_id (review n)) (child_session_id (review m))
       \<or> sql_eq (review_hash (review n)) (review_hash (review m)))) ns)"

definition complete_update :: "int \<Rightarrow> reviewer \<Rightarrow> node_row \<Rightarrow> node_row" where
  "complete_update now r n = n\<lparr>n_status := Completed, result_json := prepared_result (prep n),
    result_sha256 := prepared_hash n, lease_owner := None, lease_expires_at := None,
    failure_class := None, integrated_at := Some now, node_revision := node_revision n + 1,
    n_updated_at := now,
    review := r\<lparr>role := (case role r of None \<Rightarrow> role (review n) | Some x \<Rightarrow> Some x)\<rparr>\<rparr>"

definition completable :: "string \<Rightarrow> fence \<Rightarrow> int \<Rightarrow> db \<Rightarrow> node_row \<Rightarrow> bool" where
  "completable resultHash f now db n = (live_attempt f now db n \<and> prepared_hash n = Some resultHash
    \<and> (\<not> prepared_requires_integration (prep n)
       \<or> (integ n = Integ_integrated \<and> prepared_integration_receipt_sha256 (prep n) \<noteq> None)))"

definition S_completeNode :: "int \<Rightarrow> reviewer \<Rightarrow> fence \<Rightarrow> string \<Rightarrow> stmt" where
  "S_completeNode now r f resultHash db =
    (if list_ex (\<lambda>n. completable resultHash f now db n \<and> review_clash (nodes db) (complete_update now r n)) (nodes db)
     then Inl ''UNIQUE constraint failed: campaign_nodes''
     else update_nodes (completable resultHash f now) (complete_update now r) db)"

definition release_backed :: "release_row \<Rightarrow> fence \<Rightarrow> string \<Rightarrow> string \<Rightarrow> db \<Rightarrow> bool" where
  "release_backed r f cid resultHash db = list_ex (\<lambda>n.
    node_id n = f_node f \<and> n_campaign_id n = cid \<and> n_kind n = ''package'' \<and> n_status n = Completed
    \<and> attempt_id n = Some (f_attempt f) \<and> lease_generation n = f_generation f
    \<and> result_sha256 n = Some resultHash \<and> integ n = Integ_integrated
    \<and> prepared_integration_key (prep n) = Some (rel_integration_descriptor_hash r)
    \<and> prepared_integration_receipt_sha256 (prep n) = Some (rel_integration_receipt_hash r)
    \<and> Option.bind (result_json n) (jpath [''campaignReleaseBundleHash'']) = Some (JStr (rel_bundle_hash r))
    \<and> Option.bind (result_json n) (jpath [''campaignReleaseBundleMaterializationReceiptHash''])
        = Some (JStr (rel_materialization_receipt_hash r))
    \<and> list_ex (\<lambda>c. campaign_id c = n_campaign_id n \<and> c_status c = C_completed \<and> paper_id c = rel_paper_id r
        \<and> jpath [''campaignPlanHash''] (c_spec c) = Some (JStr (rel_plan_hash r))) (campaigns db)) (nodes db)"

definition S_publishCurrentRelease :: "release_row \<Rightarrow> fence \<Rightarrow> string \<Rightarrow> string \<Rightarrow> stmt" where
  "S_publishCurrentRelease r f cid resultHash db =
    (if \<not> release_backed r f cid resultHash db then Inr (0, db)
     else if list_ex (\<lambda>x. rel_campaign_id x = rel_campaign_id r) (releases db)
     then Inl ''UNIQUE constraint failed: campaign_current_releases.campaign_id''
     else if list_ex (\<lambda>x. rel_package_node_id x = rel_package_node_id r) (releases db)
     then Inl ''UNIQUE constraint failed: campaign_current_releases.package_node_id''
     else if rel_lease_generation r \<le> 0 then Inl ''CHECK constraint failed: lease_generation > 0''
     else if find_campaign db (rel_campaign_id r) = None \<or> find_node db (rel_package_node_id r) = None
     then Inl ''FOREIGN KEY constraint failed''
     else Inr (1, db\<lparr>releases := releases db @ [r]\<rparr>))"

end
