(* ===== verification/External_Action_Contract.thy ===== *)
theory External_Action_Contract
  imports Campaign_Statements
begin

text \<open>
  The journal contract of external actions
  (\<open>paper-domain/automation/campaign-external-action-journal-contract.mjs\<close>) and the budget
  reservation records of a node attempt
  (\<open>native-store-campaign-infrastructure-reservation.mjs\<close>). Both are self-certifying JSON
  records: a builder adds the hash of the payload, an assertion rebuilds it and compares.
\<close>

section \<open>External action descriptors\<close>

definition is_sha256 :: "string \<Rightarrow> bool" where
  "is_sha256 s = (take 7 s = ''sha256:'' \<and> length s = 71
    \<and> list_all (\<lambda>c. (CHR ''0'' \<le> c \<and> c \<le> CHR ''9'') \<or> (CHR ''a'' \<le> c \<and> c \<le> CHR ''f'')) (drop 7 s))"

definition sha256_field :: "runtime \<Rightarrow> json option \<Rightarrow> bool" where
  "sha256_field rt v = is_sha256 (js_string rt (or_else v (JStr [])))"

definition transient_request_field :: "string \<Rightarrow> bool" where
  "transient_request_field k = (k \<in> {''assertExternalSideEffectReady'', ''attemptId'', ''externalActionId'',
    ''leaseGeneration'', ''requestDigest'', ''signal'', ''workerId''})"

primrec stableRequestValue :: "json \<Rightarrow> json" where
  "stableRequestValue JNull = JNull"
| "stableRequestValue (JBool b) = JBool b"
| "stableRequestValue (JNum q) = JNum q"
| "stableRequestValue (JStr s) = JStr s"
| "stableRequestValue (JArr vs) = JArr (map stableRequestValue vs)"
| "stableRequestValue (JObj es) =
    JObj (fromEntries (filter (\<lambda>e. \<not> transient_request_field (fst e)) (map (map_prod id stableRequestValue) es)))"

definition campaignPlanIdentityHash :: "runtime \<Rightarrow> campaign_row \<Rightarrow> string" where
  "campaignPlanIdentityHash rt c =
    (case jget ''campaignPlanHash'' (c_spec c) of
       Some (JStr s) \<Rightarrow> if is_sha256 s then s
         else hashRecord rt ''PaperCampaignPlanSnapshot'' (or_else (Some (c_spec c)) (JObj []))
     | _ \<Rightarrow> hashRecord rt ''PaperCampaignPlanSnapshot'' (or_else (Some (c_spec c)) (JObj [])))"

definition campaignNodeSemanticSpecHash :: "runtime \<Rightarrow> node_row \<Rightarrow> string" where
  "campaignNodeSemanticSpecHash rt n =
    hashRecord rt ''PaperCampaignNodeSemanticSpec'' (or_else (Some (n_spec n)) (JObj []))"

definition campaignExternalActionRequestDigest :: "runtime \<Rightarrow> json \<Rightarrow> string" where
  "campaignExternalActionRequestDigest rt request =
    hashRecord rt ''CampaignNodeExternalActionRequest'' (stableRequestValue request)"

definition identity_entries :: "json \<Rightarrow> json \<Rightarrow> json \<Rightarrow> json \<Rightarrow> json \<Rightarrow> rat \<Rightarrow> json \<Rightarrow> json \<Rightarrow> (string \<times> json) list" where
  "identity_entries cid nid planHash specHash action ordinal reqDigest resolver =
    [(''campaignId'', cid), (''nodeId'', nid), (''campaignPlanHash'', planHash),
     (''nodeSemanticSpecHash'', specHash), (''action'', action), (''actionOrdinal'', JNum ordinal),
     (''requestDigest'', reqDigest), (''resolverKind'', resolver)]"

definition buildCampaignExternalActionDescriptor ::
    "runtime \<Rightarrow> campaign_row option \<Rightarrow> node_row \<Rightarrow> json \<Rightarrow> int \<Rightarrow> string \<Rightarrow> json result" where
  "buildCampaignExternalActionDescriptor rt campaign n request ordinal resolverKind =
    (case campaign of None \<Rightarrow> Inl ''campaign_external_action_descriptor_invalid''
     | Some c \<Rightarrow>
       (let action = js_string rt (or_else (jget ''action'' request) (JStr ''unspecified''));
            planHash = campaignPlanIdentityHash rt c;
            specHash = campaignNodeSemanticSpecHash rt n;
            requestDigest = (if sha256_field rt (jget ''requestDigest'' request)
              then js_string rt (or_else (jget ''requestDigest'' request) (JStr []))
              else campaignExternalActionRequestDigest rt request)
        in if campaign_id c = [] \<or> node_id n = [] \<or> n_campaign_id n \<noteq> campaign_id c
              \<or> ordinal < 1 \<or> ordinal > 9007199254740991 \<or> resolverKind = []
              \<or> \<not> is_sha256 planHash \<or> \<not> is_sha256 specHash \<or> \<not> is_sha256 requestDigest
           then Inl ''campaign_external_action_descriptor_invalid''
           else let identity = identity_entries (JStr (campaign_id c)) (JStr (node_id n)) (JStr planHash)
                      (JStr specHash) (JStr action) (of_int ordinal) (JStr requestDigest) (JStr resolverKind)
                in Inr (JObj (identity @ [(''externalActionId'',
                     JStr (hashRecord rt ''CampaignNodeExternalActionIdentity'' (JObj identity)))]))))"

definition descriptor_well_formed :: "runtime \<Rightarrow> json \<Rightarrow> bool" where
  "descriptor_well_formed rt v =
    (jtruthy (Some v) \<and> jtruthy (jget ''campaignId'' v) \<and> jtruthy (jget ''nodeId'' v)
     \<and> jtruthy (jget ''action'' v) \<and> jtruthy (jget ''resolverKind'' v)
     \<and> (case js_number rt (jget ''actionOrdinal'' v) of None \<Rightarrow> False | Some q \<Rightarrow> isSafeInteger q \<and> 1 \<le> q)
     \<and> sha256_field rt (jget ''externalActionId'' v) \<and> sha256_field rt (jget ''campaignPlanHash'' v)
     \<and> sha256_field rt (jget ''nodeSemanticSpecHash'' v) \<and> sha256_field rt (jget ''requestDigest'' v))"

definition descriptor_identity :: "runtime \<Rightarrow> json \<Rightarrow> (string \<times> json) list" where
  "descriptor_identity rt v = identity_entries
    (or_else (jget ''campaignId'' v) JNull) (or_else (jget ''nodeId'' v) JNull)
    (or_else (jget ''campaignPlanHash'' v) JNull) (or_else (jget ''nodeSemanticSpecHash'' v) JNull)
    (or_else (jget ''action'' v) JNull)
    (case js_number rt (jget ''actionOrdinal'' v) of None \<Rightarrow> 0 | Some q \<Rightarrow> q)
    (or_else (jget ''requestDigest'' v) JNull) (or_else (jget ''resolverKind'' v) JNull)"

definition assertCampaignExternalActionDescriptor ::
    "runtime \<Rightarrow> json option \<Rightarrow> (string \<times> json) list \<Rightarrow> json result" where
  "assertCampaignExternalActionDescriptor rt value expected =
    (case value of None \<Rightarrow> Inl ''campaign_external_action_descriptor_invalid''
     | Some v \<Rightarrow>
       if \<not> descriptor_well_formed rt v then Inl ''campaign_external_action_descriptor_invalid''
       else let identity = descriptor_identity rt v;
                actionId = or_else (jget ''externalActionId'' v) JNull
            in if JStr (hashRecord rt ''CampaignNodeExternalActionIdentity'' (JObj identity)) \<noteq> actionId
                  \<or> list_ex (\<lambda>(key, item). map_of identity key \<noteq> Some item \<and> jget key v \<noteq> Some item) expected
               then Inl ''campaign_external_action_descriptor_conflict''
               else Inr (JObj (identity @ [(''externalActionId'', actionId)])))"

section \<open>Outcomes\<close>

definition utf8_length :: "string \<Rightarrow> nat" where
  "utf8_length s = sum_list (map (\<lambda>c. if (of_char c :: nat) < 128 then 1 else 2) s)"

definition MAX_OUTCOME_BYTES :: nat where
  "MAX_OUTCOME_BYTES = 8 * 1024 * 1024"

definition buildCampaignExternalActionOutcome :: "runtime \<Rightarrow> json option \<Rightarrow> (json \<times> string) result" where
  "buildCampaignExternalActionOutcome rt payload =
    (let v = (case payload of None \<Rightarrow> JNull | Some w \<Rightarrow> w)
     in if utf8_length (stringify (number_text rt) v) > MAX_OUTCOME_BYTES
        then Inl ''campaign_external_action_outcome_invalid''
        else Inr (v, hashRecord rt ''CampaignNodeExternalActionOutcome'' v))"

definition assertCampaignExternalActionOutcome :: "runtime \<Rightarrow> json option \<Rightarrow> json option \<Rightarrow> (json \<times> string) result" where
  "assertCampaignExternalActionOutcome rt payload outcomeHash =
    rbind (buildCampaignExternalActionOutcome rt payload) (\<lambda>outcome.
      if Some (JStr (snd outcome)) \<noteq> outcomeHash then Inl ''campaign_external_action_outcome_hash_invalid''
      else Inr outcome)"

section \<open>Infrastructure reservations\<close>

record reservation =
  rv_id :: string
  rv_campaign :: string
  rv_node :: string
  rv_attempt :: string
  rv_generation :: int
  rv_usage :: refund
  rv_hash :: string

definition infrastructureCount :: "runtime \<Rightarrow> json option \<Rightarrow> string \<Rightarrow> int result" where
  "infrastructureCount rt value field =
    (case js_number rt (Some (or_else value (JNum 0))) of
       None \<Rightarrow> Inl (''campaign_node_infrastructure_'' @ field @ ''_invalid'')
     | Some q \<Rightarrow> if \<not> isSafeInteger q \<or> q < 0 then Inl (''campaign_node_infrastructure_'' @ field @ ''_invalid'')
         else Inr \<lfloor>q\<rfloor>)"

definition normalizeNativeStoreNodeInfrastructureUsage :: "runtime \<Rightarrow> json \<Rightarrow> refund result" where
  "normalizeNativeStoreNodeInfrastructureUsage rt delta =
    rbind (infrastructureCount rt (jget ''agentCalls'' delta) ''agent_calls'') (\<lambda>a.
    rbind (infrastructureCount rt (jget ''cpuJobs'' delta) ''cpu_jobs'') (\<lambda>c.
    rbind (infrastructureCount rt (jget ''gpuJobs'' delta) ''gpu_jobs'') (\<lambda>g.
    Inr \<lparr>rf_agent = a, rf_cpu = c, rf_gpu = g\<rparr>)))"

definition refund_json :: "refund \<Rightarrow> json" where
  "refund_json r = JObj [(''agentCalls'', JInt (rf_agent r)), (''cpuJobs'', JInt (rf_cpu r)),
    (''gpuJobs'', JInt (rf_gpu r))]"

definition reservation_payload :: "string \<Rightarrow> string \<Rightarrow> string \<Rightarrow> string \<Rightarrow> int \<Rightarrow> refund \<Rightarrow> (string \<times> json) list" where
  "reservation_payload i cid nid att gen u =
    [(''version'', JInt 1), (''reservationId'', JStr i), (''campaignId'', JStr cid), (''nodeId'', JStr nid),
     (''attemptId'', JStr att), (''leaseGeneration'', JInt gen), (''usage'', refund_json u)]"

definition reservation_json :: "reservation \<Rightarrow> json" where
  "reservation_json r = JObj (reservation_payload (rv_id r) (rv_campaign r) (rv_node r) (rv_attempt r)
    (rv_generation r) (rv_usage r) @ [(''reservationHash'', JStr (rv_hash r))])"

definition buildNativeStoreNodeInfrastructureReservation ::
    "runtime \<Rightarrow> json option \<Rightarrow> json option \<Rightarrow> json option \<Rightarrow> json option \<Rightarrow> json option \<Rightarrow> json \<Rightarrow> reservation result" where
  "buildNativeStoreNodeInfrastructureReservation rt reservationId campaignId nodeId attemptId leaseGeneration usageDelta =
    (case js_number rt leaseGeneration of
       None \<Rightarrow> Inl ''campaign_node_infrastructure_reservation_identity_invalid''
     | Some gen \<Rightarrow>
       if \<not> jtruthy reservationId \<or> \<not> jtruthy campaignId \<or> \<not> jtruthy nodeId \<or> \<not> jtruthy attemptId
          \<or> \<not> isSafeInteger gen \<or> gen < 1
       then Inl ''campaign_node_infrastructure_reservation_identity_invalid''
       else rbind (normalizeNativeStoreNodeInfrastructureUsage rt usageDelta) (\<lambda>u.
         let s = (\<lambda>v. js_string rt (or_else v JNull));
             payload = reservation_payload (s reservationId) (s campaignId) (s nodeId) (s attemptId) \<lfloor>gen\<rfloor> u
         in Inr \<lparr>rv_id = s reservationId, rv_campaign = s campaignId, rv_node = s nodeId,
              rv_attempt = s attemptId, rv_generation = \<lfloor>gen\<rfloor>, rv_usage = u,
              rv_hash = hashRecord rt ''CampaignNodeInfrastructureReservation'' (JObj payload)\<rparr>))"

definition assertNativeStoreNodeInfrastructureReservation ::
    "runtime \<Rightarrow> json option \<Rightarrow> string \<Rightarrow> string \<Rightarrow> string \<Rightarrow> int \<Rightarrow> reservation result" where
  "assertNativeStoreNodeInfrastructureReservation rt reservation campaignId nodeId attemptId leaseGeneration =
    (let field = (\<lambda>k. Option.bind reservation (jget k)) in
     rbind (buildNativeStoreNodeInfrastructureReservation rt (field ''reservationId'') (field ''campaignId'')
         (field ''nodeId'') (field ''attemptId'') (field ''leaseGeneration'')
         (case field ''usage'' of None \<Rightarrow> JObj [] | Some u \<Rightarrow> u)) (\<lambda>rebuilt.
       if Some (JStr (rv_hash rebuilt)) \<noteq> field ''reservationHash''
          \<or> (campaignId \<noteq> [] \<and> rv_campaign rebuilt \<noteq> campaignId)
          \<or> (nodeId \<noteq> [] \<and> rv_node rebuilt \<noteq> nodeId)
          \<or> (attemptId \<noteq> [] \<and> rv_attempt rebuilt \<noteq> attemptId)
          \<or> rv_generation rebuilt \<noteq> leaseGeneration
       then Inl ''campaign_node_infrastructure_reservation_invalid''
       else Inr rebuilt))"

section \<open>What is built is accepted\<close>

lemma jtruthy_JStr [simp]: "jtruthy (Some (JStr s)) = (s \<noteq> [])" "\<not> jtruthy None"
  "jtruthy (Some (JObj es))"
  by (simp_all add: jtruthy_def)

lemma sha256_field_JStr: "is_sha256 s \<Longrightarrow> sha256_field rt (Some (JStr s))"
proof -
  assume "is_sha256 s"
  moreover from this have "s \<noteq> []" by (auto simp: is_sha256_def)
  ultimately show ?thesis by (simp add: sha256_field_def)
qed

lemma is_sha256_nonempty: "is_sha256 s \<Longrightarrow> s \<noteq> []"
  by (auto simp: is_sha256_def)

lemma infrastructureCount_nonneg:
  "infrastructureCount rt v field = Inr i \<Longrightarrow> 0 \<le> i"
  by (auto simp: infrastructureCount_def split: option.splits if_splits)

lemma normalizeUsage_nonneg:
  "normalizeNativeStoreNodeInfrastructureUsage rt d = Inr u \<Longrightarrow> 0 \<le> rf_agent u \<and> 0 \<le> rf_cpu u \<and> 0 \<le> rf_gpu u"
  by (auto simp: normalizeNativeStoreNodeInfrastructureUsage_def rbind_Inr_iff
    dest: infrastructureCount_nonneg)

lemma infrastructureCount_safe:
  "infrastructureCount rt v field = Inr i \<Longrightarrow> 0 \<le> i \<and> i \<le> 9007199254740991"
proof -
  assume a: "infrastructureCount rt v field = Inr i"
  then obtain q where q: "isSafeInteger q" "0 \<le> q" "i = \<lfloor>q\<rfloor>"
    by (auto simp: infrastructureCount_def split: option.splits if_splits)
  then have "isSafeInteger (of_int i)" by (metis isSafeInteger_def)
  then have "\<bar>i\<bar> \<le> 9007199254740991" by (simp only: isSafeInteger_of_int)
  with q show ?thesis by simp
qed

lemma infrastructureCount_JInt:
  "0 \<le> i \<Longrightarrow> i \<le> 9007199254740991 \<Longrightarrow> infrastructureCount rt (Some (JInt i)) field = Inr i"
  by (cases "i = 0") (auto simp: infrastructureCount_def or_else_def jtruthy_def isSafeInteger_def [of 0])

lemma normalizeUsage_refund_json:
  assumes "normalizeNativeStoreNodeInfrastructureUsage rt d = Inr u"
  shows "normalizeNativeStoreNodeInfrastructureUsage rt (refund_json u) = Inr u"
proof -
  have "0 \<le> rf_agent u \<and> rf_agent u \<le> 9007199254740991" "0 \<le> rf_cpu u \<and> rf_cpu u \<le> 9007199254740991"
    "0 \<le> rf_gpu u \<and> rf_gpu u \<le> 9007199254740991"
    using assms by (auto simp: normalizeNativeStoreNodeInfrastructureUsage_def rbind_Inr_iff
      dest: infrastructureCount_safe)
  then show ?thesis
    by (simp add: normalizeNativeStoreNodeInfrastructureUsage_def refund_json_def infrastructureCount_JInt)
qed

lemma reservation_json_fields [simp]:
  "jget ''reservationId'' (reservation_json r) = Some (JStr (rv_id r))"
  "jget ''campaignId'' (reservation_json r) = Some (JStr (rv_campaign r))"
  "jget ''nodeId'' (reservation_json r) = Some (JStr (rv_node r))"
  "jget ''attemptId'' (reservation_json r) = Some (JStr (rv_attempt r))"
  "jget ''leaseGeneration'' (reservation_json r) = Some (JInt (rv_generation r))"
  "jget ''usage'' (reservation_json r) = Some (refund_json (rv_usage r))"
  "jget ''reservationHash'' (reservation_json r) = Some (JStr (rv_hash r))"
  by (simp_all add: reservation_json_def reservation_payload_def)

text \<open>A reservation the builder accepts for non-empty text identities has exactly them.\<close>

lemma buildReservation_Inr:
  assumes "buildNativeStoreNodeInfrastructureReservation rt (Some (JStr i)) (Some (JStr cid)) (Some (JStr nid))
    (Some (JStr att)) (Some (JInt gen)) d = Inr r"
  shows "\<exists>u. normalizeNativeStoreNodeInfrastructureUsage rt d = Inr u
    \<and> r = \<lparr>rv_id = i, rv_campaign = cid, rv_node = nid, rv_attempt = att, rv_generation = gen, rv_usage = u,
          rv_hash = hashRecord rt ''CampaignNodeInfrastructureReservation''
            (JObj (reservation_payload i cid nid att gen u))\<rparr>
    \<and> i \<noteq> [] \<and> cid \<noteq> [] \<and> nid \<noteq> [] \<and> att \<noteq> [] \<and> 1 \<le> gen \<and> gen \<le> 9007199254740991"
  using assms
  by (auto simp: buildNativeStoreNodeInfrastructureReservation_def rbind_Inr_iff Let_def split: if_splits)

lemma assertReservation_built:
  assumes built: "buildNativeStoreNodeInfrastructureReservation rt (Some (JStr i)) (Some (JStr cid))
      (Some (JStr nid)) (Some (JStr att)) (Some (JInt gen)) d = Inr r"
  shows "assertNativeStoreNodeInfrastructureReservation rt (Some (reservation_json r)) cid nid att gen = Inr r"
proof -
  from buildReservation_Inr [OF built] obtain u where
    u: "normalizeNativeStoreNodeInfrastructureUsage rt d = Inr u" and
    r: "r = \<lparr>rv_id = i, rv_campaign = cid, rv_node = nid, rv_attempt = att, rv_generation = gen, rv_usage = u,
          rv_hash = hashRecord rt ''CampaignNodeInfrastructureReservation''
            (JObj (reservation_payload i cid nid att gen u))\<rparr>" and
    ne: "i \<noteq> []" "cid \<noteq> []" "nid \<noteq> []" "att \<noteq> []" "1 \<le> gen" "gen \<le> 9007199254740991"
    by blast
  show ?thesis
    using ne normalizeUsage_refund_json [OF u]
    by (simp add: assertNativeStoreNodeInfrastructureReservation_def r Let_def
      buildNativeStoreNodeInfrastructureReservation_def)
qed

text \<open>SHA-256 yields 64 lower-case hexadecimal digits, so a record hash has the checked form.\<close>

definition sha256_runtime :: "runtime \<Rightarrow> bool" where
  "sha256_runtime rt = (\<forall>s. is_sha256 (''sha256:'' @ sha256_hex rt s))"

lemma hashRecord_is_sha256: "sha256_runtime rt \<Longrightarrow> is_sha256 (hashRecord rt kind v)"
  by (simp add: sha256_runtime_def hashRecord_def digest_def)

definition action_request :: "string \<Rightarrow> string option \<Rightarrow> json" where
  "action_request action requestDigest = JObj [(''action'', JStr action), (''requestDigest'', JOptStr requestDigest)]"

lemma identity_entries_get:
  "map_of (identity_entries a b c d e f g h @ [(''externalActionId'', x)]) ''campaignId'' = Some a"
  "map_of (identity_entries a b c d e f g h @ [(''externalActionId'', x)]) ''nodeId'' = Some b"
  "map_of (identity_entries a b c d e f g h @ [(''externalActionId'', x)]) ''campaignPlanHash'' = Some c"
  "map_of (identity_entries a b c d e f g h @ [(''externalActionId'', x)]) ''nodeSemanticSpecHash'' = Some d"
  "map_of (identity_entries a b c d e f g h @ [(''externalActionId'', x)]) ''action'' = Some e"
  "map_of (identity_entries a b c d e f g h @ [(''externalActionId'', x)]) ''actionOrdinal'' = Some (JNum f)"
  "map_of (identity_entries a b c d e f g h @ [(''externalActionId'', x)]) ''requestDigest'' = Some g"
  "map_of (identity_entries a b c d e f g h @ [(''externalActionId'', x)]) ''resolverKind'' = Some h"
  "map_of (identity_entries a b c d e f g h @ [(''externalActionId'', x)]) ''externalActionId'' = Some x"
  "map_of (identity_entries a b c d e f g h) ''campaignId'' = Some a"
  "map_of (identity_entries a b c d e f g h) ''nodeId'' = Some b"
  by (simp_all add: identity_entries_def)

lemma buildDescriptor_accepted:
  assumes rt: "sha256_runtime rt"
    and built: "buildCampaignExternalActionDescriptor rt (Some c) n (action_request action dg) ordinal resolver = Inr d"
  shows "assertCampaignExternalActionDescriptor rt (Some d)
    [(''campaignId'', JStr (campaign_id c)), (''nodeId'', JStr (node_id n))] = Inr d"
proof -
  let ?act = "js_string rt (or_else (Some (JStr action)) (JStr ''unspecified''))"
  have act: "?act \<noteq> []" by (cases "action = []") simp_all
  obtain planHash specHash reqDigest where
    d: "d = JObj (identity_entries (JStr (campaign_id c)) (JStr (node_id n)) (JStr planHash) (JStr specHash)
        (JStr ?act) (of_int ordinal) (JStr reqDigest) (JStr resolver)
        @ [(''externalActionId'', JStr (hashRecord rt ''CampaignNodeExternalActionIdentity''
            (JObj (identity_entries (JStr (campaign_id c)) (JStr (node_id n)) (JStr planHash) (JStr specHash)
        (JStr ?act) (of_int ordinal) (JStr reqDigest) (JStr resolver)))))])"
    and ok: "is_sha256 planHash" "is_sha256 specHash" "is_sha256 reqDigest" "campaign_id c \<noteq> []"
      "node_id n \<noteq> []" "resolver \<noteq> []" "1 \<le> ordinal" "ordinal \<le> 9007199254740991"
    using built by (auto simp: buildCampaignExternalActionDescriptor_def action_request_def Let_def
      not_less split: if_splits)
  have "descriptor_well_formed rt d"
    using ok act by (simp add: descriptor_well_formed_def d identity_entries_get sha256_field_JStr
      hashRecord_is_sha256 [OF rt] del: map_of_append)
  moreover have "is_sha256 (hashRecord rt ''CampaignNodeExternalActionIdentity'' v)" for v
    by (rule hashRecord_is_sha256 [OF rt])
  ultimately show ?thesis
    using ok act is_sha256_nonempty
    by (simp add: assertCampaignExternalActionDescriptor_def Let_def d descriptor_identity_def
      identity_entries_get del: map_of_append)
qed

end
