(* ===== verification/Campaign_Mutations.thy ===== *)
theory Campaign_Mutations
  imports External_Action_Contract
begin

text \<open>
  The native transactions of \<open>native-store-campaign-mutation-execution.mjs\<close>: one definition per
  \<open>apply...\<close> function over the statements of the plan, and the dispatch on the operation.
  A constructor of \<open>campaign_mutation\<close> is an operation id with its \<open>input\<close>. The
  \<open>eventRow\<close> of an input is the event built by the calling operation.
\<close>

section \<open>Reading specifications\<close>

definition spec_string :: "string \<Rightarrow> json \<Rightarrow> string" where
  "spec_string k v = (case jget k v of Some (JStr s) \<Rightarrow> s | _ \<Rightarrow> [])"

definition spec_int :: "string \<Rightarrow> int \<Rightarrow> json \<Rightarrow> int" where
  "spec_int k d v = (case jget k v of Some (JNum q) \<Rightarrow> if q = 0 then d else \<lfloor>q\<rfloor> | _ \<Rightarrow> d)"

definition spec_strings :: "string \<Rightarrow> json \<Rightarrow> string list" where
  "spec_strings k v = (case jget k v of Some (JArr vs) \<Rightarrow> map (\<lambda>x. case x of JStr s \<Rightarrow> s | _ \<Rightarrow> []) vs | _ \<Rightarrow> [])"

definition spec_list :: "string \<Rightarrow> json \<Rightarrow> json list" where
  "spec_list k v = (case jget k v of Some (JArr vs) \<Rightarrow> vs | _ \<Rightarrow> [])"

definition spec_opt :: "string \<Rightarrow> json \<Rightarrow> string option" where
  "spec_opt k v = or_null (jstr (jget k v))"

section \<open>Shared steps\<close>

definition insertNativeStoreCampaignEvent :: "event_row \<Rightarrow> tx" where
  "insertNativeStoreCampaignEvent e = required ''campaign_event_insert_failed'' (insert_event e)"

definition projectNativeStoreCampaign :: "string \<Rightarrow> int \<Rightarrow> tx" where
  "projectNativeStoreCampaign cid now = run (projectCampaign cid now)"

definition runNativeStoreCampaignUsage :: "bool \<Rightarrow> bool \<Rightarrow> stmt \<Rightarrow> tx" where
  "runNativeStoreCampaignUsage enforceBudget isRequired st =
    (if isRequired
     then required (if enforceBudget then ''campaign_usage_budget_reservation_failed'' else ''campaign_usage_write_failed'') st
     else run st)"

definition tx_check :: "bool \<Rightarrow> string \<Rightarrow> tx" where
  "tx_check b e db = (if b then Inr db else Inl e)"

section \<open>Fence check and creation\<close>

definition applyAssertLiveNodeAttempt :: "fence \<Rightarrow> int \<Rightarrow> bool \<Rightarrow> string \<Rightarrow> string \<Rightarrow> tx" where
  "applyAssertLiveNodeAttempt f now integrated key receiptHash =
    required ''campaign_node_attempt_fence_check_failed''
      (if integrated then S_assertIntegratedAttempt f now key receiptHash
       else S_assertIntegratingAttempt f now key)"

definition createNodeStatement :: "string \<Rightarrow> int \<Rightarrow> json \<Rightarrow> stmt" where
  "createNodeStatement cid now nd = S_createCampaignNode (spec_string ''nodeId'' nd) cid
    (spec_string ''kind'' nd) (spec_int ''roundIndex'' 0 nd) (spec_int ''priority'' 100 nd)
    (spec_strings ''dependencies'' nd) nd (max 1 (spec_int ''maxAttempts'' 3 nd)) now (spec_opt ''role'' nd)"

definition createCampaignStatement :: "json \<Rightarrow> bool \<Rightarrow> string \<Rightarrow> int \<Rightarrow> stmt" where
  "createCampaignStatement spec admitted phase now =
    S_createCampaign (spec_string ''campaignId'' spec) (spec_string ''paperId'' spec)
      (if admitted then C_paused else C_queued) (max 1 (spec_int ''maxRounds'' 1 spec)) spec now
      (if admitted then None else Some now) (spec_opt ''parentCampaignId'' spec)
      (spec_opt ''supersedesCampaignId'' spec) (spec_opt ''recoveryOfCampaignId'' spec)
      (if admitted then phase else ''queued'')"

definition applyCreateCampaign :: "json \<Rightarrow> bool \<Rightarrow> string \<Rightarrow> int \<Rightarrow> event_row \<Rightarrow> tx" where
  "applyCreateCampaign spec admitted phase now ev =
    tx_seq ([required ''campaign_create_failed'' (createCampaignStatement spec admitted phase now)]
      @ map (\<lambda>nd. required ''campaign_create_failed'' (createNodeStatement (spec_string ''campaignId'' spec) now nd))
          (spec_list ''nodes'' spec)
      @ (if admitted then [] else [required ''campaign_create_failed''
          (S_createCampaignStart now (spec_string ''campaignId'' spec))])
      @ [insertNativeStoreCampaignEvent ev])"

section \<open>Lifecycle\<close>

definition applySkipFutureRounds :: "string list \<Rightarrow> string \<Rightarrow> int \<Rightarrow> string \<Rightarrow> event_row \<Rightarrow> tx" where
  "applySkipFutureRounds futureNodeIds reason now cid ev =
    tx_seq (map (\<lambda>i. run (S_skipFutureNode reason now i cid)) futureNodeIds
      @ [insertNativeStoreCampaignEvent ev, projectNativeStoreCampaign cid now])"

definition applyPauseCampaign :: "string \<Rightarrow> int \<Rightarrow> campaign_row \<Rightarrow> event_row \<Rightarrow> tx" where
  "applyPauseCampaign reason now c ev =
    tx_seq [required ''campaign_pause_failed'' (S_pauseCampaign reason now (campaign_id c) (revision c)),
      run (S_pauseCampaignNodes now (campaign_id c)), insertNativeStoreCampaignEvent ev]"

definition applyResumeCampaign :: "int \<Rightarrow> json \<Rightarrow> campaign_row \<Rightarrow> bool \<Rightarrow> event_row \<Rightarrow> tx" where
  "applyResumeCampaign now nextSpec c reopenStoppedNodes ev =
    tx_seq ([required ''campaign_resume_failed''
        (S_resumeCampaign now nextSpec (campaign_id c) (c_status c) (revision c))]
      @ (if reopenStoppedNodes then [run (S_resumeNodes now (campaign_id c) (stop_reason c))] else [])
      @ [insertNativeStoreCampaignEvent ev])"

text \<open>The branches \<open>cancelCampaign\<close>, \<open>failCampaign\<close>, \<open>stopCampaign\<close>.\<close>

definition applySettleCampaign :: "campaign_status \<Rightarrow> node_status \<Rightarrow> string \<Rightarrow> string \<Rightarrow> int \<Rightarrow> campaign_row \<Rightarrow> event_row \<Rightarrow> tx" where
  "applySettleCampaign settled nodeStatus code reason now c ev =
    tx_seq [required code (S_settleCampaign settled (last_resumed_at c \<noteq> None) now reason (campaign_id c)
        (c_status c) (revision c)),
      run (S_settleCampaignNodes nodeStatus reason now (campaign_id c)),
      insertNativeStoreCampaignEvent ev]"

definition extendNodeStatement :: "string \<Rightarrow> int \<Rightarrow> json \<Rightarrow> stmt" where
  "extendNodeStatement cid now item = S_extendCampaignNode (spec_string ''nodeId'' item) cid
    (spec_string ''kind'' item) (spec_int ''roundIndex'' 0 item) (spec_int ''priority'' 100 item)
    (spec_strings ''dependencies'' item) item (max 1 (spec_int ''maxAttempts'' 3 item)) now"

definition applyExtendCampaign :: "json \<Rightarrow> json list \<Rightarrow> campaign_row \<Rightarrow> int \<Rightarrow> event_row \<Rightarrow> tx" where
  "applyExtendCampaign spec additions c now ev =
    (let cid = spec_string ''campaignId'' spec in
     tx_seq ([run (S_extendSupersedePackage now cid)]
       @ map (\<lambda>item. required ''campaign_extension_failed'' (extendNodeStatement cid now item)) additions
       @ [required ''campaign_extension_failed''
            (S_extendCampaign (spec_int ''maxRounds'' 0 spec) spec now cid (c_status c) (revision c)),
          insertNativeStoreCampaignEvent ev]))"

definition cancel_inspection :: "string \<Rightarrow> string \<Rightarrow> tx" where
  "cancel_inspection cid nodeId db =
    (case S_cancelNodeInspect nodeId cid db of None \<Rightarrow> Inr db
     | Some n \<Rightarrow> tx_check (\<not> (n_status n \<noteq> Completed \<and> integ n \<in> {Integ_integrating, Integ_integrated}))
         ''campaign_node_cancel_integration_in_progress'' db)"

definition applyCancelNode :: "node_row \<Rightarrow> campaign_row option \<Rightarrow> string list \<Rightarrow> string \<Rightarrow> json \<Rightarrow> string \<Rightarrow> int
    \<Rightarrow> event_row \<Rightarrow> event_row option \<Rightarrow> tx" where
  "applyCancelNode n campaign cancelled reason detail hash now ev stoppedEvent =
    (let cid = n_campaign_id n in
     tx_seq (map (cancel_inspection cid) cancelled
       @ [required ''campaign_node_cancel_failed'' (S_cancelNodeGuard cid)]
       @ map (\<lambda>i. run (S_cancelOneNode reason detail hash now i)) cancelled
       @ [insertNativeStoreCampaignEvent ev]
       @ (case (stoppedEvent, campaign) of
            (Some se, Some c) \<Rightarrow> [required ''campaign_node_cancel_failed'' (S_cancelNodeStopCampaign now cid (revision c)),
              insertNativeStoreCampaignEvent se]
          | _ \<Rightarrow> [projectNativeStoreCampaign cid now])))"

definition applyRetryNode :: "node_row \<Rightarrow> campaign_row \<Rightarrow> node_row list \<Rightarrow> int \<Rightarrow> event_row \<Rightarrow> tx" where
  "applyRetryNode n c siblings now ev =
    tx_seq ([required ''campaign_node_retry_failed'' (S_retryNode now (node_id n) (node_revision n))]
      @ map (\<lambda>s. required ''campaign_node_retry_failed'' (S_retrySiblingNode now (node_id s) (n_campaign_id n)
          (node_id n) (integ s) (node_revision s))) siblings
      @ [required ''campaign_node_retry_failed'' (S_retryCampaign (n_kind n) (max 0 (round_index n)) now
          (n_campaign_id n) (c_status c) (revision c)),
        insertNativeStoreCampaignEvent ev])"

section \<open>Leases\<close>

datatype disposition =
    Leased_requeue | Prepared_result_recovery | Outcome_uncertain | Pre_external_action_refund

fun disposition_text :: "disposition \<Rightarrow> string" where
  "disposition_text Leased_requeue = ''leased_requeue''"
| "disposition_text Prepared_result_recovery = ''prepared_result_recovery''"
| "disposition_text Outcome_uncertain = ''external_outcome_uncertain''"
| "disposition_text Pre_external_action_refund = ''pre_external_action_refund_requeue''"

definition cancel_event_kinds :: "string list" where
  "cancel_event_kinds = [''campaign_node_started'', ''campaign_node_infrastructure_subreservation'',
    ''campaign_node_external_action_started'']"

definition recover_event_kinds :: "string list" where
  "recover_event_kinds = cancel_event_kinds @ [''campaign_node_external_action_completed'']"

definition event_kind_is :: "string \<Rightarrow> json \<Rightarrow> bool" where
  "event_kind_is k e = (jget ''kind'' e = Some (JStr k))"

definition checked_attempt_event :: "runtime \<Rightarrow> string \<Rightarrow> string \<Rightarrow> string \<Rightarrow> int \<Rightarrow> event_row \<Rightarrow> json result" where
  "checked_attempt_event rt cid nodeId attemptId generation row =
    (let e = event_json row in
     if hashRecord rt ''PaperCampaignEvent'' e \<noteq> event_sha256 row
        \<or> jget ''campaignId'' e \<noteq> Some (JStr cid) \<or> jget ''nodeId'' e \<noteq> Some (JStr nodeId)
        \<or> jpath [''detail'', ''attemptId''] e \<noteq> Some (JStr attemptId)
        \<or> js_number rt (jpath [''detail'', ''leaseGeneration''] e) \<noteq> Some (of_int generation)
     then Inl ''campaign_node_infrastructure_event_invalid'' else Inr e)"

definition infrastructureAttemptEvents :: "runtime \<Rightarrow> string list \<Rightarrow> string \<Rightarrow> string \<Rightarrow> string \<Rightarrow> int \<Rightarrow> db \<Rightarrow> json list result" where
  "infrastructureAttemptEvents rt kinds cid nodeId attemptId generation db =
    rmap (checked_attempt_event rt cid nodeId attemptId generation)
      (S_infrastructureReservationEvents kinds cid nodeId attemptId generation db)"

definition sum_refunds :: "reservation list \<Rightarrow> refund" where
  "sum_refunds rs = \<lparr>rf_agent = sum_list (map (\<lambda>r. rf_agent (rv_usage r)) rs),
    rf_cpu = sum_list (map (\<lambda>r. rf_cpu (rv_usage r)) rs),
    rf_gpu = sum_list (map (\<lambda>r. rf_gpu (rv_usage r)) rs)\<rparr>"

definition is_reservation_event :: "json \<Rightarrow> bool" where
  "is_reservation_event e = (event_kind_is ''campaign_node_started'' e
    \<or> event_kind_is ''campaign_node_infrastructure_subreservation'' e)"

definition infrastructureRefundFromEvents :: "runtime \<Rightarrow> string list \<Rightarrow> string \<Rightarrow> string \<Rightarrow> string \<Rightarrow> int \<Rightarrow> db \<Rightarrow> refund result" where
  "infrastructureRefundFromEvents rt kinds cid nodeId attemptId generation db =
    rbind (infrastructureAttemptEvents rt kinds cid nodeId attemptId generation db) (\<lambda>es.
    rbind (check (\<not> list_ex (event_kind_is ''campaign_node_external_action_started'') es)
        ''campaign_node_infrastructure_external_action_may_have_started'') (\<lambda>_.
    rbind (rmap (\<lambda>e. assertNativeStoreNodeInfrastructureReservation rt
          (jpath [''detail'', ''infrastructureReservation''] e) cid nodeId attemptId generation)
        (filter is_reservation_event es)) (\<lambda>reservations.
    rbind (check (length (filter (event_kind_is ''campaign_node_started'') es) = 1
          \<and> distinct (map rv_id reservations))
        ''campaign_node_infrastructure_reservation_invalid'') (\<lambda>_.
    Inr (sum_refunds reservations)))))"

definition action_id_or :: "runtime \<Rightarrow> json \<Rightarrow> string \<Rightarrow> string" where
  "action_id_or rt e d = js_string rt (or_else (jpath [''detail'', ''externalActionId''] e) (JStr d))"

definition started_action_id :: "runtime \<Rightarrow> json \<Rightarrow> string" where
  "started_action_id rt e = action_id_or rt e (''legacy:'' @ drop 7 (hashRecord rt ''PaperCampaignEvent'' e))"

definition unresolved_actions :: "runtime \<Rightarrow> json list \<Rightarrow> string list" where
  "unresolved_actions rt es =
    (let completed = map (\<lambda>e. action_id_or rt e [])
          (filter (event_kind_is ''campaign_node_external_action_completed'') es)
     in filter (\<lambda>i. i \<notin> set completed)
          (map (started_action_id rt) (filter (event_kind_is ''campaign_node_external_action_started'') es)))"

definition applyRecoverExpiredLease :: "runtime \<Rightarrow> node_row \<Rightarrow> string \<Rightarrow> bool \<Rightarrow> int \<Rightarrow> disposition \<Rightarrow> refund
    \<Rightarrow> json \<Rightarrow> string \<Rightarrow> string list \<Rightarrow> event_row \<Rightarrow> tx" where
  "applyRecoverExpiredLease rt n cid expired now disp expectedRefund detail hash expectedActions ev db =
    (let att = sqlText (attempt_id n); gen = lease_generation n in
     rbind
       (if disp = Outcome_uncertain then
          rbind (infrastructureAttemptEvents rt recover_event_kinds (n_campaign_id n) (node_id n) att gen db) (\<lambda>es.
          rbind (check (unresolved_actions rt es \<noteq> []
                \<and> sortStrings (unresolved_actions rt es) = sortStrings expectedActions)
              ''campaign_node_external_outcome_uncertain_audit_conflict'') (\<lambda>_.
          required ''campaign_lease_recovery_failed''
            (S_recoverLeaseUncertain detail hash now (node_id n) cid (lease_owner n) (attempt_id n) gen expired) db))
        else
          rbind (required ''campaign_lease_recovery_failed''
            (S_recoverLease (if n_status n = Running then 1 else 0) now (node_id n) cid (n_status n)
              (lease_owner n) (attempt_id n) gen expired) db) (\<lambda>db1.
          if disp = Pre_external_action_refund then
            rbind (infrastructureRefundFromEvents rt recover_event_kinds (n_campaign_id n) (node_id n) att gen db1) (\<lambda>r.
            rbind (check (r = expectedRefund) ''campaign_node_infrastructure_refund_audit_conflict'') (\<lambda>_.
            required ''campaign_lease_recovery_failed'' (S_recoverLeaseUsage r now cid) db1))
          else Inr db1))
       (insertNativeStoreCampaignEvent ev))"

definition applyRenewNodeLease :: "int \<Rightarrow> int \<Rightarrow> fence \<Rightarrow> tx" where
  "applyRenewNodeLease expires now f = required ''campaign_node_lease_renew_failed'' (S_renewLease expires now f)"

definition applyClaimReady :: "string \<Rightarrow> int \<Rightarrow> string \<Rightarrow> int \<Rightarrow> node_row \<Rightarrow> string \<Rightarrow> tx" where
  "applyClaimReady workerId expires attemptId now n cid =
    required ''campaign_node_claim_failed'' (S_claimNode workerId expires attemptId now (node_id n) cid (node_revision n))"

definition applyStartNode :: "node_row \<Rightarrow> int \<Rightarrow> fence \<Rightarrow> usage_delta \<Rightarrow> event_row \<Rightarrow> tx" where
  "applyStartNode before now f delta ev =
    tx_seq [required ''campaign_node_start_failed'' (S_startNode now f),
      required ''campaign_node_budget_reservation_failed'' (S_startNodeCampaign (n_kind before)
        (max 0 (round_index before)) (nativeStoreCampaignUsageParameters delta) now (n_campaign_id before)),
      insertNativeStoreCampaignEvent ev]"

definition applyCancelNodeInfrastructureDeferred :: "runtime \<Rightarrow> node_row \<Rightarrow> int \<Rightarrow> fence \<Rightarrow> refund \<Rightarrow> event_row \<Rightarrow> tx" where
  "applyCancelNodeInfrastructureDeferred rt n now f expectedRefund ev db =
    rbind (infrastructureRefundFromEvents rt cancel_event_kinds (n_campaign_id n) (f_node f) (f_attempt f)
        (f_generation f) db) (\<lambda>r.
    rbind (check (r = expectedRefund
          \<and> jpath [''detail'', ''refundedUsage'', ''agentCalls''] (event_json ev) = Some (JInt (rf_agent r))
          \<and> jpath [''detail'', ''refundedUsage'', ''cpuJobs''] (event_json ev) = Some (JInt (rf_cpu r))
          \<and> jpath [''detail'', ''refundedUsage'', ''gpuJobs''] (event_json ev) = Some (JInt (rf_gpu r)))
        ''campaign_node_infrastructure_refund_audit_conflict'') (\<lambda>_.
    tx_seq [required ''campaign_node_infrastructure_cancel_failed'' (S_cancelInfrastructureNode f now (attempt_count n)),
      required ''campaign_node_infrastructure_cancel_failed'' (S_cancelInfrastructureUsage r now (n_campaign_id n)),
      insertNativeStoreCampaignEvent ev] db))"

definition refund_delta :: "refund \<Rightarrow> usage_delta" where
  "refund_delta r = \<lparr>agentCalls = Some (rf_agent r), cpuJobs = Some (rf_cpu r), gpuJobs = Some (rf_gpu r),
    tokens = None, costUsd = None, pricedAgentCalls = None\<rparr>"

definition applyReserveNodeInfrastructureUsage :: "node_row \<Rightarrow> fence \<Rightarrow> int \<Rightarrow> refund \<Rightarrow> event_row \<Rightarrow> tx" where
  "applyReserveNodeInfrastructureUsage n f now u ev =
    tx_seq [required ''campaign_node_infrastructure_reservation_failed'' (S_reserveInfrastructureNode f now),
      required ''campaign_node_infrastructure_reservation_failed'' (S_reserveInfrastructureUsage
        (nativeStoreCampaignUsageParameters (refund_delta u)) now (n_campaign_id n)),
      insertNativeStoreCampaignEvent ev]"

section \<open>External actions\<close>

definition checked_action_event :: "runtime \<Rightarrow> (string \<times> json) list \<Rightarrow> event_row \<Rightarrow> json result" where
  "checked_action_event rt descriptor row =
    (if hashRecord rt ''PaperCampaignEvent'' (event_json row) \<noteq> event_sha256 row
     then Inl ''campaign_external_action_event_invalid''
     else rbind (assertCampaignExternalActionDescriptor rt (jget ''detail'' (event_json row)) descriptor)
       (\<lambda>_. Inr (event_json row)))"

definition entries :: "json \<Rightarrow> (string \<times> json) list" where
  "entries v = (case v of JObj es \<Rightarrow> es | _ \<Rightarrow> [])"

definition started_in_attempt :: "runtime \<Rightarrow> fence \<Rightarrow> json \<Rightarrow> bool" where
  "started_in_attempt rt f e = (event_kind_is ''campaign_node_external_action_started'' e
    \<and> jpath [''detail'', ''attemptId''] e = Some (JStr (f_attempt f))
    \<and> js_number rt (jpath [''detail'', ''leaseGeneration''] e) = Some (of_int (f_generation f)))"

definition action_events :: "runtime \<Rightarrow> node_row \<Rightarrow> fence \<Rightarrow> json \<Rightarrow> db \<Rightarrow> json list result" where
  "action_events rt n f descriptor db =
    rbind (assertCampaignExternalActionDescriptor rt (Some descriptor)
        [(''campaignId'', JStr (n_campaign_id n)), (''nodeId'', JStr (f_node f))]) (\<lambda>d.
      rmap (checked_action_event rt (entries d))
        (S_externalActionEvents (n_campaign_id n) (f_node f) (sqlText (jstr (jget ''externalActionId'' d))) db))"

definition applyMarkNodeExternalActionStarted :: "runtime \<Rightarrow> node_row \<Rightarrow> fence \<Rightarrow> int \<Rightarrow> json \<Rightarrow> event_row \<Rightarrow> tx" where
  "applyMarkNodeExternalActionStarted rt n f now descriptor ev db =
    rbind (action_events rt n f descriptor db) (\<lambda>es.
    rbind (check (\<not> list_ex (\<lambda>e. event_kind_is ''campaign_node_external_action_completed'' e
        \<or> started_in_attempt rt f e) es) ''campaign_external_action_already_recorded'') (\<lambda>_.
    tx_seq [required ''campaign_node_external_action_started_failed'' (S_markInfrastructureNode f (node_revision n) now),
      insertNativeStoreCampaignEvent ev] db))"

definition applyCompleteNodeExternalAction :: "runtime \<Rightarrow> node_row \<Rightarrow> fence \<Rightarrow> int \<Rightarrow> json \<Rightarrow> json \<times> string
    \<Rightarrow> usage_delta \<Rightarrow> event_row \<Rightarrow> tx" where
  "applyCompleteNodeExternalAction rt n f now descriptor completed delta ev db =
    rbind (assertCampaignExternalActionDescriptor rt (Some descriptor)
        [(''campaignId'', JStr (n_campaign_id n)), (''nodeId'', JStr (f_node f))]) (\<lambda>_.
    rbind (assertCampaignExternalActionOutcome rt (Some (fst completed)) (Some (JStr (snd completed)))) (\<lambda>_.
    rbind (action_events rt n f descriptor db) (\<lambda>es.
    rbind (check (\<not> list_ex (event_kind_is ''campaign_node_external_action_completed'') es)
        ''campaign_external_action_already_recorded'') (\<lambda>_.
    rbind (check (list_ex (started_in_attempt rt f) es) ''campaign_external_action_start_missing'') (\<lambda>_.
    tx_seq [required ''campaign_external_action_completion_failed'' (S_markInfrastructureNode f (node_revision n) now),
      runNativeStoreCampaignUsage False True (S_updateCampaignUsage (nativeStoreCampaignUsageParameters delta) now (n_campaign_id n)),
      insertNativeStoreCampaignEvent ev] db)))))"

section \<open>Failure\<close>

definition settlement_uncertain :: "node_row \<Rightarrow> bool" where
  "settlement_uncertain s = (integ s = Integ_integrating \<or> (n_status s \<noteq> Queued \<and> integ s = Integ_integrated))"

definition settlement_detail :: "string \<Rightarrow> string \<Rightarrow> node_row \<Rightarrow> (string \<times> json) list" where
  "settlement_detail terminalNodeId terminalFailureHash s =
    [(''reason'', JStr (if settlement_uncertain s then ''campaign_terminal_sibling_outcome_uncertain''
        else ''campaign_terminal_sibling_cancelled'')),
     (''terminalNodeId'', JStr terminalNodeId), (''terminalFailureHash'', JStr terminalFailureHash),
     (''previousStatus'', JStr (node_status_text (n_status s))),
     (''previousLeaseOwner'', JOptStr (or_null (lease_owner s))),
     (''previousAttemptId'', JOptStr (or_null (attempt_id s))),
     (''previousLeaseGeneration'', JInt (lease_generation s)),
     (''previousNodeRevision'', JInt (node_revision s)),
     (''preparedIntegrationStatus'', JStr (integration_status_text (integ s)))]"

definition terminalSiblingSettlement :: "runtime \<Rightarrow> string \<Rightarrow> string \<Rightarrow> node_row \<Rightarrow> settlement" where
  "terminalSiblingSettlement rt terminalNodeId terminalFailureHash s =
    (let detail = JObj (settlement_detail terminalNodeId terminalFailureHash s) in
     \<lparr>st_status = (if settlement_uncertain s then External_outcome_uncertain else Skipped),
      st_class = (if settlement_uncertain s then ''campaign_terminal_sibling_outcome_uncertain''
        else ''campaign_terminal_sibling_cancelled''),
      st_detail = detail, st_hash = hashRecord rt ''PaperCampaignNodeFailure'' detail\<rparr>)"

definition settlement_event_detail :: "runtime \<Rightarrow> string \<Rightarrow> string \<Rightarrow> node_row \<Rightarrow> json" where
  "settlement_event_detail rt terminalNodeId terminalFailureHash s =
    (let st = terminalSiblingSettlement rt terminalNodeId terminalFailureHash s in
     JObj ([(''status'', JStr (node_status_text (st_status st))), (''failureClass'', JStr (st_class st)),
       (''failureHash'', JStr (st_hash st))] @ settlement_detail terminalNodeId terminalFailureHash s))"

text \<open>The native settlement event has no random suffix in its id.\<close>

definition settlement_event :: "runtime \<Rightarrow> int \<Rightarrow> string \<Rightarrow> string \<Rightarrow> node_row \<Rightarrow> event_row" where
  "settlement_event rt now terminalNodeId terminalFailureHash s =
    (let payload = event_payload rt (n_campaign_id s) (Some (node_id s)) ''campaign_terminal_sibling_settled''
          (settlement_event_detail rt terminalNodeId terminalFailureHash s) now;
         eventHash = hashRecord rt ''PaperCampaignEvent'' payload
     in \<lparr>event_id = n_campaign_id s @ '':'' @ toISOString rt now @ '':'' @ slice_last 16 eventHash,
         e_campaign_id = n_campaign_id s, e_node_id = Some (node_id s),
         e_kind = ''campaign_terminal_sibling_settled'', event_json = payload,
         event_sha256 = eventHash, e_created_at = now\<rparr>)"

definition settleStatement :: "settlement \<Rightarrow> int \<Rightarrow> string \<Rightarrow> node_row \<Rightarrow> stmt" where
  "settleStatement st now cid s = S_settleTerminalSiblingNodes st now (node_id s) cid (n_status s)
    (or_null (lease_owner s)) (or_null (attempt_id s)) (lease_generation s) (node_revision s) (integ s)"

definition settle_siblings :: "runtime \<Rightarrow> int \<Rightarrow> string \<Rightarrow> string \<Rightarrow> string \<Rightarrow> tx" where
  "settle_siblings rt now cid nodeId failureHash db =
    tx_seq (concat (map (\<lambda>s. [required ''campaign_terminal_sibling_settlement_failed''
        (settleStatement (terminalSiblingSettlement rt nodeId failureHash s) now cid s),
      insertNativeStoreCampaignEvent (settlement_event rt now nodeId failureHash s)])
      (S_inspectTerminalSiblingNodes True cid nodeId db))) db"

definition failNodeStatement :: "bool \<Rightarrow> node_status \<Rightarrow> string \<Rightarrow> json \<Rightarrow> string \<Rightarrow> int \<Rightarrow> fence \<Rightarrow> stmt" where
  "failNodeStatement abandon = (if abandon then S_failNodeAbandonPrepared else S_failNodePreservePrepared)"

definition applyFailNode :: "runtime \<Rightarrow> node_row \<Rightarrow> int \<Rightarrow> fence \<Rightarrow> node_status \<Rightarrow> string \<Rightarrow> json \<Rightarrow> string \<Rightarrow> bool
    \<Rightarrow> usage_delta \<Rightarrow> event_row \<Rightarrow> tx" where
  "applyFailNode rt n now f status class detail hash abandon delta ev =
    tx_seq ([required ''campaign_node_failure_failed'' (failNodeStatement abandon status class detail hash now f)]
      @ (if status = Failed_terminal then [settle_siblings rt now (n_campaign_id n) (f_node f) hash] else [])
      @ [runNativeStoreCampaignUsage False True (S_updateCampaignUsage (nativeStoreCampaignUsageParameters delta) now (n_campaign_id n)),
         insertNativeStoreCampaignEvent ev, projectNativeStoreCampaign (n_campaign_id n) now])"

section \<open>Prepared results and completion\<close>

definition applyPrepareNodeResult :: "json \<Rightarrow> string \<Rightarrow> fence \<Rightarrow> int \<Rightarrow> bool \<Rightarrow> string option \<Rightarrow> event_row \<Rightarrow> tx" where
  "applyPrepareNodeResult res resultHash f now requiresIntegration key ev =
    tx_seq [required ''campaign_node_result_prepare_failed''
        (S_prepareNode res resultHash f now requiresIntegration (or_null key)),
      insertNativeStoreCampaignEvent ev]"

definition applyBeginNodeResultIntegration :: "int \<Rightarrow> int \<Rightarrow> fence \<Rightarrow> string \<Rightarrow> event_row \<Rightarrow> tx" where
  "applyBeginNodeResultIntegration now expires f key ev =
    tx_seq [required ''campaign_node_result_integration_begin_failed'' (S_beginIntegrationNode now expires f key),
      insertNativeStoreCampaignEvent ev]"

definition applyMarkNodeResultIntegrated :: "json \<Rightarrow> string \<Rightarrow> int \<Rightarrow> fence \<Rightarrow> string \<Rightarrow> event_row \<Rightarrow> tx" where
  "applyMarkNodeResultIntegrated receipt receiptHash now f key ev =
    tx_seq [required ''campaign_node_result_integration_mark_failed'' (S_markIntegratedNode receipt receiptHash now f key),
      insertNativeStoreCampaignEvent ev]"

definition publishRelease :: "release_row option \<Rightarrow> fence \<Rightarrow> string \<Rightarrow> string \<Rightarrow> tx" where
  "publishRelease receipt f cid resultHash =
    (case receipt of None \<Rightarrow> Inr
     | Some r \<Rightarrow> required ''campaign_release_promotion_failed'' (S_publishCurrentRelease r f cid resultHash))"

definition applyCompleteNode :: "node_row \<Rightarrow> int \<Rightarrow> reviewer \<Rightarrow> fence \<Rightarrow> usage_delta \<Rightarrow> event_row \<Rightarrow> release_row option \<Rightarrow> tx" where
  "applyCompleteNode n now r f delta ev receipt =
    (let resultHash = sqlText (prepared_hash n) in
     tx_seq [required ''campaign_node_complete_failed'' (S_completeNode now r f resultHash),
       runNativeStoreCampaignUsage False True (S_updateCampaignUsage (nativeStoreCampaignUsageParameters delta) now (n_campaign_id n)),
       insertNativeStoreCampaignEvent ev, projectNativeStoreCampaign (n_campaign_id n) now,
       publishRelease receipt f (n_campaign_id n) resultHash])"

section \<open>Dispatch\<close>

datatype campaign_mutation =
    M_assertLiveNodeAttempt fence int bool string string
  | M_createCampaign json bool string int event_row
  | M_createCampaignExclusive json bool string int event_row
  | M_skipFutureRounds "string list" string int string event_row
  | M_pauseCampaign string int campaign_row event_row
  | M_resumeCampaign int json campaign_row bool event_row
  | M_cancelCampaign string int campaign_row event_row
  | M_failCampaign string int campaign_row event_row
  | M_stopCampaign string int campaign_row event_row
  | M_extendCampaign json "json list" campaign_row int event_row
  | M_cancelNode node_row "campaign_row option" "string list" string json string int event_row "event_row option"
  | M_retryNode node_row campaign_row "node_row list" int event_row
  | M_recordUsage string usage_delta int bool
  | M_recoverExpiredLeases node_row string bool int disposition refund json string "string list" event_row
  | M_renewNodeLease int int fence
  | M_claimReady string int string int node_row string
  | M_startNode node_row int fence usage_delta event_row
  | M_reserveNodeInfrastructureUsage node_row fence int refund event_row
  | M_markNodeExternalActionStarted node_row fence int json event_row
  | M_completeNodeExternalAction node_row fence int json "json \<times> string" usage_delta event_row
  | M_cancelNodeInfrastructureDeferred node_row int fence refund event_row
  | M_failNode node_row int fence node_status string json string bool usage_delta event_row
  | M_prepareNodeResult json string fence int bool "string option" event_row
  | M_beginNodeResultIntegration int int fence string event_row
  | M_markNodeResultIntegrated json string int fence string event_row
  | M_completeNode node_row int reviewer fence usage_delta event_row "release_row option"

fun applyNativeStoreCampaignMutation :: "runtime \<Rightarrow> campaign_mutation \<Rightarrow> tx" where
  "applyNativeStoreCampaignMutation rt (M_assertLiveNodeAttempt f now integrated key rh) =
    applyAssertLiveNodeAttempt f now integrated key rh"
| "applyNativeStoreCampaignMutation rt (M_createCampaign spec admitted phase now ev) =
    applyCreateCampaign spec admitted phase now ev"
| "applyNativeStoreCampaignMutation rt (M_createCampaignExclusive spec admitted phase now ev) =
    (\<lambda>db. Inl ''native_store_campaign_operation_invalid'')"
| "applyNativeStoreCampaignMutation rt (M_skipFutureRounds ids reason now cid ev) =
    applySkipFutureRounds ids reason now cid ev"
| "applyNativeStoreCampaignMutation rt (M_pauseCampaign reason now c ev) = applyPauseCampaign reason now c ev"
| "applyNativeStoreCampaignMutation rt (M_resumeCampaign now spec c reopen ev) =
    applyResumeCampaign now spec c reopen ev"
| "applyNativeStoreCampaignMutation rt (M_cancelCampaign reason now c ev) =
    applySettleCampaign C_cancelled Skipped ''campaign_cancel_failed'' reason now c ev"
| "applyNativeStoreCampaignMutation rt (M_failCampaign reason now c ev) =
    applySettleCampaign C_failed Failed_terminal ''campaign_fail_failed'' reason now c ev"
| "applyNativeStoreCampaignMutation rt (M_stopCampaign reason now c ev) =
    applySettleCampaign C_stopped Skipped ''campaign_stop_failed'' reason now c ev"
| "applyNativeStoreCampaignMutation rt (M_extendCampaign spec additions c now ev) =
    applyExtendCampaign spec additions c now ev"
| "applyNativeStoreCampaignMutation rt (M_cancelNode n c ids reason detail h now ev se) =
    applyCancelNode n c ids reason detail h now ev se"
| "applyNativeStoreCampaignMutation rt (M_retryNode n c siblings now ev) = applyRetryNode n c siblings now ev"
| "applyNativeStoreCampaignMutation rt (M_recordUsage cid delta now enforce) =
    runNativeStoreCampaignUsage enforce enforce (S_recordUsage (nativeStoreCampaignUsageParameters delta) now cid enforce)"
| "applyNativeStoreCampaignMutation rt (M_recoverExpiredLeases n cid expired now disp r detail h actions ev) =
    applyRecoverExpiredLease rt n cid expired now disp r detail h actions ev"
| "applyNativeStoreCampaignMutation rt (M_renewNodeLease expires now f) = applyRenewNodeLease expires now f"
| "applyNativeStoreCampaignMutation rt (M_claimReady w expires att now n cid) =
    applyClaimReady w expires att now n cid"
| "applyNativeStoreCampaignMutation rt (M_startNode before now f delta ev) = applyStartNode before now f delta ev"
| "applyNativeStoreCampaignMutation rt (M_reserveNodeInfrastructureUsage n f now u ev) =
    applyReserveNodeInfrastructureUsage n f now u ev"
| "applyNativeStoreCampaignMutation rt (M_markNodeExternalActionStarted n f now d ev) =
    applyMarkNodeExternalActionStarted rt n f now d ev"
| "applyNativeStoreCampaignMutation rt (M_completeNodeExternalAction n f now d completed delta ev) =
    applyCompleteNodeExternalAction rt n f now d completed delta ev"
| "applyNativeStoreCampaignMutation rt (M_cancelNodeInfrastructureDeferred n now f r ev) =
    applyCancelNodeInfrastructureDeferred rt n now f r ev"
| "applyNativeStoreCampaignMutation rt (M_failNode n now f status cls detail h abandon delta ev) =
    applyFailNode rt n now f status cls detail h abandon delta ev"
| "applyNativeStoreCampaignMutation rt (M_prepareNodeResult res h f now req key ev) =
    applyPrepareNodeResult res h f now req key ev"
| "applyNativeStoreCampaignMutation rt (M_beginNodeResultIntegration now expires f key ev) =
    applyBeginNodeResultIntegration now expires f key ev"
| "applyNativeStoreCampaignMutation rt (M_markNodeResultIntegrated receipt rh now f key ev) =
    applyMarkNodeResultIntegrated receipt rh now f key ev"
| "applyNativeStoreCampaignMutation rt (M_completeNode n now r f delta ev receipt) =
    applyCompleteNode n now r f delta ev receipt"

end
