(* ===== verification/Campaign_Lease_Store.thy ===== *)
theory Campaign_Lease_Store
  imports Campaign_Mutations Process_Identity
begin

text \<open>
  Lease operations of the campaign store (\<open>sqlite-campaign-lease-operations.mjs\<close>), the start
  and failure of an attempt (\<open>sqlite-campaign-node-attempt-operations.mjs\<close>) and the audit of an
  attempt's events (\<open>sqlite-campaign-node-infrastructure-reservations.mjs\<close>). An operation
  takes the backend it runs on; its legacy transaction is the list of statements it builds,
  its native one the mutation it submits.
\<close>

section \<open>Sequencing\<close>

fun op_map :: "('a \<Rightarrow> 'b op) \<Rightarrow> 'a list \<Rightarrow> 'b list op" where
  "op_map f [] = op_return []"
| "op_map f (x # xs) = op_bind (f x) (\<lambda>y. op_bind (op_map f xs) (\<lambda>ys. op_return (y # ys)))"

definition submit :: "runtime \<Rightarrow> backend \<Rightarrow> string \<Rightarrow> tx \<Rightarrow> campaign_mutation \<Rightarrow> unit op" where
  "submit rt be fallback statements m =
    mutation be fallback statements (applyNativeStoreCampaignMutation rt m)"

definition fence_required :: "fence \<Rightarrow> bool" where
  "fence_required f = (f_attempt f \<noteq> [])"

section \<open>The events of an attempt\<close>

record attempt_inspection =
  ai_refundable :: refund
  ai_actions :: "(string \<times> json) list"
  ai_unresolved :: "(string \<times> json) list"

definition started_action :: "runtime \<Rightarrow> string \<Rightarrow> int \<Rightarrow> json \<Rightarrow> string \<times> json" where
  "started_action rt attemptId generation e =
    (let d = (\<lambda>k. jpath [''detail'', k] e); i = started_action_id rt e in
     (i, JObj [(''externalActionId'', JStr i),
        (''action'', JStr (js_string rt (or_else (d ''action'') (JStr ''unspecified'')))),
        (''requestDigest'', or_else (d ''requestDigest'') JNull),
        (''resolverKind'', or_else (d ''resolverKind'') (JStr ''legacy-unqualified'')),
        (''actionOrdinal'', case js_number rt (Some (or_else (d ''actionOrdinal'') (JNum 0))) of
           None \<Rightarrow> JNull | Some q \<Rightarrow> JNum q),
        (''campaignPlanHash'', or_else (d ''campaignPlanHash'') JNull),
        (''nodeSemanticSpecHash'', or_else (d ''nodeSemanticSpecHash'') JNull),
        (''attemptId'', JStr attemptId), (''leaseGeneration'', JInt generation)]))"

definition inspectNodeInfrastructureAttempt :: "runtime \<Rightarrow> string \<Rightarrow> string \<Rightarrow> string \<Rightarrow> int \<Rightarrow> db \<Rightarrow> attempt_inspection result" where
  "inspectNodeInfrastructureAttempt rt cid nodeId attemptId generation db =
    rbind (infrastructureAttemptEvents rt recover_event_kinds cid nodeId attemptId generation db) (\<lambda>es.
    rbind (check (length (filter (event_kind_is ''campaign_node_started'') (filter is_reservation_event es)) = 1)
        ''campaign_node_infrastructure_reservation_invalid'') (\<lambda>_.
    rbind (rmap (\<lambda>e. assertNativeStoreNodeInfrastructureReservation rt
          (jpath [''detail'', ''infrastructureReservation''] e) cid nodeId attemptId generation)
        (filter is_reservation_event es)) (\<lambda>reservations.
    rbind (check (distinct (map rv_id reservations)) ''campaign_node_infrastructure_reservation_invalid'') (\<lambda>_.
    let started = map (started_action rt attemptId generation)
          (filter (event_kind_is ''campaign_node_external_action_started'') es);
        completedIds = map (\<lambda>e. action_id_or rt e [])
          (filter (event_kind_is ''campaign_node_external_action_completed'') es)
    in Inr \<lparr>ai_refundable = sum_refunds reservations, ai_actions = started,
         ai_unresolved = filter (\<lambda>a. fst a \<notin> set completedIds) started\<rparr>))))"

definition refundableNodeInfrastructureReservation :: "runtime \<Rightarrow> string \<Rightarrow> string \<Rightarrow> string \<Rightarrow> int \<Rightarrow> db \<Rightarrow> refund result" where
  "refundableNodeInfrastructureReservation rt cid nodeId attemptId generation db =
    rbind (inspectNodeInfrastructureAttempt rt cid nodeId attemptId generation db) (\<lambda>i.
      if ai_unresolved i \<noteq> [] then Inl ''campaign_node_infrastructure_external_action_may_have_started''
      else Inr (ai_refundable i))"

section \<open>Recovery of expired and orphaned leases\<close>

definition legacy_owner_pid :: "string \<Rightarrow> nat option" where
  "legacy_owner_pid owner =
    (let rest = drop 22 owner; ds = takeWhile is_digit rest in
     if take 22 owner = ''paper-campaign-worker:'' \<and> ds \<noteq> [] \<and> drop (length ds) rest \<noteq> []
        \<and> hd (drop (length ds) rest) = CHR '':''
     then Some (decimal_value ds) else None)"

definition owner_is_stale :: "os \<Rightarrow> string \<Rightarrow> bool" where
  "owner_is_stale os owner =
    (case parseProcessIdentitySuffix owner of
       Some i \<Rightarrow> processIdentityIsStale os i
     | None \<Rightarrow> (case legacy_owner_pid owner of
         Some p \<Rightarrow> processIdentityIsStale os \<lparr>pid = p, pidStartTime = None\<rparr>
       | None \<Rightarrow> False))"

definition recovery_candidate :: "os \<Rightarrow> int \<Rightarrow> node_row \<Rightarrow> bool" where
  "recovery_candidate os now n =
    (n_status n \<in> {Leased, Running} \<and> (lapsed now n \<or> owner_is_stale os (sqlText (lease_owner n))))"

definition no_refund :: refund where
  "no_refund = \<lparr>rf_agent = 0, rf_cpu = 0, rf_gpu = 0\<rparr>"

definition recovery_disposition :: "node_row \<Rightarrow> attempt_inspection option \<Rightarrow> disposition" where
  "recovery_disposition n inspection =
    (if n_status n = Leased then Leased_requeue
     else if prepared_hash n \<noteq> None then Prepared_result_recovery
     else if (case inspection of None \<Rightarrow> False | Some i \<Rightarrow> ai_unresolved i \<noteq> []) then Outcome_uncertain
     else Pre_external_action_refund)"

definition uncertain_detail :: "runtime \<Rightarrow> string \<Rightarrow> node_row \<Rightarrow> json list \<Rightarrow> int \<Rightarrow> json" where
  "uncertain_detail rt cid n actions now = JObj [(''version'', JInt 1),
    (''kind'', JStr ''CampaignNodeExternalOutcomeUncertain''), (''campaignId'', JStr cid),
    (''nodeId'', JStr (node_id n)), (''attemptId'', JOptStr (attempt_id n)),
    (''leaseGeneration'', JInt (lease_generation n)), (''externalActions'', JArr actions),
    (''detectedAt'', JStr (toISOString rt now))]"

definition recovery_event :: "runtime \<Rightarrow> env \<Rightarrow> nat \<Rightarrow> string \<Rightarrow> node_row \<Rightarrow> disposition \<Rightarrow> refund \<Rightarrow> json list \<Rightarrow> event_row" where
  "recovery_event rt env k cid n disp r actions =
    buildEvent rt env k cid (Some (node_id n))
      (if disp = Outcome_uncertain then ''campaign_node_external_outcome_uncertain'' else ''campaign_node_lease_recovered'')
      (JObj [(''previousLeaseOwner'', JOptStr (lease_owner n)), (''previousAttemptId'', JOptStr (attempt_id n)),
        (''leaseGeneration'', JInt (lease_generation n)), (''recoveryDisposition'', JStr (disposition_text disp)),
        (''budgetReservationRefunded'', JBool (disp = Pre_external_action_refund)),
        (''refundedUsage'', refund_json r), (''unresolvedExternalActions'', JArr actions)])
      (nowIso env)"

definition recovery_statements :: "node_row \<Rightarrow> string \<Rightarrow> bool \<Rightarrow> int \<Rightarrow> disposition \<Rightarrow> refund \<Rightarrow> json \<Rightarrow> string \<Rightarrow> event_row \<Rightarrow> tx" where
  "recovery_statements n cid expired now disp r detail hash ev =
    (let owner = Some (sqlText (lease_owner n)) in
     tx_seq ([if disp = Outcome_uncertain
         then guarded (S_recoverLeaseUncertain detail hash now (node_id n) cid owner
           (Some (sqlText (attempt_id n))) (lease_generation n) expired)
         else guarded (S_recoverLease (if n_status n = Running then 1 else 0) now (node_id n) cid (n_status n)
           owner (attempt_id n) (lease_generation n) expired)]
       @ (if disp = Pre_external_action_refund then [guarded (S_recoverLeaseUsage r now cid)] else [])
       @ [run (insert_event ev)]))"

definition recover_one :: "runtime \<Rightarrow> backend \<Rightarrow> env \<Rightarrow> string \<Rightarrow> nat \<times> node_row \<Rightarrow> node_row option list op" where
  "recover_one rt be env cid kn =
    (let k = fst kn; n = snd kn; now = nowIso env; expired = lapsed now n in
     op_bind (op_read (\<lambda>db. case attempt_id n of
         Some att \<Rightarrow> if n_status n = Running
           then rbind (inspectNodeInfrastructureAttempt rt cid (node_id n) att (lease_generation n) db) (\<lambda>i. Inr (Some i))
           else Inr None
       | None \<Rightarrow> Inr None)) (\<lambda>inspection.
     let disp = recovery_disposition n inspection in
     if disp = Pre_external_action_refund \<and> inspection = None then op_throw ''TypeError''
     else
       let r = (case inspection of Some i \<Rightarrow> if disp = Pre_external_action_refund then ai_refundable i else no_refund
                | None \<Rightarrow> no_refund);
           unresolved = (case inspection of Some i \<Rightarrow> if disp = Outcome_uncertain then ai_unresolved i else []
                | None \<Rightarrow> []);
           detail = uncertain_detail rt cid n (map snd unresolved) now;
           hash = hashRecord rt ''CampaignNodeFailureDetail'' detail;
           ev = recovery_event rt env k cid n disp r (map snd unresolved)
       in op_catch
            (op_bind (submit rt be ''campaign_lease_recovery_failed''
                (recovery_statements n cid expired now disp r detail hash ev)
                (M_recoverExpiredLeases n cid expired now disp r detail hash (map fst unresolved) ev)) (\<lambda>_.
             op_bind (op_read (readNode rt (node_id n))) (\<lambda>m. op_return [m])))
            (\<lambda>e. op_bind (op_read (readNode rt (node_id n))) (\<lambda>latest.
               case latest of
                 Some m \<Rightarrow> if n_status m = n_status n \<and> attempt_id m = attempt_id n
                     \<and> lease_generation m = lease_generation n \<and> lease_expires_at m = lease_expires_at n
                   then op_throw e else op_return []
               | None \<Rightarrow> op_return []))))"

definition recoverExpiredLeases :: "runtime \<Rightarrow> os \<Rightarrow> backend \<Rightarrow> env \<Rightarrow> string \<Rightarrow> node_row option list op" where
  "recoverExpiredLeases rt os be env cid =
    op_bind (op_read (listNodes rt cid)) (\<lambda>ns.
      op_bind (op_map (recover_one rt be env cid)
          (enumerate 0 (filter (recovery_candidate os (nowIso env)) ns)))
        (\<lambda>rs. op_return (concat rs)))"

section \<open>Renewal and claims\<close>

definition renewNodeLease :: "runtime \<Rightarrow> backend \<Rightarrow> env \<Rightarrow> fence \<Rightarrow> int \<Rightarrow> node_row option op" where
  "renewNodeLease rt be env f leaseSeconds =
    (if \<not> fence_required f then op_throw ''campaign_node_attempt_fence_required''
     else let now = nowIso env; expires = nowMs env + max 1 leaseSeconds * 1000 in
       op_bind (op_catch (submit rt be ''campaign_node_lease_renew_failed''
           (tx_seq [guarded (S_renewLease expires now f)]) (M_renewNodeLease expires now f))
         (\<lambda>_. op_throw ''campaign_node_lease_lost'')) (\<lambda>_.
       op_read (readNode rt (f_node f))))"

definition read_claimed :: "runtime \<Rightarrow> string \<Rightarrow> string \<Rightarrow> string \<Rightarrow> db \<Rightarrow> node_row list result" where
  "read_claimed rt nodeId workerId attemptId db =
    (case find (\<lambda>n. node_id n = nodeId \<and> lease_owner n = Some workerId \<and> attempt_id n = Some attemptId) (nodes db) of
       None \<Rightarrow> Inr []
     | Some n \<Rightarrow> rbind (mapCampaignNodeRow rt n) (\<lambda>m. Inr [m]))"

definition claim_one :: "runtime \<Rightarrow> backend \<Rightarrow> env \<Rightarrow> string \<Rightarrow> string \<Rightarrow> int \<Rightarrow> nat \<times> node_row \<Rightarrow> node_row list op" where
  "claim_one rt be env cid workerId expires kn =
    (let n = snd kn; attemptId = randomUUID env (fst kn); now = nowIso env in
     op_catch
       (op_bind (submit rt be ''campaign_node_claim_failed''
           (tx_seq [guarded (S_claimNode workerId expires attemptId now (node_id n) cid (node_revision n))])
           (M_claimReady workerId expires attemptId now n cid)) (\<lambda>_.
        op_read (read_claimed rt (node_id n) workerId attemptId)))
       (\<lambda>e. op_bind (op_read (readNode rt (node_id n))) (\<lambda>latest.
          op_bind (op_read (\<lambda>db. Inr (getCampaign cid db))) (\<lambda>c.
          case (latest, c) of
            (Some m, Some c) \<Rightarrow> if n_status m = Queued \<and> node_revision m = node_revision n \<and> c_status c = C_running
              then op_throw e else op_return []
          | _ \<Rightarrow> op_return []))))"

definition claimReady :: "runtime \<Rightarrow> os \<Rightarrow> backend \<Rightarrow> env \<Rightarrow> env \<Rightarrow> string \<Rightarrow> string \<Rightarrow> int \<Rightarrow> int \<Rightarrow> node_row list op" where
  "claimReady rt os be recoveryEnv env cid workerId leaseSeconds limit db =
    (if map_option c_status (getCampaign cid db) \<noteq> Some C_running then (Inr [], db)
     else op_bind (recoverExpiredLeases rt os be recoveryEnv cid) (\<lambda>_.
       op_bind (op_read (listNodes rt cid)) (\<lambda>ns.
       op_bind (op_map (claim_one rt be env cid workerId (nowMs env + max 1 leaseSeconds * 1000))
           (enumerate 0 (selectReadyCampaignNodes rt ns limit)))
         (\<lambda>cs. op_return (concat cs)))) db)"

section \<open>Start and failure of an attempt\<close>

definition started_event :: "runtime \<Rightarrow> env \<Rightarrow> node_row \<Rightarrow> fence \<Rightarrow> reservation \<Rightarrow> event_row" where
  "started_event rt env before f res =
    buildEvent rt env 0 (n_campaign_id before) (Some (f_node f)) ''campaign_node_started''
      (JObj [(''attempt'', JInt (attempt_count before + 1)), (''workerId'', JStr (f_worker f)),
        (''attemptId'', JStr (f_attempt f)), (''leaseGeneration'', JInt (f_generation f)),
        (''infrastructureReservation'', reservation_json res)]) (nowIso env)"

definition start_statements :: "node_row \<Rightarrow> int \<Rightarrow> fence \<Rightarrow> usage_delta \<Rightarrow> event_row \<Rightarrow> tx" where
  "start_statements before now f delta ev =
    tx_seq [guarded (S_startNode now f),
      guarded (S_startNodeCampaign (n_kind before) (max 0 (round_index before))
        (nativeStoreCampaignUsageParameters delta) now (n_campaign_id before)),
      run (insert_event ev)]"

definition already_running :: "fence \<Rightarrow> int \<Rightarrow> db \<Rightarrow> node_row \<Rightarrow> bool" where
  "already_running f now db n = (n_status n = Running \<and> lease_owner n = Some (f_worker f)
    \<and> attempt_id n = Some (f_attempt f) \<and> lease_generation n = f_generation f \<and> unexpired now n
    \<and> map_option c_status (getCampaign (n_campaign_id n) db) = Some C_running)"

definition startNode :: "runtime \<Rightarrow> backend \<Rightarrow> env \<Rightarrow> fence \<Rightarrow> usage_delta \<Rightarrow> node_row option op" where
  "startNode rt be env f delta =
    (if \<not> fence_required f then op_throw ''campaign_node_attempt_fence_required''
     else op_bind (op_read (readNode rt (f_node f))) (\<lambda>before.
       case before of None \<Rightarrow> op_throw (''campaign node not found: '' @ f_node f)
       | Some n \<Rightarrow>
         op_bind (op_read (\<lambda>db. Inr (already_running f (nowIso env) db n))) (\<lambda>replay.
         if replay then op_return (Some n)
         else op_bind (op_read (\<lambda>_. buildNativeStoreNodeInfrastructureReservation rt
               (Some (JStr (''node-attempt:'' @ f_attempt f @ '':base''))) (Some (JStr (n_campaign_id n)))
               (Some (JStr (f_node f))) (Some (JStr (f_attempt f))) (Some (JInt (f_generation f)))
               (usage_delta_json delta))) (\<lambda>res.
           let ev = started_event rt env n f res in
           op_bind (op_catch (submit rt be ''campaign_node_start_failed''
                 (start_statements n (nowIso env) f delta ev) (M_startNode n (nowIso env) f delta ev))
               (\<lambda>_. op_bind (op_read (readNode rt (f_node f))) (\<lambda>current.
                  case current of
                    Some m \<Rightarrow> if n_status m = Leased \<and> lease_owner m = Some (f_worker f)
                        \<and> attempt_id m = Some (f_attempt f) \<and> lease_generation m = f_generation f
                      then op_throw ''campaign_node_budget_reservation_failed''
                      else op_throw ''campaign_node_lease_lost''
                  | None \<Rightarrow> op_throw ''campaign_node_lease_lost''))) (\<lambda>_.
           op_read (readNode rt (f_node f)))))))"

definition fail_event :: "runtime \<Rightarrow> env \<Rightarrow> nat \<Rightarrow> node_row \<Rightarrow> fence \<Rightarrow> string \<Rightarrow> string \<Rightarrow> string \<Rightarrow> bool \<Rightarrow> event_row" where
  "fail_event rt env k n f kind class hash abandon =
    buildEvent rt env k (n_campaign_id n) (Some (f_node f)) kind
      (JObj [(''failureClass'', JStr class), (''failureHash'', JStr hash), (''attempt'', JInt (attempt_count n)),
        (''attemptId'', JStr (f_attempt f)), (''leaseGeneration'', JInt (f_generation f)),
        (''preparedResultAbandoned'', JBool abandon)]) (nowIso env)"

definition fail_statements :: "runtime \<Rightarrow> env \<Rightarrow> node_row \<Rightarrow> fence \<Rightarrow> node_status \<Rightarrow> string \<Rightarrow> json \<Rightarrow> string \<Rightarrow> bool
    \<Rightarrow> usage_delta \<Rightarrow> node_row list \<Rightarrow> event_row \<Rightarrow> tx" where
  "fail_statements rt env n f status class detail hash abandon delta siblings ev =
    (let now = nowIso env; cid = n_campaign_id n in
     tx_seq ([guarded (failNodeStatement abandon status class detail hash now f)]
       @ concat (map (\<lambda>(k, s). [guarded (settleStatement (terminalSiblingSettlement rt (f_node f) hash s) now cid s),
            run (insert_event (buildEvent rt env k (n_campaign_id s) (Some (node_id s)) ''campaign_terminal_sibling_settled''
              (settlement_event_detail rt (f_node f) hash s) now))]) (enumerate 0 siblings))
       @ [run (S_updateCampaignUsage (nativeStoreCampaignUsageParameters delta) now cid),
          run (insert_event ev), run (projectCampaign cid now)]))"

definition failNode :: "runtime \<Rightarrow> backend \<Rightarrow> env \<Rightarrow> fence \<Rightarrow> string \<Rightarrow> json \<Rightarrow> bool \<Rightarrow> bool \<Rightarrow> usage_delta \<Rightarrow> node_row option op" where
  "failNode rt be env f class detail retryable abandon delta =
    (if \<not> fence_required f then op_throw ''campaign_node_attempt_fence_required''
     else op_bind (op_read (readNode rt (f_node f))) (\<lambda>before.
       case before of None \<Rightarrow> op_throw (''campaign node not found: '' @ f_node f)
       | Some n \<Rightarrow>
         let transition = decideNodeFailureTransition n retryable; status = ft_status transition;
             hash = hashRecord rt ''PaperCampaignNodeFailure'' detail in
         op_bind (op_read (\<lambda>db. if status = Failed_terminal
             then rmap (mapCampaignNodeRow rt) (S_inspectTerminalSiblingNodes False (n_campaign_id n) (f_node f) db)
             else Inr [])) (\<lambda>siblings.
         let ev = fail_event rt env (length siblings) n f (ft_event_kind transition) class hash abandon in
         op_bind (op_catch (submit rt be ''campaign_node_failure_failed''
               (fail_statements rt env n f status class detail hash abandon delta siblings ev)
               (M_failNode n (nowIso env) f status class detail hash abandon delta ev))
             (\<lambda>_. op_throw ''campaign_node_lease_lost'')) (\<lambda>_.
         op_read (readNode rt (f_node f))))))"

end
