(* ===== verification/Campaign_Definition.thy ===== *)
theory Campaign_Definition
  imports Campaign_Mutations Process_Identity
begin

text \<open>
  What a campaign definition must satisfy and how it may change: the release topology gate
  (\<open>campaign-release-topology-policy.mjs\<close>), the definition codec
  (\<open>campaign-definition-codec.mjs\<close>), the execution admission marker
  (\<open>autonomous-research-campaign-execution-admission.mjs\<close>) and the evolution of a stopped
  campaign (\<open>campaign-evolution-policy.mjs\<close>). The verifiers of the machine intake and of the
  local budget waiver are the fields of \<open>verifiers\<close>; they see exactly the specification and
  the two identities the callers pass on.
\<close>

record verifiers =
  waiver_binding :: "json \<Rightarrow> string \<Rightarrow> string \<Rightarrow> unit result"
  intake_valid :: "json option \<Rightarrow> bool"
  intake_admission_valid :: "json option \<Rightarrow> json option \<Rightarrow> bool"

section \<open>JSON objects\<close>

fun obj_set :: "string \<Rightarrow> 'a \<Rightarrow> (string \<times> 'a) list \<Rightarrow> (string \<times> 'a) list" where
  "obj_set k v [] = [(k, v)]"
| "obj_set k v ((k', v') # es) = (if k' = k then (k, v) # es else (k', v') # obj_set k v es)"

definition obj_spread :: "(string \<times> 'a) list \<Rightarrow> (string \<times> 'a) list \<Rightarrow> (string \<times> 'a) list" where
  "obj_spread base over = fold (\<lambda>(k, v). obj_set k v) over base"

definition without_keys :: "string list \<Rightarrow> (string \<times> 'a) list \<Rightarrow> (string \<times> 'a) list" where
  "without_keys ks es = filter (\<lambda>e. fst e \<notin> set ks) es"

definition nullish :: "json option \<Rightarrow> json option \<Rightarrow> json option" where
  "nullish v w = (case v of None \<Rightarrow> w | Some JNull \<Rightarrow> w | _ \<Rightarrow> v)"

definition num_json :: "rat option \<Rightarrow> json" where
  "num_json q = (case q of None \<Rightarrow> JNull | Some r \<Rightarrow> JNum r)"

definition text_of :: "runtime \<Rightarrow> json option \<Rightarrow> string" where
  "text_of rt v = (case v of None \<Rightarrow> ''undefined'' | Some w \<Rightarrow> js_string rt w)"

definition str_or :: "runtime \<Rightarrow> json option \<Rightarrow> string" where
  "str_or rt v = js_string rt (or_else v (JStr []))"

definition deps :: "runtime \<Rightarrow> json \<Rightarrow> string list" where
  "deps rt nd = (case jget ''dependencies'' nd of Some (JArr vs) \<Rightarrow> map (js_string rt) vs | _ \<Rightarrow> [])"

definition unique :: "'a list \<Rightarrow> 'a list" where
  "unique xs = rev (remdups (rev xs))"

lemma obj_set_get [simp]: "map_of (obj_set k v es) k' = (if k' = k then Some v else map_of es k')"
  by (induction es) auto

lemma set_unique [simp]: "set (unique xs) = set xs"
  by (simp add: unique_def)

lemma unique_Nil_iff [simp]: "unique xs = [] \<longleftrightarrow> xs = []"
  by (simp add: unique_def)

section \<open>Release topology\<close>

definition kind_words :: "runtime \<Rightarrow> json \<Rightarrow> string list" where
  "kind_words rt nd = split_on CHR ''-'' (str_or rt (jget ''kind'' nd))"

fun has_pair :: "'a \<Rightarrow> 'a \<Rightarrow> 'a list \<Rightarrow> bool" where
  "has_pair a b (x # y # ys) = ((x = a \<and> y = b) \<or> has_pair a b (y # ys))"
| "has_pair a b _ = False"

definition isEmpiricalReplay :: "runtime \<Rightarrow> json \<Rightarrow> bool" where
  "isEmpiricalReplay rt nd = has_pair ''empirical'' ''reproduce'' (kind_words rt nd)"

definition isEmpiricalRun :: "runtime \<Rightarrow> json \<Rightarrow> bool" where
  "isEmpiricalRun rt nd = (''empirical'' \<in> set (kind_words rt nd) \<and> \<not> isEmpiricalReplay rt nd)"

definition sourceClosureTerminal :: "json option \<Rightarrow> bool" where
  "sourceClosureTerminal nd = (jtruthy (Option.bind nd (jget ''sourceClosureTerminal''))
    \<or> jtruthy (Option.bind nd (jpath [''spec'', ''sourceClosureTerminal''])))"

definition sourceMutationForbidden :: "json option \<Rightarrow> bool" where
  "sourceMutationForbidden nd =
    (let own = Option.bind nd (jget ''sourceMutationPolicy'');
         nested = Option.bind nd (jpath [''spec'', ''sourceMutationPolicy''])
     in (if jtruthy own then own else nested) = Some (JStr ''forbid''))"

definition kind_is :: "string \<Rightarrow> json \<Rightarrow> bool" where
  "kind_is k nd = (jget ''kind'' nd = Some (JStr k))"

definition is_package :: "runtime \<Rightarrow> json \<Rightarrow> bool" where
  "is_package rt nd = (str_or rt (jget ''kind'' nd) \<in> {''package'', ''release-package''})"

definition by_id :: "runtime \<Rightarrow> json list \<Rightarrow> (string \<times> json) list" where
  "by_id rt nds = fold (\<lambda>nd. obj_set (str_or rt (jget ''nodeId'' nd)) nd) nds []"

abbreviation id_text :: "runtime \<Rightarrow> json \<Rightarrow> string" where
  "id_text rt nd \<equiv> text_of rt (jget ''nodeId'' nd)"

definition blocker :: "bool \<Rightarrow> string \<Rightarrow> string list" where
  "blocker b msg = (if b then [msg] else [])"

record package_topology =
  pt_package :: json
  pt_final_compile :: "json option"
  pt_research_verify :: "json option"

definition head_option :: "'a list \<Rightarrow> 'a option" where
  "head_option xs = (case xs of [] \<Rightarrow> None | x # _ \<Rightarrow> Some x)"

definition direct_dependencies :: "runtime \<Rightarrow> (string \<times> json) list \<Rightarrow> json \<Rightarrow> json list" where
  "direct_dependencies rt byId pkg = List.map_filter (map_of byId) (unique (deps rt pkg))"

definition select_topology :: "runtime \<Rightarrow> (string \<times> json) list \<Rightarrow> json \<Rightarrow> package_topology" where
  "select_topology rt byId pkg =
    (let direct = direct_dependencies rt byId pkg in
     \<lparr>pt_package = pkg, pt_final_compile = head_option (filter (kind_is ''final-compile'') direct),
      pt_research_verify = head_option (filter (kind_is ''research-verify'') direct)\<rparr>)"

definition deps_opt :: "runtime \<Rightarrow> json option \<Rightarrow> string list" where
  "deps_opt rt nd = (case nd of None \<Rightarrow> [] | Some v \<Rightarrow> deps rt v)"

definition package_blockers :: "runtime \<Rightarrow> (string \<times> json) list \<Rightarrow> json \<Rightarrow> string list" where
  "package_blockers rt byId pkg =
    (let values = map snd byId; pid = id_text rt pkg;
         direct = direct_dependencies rt byId pkg;
         finals = filter (kind_is ''final-compile'') direct;
         researches = filter (kind_is ''research-verify'') direct;
         final = head_option finals; research = head_option researches;
         formals = filter (kind_is ''formal-verify'') values;
         runs = filter (isEmpiricalRun rt) values; replays = filter (isEmpiricalReplay rt) values;
         researchDeps = deps_opt rt research;
         closureFormal = filter (\<lambda>n. sourceClosureTerminal (Some n)) formals;
         closureReplays = filter (\<lambda>n. sourceClosureTerminal (Some n)) replays
     in blocker (length finals \<noteq> 1) (''campaign_release_final_compile_dependency_invalid:'' @ pid)
      @ blocker (length researches \<noteq> 1) (''campaign_release_research_dependency_invalid:'' @ pid)
      @ (case (final, research) of (Some fc, Some rv) \<Rightarrow> blocker (id_text rt fc \<notin> set (deps rt rv))
            (''campaign_release_research_final_compile_dependency_missing:'' @ pid) | _ \<Rightarrow> [])
      @ concat (map (\<lambda>fv. blocker (id_text rt fv \<notin> set researchDeps)
          (''campaign_release_research_formal_verification_dependency_missing:'' @ pid @ '':'' @ id_text rt fv)) formals)
      @ concat (map (\<lambda>rp. blocker (id_text rt rp \<notin> set researchDeps)
          (''campaign_release_research_empirical_replay_dependency_missing:'' @ pid @ '':'' @ id_text rt rp)) replays)
      @ (if formals = [] then []
         else if length closureFormal \<noteq> 1 then [''campaign_release_formal_source_closure_invalid:'' @ pid]
         else blocker (id_text rt (hd closureFormal) \<notin> set (deps_opt rt final))
           (''campaign_release_final_compile_formal_source_closure_dependency_missing:'' @ pid))
      @ (if runs = [] then []
         else blocker (closureReplays = []) (''campaign_release_empirical_source_closure_missing:'' @ pid)
           @ concat (map (\<lambda>rp.
               let sealed = filter (\<lambda>c. isEmpiricalRun rt c \<and> sourceClosureTerminal (Some c))
                     (List.map_filter (map_of byId) (deps rt rp))
               in blocker (length sealed \<noteq> 1 \<or> \<not> sourceMutationForbidden (Some rp)
                      \<or> \<not> sourceMutationForbidden (head_option sealed))
                    (''campaign_release_empirical_source_closure_not_sealed:'' @ id_text rt rp)
                 @ blocker (id_text rt rp \<notin> set (deps_opt rt final))
                    (''campaign_release_final_compile_empirical_source_closure_dependency_missing:'' @ pid @ '':'' @ id_text rt rp))
               closureReplays))
      @ blocker ((formals \<noteq> [] \<or> runs \<noteq> []) \<and> (\<not> sourceClosureTerminal final \<or> \<not> sourceMutationForbidden final))
          (''campaign_release_final_compile_source_closure_not_sealed:'' @ pid))"

record release_topology =
  rt_packaging :: bool
  rt_packages :: "package_topology list"
  rt_blockers :: "string list"

definition evaluateCampaignReleaseTopology :: "runtime \<Rightarrow> json list \<Rightarrow> release_topology" where
  "evaluateCampaignReleaseTopology rt nds =
    (let byId = by_id rt nds; values = map snd byId;
         packages = filter (is_package rt) values;
         runs = filter (isEmpiricalRun rt) values; replays = filter (isEmpiricalReplay rt) values;
         blockers = blocker (packages \<noteq> [] \<and> runs \<noteq> [] \<and> replays = []) ''campaign_release_empirical_replay_required''
           @ (if packages = [] then [] else
               concat (map (\<lambda>run. blocker (\<not> list_ex (\<lambda>replay. id_text rt run \<in> set (deps rt replay)) replays)
                 (''campaign_release_empirical_run_replay_missing:'' @ id_text rt run)) runs)
             @ concat (map (\<lambda>replay. blocker (\<not> list_ex (\<lambda>d. list_ex (\<lambda>run. id_text rt run = d) runs) (deps rt replay))
                 (''campaign_release_empirical_replay_run_dependency_missing:'' @ id_text rt replay)) replays))
           @ concat (map (package_blockers rt byId) packages)
     in \<lparr>rt_packaging = (packages \<noteq> []), rt_packages = map (select_topology rt byId) packages,
         rt_blockers = unique blockers\<rparr>)"

definition evaluatePackageResearchTopology :: "runtime \<Rightarrow> json list \<Rightarrow> json \<Rightarrow> package_topology option" where
  "evaluatePackageResearchTopology rt nds packageNode =
    find (\<lambda>t. jget ''nodeId'' (pt_package t) = jget ''nodeId'' packageNode)
      (rt_packages (evaluateCampaignReleaseTopology rt nds))"

section \<open>Definition codec\<close>

definition int_or :: "runtime \<Rightarrow> json option \<Rightarrow> rat \<Rightarrow> rat option" where
  "int_or rt v d = js_number rt (Some (or_else v (JNum d)))"

definition max_one :: "rat option \<Rightarrow> rat option" where
  "max_one q = map_option (\<lambda>r. max 1 r) q"

definition object_entries :: "json \<Rightarrow> (string \<times> json) list" where
  "object_entries v = (case v of JObj es \<Rightarrow> es | _ \<Rightarrow> [])"

definition normalizedNode :: "runtime \<Rightarrow> json \<Rightarrow> json" where
  "normalizedNode rt nd = JObj (obj_spread (object_entries nd)
    [(''nodeId'', JStr (str_or rt (jget ''nodeId'' nd))), (''kind'', JStr (str_or rt (jget ''kind'' nd))),
     (''roundIndex'', num_json (int_or rt (jget ''roundIndex'' nd) 0)),
     (''priority'', num_json (int_or rt (jget ''priority'' nd) 100)),
     (''dependencies'', JArr (map JStr (sortStrings (unique (deps rt nd))))),
     (''maxAttempts'', num_json (max_one (int_or rt (jget ''maxAttempts'' nd) 3))),
     (''role'', or_else (jget ''role'' nd) JNull)])"

definition canonicalCampaignDefinition :: "runtime \<Rightarrow> json \<Rightarrow> json" where
  "canonicalCampaignDefinition rt spec =
    JObj (obj_spread (object_entries spec)
      [(''campaignId'', JStr (str_or rt (jget ''campaignId'' spec))),
       (''paperId'', JStr (str_or rt (jget ''paperId'' spec))),
       (''maxRounds'', num_json (max_one (int_or rt (jget ''maxRounds'' spec) 1))),
       (''parentCampaignId'', or_else (jget ''parentCampaignId'' spec) JNull),
       (''supersedesCampaignId'', or_else (jget ''supersedesCampaignId'' spec) JNull),
       (''recoveryOfCampaignId'', or_else (jget ''recoveryOfCampaignId'' spec) JNull),
       (''nodes'', JArr (sort_by (\<lambda>x y. localeCompare rt (spec_string ''nodeId'' x) (spec_string ''nodeId'' y))
         (map (normalizedNode rt) (spec_list ''nodes'' spec))))])"

definition local_mode :: "json \<Rightarrow> bool" where
  "local_mode spec = (jget ''localOnly'' spec = Some (JBool True)
    \<or> jtruthy (jget ''directLocalRunBudgetWaiver'' spec) \<or> jtruthy (jget ''autonomousResearchPreparation'' spec))"

definition assertCampaignDefinition :: "runtime \<Rightarrow> verifiers \<Rightarrow> json \<Rightarrow> unit result" where
  "assertCampaignDefinition rt v spec =
    (let nodes = spec_list ''nodes'' spec;
         nodeIds = map (\<lambda>nd. str_or rt (jget ''nodeId'' nd)) nodes;
         topology = evaluateCampaignReleaseTopology rt nodes in
     rbind (check (jtruthy (jget ''campaignId'' spec) \<and> jtruthy (jget ''paperId'' spec) \<and> nodes \<noteq> [])
         ''campaignId, paperId and non-empty nodes are required'') (\<lambda>_.
     rbind (check ([] \<notin> set nodeIds \<and> distinct nodeIds) ''campaign_definition_duplicate_or_missing_node_id'') (\<lambda>_.
     rbind (check (list_all (\<lambda>nd. jtruthy (jget ''kind'' nd) \<and> list_all (\<lambda>d. d \<in> set nodeIds) (deps rt nd)) nodes)
         ''campaign_definition_node_or_dependency_invalid'') (\<lambda>_.
     rbind (if local_mode spec then waiver_binding v spec (str_or rt (jget ''campaignId'' spec))
           (str_or rt (jget ''paperId'' spec)) else Inr ()) (\<lambda>_.
     rbind (check (rt_blockers topology = [])
         (''campaign_definition_release_topology_invalid:'' @ join '','' (rt_blockers topology))) (\<lambda>_.
     rbind (check (rt_packaging topology \<or> local_mode spec \<longrightarrow>
           jtruthy (jget ''campaignPlanHash'' spec) \<and> jget ''campaignPlanHash'' spec
             = Some (JStr (hashRecord rt ''PaperCampaignPlan'' (without_key ''campaignPlanHash'' spec))))
         ''campaign_definition_plan_hash_invalid'') (\<lambda>_.
     check (rt_packaging topology \<longrightarrow> jget ''researchVerificationRequired'' spec = Some (JBool True)
           \<and> jpath [''paperQualityRequirements'', ''researchVerificationRequired''] spec = Some (JBool True))
         ''campaign_definition_release_research_requirement_invalid'')))))))"

definition campaignDefinitionHash :: "runtime \<Rightarrow> json \<Rightarrow> string" where
  "campaignDefinitionHash rt spec = hashRecord rt ''PaperCampaignDefinition'' (canonicalCampaignDefinition rt spec)"

definition persistedCampaignDefinition :: "campaign_row \<Rightarrow> node_row list \<Rightarrow> json" where
  "persistedCampaignDefinition c ns =
    JObj (obj_spread (object_entries (c_spec c))
      [(''campaignId'', JStr (campaign_id c)), (''paperId'', JStr (paper_id c)), (''maxRounds'', JInt (max_rounds c)),
       (''parentCampaignId'', JOptStr (parent_campaign_id c)),
       (''supersedesCampaignId'', JOptStr (supersedes_campaign_id c)),
       (''recoveryOfCampaignId'', JOptStr (recovery_of_campaign_id c)),
       (''nodes'', JArr (map (\<lambda>n. JObj (obj_spread (object_entries (n_spec n))
         [(''nodeId'', JStr (node_id n)), (''kind'', JStr (n_kind n)), (''roundIndex'', JInt (round_index n)),
          (''priority'', JInt (priority n)), (''dependencies'', JArr (map JStr (dependencies n))),
          (''maxAttempts'', JInt (max_attempts n)), (''role'', JOptStr (role (review n)))])) ns))])"

definition assertCampaignDefinitionReplay :: "runtime \<Rightarrow> json \<Rightarrow> campaign_row \<Rightarrow> node_row list \<Rightarrow> string result" where
  "assertCampaignDefinitionReplay rt spec c ns =
    (if campaignDefinitionHash rt spec \<noteq> campaignDefinitionHash rt (persistedCampaignDefinition c ns)
     then Inl ''campaign_definition_conflict'' else Inr (campaignDefinitionHash rt spec))"

section \<open>Execution admission\<close>

definition machine_marker_keys :: "string list" where
  "machine_marker_keys = [''autonomousResearchMachineIntake'', ''autonomousResearchMachineIntakeHash'',
    ''autonomousResearchMachineIntakeAdmission'', ''autonomousResearchMachineIntakeAdmissionHash'', ''executionAdmission'']"

definition execution_admission_keys :: "string list" where
  "execution_admission_keys = sortStrings [''autonomousResearchCampaignExecutionAdmissionHash'',
    ''autonomousResearchMachineIntakeAdmissionHash'', ''autonomousResearchMachineIntakeHash'',
    ''initialCampaignStatus'', ''kind'', ''launchMode'', ''providerConfigurationHash'', ''status'',
    ''supervisorDispatchAuthorizationRequired'', ''version'']"

definition hasExactPlainObjectKeys :: "json option \<Rightarrow> string list \<Rightarrow> bool" where
  "hasExactPlainObjectKeys v ks = (case v of Some (JObj es) \<Rightarrow> sortStrings (map fst es) = sortStrings ks | _ \<Rightarrow> False)"

definition lower_char :: "char \<Rightarrow> char" where
  "lower_char c = (if CHR ''A'' \<le> c \<and> c \<le> CHR ''Z'' then char_of (of_char c + (32::nat)) else c)"

definition sha256_any_case :: "runtime \<Rightarrow> json option \<Rightarrow> bool" where
  "sha256_any_case rt v = is_sha256 (map lower_char (str_or rt v))"

record admission =
  ad_present :: bool
  ad_valid :: bool
  ad_hash :: "string option"

definition admission_valid :: "runtime \<Rightarrow> verifiers \<Rightarrow> json \<Rightarrow> bool" where
  "admission_valid rt v spec =
    (let intake = jget ''autonomousResearchMachineIntake'' spec;
         intakeAdmission = jget ''autonomousResearchMachineIntakeAdmission'' spec;
         ex = jget ''executionAdmission'' spec; prep = jget ''autonomousResearchPreparation'' spec;
         e = (\<lambda>k. Option.bind ex (jget k)); i = (\<lambda>k. Option.bind intake (jget k));
         p = (\<lambda>k. Option.bind prep (jget k));
         admissionHash = Option.bind intakeAdmission (jget ''autonomousResearchMachineIntakeAdmissionHash'');
         claimed = e ''autonomousResearchCampaignExecutionAdmissionHash'';
         planHash = jget ''campaignPlanHash'' spec
     in list_all (\<lambda>k. jget k spec \<noteq> None) machine_marker_keys
      \<and> intake_valid v intake \<and> intake_admission_valid v intakeAdmission intake
      \<and> jget ''autonomousResearchMachineIntakeHash'' spec = i ''intakeHash''
      \<and> jget ''autonomousResearchMachineIntakeAdmissionHash'' spec = admissionHash
      \<and> hasExactPlainObjectKeys ex execution_admission_keys
      \<and> e ''version'' = Some (JNum 1) \<and> e ''kind'' = Some (JStr ''AutonomousResearchCampaignExecutionAdmission'')
      \<and> e ''status'' = Some (JStr ''autonomous_research_campaign_admitted_not_authorized'')
      \<and> e ''initialCampaignStatus'' = Some (JStr ''paused'')
      \<and> e ''supervisorDispatchAuthorizationRequired'' = Some (JBool True)
      \<and> e ''launchMode'' \<in> {Some (JStr ''golden-bootstrap''), Some (JStr ''production-run'')}
      \<and> e ''autonomousResearchMachineIntakeHash'' = i ''intakeHash''
      \<and> e ''autonomousResearchMachineIntakeAdmissionHash'' = admissionHash
      \<and> e ''launchMode'' = i ''launchMode'' \<and> e ''launchMode'' = p ''launchMode''
      \<and> e ''providerConfigurationHash'' = i ''providerConfigurationHash''
      \<and> e ''providerConfigurationHash'' = p ''autonomousResearchProviderConfigurationHash''
      \<and> p ''autonomousResearchMachineIntakeAdmissionHash'' = admissionHash
      \<and> i ''campaignId'' = jget ''campaignId'' spec \<and> i ''paperId'' = jget ''paperId'' spec
      \<and> sha256_any_case rt claimed
      \<and> claimed = Some (JStr (hashRecord rt ''AutonomousResearchCampaignExecutionAdmission''
          (JObj (without_keys [''autonomousResearchCampaignExecutionAdmissionHash'']
            (case ex of Some x \<Rightarrow> object_entries x | None \<Rightarrow> [])))))
      \<and> sha256_any_case rt planHash
      \<and> planHash = Some (JStr (hashRecord rt ''PaperCampaignPlan'' (without_key ''campaignPlanHash'' spec))))"

definition inspectAutonomousResearchCampaignExecutionAdmission :: "runtime \<Rightarrow> verifiers \<Rightarrow> json \<Rightarrow> admission" where
  "inspectAutonomousResearchCampaignExecutionAdmission rt v spec =
    (let present = (list_ex (\<lambda>k. jget k spec \<noteq> None) machine_marker_keys
           \<or> jpath [''autonomousResearchPreparation'', ''autonomousResearchMachineIntakeAdmissionHash''] spec \<noteq> None);
         valid = admission_valid rt v spec
     in if \<not> present then \<lparr>ad_present = False, ad_valid = True, ad_hash = None\<rparr>
        else \<lparr>ad_present = True, ad_valid = valid,
          ad_hash = (if valid then jstr (jpath [''executionAdmission'', ''autonomousResearchCampaignExecutionAdmissionHash''] spec)
            else None)\<rparr>)"

section \<open>Evolution of a stopped campaign\<close>

definition CAMPAIGN_BUDGET_KEYS :: "string list" where
  "CAMPAIGN_BUDGET_KEYS = [''maxWallTimeMs'', ''maxAgentCalls'', ''maxCpuJobs'', ''maxGpuJobs'', ''maxTokenCount'',
    ''maxCostUsd'', ''maxMemoryMiB'']"

definition exhausted_budget :: "string \<Rightarrow> (string \<times> (campaign_row \<Rightarrow> rat)) option" where
  "exhausted_budget reason = map_of
    [(''campaign_wall_time_budget_exhausted'', (''maxWallTimeMs'', \<lambda>c. of_int (accumulated_run_ms c))),
     (''campaign_agent_call_budget_exhausted'', (''maxAgentCalls'', \<lambda>c. of_int (agent_call_count c))),
     (''campaign_cpu_job_budget_exhausted'', (''maxCpuJobs'', \<lambda>c. of_int (cpu_job_count c))),
     (''campaign_gpu_job_budget_exhausted'', (''maxGpuJobs'', \<lambda>c. of_int (gpu_job_count c))),
     (''campaign_token_budget_exhausted'', (''maxTokenCount'', \<lambda>c. of_int (token_count c))),
     (''campaign_cost_budget_exhausted'', (''maxCostUsd'', \<lambda>c. cost_usd c))] reason"

definition supervisor_recoverable :: "string \<Rightarrow> bool" where
  "supervisor_recoverable reason = (reason \<in> {''supervisor_process_shutdown'', ''supervisor_transient_failure'',
    ''supervisor_lease_lost''})"

definition override_valid :: "string \<Rightarrow> json \<Rightarrow> bool" where
  "override_valid key v = (case v of JNum q \<Rightarrow> 0 \<le> q \<and> (key = ''maxCostUsd'' \<or> isSafeInteger q) | _ \<Rightarrow> False)"

fun normalizedOverrides :: "runtime \<Rightarrow> json \<Rightarrow> (string \<times> json) list \<Rightarrow> (string \<times> json) list result" where
  "normalizedOverrides rt previous [] = Inr []"
| "normalizedOverrides rt previous ((key, v) # rest) =
    rbind (check (key \<in> set CAMPAIGN_BUDGET_KEYS) (''unsupported_campaign_budget:'' @ key)) (\<lambda>_.
    rbind (check (override_valid key v) (''invalid_campaign_budget:'' @ key)) (\<lambda>_.
    rbind (check (case (v, js_number rt (nullish (jget key previous) (Some (JNum 0)))) of
          (JNum q, Some p) \<Rightarrow> p \<le> q | _ \<Rightarrow> True) (''campaign_budget_cannot_decrease:'' @ key)) (\<lambda>_.
    rbind (normalizedOverrides rt previous rest) (\<lambda>os. Inr ((key, v) # os)))))"

record evolution =
  ev_spec :: json
  ev_overrides :: "(string \<times> json) list"
  ev_stopped_for_budget :: bool
  ev_reopen :: bool
  ev_previous_plan :: json

definition evolveCampaignForResume :: "runtime \<Rightarrow> verifiers \<Rightarrow> campaign_row \<Rightarrow> (string \<times> json) list \<Rightarrow> evolution result" where
  "evolveCampaignForResume rt v c budgetOverrides =
    (let reason = sqlText (stop_reason c); spec = c_spec c; stopped = (c_status c = C_stopped);
         exhausted = (if stopped then exhausted_budget reason else None);
         recoverable = (stopped \<and> supervisor_recoverable reason);
         previous = or_else (jget ''budgets'' spec) (JObj []) in
     rbind (check (c_status c = C_paused \<or> stopped) (''campaign_not_resumable:'' @
         (if reason = [] then campaign_status_text (c_status c) else reason))) (\<lambda>_.
     rbind (check (\<not> (stopped \<and> exhausted = None \<and> \<not> recoverable))
         (''campaign_not_resumable:'' @ (if reason = [] then ''stopped'' else reason))) (\<lambda>_.
     rbind (if local_mode spec then waiver_binding v spec (campaign_id c) (paper_id c) else Inr ()) (\<lambda>_.
     rbind (normalizedOverrides rt previous budgetOverrides) (\<lambda>overrides.
     rbind (check (case exhausted of None \<Rightarrow> True
         | Some (key, used) \<Rightarrow> (case map_of overrides key of Some (JNum q) \<Rightarrow> used c < q | _ \<Rightarrow> False))
         (''campaign_budget_extension_required:'' @ (case exhausted of Some (key, _) \<Rightarrow> key | None \<Rightarrow> []))) (\<lambda>_.
     let payload = JObj (obj_set ''budgets'' (JObj (obj_spread (object_entries previous) overrides))
           (without_keys [''campaignPlanHash''] (object_entries spec))) in
     rbind (if local_mode payload then waiver_binding v payload (campaign_id c) (paper_id c) else Inr ()) (\<lambda>_.
     Inr \<lparr>ev_spec = JObj (object_entries payload @ [(''campaignPlanHash'', JStr (hashRecord rt ''PaperCampaignPlan'' payload))]),
       ev_overrides = overrides, ev_stopped_for_budget = (exhausted \<noteq> None),
       ev_reopen = (exhausted \<noteq> None \<or> recoverable),
       ev_previous_plan = (case jget ''campaignPlanHash'' spec of None \<Rightarrow> JNull | Some h \<Rightarrow> h)\<rparr>)))))))"

definition executionIntentInvariant :: "json option \<Rightarrow> json" where
  "executionIntentInvariant intent =
    (case intent of Some (JObj es) \<Rightarrow> JObj (without_keys [''requestedMaxRounds'', ''effectiveMaxRounds''] es)
     | _ \<Rightarrow> or_else intent JNull)"

definition campaignExtensionInvariant :: "json \<Rightarrow> json" where
  "campaignExtensionInvariant spec =
    JObj (without_keys [''campaignPlanHash'', ''requestedMaxRounds'', ''maxRounds'', ''budgets'', ''nodes'', ''executionIntent'']
      (object_entries spec) @ [(''executionIntent'', executionIntentInvariant (jget ''executionIntent'' spec))])"

definition nodeStructure :: "runtime \<Rightarrow> json \<Rightarrow> json" where
  "nodeStructure rt nd =
    (let source = (case jget ''spec'' nd of Some (JObj es) \<Rightarrow> JObj es | Some (JArr vs) \<Rightarrow> JArr vs | _ \<Rightarrow> nd);
         either = (\<lambda>k. if jtruthy (jget k nd) then jget k nd else jget k source);
         coalesced = (\<lambda>k d. js_number rt (nullish (jget k nd) (nullish (jget k source) (Some (JNum d)))))
     in JObj [(''nodeId'', JStr (str_or rt (either ''nodeId''))), (''kind'', JStr (str_or rt (either ''kind''))),
          (''roundIndex'', num_json (coalesced ''roundIndex'' 0)), (''priority'', num_json (coalesced ''priority'' 100)),
          (''dependencies'', JArr (map JStr (sortStrings (unique
            (if jtruthy (jget ''dependencies'' nd) then deps rt nd else deps rt source))))),
          (''maxAttempts'', num_json (max_one (coalesced ''maxAttempts'' 3))),
          (''role'', case nullish (jget ''role'' nd) (nullish (jget ''role'' source) (Some JNull)) of Some r \<Rightarrow> r | None \<Rightarrow> JNull),
          (''language'', or_else (jget ''language'' source) JNull),
          (''requiresGpu'', JBool (jtruthy (jget ''requiresGpu'' source))),
          (''executionIntent'', executionIntentInvariant (jget ''executionIntent'' source)),
          (''advancedNumericalExecutionPlanHash'', or_else (jget ''advancedNumericalExecutionPlanHash'' source) JNull),
          (''gpuScientificExecutionPlanHash'', or_else (jget ''gpuScientificExecutionPlanHash'' source) JNull)])"

text \<open>The node object read from the store, as far as \<open>nodeStructure\<close> looks at it.\<close>

definition node_object :: "node_row \<Rightarrow> json" where
  "node_object n = JObj [(''nodeId'', JStr (node_id n)), (''kind'', JStr (n_kind n)), (''priority'', JInt (priority n)),
    (''roundIndex'', JInt (round_index n)), (''maxAttempts'', JInt (max_attempts n)),
    (''role'', JOptStr (role (review n))), (''dependencies'', JArr (map JStr (dependencies n))), (''spec'', n_spec n)]"

definition lineage_kept :: "campaign_row \<Rightarrow> json \<Rightarrow> string \<Rightarrow> string option \<Rightarrow> bool" where
  "lineage_kept c spec key current =
    (let previous = (case or_null current of Some s \<Rightarrow> JStr s | None \<Rightarrow> or_else (jget key (c_spec c)) JNull)
     in previous = JNull \<or> jget key spec = Some previous)"

definition extension_node_kept :: "runtime \<Rightarrow> (string \<times> json) list \<Rightarrow> node_row \<Rightarrow> unit result" where
  "extension_node_kept rt proposedById n =
    (case map_of proposedById (node_id n) of
       None \<Rightarrow> check (convergence_terminal_kind (n_kind n)) (''campaign_extension_existing_node_missing:'' @ node_id n)
     | Some proposed \<Rightarrow> check (hashRecord rt ''CampaignExtensionNodeStructure'' (nodeStructure rt (node_object n))
           = hashRecord rt ''CampaignExtensionNodeStructure'' (nodeStructure rt proposed))
         (''campaign_extension_node_mismatch:'' @ node_id n))"

definition validateCampaignRoundExtension :: "runtime \<Rightarrow> campaign_row \<Rightarrow> json \<Rightarrow> node_row list \<Rightarrow> json list result" where
  "validateCampaignRoundExtension rt c spec existing =
    (let reason = sqlText (stop_reason c); nodes = spec_list ''nodes'' spec;
         existingIds = map node_id existing;
         proposedById = by_id rt nodes;
         additions = filter (\<lambda>nd. str_or rt (jget ''nodeId'' nd) \<notin> set existingIds) nodes in
     rbind (check (c_status c = C_stopped \<and> reason = ''referee_convergence_not_reached_within_budget'')
         (''campaign_not_extendable:'' @ (if reason = [] then campaign_status_text (c_status c) else reason))) (\<lambda>_.
     rbind (check (jget ''paperId'' spec = Some (JStr (paper_id c))) ''campaign_extension_paper_mismatch'') (\<lambda>_.
     rbind (check (case int_or rt (jget ''maxRounds'' spec) 0 of Some q \<Rightarrow> of_int (max_rounds c) < q | None \<Rightarrow> True)
         ''campaign_extension_requires_additional_round'') (\<lambda>_.
     rbind (check (nodes \<noteq> []) ''campaign_extension_nodes_required'') (\<lambda>_.
     rbind (rmap (\<lambda>(key, current). check (lineage_kept c spec key current) (''campaign_extension_lineage_mismatch:'' @ key))
         [(''parentCampaignId'', parent_campaign_id c), (''supersedesCampaignId'', supersedes_campaign_id c),
          (''recoveryOfCampaignId'', recovery_of_campaign_id c)]) (\<lambda>_.
     rbind (check (hashRecord rt ''CampaignExtensionInvariant'' (campaignExtensionInvariant spec)
           = hashRecord rt ''CampaignExtensionInvariant'' (campaignExtensionInvariant (c_spec c)))
         ''campaign_extension_immutable_definition_mismatch'') (\<lambda>_.
     rbind (rmap (\<lambda>key. check (case (js_number rt (nullish (jpath [''budgets'', key] spec) (Some (JNum 0))),
               js_number rt (nullish (jpath [''budgets'', key] (c_spec c)) (Some (JNum 0)))) of
             (Some new, Some old) \<Rightarrow> old \<le> new | (Some new, None) \<Rightarrow> True | (None, _) \<Rightarrow> False)
           (''campaign_budget_cannot_decrease:'' @ key)) CAMPAIGN_BUDGET_KEYS) (\<lambda>_.
     rbind (rmap (extension_node_kept rt proposedById) existing) (\<lambda>_.
     rbind (rmap (\<lambda>nd. check (hashRecord rt ''CampaignExtensionExecutionIntent'' (executionIntentInvariant (jget ''executionIntent'' nd))
             = hashRecord rt ''CampaignExtensionExecutionIntent'' (executionIntentInvariant (jget ''executionIntent'' spec)))
           (''campaign_extension_node_intent_mismatch:'' @ str_or rt (jget ''nodeId'' nd))) additions) (\<lambda>_.
     rbind (check (list_ex (kind_is ''package'') additions
           \<and> list_ex (\<lambda>nd. case js_number rt (jget ''roundIndex'' nd) of Some q \<Rightarrow> of_int (max_rounds c) < q | None \<Rightarrow> False) additions)
         ''campaign_extension_incomplete'') (\<lambda>_. Inr additions)))))))))))"

end
