(* ===== verification/Campaign_Lifecycle_Store.thy ===== *)
theory Campaign_Lifecycle_Store
  imports Campaign_Lease_Store Campaign_Definition
begin

text \<open>
  Creation and lifecycle of campaigns: \<open>sqlite-campaign-creation-operations.mjs\<close>,
  \<open>sqlite-campaign-lifecycle-operations.mjs\<close> and
  \<open>sqlite-campaign-lifecycle-terminal-operations.mjs\<close>.
\<close>

section \<open>Creation\<close>

record initial_state =
  is_admitted :: bool
  is_phase :: string
  is_admission_hash :: "string option"

definition campaignInitialExecutionState :: "runtime \<Rightarrow> verifiers \<Rightarrow> json \<Rightarrow> initial_state result" where
  "campaignInitialExecutionState rt v spec =
    (let a = inspectAutonomousResearchCampaignExecutionAdmission rt v spec in
     if \<not> ad_present a then Inr \<lparr>is_admitted = False, is_phase = ''dispatching'', is_admission_hash = None\<rparr>
     else if \<not> ad_valid a then Inl ''campaign_execution_admission_invalid''
     else Inr \<lparr>is_admitted = True, is_phase = ''admitted-not-authorized'', is_admission_hash = ad_hash a\<rparr>)"

definition readCampaignDefinitionSnapshot :: "runtime \<Rightarrow> string \<Rightarrow> db \<Rightarrow> (campaign_row \<times> node_row list) option result" where
  "readCampaignDefinitionSnapshot rt cid db =
    (case getCampaign cid db of None \<Rightarrow> Inr None
     | Some c \<Rightarrow> rbind (listNodes rt cid db) (\<lambda>ns. Inr (Some (c, ns))))"

definition created_event :: "runtime \<Rightarrow> env \<Rightarrow> json \<Rightarrow> initial_state \<Rightarrow> event_row" where
  "created_event rt env spec st =
    buildEvent rt env 0 (spec_string ''campaignId'' spec) None ''campaign_created''
      (JObj [(''nodeCount'', JInt (int (length (spec_list ''nodes'' spec)))),
        (''campaignDefinitionHash'', JStr (campaignDefinitionHash rt spec)),
        (''executionAdmissionHash'', JOptStr (is_admission_hash st)),
        (''initialStatus'', JStr (if is_admitted st then ''paused'' else ''running''))]) (nowIso env)"

definition paper_metadata :: "json \<Rightarrow> json" where
  "paper_metadata spec = JObj ([(''source'', JStr ''paper_campaign_creation''), (''campaignId'', JStr (spec_string ''campaignId'' spec))]
    @ opt_field ''campaignPlanHash'' id (jget ''campaignPlanHash'' spec))"

definition creation_statements :: "json \<Rightarrow> bool \<Rightarrow> string \<Rightarrow> int \<Rightarrow> event_row \<Rightarrow> tx" where
  "creation_statements spec admitted phase now ev =
    (let cid = spec_string ''campaignId'' spec in
     tx_seq ([run (S_createCampaignPaper (spec_string ''paperId'' spec) (spec_string ''venueTarget'' spec)
           (spec_string ''sourceWorkspace'' spec) (paper_metadata spec) now),
         run (createCampaignStatement spec admitted phase now)]
       @ map (\<lambda>nd. run (createNodeStatement cid now nd)) (spec_list ''nodes'' spec)
       @ (if admitted then [] else [run (S_createCampaignStart now cid)])
       @ [run (insert_event ev)]))"

definition create_common :: "runtime \<Rightarrow> verifiers \<Rightarrow> backend \<Rightarrow> env \<Rightarrow> bool \<Rightarrow> json \<Rightarrow> campaign_row option op" where
  "create_common rt v be env exclusive spec =
    (let cid = spec_string ''campaignId'' spec; now = nowIso env;
         conflict = ''campaign_exclusive_create_conflict:'' @ cid in
     op_bind (op_read (\<lambda>_. rbind (assertCampaignDefinition rt v spec) (\<lambda>_. campaignInitialExecutionState rt v spec))) (\<lambda>st.
     op_bind (op_read (readCampaignDefinitionSnapshot rt cid)) (\<lambda>existing.
     case existing of
       Some (c, ns) \<Rightarrow> if exclusive then op_throw conflict
         else op_bind (op_read (\<lambda>_. assertCampaignDefinitionReplay rt spec c ns)) (\<lambda>_. op_return (Some c))
     | None \<Rightarrow>
       let ev = created_event rt env spec st in
       op_bind (op_catch
         (op_bind (submit rt be ''campaign_create_failed''
             (creation_statements spec (is_admitted st) (is_phase st) now ev)
             (if exclusive then M_createCampaignExclusive spec (is_admitted st) (is_phase st) now ev
              else M_createCampaign spec (is_admitted st) (is_phase st) now ev)) (\<lambda>_. op_return None))
         (\<lambda>e. op_bind (op_read (readCampaignDefinitionSnapshot rt cid)) (\<lambda>raced.
            case raced of None \<Rightarrow> op_throw e
            | Some (c, ns) \<Rightarrow> if exclusive then op_throw conflict
                else op_bind (op_read (\<lambda>_. assertCampaignDefinitionReplay rt spec c ns)) (\<lambda>_. op_return (Some c)))))
         (\<lambda>r. case r of Some c \<Rightarrow> op_return (Some c) | None \<Rightarrow> op_read (\<lambda>db. Inr (getCampaign cid db))))))"

definition createCampaign :: "runtime \<Rightarrow> verifiers \<Rightarrow> backend \<Rightarrow> env \<Rightarrow> json \<Rightarrow> campaign_row option op" where
  "createCampaign rt v be env spec = create_common rt v be env False spec"

definition createCampaignExclusive :: "runtime \<Rightarrow> verifiers \<Rightarrow> backend \<Rightarrow> env \<Rightarrow> json \<Rightarrow> campaign_row option op" where
  "createCampaignExclusive rt v be env spec = create_common rt v be env True spec"

section \<open>Rounds, pause, resume, extension\<close>

definition reason_event :: "runtime \<Rightarrow> env \<Rightarrow> nat \<Rightarrow> string \<Rightarrow> string \<Rightarrow> string \<Rightarrow> event_row" where
  "reason_event rt env k cid kind reason = buildEvent rt env k cid None kind (JObj [(''reason'', JStr reason)]) (nowIso env)"

definition reread_campaign :: "string \<Rightarrow> campaign_row option op" where
  "reread_campaign cid = op_read (\<lambda>db. Inr (getCampaign cid db))"

definition S_skipFutureNodes :: "string list \<Rightarrow> string \<Rightarrow> int \<Rightarrow> string \<Rightarrow> stmt" where
  "S_skipFutureNodes ids reason now cid =
    update_nodes (\<lambda>_ n. node_id n \<in> set ids \<and> n_campaign_id n = cid \<and> n_status n = Queued)
      (\<lambda>n. (release_lease n)\<lparr>n_status := Skipped, failure_class := Some reason, n_updated_at := now\<rparr>)"

definition skipFutureRounds :: "runtime \<Rightarrow> backend \<Rightarrow> env \<Rightarrow> string \<Rightarrow> int \<Rightarrow> string \<Rightarrow> campaign_row option op" where
  "skipFutureRounds rt be env cid afterRound reason =
    op_bind (op_read (listNodes rt cid)) (\<lambda>ns.
    let now = nowIso env; ids = selectFutureRoundNodeIds ns afterRound;
        ev = buildEvent rt env 0 cid None ''campaign_future_rounds_skipped''
          (JObj [(''afterRound'', JInt afterRound), (''reason'', JStr reason)]) now in
    op_bind (submit rt be ''campaign_future_round_skip_failed''
        (tx_seq ((if ids = [] then [] else [run (S_skipFutureNodes ids reason now cid)])
          @ [run (insert_event ev), run (projectCampaign cid now)]))
        (M_skipFutureRounds ids reason now cid ev)) (\<lambda>_. reread_campaign cid))"

definition with_campaign :: "string \<Rightarrow> (campaign_row \<Rightarrow> campaign_row option op) \<Rightarrow> campaign_row option op" where
  "with_campaign cid k db = (case getCampaign cid db of None \<Rightarrow> (Inl (''campaign not found: '' @ cid), db)
    | Some c \<Rightarrow> k c db)"

definition when_applicable :: "campaign_row \<Rightarrow> string \<Rightarrow> campaign_row option op \<Rightarrow> campaign_row option op" where
  "when_applicable c command k =
    (case decideCampaignCommand c command of
       Inl e \<Rightarrow> op_throw e
     | Inr (apply, _) \<Rightarrow> if apply then k else op_return (Some c))"

definition pauseCampaign :: "runtime \<Rightarrow> backend \<Rightarrow> env \<Rightarrow> string \<Rightarrow> string \<Rightarrow> campaign_row option op" where
  "pauseCampaign rt be env cid reason =
    with_campaign cid (\<lambda>c. when_applicable c ''pause'' (
      let now = nowIso env; ev = reason_event rt env 0 cid ''campaign_paused'' reason in
      op_bind (submit rt be ''campaign_pause_failed''
          (tx_seq [guarded (S_pauseCampaign reason now cid (revision c)), run (S_pauseCampaignNodes now cid),
             run (insert_event ev)])
          (M_pauseCampaign reason now c ev)) (\<lambda>_. reread_campaign cid)))"

definition resumed_event :: "runtime \<Rightarrow> env \<Rightarrow> campaign_row \<Rightarrow> evolution \<Rightarrow> event_row" where
  "resumed_event rt env c evo =
    buildEvent rt env 0 (campaign_id c) None ''campaign_resumed''
      (JObj [(''previousStatus'', JStr (campaign_status_text (c_status c))), (''budgetOverrides'', JObj (ev_overrides evo)),
        (''reopenedBudgetStoppedNodes'', JBool (ev_stopped_for_budget evo)),
        (''reopenedSupervisorStoppedNodes'', JBool (ev_reopen evo \<and> \<not> ev_stopped_for_budget evo)),
        (''previousCampaignPlanHash'', ev_previous_plan evo),
        (''campaignPlanHash'', or_else (jget ''campaignPlanHash'' (ev_spec evo)) JNull)]) (nowIso env)"

definition resumeCampaign :: "runtime \<Rightarrow> verifiers \<Rightarrow> backend \<Rightarrow> env \<Rightarrow> string \<Rightarrow> (string \<times> json) list \<Rightarrow> campaign_row option op" where
  "resumeCampaign rt v be env cid budgetOverrides =
    with_campaign cid (\<lambda>c. when_applicable c ''resume'' (
      op_bind (op_read (\<lambda>_. evolveCampaignForResume rt v c budgetOverrides)) (\<lambda>evo.
      let now = nowIso env; ev = resumed_event rt env c evo in
      op_bind (submit rt be ''campaign_resume_failed''
          (tx_seq ([guarded (S_resumeCampaign now (ev_spec evo) cid (c_status c) (revision c))]
            @ (if ev_reopen evo then [run (S_resumeNodes now cid (Some (sqlText (stop_reason c))))] else [])
            @ [run (insert_event ev)]))
          (M_resumeCampaign now (ev_spec evo) c (ev_reopen evo) ev)) (\<lambda>_. reread_campaign cid))))"

definition extended_event :: "runtime \<Rightarrow> env \<Rightarrow> campaign_row \<Rightarrow> json \<Rightarrow> json list \<Rightarrow> event_row" where
  "extended_event rt env c spec additions =
    buildEvent rt env 0 (spec_string ''campaignId'' spec) None ''campaign_extended''
      (JObj [(''previousMaxRounds'', JInt (max_rounds c)), (''maxRounds'', JInt (spec_int ''maxRounds'' 0 spec)),
        (''addedNodeIds'', JArr (map JStr (sortStrings (map (spec_string ''nodeId'') additions)))),
        (''previousCampaignPlanHash'', or_else (jget ''campaignPlanHash'' (c_spec c)) JNull),
        (''campaignPlanHash'', or_else (jget ''campaignPlanHash'' spec) JNull)]) (nowIso env)"

definition extendCampaign :: "runtime \<Rightarrow> verifiers \<Rightarrow> backend \<Rightarrow> env \<Rightarrow> json \<Rightarrow> campaign_row option op" where
  "extendCampaign rt v be env spec =
    (let cid = spec_string ''campaignId'' spec; now = nowIso env in
     with_campaign cid (\<lambda>c.
       op_bind (op_read (\<lambda>_. assertCampaignDefinition rt v spec)) (\<lambda>_.
       op_bind (op_read (listNodes rt cid)) (\<lambda>existing.
       op_bind (op_read (\<lambda>_. validateCampaignRoundExtension rt c spec existing)) (\<lambda>additions.
       let ev = extended_event rt env c spec additions in
       op_bind (submit rt be ''campaign_extension_failed''
           (tx_seq ([run (S_extendSupersedePackage now cid)]
             @ map (\<lambda>item. run (extendNodeStatement cid now item)) additions
             @ [guarded (S_extendCampaign (spec_int ''maxRounds'' 0 spec) spec now cid (c_status c) (revision c)),
                run (insert_event ev)]))
           (M_extendCampaign spec additions c now ev)) (\<lambda>_. reread_campaign cid))))))"

section \<open>Cancellation, failure and stop of a campaign\<close>

definition settle_statements :: "campaign_status \<Rightarrow> node_status \<Rightarrow> string \<Rightarrow> int \<Rightarrow> campaign_row \<Rightarrow> event_row \<Rightarrow> tx" where
  "settle_statements settled nodeStatus reason now c ev =
    tx_seq [guarded (S_settleCampaign settled (last_resumed_at c \<noteq> None) now reason (campaign_id c) (c_status c) (revision c)),
      run (S_settleCampaignNodes nodeStatus reason now (campaign_id c)), run (insert_event ev)]"

definition cancelCampaign :: "runtime \<Rightarrow> backend \<Rightarrow> env \<Rightarrow> string \<Rightarrow> string \<Rightarrow> campaign_row option op" where
  "cancelCampaign rt be env cid reason =
    with_campaign cid (\<lambda>c. when_applicable c ''cancel'' (
      let now = nowIso env; ev = reason_event rt env 0 cid ''campaign_cancelled'' reason in
      op_bind (submit rt be ''campaign_cancel_failed'' (settle_statements C_cancelled Skipped reason now c ev)
        (M_cancelCampaign reason now c ev)) (\<lambda>_. reread_campaign cid)))"

definition failCampaign :: "runtime \<Rightarrow> backend \<Rightarrow> env \<Rightarrow> string \<Rightarrow> string \<Rightarrow> campaign_row option op" where
  "failCampaign rt be env cid reason =
    with_campaign cid (\<lambda>c. when_applicable c ''fail'' (
      let now = nowIso env; ev = reason_event rt env 0 cid ''campaign_failed'' reason in
      op_bind (submit rt be ''campaign_fail_failed'' (settle_statements C_failed Failed_terminal reason now c ev)
        (M_failCampaign reason now c ev)) (\<lambda>_. reread_campaign cid)))"

definition stopCampaign :: "runtime \<Rightarrow> backend \<Rightarrow> env \<Rightarrow> string \<Rightarrow> string \<Rightarrow> campaign_row option op" where
  "stopCampaign rt be env cid reason =
    with_campaign cid (\<lambda>c. when_applicable c ''stop'' (
      let now = nowIso env; ev = reason_event rt env 0 cid ''campaign_stopped'' reason in
      op_bind (submit rt be ''campaign_stop_failed'' (settle_statements C_stopped Skipped reason now c ev)
        (M_stopCampaign reason now c ev)) (\<lambda>_. reread_campaign cid)))"

section \<open>Cancelling and retrying a node\<close>

definition S_cancelNodesGuard :: "string list \<Rightarrow> string \<Rightarrow> stmt" where
  "S_cancelNodesGuard ids cid =
    update_campaigns (\<lambda>db c. campaign_id c = cid \<and> \<not> list_ex (\<lambda>n. n_campaign_id n = cid \<and> node_id n \<in> set ids
      \<and> n_status n \<noteq> Completed \<and> integ n \<in> {Integ_integrating, Integ_integrated}) (nodes db)) (\<lambda>_ c. c)"

definition S_cancelNodes :: "string list \<Rightarrow> string \<Rightarrow> json \<Rightarrow> string \<Rightarrow> int \<Rightarrow> stmt" where
  "S_cancelNodes ids reason detail hash now =
    update_nodes (\<lambda>_ n. node_id n \<in> set ids \<and> n_status n \<in> {Queued, Leased, Running})
      (cancel_one reason detail hash now)"

definition cancel_statements :: "node_row \<Rightarrow> campaign_row option \<Rightarrow> string list \<Rightarrow> string \<Rightarrow> json \<Rightarrow> string \<Rightarrow> int
    \<Rightarrow> event_row \<Rightarrow> event_row option \<Rightarrow> tx" where
  "cancel_statements n campaign ids reason detail hash now ev stoppedEvent =
    (let cid = n_campaign_id n in
     tx_seq ([guarded (S_cancelNodesGuard ids cid), run (S_cancelNodes ids reason detail hash now), run (insert_event ev)]
       @ (case (stoppedEvent, campaign) of
            (Some se, Some c) \<Rightarrow> [guarded (S_cancelNodeStopCampaign now cid (revision c)), run (insert_event se)]
          | _ \<Rightarrow> [run (projectCampaign cid now)])))"

definition cancelNode :: "runtime \<Rightarrow> backend \<Rightarrow> env \<Rightarrow> string \<Rightarrow> string \<Rightarrow> node_row option op" where
  "cancelNode rt be env nodeId reason =
    op_bind (op_read (readNode rt nodeId)) (\<lambda>node.
    case node of None \<Rightarrow> op_throw (''campaign node not found: '' @ nodeId)
    | Some n \<Rightarrow>
      if node_done (n_status n) \<or> n_status n = Failed_terminal then op_return node
      else op_bind (op_read (listNodes rt (n_campaign_id n))) (\<lambda>ns.
      op_bind (op_read (\<lambda>_. cascadeCancelledNodeIds ns nodeId)) (\<lambda>ids.
      op_bind (op_read (\<lambda>db. Inr (getCampaign (n_campaign_id n) db))) (\<lambda>campaign.
      let now = nowIso env; cid = n_campaign_id n;
          detail = JObj [(''reason'', JStr reason), (''rootNodeId'', JStr nodeId)];
          hash = hashRecord rt ''PaperCampaignNodeFailure'' detail;
          ev = buildEvent rt env 0 cid (Some nodeId) ''campaign_node_cancelled''
            (JObj [(''reason'', JStr reason), (''skippedNodeIds'', JArr (map JStr (sortStrings ids)))]) now;
          stops = (case find (\<lambda>m. n_kind m = ''package'') ns of None \<Rightarrow> False
            | Some p \<Rightarrow> node_id p \<in> set ids \<and> map_option c_status campaign = Some C_running);
          se = (if stops then Some (reason_event rt env 1 cid ''campaign_stopped'' ''operator_node_cancelled_required_path'') else None)
      in op_bind (submit rt be ''campaign_node_cancel_failed''
            (cancel_statements n campaign ids reason detail hash now ev se)
            (M_cancelNode n campaign ids reason detail hash now ev se)) (\<lambda>_.
         op_read (readNode rt nodeId))))))"

definition reopens_with :: "string \<Rightarrow> node_row \<Rightarrow> bool" where
  "reopens_with nodeId m = (n_status m = Skipped \<and> failure_class m = Some ''campaign_terminal_sibling_cancelled''
    \<and> Option.bind (failure_json m) (jget ''terminalNodeId'') = Some (JStr nodeId)
    \<and> integ m \<in> {Integ_none, Integ_pending, Integ_integrated})"

definition retry_statements :: "node_row \<Rightarrow> campaign_row \<Rightarrow> node_row list \<Rightarrow> int \<Rightarrow> event_row \<Rightarrow> tx" where
  "retry_statements n c siblings now ev =
    tx_seq ([guarded (S_retryNode now (node_id n) (node_revision n))]
      @ map (\<lambda>s. guarded (S_retrySiblingNode now (node_id s) (n_campaign_id n) (node_id n) (integ s) (node_revision s))) siblings
      @ [guarded (S_retryCampaign (n_kind n) (max 0 (round_index n)) now (n_campaign_id n) (c_status c) (revision c)),
         run (insert_event ev)])"

definition retryNode :: "runtime \<Rightarrow> backend \<Rightarrow> env \<Rightarrow> string \<Rightarrow> node_row option op" where
  "retryNode rt be env nodeId =
    op_bind (op_read (readNode rt nodeId)) (\<lambda>node.
    case node of None \<Rightarrow> op_throw (''campaign node not found: '' @ nodeId)
    | Some n \<Rightarrow>
      if \<not> fst (decideManualNodeRetry n) then op_return node
      else op_bind (op_read (\<lambda>db. Inr (getCampaign (n_campaign_id n) db))) (\<lambda>campaign.
      op_bind (op_read (listNodes rt (n_campaign_id n))) (\<lambda>ns.
      case campaign of None \<Rightarrow> op_throw ''TypeError''
      | Some c \<Rightarrow>
        let siblings = sort_by (\<lambda>x y. localeCompare rt (node_id x) (node_id y)) (filter (reopens_with nodeId) ns);
            now = nowIso env;
            ev = buildEvent rt env 0 (n_campaign_id n) (Some nodeId) ''campaign_node_manually_retried''
              (JObj [(''reopenedSiblingNodeIds'', JArr (map (\<lambda>s. JStr (node_id s)) siblings))]) now
        in op_bind (submit rt be ''campaign_node_retry_failed''
              (retry_statements n c siblings now ev) (M_retryNode n c siblings now ev)) (\<lambda>_.
           op_read (readNode rt nodeId)))))"

section \<open>Usage\<close>

definition recordUsage :: "runtime \<Rightarrow> backend \<Rightarrow> env \<Rightarrow> string \<Rightarrow> usage_delta \<Rightarrow> bool \<Rightarrow> campaign_row option op" where
  "recordUsage rt be env cid delta enforceBudget =
    (let now = nowIso env; st = S_recordUsage (nativeStoreCampaignUsageParameters delta) now cid enforceBudget;
         code = (if enforceBudget then ''campaign_usage_budget_reservation_failed'' else ''campaign_usage_write_failed'') in
     op_bind (op_catch (submit rt be code (tx_seq [if enforceBudget then guarded st else run st])
         (M_recordUsage cid delta now enforceBudget)) (\<lambda>_. op_throw code))
       (\<lambda>_. reread_campaign cid))"

end
