(* ===== verification/Campaign_Action_Store.thy ===== *)
theory Campaign_Action_Store
  imports Campaign_Lease_Store
begin

text \<open>
  Budget reservations of a running attempt (\<open>sqlite-campaign-node-infrastructure-operations.mjs\<close>)
  and the journal of its external actions
  (\<open>sqlite-campaign-node-external-action-operations.mjs\<close>,
  \<open>sqlite-campaign-node-infrastructure-reservations.mjs\<close>).
\<close>

section \<open>Deferral and reservation\<close>

definition deferred_event :: "runtime \<Rightarrow> env \<Rightarrow> node_row \<Rightarrow> fence \<Rightarrow> refund \<Rightarrow> event_row" where
  "deferred_event rt env n f r =
    buildEvent rt env 0 (n_campaign_id n) (Some (f_node f)) ''campaign_node_infrastructure_deferred''
      (JObj [(''attempt'', JInt (attempt_count n)), (''workerId'', JStr (f_worker f)),
        (''attemptId'', JStr (f_attempt f)), (''leaseGeneration'', JInt (f_generation f)),
        (''budgetReservationRefunded'', JBool True), (''refundedUsage'', refund_json r),
        (''externalActionPerformed'', JBool False)]) (nowIso env)"

definition running_fence :: "fence \<Rightarrow> db \<Rightarrow> node_row \<Rightarrow> bool" where
  "running_fence f db n = (n_status n = Running \<and> lease_owner n = Some (f_worker f)
    \<and> attempt_id n = Some (f_attempt f) \<and> lease_generation n = f_generation f
    \<and> map_option c_status (find_campaign db (n_campaign_id n)) = Some C_running)"

definition control_requeued_fence :: "fence \<Rightarrow> db \<Rightarrow> node_row \<Rightarrow> bool" where
  "control_requeued_fence f db n = (n_status n = Queued \<and> lease_owner n = None \<and> attempt_id n = None
    \<and> lease_generation n = f_generation f
    \<and> map_option c_status (find_campaign db (n_campaign_id n)) \<in> {Some C_paused, Some C_running}
    \<and> started_by db (n\<lparr>node_id := f_node f\<rparr>) f)"

definition cancelNodeInfrastructureDeferred :: "runtime \<Rightarrow> backend \<Rightarrow> env \<Rightarrow> fence \<Rightarrow> node_row option op" where
  "cancelNodeInfrastructureDeferred rt be env f =
    (if \<not> fence_required f then op_throw ''campaign_node_attempt_fence_required''
     else op_bind (op_read (readNode rt (f_node f))) (\<lambda>node.
       op_bind (op_read (\<lambda>db. Inr (case node of None \<Rightarrow> False
           | Some n \<Rightarrow> (running_fence f db n \<or> control_requeued_fence f db n) \<and> prepared_hash n = None))) (\<lambda>ok.
       case node of
         None \<Rightarrow> op_throw ''campaign_node_infrastructure_cancel_fence_lost''
       | Some n \<Rightarrow>
         if \<not> ok then op_throw ''campaign_node_infrastructure_cancel_fence_lost''
         else op_bind (op_read (refundableNodeInfrastructureReservation rt (n_campaign_id n) (f_node f)
               (f_attempt f) (f_generation f))) (\<lambda>r.
           let ev = deferred_event rt env n f r; now = nowIso env in
           op_bind (op_catch (submit rt be ''campaign_node_infrastructure_cancel_failed''
               (tx_seq [guarded (S_cancelInfrastructureNode f now (attempt_count n)),
                  guarded (S_cancelInfrastructureUsage r now (n_campaign_id n)), run (insert_event ev)])
               (M_cancelNodeInfrastructureDeferred n now f r ev))
             (\<lambda>_. op_throw ''campaign_node_infrastructure_cancel_fence_lost'')) (\<lambda>_.
           op_read (readNode rt (f_node f)))))))"

definition subreservation_event :: "runtime \<Rightarrow> env \<Rightarrow> node_row \<Rightarrow> fence \<Rightarrow> reservation \<Rightarrow> event_row" where
  "subreservation_event rt env n f res =
    buildEvent rt env 1 (n_campaign_id n) (Some (f_node f)) ''campaign_node_infrastructure_subreservation''
      (JObj [(''workerId'', JStr (f_worker f)), (''attemptId'', JStr (f_attempt f)),
        (''leaseGeneration'', JInt (f_generation f)), (''infrastructureReservation'', reservation_json res)])
      (nowIso env)"

definition reserveNodeInfrastructureUsage :: "runtime \<Rightarrow> backend \<Rightarrow> env \<Rightarrow> fence \<Rightarrow> usage_delta \<Rightarrow> reservation op" where
  "reserveNodeInfrastructureUsage rt be env f delta =
    (if \<not> fence_required f then op_throw ''campaign_node_attempt_fence_required''
     else op_bind (op_read (readNode rt (f_node f))) (\<lambda>node.
       case node of None \<Rightarrow> op_throw ''campaign_node_infrastructure_reservation_fence_lost''
       | Some n \<Rightarrow>
         if n_status n \<noteq> Running \<or> lease_owner n \<noteq> Some (f_worker f) \<or> attempt_id n \<noteq> Some (f_attempt f)
            \<or> lease_generation n \<noteq> f_generation f \<or> prepared_hash n \<noteq> None
         then op_throw ''campaign_node_infrastructure_reservation_fence_lost''
         else op_bind (op_read (\<lambda>_. buildNativeStoreNodeInfrastructureReservation rt
               (Some (JStr (''node-subreservation:'' @ randomUUID env 0))) (Some (JStr (n_campaign_id n)))
               (Some (JStr (f_node f))) (Some (JStr (f_attempt f))) (Some (JInt (f_generation f)))
               (usage_delta_json delta))) (\<lambda>res.
           let ev = subreservation_event rt env n f res; now = nowIso env;
               u = nativeStoreCampaignUsageParameters (refund_delta (rv_usage res)) in
           op_bind (op_catch (submit rt be ''campaign_node_infrastructure_reservation_failed''
               (tx_seq [guarded (S_reserveInfrastructureNode f now),
                  guarded (S_reserveInfrastructureUsage u now (n_campaign_id n)), run (insert_event ev)])
               (M_reserveNodeInfrastructureUsage n f now (rv_usage res) ev))
             (\<lambda>_. op_throw ''campaign_node_infrastructure_reservation_failed'')) (\<lambda>_.
           op_return res))))"

section \<open>The journal entry of an external action\<close>

record external_action =
  xa_descriptor :: json
  xa_completed :: bool
  xa_payload :: json
  xa_hash :: "string option"
  xa_attempts :: "(json option \<times> rat option \<times> json option) list"
  xa_completed_at :: "json option"

definition checked_journal_event :: "runtime \<Rightarrow> string \<Rightarrow> string \<Rightarrow> string \<Rightarrow> event_row \<Rightarrow> json result" where
  "checked_journal_event rt cid nodeId actionId row =
    (let e = event_json row in
     if hashRecord rt ''PaperCampaignEvent'' e \<noteq> event_sha256 row
        \<or> jget ''campaignId'' e \<noteq> Some (JStr cid) \<or> jget ''nodeId'' e \<noteq> Some (JStr nodeId)
        \<or> jpath [''detail'', ''externalActionId''] e \<noteq> Some (JStr actionId)
     then Inl ''campaign_external_action_event_invalid'' else Inr e)"

fun merge_outcomes :: "runtime \<Rightarrow> (string \<times> json) list \<Rightarrow> (json \<times> string) option \<Rightarrow> json list \<Rightarrow> (json \<times> string) option result" where
  "merge_outcomes rt descriptor outcome [] = Inr outcome"
| "merge_outcomes rt descriptor outcome (e # es) =
    rbind (assertCampaignExternalActionDescriptor rt (jget ''detail'' e) descriptor) (\<lambda>_.
    rbind (assertCampaignExternalActionOutcome rt (jpath [''detail'', ''outcomePayload''] e)
        (jpath [''detail'', ''outcomeHash''] e)) (\<lambda>candidate.
    if (case outcome of None \<Rightarrow> False | Some previous \<Rightarrow> snd previous \<noteq> snd candidate)
    then Inl ''campaign_external_action_outcome_conflict''
    else merge_outcomes rt descriptor (Some candidate) es))"

definition readNodeExternalAction :: "runtime \<Rightarrow> string \<Rightarrow> string \<Rightarrow> string \<Rightarrow> db \<Rightarrow> external_action option result" where
  "readNodeExternalAction rt cid nodeId actionId db =
    rbind (rmap (checked_journal_event rt cid nodeId actionId) (S_externalActionEvents cid nodeId actionId db)) (\<lambda>es.
    if es = [] then Inr None
    else let started = filter (event_kind_is ''campaign_node_external_action_started'') es;
             completed = filter (event_kind_is ''campaign_node_external_action_completed'') es in
      case started of
        [] \<Rightarrow> Inl ''campaign_external_action_start_missing''
      | first # others \<Rightarrow>
        rbind (assertCampaignExternalActionDescriptor rt (jget ''detail'' first)
            [(''campaignId'', JStr cid), (''nodeId'', JStr nodeId)]) (\<lambda>descriptor.
        rbind (rmap (\<lambda>e. assertCampaignExternalActionDescriptor rt (jget ''detail'' e) (entries descriptor)) others) (\<lambda>_.
        rbind (merge_outcomes rt (entries descriptor) None completed) (\<lambda>outcome.
        Inr (Some \<lparr>xa_descriptor = descriptor, xa_completed = (outcome \<noteq> None),
          xa_payload = (case outcome of None \<Rightarrow> JNull | Some p \<Rightarrow> fst p),
          xa_hash = map_option snd outcome,
          xa_attempts = map (\<lambda>e. (jpath [''detail'', ''attemptId''] e,
            js_number rt (jpath [''detail'', ''leaseGeneration''] e), jget ''createdAt'' e)) started,
          xa_completed_at = (if completed = [] then None else jget ''createdAt'' (last completed))\<rparr>)))))"

definition getNodeExternalAction :: "runtime \<Rightarrow> string \<Rightarrow> string \<Rightarrow> string \<Rightarrow> external_action option op" where
  "getNodeExternalAction rt cid nodeId actionId =
    (if cid = [] \<or> nodeId = [] \<or> actionId = [] then op_throw ''campaign_external_action_identity_required''
     else op_read (readNodeExternalAction rt cid nodeId actionId))"

definition started_for :: "fence \<Rightarrow> external_action \<Rightarrow> bool" where
  "started_for f x = list_ex (\<lambda>(a, g, _). a = Some (JStr (f_attempt f)) \<and> g = Some (of_int (f_generation f))) (xa_attempts x)"

section \<open>Starting and completing an action\<close>

record action_call =
  ac_action :: string
  ac_ordinal :: int
  ac_resolver :: string
  ac_digest :: "string option"
  ac_id :: "string option"
  ac_plan_hash :: "string option"
  ac_spec_hash :: "string option"

definition pinned :: "string option \<Rightarrow> json option \<Rightarrow> bool" where
  "pinned expected actual = (case or_null expected of None \<Rightarrow> True | Some s \<Rightarrow> actual = Some (JStr s))"

definition actionDescriptor :: "runtime \<Rightarrow> node_row \<Rightarrow> action_call \<Rightarrow> db \<Rightarrow> json result" where
  "actionDescriptor rt n call db =
    rbind (buildCampaignExternalActionDescriptor rt (getCampaign (n_campaign_id n) db) n
        (action_request (ac_action call) (ac_digest call)) (or_num (ac_ordinal call) 1)
        (if ac_resolver call = [] then ''unqualified'' else ac_resolver call)) (\<lambda>d.
      if pinned (ac_id call) (jget ''externalActionId'' d) \<and> pinned (ac_plan_hash call) (jget ''campaignPlanHash'' d)
         \<and> pinned (ac_spec_hash call) (jget ''nodeSemanticSpecHash'' d)
      then Inr d else Inl ''campaign_external_action_descriptor_conflict'')"

definition action_id_of :: "json \<Rightarrow> string" where
  "action_id_of d = sqlText (jstr (jget ''externalActionId'' d))"

definition action_started_event :: "runtime \<Rightarrow> env \<Rightarrow> node_row \<Rightarrow> fence \<Rightarrow> json \<Rightarrow> event_row" where
  "action_started_event rt env n f d =
    buildEvent rt env 0 (n_campaign_id n) (Some (f_node f)) ''campaign_node_external_action_started''
      (JObj ([(''workerId'', JStr (f_worker f)), (''attemptId'', JStr (f_attempt f)),
        (''leaseGeneration'', JInt (f_generation f))] @ entries d
        @ [(''externalActionMayHaveStarted'', JBool True)])) (nowIso env)"

definition markNodeExternalActionStarted :: "runtime \<Rightarrow> backend \<Rightarrow> env \<Rightarrow> fence \<Rightarrow> action_call \<Rightarrow> external_action option op" where
  "markNodeExternalActionStarted rt be env f call =
    (if \<not> fence_required f then op_throw ''campaign_node_attempt_fence_required''
     else op_bind (op_read (readNode rt (f_node f))) (\<lambda>node.
       case node of None \<Rightarrow> op_throw ''campaign_node_external_action_started_fence_lost''
       | Some n \<Rightarrow>
         if n_status n \<noteq> Running \<or> lease_owner n \<noteq> Some (f_worker f) \<or> attempt_id n \<noteq> Some (f_attempt f)
            \<or> lease_generation n \<noteq> f_generation f
         then op_throw ''campaign_node_external_action_started_fence_lost''
         else op_bind (op_read (actionDescriptor rt n call)) (\<lambda>d.
           op_bind (op_read (readNodeExternalAction rt (n_campaign_id n) (f_node f) (action_id_of d))) (\<lambda>existing.
           if (case existing of None \<Rightarrow> False | Some x \<Rightarrow> xa_completed x \<or> started_for f x)
           then op_return existing
           else let ev = action_started_event rt env n f d; now = nowIso env;
                    reread = op_read (readNodeExternalAction rt (n_campaign_id n) (f_node f) (action_id_of d)) in
             op_bind (op_catch
               (op_bind (submit rt be ''campaign_node_external_action_started_failed''
                  (tx_seq [guarded (S_markInfrastructureNode f (node_revision n) now), run (insert_event ev)])
                  (M_markNodeExternalActionStarted n f now d ev)) (\<lambda>_. op_return None))
               (\<lambda>_. op_bind reread (\<lambda>replay.
                  if (case replay of None \<Rightarrow> False | Some x \<Rightarrow> started_for f x \<or> xa_completed x)
                  then op_return (Some replay) else op_throw ''campaign_node_external_action_started_fence_lost'')))
               (\<lambda>r. case r of Some x \<Rightarrow> op_return x | None \<Rightarrow> reread)))))"

definition action_completed_event :: "runtime \<Rightarrow> env \<Rightarrow> node_row \<Rightarrow> fence \<Rightarrow> json \<Rightarrow> string \<Rightarrow> json \<times> string
    \<Rightarrow> usage_delta \<Rightarrow> event_row" where
  "action_completed_event rt env n f d actionId completed delta =
    buildEvent rt env 0 (n_campaign_id n) (Some (f_node f)) ''campaign_node_external_action_completed''
      (JObj ([(''workerId'', JStr (f_worker f)), (''attemptId'', JStr (f_attempt f)),
        (''leaseGeneration'', JInt (f_generation f))]
        @ filter (\<lambda>e. fst e \<noteq> ''externalActionId'') (entries d)
        @ [(''externalActionId'', JStr actionId), (''outcomePayload'', fst completed),
           (''outcomeHash'', JStr (snd completed)), (''usageDelta'', usage_delta_json delta),
           (''completionMode'', JStr ''executed'')])) (nowIso env)"

definition completeNodeExternalAction :: "runtime \<Rightarrow> backend \<Rightarrow> env \<Rightarrow> fence \<Rightarrow> string \<Rightarrow> json option \<Rightarrow> usage_delta
    \<Rightarrow> external_action option op" where
  "completeNodeExternalAction rt be env f actionId outcome delta =
    (if \<not> fence_required f \<or> actionId = [] then op_throw ''campaign_external_action_completion_identity_required''
     else op_bind (op_read (readNode rt (f_node f))) (\<lambda>node.
       case node of None \<Rightarrow> op_throw ''campaign_external_action_start_missing''
       | Some n \<Rightarrow>
         let reread = op_read (readNodeExternalAction rt (n_campaign_id n) (f_node f) actionId) in
         op_bind reread (\<lambda>existing.
         case existing of None \<Rightarrow> op_throw ''campaign_external_action_start_missing''
         | Some x \<Rightarrow>
           op_bind (op_read (\<lambda>_. buildCampaignExternalActionOutcome rt outcome)) (\<lambda>completed.
           if xa_completed x then
             if xa_hash x \<noteq> Some (snd completed) then op_throw ''campaign_external_action_outcome_conflict''
             else op_return existing
           else if n_status n \<noteq> Running \<or> lease_owner n \<noteq> Some (f_worker f) \<or> attempt_id n \<noteq> Some (f_attempt f)
              \<or> lease_generation n \<noteq> f_generation f \<or> \<not> started_for f x
           then op_throw ''campaign_external_action_completion_fence_lost''
           else let ev = action_completed_event rt env n f (xa_descriptor x) actionId completed delta;
                    now = nowIso env in
             op_bind (op_catch
               (op_bind (submit rt be ''campaign_external_action_completion_failed''
                  (tx_seq [guarded (S_markInfrastructureNode f (node_revision n) now),
                     run (S_updateCampaignUsage (nativeStoreCampaignUsageParameters delta) now (n_campaign_id n)),
                     run (insert_event ev)])
                  (M_completeNodeExternalAction n f now (xa_descriptor x) completed delta ev)) (\<lambda>_. op_return None))
               (\<lambda>_. op_bind reread (\<lambda>replay.
                  if (case replay of None \<Rightarrow> False | Some y \<Rightarrow> xa_completed y \<and> xa_hash y = Some (snd completed))
                  then op_return (Some replay) else op_throw ''campaign_external_action_completion_fence_lost'')))
               (\<lambda>r. case r of Some y \<Rightarrow> op_return y | None \<Rightarrow> reread)))))"

end
