(* ===== verification/Campaign_Prepared_Store.thy ===== *)
theory Campaign_Prepared_Store
  imports Campaign_Lease_Store
begin

text \<open>
  Two-phase completion of a node (\<open>sqlite-campaign-prepared-integration-operations.mjs\<close>): the
  result is prepared, its workspace integration begun and marked, and the node completed from
  the prepared result. \<open>assertLiveNodeAttempt\<close> is the fence check of
  \<open>sqlite-campaign-store.mjs\<close>. The receipt of a release promotion is made by the release
  contracts, which \<open>completeNode\<close> takes as the argument \<open>promote\<close>.
\<close>

section \<open>Fence check\<close>

definition assertLiveNodeAttempt :: "runtime \<Rightarrow> backend \<Rightarrow> fence \<Rightarrow> int \<Rightarrow> bool \<Rightarrow> string \<Rightarrow> string \<Rightarrow> node_row option op" where
  "assertLiveNodeAttempt rt be f now integrated key receiptHash =
    op_bind (op_catch (submit rt be ''campaign_node_attempt_fence_check_failed''
        (tx_seq [guarded (if integrated then S_assertIntegratedAttempt f now key receiptHash
           else S_assertIntegratingAttempt f now key)])
        (M_assertLiveNodeAttempt f now integrated key receiptHash))
      (\<lambda>_. op_throw ''campaign_node_lease_lost'')) (\<lambda>_. op_read (readNode rt (f_node f)))"

section \<open>Preparing a result\<close>

definition prepared_event :: "runtime \<Rightarrow> env \<Rightarrow> node_row \<Rightarrow> fence \<Rightarrow> string \<Rightarrow> event_row" where
  "prepared_event rt env n f resultHash =
    buildEvent rt env 0 (n_campaign_id n) (Some (f_node f)) ''campaign_node_result_prepared''
      (JObj [(''resultHash'', JStr resultHash), (''attemptId'', JStr (f_attempt f)),
        (''leaseGeneration'', JInt (f_generation f))]) (nowIso env)"

definition prepareNodeResult :: "runtime \<Rightarrow> backend \<Rightarrow> env \<Rightarrow> fence \<Rightarrow> json \<Rightarrow> bool \<Rightarrow> string option \<Rightarrow> node_row option op" where
  "prepareNodeResult rt be env f res requiresIntegration key =
    (if \<not> fence_required f then op_throw ''campaign_node_attempt_fence_required''
     else op_bind (op_read (readNode rt (f_node f))) (\<lambda>node.
       op_bind (op_read (\<lambda>db. Inr (case node of None \<Rightarrow> False
         | Some n \<Rightarrow> n_status n = Running \<and> lease_owner n = Some (f_worker f) \<and> attempt_id n = Some (f_attempt f)
             \<and> lease_generation n = f_generation f \<and> \<not> lapsed (nowIso env) n
             \<and> map_option c_status (getCampaign (n_campaign_id n) db) = Some C_running))) (\<lambda>live.
       case node of None \<Rightarrow> op_throw ''campaign_node_lease_lost''
       | Some n \<Rightarrow>
         let resultHash = hashRecord rt ''PaperCampaignNodeResult'' res; now = nowIso env;
             ev = prepared_event rt env n f resultHash in
         if \<not> live then op_throw ''campaign_node_lease_lost''
         else if prepared_hash n \<noteq> None then
           if prepared_hash n \<noteq> Some resultHash then op_throw ''campaign_prepared_result_immutable''
           else if or_null key \<noteq> None \<and> prepared_integration_key (prep n) \<noteq> or_null key
           then op_throw ''campaign_prepared_integration_key_immutable''
           else op_return (Some n)
         else if requiresIntegration \<and> or_null key = None then op_throw ''campaign_prepared_integration_key_required''
         else op_bind (op_catch (submit rt be ''campaign_node_result_prepare_failed''
               (tx_seq [guarded (S_prepareNode res resultHash f now requiresIntegration (or_null key)),
                  run (insert_event ev)])
               (M_prepareNodeResult res resultHash f now requiresIntegration key ev))
             (\<lambda>_. op_throw ''campaign_node_lease_lost'')) (\<lambda>_.
           op_read (readNode rt (f_node f))))))"

section \<open>Integration\<close>

definition integration_started_event :: "runtime \<Rightarrow> env \<Rightarrow> node_row \<Rightarrow> fence \<Rightarrow> string \<Rightarrow> event_row" where
  "integration_started_event rt env n f key =
    buildEvent rt env 0 (n_campaign_id n) (Some (f_node f)) ''campaign_node_result_integration_started''
      (JObj [(''integrationKey'', JStr key), (''preparedResultHash'', JOptStr (prepared_hash n)),
        (''attemptId'', JStr (f_attempt f)), (''leaseGeneration'', JInt (f_generation f))]) (nowIso env)"

definition beginNodeResultIntegration :: "runtime \<Rightarrow> backend \<Rightarrow> env \<Rightarrow> fence \<Rightarrow> string \<Rightarrow> int \<Rightarrow> node_row option op" where
  "beginNodeResultIntegration rt be env f key leaseSeconds =
    (if \<not> fence_required f \<or> key = [] then op_throw ''campaign_node_attempt_fence_required''
     else op_bind (op_read (readNode rt (f_node f))) (\<lambda>node.
       case node of None \<Rightarrow> op_throw ''campaign_node_lease_lost''
       | Some n \<Rightarrow>
         if integ n \<in> {Integ_integrating, Integ_integrated} \<and> prepared_integration_key (prep n) = Some key
         then assertLiveNodeAttempt rt be f (nowIso env) False key []
         else let now = nowIso env; expires = nowMs env + max 30 (or_num leaseSeconds 1800) * 1000;
                  ev = integration_started_event rt env n f key in
           op_bind (op_catch (submit rt be ''campaign_node_result_integration_begin_failed''
               (tx_seq [guarded (S_beginIntegrationNode now expires f key), run (insert_event ev)])
               (M_beginNodeResultIntegration now expires f key ev))
             (\<lambda>_. op_throw ''campaign_node_lease_lost'')) (\<lambda>_.
           op_read (readNode rt (f_node f)))))"

definition integrated_event :: "runtime \<Rightarrow> env \<Rightarrow> node_row \<Rightarrow> fence \<Rightarrow> string \<Rightarrow> string \<Rightarrow> event_row" where
  "integrated_event rt env n f key receiptHash =
    buildEvent rt env 0 (n_campaign_id n) (Some (f_node f)) ''campaign_node_result_integrated''
      (JObj [(''integrationKey'', JStr key), (''integrationReceiptHash'', JStr receiptHash),
        (''preparedResultHash'', JOptStr (prepared_hash n))]) (nowIso env)"

definition integration_receipt_ok :: "runtime \<Rightarrow> string \<Rightarrow> json \<Rightarrow> bool" where
  "integration_receipt_ok rt key receipt =
    (let claimed = jget ''workspaceAttemptIntegrationReceiptHash'' receipt in
     jtruthy claimed
     \<and> claimed = Some (JStr (hashRecord rt ''WorkspaceAttemptIntegrationReceipt''
         (without_key ''workspaceAttemptIntegrationReceiptHash'' receipt)))
     \<and> jget ''descriptorHash'' receipt = Some (JStr key)
     \<and> jget ''status'' receipt = Some (JStr ''workspace_attempt_integrated''))"

definition markNodeResultIntegrated :: "runtime \<Rightarrow> backend \<Rightarrow> env \<Rightarrow> fence \<Rightarrow> string \<Rightarrow> json option \<Rightarrow> node_row option op" where
  "markNodeResultIntegrated rt be env f key receipt =
    (case receipt of None \<Rightarrow> op_throw ''campaign_node_attempt_fence_required''
     | Some rcpt \<Rightarrow>
       if \<not> fence_required f \<or> key = [] \<or> \<not> jtruthy receipt then op_throw ''campaign_node_attempt_fence_required''
       else if \<not> integration_receipt_ok rt key rcpt then op_throw ''campaign_node_integration_receipt_invalid''
       else let receiptHash = sqlText (jstr (jget ''workspaceAttemptIntegrationReceiptHash'' rcpt)); now = nowIso env in
         op_bind (op_read (readNode rt (f_node f))) (\<lambda>node.
         case node of None \<Rightarrow> op_throw ''campaign_node_lease_lost''
         | Some n \<Rightarrow>
           if integ n = Integ_integrated \<and> prepared_integration_key (prep n) = Some key
              \<and> prepared_integration_receipt_sha256 (prep n) = Some receiptHash
           then assertLiveNodeAttempt rt be f now True key receiptHash
           else let ev = integrated_event rt env n f key receiptHash in
             op_bind (op_catch (submit rt be ''campaign_node_result_integration_mark_failed''
                 (tx_seq [guarded (S_markIntegratedNode rcpt receiptHash now f key), run (insert_event ev)])
                 (M_markNodeResultIntegrated rcpt receiptHash now f key ev))
               (\<lambda>_. op_throw ''campaign_node_lease_lost'')) (\<lambda>_.
             op_read (readNode rt (f_node f)))))"

section \<open>Completion\<close>

definition result_text :: "json option \<Rightarrow> string \<Rightarrow> string option" where
  "result_text prepared k = or_null (jstr (Option.bind prepared (jget k)))"

definition or_text :: "string option \<Rightarrow> string option \<Rightarrow> string option" where
  "or_text x y = (case x of None \<Rightarrow> y | Some s \<Rightarrow> Some s)"

definition completion_reviewer :: "node_row \<Rightarrow> reviewer" where
  "completion_reviewer n =
    (let p = prepared_result (prep n) in
     \<lparr>role = or_text (result_text p ''role'') (or_text (role (review n)) (spec_opt ''role'' (n_spec n))),
      reviewer_id = result_text p ''reviewerId'',
      child_session_id = or_text (result_text p ''childSessionId'') (result_text p ''sessionKey''),
      review_hash = result_text p ''reviewHash'', prompt_hash = result_text p ''promptHash'',
      resolved_model = result_text p ''resolvedModel''\<rparr>)"

definition completed_event :: "runtime \<Rightarrow> env \<Rightarrow> node_row \<Rightarrow> fence \<Rightarrow> release_row option \<Rightarrow> event_row" where
  "completed_event rt env n f receipt =
    buildEvent rt env 0 (n_campaign_id n) (Some (f_node f)) ''campaign_node_completed''
      (JObj [(''resultHash'', JOptStr (prepared_hash n)),
        (''preparedAttemptId'', JOptStr (prepared_attempt_id (prep n))),
        (''integratedByAttemptId'', JStr (f_attempt f)),
        (''campaignReleasePromotionReceiptHash'', JOptStr (map_option rel_receipt_hash receipt))]) (nowIso env)"

definition complete_statements :: "node_row \<Rightarrow> int \<Rightarrow> reviewer \<Rightarrow> fence \<Rightarrow> usage_delta \<Rightarrow> event_row \<Rightarrow> release_row option \<Rightarrow> tx" where
  "complete_statements n now r f delta ev receipt =
    (let resultHash = sqlText (prepared_hash n); cid = n_campaign_id n in
     tx_seq ([guarded (S_completeNode now r f resultHash),
         run (S_updateCampaignUsage (nativeStoreCampaignUsageParameters delta) now cid),
         run (insert_event ev), run (projectCampaign cid now)]
       @ (case receipt of None \<Rightarrow> [] | Some rel \<Rightarrow> [guarded (S_publishCurrentRelease rel f cid resultHash)])))"

type_synonym promote = "campaign_row option \<Rightarrow> node_row \<Rightarrow> json \<Rightarrow> int \<Rightarrow> release_row result"

definition promotion_receipt :: "promote \<Rightarrow> campaign_row option \<Rightarrow> node_row \<Rightarrow> int \<Rightarrow> release_row option result" where
  "promotion_receipt promote c n now =
    (case prepared_result (prep n) of None \<Rightarrow> Inr None
     | Some p \<Rightarrow> if n_kind n = ''package'' \<and> jtruthy (jget ''releaseBundle'' p)
         then rbind (promote c n p now) (\<lambda>r. Inr (Some (r\<lparr>rel_bundle := or_else (jget ''releaseBundle'' p) JNull\<rparr>)))
         else Inr None)"

definition completeNode :: "runtime \<Rightarrow> promote \<Rightarrow> backend \<Rightarrow> env \<Rightarrow> env \<Rightarrow> fence \<Rightarrow> string option \<Rightarrow> json option
    \<Rightarrow> usage_delta \<Rightarrow> node_row option op" where
  "completeNode rt promote be prepareEnv env f preparedHash res delta =
    (if \<not> fence_required f then op_throw ''campaign_node_attempt_fence_required''
     else op_bind (op_read (readNode rt (f_node f))) (\<lambda>node0.
       if (case node0 of None \<Rightarrow> False | Some n \<Rightarrow> n_status n = Completed \<and> attempt_id n = Some (f_attempt f)
            \<and> (or_null preparedHash = None \<or> result_sha256 n = or_null preparedHash))
       then op_return node0
       else op_bind (case res of
             Some v \<Rightarrow> if Option.bind node0 prepared_hash = None
               then prepareNodeResult rt be prepareEnv f v False None else op_return node0
           | None \<Rightarrow> op_return node0) (\<lambda>node.
         case node of None \<Rightarrow> op_throw ''campaign_prepared_result_required''
         | Some n \<Rightarrow>
           if prepared_hash n = None then op_throw ''campaign_prepared_result_required''
           else if or_null preparedHash \<noteq> None \<and> prepared_hash n \<noteq> or_null preparedHash
           then op_throw ''campaign_prepared_result_hash_mismatch''
           else if prepared_requires_integration (prep n)
              \<and> (integ n \<noteq> Integ_integrated \<or> prepared_integration_receipt_sha256 (prep n) = None)
           then op_throw ''campaign_prepared_result_integration_required''
           else let now = nowIso env; r = completion_reviewer n in
             op_bind (op_read (\<lambda>db. promotion_receipt promote (getCampaign (n_campaign_id n) db) n now)) (\<lambda>receipt.
             let ev = completed_event rt env n f receipt in
             op_bind (op_catch (submit rt be ''campaign_node_complete_failed''
                 (complete_statements n now r f delta ev receipt)
                 (M_completeNode n now r f delta ev receipt))
               (\<lambda>_. op_throw ''campaign_node_lease_lost'')) (\<lambda>_.
             op_read (readNode rt (f_node f)))))))"

end
