(* ===== verification/Release_Authority.thy ===== *)
theory Release_Authority
  imports Campaign_Prepared_Store Campaign_Definition
begin

text \<open>
  The authority of published releases: the promotion receipt of the release contract
  (\<open>createCampaignReleasePromotionReceipt\<close> of \<open>campaign-release-contracts.mjs\<close>), the query of
  the current release (\<open>sqlite-campaign-release-query-repository.mjs\<close>) and the promotion of a
  campaign that is already completed (\<open>sqlite-campaign-release-authority-repository.mjs\<close>,
  \<open>native-store-quality-release-mutation-plan.mjs\<close>), the second writer of
  \<open>campaign_current_releases\<close>. The verification of a release bundle against the expected
  identity (\<open>verifyCampaignReleaseBundle\<close>, the list of its blockers), of an authority record and
  of the sealed package files are the fields of \<open>release_checks\<close>.
\<close>

record release_checks =
  rc_bundle :: "json option \<Rightarrow> json \<Rightarrow> int \<Rightarrow> string list"
  rc_record :: "release_row \<Rightarrow> node_row \<Rightarrow> unit result"
  rc_sealed :: "json option \<Rightarrow> unit result"

section \<open>The promotion receipt\<close>

text \<open>The entries of an object literal; an entry with the value \<open>undefined\<close> is not serialised.\<close>

definition defined_entries :: "(string \<times> json option) list \<Rightarrow> (string \<times> json) list" where
  "defined_entries = List.map_filter (\<lambda>e. map_option (Pair (fst e)) (snd e))"

lemma defined_entries_lookup:
  "distinct (map fst es) \<Longrightarrow> map_of (defined_entries es) k = Option.bind (map_of es k) id"
proof (induction es)
  case Nil
  then show ?case by (simp add: defined_entries_def List.map_filter_simps)
next
  case (Cons e es)
  obtain a v where e: "e = (a, v)" by fastforce
  with Cons.prems have "map_of es a = None" by (simp add: map_of_eq_None_iff)
  with Cons e show ?case by (cases v) (auto simp: defined_entries_def List.map_filter_simps)
qed

definition field_or_null :: "string \<Rightarrow> json option \<Rightarrow> json option" where
  "field_or_null k v = Some (or_else (Option.bind v (jget k)) JNull)"

definition matchesRecordHash :: "runtime \<Rightarrow> json option \<Rightarrow> string \<Rightarrow> string \<Rightarrow> bool" where
  "matchesRecordHash rt v kind hashField = (case v of
      Some (JObj es) \<Rightarrow> jtruthy (jget hashField (JObj es))
        \<and> jget hashField (JObj es) = Some (JStr (hashRecord rt kind (without_key hashField (JObj es))))
    | _ \<Rightarrow> False)"

definition campaign_field :: "(campaign_row \<Rightarrow> json option) \<Rightarrow> campaign_row option \<Rightarrow> json option" where
  "campaign_field g c = Option.bind c g"

definition promotion_expectation :: "campaign_row option \<Rightarrow> node_row \<Rightarrow> json" where
  "promotion_expectation c n = JObj (defined_entries [
    (''campaignId'', campaign_field (\<lambda>c. Some (JStr (campaign_id c))) c),
    (''campaignPlanHash'', campaign_field (\<lambda>c. jget ''campaignPlanHash'' (c_spec c)) c),
    (''paperId'', campaign_field (\<lambda>c. Some (JStr (paper_id c))) c),
    (''venueTarget'', field_or_null ''venueTarget'' (map_option c_spec c)),
    (''packageNodeId'', Some (JStr (node_id n))),
    (''packageAttemptId'', Some (JOptStr (attempt_id n)))])"

definition promotion_payload :: "runtime \<Rightarrow> campaign_row option \<Rightarrow> node_row \<Rightarrow> json \<Rightarrow> int \<Rightarrow> (string \<times> json option) list" where
  "promotion_payload rt c n res promotedAt =
    (let bundle = jget ''releaseBundle'' res; materialization = jget ''materializationReceipt'' res in [
    (''version'', Some (JInt 1)), (''kind'', Some (JStr ''CampaignReleasePromotionReceipt'')),
    (''status'', Some (JStr ''campaign_release_current_completed'')),
    (''campaignId'', campaign_field (\<lambda>c. Some (JStr (campaign_id c))) c),
    (''paperId'', campaign_field (\<lambda>c. Some (JStr (paper_id c))) c),
    (''venueTarget'', field_or_null ''venueTarget'' bundle),
    (''campaignPlanHash'', campaign_field (\<lambda>c. jget ''campaignPlanHash'' (c_spec c)) c),
    (''packageNodeId'', Some (JStr (node_id n))), (''packageAttemptId'', Some (JOptStr (attempt_id n))),
    (''leaseGeneration'', Some (JInt (lease_generation n))),
    (''packageResultHash'', Some (JOptStr (prepared_hash n))),
    (''integrationDescriptorHash'', Some (JOptStr (prepared_integration_key (prep n)))),
    (''integrationReceiptHash'', Some (JOptStr (prepared_integration_receipt_sha256 (prep n)))),
    (''campaignReleaseBundleHash'', Option.bind bundle (jget ''campaignReleaseBundleHash'')),
    (''verifiedSourceMerkleHash'', Option.bind bundle (jget ''verifiedSourceMerkleHash'')),
    (''verifiedSourceWorkspaceManifestHash'', Option.bind bundle (jget ''verifiedSourceWorkspaceManifestHash'')),
    (''campaignResearchSourceSnapshotHash'', field_or_null ''campaignResearchSourceSnapshotHash'' bundle),
    (''experimentRegistryHash'', field_or_null ''experimentRegistryHash'' bundle),
    (''empiricalAssertionAuthorityHash'', field_or_null ''empiricalAssertionAuthorityHash'' bundle),
    (''empiricalAssertionUniverseHash'', field_or_null ''empiricalAssertionUniverseHash'' bundle),
    (''empiricalAssertionUniverseBindingHash'', field_or_null ''empiricalAssertionUniverseBindingHash'' bundle),
    (''empiricalAssertionManuscriptCorpusHash'', field_or_null ''empiricalAssertionManuscriptCorpusHash'' bundle),
    (''researchVerifyNodeId'', field_or_null ''researchVerifyNodeId'' bundle),
    (''researchVerifyAttemptId'', field_or_null ''researchVerifyAttemptId'' bundle),
    (''researchVerifyLeaseGeneration'', field_or_null ''researchVerifyLeaseGeneration'' bundle),
    (''materializationReceiptHash'', Option.bind materialization (jget ''campaignReleaseBundleMaterializationReceiptHash'')),
    (''packageNodeStatus'', Some (JStr ''completed'')), (''campaignStatus'', Some (JStr ''completed'')),
    (''packageCompletedAt'', Some (JStr (toISOString rt promotedAt))), (''promotedAt'', Some (JStr (toISOString rt promotedAt))),
    (''submissionConsumable'', Some (JBool True)), (''externalActionPerformed'', Some (JBool False))])"

definition package_result_sealed :: "runtime \<Rightarrow> json \<Rightarrow> bool" where
  "package_result_sealed rt res =
    (let claimed = jget ''campaignReleasePackageResultHash'' res in jtruthy claimed
      \<and> claimed = Some (JStr (hashRecord rt ''CampaignReleasePackageResult''
          (without_key ''campaignReleasePackageResultHash'' (without_key ''workspaceAttemptIntegration'' res)))))"

definition materialization_bound :: "runtime \<Rightarrow> json \<Rightarrow> bool" where
  "materialization_bound rt res =
    (let receipt = jget ''materializationReceipt'' res; bundle = jget ''releaseBundle'' res in
     matchesRecordHash rt receipt ''CampaignReleaseBundleMaterializationReceipt'' ''campaignReleaseBundleMaterializationReceiptHash''
     \<and> Option.bind receipt (jget ''status'') = Some (JStr ''campaign_release_bundle_materialized'')
     \<and> bundle \<noteq> None
     \<and> Option.bind receipt (jget ''campaignReleaseBundleHash'') = Option.bind bundle (jget ''campaignReleaseBundleHash'')
     \<and> jget ''campaignReleaseBundleMaterializationReceiptHash'' res
         = Option.bind receipt (jget ''campaignReleaseBundleMaterializationReceiptHash''))"

definition createCampaignReleasePromotionReceipt :: "runtime \<Rightarrow> release_checks \<Rightarrow> campaign_row option \<Rightarrow> node_row \<Rightarrow> json \<Rightarrow> int
    \<Rightarrow> json result" where
  "createCampaignReleasePromotionReceipt rt checks c n res promotedAt =
    (let blockers = rc_bundle checks (jget ''releaseBundle'' res) (promotion_expectation c n) promotedAt;
         payload = JObj (defined_entries (promotion_payload rt c n res promotedAt)) in
     rbind (check (blockers = []) (''campaign_release_promotion_bundle_invalid:'' @ join '','' blockers)) (\<lambda>_.
     rbind (check (package_result_sealed rt res) ''campaign_release_package_result_hash_invalid'') (\<lambda>_.
     rbind (check (or_null (prepared_hash n) \<noteq> None \<and> prepared_hash n = Some (hashRecord rt ''PaperCampaignNodeResult'' res))
       ''campaign_release_authoritative_result_hash_invalid'') (\<lambda>_.
     rbind (check (materialization_bound rt res) ''campaign_release_materialization_receipt_invalid'') (\<lambda>_.
     rbind (check (integ n = Integ_integrated) ''campaign_release_package_attempt_not_integrated'') (\<lambda>_.
     rbind (check (or_null (prepared_integration_key (prep n)) \<noteq> None \<and> or_null (prepared_integration_receipt_sha256 (prep n)) \<noteq> None)
       ''campaign_release_integration_authority_required'') (\<lambda>_.
     rbind (check (1 \<le> lease_generation n) ''campaign_release_lease_generation_invalid'') (\<lambda>_.
     Inr (JObj (entries payload
       @ [(''campaignReleasePromotionReceiptHash'', JStr (hashRecord rt ''CampaignReleasePromotionReceipt'' payload))]))))))))))"

text \<open>
  The columns of the row both writers insert. A column that is no text would be NULL, which the
  table does not admit; then the completing transaction fails and the other writer inserts nothing.
\<close>

definition release_columns :: "json \<Rightarrow> int \<Rightarrow> int \<Rightarrow> json option \<Rightarrow> release_row result" where
  "release_columns p generation promotedAt bundle =
    (let col = (\<lambda>k. jstr (jget k p)) in
     if list_ex (\<lambda>k. col k = None) [''campaignId'', ''paperId'', ''campaignPlanHash'', ''packageNodeId'', ''packageAttemptId'',
         ''packageResultHash'', ''integrationDescriptorHash'', ''integrationReceiptHash'', ''campaignReleaseBundleHash'',
         ''materializationReceiptHash'', ''campaignReleasePromotionReceiptHash'']
     then Inl ''NOT NULL constraint failed: campaign_current_releases''
     else Inr \<lparr>rel_campaign_id = sqlText (col ''campaignId''), rel_paper_id = sqlText (col ''paperId''),
       rel_plan_hash = sqlText (col ''campaignPlanHash''), rel_package_node_id = sqlText (col ''packageNodeId''),
       rel_attempt_id = sqlText (col ''packageAttemptId''), rel_lease_generation = generation,
       rel_result_hash = sqlText (col ''packageResultHash''),
       rel_integration_descriptor_hash = sqlText (col ''integrationDescriptorHash''),
       rel_integration_receipt_hash = sqlText (col ''integrationReceiptHash''),
       rel_bundle_hash = sqlText (col ''campaignReleaseBundleHash''),
       rel_materialization_receipt_hash = sqlText (col ''materializationReceiptHash''),
       rel_bundle = or_else bundle JNull, rel_receipt = p,
       rel_receipt_hash = sqlText (col ''campaignReleasePromotionReceiptHash''),
       rel_package_completed_at = promotedAt, rel_promoted_at = promotedAt\<rparr>)"

definition contract_promotion :: "runtime \<Rightarrow> release_checks \<Rightarrow> promote" where
  "contract_promotion rt checks c n res promotedAt =
    rbind (createCampaignReleasePromotionReceipt rt checks c n res promotedAt) (\<lambda>p.
      release_columns p (lease_generation n) promotedAt (jget ''releaseBundle'' res))"

section \<open>The current release\<close>

definition release_is_current :: "release_row \<Rightarrow> campaign_row \<Rightarrow> node_row \<Rightarrow> bool" where
  "release_is_current r c n = (campaign_id c = rel_campaign_id r \<and> node_id n = rel_package_node_id r
    \<and> n_campaign_id n = rel_campaign_id r \<and> c_status c = C_completed \<and> paper_id c = rel_paper_id r
    \<and> jpath [''campaignPlanHash''] (c_spec c) = Some (JStr (rel_plan_hash r))
    \<and> n_kind n = ''package'' \<and> n_status n = Completed \<and> attempt_id n = Some (rel_attempt_id r)
    \<and> lease_generation n = rel_lease_generation r \<and> result_sha256 n = Some (rel_result_hash r)
    \<and> integ n = Integ_integrated \<and> prepared_integration_key (prep n) = Some (rel_integration_descriptor_hash r)
    \<and> prepared_integration_receipt_sha256 (prep n) = Some (rel_integration_receipt_hash r)
    \<and> Option.bind (result_json n) (jpath [''campaignReleaseBundleHash'']) = Some (JStr (rel_bundle_hash r))
    \<and> Option.bind (result_json n) (jpath [''campaignReleaseBundleMaterializationReceiptHash''])
        = Some (JStr (rel_materialization_receipt_hash r)))"

definition S_currentRelease :: "string \<Rightarrow> db \<Rightarrow> (release_row \<times> node_row) option" where
  "S_currentRelease cid db = head_option (concat (map (\<lambda>r. concat (map (\<lambda>c. map (Pair r) (filter (release_is_current r c) (nodes db)))
    (campaigns db))) (filter (\<lambda>r. rel_campaign_id r = cid) (releases db))))"

definition authorityFromRow :: "runtime \<Rightarrow> release_checks \<Rightarrow> release_row \<Rightarrow> node_row \<Rightarrow> release_row result" where
  "authorityFromRow rt checks r n =
    (case (result_json n, prepared_integration_receipt (prep n)) of
       (Some res, Some rcpt) \<Rightarrow>
         rbind (check (rel_integration_receipt_hash r \<noteq> []
             \<and> jget ''workspaceAttemptIntegrationReceiptHash'' rcpt = Some (JStr (rel_integration_receipt_hash r))
             \<and> hashRecord rt ''WorkspaceAttemptIntegrationReceipt'' (without_key ''workspaceAttemptIntegrationReceiptHash'' rcpt)
                 = rel_integration_receipt_hash r
             \<and> jget ''descriptorHash'' rcpt = Some (JStr (rel_integration_descriptor_hash r)))
           ''campaign_release_authority_integration_receipt_invalid'') (\<lambda>_.
         rbind (check (hashRecord rt ''PaperCampaignNodeResult'' res = rel_result_hash r
             \<and> jget ''campaignReleaseBundleHash'' res = Some (JStr (rel_bundle_hash r))
             \<and> jget ''campaignReleaseBundleMaterializationReceiptHash'' res = Some (JStr (rel_materialization_receipt_hash r)))
           ''campaign_release_authority_result_binding_invalid'') (\<lambda>_.
         rbind (rc_record checks r n) (\<lambda>_.
         rbind (check (jget ''campaignReleasePromotionReceiptHash'' (rel_receipt r) = Some (JStr (rel_receipt_hash r)))
           ''campaign_release_authority_promotion_hash_binding_invalid'') (\<lambda>_. Inr r))))
     | _ \<Rightarrow> Inl ''TypeError'')"

text \<open>\<open>rc_sealed\<close> stands for the check of the package files and the second verification of the record.\<close>

definition getCurrentRelease :: "runtime \<Rightarrow> release_checks \<Rightarrow> string \<Rightarrow> db \<Rightarrow> release_row option result" where
  "getCurrentRelease rt checks cid db =
    (if cid = [] then Inl ''campaign_release_authority_campaign_id_required''
     else case S_currentRelease cid db of None \<Rightarrow> Inr None
       | Some (r, n) \<Rightarrow> rbind (authorityFromRow rt checks r n) (\<lambda>r.
           rbind (rc_sealed checks (jget ''packageOutput'' (rel_bundle r))) (\<lambda>_. Inr (Some r))))"

section \<open>Promoting a completed campaign\<close>

definition package_order :: "campaign_row \<times> node_row \<Rightarrow> campaign_row \<times> node_row \<Rightarrow> int" where
  "package_order x y =
    (let t = n_updated_at (snd y) - n_updated_at (snd x) in
     if t \<noteq> 0 then t else codeUnitCompare (node_id (snd x)) (node_id (snd y)))"

definition S_completedPackage :: "string \<Rightarrow> db \<Rightarrow> (campaign_row \<times> node_row) option" where
  "S_completedPackage cid db = head_option (sort_by package_order (concat (map (\<lambda>c.
    map (Pair c) (filter (\<lambda>n. n_campaign_id n = campaign_id c \<and> n_kind n = ''package'' \<and> n_status n = Completed) (nodes db)))
    (filter (\<lambda>c. campaign_id c = cid \<and> c_status c = C_completed) (campaigns db)))))"

definition release_completed :: "release_row \<Rightarrow> db \<Rightarrow> bool" where
  "release_completed r db = list_ex (\<lambda>n.
    node_id n = rel_package_node_id r \<and> n_campaign_id n = rel_campaign_id r \<and> n_kind n = ''package'' \<and> n_status n = Completed
    \<and> attempt_id n = Some (rel_attempt_id r) \<and> lease_generation n = rel_lease_generation r
    \<and> result_sha256 n = Some (rel_result_hash r) \<and> integ n = Integ_integrated
    \<and> prepared_integration_key (prep n) = Some (rel_integration_descriptor_hash r)
    \<and> prepared_integration_receipt_sha256 (prep n) = Some (rel_integration_receipt_hash r)
    \<and> list_ex (\<lambda>c. campaign_id c = n_campaign_id n \<and> c_status c = C_completed \<and> paper_id c = rel_paper_id r
        \<and> jpath [''campaignPlanHash''] (c_spec c) = Some (JStr (rel_plan_hash r))) (campaigns db)) (nodes db)"

text \<open>
  \<open>INSERT OR IGNORE\<close> skips a row that violates a key or a check; the foreign keys hold by the
  condition of the statement.
\<close>

definition S_insertCurrentRelease :: "release_row \<Rightarrow> stmt" where
  "S_insertCurrentRelease r db =
    (if \<not> release_completed r db
        \<or> list_ex (\<lambda>x. rel_campaign_id x = rel_campaign_id r \<or> rel_package_node_id x = rel_package_node_id r) (releases db)
        \<or> rel_lease_generation r \<le> 0
     then Inr (0, db) else Inr (1, db\<lparr>releases := releases db @ [r]\<rparr>))"

definition insert_current_release :: "release_row \<Rightarrow> unit op" where
  "insert_current_release r db = (case run (S_insertCurrentRelease r) db of
      Inl e \<Rightarrow> (Inl (if e = [] then ''campaign_release_authority_promotion_failed'' else e), db)
    | Inr db' \<Rightarrow> (Inr (), db'))"

text \<open>The package node as the contract gets it: the hash of the result is the column of the completed row.\<close>

definition completed_node :: "node_row \<Rightarrow> node_row" where
  "completed_node n = n\<lparr>prep := (prep n)\<lparr>prepared_result_sha256 := result_sha256 n\<rparr>\<rparr>"

definition promotion_time :: "node_row \<Rightarrow> int" where
  "promotion_time n = (case integrated_at n of Some t \<Rightarrow> t | None \<Rightarrow> n_updated_at n)"

definition promoteCompletedRelease :: "runtime \<Rightarrow> release_checks \<Rightarrow> promote \<Rightarrow> string \<Rightarrow> release_row op" where
  "promoteCompletedRelease rt checks promote cid =
    (if cid = [] then op_throw ''campaign_release_authority_campaign_id_required''
     else op_bind (op_read (getCurrentRelease rt checks cid)) (\<lambda>current.
       case current of Some r \<Rightarrow> op_return r
       | None \<Rightarrow> op_bind (op_read (\<lambda>db. case S_completedPackage cid db of
             None \<Rightarrow> Inl ''campaign_release_completed_package_not_found''
           | Some (c, n) \<Rightarrow> (case result_json n of None \<Rightarrow> Inl ''TypeError''
               | Some res \<Rightarrow> promote (Some c) (completed_node n) res (promotion_time n)))) (\<lambda>rel.
         op_bind (insert_current_release rel) (\<lambda>_.
         op_bind (op_read (getCurrentRelease rt checks cid)) (\<lambda>promoted.
           case promoted of None \<Rightarrow> op_throw ''campaign_release_authority_promotion_not_current''
           | Some r \<Rightarrow> op_return r)))))"

section \<open>What a promotion carries\<close>

lemma promotion_payload_keys: "distinct (map fst (promotion_payload rt c n res now))"
  by (simp add: promotion_payload_def Let_def)

lemma promotion_receipt_lookup:
  assumes "createCampaignReleasePromotionReceipt rt checks c n res now = Inr p" "k \<noteq> ''campaignReleasePromotionReceiptHash''"
  shows "jget k p = Option.bind (map_of (promotion_payload rt c n res now) k) id"
  using assms defined_entries_lookup [OF promotion_payload_keys, of rt c n res now k]
  by (auto simp: createCampaignReleasePromotionReceipt_def Let_def rbind_Inr_iff entries_def map_add_def split: option.splits)

lemma jstr_Some: "jstr v = Some s \<longleftrightarrow> v = Some (JStr s)"
  by (auto simp: jstr_def split: option.splits json.splits)

lemma contract_promotion_row:
  assumes "contract_promotion rt checks c n res now = Inr r"
  shows "\<exists>c'. c = Some c' \<and> rel_campaign_id r = campaign_id c' \<and> rel_paper_id r = paper_id c'"
    and "rel_package_node_id r = node_id n" "prepared_hash n = Some (rel_result_hash r)"
    and "integ n = Integ_integrated" "prepared_integration_key (prep n) = Some (rel_integration_descriptor_hash r)"
    and "prepared_integration_receipt_sha256 (prep n) = Some (rel_integration_receipt_hash r)"
    and "jpath [''releaseBundle'', ''campaignReleaseBundleHash''] res = Some (JStr (rel_bundle_hash r))"
    and "jpath [''campaignReleaseBundleMaterializationReceiptHash''] res = Some (JStr (rel_materialization_receipt_hash r))"
proof -
  obtain p where p: "createCampaignReleasePromotionReceipt rt checks c n res now = Inr p"
    and row: "release_columns p (lease_generation n) now (jget ''releaseBundle'' res) = Inr r"
    using assms by (auto simp: contract_promotion_def rbind_Inr_iff)
  have checked: "integ n = Integ_integrated" "materialization_bound rt res"
    using p by (auto simp: createCampaignReleasePromotionReceipt_def Let_def rbind_Inr_iff)
  have col: "jget k p = Option.bind (map_of (promotion_payload rt c n res now) k) id" if "k \<noteq> ''campaignReleasePromotionReceiptHash''" for k
    by (rule promotion_receipt_lookup [OF p that])
  have texts: "jget ''campaignId'' p = Some (JStr (rel_campaign_id r))" "jget ''paperId'' p = Some (JStr (rel_paper_id r))"
    "jget ''packageNodeId'' p = Some (JStr (rel_package_node_id r))" "jget ''packageResultHash'' p = Some (JStr (rel_result_hash r))"
    "jget ''integrationDescriptorHash'' p = Some (JStr (rel_integration_descriptor_hash r))"
    "jget ''integrationReceiptHash'' p = Some (JStr (rel_integration_receipt_hash r))"
    "jget ''campaignReleaseBundleHash'' p = Some (JStr (rel_bundle_hash r))"
    "jget ''materializationReceiptHash'' p = Some (JStr (rel_materialization_receipt_hash r))"
    using row by (auto simp: release_columns_def Let_def sqlText_def jstr_Some split: if_splits)
  show "integ n = Integ_integrated" by (rule checked(1))
  show "\<exists>c'. c = Some c' \<and> rel_campaign_id r = campaign_id c' \<and> rel_paper_id r = paper_id c'"
    using texts(1,2) by (cases c) (simp_all add: col promotion_payload_def Let_def campaign_field_def)
  show "rel_package_node_id r = node_id n" using texts(3) by (simp add: col promotion_payload_def Let_def)
  show "prepared_hash n = Some (rel_result_hash r)"
    using texts(4) by (simp add: col promotion_payload_def Let_def JOptStr_def split: option.splits)
  show "prepared_integration_key (prep n) = Some (rel_integration_descriptor_hash r)"
    using texts(5) by (simp add: col promotion_payload_def Let_def JOptStr_def split: option.splits)
  show "prepared_integration_receipt_sha256 (prep n) = Some (rel_integration_receipt_hash r)"
    using texts(6) by (simp add: col promotion_payload_def Let_def JOptStr_def split: option.splits)
  show "jpath [''releaseBundle'', ''campaignReleaseBundleHash''] res = Some (JStr (rel_bundle_hash r))"
    using texts(7) by (cases "jget ''releaseBundle'' res") (auto simp: col promotion_payload_def Let_def split: bind_split)
  show "jpath [''campaignReleaseBundleMaterializationReceiptHash''] res = Some (JStr (rel_materialization_receipt_hash r))"
    using texts(8) checked(2) by (simp add: col promotion_payload_def Let_def materialization_bound_def)
qed

end
