(* ===== verification/Store_Contract.thy ===== *)
theory Store_Contract
  imports Campaign_Action_Store Release_Authority Campaign_Lifecycle_Store
begin

text \<open>
  Reasoning about the store in layers. A relation between database states that is reflexive
  and transitive and holds of every statement a transaction may run holds of the transaction,
  of the mutation on either backend (a failed one leaves the database unchanged), and of every
  operation built from them. The locale \<open>db_preorder\<close> states this once; its interpretations
  are relations on the rows of the tables.
\<close>

section \<open>From statements to operations\<close>

named_theorems rel_intro \<open>closure rules of database relations under the program constructs\<close>

definition stmt_in :: "(db \<Rightarrow> db \<Rightarrow> bool) \<Rightarrow> stmt \<Rightarrow> bool" where
  "stmt_in R st = (\<forall>db k db'. st db = Inr (k, db') \<longrightarrow> R db db')"

definition tx_in :: "(db \<Rightarrow> db \<Rightarrow> bool) \<Rightarrow> tx \<Rightarrow> bool" where
  "tx_in R t = (\<forall>db db'. t db = Inr db' \<longrightarrow> R db db')"

definition op_in :: "(db \<Rightarrow> db \<Rightarrow> bool) \<Rightarrow> 'a op \<Rightarrow> bool" where
  "op_in R m = (\<forall>db. R db (snd (m db)))"

lemma run_in: "stmt_in R st \<Longrightarrow> tx_in R (run st)"
  by (auto simp: stmt_in_def tx_in_def run_def rbind_Inr_iff)

lemma required_in: "stmt_in R st \<Longrightarrow> tx_in R (required code st)"
  by (auto simp: stmt_in_def tx_in_def required_def rbind_Inr_iff split: if_splits)

lemma guarded_in: "stmt_in R st \<Longrightarrow> tx_in R (guarded st)"
  unfolding guarded_def by (rule required_in)

lemma insertEvent_in: "stmt_in R (insert_event e) \<Longrightarrow> tx_in R (insertNativeStoreCampaignEvent e)"
  unfolding insertNativeStoreCampaignEvent_def by (rule required_in)

lemma project_in: "stmt_in R (projectCampaign cid now) \<Longrightarrow> tx_in R (projectNativeStoreCampaign cid now)"
  unfolding projectNativeStoreCampaign_def by (rule run_in)

lemma usage_in: "stmt_in R st \<Longrightarrow> tx_in R (runNativeStoreCampaignUsage b1 b2 st)"
  unfolding runNativeStoreCampaignUsage_def by (simp add: required_in run_in)

locale db_preorder =
  fixes R :: "db \<Rightarrow> db \<Rightarrow> bool"
  assumes R_refl: "R db db" and R_trans: "R a b \<Longrightarrow> R b c \<Longrightarrow> R a c"
begin

lemma tx_id_in: "tx_in R Inr" "tx_in R (tx_check b e)" "tx_in R (\<lambda>db. Inl e)"
  by (auto simp: tx_in_def tx_check_def R_refl split: if_splits)

lemma cancel_inspection_in: "tx_in R (cancel_inspection cid i)"
  by (auto simp: tx_in_def cancel_inspection_def tx_check_def R_refl split: option.splits if_splits)

lemma tx_bind_in: "tx_in R t \<Longrightarrow> tx_in R u \<Longrightarrow> tx_in R (\<lambda>db. rbind (t db) u)"
  unfolding tx_in_def rbind_Inr_iff by (meson R_trans)

lemma tx_seq_dep: "tx_in R t \<Longrightarrow> tx_in R (tx_seq ts) \<Longrightarrow> tx_in R (tx_seq (t # ts))"
  using tx_bind_in [of t "tx_seq ts"] by (simp add: tx_in_def)

lemma tx_seq_in: "(\<And>t. t \<in> set ts \<Longrightarrow> tx_in R t) \<Longrightarrow> tx_in R (tx_seq ts)"
proof (induction ts)
  case Nil
  then show ?case by (simp add: tx_in_def R_refl)
next
  case (Cons t ts)
  then show ?case by (intro tx_seq_dep) simp_all
qed

lemma tx_read_in: "(\<And>x. tx_in R (t x)) \<Longrightarrow> tx_in R (\<lambda>db. rbind (q db) (\<lambda>x. t x db))"
  by (auto simp: tx_in_def rbind_Inr_iff)

lemma mutation_in: "tx_in R statements \<Longrightarrow> tx_in R native \<Longrightarrow> op_in R (mutation be fallback statements native)"
  by (auto simp: op_in_def mutation_def tx_in_def R_refl split: backend.splits sum.splits)

lemma op_return_in: "op_in R (op_return x)" "op_in R (op_throw e)" "op_in R (op_read q)"
  by (simp_all add: op_in_def op_return_def op_throw_def op_read_def R_refl)

lemma op_bind_in:
  assumes "op_in R m" and "\<And>x. op_in R (k x)"
  shows "op_in R (op_bind m k)"
proof (unfold op_in_def, rule allI)
  fix db
  obtain r db1 where m: "m db = (r, db1)" by fastforce
  then have "R db db1" using assms(1) unfolding op_in_def by (metis snd_conv)
  then show "R db (snd (op_bind m k db))"
    using m assms(2) unfolding op_in_def op_bind_def
    by (cases r) (auto intro: R_trans)
qed

lemma op_bind_post_in:
  assumes "op_in R m" and "\<And>db x. fst (m db) = Inr x \<Longrightarrow> op_in R (k x)"
  shows "op_in R (op_bind m k)"
proof (unfold op_in_def, rule allI)
  fix db
  obtain r db1 where m: "m db = (r, db1)" by fastforce
  then have "R db db1" using assms(1) unfolding op_in_def by (metis snd_conv)
  then show "R db (snd (op_bind m k db))"
    using m assms(2) [of db] unfolding op_in_def op_bind_def
    by (cases r) (auto intro: R_trans)
qed

lemma op_catch_in:
  assumes "op_in R m" and "\<And>e. op_in R (h e)"
  shows "op_in R (op_catch m h)"
proof (unfold op_in_def, rule allI)
  fix db
  obtain r db1 where m: "m db = (r, db1)" by fastforce
  then have "R db db1" using assms(1) unfolding op_in_def by (metis snd_conv)
  then show "R db (snd (op_catch m h db))"
    using m assms(2) unfolding op_in_def op_catch_def
    by (cases r) (auto intro: R_trans)
qed

lemma op_read_bind_in:
  "(\<And>db x. q db = Inr x \<Longrightarrow> op_in R (k x)) \<Longrightarrow> op_in R (op_bind (op_read q) k)"
  by (auto simp: op_in_def op_bind_def op_read_def R_refl split: sum.splits)

lemma op_map_in: "(\<And>x. x \<in> set xs \<Longrightarrow> op_in R (f x)) \<Longrightarrow> op_in R (op_map f xs)"
  by (induction xs) (auto intro!: op_bind_in op_return_in)

lemma with_campaign_in: "(\<And>c. op_in R (k c)) \<Longrightarrow> op_in R (with_campaign cid k)"
  by (auto simp: op_in_def with_campaign_def R_refl split: option.splits)

lemma when_applicable_in: "op_in R k \<Longrightarrow> op_in R (when_applicable c command k)"
  by (auto simp: when_applicable_def op_return_in split: sum.splits prod.splits)

lemma op_if_in: "(b \<Longrightarrow> op_in R m) \<Longrightarrow> (\<not> b \<Longrightarrow> op_in R m') \<Longrightarrow> op_in R (if b then m else m')"
  by simp

lemma op_option_in: "op_in R m \<Longrightarrow> (\<And>x. op_in R (k x)) \<Longrightarrow> op_in R (case y of None \<Rightarrow> m | Some x \<Rightarrow> k x)"
  by (cases y) simp_all

lemma op_pair_in: "(\<And>x y. op_in R (k x y)) \<Longrightarrow> op_in R (case p of (x, y) \<Rightarrow> k x y)"
  by (cases p) simp

lemma submit_in:
  "tx_in R statements \<Longrightarrow> tx_in R (applyNativeStoreCampaignMutation rt m) \<Longrightarrow> op_in R (submit rt be fallback statements m)"
  unfolding submit_def by (rule mutation_in)

end

section \<open>Relations on tables\<close>

lemma usage_parameters_nonneg [simp]:
  "0 \<le> u_tokens (nativeStoreCampaignUsageParameters d)" "0 \<le> u_cost (nativeStoreCampaignUsageParameters d)"
  "0 \<le> u_priced (nativeStoreCampaignUsageParameters d)" "0 \<le> u_agent (nativeStoreCampaignUsageParameters d)"
  "0 \<le> u_cpu (nativeStoreCampaignUsageParameters d)" "0 \<le> u_gpu (nativeStoreCampaignUsageParameters d)"
  by (simp_all add: nativeStoreCampaignUsageParameters_def count_or_zero_def split: option.splits)

lemma elapsed_nonneg [simp]: "0 \<le> elapsed now t"
  by (simp add: elapsed_def split: option.splits)

definition table_evolves :: "('a \<Rightarrow> 'a \<Rightarrow> bool) \<Rightarrow> 'a list \<Rightarrow> 'a list \<Rightarrow> bool" where
  "table_evolves r xs ys = (length xs \<le> length ys \<and> list_all2 r xs (take (length xs) ys))"

lemma table_evolves_refl: "(\<And>x. r x x) \<Longrightarrow> table_evolves r xs xs"
  by (simp add: table_evolves_def list_all2_refl)

lemma table_evolves_trans:
  assumes "\<And>x y z. r x y \<Longrightarrow> r y z \<Longrightarrow> r x z" and "table_evolves r xs ys" and "table_evolves r ys zs"
  shows "table_evolves r xs zs"
proof -
  have "list_all2 r (take (length xs) ys) (take (length xs) zs)"
    using assms(2,3) unfolding table_evolves_def
    by (metis list_all2_takeI min.absorb1 take_take)
  with assms show ?thesis
    unfolding table_evolves_def using list_all2_trans [of r r r] by (meson order_trans)
qed

lemma table_evolves_eq_trans:
  "table_evolves (=) xs ys \<Longrightarrow> table_evolves (=) ys zs \<Longrightarrow> table_evolves (=) xs zs"
  by (rule table_evolves_trans [of "(=)"]) simp_all

lemma table_evolves_map: "(\<And>x. x \<in> set xs \<Longrightarrow> r x (f x)) \<Longrightarrow> table_evolves r xs (map f xs)"
  by (simp add: table_evolves_def list_all2_conv_all_nth)

lemma table_evolves_append: "(\<And>x. r x x) \<Longrightarrow> table_evolves r xs (xs @ ys)"
  by (simp add: table_evolves_def list_all2_refl)

lemma table_evolves_member:
  "table_evolves r xs ys \<Longrightarrow> x \<in> set xs \<Longrightarrow> \<exists>y\<in>set ys. r x y"
  by (auto simp: table_evolves_def list_all2_conv_all_nth in_set_conv_nth) (metis nth_mem order_less_le_trans)

definition store_evolves :: "(node_row \<Rightarrow> node_row \<Rightarrow> bool) \<Rightarrow> (campaign_row \<Rightarrow> campaign_row \<Rightarrow> bool) \<Rightarrow> db \<Rightarrow> db \<Rightarrow> bool" where
  "store_evolves r q db db' =
    (table_evolves r (nodes db) (nodes db') \<and> table_evolves q (campaigns db) (campaigns db')
     \<and> table_evolves (=) (events db) (events db') \<and> table_evolves (=) (releases db) (releases db'))"

locale row_relation =
  fixes r :: "node_row \<Rightarrow> node_row \<Rightarrow> bool" and q :: "campaign_row \<Rightarrow> campaign_row \<Rightarrow> bool"
  assumes r_refl: "r n n" and r_trans: "r x y \<Longrightarrow> r y z \<Longrightarrow> r x z"
    and q_refl: "q c c" and q_trans: "q a b \<Longrightarrow> q b d \<Longrightarrow> q a d"
begin

lemma store_refl: "store_evolves r q db db"
  by (simp add: store_evolves_def table_evolves_refl r_refl q_refl)

lemma tables_trans:
  "table_evolves r xs ys \<Longrightarrow> table_evolves r ys zs \<Longrightarrow> table_evolves r xs zs"
  "table_evolves q us vs \<Longrightarrow> table_evolves q vs ws \<Longrightarrow> table_evolves q us ws"
  using table_evolves_trans [of r xs ys zs] table_evolves_trans [of q us vs ws] r_trans q_trans
  by blast+

lemma store_trans: "store_evolves r q a b \<Longrightarrow> store_evolves r q b c \<Longrightarrow> store_evolves r q a c"
  unfolding store_evolves_def
  using tables_trans table_evolves_eq_trans by metis

lemma update_nodes_in:
  "(\<And>db n. P db n \<Longrightarrow> r n (f n)) \<Longrightarrow> stmt_in (store_evolves r q) (update_nodes P f)"
  by (auto simp: stmt_in_def update_nodes_def store_evolves_def r_refl q_refl
    intro!: table_evolves_map table_evolves_refl)

lemma update_campaigns_in:
  "(\<And>db c. P db c \<Longrightarrow> q c (f db c)) \<Longrightarrow> stmt_in (store_evolves r q) (update_campaigns P f)"
  by (auto simp: stmt_in_def update_campaigns_def store_evolves_def r_refl q_refl
    intro!: table_evolves_map table_evolves_refl)

lemma update_elapsed_in:
  "(\<And>db c. P db c \<Longrightarrow> q c (f (c\<lparr>accumulated_run_ms := accumulated_run_ms c + elapsed now (last_resumed_at c)\<rparr>)))
    \<Longrightarrow> stmt_in (store_evolves r q) (update_elapsed P f now)"
  using update_campaigns_in [of P "\<lambda>_ c. f (c\<lparr>accumulated_run_ms := accumulated_run_ms c + elapsed now (last_resumed_at c)\<rparr>)"]
  by (auto simp: stmt_in_def update_elapsed_def split: if_splits)

lemma inserts_in:
  "stmt_in (store_evolves r q) (insert_event e)" "stmt_in (store_evolves r q) (insert_node n)"
  "stmt_in (store_evolves r q) (insert_campaign c)" "stmt_in (store_evolves r q) (insert_or_ignore_paper p)"
  "stmt_in (store_evolves r q) (S_publishCurrentRelease rel f cid h)"
  "stmt_in (store_evolves r q) (S_insertCurrentRelease rel)"
  by (auto simp: stmt_in_def insert_event_def insert_node_def insert_campaign_def insert_or_ignore_paper_def
    S_publishCurrentRelease_def S_insertCurrentRelease_def store_evolves_def r_refl q_refl split: if_splits
    intro!: table_evolves_append table_evolves_refl)

lemma complete_in:
  "(\<And>db n. completable h f now db n \<Longrightarrow> r n (complete_update now rv n))
    \<Longrightarrow> stmt_in (store_evolves r q) (S_completeNode now rv f h)"
  using update_nodes_in [of "completable h f now" "complete_update now rv"]
  by (auto simp: stmt_in_def S_completeNode_def split: if_splits)

end

sublocale row_relation \<subseteq> store: db_preorder "store_evolves r q"
  by unfold_locales (fact store_refl, fact store_trans)

end
