(* ===== verification/Store_Machine.thy ===== *)
theory Store_Machine
  imports Store_Contract
begin

text \<open>
  The store as a transition system: a step is one call of an operation of the campaign store,
  with any arguments, on either backend. The locale \<open>statement_contract\<close> is the contract
  between the statements and the operations: a relation its statements satisfy is satisfied
  by every step, and by every sequence of steps, of whatever processes they come from.
\<close>

section \<open>Steps\<close>

inductive store_step :: "runtime \<Rightarrow> os \<Rightarrow> verifiers \<Rightarrow> promote \<Rightarrow> db \<Rightarrow> db \<Rightarrow> bool"
  for rt os v promote where
  create: "store_step rt os v promote db (snd (createCampaign rt v be env spec db))"
| create_exclusive: "store_step rt os v promote db (snd (createCampaignExclusive rt v be env spec db))"
| skip_rounds: "store_step rt os v promote db (snd (skipFutureRounds rt be env cid afterRound reason db))"
| pause: "store_step rt os v promote db (snd (pauseCampaign rt be env cid reason db))"
| resume: "store_step rt os v promote db (snd (resumeCampaign rt v be env cid overrides db))"
| extend: "store_step rt os v promote db (snd (extendCampaign rt v be env spec db))"
| cancel: "store_step rt os v promote db (snd (cancelCampaign rt be env cid reason db))"
| fail_campaign: "store_step rt os v promote db (snd (failCampaign rt be env cid reason db))"
| stop: "store_step rt os v promote db (snd (stopCampaign rt be env cid reason db))"
| cancel_node: "store_step rt os v promote db (snd (cancelNode rt be env nodeId reason db))"
| retry_node: "store_step rt os v promote db (snd (retryNode rt be env nodeId db))"
| record_usage: "store_step rt os v promote db (snd (recordUsage rt be env cid delta enforce db))"
| recover: "store_step rt os v promote db (snd (recoverExpiredLeases rt os be env cid db))"
| renew: "store_step rt os v promote db (snd (renewNodeLease rt be env f seconds db))"
| claim: "store_step rt os v promote db (snd (claimReady rt os be env1 env cid worker seconds limit db))"
| start: "store_step rt os v promote db (snd (startNode rt be env f delta db))"
| fail: "store_step rt os v promote db (snd (failNode rt be env f cls detail retryable abandon delta db))"
| cancel_infrastructure: "store_step rt os v promote db (snd (cancelNodeInfrastructureDeferred rt be env f db))"
| reserve: "store_step rt os v promote db (snd (reserveNodeInfrastructureUsage rt be env f delta db))"
| mark_action: "store_step rt os v promote db (snd (markNodeExternalActionStarted rt be env f call db))"
| complete_action: "store_step rt os v promote db (snd (completeNodeExternalAction rt be env f actionId outcome delta db))"
| prepare: "store_step rt os v promote db (snd (prepareNodeResult rt be env f res req key db))"
| begin_integration: "store_step rt os v promote db (snd (beginNodeResultIntegration rt be env f ikey seconds db))"
| mark_integrated: "store_step rt os v promote db (snd (markNodeResultIntegrated rt be env f ikey receipt db))"
| complete: "store_step rt os v promote db (snd (completeNode rt promote be env1 env f preparedHash res' delta db))"
| promote_release: "store_step rt os v promote db (snd (promoteCompletedRelease rt checks promote cid db))"

abbreviation store_steps :: "runtime \<Rightarrow> os \<Rightarrow> verifiers \<Rightarrow> promote \<Rightarrow> db \<Rightarrow> db \<Rightarrow> bool" where
  "store_steps rt os v promote \<equiv> (store_step rt os v promote)\<^sup>*\<^sup>*"

definition empty_db :: db where
  "empty_db = \<lparr>campaigns = [], nodes = [], events = [], releases = [], papers = []\<rparr>"

section \<open>The phases of a completion\<close>

text \<open>A completion first prepares the result, where it is given one and none is prepared, and then completes the row it reads.\<close>

lemma prepared_reread:
  "fst (prepareNodeResult rt be env f res req key db) = Inr (Some n) \<Longrightarrow>
    readNode rt (f_node f) (snd (prepareNodeResult rt be env f res req key db)) = Inr (Some n)"
  unfolding prepareNodeResult_def Let_def
  by (auto simp: op_bind_def op_read_def op_throw_def op_return_def op_catch_def split: if_splits sum.splits option.splits prod.splits)

definition prepare_phase :: "runtime \<Rightarrow> backend \<Rightarrow> env \<Rightarrow> fence \<Rightarrow> json option \<Rightarrow> node_row option \<Rightarrow> node_row option op" where
  "prepare_phase rt be env f res node0 = (case res of
      Some v \<Rightarrow> if Option.bind node0 prepared_hash = None then prepareNodeResult rt be env f v False None else op_return node0
    | None \<Rightarrow> op_return node0)"

definition complete_phase :: "runtime \<Rightarrow> promote \<Rightarrow> backend \<Rightarrow> env \<Rightarrow> fence \<Rightarrow> string option \<Rightarrow> usage_delta \<Rightarrow> node_row option
    \<Rightarrow> node_row option op" where
  "complete_phase rt promote be env f ph delta node =
    (case node of None \<Rightarrow> op_throw ''campaign_prepared_result_required''
     | Some n \<Rightarrow> if prepared_hash n = None then op_throw ''campaign_prepared_result_required''
         else if or_null ph \<noteq> None \<and> prepared_hash n \<noteq> or_null ph then op_throw ''campaign_prepared_result_hash_mismatch''
         else if prepared_requires_integration (prep n) \<and> (integ n \<noteq> Integ_integrated \<or> prepared_integration_receipt_sha256 (prep n) = None)
         then op_throw ''campaign_prepared_result_integration_required''
         else op_bind (op_read (\<lambda>db. promotion_receipt promote (getCampaign (n_campaign_id n) db) n (nowIso env))) (\<lambda>receipt.
           op_bind (op_catch (submit rt be ''campaign_node_complete_failed''
               (complete_statements n (nowIso env) (completion_reviewer n) f delta (completed_event rt env n f receipt) receipt)
               (M_completeNode n (nowIso env) (completion_reviewer n) f delta (completed_event rt env n f receipt) receipt))
             (\<lambda>_. op_throw ''campaign_node_lease_lost'')) (\<lambda>_. op_read (readNode rt (f_node f)))))"

lemma completeNode_phases:
  "completeNode rt promote be env1 env f ph res delta =
    (if \<not> fence_required f then op_throw ''campaign_node_attempt_fence_required''
     else op_bind (op_read (readNode rt (f_node f))) (\<lambda>node0.
       if (case node0 of None \<Rightarrow> False | Some n \<Rightarrow> n_status n = Completed \<and> attempt_id n = Some (f_attempt f)
            \<and> (or_null ph = None \<or> result_sha256 n = or_null ph))
       then op_return node0
       else op_bind (prepare_phase rt be env1 f res node0) (complete_phase rt promote be env f ph delta)))"
  unfolding completeNode_def prepare_phase_def complete_phase_def Let_def by (rule HOL.refl)

lemma find_SomeD: "find P xs = Some x \<Longrightarrow> x \<in> set xs \<and> P x"
  by (auto simp: find_Some_iff)

lemma readNode_row: "readNode rt i db = Inr (Some m) \<Longrightarrow> \<exists>n\<in>set (nodes db). node_id n = i \<and> m = normalize_node n"
  by (auto simp: readNode_def find_node_def rbind_Inr_iff split: option.splits dest!: find_SomeD mapCampaignNodeRow_Inr)

lemma getCampaign_id: "getCampaign cid db = Some c \<Longrightarrow> campaign_id c = cid"
  by (auto simp: getCampaign_def find_campaign_def find_Some_iff)

lemma readNode_id: "readNode rt i db = Inr (Some n) \<Longrightarrow> node_id n = i"
  using readNode_row [of rt i db n] by (auto simp: normalize_node_def)

lemma prepare_phase_id:
  assumes "readNode rt (f_node f) db0 = Inr node0" "fst (prepare_phase rt be env f res node0 db) = Inr (Some n)"
  shows "node_id n = f_node f"
proof (cases "\<exists>v. res = Some v \<and> Option.bind node0 prepared_hash = None")
  case True
  then obtain v where "fst (prepareNodeResult rt be env f v False None db) = Inr (Some n)"
    using assms(2) by (auto simp: prepare_phase_def)
  then show ?thesis by (rule readNode_id [OF prepared_reread])
next
  case False
  then have "node0 = Some n" using assms(2) by (auto simp: prepare_phase_def op_return_def split: option.splits if_splits)
  with assms(1) show ?thesis by (simp add: readNode_id)
qed

text \<open>A release row the promotion contract returned for the node that is completed under a fence.\<close>

definition promoted :: "promote \<Rightarrow> release_row \<Rightarrow> fence \<Rightarrow> string \<Rightarrow> string \<Rightarrow> bool" where
  "promoted promote rel f cid h = (\<exists>c n now. promotion_receipt promote c n now = Inr (Some rel)
    \<and> node_id n = f_node f \<and> n_campaign_id n = cid \<and> sqlText (prepared_hash n) = h \<and> (\<forall>c'. c = Some c' \<longrightarrow> campaign_id c' = cid))"

section \<open>The contract of the statements\<close>

lemma tx_seq_append: "tx_seq (xs @ ys) = (\<lambda>db. rbind (tx_seq xs db) (tx_seq ys))"
proof
  show "tx_seq (xs @ ys) db = rbind (tx_seq xs db) (tx_seq ys)" for db
  proof (induction xs arbitrary: db)
    case Nil
    then show ?case by simp
  next
    case (Cons x xs)
    then show ?case by (cases "x db") simp_all
  qed
qed

lemma rmap_node_rows: "rmap (mapCampaignNodeRow rt) xs = Inr ys \<Longrightarrow> ys = map normalize_node xs"
  by (induction xs arbitrary: ys) (auto simp: rbind_Inr_iff dest: mapCampaignNodeRow_Inr)

text \<open>The journal row of an event carries the payload, its hash and the columns taken from it.\<close>

definition event_sealed :: "runtime \<Rightarrow> event_row \<Rightarrow> bool" where
  "event_sealed rt e = (event_sha256 e = hashRecord rt ''PaperCampaignEvent'' (event_json e)
    \<and> jget ''kind'' (event_json e) = Some (JStr (e_kind e))
    \<and> jget ''campaignId'' (event_json e) = Some (JStr (e_campaign_id e))
    \<and> jget ''nodeId'' (event_json e) = Some (JOptStr (e_node_id e)))"

lemma event_sealed_build [simp]: "event_sealed rt (buildEvent rt env k cid nid kind detail t)"
  by (simp add: event_sealed_def)

lemma event_sealed_settlement [simp]: "event_sealed rt (settlement_event rt now tid h s)"
  by (simp add: event_sealed_def settlement_event_def Let_def)

lemma event_sealed_ops [simp]:
  "event_sealed rt (deferred_event rt env n f rf)" "event_sealed rt (subreservation_event rt env n f res)"
  "event_sealed rt (action_started_event rt env n f d)"
  "event_sealed rt (action_completed_event rt env n f d aid out delta)"
  "event_sealed rt (recovery_event rt env k cid n disp rf acts)" "event_sealed rt (started_event rt env n f res)"
  "event_sealed rt (fail_event rt env k n f kind cls h ab)" "event_sealed rt (created_event rt env spec st)"
  "event_sealed rt (reason_event rt env k cid kind reason)" "event_sealed rt (resumed_event rt env c evo)"
  "event_sealed rt (extended_event rt env c spec adds)" "event_sealed rt (prepared_event rt env n f h)"
  "event_sealed rt (integration_started_event rt env n f key)" "event_sealed rt (integrated_event rt env n f key h)"
  "event_sealed rt (completed_event rt env n f rcpt)"
  by (simp_all add: deferred_event_def subreservation_event_def action_started_event_def action_completed_event_def
    recovery_event_def started_event_def fail_event_def created_event_def reason_event_def resumed_event_def
    extended_event_def prepared_event_def integration_started_event_def integrated_event_def completed_event_def)

definition result_sealed :: "runtime \<Rightarrow> json \<Rightarrow> string \<Rightarrow> bool" where
  "result_sealed rt res h = (h = hashRecord rt ''PaperCampaignNodeResult'' res)"

lemma result_sealed_hash [simp]: "result_sealed rt res (hashRecord rt ''PaperCampaignNodeResult'' res)"
  by (simp add: result_sealed_def)

definition receipt_sealed :: "runtime \<Rightarrow> string \<Rightarrow> json \<Rightarrow> string \<Rightarrow> bool" where
  "receipt_sealed rt key rcpt h = (integration_receipt_ok rt key rcpt
    \<and> h = sqlText (jstr (jget ''workspaceAttemptIntegrationReceiptHash'' rcpt)))"

context db_preorder
begin

text \<open>Where the statements alone suffice for the operations that the contract takes whole.\<close>

lemma pause_tx_of_stmts:
  "stmt_in R (S_pauseCampaign reason now cid seen) \<Longrightarrow> stmt_in R (S_pauseCampaignNodes now cid)
    \<Longrightarrow> tx_in R (tx_seq [required code (S_pauseCampaign reason now cid seen), run (S_pauseCampaignNodes now cid)])"
  by (intro tx_seq_in) (auto intro: required_in run_in)

lemma settle_tx_of_stmts:
  "stmt_in R (S_settleCampaign cst' resumed now reason cid cst seen) \<Longrightarrow> stmt_in R (S_settleCampaignNodes nst reason now cid)
    \<Longrightarrow> tx_in R (tx_seq [required code (S_settleCampaign cst' resumed now reason cid cst seen),
        run (S_settleCampaignNodes nst reason now cid)])"
  by (intro tx_seq_in) (auto intro: required_in run_in)

lemma insert_release_in: "stmt_in R (S_insertCurrentRelease rel) \<Longrightarrow> op_in R (insert_current_release rel)"
  using run_in [of R "S_insertCurrentRelease rel"]
  by (auto simp: op_in_def tx_in_def insert_current_release_def R_refl split: sum.splits)

lemma promote_release_of_stmt:
  assumes "\<And>rel. stmt_in R (S_insertCurrentRelease rel)"
  shows "op_in R (promoteCompletedRelease rt checks promote cid)"
  unfolding promoteCompletedRelease_def
  by (intro op_if_in op_bind_in op_option_in op_return_in insert_release_in assms)

lemma cancel_node_of_tx:
  assumes "\<And>n c ids detail h now ev se. event_sealed rt ev \<Longrightarrow> pred_option (event_sealed rt) se
      \<Longrightarrow> tx_in R (cancel_statements n c ids reason detail h now ev se)"
    and "\<And>n c ids detail h now ev se. event_sealed rt ev \<Longrightarrow> pred_option (event_sealed rt) se
      \<Longrightarrow> tx_in R (applyCancelNode n c ids reason detail h now ev se)"
  shows "op_in R (cancelNode rt be env i reason)"
  unfolding cancelNode_def Let_def
  by (auto intro!: op_bind_in op_return_in submit_in assms split: option.splits)

lemma cancel_node_of_stmts:
  assumes "\<And>cid. stmt_in R (S_cancelNodeGuard cid)" "\<And>ids cid. stmt_in R (S_cancelNodesGuard ids cid)"
    "\<And>detail h now j. stmt_in R (S_cancelOneNode reason detail h now j)"
    "\<And>ids detail h now. stmt_in R (S_cancelNodes ids reason detail h now)"
    "\<And>now cid seen. stmt_in R (S_cancelNodeStopCampaign now cid seen)"
    "\<And>e. event_sealed rt e \<Longrightarrow> stmt_in R (insert_event e)" "\<And>cid now. stmt_in R (projectCampaign cid now)"
  shows "op_in R (cancelNode rt be env i reason)"
proof (rule cancel_node_of_tx)
  fix n c ids detail h now ev se
  assume ev: "event_sealed rt ev" "pred_option (event_sealed rt) se"
  show "tx_in R (cancel_statements n c ids reason detail h now ev se)"
    using ev unfolding cancel_statements_def Let_def
    by (intro tx_seq_in) (auto intro!: guarded_in run_in assms split: option.splits)
  show "tx_in R (applyCancelNode n c ids reason detail h now ev se)"
    using ev unfolding applyCancelNode_def Let_def
    by (intro tx_seq_in)
      (auto intro!: required_in run_in insertEvent_in project_in cancel_inspection_in assms split: option.splits)
qed

end

locale statement_contract = db_preorder +
  fixes rt :: runtime and promote :: promote
  assumes event_stmt: "event_sealed rt e \<Longrightarrow> stmt_in R (insert_event e)"
    and project_stmt: "stmt_in R (projectCampaign cid now)"
    and paper_stmt: "stmt_in R (insert_or_ignore_paper p)"
    and create_stmts: "stmt_in R (createCampaignStatement spec admitted phase now)"
      "stmt_in R (createNodeStatement cid now nd)" "stmt_in R (extendNodeStatement cid now nd)"
      "stmt_in R (S_createCampaignStart now cid)"
    and fence_stmts: "stmt_in R (S_assertIntegratedAttempt f now key rh)"
      "stmt_in R (S_assertIntegratingAttempt f now key)"
    and infrastructure_stmts: "stmt_in R (S_cancelInfrastructureNode f now cnt)"
      "stmt_in R (S_cancelInfrastructureUsage rf now cid)" "stmt_in R (S_reserveInfrastructureNode f now)"
      "stmt_in R (S_reserveInfrastructureUsage (nativeStoreCampaignUsageParameters dl) now cid)"
      "stmt_in R (S_markInfrastructureNode f nrev now)"
    and usage_stmts: "stmt_in R (S_updateCampaignUsage (nativeStoreCampaignUsageParameters dl) now cid)"
      "stmt_in R (S_recordUsage (nativeStoreCampaignUsageParameters dl) now cid enforce)"
    and lifecycle_stmts: "stmt_in R (S_skipFutureNode reason now i cid)"
      "stmt_in R (S_skipFutureNodes ids reason now cid)"
      "stmt_in R (S_resumeCampaign now spec cid cst seen)" "stmt_in R (S_resumeNodes now cid why)"
      "stmt_in R (S_extendSupersedePackage now cid)"
      "stmt_in R (S_extendCampaign rounds spec now cid cst seen)"
      "stmt_in R (S_retryCampaign phase rnd now cid cst seen)"
      "stmt_in R (S_retryNode now i nrev)" "stmt_in R (S_retrySiblingNode now i cid tid integration nrev)"
    and lease_stmts: "nst \<in> {Leased, Running} \<Longrightarrow> stmt_in R (S_recoverLease (if nst = Running then 1 else 0) now i cid nst owner att gen expired)"
      "stmt_in R (S_recoverLeaseUncertain detail hash now i cid owner att gen expired)"
      "stmt_in R (S_recoverLeaseUsage rf now cid)" "stmt_in R (S_renewLease expires now f)"
      "stmt_in R (S_claimNode w expires a now i cid nrev)" "stmt_in R (S_startNode now f)"
      "stmt_in R (S_startNodeCampaign phase rnd (nativeStoreCampaignUsageParameters dl) now cid)"
    and fail_stmts: "nst' \<in> {Queued, Failed_terminal} \<Longrightarrow> stmt_in R (failNodeStatement abandon nst' cls detail hash now f)"
      "n_status s \<in> {Queued, Leased, Running} \<Longrightarrow> stmt_in R (settleStatement (terminalSiblingSettlement rt i hash s) now cid s)"
    and prepared_stmts: "result_sealed rt res resultHash \<Longrightarrow> stmt_in R (S_prepareNode res resultHash f now req kopt)"
      "stmt_in R (S_beginIntegrationNode now expires f key)" "receipt_sealed rt key rcpt rh \<Longrightarrow> stmt_in R (S_markIntegratedNode rcpt rh now f key)"
      "stmt_in R (S_completeNode now rv f resultHash)"
      "promoted promote rel f cid resultHash \<Longrightarrow> stmt_in R (S_publishCurrentRelease rel f cid resultHash)"
    and pause_tx: "tx_in R (tx_seq [required code (S_pauseCampaign reason now cid seen), run (S_pauseCampaignNodes now cid)])"
    and settle_tx: "(cst', nst'') \<in> {(C_cancelled, Skipped), (C_failed, Failed_terminal), (C_stopped, Skipped)} \<Longrightarrow>
      tx_in R (tx_seq [required code (S_settleCampaign cst' resumed now reason cid cst seen),
        run (S_settleCampaignNodes nst'' reason now cid)])"
    and cancel_node_op: "op_in R (cancelNode rt be env i reason)"
    and promote_release_op: "op_in R (promoteCompletedRelease rt checks promote release_cid)"
begin

lemmas stmts = event_stmt project_stmt paper_stmt create_stmts fence_stmts infrastructure_stmts usage_stmts
  lifecycle_stmts lease_stmts fail_stmts prepared_stmts

lemma tx_seq_append_in: "tx_in R (tx_seq xs) \<Longrightarrow> tx_in R (tx_seq ys) \<Longrightarrow> tx_in R (tx_seq (xs @ ys))"
  unfolding tx_seq_append by (rule tx_bind_in)

lemmas tx_rules = run_in required_in guarded_in insertEvent_in project_in usage_in tx_id_in stmts

lemmas op_rules = op_bind_in op_catch_in op_return_in op_map_in with_campaign_in when_applicable_in submit_in

lemma pause_tx_in:
  "event_sealed rt ev \<Longrightarrow> tx_in R (applyPauseCampaign reason now c ev)"
  "event_sealed rt ev \<Longrightarrow> tx_in R (tx_seq [guarded (S_pauseCampaign reason now cid seen), run (S_pauseCampaignNodes now cid), run (insert_event ev)])"
  unfolding applyPauseCampaign_def guarded_def
  using tx_seq_append_in [OF pause_tx tx_seq_in, of "[insertNativeStoreCampaignEvent ev]"]
    tx_seq_append_in [OF pause_tx tx_seq_in, of "[run (insert_event ev)]"]
  by (simp_all add: insertEvent_in run_in event_stmt)

lemma settle_tx_in:
  assumes "(cst', nst'') \<in> {(C_cancelled, Skipped), (C_failed, Failed_terminal), (C_stopped, Skipped)}"
    and "event_sealed rt ev"
  shows "tx_in R (applySettleCampaign cst' nst'' code reason now c ev)"
    "tx_in R (settle_statements cst' nst'' reason now c ev)"
  unfolding applySettleCampaign_def settle_statements_def guarded_def
  using tx_seq_append_in [OF settle_tx [OF assms(1)] tx_seq_in, of "[insertNativeStoreCampaignEvent ev]"]
    tx_seq_append_in [OF settle_tx [OF assms(1)] tx_seq_in, of "[run (insert_event ev)]"]
  by (simp_all add: insertEvent_in run_in event_stmt assms(2))

lemma settle_siblings_in: "tx_in R (settle_siblings rt now cid i hash)"
proof -
  have "tx_in R (tx_seq (concat (map (\<lambda>s. [required code
        (settleStatement (terminalSiblingSettlement rt i hash s) now cid s),
        insertNativeStoreCampaignEvent (settlement_event rt now i hash s)])
        (S_inspectTerminalSiblingNodes True cid i db))))" for code db
    by (rule tx_seq_in)
      (auto intro!: required_in insertEvent_in fail_stmts(2) event_stmt simp: S_inspectTerminalSiblingNodes_def)
  then show ?thesis unfolding settle_siblings_def tx_in_def by blast
qed

text \<open>Transactions that only run contract statements.\<close>

lemma native_lifecycle_in:
  "tx_in R (applyAssertLiveNodeAttempt f now integrated key rh)"
  "event_sealed rt ev \<Longrightarrow> tx_in R (applyCreateCampaign spec admitted phase now ev)"
  "event_sealed rt ev \<Longrightarrow> tx_in R (applySkipFutureRounds ids reason now cid ev)"
  "event_sealed rt ev \<Longrightarrow> tx_in R (applyResumeCampaign now spec c reopen ev)"
  "event_sealed rt ev \<Longrightarrow> tx_in R (applyExtendCampaign spec additions c now ev)"
  "event_sealed rt ev \<Longrightarrow> tx_in R (applyRetryNode n c siblings now ev)"
  unfolding applyAssertLiveNodeAttempt_def applyCreateCampaign_def applySkipFutureRounds_def
    applyResumeCampaign_def applyExtendCampaign_def applyRetryNode_def Let_def
  by (auto intro!: tx_seq_in tx_rules split: if_splits)

lemma native_lease_in:
  "tx_in R (applyRenewNodeLease expires now f)" "tx_in R (applyClaimReady w expires a now n cid)"
  "event_sealed rt ev \<Longrightarrow> tx_in R (applyStartNode n now f delta ev)" "event_sealed rt ev \<Longrightarrow> tx_in R (applyReserveNodeInfrastructureUsage n f now u ev)"
  "event_sealed rt ev \<Longrightarrow> result_sealed rt res h \<Longrightarrow> tx_in R (applyPrepareNodeResult res h f now req kopt ev)"
  "event_sealed rt ev \<Longrightarrow> tx_in R (applyBeginNodeResultIntegration now expires f key ev)"
  "event_sealed rt ev \<Longrightarrow> receipt_sealed rt key rcpt rh \<Longrightarrow> tx_in R (applyMarkNodeResultIntegrated rcpt rh now f key ev)"
  unfolding applyRenewNodeLease_def applyClaimReady_def applyStartNode_def applyReserveNodeInfrastructureUsage_def
    applyPrepareNodeResult_def applyBeginNodeResultIntegration_def applyMarkNodeResultIntegrated_def
  by (auto intro!: tx_seq_in tx_rules)

lemma native_action_in:
  "event_sealed rt ev \<Longrightarrow> tx_in R (applyMarkNodeExternalActionStarted rt n f now d ev)"
  "event_sealed rt ev \<Longrightarrow> tx_in R (applyCompleteNodeExternalAction rt n f now d completed delta ev)"
  "event_sealed rt ev \<Longrightarrow> tx_in R (applyCancelNodeInfrastructureDeferred rt n now f rf ev)"
  unfolding applyMarkNodeExternalActionStarted_def applyCompleteNodeExternalAction_def
    applyCancelNodeInfrastructureDeferred_def
  by (intro tx_read_in tx_seq_in; auto intro!: tx_rules)+

lemma native_fail_in: "nst \<in> {Queued, Failed_terminal} \<Longrightarrow> event_sealed rt ev \<Longrightarrow> tx_in R (applyFailNode rt n now f nst cls detail h abandon delta ev)"
  unfolding applyFailNode_def
  by (auto intro!: tx_seq_in tx_rules settle_siblings_in split: if_splits)

lemma complete_tx_in:
  assumes "event_sealed rt ev" "\<And>rel. receipt = Some rel \<Longrightarrow> promoted promote rel f (n_campaign_id n) (sqlText (prepared_hash n))"
  shows "tx_in R (applyCompleteNode n now rv f delta ev receipt)" "tx_in R (complete_statements n now rv f delta ev receipt)"
  unfolding applyCompleteNode_def complete_statements_def Let_def publishRelease_def
  by (intro tx_seq_in; auto intro!: tx_rules assms split: option.splits)+

lemma native_recover_in:
  assumes "n_status n \<in> {Leased, Running}" and "event_sealed rt ev"
  shows "tx_in R (applyRecoverExpiredLease rt n cid expired now disp rf detail h acts ev)"
proof -
  let ?mid = "\<lambda>db1. if disp = Pre_external_action_refund then
      rbind (infrastructureRefundFromEvents rt recover_event_kinds (n_campaign_id n) (node_id n)
        (sqlText (attempt_id n)) (lease_generation n) db1) (\<lambda>r.
      rbind (check (r = rf) ''campaign_node_infrastructure_refund_audit_conflict'') (\<lambda>_.
      required ''campaign_lease_recovery_failed'' (S_recoverLeaseUsage r now cid) db1)) else Inr db1"
  have mid: "tx_in R ?mid"
    by (cases "disp = Pre_external_action_refund") (auto intro!: tx_read_in tx_rules)
  show ?thesis
    unfolding applyRecoverExpiredLease_def Let_def
  proof (rule tx_bind_in)
    show "tx_in R (insertNativeStoreCampaignEvent ev)" by (intro insertEvent_in event_stmt assms(2))
    show "tx_in R (\<lambda>db. if disp = Outcome_uncertain then
        rbind (infrastructureAttemptEvents rt recover_event_kinds (n_campaign_id n) (node_id n)
          (sqlText (attempt_id n)) (lease_generation n) db) (\<lambda>es.
        rbind (check (unresolved_actions rt es \<noteq> [] \<and> sortStrings (unresolved_actions rt es) = sortStrings acts)
          ''campaign_node_external_outcome_uncertain_audit_conflict'') (\<lambda>_.
        required ''campaign_lease_recovery_failed'' (S_recoverLeaseUncertain detail h now (node_id n) cid
          (lease_owner n) (attempt_id n) (lease_generation n) expired) db))
      else rbind (required ''campaign_lease_recovery_failed'' (S_recoverLease (if n_status n = Running then 1 else 0)
          now (node_id n) cid (n_status n) (lease_owner n) (attempt_id n) (lease_generation n) expired) db) ?mid)"
    proof (cases "disp = Outcome_uncertain")
      case True
      then show ?thesis by (simp only: simp_thms if_True) (intro tx_read_in tx_rules)
    next
      case False
      then show ?thesis by (simp only: simp_thms if_False) (intro tx_bind_in mid required_in lease_stmts assms(1))
    qed
  qed
qed

text \<open>Operations.\<close>

lemmas op_intros = op_rules op_if_in op_option_in op_pair_in

lemma create_ops_in:
  "op_in R (createCampaign rt v be env spec)" "op_in R (createCampaignExclusive rt v be env spec)"
proof -
  have legacy: "event_sealed rt ev \<Longrightarrow> tx_in R (creation_statements spec admitted phase now ev)" for admitted phase now ev
    unfolding creation_statements_def Let_def S_createCampaignPaper_def
    by (intro tx_seq_in) (auto intro!: tx_rules split: if_splits)
  have native: "event_sealed rt ev \<Longrightarrow> tx_in R (applyNativeStoreCampaignMutation rt (if ex then M_createCampaignExclusive spec a p now ev
      else M_createCampaign spec a p now ev))" for ex a p now ev
    by (simp add: tx_id_in native_lifecycle_in)
  have "op_in R (create_common rt v be env ex spec)" for ex
    unfolding create_common_def Let_def
    by (intro op_intros legacy native event_sealed_ops)
  then show "op_in R (createCampaign rt v be env spec)" "op_in R (createCampaignExclusive rt v be env spec)"
    by (simp_all add: createCampaign_def createCampaignExclusive_def)
qed

lemma lifecycle_ops_in:
  "op_in R (skipFutureRounds rt be env cid afterRound reason)"
  "op_in R (resumeCampaign rt v be env cid overrides)"
  "op_in R (extendCampaign rt v be env spec)"
  "op_in R (recordUsage rt be env cid delta enforce)"
  "op_in R (retryNode rt be env i)"
proof -
  show "op_in R (skipFutureRounds rt be env cid afterRound reason)"
    unfolding skipFutureRounds_def Let_def reread_campaign_def
    by (intro op_intros; (intro tx_seq_in)?) (auto simp: native_lifecycle_in intro!: tx_rules split: if_splits)
  show "op_in R (resumeCampaign rt v be env cid overrides)"
    unfolding resumeCampaign_def Let_def reread_campaign_def
    by (intro op_intros; (intro tx_seq_in)?) (auto simp: native_lifecycle_in intro!: tx_rules split: if_splits)
  show "op_in R (extendCampaign rt v be env spec)"
    unfolding extendCampaign_def Let_def reread_campaign_def
    by (intro op_intros; (intro tx_seq_in)?) (auto simp: native_lifecycle_in intro!: tx_rules split: if_splits)
  show "op_in R (recordUsage rt be env cid delta enforce)"
    unfolding recordUsage_def Let_def reread_campaign_def
    by (intro op_intros; (intro tx_seq_in)?) (auto intro!: tx_rules)
  show "op_in R (retryNode rt be env i)"
    unfolding retryNode_def Let_def retry_statements_def
    by (intro op_intros; (intro tx_seq_in)?) (auto simp: native_lifecycle_in intro!: tx_rules)
qed

lemma control_ops_in:
  "op_in R (pauseCampaign rt be env cid reason)" "op_in R (cancelCampaign rt be env cid reason)"
  "op_in R (failCampaign rt be env cid reason)" "op_in R (stopCampaign rt be env cid reason)"
  unfolding pauseCampaign_def cancelCampaign_def failCampaign_def stopCampaign_def Let_def reread_campaign_def
  by (intro op_intros pause_tx_in; simp add: pause_tx_in settle_tx_in)+

lemma recover_stmts:
  "stmt_in R (S_recoverLease 1 now i cid Running owner att gen expired)"
  "stmt_in R (S_recoverLease 0 now i cid Leased owner att gen expired)"
  using lease_stmts(1) [of Running] lease_stmts(1) [of Leased] by simp_all

lemma lease_ops_in:
  "op_in R (recoverExpiredLeases rt os be env cid)"
  "op_in R (renewNodeLease rt be env f seconds)"
  "op_in R (claimReady rt os be env1 env cid w seconds limit)"
proof -
  have legacy: "tx_in R (recovery_statements n c expired now disp rf detail h ev)"
    if "n_status n \<in> {Leased, Running}" "event_sealed rt ev" for n c expired now disp rf detail h ev
    using that unfolding recovery_statements_def Let_def
    by (intro tx_seq_in) (auto intro!: tx_rules recover_stmts split: if_splits)
  have one: "op_in R (recover_one rt be env c kn)" if "n_status (snd kn) \<in> {Leased, Running}" for env c kn
    using that unfolding recover_one_def Let_def
    by (intro op_intros legacy) (simp_all add: native_recover_in)
  show recover: "op_in R (recoverExpiredLeases rt os be env cid)" for env
    unfolding recoverExpiredLeases_def
    by (intro op_intros one) (auto simp: recovery_candidate_def in_set_enumerate_eq dest!: nth_mem)
  show "op_in R (renewNodeLease rt be env f seconds)"
    unfolding renewNodeLease_def Let_def
    by (intro op_intros; (intro tx_seq_in)?) (auto simp: native_lease_in intro!: tx_rules)
  have claim: "op_in R (claim_one rt be env cid w expires kn)" for expires kn
    unfolding claim_one_def Let_def
    by (intro op_intros; (intro tx_seq_in)?) (auto simp: native_lease_in intro!: tx_rules)
  have "op_in R (op_bind (recoverExpiredLeases rt os be env1 cid) (\<lambda>_.
       op_bind (op_read (listNodes rt cid)) (\<lambda>ns.
       op_bind (op_map (claim_one rt be env cid w (nowMs env + max 1 seconds * 1000))
           (enumerate 0 (selectReadyCampaignNodes rt ns limit))) (\<lambda>cs. op_return (concat cs)))))"
    by (intro op_intros recover claim)
  then show "op_in R (claimReady rt os be env1 env cid w seconds limit)"
    by (auto simp: op_in_def claimReady_def R_refl)
qed

lemma attempt_ops_in:
  "op_in R (startNode rt be env f delta)"
  "op_in R (failNode rt be env f cls detail retryable abandon delta)"
proof -
  show "op_in R (startNode rt be env f delta)"
    unfolding startNode_def Let_def start_statements_def
    by (intro op_intros; (intro tx_seq_in)?) (auto simp: native_lease_in intro!: tx_rules)
  have status: "ft_status (decideNodeFailureTransition n retryable) \<in> {Queued, Failed_terminal}" for n
    by (simp add: decideNodeFailureTransition_def Let_def)
  have legacy: "tx_in R (fail_statements rt env n f (ft_status (decideNodeFailureTransition n retryable)) cls detail h abandon delta ss ev)"
    if "\<forall>s\<in>set ss. n_status s \<in> {Queued, Leased, Running}" "event_sealed rt ev" for n h ss ev
    unfolding fail_statements_def Let_def
    using status [of n] that
    by (intro tx_seq_in) (auto intro!: tx_rules simp: in_set_enumerate_eq dest!: nth_mem)
  have siblings: "\<forall>s\<in>set ss. n_status s \<in> {Queued, Leased, Running}"
    if "(if b then rmap (mapCampaignNodeRow rt) (S_inspectTerminalSiblingNodes False cid i db) else Inr []) = Inr ss"
    for b cid i db ss
    using that by (cases b) (auto dest!: rmap_node_rows simp: S_inspectTerminalSiblingNodes_def)
  show "op_in R (failNode rt be env f cls detail retryable abandon delta)"
    unfolding failNode_def Let_def
    by (intro op_read_bind_in op_intros legacy; (rule siblings, assumption)?; simp add: native_fail_in [OF status])
qed

lemma infrastructure_ops_in:
  "op_in R (cancelNodeInfrastructureDeferred rt be env f)"
  "op_in R (reserveNodeInfrastructureUsage rt be env f delta)"
  "op_in R (markNodeExternalActionStarted rt be env f call)"
  "op_in R (completeNodeExternalAction rt be env f actionId outcome delta)"
proof -
  show "op_in R (cancelNodeInfrastructureDeferred rt be env f)"
    unfolding cancelNodeInfrastructureDeferred_def Let_def
    by (intro op_intros; (intro tx_seq_in)?) (auto simp: native_action_in intro!: tx_rules)
  show "op_in R (reserveNodeInfrastructureUsage rt be env f delta)"
    unfolding reserveNodeInfrastructureUsage_def Let_def
    by (intro op_intros; (intro tx_seq_in)?) (auto simp: native_lease_in intro!: tx_rules)
  show "op_in R (markNodeExternalActionStarted rt be env f call)"
    unfolding markNodeExternalActionStarted_def Let_def
    by (intro op_intros; (intro tx_seq_in)?) (auto simp: native_action_in intro!: tx_rules)
  show "op_in R (completeNodeExternalAction rt be env f actionId outcome delta)"
    unfolding completeNodeExternalAction_def Let_def
    by (intro op_intros; (intro tx_seq_in)?) (auto simp: native_action_in intro!: tx_rules)
qed

lemma prepared_ops_in:
  "op_in R (prepareNodeResult rt be env f res req kopt)"
  "op_in R (beginNodeResultIntegration rt be env f key seconds)"
  "op_in R (markNodeResultIntegrated rt be env f key receipt)"
  "op_in R (completeNode rt promote be env1 env f preparedHash res' delta)"
proof -
  have alive: "op_in R (assertLiveNodeAttempt rt be f now integrated key rh)" for now integrated key rh
    unfolding assertLiveNodeAttempt_def
    by (intro op_intros; (intro tx_seq_in)?) (auto simp: native_lifecycle_in intro!: tx_rules)
  show prepare: "op_in R (prepareNodeResult rt be env f res req kopt)" for env res req kopt
    unfolding prepareNodeResult_def Let_def
    by (intro op_intros; (intro tx_seq_in)?) (auto simp: native_lease_in intro!: tx_rules)
  show "op_in R (beginNodeResultIntegration rt be env f key seconds)"
    unfolding beginNodeResultIntegration_def Let_def
    by (intro op_intros alive; (intro tx_seq_in)?) (auto simp: native_lease_in intro!: tx_rules)
  show "op_in R (markNodeResultIntegrated rt be env f key receipt)"
    unfolding markNodeResultIntegrated_def Let_def
    by (intro op_intros alive; (intro tx_seq_in)?) (auto simp: native_lease_in receipt_sealed_def intro!: tx_rules)
  have final: "op_in R (complete_phase rt promote be env f preparedHash delta (Some n))" if n: "node_id n = f_node f" for n
  proof -
    have "op_in R (submit rt be fb (complete_statements n now rv f delta ev receipt) (M_completeNode n now rv f delta ev receipt))"
      if "event_sealed rt ev" "promotion_receipt promote (getCampaign (n_campaign_id n) d) n now' = Inr receipt" for fb now rv ev receipt d now'
    proof -
      have "promoted promote rel f (n_campaign_id n) (sqlText (prepared_hash n))" if "receipt = Some rel" for rel
        using \<open>promotion_receipt promote _ n now' = _\<close> that n getCampaign_id [of "n_campaign_id n" d] unfolding promoted_def by blast
      then show ?thesis using complete_tx_in [OF \<open>event_sealed rt ev\<close>] by (intro submit_in) simp_all
    qed
    then show ?thesis
      unfolding complete_phase_def option.case
      by (intro op_if_in op_return_in op_read_bind_in op_bind_in op_catch_in) (simp_all add: op_return_in)
  qed
  have any: "op_in R (complete_phase rt promote be env f preparedHash delta node)"
    if "\<And>n. node = Some n \<Longrightarrow> node_id n = f_node f" for node
    using final that by (cases node) (simp_all add: complete_phase_def op_return_in)
  have prep: "op_in R (prepare_phase rt be env1 f res' node0)" for node0
    unfolding prepare_phase_def by (intro op_option_in op_if_in op_return_in prepare)
  have after: "op_in R (complete_phase rt promote be env f preparedHash delta node)"
    if "readNode rt (f_node f) db0 = Inr node0" "fst (prepare_phase rt be env1 f res' node0 db) = Inr node" for db0 db node0 node
    using that prepare_phase_id by (intro any) blast
  show "op_in R (completeNode rt promote be env1 env f preparedHash res' delta)"
    unfolding completeNode_phases
    by (intro op_if_in op_return_in op_read_bind_in op_bind_post_in [OF prep]) (rule after)
qed

theorem step_in:
  assumes "store_step rt os v promote db db'"
  shows "R db db'"
proof -
  have op: "R db (snd (m db))" if "op_in R m" for m :: "'x op"
    using that by (simp add: op_in_def)
  from assms show ?thesis
    by cases (auto intro!: create_ops_in lifecycle_ops_in control_ops_in lease_ops_in attempt_ops_in
      infrastructure_ops_in prepared_ops_in cancel_node_op promote_release_op simp: op_in_def [symmetric]
      intro: op_in_def [THEN iffD1, rule_format])
qed

theorem steps_in: "store_steps rt os v promote db db' \<Longrightarrow> R db db'"
  by (induction rule: rtranclp_induct) (auto intro: R_refl R_trans step_in)

end

end
