(* ===== verification/Store_Evolution.thy ===== *)
theory Store_Evolution
  imports Store_Machine
begin

text \<open>
  What no sequence of store operations can undo: the identity of a node, the growth of its
  lease generation and revision, a completed result, the recorded events and releases.
\<close>

section \<open>Rows never go back\<close>

definition node_identity :: "node_row \<Rightarrow> string \<times> string \<times> string \<times> int \<times> int \<times> string list \<times> json \<times> int \<times> int" where
  "node_identity n = (node_id n, n_campaign_id n, n_kind n, round_index n, priority n, dependencies n, n_spec n,
    max_attempts n, n_created_at n)"

definition completed_part :: "node_row \<Rightarrow> node_status \<times> json option \<times> string option \<times> prepared \<times> string option \<times> int \<times> reviewer" where
  "completed_part n = (n_status n, result_json n, result_sha256 n, prep n, attempt_id n, lease_generation n, review n)"

definition node_kept :: "node_row \<Rightarrow> node_row \<Rightarrow> bool" where
  "node_kept n n' = (node_identity n' = node_identity n
    \<and> lease_generation n \<le> lease_generation n' \<and> node_revision n \<le> node_revision n'
    \<and> (lease_generation n' = lease_generation n \<longrightarrow>
         lease_owner n' \<in> {lease_owner n, None} \<and> attempt_id n' \<in> {attempt_id n, None})
    \<and> (n_status n = Completed \<longrightarrow> completed_part n' = completed_part n))"

definition campaign_kept :: "campaign_row \<Rightarrow> campaign_row \<Rightarrow> bool" where
  "campaign_kept c c' = (campaign_id c' = campaign_id c \<and> paper_id c' = paper_id c
    \<and> parent_campaign_id c' = parent_campaign_id c \<and> supersedes_campaign_id c' = supersedes_campaign_id c
    \<and> recovery_of_campaign_id c' = recovery_of_campaign_id c \<and> c_created_at c' = c_created_at c
    \<and> revision c \<le> revision c' \<and> accumulated_run_ms c \<le> accumulated_run_ms c'
    \<and> token_count c \<le> token_count c' \<and> cost_usd c \<le> cost_usd c'
    \<and> priced_agent_call_count c \<le> priced_agent_call_count c')"

interpretation kept: row_relation node_kept campaign_kept
  by unfold_locales (auto simp: node_kept_def campaign_kept_def node_identity_def completed_part_def)

lemmas node_kept_simps = node_kept_def node_identity_def completed_part_def release_lease_def holds_lease_def
  fail_update_def reopen_node_def cancel_one_def complete_update_def completable_def

lemmas campaign_kept_simps = campaign_kept_def usage_set_def refund_set_def Let_def

lemma kept_creation:
  "stmt_in (store_evolves node_kept campaign_kept) (projectCampaign cid now)"
  "stmt_in (store_evolves node_kept campaign_kept) (createCampaignStatement spec admitted phase now)"
  "stmt_in (store_evolves node_kept campaign_kept) (createNodeStatement cid now nd)"
  "stmt_in (store_evolves node_kept campaign_kept) (extendNodeStatement cid now nd)"
  "stmt_in (store_evolves node_kept campaign_kept) (S_createCampaignStart now cid)"
  unfolding projectCampaign_def createCampaignStatement_def S_createCampaign_def createNodeStatement_def
    S_createCampaignNode_def extendNodeStatement_def S_extendCampaignNode_def S_createCampaignStart_def
  by (intro kept.inserts_in kept.update_campaigns_in; simp add: campaign_kept_simps)+

lemma kept_infrastructure:
  "stmt_in (store_evolves node_kept campaign_kept) (S_assertIntegratedAttempt f now key rh)"
  "stmt_in (store_evolves node_kept campaign_kept) (S_assertIntegratingAttempt f now key)"
  "stmt_in (store_evolves node_kept campaign_kept) (S_cancelInfrastructureNode f now cnt)"
  "stmt_in (store_evolves node_kept campaign_kept) (S_cancelInfrastructureUsage rf now cid)"
  "stmt_in (store_evolves node_kept campaign_kept) (S_reserveInfrastructureNode f now)"
  "stmt_in (store_evolves node_kept campaign_kept) (S_reserveInfrastructureUsage (nativeStoreCampaignUsageParameters dl) now cid)"
  "stmt_in (store_evolves node_kept campaign_kept) (S_markInfrastructureNode f nrev now)"
  "stmt_in (store_evolves node_kept campaign_kept) (S_updateCampaignUsage (nativeStoreCampaignUsageParameters dl) now cid)"
  "stmt_in (store_evolves node_kept campaign_kept) (S_recordUsage (nativeStoreCampaignUsageParameters dl) now cid enforce)"
  unfolding S_assertIntegratedAttempt_def S_assertIntegratingAttempt_def S_cancelInfrastructureNode_def
    S_cancelInfrastructureUsage_def S_reserveInfrastructureNode_def S_reserveInfrastructureUsage_def
    S_markInfrastructureNode_def S_updateCampaignUsage_def S_recordUsage_def
  by (intro kept.update_nodes_in kept.update_campaigns_in; auto simp: node_kept_simps campaign_kept_simps)+

lemma kept_lifecycle:
  "stmt_in (store_evolves node_kept campaign_kept) (S_skipFutureNode reason now i cid)"
  "stmt_in (store_evolves node_kept campaign_kept) (S_skipFutureNodes ids reason now cid)"
  "stmt_in (store_evolves node_kept campaign_kept) (S_resumeCampaign now spec cid cst seen)"
  "stmt_in (store_evolves node_kept campaign_kept) (S_resumeNodes now cid why)"
  "stmt_in (store_evolves node_kept campaign_kept) (S_extendSupersedePackage now cid)"
  "stmt_in (store_evolves node_kept campaign_kept) (S_extendCampaign rounds spec now cid cst seen)"
  "stmt_in (store_evolves node_kept campaign_kept) (S_retryCampaign phase rnd now cid cst seen)"
  "stmt_in (store_evolves node_kept campaign_kept) (S_retryNode now i nrev)"
  "stmt_in (store_evolves node_kept campaign_kept) (S_retrySiblingNode now i cid tid integration nrev)"
  "stmt_in (store_evolves node_kept campaign_kept) (S_pauseCampaignNodes now cid)"
  "nst \<noteq> Completed \<Longrightarrow> stmt_in (store_evolves node_kept campaign_kept) (S_settleCampaignNodes nst reason now cid)"
  unfolding S_skipFutureNode_def S_skipFutureNodes_def S_resumeCampaign_def S_resumeNodes_def
    S_extendSupersedePackage_def S_extendCampaign_def S_retryCampaign_def S_retryNode_def S_retrySiblingNode_def
    S_pauseCampaignNodes_def S_settleCampaignNodes_def
  by (intro kept.update_nodes_in kept.update_campaigns_in; auto simp: node_kept_simps campaign_kept_simps)+

lemma kept_control:
  "stmt_in (store_evolves node_kept campaign_kept) (S_pauseCampaign reason now cid seen)"
  "stmt_in (store_evolves node_kept campaign_kept) (S_settleCampaign cst' resumed now reason cid cst seen)"
  "stmt_in (store_evolves node_kept campaign_kept) (S_cancelNodeGuard cid)"
  "stmt_in (store_evolves node_kept campaign_kept) (S_cancelNodesGuard ids cid)"
  "stmt_in (store_evolves node_kept campaign_kept) (S_cancelOneNode reason detail h now j)"
  "stmt_in (store_evolves node_kept campaign_kept) (S_cancelNodes ids reason detail h now)"
  "stmt_in (store_evolves node_kept campaign_kept) (S_cancelNodeStopCampaign now cid seen)"
  unfolding S_pauseCampaign_def S_settleCampaign_def S_cancelNodeGuard_def S_cancelNodesGuard_def
    S_cancelOneNode_def S_cancelNodes_def S_cancelNodeStopCampaign_def Let_def
  by (cases resumed; auto intro!: kept.update_nodes_in kept.update_campaigns_in kept.update_elapsed_in
      simp: node_kept_simps campaign_kept_simps)+

lemma kept_leases:
  "nst \<in> {Leased, Running} \<Longrightarrow> stmt_in (store_evolves node_kept campaign_kept) (S_recoverLease d now i cid nst owner att gen expired)"
  "stmt_in (store_evolves node_kept campaign_kept) (S_recoverLeaseUncertain detail hash now i cid owner att gen expired)"
  "stmt_in (store_evolves node_kept campaign_kept) (S_recoverLeaseUsage rf now cid)"
  "stmt_in (store_evolves node_kept campaign_kept) (S_renewLease expires now f)"
  "stmt_in (store_evolves node_kept campaign_kept) (S_claimNode w expires a now i cid nrev)"
  "stmt_in (store_evolves node_kept campaign_kept) (S_startNode now f)"
  "stmt_in (store_evolves node_kept campaign_kept) (S_startNodeCampaign phase rnd (nativeStoreCampaignUsageParameters dl) now cid)"
  "stmt_in (store_evolves node_kept campaign_kept) (failNodeStatement abandon nst' cls detail hash now f)"
  "n_status s \<in> {Queued, Leased, Running} \<Longrightarrow>
    stmt_in (store_evolves node_kept campaign_kept) (settleStatement (terminalSiblingSettlement rt i hash s) now cid s)"
  unfolding S_recoverLease_def S_recoverLeaseUncertain_def S_recoverLeaseUsage_def S_renewLease_def S_claimNode_def
    S_startNode_def S_startNodeCampaign_def failNodeStatement_def S_failNodeAbandonPrepared_def
    S_failNodePreservePrepared_def settleStatement_def S_settleTerminalSiblingNodes_def
  by (cases abandon; auto intro!: kept.update_nodes_in kept.update_campaigns_in simp: node_kept_simps campaign_kept_simps)+

lemma kept_prepared:
  "stmt_in (store_evolves node_kept campaign_kept) (S_prepareNode res resultHash f now req kopt)"
  "stmt_in (store_evolves node_kept campaign_kept) (S_beginIntegrationNode now expires f key)"
  "stmt_in (store_evolves node_kept campaign_kept) (S_markIntegratedNode rcpt rh now f key)"
  "stmt_in (store_evolves node_kept campaign_kept) (S_completeNode now rv f resultHash)"
  unfolding S_prepareNode_def S_beginIntegrationNode_def S_markIntegratedNode_def
  by (intro kept.update_nodes_in kept.complete_in; auto simp: node_kept_simps)+

interpretation kept_store: statement_contract "store_evolves node_kept campaign_kept" rt promote for rt promote
proof unfold_locales
  show "op_in (store_evolves node_kept campaign_kept) (promoteCompletedRelease rt checks promote cid)" for checks cid
    by (intro kept.store.promote_release_of_stmt kept.inserts_in)
  show "op_in (store_evolves node_kept campaign_kept) (cancelNode rt be env i reason)" for be env i reason
    by (intro kept.store.cancel_node_of_stmts kept_control kept.inserts_in kept_creation)
  show "tx_in (store_evolves node_kept campaign_kept)
     (tx_seq [required code (S_pauseCampaign reason now cid seen), run (S_pauseCampaignNodes now cid)])"
    for code reason now cid seen
    by (intro kept.store.pause_tx_of_stmts kept_control kept_lifecycle)
  show "tx_in (store_evolves node_kept campaign_kept)
     (tx_seq [required code (S_settleCampaign cst' resumed now reason cid cst seen), run (S_settleCampaignNodes nst'' reason now cid)])"
    if "(cst', nst'') \<in> {(C_cancelled, Skipped), (C_failed, Failed_terminal), (C_stopped, Skipped)}"
    for cst' nst'' code resumed now reason cid cst seen
    using that by (intro kept.store.settle_tx_of_stmts kept_control kept_lifecycle) auto
qed (rule kept.inserts_in kept_creation kept_infrastructure kept_lifecycle kept_leases kept_prepared; assumption)+

end
