(* ===== verification/Store_Invariants.thy ===== *)
theory Store_Invariants
  imports Store_Machine
begin

text \<open>
  The invariant of the store, kept by every operation on either backend: identifiers are
  unique and foreign keys resolve, every journal event and every prepared result carries the
  hash of its content, a lease belongs to exactly the leased and running nodes, an integration
  in progress belongs to an attempt that is running or whose outcome was declared uncertain,
  a completed node holds its prepared result, and a campaign's clock runs exactly while the
  campaign is queued or running.
\<close>

section \<open>The invariant\<close>

definition lease_ok :: "node_row \<Rightarrow> bool" where
  "lease_ok n = (if n_status n \<in> {Leased, Running}
     then lease_owner n \<noteq> None \<and> lease_expires_at n \<noteq> None \<and> attempt_id n \<noteq> None \<and> 1 \<le> lease_generation n
     else lease_owner n = None \<and> lease_expires_at n = None)"

definition counters_ok :: "node_row \<Rightarrow> bool" where
  "counters_ok n = (0 \<le> attempt_count n \<and> (n_status n = Running \<longrightarrow> 1 \<le> attempt_count n)
     \<and> 0 \<le> lease_generation n \<and> 0 \<le> node_revision n)"

definition prepared_ok :: "runtime \<Rightarrow> prepared \<Rightarrow> bool" where
  "prepared_ok rt p =
    ((case prepared_result p of None \<Rightarrow> p = no_prepared
      | Some r \<Rightarrow> prepared_result_sha256 p = Some (hashRecord rt ''PaperCampaignNodeResult'' r)
          \<and> prepared_attempt_id p \<noteq> None \<and> prepared_at p \<noteq> None)
     \<and> (prepared_requires_integration p \<longleftrightarrow> prepared_integration_status p \<noteq> Integ_none)
     \<and> (prepared_integration_status p = Integ_integrating \<longrightarrow> prepared_integration_started_at p \<noteq> None)
     \<and> (if prepared_integration_status p = Integ_integrated
        then prepared_integrated_at p \<noteq> None
          \<and> (case (prepared_integration_receipt p, prepared_integration_key p, prepared_integration_receipt_sha256 p) of
               (Some rcpt, Some key, Some h) \<Rightarrow> receipt_sealed rt key rcpt h | _ \<Rightarrow> False)
        else prepared_integration_receipt p = None \<and> prepared_integration_receipt_sha256 p = None
          \<and> prepared_integrated_at p = None))"

definition integration_owned :: "node_row \<Rightarrow> bool" where
  "integration_owned n = (integ n = Integ_integrating \<longrightarrow> n_status n \<in> {Running, External_outcome_uncertain})"

definition completion_ok :: "node_row \<Rightarrow> bool" where
  "completion_ok n = (if n_status n = Completed
     then prepared_result (prep n) \<noteq> None \<and> result_json n = prepared_result (prep n)
       \<and> result_sha256 n = prepared_hash n \<and> attempt_id n \<noteq> None
       \<and> (prepared_requires_integration (prep n) \<longrightarrow> integ n = Integ_integrated)
     else result_json n = None \<and> result_sha256 n = None)"

definition node_ok :: "runtime \<Rightarrow> node_row \<Rightarrow> bool" where
  "node_ok rt n = (lease_ok n \<and> counters_ok n \<and> prepared_ok rt (prep n) \<and> integration_owned n \<and> completion_ok n)"

definition campaign_ok :: "campaign_row \<Rightarrow> bool" where
  "campaign_ok c = ((c_status c \<in> {C_queued, C_running} \<longleftrightarrow> last_resumed_at c \<noteq> None)
     \<and> 1 \<le> revision c \<and> 0 \<le> accumulated_run_ms c \<and> 0 \<le> agent_call_count c \<and> 0 \<le> cpu_job_count c
     \<and> 0 \<le> gpu_job_count c \<and> 0 \<le> token_count c \<and> 0 \<le> cost_usd c \<and> 0 \<le> priced_agent_call_count c)"

definition keys_ok :: "db \<Rightarrow> bool" where
  "keys_ok db = (distinct (map node_id (nodes db)) \<and> distinct (map campaign_id (campaigns db))
     \<and> distinct (map event_id (events db))
     \<and> (\<forall>n\<in>set (nodes db). \<exists>c\<in>set (campaigns db). campaign_id c = n_campaign_id n)
     \<and> (\<forall>e\<in>set (events db). \<exists>c\<in>set (campaigns db). campaign_id c = e_campaign_id e))"

definition store_ok :: "runtime \<Rightarrow> db \<Rightarrow> bool" where
  "store_ok rt db = (keys_ok db \<and> (\<forall>n\<in>set (nodes db). node_ok rt n) \<and> (\<forall>c\<in>set (campaigns db). campaign_ok c)
     \<and> (\<forall>e\<in>set (events db). event_sealed rt e))"

definition preserves :: "(db \<Rightarrow> bool) \<Rightarrow> db \<Rightarrow> db \<Rightarrow> bool" where
  "preserves I db db' = (I db \<longrightarrow> I db')"

interpretation preserving: db_preorder "preserves I" for I
  by unfold_locales (auto simp: preserves_def)

section \<open>Preservation by a statement\<close>

lemma same_node: "keys_ok db \<Longrightarrow> m \<in> set (nodes db) \<Longrightarrow> n \<in> set (nodes db) \<Longrightarrow> node_id m = node_id n \<Longrightarrow> m = n"
  by (auto simp: keys_ok_def distinct_map inj_on_def)

lemma same_campaign: "keys_ok db \<Longrightarrow> c \<in> set (campaigns db) \<Longrightarrow> d \<in> set (campaigns db) \<Longrightarrow> campaign_id c = campaign_id d \<Longrightarrow> c = d"
  by (auto simp: keys_ok_def distinct_map inj_on_def)

lemma keys_ok_update:
  assumes "keys_ok db"
  shows "(\<And>n. node_id (f n) = node_id n \<and> n_campaign_id (f n) = n_campaign_id n) \<Longrightarrow>
      keys_ok (db\<lparr>nodes := map (\<lambda>n. if P n then f n else n) (nodes db)\<rparr>)"
    and "(\<And>c. campaign_id (g c) = campaign_id c) \<Longrightarrow>
      keys_ok (db\<lparr>campaigns := map (\<lambda>c. if Q c then g c else c) (campaigns db)\<rparr>)"
proof -
  assume f: "\<And>n. node_id (f n) = node_id n \<and> n_campaign_id (f n) = n_campaign_id n"
  then have "map node_id (map (\<lambda>n. if P n then f n else n) (nodes db)) = map node_id (nodes db)" by simp
  with f assms show "keys_ok (db\<lparr>nodes := map (\<lambda>n. if P n then f n else n) (nodes db)\<rparr>)"
    unfolding keys_ok_def by (auto simp del: map_map)
next
  assume g: "\<And>c. campaign_id (g c) = campaign_id c"
  then have "map campaign_id (map (\<lambda>c. if Q c then g c else c) (campaigns db)) = map campaign_id (campaigns db)" by simp
  moreover have "(\<exists>c\<in>set (map (\<lambda>c. if Q c then g c else c) (campaigns db)). campaign_id c = i)
      \<longleftrightarrow> (\<exists>c\<in>set (campaigns db). campaign_id c = i)" for i using g by auto
  ultimately show "keys_ok (db\<lparr>campaigns := map (\<lambda>c. if Q c then g c else c) (campaigns db)\<rparr>)"
    using assms unfolding keys_ok_def by (simp del: map_map set_map)
qed

lemma ok_update_nodes:
  assumes "\<And>n. node_id (f n) = node_id n \<and> n_campaign_id (f n) = n_campaign_id n"
    and "\<And>db n. P db n \<Longrightarrow> node_ok rt n \<Longrightarrow> node_ok rt (f n)"
  shows "stmt_in (preserves (store_ok rt)) (update_nodes P f)"
  using assms keys_ok_update(1) by (auto simp: stmt_in_def preserves_def store_ok_def update_nodes_def)

lemma ok_update_campaigns:
  assumes "\<And>db c. campaign_id (g db c) = campaign_id c"
    and "\<And>db c. P db c \<Longrightarrow> campaign_ok c \<Longrightarrow> campaign_ok (g db c)"
  shows "stmt_in (preserves (store_ok rt)) (update_campaigns P g)"
  using assms keys_ok_update(2) by (auto simp: stmt_in_def preserves_def store_ok_def update_campaigns_def)

lemma ok_update_elapsed:
  assumes "\<And>c. campaign_id (g c) = campaign_id c"
    and "\<And>db c k. P db c \<Longrightarrow> campaign_ok c \<Longrightarrow> accumulated_run_ms c \<le> k \<Longrightarrow> campaign_ok (g (c\<lparr>accumulated_run_ms := k\<rparr>))"
  shows "stmt_in (preserves (store_ok rt)) (update_elapsed P g now)"
proof -
  let ?g = "\<lambda>(_::db) c. g (c\<lparr>accumulated_run_ms := accumulated_run_ms c + elapsed now (last_resumed_at c)\<rparr>)"
  have "stmt_in (preserves (store_ok rt)) (update_campaigns P ?g)"
    by (rule ok_update_campaigns) (simp_all add: assms)
  then show ?thesis by (auto simp: stmt_in_def update_elapsed_def split: if_splits)
qed

lemma ok_inserts:
  "event_sealed rt e \<Longrightarrow> stmt_in (preserves (store_ok rt)) (insert_event e)"
  "node_ok rt n \<Longrightarrow> stmt_in (preserves (store_ok rt)) (insert_node n)"
  "campaign_ok c \<Longrightarrow> stmt_in (preserves (store_ok rt)) (insert_campaign c)"
  "stmt_in (preserves (store_ok rt)) (insert_or_ignore_paper p)"
  "stmt_in (preserves (store_ok rt)) (S_publishCurrentRelease rel f cid h)"
  "stmt_in (preserves (store_ok rt)) (S_insertCurrentRelease rel)"
  by (auto simp: stmt_in_def preserves_def store_ok_def keys_ok_def insert_event_def insert_node_def insert_campaign_def
    insert_or_ignore_paper_def S_publishCurrentRelease_def S_insertCurrentRelease_def list_ex_iff split: if_splits)


section \<open>The statements keep the invariant\<close>

lemmas node_ok_simps = node_ok_def lease_ok_def counters_ok_def integration_owned_def completion_ok_def
  release_lease_def holds_lease_def

lemma prepared_ok_empty [simp]: "prepared_ok rt no_prepared" "prepared_integration_status no_prepared = Integ_none"
  "prepared_result no_prepared = None" "prepared_requires_integration no_prepared = False"
  by (simp_all add: prepared_ok_def no_prepared_def)

lemma prepared_ok_interrupt [simp]:
  "prepared_ok rt p \<Longrightarrow> prepared_ok rt (interrupt_integration p)"
  "prepared_integration_status (interrupt_integration p) \<noteq> Integ_integrating"
  by (auto simp: prepared_ok_def interrupt_integration_def no_prepared_def split: option.splits)

lemma prepared_ok_keep [simp]:
  "prepared_ok rt p \<Longrightarrow> prepared_ok rt (keep_integrated p)"
  "prepared_integration_status (keep_integrated p) \<noteq> Integ_integrating"
  by (auto simp: keep_integrated_def)

lemma prepared_ok_unprepared:
  "prepared_ok rt p \<Longrightarrow> prepared_result_sha256 p = None \<Longrightarrow> p = no_prepared"
  "prepared_ok rt p \<Longrightarrow> prepared_result_sha256 p = Some h \<Longrightarrow> prepared_result p \<noteq> None"
  by (auto simp: prepared_ok_def no_prepared_def split: option.splits)

lemma prepared_ok_plain:
  "prepared_ok rt p \<Longrightarrow> prepared_integration_status p = Integ_integrating \<Longrightarrow> prepared_requires_integration p"
  by (simp add: prepared_ok_def)

lemma fresh_node_ok: "node_ok rt (fresh_node i cid k rnd prio ds spec attempts now r)"
  by (simp add: node_ok_simps fresh_node_def)

lemma ok_creation:
  "stmt_in (preserves (store_ok rt)) (projectCampaign cid now)"
  "stmt_in (preserves (store_ok rt)) (createCampaignStatement spec admitted phase now)"
  "stmt_in (preserves (store_ok rt)) (createNodeStatement cid now nd)"
  "stmt_in (preserves (store_ok rt)) (extendNodeStatement cid now nd)"
  "stmt_in (preserves (store_ok rt)) (S_createCampaignStart now cid)"
  unfolding projectCampaign_def createCampaignStatement_def S_createCampaign_def createNodeStatement_def
    S_createCampaignNode_def extendNodeStatement_def S_extendCampaignNode_def S_createCampaignStart_def
  by (intro ok_inserts ok_update_campaigns fresh_node_ok; auto simp: campaign_ok_def Let_def sql_status_def)+

lemma ok_infrastructure:
  "stmt_in (preserves (store_ok rt)) (S_assertIntegratedAttempt f now key rh)"
  "stmt_in (preserves (store_ok rt)) (S_assertIntegratingAttempt f now key)"
  "stmt_in (preserves (store_ok rt)) (S_cancelInfrastructureNode f now cnt)"
  "stmt_in (preserves (store_ok rt)) (S_cancelInfrastructureUsage rf now cid)"
  "stmt_in (preserves (store_ok rt)) (S_reserveInfrastructureNode f now)"
  "stmt_in (preserves (store_ok rt)) (S_reserveInfrastructureUsage (nativeStoreCampaignUsageParameters dl) now cid)"
  "stmt_in (preserves (store_ok rt)) (S_markInfrastructureNode f nrev now)"
  "stmt_in (preserves (store_ok rt)) (S_updateCampaignUsage (nativeStoreCampaignUsageParameters dl) now cid)"
  "stmt_in (preserves (store_ok rt)) (S_recordUsage (nativeStoreCampaignUsageParameters dl) now cid enforce)"
  unfolding S_assertIntegratedAttempt_def S_assertIntegratingAttempt_def S_cancelInfrastructureNode_def
    S_cancelInfrastructureUsage_def S_reserveInfrastructureNode_def S_reserveInfrastructureUsage_def
    S_markInfrastructureNode_def S_updateCampaignUsage_def S_recordUsage_def
  by (intro ok_update_nodes ok_update_campaigns;
      auto simp: node_ok_simps campaign_ok_def usage_set_def refund_set_def refund_covered_def
        dest: prepared_ok_unprepared)+

lemma ok_lifecycle:
  "stmt_in (preserves (store_ok rt)) (S_skipFutureNode reason now i cid)"
  "stmt_in (preserves (store_ok rt)) (S_skipFutureNodes ids reason now cid)"
  "stmt_in (preserves (store_ok rt)) (S_resumeCampaign now spec cid cst seen)"
  "stmt_in (preserves (store_ok rt)) (S_resumeNodes now cid why)"
  "stmt_in (preserves (store_ok rt)) (S_extendSupersedePackage now cid)"
  "stmt_in (preserves (store_ok rt)) (S_extendCampaign rounds spec now cid cst seen)"
  "stmt_in (preserves (store_ok rt)) (S_retryCampaign phase rnd now cid cst seen)"
  "stmt_in (preserves (store_ok rt)) (S_retryNode now i nrev)"
  "stmt_in (preserves (store_ok rt)) (S_retrySiblingNode now i cid tid integration nrev)"
  unfolding S_skipFutureNode_def S_skipFutureNodes_def S_resumeCampaign_def S_resumeNodes_def
    S_extendSupersedePackage_def S_extendCampaign_def S_retryCampaign_def S_retryNode_def S_retrySiblingNode_def
  by (intro ok_update_nodes ok_update_campaigns; auto simp: node_ok_simps campaign_ok_def reopen_node_def)+

lemma ok_leases:
  "nst \<in> {Leased, Running} \<Longrightarrow>
    stmt_in (preserves (store_ok rt)) (S_recoverLease (if nst = Running then 1 else 0) now i cid nst owner att gen expired)"
  "stmt_in (preserves (store_ok rt)) (S_recoverLeaseUncertain detail hash now i cid owner att gen expired)"
  "stmt_in (preserves (store_ok rt)) (S_recoverLeaseUsage rf now cid)"
  "stmt_in (preserves (store_ok rt)) (S_renewLease expires now f)"
  "stmt_in (preserves (store_ok rt)) (S_claimNode w expires a now i cid nrev)"
  "stmt_in (preserves (store_ok rt)) (S_startNode now f)"
  "stmt_in (preserves (store_ok rt)) (S_startNodeCampaign phase rnd (nativeStoreCampaignUsageParameters dl) now cid)"
  unfolding S_recoverLease_def S_recoverLeaseUncertain_def S_recoverLeaseUsage_def S_renewLease_def S_claimNode_def
    S_startNode_def S_startNodeCampaign_def
  by (intro ok_update_nodes ok_update_campaigns;
      auto simp: node_ok_simps campaign_ok_def usage_set_def refund_set_def refund_covered_def)+

lemma ok_failure:
  "nst' \<in> {Queued, Failed_terminal} \<Longrightarrow> stmt_in (preserves (store_ok rt)) (failNodeStatement abandon nst' cls detail hash now f)"
  "n_status s \<in> {Queued, Leased, Running} \<Longrightarrow>
    stmt_in (preserves (store_ok rt)) (settleStatement (terminalSiblingSettlement rt i hash s) now cid s)"
  unfolding failNodeStatement_def S_failNodeAbandonPrepared_def S_failNodePreservePrepared_def settleStatement_def
    S_settleTerminalSiblingNodes_def
  by (cases abandon; auto intro!: ok_update_nodes simp: node_ok_simps fail_update_def terminalSiblingSettlement_def Let_def
      settlement_uncertain_def)+

lemma ok_prepared:
  "result_sealed rt res resultHash \<Longrightarrow> stmt_in (preserves (store_ok rt)) (S_prepareNode res resultHash f now req kopt)"
  "stmt_in (preserves (store_ok rt)) (S_beginIntegrationNode now expires f key)"
  "receipt_sealed rt key rcpt rh \<Longrightarrow> stmt_in (preserves (store_ok rt)) (S_markIntegratedNode rcpt rh now f key)"
  unfolding S_prepareNode_def S_beginIntegrationNode_def S_markIntegratedNode_def
  by (intro ok_update_nodes; auto simp: node_ok_simps prepared_ok_def result_sealed_def split: option.splits)+


lemma ok_complete: "stmt_in (preserves (store_ok rt)) (S_completeNode now rv f resultHash)"
proof -
  have "stmt_in (preserves (store_ok rt)) (update_nodes (completable resultHash f now) (complete_update now rv))"
    by (rule ok_update_nodes)
      (auto simp: node_ok_simps complete_update_def completable_def dest: prepared_ok_unprepared prepared_ok_plain)
  then show ?thesis by (auto simp: stmt_in_def S_completeNode_def split: if_splits)
qed

lemma ok_control:
  "stmt_in (preserves (store_ok rt)) (S_pauseCampaign reason now cid seen)"
  "cst' \<notin> {C_queued, C_running} \<Longrightarrow> stmt_in (preserves (store_ok rt)) (S_settleCampaign cst' resumed now reason cid cst seen)"
  "stmt_in (preserves (store_ok rt)) (S_cancelNodeGuard cid)"
  "stmt_in (preserves (store_ok rt)) (S_cancelNodesGuard ids cid)"
  "stmt_in (preserves (store_ok rt)) (S_cancelNodeStopCampaign now cid seen)"
  unfolding S_pauseCampaign_def S_settleCampaign_def S_cancelNodeGuard_def S_cancelNodesGuard_def
    S_cancelNodeStopCampaign_def Let_def
  by (cases resumed; auto intro!: ok_update_campaigns ok_update_elapsed simp: campaign_ok_def)+

text \<open>
  Releasing the attempts of a campaign needs the guard of the statement before it: no node of
  the campaign is being integrated.
\<close>

definition idle :: "string \<Rightarrow> db \<Rightarrow> bool" where
  "idle cid db = (\<forall>n\<in>set (nodes db). n_campaign_id n = cid \<longrightarrow> integ n \<noteq> Integ_integrating)"

lemma ok_release:
  assumes "store_ok rt db" and "update_nodes (\<lambda>_. P) f db = Inr (k, db')"
    and "\<And>n. n \<in> set (nodes db) \<Longrightarrow> P n \<Longrightarrow> n_status n \<in> {Queued, Leased, Running} \<and> integ n \<noteq> Integ_integrating"
    and "\<And>n. f n = n\<lparr>n_status := nst, lease_owner := None, lease_expires_at := None, attempt_id := None,
        node_revision := node_revision n + 1, failure_class := failure_class (f n), failure_json := failure_json (f n),
        failure_sha256 := failure_sha256 (f n), n_updated_at := n_updated_at (f n)\<rparr>"
    and "nst \<in> {Queued, Skipped, Failed_terminal}"
  shows "store_ok rt db'"
proof -
  have fields: "node_id (f n) = node_id n" "n_campaign_id (f n) = n_campaign_id n" "n_status (f n) = nst"
      "lease_owner (f n) = None" "lease_expires_at (f n) = None" "node_revision (f n) = node_revision n + 1"
      "prep (f n) = prep n" "result_json (f n) = result_json n" "result_sha256 (f n) = result_sha256 n"
      "attempt_count (f n) = attempt_count n" "lease_generation (f n) = lease_generation n" for n
    by (subst assms(4), simp)+
  have "node_ok rt (f n)" if "n \<in> set (nodes db)" "P n" for n
    using assms(1) assms(3) [OF that] assms(5) that(1)
    by (auto simp: store_ok_def node_ok_simps fields)
  then show ?thesis
    using assms(1,2) keys_ok_update(1) [of db f P] by (auto simp: store_ok_def update_nodes_def fields)
qed

lemma integration_in_progress_idle: "store_ok rt db \<Longrightarrow> \<not> integration_in_progress db cid \<Longrightarrow> idle cid db"
  by (fastforce simp: integration_in_progress_def idle_def list_ex_iff store_ok_def node_ok_def integration_owned_def)

lemma guard_idle:
  assumes "store_ok rt db" and "required code (S_pauseCampaign reason now cid seen) db = Inr db'
      \<or> required code (S_settleCampaign cst' resumed now reason cid cst seen) db = Inr db'"
  shows "idle cid db'"
proof -
  have "\<not> integration_in_progress db cid \<and> nodes db' = nodes db"
    using assms(2)
    by (auto simp: required_def rbind_Inr_iff S_pauseCampaign_def S_settleCampaign_def Let_def update_elapsed_def
      update_campaigns_def split: if_splits)
  with integration_in_progress_idle [OF assms(1)] show ?thesis by (auto simp: idle_def)
qed

lemma ok_pause_tx:
  "tx_in (preserves (store_ok rt)) (tx_seq [required code (S_pauseCampaign reason now cid seen), run (S_pauseCampaignNodes now cid)])"
proof -
  have "store_ok rt db2" if ok: "store_ok rt db" and guard: "required code (S_pauseCampaign reason now cid seen) db = Inr db1"
    and step: "S_pauseCampaignNodes now cid db1 = Inr (k, db2)" for db db1 db2 k
  proof -
    have "store_ok rt db1"
      using required_in [OF ok_control(1)] ok guard unfolding tx_in_def preserves_def by blast
    then show ?thesis
      using step unfolding S_pauseCampaignNodes_def
    proof (rule ok_release [where nst = Queued])
      show "n_status n \<in> {Queued, Leased, Running} \<and> integ n \<noteq> Integ_integrating"
        if "n \<in> set (nodes db1)" "n_campaign_id n = cid \<and> n_status n \<in> {Leased, Running}" for n
        using guard_idle [OF ok disjI1, OF guard] that by (auto simp: idle_def)
    qed (simp_all add: release_lease_def)
  qed
  then show ?thesis by (auto simp: tx_in_def preserves_def rbind_Inr_iff run_def)
qed

lemma ok_settle_tx:
  assumes "(cst', nst) \<in> {(C_cancelled, Skipped), (C_failed, Failed_terminal), (C_stopped, Skipped)}"
  shows "tx_in (preserves (store_ok rt)) (tx_seq [required code (S_settleCampaign cst' resumed now reason cid cst seen),
    run (S_settleCampaignNodes nst reason now cid)])"
proof -
  have "store_ok rt db2" if ok: "store_ok rt db"
    and guard: "required code (S_settleCampaign cst' resumed now reason cid cst seen) db = Inr db1"
    and step: "S_settleCampaignNodes nst reason now cid db1 = Inr (k, db2)" for db db1 db2 k
  proof -
    have "cst' \<notin> {C_queued, C_running}" using assms by auto
    then have "store_ok rt db1"
      using required_in [OF ok_control(2)] ok guard unfolding tx_in_def preserves_def by blast
    then show ?thesis
      using step unfolding S_settleCampaignNodes_def
    proof (rule ok_release [where nst = nst])
      show "n_status n \<in> {Queued, Leased, Running} \<and> integ n \<noteq> Integ_integrating"
        if "n \<in> set (nodes db1)" "n_campaign_id n = cid \<and> n_status n \<in> {Queued, Leased, Running}" for n
        using guard_idle [OF ok disjI2, OF guard] that by (auto simp: idle_def)
      show "nst \<in> {Queued, Skipped, Failed_terminal}" using assms by auto
    qed (simp_all add: release_lease_def)
  qed
  then show ?thesis by (auto simp: tx_in_def preserves_def rbind_Inr_iff run_def)
qed


section \<open>Cancelling a node\<close>

definition cancel_safe :: "string list \<Rightarrow> db \<Rightarrow> bool" where
  "cancel_safe ids db = (\<forall>n\<in>set (nodes db). node_id n \<in> set ids \<longrightarrow> integ n \<noteq> Integ_integrating)"

definition ids_of_campaign :: "string list \<Rightarrow> string \<Rightarrow> db \<Rightarrow> bool" where
  "ids_of_campaign ids cid db = (\<forall>n\<in>set (nodes db). node_id n \<in> set ids \<longrightarrow> n_campaign_id n = cid)"

abbreviation cancelling :: "runtime \<Rightarrow> string list \<Rightarrow> db \<Rightarrow> bool" where
  "cancelling rt ids db \<equiv> store_ok rt db \<and> cancel_safe ids db"

lemma cancelling_campaigns:
  assumes "stmt_in (preserves (store_ok rt)) st" and "\<And>db k db'. st db = Inr (k, db') \<Longrightarrow> nodes db' = nodes db"
  shows "stmt_in (preserves (cancelling rt ids)) st"
  using assms unfolding stmt_in_def preserves_def cancel_safe_def by metis

lemma cancelling_stmts:
  "event_sealed rt e \<Longrightarrow> stmt_in (preserves (cancelling rt ids)) (insert_event e)"
  "stmt_in (preserves (cancelling rt ids)) (projectCampaign cid now)"
  "stmt_in (preserves (cancelling rt ids)) (S_cancelNodeStopCampaign now cid seen)"
  "stmt_in (preserves (cancelling rt ids)) (S_cancelNodeGuard cid)"
proof -
  show "stmt_in (preserves (cancelling rt ids)) (insert_event e)" if "event_sealed rt e"
    using that by (auto intro!: cancelling_campaigns ok_inserts simp: insert_event_def split: if_splits)
qed (rule cancelling_campaigns; (rule ok_creation ok_control)?;
    simp add: projectCampaign_def S_cancelNodeStopCampaign_def S_cancelNodeGuard_def update_campaigns_def)+

lemma cancelling_update:
  assumes "\<And>n. P n \<Longrightarrow> node_id n \<in> set ids \<and> n_status n \<in> {Queued, Leased, Running}"
  shows "stmt_in (preserves (cancelling rt ids)) (update_nodes (\<lambda>_. P) (cancel_one reason detail h now))"
proof -
  have "cancelling rt ids db'" if ok: "cancelling rt ids db"
    and u: "update_nodes (\<lambda>_. P) (cancel_one reason detail h now) db = Inr (k, db')" for db k db'
  proof
    have "nodes db' = map (\<lambda>n. if P n then cancel_one reason detail h now n else n) (nodes db)"
      using u by (auto simp: update_nodes_def)
    then show "cancel_safe ids db'"
      using ok by (auto simp: cancel_safe_def cancel_one_def release_lease_def)
    from ok have "store_ok rt db" by simp
    from this u show "store_ok rt db'"
    proof (rule ok_release [where nst = Skipped])
      show "n_status n \<in> {Queued, Leased, Running} \<and> integ n \<noteq> Integ_integrating" if "n \<in> set (nodes db)" "P n" for n
        using assms [OF that(2)] ok that(1) by (auto simp: cancel_safe_def)
    qed (simp_all add: cancel_one_def release_lease_def)
  qed
  then show ?thesis unfolding stmt_in_def preserves_def by blast
qed

lemma cancelling_cancel:
  "j \<in> set ids \<Longrightarrow> stmt_in (preserves (cancelling rt ids)) (S_cancelOneNode reason detail h now j)"
  "stmt_in (preserves (cancelling rt ids)) (S_cancelNodes ids reason detail h now)"
  unfolding S_cancelOneNode_def S_cancelNodes_def by (auto intro!: cancelling_update)

lemma inspected_safe:
  "tx_seq (map (cancel_inspection cid) ids) db = Inr db' \<Longrightarrow> ids_of_campaign ids cid db \<Longrightarrow> store_ok rt db
    \<Longrightarrow> db' = db \<and> cancel_safe ids db"
proof (induction ids)
  case Nil
  then show ?case by (simp add: cancel_safe_def)
next
  case (Cons i ids)
  then have rest: "db' = db \<and> cancel_safe ids db" and here: "cancel_inspection cid i db = Inr db"
    by (auto simp: ids_of_campaign_def cancel_inspection_def tx_check_def rbind_Inr_iff split: option.splits if_splits)
  have "integ n \<noteq> Integ_integrating" if n: "n \<in> set (nodes db)" "node_id n = i" for n
  proof -
    have "\<exists>m. S_cancelNodeInspect i cid db = Some m"
      using n Cons.prems(2) unfolding S_cancelNodeInspect_def ids_of_campaign_def
      by (cases "find (\<lambda>n. node_id n = i \<and> n_campaign_id n = cid) (nodes db)") (auto simp: find_None_iff)
    then obtain m where m: "S_cancelNodeInspect i cid db = Some m" by blast
    then have "m \<in> set (nodes db)" "node_id m = i"
      unfolding S_cancelNodeInspect_def by (auto dest: find_SomeD)
    then have "m = n" using same_node n Cons.prems(3) unfolding store_ok_def by blast
    then show ?thesis
      using here m n(1) Cons.prems(3)
      by (auto simp: cancel_inspection_def tx_check_def store_ok_def node_ok_def integration_owned_def split: if_splits)
  qed
  with rest show ?case by (auto simp: cancel_safe_def)
qed

lemma guarded_safe:
  assumes "guarded (S_cancelNodesGuard ids cid) db = Inr db'" "ids_of_campaign ids cid db" "store_ok rt db"
  shows "cancelling rt ids db'"
proof -
  have safe: "\<not> list_ex (\<lambda>n. n_campaign_id n = cid \<and> node_id n \<in> set ids \<and> n_status n \<noteq> Completed
      \<and> integ n \<in> {Integ_integrating, Integ_integrated}) (nodes db) \<and> nodes db' = nodes db"
    using assms(1) by (auto simp: guarded_def required_def S_cancelNodesGuard_def update_campaigns_def split: if_splits)
  moreover have "store_ok rt db'"
    using guarded_in [OF ok_control(4)] assms unfolding tx_in_def preserves_def by blast
  ultimately show ?thesis
    using assms(2,3) by (fastforce simp: cancel_safe_def ids_of_campaign_def list_ex_iff store_ok_def node_ok_def integration_owned_def)
qed


lemma cancel_tx:
  assumes ids: "ids_of_campaign ids (n_campaign_id n) db" and ok: "store_ok rt db"
    and ev: "event_sealed rt ev" "pred_option (event_sealed rt) se"
  shows "cancel_statements n c ids reason detail h now ev se db = Inr db' \<Longrightarrow> store_ok rt db'"
    and "applyCancelNode n c ids reason detail h now ev se db = Inr db' \<Longrightarrow> store_ok rt db'"
proof -
  let ?R = "preserves (cancelling rt ids)"
  assume "cancel_statements n c ids reason detail h now ev se db = Inr db'"
  then obtain db1 where g: "guarded (S_cancelNodesGuard ids (n_campaign_id n)) db = Inr db1"
    and rest: "tx_seq ([run (S_cancelNodes ids reason detail h now), run (insert_event ev)]
       @ (case (se, c) of (Some e, Some d) \<Rightarrow>
            [guarded (S_cancelNodeStopCampaign now (n_campaign_id n) (revision d)), run (insert_event e)]
          | _ \<Rightarrow> [run (projectCampaign (n_campaign_id n) now)])) db1 = Inr db'"
    by (auto simp: cancel_statements_def Let_def rbind_Inr_iff)
  have "tx_in ?R (tx_seq ([run (S_cancelNodes ids reason detail h now), run (insert_event ev)]
       @ (case (se, c) of (Some e, Some d) \<Rightarrow>
            [guarded (S_cancelNodeStopCampaign now (n_campaign_id n) (revision d)), run (insert_event e)]
          | _ \<Rightarrow> [run (projectCampaign (n_campaign_id n) now)])))"
    using ev by (intro preserving.tx_seq_in)
      (auto intro!: run_in guarded_in cancelling_stmts cancelling_cancel split: option.splits)
  with rest guarded_safe [OF g ids ok] show "store_ok rt db'"
    unfolding tx_in_def preserves_def by blast
next
  let ?R = "preserves (cancelling rt ids)"
  let ?rest = "tx_seq ([required ''campaign_node_cancel_failed'' (S_cancelNodeGuard (n_campaign_id n))]
       @ map (\<lambda>i. run (S_cancelOneNode reason detail h now i)) ids @ [insertNativeStoreCampaignEvent ev]
       @ (case (se, c) of (Some e, Some d) \<Rightarrow>
            [required ''campaign_node_cancel_failed'' (S_cancelNodeStopCampaign now (n_campaign_id n) (revision d)),
              insertNativeStoreCampaignEvent e]
          | _ \<Rightarrow> [projectNativeStoreCampaign (n_campaign_id n) now]))"
  assume "applyCancelNode n c ids reason detail h now ev se db = Inr db'"
  then obtain db1 where i: "tx_seq (map (cancel_inspection (n_campaign_id n)) ids) db = Inr db1" and rest: "?rest db1 = Inr db'"
    unfolding applyCancelNode_def Let_def tx_seq_append rbind_Inr_iff by blast
  have "tx_in ?R ?rest"
    using ev by (intro preserving.tx_seq_in)
      (auto intro!: required_in run_in insertEvent_in project_in cancelling_stmts cancelling_cancel split: option.splits)
  with rest inspected_safe [OF i ids ok] ok show "store_ok rt db'"
    unfolding tx_in_def preserves_def by blast
qed


lemma listNodes_rows: "listNodes rt cid db = Inr ns \<Longrightarrow> set ns = normalize_node ` set (campaign_nodes db cid)"
  by (auto simp: listNodes_def dest!: rmap_node_rows)

lemma cascade_of_campaign:
  assumes "keys_ok db" "readNode rt i db = Inr (Some n)" "listNodes rt (n_campaign_id n) db = Inr ns"
    "cascadeCancelledNodeIds ns i = Inr ids"
  shows "ids_of_campaign ids (n_campaign_id n) db"
proof -
  obtain r where r: "r \<in> set (nodes db)" "node_id r = i" "n = normalize_node r"
    using readNode_row [OF assms(2)] by blast
  have member: "\<exists>m\<in>set (campaign_nodes db (n_campaign_id n)). node_id m = j" if "cascaded ns i j" for j
    using that
  proof cases
    case base
    with r show ?thesis by (auto simp: campaign_nodes_def)
  next
    case (dep m d)
    then show ?thesis using listNodes_rows [OF assms(3)] by auto
  qed
  show ?thesis
    unfolding ids_of_campaign_def
  proof (intro ballI impI)
    fix m
    assume m: "m \<in> set (nodes db)" "node_id m \<in> set ids"
    then obtain k where "k \<in> set (campaign_nodes db (n_campaign_id n))" "node_id k = node_id m"
      using cascadeCancelled_iff [OF assms(4)] member by blast
    with m same_node [OF assms(1), of k m] show "n_campaign_id m = n_campaign_id n"
      by (auto simp: campaign_nodes_def)
  qed
qed

lemma op_read_bind: "op_bind (op_read q) k db = (case q db of Inl e \<Rightarrow> (Inl e, db) | Inr x \<Rightarrow> k x db)"
  by (simp add: op_bind_def op_read_def split: sum.splits)

lemma submit_ok:
  assumes "\<And>db'. statements db = Inr db' \<Longrightarrow> I db'" "\<And>db'. applyNativeStoreCampaignMutation rt m db = Inr db' \<Longrightarrow> I db'" "I db"
  shows "I (snd (op_bind (submit rt be fallback statements m) (\<lambda>_. op_read q) db))"
  using assms by (auto simp: submit_def mutation_def op_bind_def op_read_def split: backend.splits sum.splits)

lemma ok_cancelNode: "op_in (preserves (store_ok rt)) (cancelNode rt be env i reason)"
proof -
  have "store_ok rt (snd (cancelNode rt be env i reason db))" if ok: "store_ok rt db" for db
  proof (cases "readNode rt i db")
    case (Inr node)
    note node = this
    show ?thesis
    proof (cases node)
      case None
      with node ok show ?thesis by (simp add: cancelNode_def op_read_bind op_throw_def)
    next
      case (Some n)
      show ?thesis
      proof (cases "\<exists>ns ids. \<not> (node_done (n_status n) \<or> n_status n = Failed_terminal)
          \<and> listNodes rt (n_campaign_id n) db = Inr ns \<and> cascadeCancelledNodeIds ns i = Inr ids")
        case True
        then obtain ns ids where sel: "\<not> (node_done (n_status n) \<or> n_status n = Failed_terminal)"
          "listNodes rt (n_campaign_id n) db = Inr ns" "cascadeCancelledNodeIds ns i = Inr ids" by blast
        have "ids_of_campaign ids (n_campaign_id n) db"
          using cascade_of_campaign node Some sel(2,3) ok unfolding store_ok_def by blast
        note step = cancel_tx [OF this ok]
        from sel show ?thesis
          unfolding cancelNode_def Let_def op_read_bind node Some
          by (auto intro!: submit_ok [where I = "store_ok rt"] ok elim!: step [rotated -1])
      next
        case False
        then show ?thesis
          using node Some ok by (auto simp: cancelNode_def op_read_bind op_return_def split: sum.splits)
      qed
    qed
  qed (use ok in \<open>simp add: cancelNode_def op_read_bind\<close>)
  then show ?thesis by (simp add: op_in_def preserves_def)
qed

interpretation ok_store: statement_contract "preserves (store_ok rt)" rt promote for rt promote
proof unfold_locales
  show "op_in (preserves (store_ok rt)) (promoteCompletedRelease rt checks promote cid)" for checks cid
    by (intro preserving.promote_release_of_stmt ok_inserts)
  show "tx_in (preserves (store_ok rt))
     (tx_seq [required code (S_settleCampaign cst' resumed now reason cid cst seen), run (S_settleCampaignNodes nst'' reason now cid)])"
    if "(cst', nst'') \<in> {(C_cancelled, Skipped), (C_failed, Failed_terminal), (C_stopped, Skipped)}"
    for cst' nst'' code resumed now reason cid cst seen
    using that by (rule ok_settle_tx)
qed (rule ok_inserts ok_creation ok_infrastructure ok_lifecycle ok_leases ok_failure ok_prepared ok_complete ok_pause_tx
    ok_cancelNode; assumption)+

end
