(* ===== verification/Campaign_Example.thy ===== *)
theory Campaign_Example
  imports Store_Invariants
begin

text \<open>
  A concrete runtime and a small campaign on which the operations are evaluated: node
  \<open>a\<close> is claimed and running, \<open>b\<close> waits for \<open>a\<close>, \<open>c\<close> is ready. The
  witnesses of the properties run the store on them.
\<close>

definition ex_rt :: runtime where
  "ex_rt = \<lparr>sha256_hex = (\<lambda>_. replicate 64 (CHR ''a'')), number_text = (\<lambda>_. ''1''),
    localeCompare = codeUnitCompare, toISOString = (\<lambda>_. ''2026-01-01''), string_number = (\<lambda>_. None)\<rparr>"

definition ex_os :: os where
  "ex_os = \<lparr>proc_stat_of = (\<lambda>_. Stat_missing), kill_no_process = (\<lambda>_. False)\<rparr>"

definition ex_env :: "int \<Rightarrow> string \<Rightarrow> env" where
  "ex_env t u = \<lparr>nowIso = t, nowMs = t, randomUUID = (\<lambda>k. replicate k (CHR ''x'') @ u)\<rparr>"

definition ex_spec :: json where
  "ex_spec = JObj [(''budgets'', JObj [(''maxAgentCalls'', JInt 5)]), (''campaignPlanHash'', JStr ''plan'')]"

definition ex_campaign :: campaign_row where
  "ex_campaign = \<lparr>campaign_id = ''c'', paper_id = ''p'', c_status = C_running, revision = 1,
      current_round = 0, current_review_round = 0, current_phase = ''dispatching'', max_rounds = 2,
      accumulated_run_ms = 0, agent_call_count = 0, cpu_job_count = 0, gpu_job_count = 0,
      token_count = 0, cost_usd = 0, priced_agent_call_count = 0, cost_known = False,
      parent_campaign_id = None, supersedes_campaign_id = None, recovery_of_campaign_id = None, c_spec = ex_spec,
      stop_reason = None, last_resumed_at = Some 0, c_created_at = 0, c_updated_at = 0\<rparr>"

definition ex_node :: "string \<Rightarrow> string list \<Rightarrow> node_row" where
  "ex_node i ds = fresh_node i ''c'' ''experiment'' 0 100 ds (JObj []) 3 0 None"

definition ex_running :: node_row where
  "ex_running = (ex_node ''a'' [])\<lparr>n_status := Running, attempt_count := 1, attempt_id := Some ''t1'',
    lease_generation := 1, node_revision := 2, lease_owner := Some ''w'', lease_expires_at := Some 100\<rparr>"

definition ex_db :: db where
  "ex_db = \<lparr>campaigns = [ex_campaign], nodes = [ex_running, ex_node ''b'' [''a''], ex_node ''c'' []],
    events = [], releases = [], papers = []\<rparr>"

definition ex_fence :: fence where
  "ex_fence = \<lparr>f_node = ''a'', f_worker = ''w'', f_attempt = ''t1'', f_generation = 1\<rparr>"

definition ex_usage :: usage_delta where
  "ex_usage = \<lparr>agentCalls = Some 1, cpuJobs = None, gpuJobs = None, tokens = None, costUsd = None, pricedAgentCalls = None\<rparr>"

definition ex_verifiers :: verifiers where
  "ex_verifiers = \<lparr>waiver_binding = (\<lambda>_ _ _. Inr ()), intake_valid = (\<lambda>_. False), intake_admission_valid = (\<lambda>_ _. False)\<rparr>"

definition ex_promote :: promote where
  "ex_promote = (\<lambda>_ _ _ _. Inl ''release_contract_invalid'')"

definition ex_definition :: json where
  "ex_definition = JObj [(''campaignId'', JStr ''c''), (''paperId'', JStr ''p''), (''maxRounds'', JInt 2),
    (''nodes'', JArr [JObj [(''nodeId'', JStr ''a''), (''kind'', JStr ''experiment'')],
      JObj [(''nodeId'', JStr ''b''), (''kind'', JStr ''experiment''), (''dependencies'', JArr [JStr ''a''])]])]"

text \<open>The campaign after \<open>a\<close> was prepared and completed.\<close>

definition ex_done :: db where
  "ex_done = snd (completeNode ex_rt ex_promote Native (ex_env 10 ''u'') (ex_env 10 ''v'') ex_fence None
    (Some (JObj [(''x'', JInt 1)])) ex_usage ex_db)"

lemma ex_ok: "store_ok ex_rt ex_db"
  by code_simp

end
