(* ===== verification/Store_Properties.thy ===== *)
theory Store_Properties
  imports Store_Evolution Campaign_Example
begin

text \<open>
  Properties of every history of the store, whatever operations, processes and backends it
  interleaves: the invariant, the append-only journal, completed work, and the exclusivity of
  leases.
\<close>

section \<open>Histories of rows\<close>

lemma table_evolves_eq: "table_evolves (=) xs ys \<longleftrightarrow> (\<exists>zs. ys = xs @ zs)"
proof
  assume "table_evolves (=) xs ys"
  then have "take (length xs) ys = xs" by (simp add: table_evolves_def list.rel_eq)
  then show "\<exists>zs. ys = xs @ zs" by (metis append_take_drop_id)
qed (auto simp: table_evolves_def list.rel_eq)

lemma node_successor:
  assumes "store_ok rt db" "store_steps rt os v promote db db'" "n \<in> set (nodes db)"
    "m \<in> set (nodes db')" "node_id m = node_id n"
  shows "node_kept n m"
proof -
  have "store_evolves node_kept campaign_kept db db'"
    using kept_store.steps_in [OF assms(2)] .
  then obtain n' where n': "n' \<in> set (nodes db')" "node_kept n n'"
    using table_evolves_member [OF _ assms(3), of node_kept "nodes db'"] by (auto simp: store_evolves_def)
  moreover have "keys_ok db'"
    using ok_store.steps_in [OF assms(2)] assms(1) unfolding preserves_def store_ok_def by blast
  ultimately have "n' = m"
    using same_node [of db' n' m] assms(4,5) by (simp add: node_kept_def node_identity_def)
  with n' show ?thesis by simp
qed

lemma one_step: "store_step rt os v promote db db' \<Longrightarrow> store_steps rt os v promote db db'"
  by (rule r_into_rtranclp)

section \<open>Properties\<close>

text \<open>
  C1. The invariant of the store. Starting from the empty database, whatever sequence of the
  store's operations runs, on either backend and interleaved between any workers: identifiers
  are unique and foreign keys resolve; every event and every prepared result carries the hash
  of its content; exactly the leased and running nodes have an owner, an expiry and an attempt;
  an integration in progress belongs to a running attempt or to one declared uncertain; a
  completed node holds its prepared result, integrated where integration is required; and a
  campaign's clock runs exactly while it is queued or running.
\<close>

theorem reachable_store_ok:
  assumes "store_steps rt os v promote empty_db db"
  shows "store_ok rt db"
  using ok_store.steps_in [OF assms] by (simp add: preserves_def store_ok_def keys_ok_def empty_db_def)

theorem reachable_store_ok_witness:
  "store_ok ex_rt (snd (createCampaign ex_rt ex_verifiers Native (ex_env 5 ''u'') ex_definition empty_db))
    \<and> map n_status (nodes (snd (createCampaign ex_rt ex_verifiers Native (ex_env 5 ''u'') ex_definition empty_db))) = [Queued, Queued]"
proof
  show "store_ok ex_rt (snd (createCampaign ex_rt ex_verifiers Native (ex_env 5 ''u'') ex_definition empty_db))"
    by (rule reachable_store_ok [OF one_step [OF store_step.create]])
qed code_simp

text \<open>
  C5. The journal and the published releases are append-only: no operation changes or
  removes an event or a release.
\<close>

theorem journal_append_only:
  assumes "store_steps rt os v promote db db'"
  shows "(\<exists>es. events db' = events db @ es) \<and> (\<exists>rs. releases db' = releases db @ rs)"
  using kept_store.steps_in [OF assms] by (simp add: store_evolves_def table_evolves_eq)

theorem journal_append_only_witness:
  "(\<exists>es. events ex_done = events ex_db @ es) \<and> (\<exists>rs. releases ex_done = releases ex_db @ rs)
    \<and> map e_kind (events ex_done) = [''campaign_node_result_prepared'', ''campaign_node_completed'']"
proof -
  have "map e_kind (events ex_done) = [''campaign_node_result_prepared'', ''campaign_node_completed'']"
    by code_simp
  moreover have "store_steps ex_rt ex_os ex_verifiers ex_promote ex_db ex_done"
    unfolding ex_done_def by (rule one_step [OF store_step.complete])
  ultimately show ?thesis using journal_append_only by blast
qed

text \<open>
  C4. Completed work is final: a node row never disappears, never changes its identity,
  campaign, kind, dependencies or specification, and once completed keeps its result, hashes
  and reviewer for ever.
\<close>

theorem completed_work_final:
  assumes "store_steps rt os v promote db db'" and "n \<in> set (nodes db)"
  shows "\<exists>n'\<in>set (nodes db'). node_identity n' = node_identity n
    \<and> (n_status n = Completed \<longrightarrow> completed_part n' = completed_part n)"
  using kept_store.steps_in [OF assms(1)] table_evolves_member [of node_kept "nodes db" "nodes db'"] assms(2)
  by (auto simp: store_evolves_def node_kept_def)

theorem completed_work_final_witness:
  "n_status (hd (nodes ex_done)) = Completed
    \<and> (\<exists>n'\<in>set (nodes (snd (cancelCampaign ex_rt Legacy (ex_env 20 ''w'') ''c'' ''operator'' ex_done))).
        completed_part n' = completed_part (hd (nodes ex_done)))"
proof -
  have fin: "n_status (hd (nodes ex_done)) = Completed" "nodes ex_done \<noteq> []" by code_simp+
  have "store_steps ex_rt ex_os ex_verifiers ex_promote ex_done
      (snd (cancelCampaign ex_rt Legacy (ex_env 20 ''w'') ''c'' ''operator'' ex_done))"
    by (rule one_step [OF store_step.cancel])
  from completed_work_final [OF this hd_in_set [OF fin(2)]] fin(1) show ?thesis by blast
qed

text \<open>
  C2. Mutual exclusion of workers: if an attempt fence holds a lease at some moment and
  another fence holds a lease of the same node and the same generation at any later moment,
  then both are the same worker and the same attempt.
\<close>

theorem lease_generation_exclusive:
  assumes "store_ok rt db" "store_steps rt os v promote db db'"
    and "n \<in> set (nodes db)" "holds_lease f s now db n"
    and "m \<in> set (nodes db')" "holds_lease f' s' now' db' m"
    and "f_node f' = f_node f" "f_generation f' = f_generation f"
  shows "f' = f"
  using node_successor [OF assms(1-3,5)] assms(4,6-8)
  by (simp add: holds_lease_def node_kept_def fence.equality)

theorem lease_generation_exclusive_witness:
  "\<lparr>f_node = ''a'', f_worker = ''w'', f_attempt = ''t1'', f_generation = 1\<rparr> = ex_fence
    \<and> holds_lease ex_fence Running 10 ex_db (hd (nodes ex_db))"
proof
  let ?db = "snd (renewNodeLease ex_rt Native (ex_env 10 ''u'') ex_fence 60 ex_db)"
  have steps: "store_steps ex_rt ex_os ex_verifiers ex_promote ex_db ?db"
    by (rule one_step [OF store_step.renew])
  show held: "holds_lease ex_fence Running 10 ex_db (hd (nodes ex_db))" by code_simp
  show "\<lparr>f_node = ''a'', f_worker = ''w'', f_attempt = ''t1'', f_generation = 1\<rparr> = ex_fence"
  proof (rule lease_generation_exclusive [OF ex_ok steps _ held])
    show "hd (nodes ex_db) \<in> set (nodes ex_db)" by code_simp
    show "hd (nodes ?db) \<in> set (nodes ?db)" by code_simp
    show "holds_lease \<lparr>f_node = ''a'', f_worker = ''w'', f_attempt = ''t1'', f_generation = 1\<rparr> Running 500 ?db (hd (nodes ?db))"
      by code_simp
  qed code_simp+
qed

text \<open>
  C3. A superseded attempt stays dead: once a node's generation is above a fence's generation,
  that fence never again holds a lease.
\<close>

theorem superseded_fence_dead:
  assumes "store_ok rt db" "store_steps rt os v promote db db'"
    and "n \<in> set (nodes db)" "node_id n = f_node f" "f_generation f < lease_generation n"
  shows "\<not> list_ex (holds_lease f s now db') (nodes db')"
proof
  assume "list_ex (holds_lease f s now db') (nodes db')"
  then obtain m where m: "m \<in> set (nodes db')" "holds_lease f s now db' m" by (auto simp: list_ex_iff)
  then have "node_kept n m" using node_successor [OF assms(1-3)] assms(4) by (simp add: holds_lease_def)
  with m assms(5) show False by (simp add: node_kept_def holds_lease_def)
qed


theorem superseded_fence_dead_witness:
  "\<not> list_ex (holds_lease (ex_fence\<lparr>f_generation := 0\<rparr>) Running 10
      (snd (renewNodeLease ex_rt Native (ex_env 10 ''u'') ex_fence 60 ex_db)))
      (nodes (snd (renewNodeLease ex_rt Native (ex_env 10 ''u'') ex_fence 60 ex_db)))"
proof (rule superseded_fence_dead [OF ex_ok])
  show "store_steps ex_rt ex_os ex_verifiers ex_promote ex_db
      (snd (renewNodeLease ex_rt Native (ex_env 10 ''u'') ex_fence 60 ex_db))"
    by (rule one_step [OF store_step.renew])
  show "hd (nodes ex_db) \<in> set (nodes ex_db)" by code_simp
qed code_simp+

end
