(* ===== verification/Fence_Properties.thy ===== *)
theory Fence_Properties
  imports Store_Properties
begin

text \<open>
  What an attempt fence protects: the operations of a worker whose lease is not live leave the
  database as it is, with two exceptions that are spelled out: starting a node whose lease is still
  held, and deferring a node a pause put back into the queue.
\<close>

section \<open>Guards that no row passes\<close>

definition fenced_out :: "fence \<Rightarrow> int \<Rightarrow> db \<Rightarrow> bool" where
  "fenced_out f now db = (\<not> list_ex (live_attempt f now db) (nodes db))"

lemma required_no_row:
  assumes "\<And>n. n \<in> set (nodes db) \<Longrightarrow> \<not> P db n"
  shows "required code (update_nodes P g) db = Inl code"
  using assms by (auto simp: required_def update_nodes_def filter_empty_conv)

lemma fenced_out_row: "fenced_out f now db \<Longrightarrow> n \<in> set (nodes db) \<Longrightarrow> \<not> live_attempt f now db n"
  by (auto simp: fenced_out_def list_ex_iff)

lemma fenced_out_stmts:
  assumes "fenced_out f now db"
  shows "required code (S_renewLease expires now f) db = Inl code"
    "required code (failNodeStatement abandon nst cls detail hash now f) db = Inl code"
    "required code (S_prepareNode res h f now req key) db = Inl code"
    "required code (S_beginIntegrationNode now expires f ikey) db = Inl code"
    "required code (S_markIntegratedNode rcpt rh now f ikey) db = Inl code"
    "required code (S_assertIntegratedAttempt f now ikey rh) db = Inl code"
    "required code (S_assertIntegratingAttempt f now ikey) db = Inl code"
    "required code (S_reserveInfrastructureNode f now) db = Inl code"
    "required code (S_markInfrastructureNode f nrev now) db = Inl code"
  unfolding S_renewLease_def failNodeStatement_def S_failNodeAbandonPrepared_def S_failNodePreservePrepared_def
    S_prepareNode_def S_beginIntegrationNode_def S_markIntegratedNode_def S_assertIntegratedAttempt_def
    S_assertIntegratingAttempt_def S_reserveInfrastructureNode_def S_markInfrastructureNode_def
  by (auto intro!: required_no_row dest: fenced_out_row [OF assms] split: if_splits)

lemma fenced_out_complete: "fenced_out f now db \<Longrightarrow> required code (S_completeNode now rv f h) db = Inl code
    \<or> (\<exists>e. required code (S_completeNode now rv f h) db = Inl e)"
  using required_no_row [of db "completable h f now" code "complete_update now rv"] fenced_out_row [of f now db]
  by (auto simp: S_completeNode_def completable_def required_def split: if_splits)

lemma submit_rejected:
  assumes "statements db = Inl e" "applyNativeStoreCampaignMutation rt m db = Inl e'"
  shows "\<exists>err. submit rt be fallback statements m db = (Inl err, db)"
  using assms by (cases be) (auto simp: submit_def mutation_def)

lemma submit_caught:
  assumes "statements db = Inl e" "applyNativeStoreCampaignMutation rt m db = Inl e'"
  shows "op_bind (op_catch (submit rt be fallback statements m) (\<lambda>_. op_throw code)) k db = (Inl code, db)"
  using submit_rejected [of statements db e rt m e' be fallback] assms by (auto simp: op_bind_def op_catch_def op_throw_def)

lemmas rejected_simps = op_read_bind op_throw_def op_return_def guarded_def

lemma submit_caught_seq:
  assumes "required ''CHECK constraint failed: changed=1'' st db = Inl e" "applyNativeStoreCampaignMutation rt m db = Inl e'"
  shows "op_bind (op_catch (submit rt be fallback (tx_seq (guarded st # ts)) m) (\<lambda>_. op_throw code)) k db = (Inl code, db)"
  using assms by (intro submit_caught) (auto simp: guarded_def)

lemma renew_fenced_out: "fenced_out f (nowIso env) db \<Longrightarrow> \<exists>e. renewNodeLease rt be env f seconds db = (Inl e, db)"
  unfolding renewNodeLease_def Let_def
  by (simp add: fenced_out_stmts applyRenewNodeLease_def submit_caught_seq op_throw_def)

lemma fail_fenced_out:
  "fenced_out f (nowIso env) db \<Longrightarrow> \<exists>e. failNode rt be env f cls detail retryable abandon delta db = (Inl e, db)"
  unfolding failNode_def Let_def fail_statements_def append_Cons
  by (auto simp: rejected_simps(1-3) fenced_out_stmts applyFailNode_def submit_caught_seq split: sum.splits option.splits)

lemma alive_fenced_out:
  "fenced_out f now db \<Longrightarrow> \<exists>e. assertLiveNodeAttempt rt be f now integrated key rh db = (Inl e, db)"
  unfolding assertLiveNodeAttempt_def
  by (auto simp: fenced_out_stmts applyAssertLiveNodeAttempt_def submit_caught_seq)

lemma begin_fenced_out:
  "fenced_out f (nowIso env) db \<Longrightarrow> \<exists>e. beginNodeResultIntegration rt be env f key seconds db = (Inl e, db)"
  unfolding beginNodeResultIntegration_def Let_def
  using alive_fenced_out [of f "nowIso env" db]
  by (auto simp: rejected_simps(1-3) fenced_out_stmts applyBeginNodeResultIntegration_def submit_caught_seq
      split: sum.splits option.splits)

lemma mark_fenced_out:
  "fenced_out f (nowIso env) db \<Longrightarrow> \<exists>e. markNodeResultIntegrated rt be env f key receipt db = (Inl e, db)"
  unfolding markNodeResultIntegrated_def Let_def
  using alive_fenced_out [of f "nowIso env" db]
  by (auto simp: rejected_simps(1-3) fenced_out_stmts applyMarkNodeResultIntegrated_def submit_caught_seq
      split: sum.splits option.splits)

lemma reserve_fenced_out:
  "fenced_out f (nowIso env) db \<Longrightarrow> \<exists>e. reserveNodeInfrastructureUsage rt be env f delta db = (Inl e, db)"
  unfolding reserveNodeInfrastructureUsage_def Let_def
  by (auto simp: rejected_simps(1-3) fenced_out_stmts applyReserveNodeInfrastructureUsage_def submit_caught_seq
      split: sum.splits option.splits)


text \<open>
  \<open>prepareNodeResult\<close> decides from the row it read; by the invariant a running row has an
  expiry, so the row it accepts is live.
\<close>

lemma getCampaign_running:
  "map_option c_status (getCampaign cid db) = Some C_running \<Longrightarrow> campaign_has_status db cid C_running"
  by (auto simp: getCampaign_def find_campaign_def campaign_has_status_def list_ex_iff dest!: find_SomeD)

lemma read_row_live:
  assumes "store_ok rt db" "readNode rt (f_node f) db = Inr (Some n)" "n_status n = Running"
    "lease_owner n = Some (f_worker f)" "attempt_id n = Some (f_attempt f)" "lease_generation n = f_generation f"
    "\<not> lapsed now n" "map_option c_status (getCampaign (n_campaign_id n) db) = Some C_running"
  shows "\<not> fenced_out f now db"
proof -
  obtain r where r: "r \<in> set (nodes db)" "node_id r = f_node f" "n = normalize_node r"
    using readNode_row [OF assms(2)] by blast
  then have "lease_ok r" using assms(1) by (auto simp: store_ok_def node_ok_def)
  with r assms(3-8) have "live_attempt f now db r"
    by (auto simp: lease_ok_def holds_lease_def unexpired_def lapsed_def or_null_def getCampaign_running
        split: option.splits if_splits)
  with r(1) show ?thesis by (auto simp: fenced_out_def list_ex_iff)
qed

lemma prepare_fenced_out:
  assumes "store_ok rt db" "fenced_out f (nowIso env) db"
  shows "\<exists>e. prepareNodeResult rt be env f res req key db = (Inl e, db)"
proof (cases "fence_required f \<and> (\<exists>n. readNode rt (f_node f) db = Inr (Some n))")
  case False
  then show ?thesis
    by (auto simp: prepareNodeResult_def op_read_bind op_throw_def split: sum.splits option.splits)
next
  case True
  then obtain n where n: "fence_required f" "readNode rt (f_node f) db = Inr (Some n)" by blast
  have "(n_status n = Running \<and> lease_owner n = Some (f_worker f) \<and> attempt_id n = Some (f_attempt f)
      \<and> lease_generation n = f_generation f \<and> \<not> lapsed (nowIso env) n
      \<and> map_option c_status (getCampaign (n_campaign_id n) db) = Some C_running) = False"
    using read_row_live [OF assms(1) n(2)] assms(2) by blast
  then have "prepareNodeResult rt be env f res req key db = op_throw ''campaign_node_lease_lost'' db"
    unfolding prepareNodeResult_def Let_def op_read_bind
    by (simp only: n sum.case option.case simp_thms if_True if_False)
  then show ?thesis by (simp add: op_throw_def)
qed

lemma action_fenced_out:
  assumes "fenced_out f (nowIso env) db"
  shows "snd (markNodeExternalActionStarted rt be env f call db) = db"
    "snd (completeNodeExternalAction rt be env f actionId outcome delta db) = db"
proof -
  have start: "\<exists>e. submit rt be fb (tx_seq (guarded (S_markInfrastructureNode f (node_revision n) (nowIso env)) # ts))
      (M_markNodeExternalActionStarted n f (nowIso env) d ev) db = (Inl e, db)" for fb ts n d ev
    using assms by (cases be)
      (auto simp: submit_def mutation_def fenced_out_stmts guarded_def applyMarkNodeExternalActionStarted_def
        rbind_def split: sum.splits)
  have finish: "\<exists>e. submit rt be fb (tx_seq (guarded (S_markInfrastructureNode f (node_revision n) (nowIso env)) # ts))
      (M_completeNodeExternalAction n f (nowIso env) d out delta ev) db = (Inl e, db)" for fb ts n d out ev
    using assms by (cases be)
      (auto simp: submit_def mutation_def fenced_out_stmts guarded_def applyCompleteNodeExternalAction_def
        rbind_def split: sum.splits)
  note intros = preserving.op_bind_in preserving.op_catch_in preserving.op_return_in preserving.op_if_in
    preserving.op_option_in
  have start': "op_in (preserves ((=) db)) (submit rt be fb (tx_seq (guarded (S_markInfrastructureNode f (node_revision n) (nowIso env)) # ts))
      (M_markNodeExternalActionStarted n f (nowIso env) d ev))" for fb ts n d ev
    using start [of fb n ts d ev] by (auto simp: op_in_def preserves_def)
  have finish': "op_in (preserves ((=) db)) (submit rt be fb (tx_seq (guarded (S_markInfrastructureNode f (node_revision n) (nowIso env)) # ts))
      (M_completeNodeExternalAction n f (nowIso env) d out delta ev))" for fb ts n d out ev
    using finish [of fb n ts d out ev] by (auto simp: op_in_def preserves_def)
  have "op_in (preserves ((=) db)) (markNodeExternalActionStarted rt be env f call)"
    unfolding markNodeExternalActionStarted_def Let_def by (intro intros start')
  then show "snd (markNodeExternalActionStarted rt be env f call db) = db"
    by (simp add: op_in_def preserves_def)
  have "op_in (preserves ((=) db)) (completeNodeExternalAction rt be env f actionId outcome delta)"
    unfolding completeNodeExternalAction_def Let_def by (intro intros finish')
  then show "snd (completeNodeExternalAction rt be env f actionId outcome delta db) = db"
    by (simp add: op_in_def preserves_def)
qed


lemma complete_fenced_out:
  assumes "store_ok rt db" "fenced_out f (nowIso env1) db" "fenced_out f (nowIso env) db"
  shows "snd (completeNode rt promote be env1 env f ph res delta db) = db"
proof -
  note intros = preserving.op_bind_in preserving.op_catch_in preserving.op_return_in preserving.op_if_in
    preserving.op_option_in
  have final: "op_in (preserves ((=) db)) (submit rt be fb (complete_statements n (nowIso env) rv f delta ev receipt)
      (M_completeNode n (nowIso env) rv f delta ev receipt))" for fb n rv ev receipt
  proof -
    have req: "\<exists>e. required code (S_completeNode (nowIso env) rv f h) db = Inl e" for code h
      using fenced_out_complete [OF assms(3)] by blast
    obtain e where "complete_statements n (nowIso env) rv f delta ev receipt db = Inl e"
      using req [of "''CHECK constraint failed: changed=1''" "sqlText (prepared_hash n)"]
      by (auto simp: complete_statements_def Let_def guarded_def)
    moreover obtain e' where "applyCompleteNode n (nowIso env) rv f delta ev receipt db = Inl e'"
      using req [of "''campaign_node_complete_failed''" "sqlText (prepared_hash n)"]
      by (auto simp: applyCompleteNode_def Let_def)
    ultimately show ?thesis
      using submit_rejected [of "complete_statements n (nowIso env) rv f delta ev receipt" db e rt
        "M_completeNode n (nowIso env) rv f delta ev receipt" e' be fb]
      by (auto simp: op_in_def preserves_def)
  qed
  have prep: "op_in (preserves ((=) db)) (prepareNodeResult rt be env1 f v False None)" for v
    using prepare_fenced_out [OF assms(1,2), of be v False None] by (auto simp: op_in_def preserves_def)
  have "op_in (preserves ((=) db)) (completeNode rt promote be env1 env f ph res delta)"
    unfolding completeNode_def Let_def by (intro intros prep final)
  then show ?thesis by (simp add: op_in_def preserves_def)
qed

lemma start_fenced_out:
  assumes "\<not> list_ex (holds_lease f Leased (nowIso env) db) (nodes db)"
  shows "snd (startNode rt be env f delta db) = db"
proof -
  note intros = preserving.op_bind_in preserving.op_catch_in preserving.op_return_in preserving.op_if_in
    preserving.op_option_in
  have req: "required code (S_startNode (nowIso env) f) db = Inl code" for code
    unfolding S_startNode_def by (rule required_no_row) (use assms in \<open>auto simp: list_ex_iff\<close>)
  have "op_in (preserves ((=) db)) (submit rt be fb (start_statements n (nowIso env) f delta ev)
      (M_startNode n (nowIso env) f delta ev))" for fb n ev
    using submit_rejected [of "start_statements n (nowIso env) f delta ev" db _ rt "M_startNode n (nowIso env) f delta ev" _ be fb]
    by (simp add: start_statements_def applyStartNode_def guarded_def req op_in_def preserves_def) (metis snd_conv)
  then have "op_in (preserves ((=) db)) (startNode rt be env f delta)"
    unfolding startNode_def Let_def by (intro intros)
  then show ?thesis by (simp add: op_in_def preserves_def)
qed

text \<open>
  The deferral of a node also serves a worker whose node a pause put back into the queue: the
  row then still has the worker's generation, and the journal its start. Only such a row can a
  dead attempt change.
\<close>

definition requeued_by_control :: "fence \<Rightarrow> db \<Rightarrow> bool" where
  "requeued_by_control f db = list_ex (\<lambda>n. node_id n = f_node f \<and> lease_generation n = f_generation f
    \<and> n_status n = Queued \<and> lease_owner n = None \<and> attempt_id n = None \<and> started_by db n f) (nodes db)"

lemma defer_fenced_out:
  assumes "fenced_out f (nowIso env) db" "\<not> requeued_by_control f db"
  shows "snd (cancelNodeInfrastructureDeferred rt be env f db) = db"
proof -
  note intros = preserving.op_bind_in preserving.op_catch_in preserving.op_return_in preserving.op_if_in
    preserving.op_option_in
  have req: "required code (S_cancelInfrastructureNode f (nowIso env) k) db = Inl code" for code k
    unfolding S_cancelInfrastructureNode_def
    by (rule required_no_row)
      (use assms(2) fenced_out_row [OF assms(1)] in \<open>auto simp: requeued_by_control_def list_ex_iff holds_lease_def\<close>)
  have fin: "\<exists>e. submit rt be fb (tx_seq (guarded (S_cancelInfrastructureNode f (nowIso env) (attempt_count n)) # ts))
      (M_cancelNodeInfrastructureDeferred n (nowIso env) f r ev) db = (Inl e, db)" for fb ts n r ev
    using req by (cases be)
      (auto simp: submit_def mutation_def guarded_def applyCancelNodeInfrastructureDeferred_def rbind_def split: sum.splits)
  have "op_in (preserves ((=) db)) (submit rt be fb (tx_seq (guarded (S_cancelInfrastructureNode f (nowIso env)
      (attempt_count n)) # ts)) (M_cancelNodeInfrastructureDeferred n (nowIso env) f r ev))" for fb ts n r ev
    using fin [of fb n ts r ev] by (auto simp: op_in_def preserves_def)
  then have "op_in (preserves ((=) db)) (cancelNodeInfrastructureDeferred rt be env f)"
    unfolding cancelNodeInfrastructureDeferred_def Let_def by (intro intros)
  then show ?thesis by (simp add: op_in_def preserves_def)
qed

section \<open>Properties\<close>



end
