(* ===== verification/Budget_Properties.thy ===== *)
theory Budget_Properties
  imports Fence_Properties
begin

text \<open>
  Budgets: starting an attempt, reserving usage for it and recording usage under enforcement
  happen only within the campaign's limits.
\<close>

section \<open>Read-only continuations\<close>

interpretation unchanged: db_preorder "(=)"
  by unfold_locales auto

lemmas unchanged_intros = unchanged.op_bind_in unchanged.op_catch_in unchanged.op_return_in unchanged.op_if_in
  unchanged.op_option_in

lemma unchanged_bind: "(\<And>x. op_in (=) (k x)) \<Longrightarrow> snd (op_bind m k db) = snd (m db)"
  by (auto simp: op_bind_def op_in_def split: prod.splits sum.splits)

lemma unchanged_catch: "(\<And>e. op_in (=) (h e)) \<Longrightarrow> snd (op_catch m h db) = snd (m db)"
  by (auto simp: op_catch_def op_in_def split: prod.splits sum.splits)

lemma submit_effect:
  assumes "snd (submit rt be fallback statements m db) \<noteq> db"
  shows "\<exists>db'. snd (submit rt be fallback statements m db) = db'
    \<and> (statements db = Inr db' \<or> applyNativeStoreCampaignMutation rt m db = Inr db')"
  using assms by (auto simp: submit_def mutation_def split: backend.splits sum.splits)

section \<open>Within the limits\<close>

definition within_budgets :: "campaign_row \<Rightarrow> bool" where
  "within_budgets c =
    (within_limit (of_int (agent_call_count c)) (budget_limit c ''maxAgentCalls'')
     \<and> within_limit (of_int (cpu_job_count c)) (budget_limit c ''maxCpuJobs'')
     \<and> within_limit (of_int (gpu_job_count c)) (budget_limit c ''maxGpuJobs'')
     \<and> within_limit (of_int (token_count c)) (budget_limit c ''maxTokenCount''))"

definition campaign_within_budgets :: "string \<Rightarrow> db \<Rightarrow> bool" where
  "campaign_within_budgets cid db = list_all (\<lambda>c. campaign_id c = cid \<longrightarrow> within_budgets c) (campaigns db)"

lemma required_campaign:
  assumes "required code (update_campaigns P g) db = Inr db'" "distinct (map campaign_id (campaigns db))"
    "\<And>db c. P db c \<Longrightarrow> campaign_id c = cid" "\<And>db c. campaign_id (g db c) = campaign_id c"
    "\<And>c. P db c \<Longrightarrow> Q (g db c)"
  shows "list_all (\<lambda>c. campaign_id c = cid \<longrightarrow> Q c) (campaigns db')"
proof -
  have db': "campaigns db' = map (\<lambda>c. if P db c then g db c else c) (campaigns db)"
    and one: "length (filter (P db) (campaigns db)) = 1"
    using assms(1) by (auto simp: required_def update_campaigns_def split: if_splits)
  from one obtain c where c: "c \<in> set (campaigns db)" "P db c"
    by (metis length_pos_if_in_set filter_is_subset in_set_conv_nth less_one mem_Collect_eq nth_mem set_filter subsetD)
  have "d = c" if "d \<in> set (campaigns db)" "campaign_id d = cid" for d
    using assms(2,3) c that unfolding distinct_map inj_on_def by metis
  with c assms(4,5) show ?thesis by (auto simp: db' list_all_iff)
qed

lemma usage_within: "usage_budget u c \<Longrightarrow> within_budgets ((usage_set u c)\<lparr>current_phase := p,
    current_review_round := r, revision := v, c_updated_at := t\<rparr>)"
  "usage_budget u c \<Longrightarrow> within_budgets ((usage_set u c)\<lparr>revision := v, c_updated_at := t\<rparr>)"
  "usage_budget u c \<Longrightarrow> within_budgets ((usage_set u c)\<lparr>c_updated_at := t\<rparr>)"
  by (simp_all add: usage_budget_def within_budgets_def usage_set_def budget_limit_def)

lemma enforced_stmts:
  assumes "distinct (map campaign_id (campaigns db))"
  shows "required code (S_startNodeCampaign phase rnd u now cid) db = Inr db' \<Longrightarrow> campaign_within_budgets cid db'"
    "required code (S_reserveInfrastructureUsage u now cid) db = Inr db' \<Longrightarrow> campaign_within_budgets cid db'"
    "required code (S_recordUsage u now cid True) db = Inr db' \<Longrightarrow> campaign_within_budgets cid db'"
  using assms
  by (auto simp: S_startNodeCampaign_def S_reserveInfrastructureUsage_def S_recordUsage_def campaign_within_budgets_def usage_within
      elim!: required_campaign) (simp_all add: usage_set_def)


lemma tx_campaigns:
  "required code (S_startNode now f) db = Inr db' \<Longrightarrow> campaigns db' = campaigns db"
  "required code (S_reserveInfrastructureNode f now) db = Inr db' \<Longrightarrow> campaigns db' = campaigns db"
  "run (insert_event ev) db = Inr db' \<Longrightarrow> campaigns db' = campaigns db"
  "insertNativeStoreCampaignEvent ev db = Inr db' \<Longrightarrow> campaigns db' = campaigns db"
  by (auto simp: required_def run_def S_startNode_def S_reserveInfrastructureNode_def update_nodes_def insert_event_def
      insertNativeStoreCampaignEvent_def split: if_splits)

lemma seq3: "tx_seq [a, b, c] db = Inr db' \<Longrightarrow> \<exists>d1 d2. a db = Inr d1 \<and> b d1 = Inr d2 \<and> c d2 = Inr db'"
  by (auto simp: rbind_Inr_iff)

lemma enforced_seq:
  assumes "tx_seq [a, b, c] db = Inr db'" "distinct (map campaign_id (campaigns db))"
    and "\<And>d. a db = Inr d \<Longrightarrow> campaigns d = campaigns db"
    and "\<And>d d'. b d = Inr d' \<Longrightarrow> distinct (map campaign_id (campaigns d)) \<Longrightarrow> campaign_within_budgets cid d'"
    and "\<And>d d'. c d = Inr d' \<Longrightarrow> campaigns d' = campaigns d"
  shows "campaign_within_budgets cid db'"
proof -
  obtain d1 d2 where d: "a db = Inr d1" "b d1 = Inr d2" "c d2 = Inr db'" using seq3 [OF assms(1)] by blast
  have "campaign_within_budgets cid d2" using assms(2-4) d(1,2) by metis
  with assms(5) [OF d(3)] show ?thesis by (simp add: campaign_within_budgets_def)
qed

lemma start_tx_within:
  assumes "start_statements n now f delta ev db = Inr db' \<or> applyStartNode n now f delta ev db = Inr db'"
    "distinct (map campaign_id (campaigns db))"
  shows "campaign_within_budgets (n_campaign_id n) db'"
  using assms(1) unfolding start_statements_def applyStartNode_def guarded_def
  by (elim disjE; elim enforced_seq; simp add: assms(2) tx_campaigns enforced_stmts(1))

lemma reserve_tx_within:
  assumes "tx_seq [guarded (S_reserveInfrastructureNode f now), guarded (S_reserveInfrastructureUsage
      (nativeStoreCampaignUsageParameters (refund_delta u)) now (n_campaign_id n)), run (insert_event ev)] db = Inr db'
    \<or> applyReserveNodeInfrastructureUsage n f now u ev db = Inr db'" "distinct (map campaign_id (campaigns db))"
  shows "campaign_within_budgets (n_campaign_id n) db'"
  using assms(1) unfolding applyReserveNodeInfrastructureUsage_def guarded_def
  by (elim disjE; elim enforced_seq; simp add: assms(2) tx_campaigns enforced_stmts(2))

lemma caught_effect:
  assumes "snd (op_bind (op_catch (submit rt be fallback statements m) h) k db) \<noteq> db"
    and "\<And>e. op_in (=) (h e)" "\<And>x. op_in (=) (k x)"
  shows "statements db = Inr (snd (op_bind (op_catch (submit rt be fallback statements m) h) k db))
    \<or> applyNativeStoreCampaignMutation rt m db = Inr (snd (op_bind (op_catch (submit rt be fallback statements m) h) k db))"
  using submit_effect [of rt be fallback statements m db] assms by (auto simp: unchanged_bind unchanged_catch)

lemma start_effect:
  assumes "snd (startNode rt be env f delta db) \<noteq> db"
  shows "\<exists>n ev. readNode rt (f_node f) db = Inr (Some n)
    \<and> (start_statements n (nowIso env) f delta ev db = Inr (snd (startNode rt be env f delta db))
       \<or> applyNativeStoreCampaignMutation rt (M_startNode n (nowIso env) f delta ev) db = Inr (snd (startNode rt be env f delta db)))"
  using assms unfolding startNode_def Let_def
  by (auto simp: op_read_bind op_throw_def op_return_def simp del: applyNativeStoreCampaignMutation.simps
      split: if_splits sum.splits option.splits)
    (rule exI, erule caught_effect; intro unchanged_intros)

lemma reserve_effect:
  assumes "snd (reserveNodeInfrastructureUsage rt be env f delta db) \<noteq> db"
  shows "\<exists>n u ev. readNode rt (f_node f) db = Inr (Some n)
    \<and> (tx_seq [guarded (S_reserveInfrastructureNode f (nowIso env)), guarded (S_reserveInfrastructureUsage
      (nativeStoreCampaignUsageParameters (refund_delta u)) (nowIso env) (n_campaign_id n)), run (insert_event ev)] db
        = Inr (snd (reserveNodeInfrastructureUsage rt be env f delta db))
       \<or> applyNativeStoreCampaignMutation rt (M_reserveNodeInfrastructureUsage n f (nowIso env) u ev) db
        = Inr (snd (reserveNodeInfrastructureUsage rt be env f delta db)))"
  using assms unfolding reserveNodeInfrastructureUsage_def Let_def
  by (auto simp: op_read_bind op_throw_def op_return_def simp del: tx_seq.simps applyNativeStoreCampaignMutation.simps
      split: if_splits sum.splits option.splits)
    (intro exI, erule caught_effect; intro unchanged_intros)

lemma budget_effects:
  assumes "store_ok rt db"
  shows "snd (startNode rt be env f delta db) \<noteq> db \<Longrightarrow>
      \<exists>n\<in>set (nodes db). node_id n = f_node f
        \<and> campaign_within_budgets (n_campaign_id n) (snd (startNode rt be env f delta db))"
    and "snd (reserveNodeInfrastructureUsage rt be env f delta db) \<noteq> db \<Longrightarrow>
      \<exists>n\<in>set (nodes db). node_id n = f_node f
        \<and> campaign_within_budgets (n_campaign_id n) (snd (reserveNodeInfrastructureUsage rt be env f delta db))"
    and "snd (recordUsage rt be env cid delta True db) \<noteq> db \<Longrightarrow>
      campaign_within_budgets cid (snd (recordUsage rt be env cid delta True db))"
proof -
  have keys: "distinct (map campaign_id (campaigns db))" using assms by (simp add: store_ok_def keys_ok_def)
  assume "snd (startNode rt be env f delta db) \<noteq> db"
  then obtain n ev where n: "readNode rt (f_node f) db = Inr (Some n)"
    and tx: "start_statements n (nowIso env) f delta ev db = Inr (snd (startNode rt be env f delta db))
       \<or> applyStartNode n (nowIso env) f delta ev db = Inr (snd (startNode rt be env f delta db))"
    using start_effect [of rt be env f delta db] by auto
  obtain r where "r \<in> set (nodes db)" "node_id r = f_node f" "n = normalize_node r"
    using readNode_row [OF n] by blast
  with start_tx_within [OF tx keys] show "\<exists>n\<in>set (nodes db). node_id n = f_node f
      \<and> campaign_within_budgets (n_campaign_id n) (snd (startNode rt be env f delta db))" by auto
next
  have keys: "distinct (map campaign_id (campaigns db))" using assms by (simp add: store_ok_def keys_ok_def)
  assume "snd (reserveNodeInfrastructureUsage rt be env f delta db) \<noteq> db"
  then obtain n u ev where n: "readNode rt (f_node f) db = Inr (Some n)"
    and tx: "tx_seq [guarded (S_reserveInfrastructureNode f (nowIso env)), guarded (S_reserveInfrastructureUsage
        (nativeStoreCampaignUsageParameters (refund_delta u)) (nowIso env) (n_campaign_id n)), run (insert_event ev)] db
          = Inr (snd (reserveNodeInfrastructureUsage rt be env f delta db))
       \<or> applyReserveNodeInfrastructureUsage n f (nowIso env) u ev db
          = Inr (snd (reserveNodeInfrastructureUsage rt be env f delta db))"
    using reserve_effect [of rt be env f delta db] unfolding applyNativeStoreCampaignMutation.simps by blast
  obtain r where "r \<in> set (nodes db)" "node_id r = f_node f" "n = normalize_node r"
    using readNode_row [OF n] by blast
  with reserve_tx_within [OF tx keys] show "\<exists>n\<in>set (nodes db). node_id n = f_node f
      \<and> campaign_within_budgets (n_campaign_id n) (snd (reserveNodeInfrastructureUsage rt be env f delta db))" by auto
next
  have keys: "distinct (map campaign_id (campaigns db))" using assms by (simp add: store_ok_def keys_ok_def)
  show "snd (recordUsage rt be env cid delta True db) \<noteq> db \<Longrightarrow>
      campaign_within_budgets cid (snd (recordUsage rt be env cid delta True db))"
    unfolding recordUsage_def Let_def reread_campaign_def
    by (drule caught_effect; (intro unchanged_intros)?; auto simp: guarded_def runNativeStoreCampaignUsage_def rbind_Inr_iff
        dest!: enforced_stmts(3) [OF keys])
qed

section \<open>Property\<close>

text \<open>
  C8. Budgets are hard limits: whenever starting a node, reserving infrastructure usage, or
  recording usage under enforcement changes the database, on either backend, the campaign's
  agent calls, CPU jobs, GPU jobs and tokens are afterwards within the limits of its
  specification.
\<close>

theorem budgets_enforced:
  assumes "store_ok rt db"
  shows "(snd (startNode rt be env f delta db) \<noteq> db \<longrightarrow>
      (\<exists>n\<in>set (nodes db). node_id n = f_node f
        \<and> campaign_within_budgets (n_campaign_id n) (snd (startNode rt be env f delta db))))
    \<and> (snd (reserveNodeInfrastructureUsage rt be env f delta db) \<noteq> db \<longrightarrow>
      (\<exists>n\<in>set (nodes db). node_id n = f_node f
        \<and> campaign_within_budgets (n_campaign_id n) (snd (reserveNodeInfrastructureUsage rt be env f delta db))))
    \<and> (snd (recordUsage rt be env cid delta True db) \<noteq> db \<longrightarrow>
      campaign_within_budgets cid (snd (recordUsage rt be env cid delta True db)))"
  by (intro conjI impI budget_effects assms)

theorem budgets_enforced_witness:
  "snd (recordUsage ex_rt Legacy (ex_env 10 ''u'') ''c'' ex_usage True ex_db) \<noteq> ex_db
    \<and> campaign_within_budgets ''c'' (snd (recordUsage ex_rt Legacy (ex_env 10 ''u'') ''c'' ex_usage True ex_db))
    \<and> (\<exists>n\<in>set (nodes ex_db). node_id n = f_node ex_fence
        \<and> campaign_within_budgets (n_campaign_id n) (snd (reserveNodeInfrastructureUsage ex_rt Native (ex_env 10 ''u'') ex_fence ex_usage ex_db)))"
proof -
  have calls: "map agent_call_count (campaigns ex_db) = [0]" by code_simp
  have "map agent_call_count (campaigns (snd (recordUsage ex_rt Legacy (ex_env 10 ''u'') ''c'' ex_usage True ex_db))) = [1]"
    by code_simp
  then have a: "snd (recordUsage ex_rt Legacy (ex_env 10 ''u'') ''c'' ex_usage True ex_db) \<noteq> ex_db" using calls by auto
  have "map agent_call_count (campaigns (snd (reserveNodeInfrastructureUsage ex_rt Native (ex_env 10 ''u'') ex_fence ex_usage ex_db))) = [1]"
    by code_simp
  then have b: "snd (reserveNodeInfrastructureUsage ex_rt Native (ex_env 10 ''u'') ex_fence ex_usage ex_db) \<noteq> ex_db"
    using calls by auto
  show ?thesis
    using a b budgets_enforced [OF ex_ok, THEN conjunct2, THEN conjunct1]
      budgets_enforced [OF ex_ok, THEN conjunct2, THEN conjunct2] by blast
qed

end
