(* ===== verification/Claim_Properties.thy ===== *)
theory Claim_Properties
  imports Budget_Properties
begin

text \<open>
  Claiming: what one claim changes, and that the scheduler makes progress. The readiness the
  policy decides on the rows it read is the readiness the SQL guard checks again.
\<close>

section \<open>One claim\<close>

definition claimed_row :: "string \<Rightarrow> int \<Rightarrow> string \<Rightarrow> int \<Rightarrow> node_row \<Rightarrow> node_row" where
  "claimed_row w expires a now n = n\<lparr>n_status := Leased, lease_owner := Some w, lease_expires_at := Some expires,
    attempt_id := Some a, lease_generation := lease_generation n + 1, node_revision := node_revision n + 1,
    n_updated_at := now\<rparr>"

definition claimable :: "string \<Rightarrow> string \<Rightarrow> int \<Rightarrow> db \<Rightarrow> node_row \<Rightarrow> bool" where
  "claimable i cid nrev db m = (node_id m = i \<and> n_campaign_id m = cid \<and> n_status m = Queued \<and> node_revision m = nrev
    \<and> campaign_has_status db cid C_running \<and> dependencies_done db m)"

lemma S_claimNode_alt: "S_claimNode w expires a now i cid nrev = update_nodes (claimable i cid nrev) (claimed_row w expires a now)"
  by (simp add: S_claimNode_def claimable_def [abs_def] claimed_row_def [abs_def])

lemma claim_required:
  assumes "keys_ok db"
  shows "required code (S_claimNode w expires a now i cid nrev) db =
    (if list_ex (claimable i cid nrev db) (nodes db)
     then Inr (db\<lparr>nodes := map (\<lambda>m. if node_id m = i then claimed_row w expires a now m else m) (nodes db)\<rparr>)
     else Inl code)"
proof (cases "list_ex (claimable i cid nrev db) (nodes db)")
  case False
  then show ?thesis
    unfolding S_claimNode_alt by (subst required_no_row) (auto simp: list_ex_iff)
next
  case True
  then obtain m where m: "m \<in> set (nodes db)" "claimable i cid nrev db m" by (auto simp: list_ex_iff)
  have only: "claimable i cid nrev db x \<longleftrightarrow> node_id x = i" if "x \<in> set (nodes db)" for x
    using same_node [OF assms that m(1)] m(2) by (auto simp: claimable_def)
  have "filter (claimable i cid nrev db) (nodes db) = filter (\<lambda>x. node_id x = i) (nodes db)"
    by (rule filter_cong [OF HOL.refl]) (rule only)
  moreover have "length (filter (\<lambda>x. node_id x = i) (nodes db)) = 1"
    using find_distinct_filter [of node_id "nodes db" i "\<lambda>_. True"] find_key_member [of node_id "nodes db" m] assms m
    by (simp add: keys_ok_def claimable_def)
  moreover have "map (\<lambda>n. if claimable i cid nrev db n then claimed_row w expires a now n else n) (nodes db)
      = map (\<lambda>m. if node_id m = i then claimed_row w expires a now m else m) (nodes db)"
    by (rule map_cong [OF HOL.refl]) (simp add: only)
  ultimately show ?thesis
    using True unfolding S_claimNode_alt by (simp add: required_def update_nodes_def)
qed

lemma claim_submit:
  assumes "keys_ok db"
  shows "submit rt be fb (tx_seq [guarded (S_claimNode w expires a now (node_id n) cid (node_revision n))])
      (M_claimReady w expires a now n cid) db =
    (if list_ex (claimable (node_id n) cid (node_revision n) db) (nodes db)
     then (Inr (), db\<lparr>nodes := map (\<lambda>m. if node_id m = node_id n then claimed_row w expires a now m else m) (nodes db)\<rparr>)
     else (Inl (fb @ '':'' @ (case be of Legacy \<Rightarrow> ''CHECK constraint failed: changed=1'' | Native \<Rightarrow> ''campaign_node_claim_failed'')), db))"
  using assms by (cases be) (simp_all add: submit_def mutation_def guarded_def claim_required applyClaimReady_def rbind_def)

lemma claim_effect:
  assumes "keys_ok db"
  shows "snd (claim_one rt be env cid w expires (k, n) db) =
    (if list_ex (claimable (node_id n) cid (node_revision n) db) (nodes db)
     then db\<lparr>nodes := map (\<lambda>m. if node_id m = node_id n then claimed_row w expires (randomUUID env k) (nowIso env) m else m) (nodes db)\<rparr>
     else db)"
proof -
  have h: "op_in (=) (op_bind (op_read (readNode rt (node_id n))) (\<lambda>latest.
          op_bind (op_read (\<lambda>db. Inr (getCampaign cid db))) (\<lambda>c.
          case (latest, c) of
            (Some m, Some c) \<Rightarrow> if n_status m = Queued \<and> node_revision m = node_revision n \<and> c_status c = C_running
              then op_throw e else op_return []
          | _ \<Rightarrow> op_return [])))" for e :: string
    by (auto intro!: unchanged_intros split: option.splits)
  show ?thesis
    unfolding claim_one_def Let_def fst_conv snd_conv
    by (subst unchanged_catch, rule h, subst unchanged_bind, rule unchanged.op_return_in) (simp add: claim_submit [OF assms])
qed


section \<open>The claims of a scheduling round\<close>

lemma claimed_readable: "mapCampaignNodeRow rt m = Inr r \<Longrightarrow>
    mapCampaignNodeRow rt (claimed_row w expires a now m) = Inr (normalize_node (claimed_row w expires a now m))"
  by (auto simp: mapCampaignNodeRow_def claimed_row_def Let_def rbind_Inr_iff split: option.splits)

definition ready_row :: "runtime \<Rightarrow> string \<Rightarrow> db \<Rightarrow> node_row \<Rightarrow> bool" where
  "ready_row rt cid db n = (\<exists>m\<in>set (nodes db). claimable (node_id n) cid (node_revision n) db m
    \<and> mapCampaignNodeRow rt m = Inr (normalize_node m) \<and> lease_generation m = lease_generation n)"

abbreviation claim_nodes :: "string \<Rightarrow> string \<Rightarrow> int \<Rightarrow> string \<Rightarrow> int \<Rightarrow> db \<Rightarrow> db" where
  "claim_nodes i w expires a now db \<equiv>
    db\<lparr>nodes := map (\<lambda>m. if node_id m = i then claimed_row w expires a now m else m) (nodes db)\<rparr>"

lemma claimed_row_fields [simp]:
  "node_id (claimed_row w expires a now m) = node_id m" "n_campaign_id (claimed_row w expires a now m) = n_campaign_id m"
  "n_status (claimed_row w expires a now m) = Leased" "lease_owner (claimed_row w expires a now m) = Some w"
  "attempt_id (claimed_row w expires a now m) = Some a"
  "lease_generation (claimed_row w expires a now m) = lease_generation m + 1"
  "dependencies (claimed_row w expires a now m) = dependencies m"
  by (simp_all add: claimed_row_def)

lemma keys_ok_claim: "keys_ok db \<Longrightarrow> keys_ok (claim_nodes i w expires a now db)"
  using keys_ok_update(1) [of db "claimed_row w expires a now" "\<lambda>m. node_id m = i"] by simp

lemma find_key_node: "keys_ok db \<Longrightarrow> m \<in> set (nodes db) \<Longrightarrow> find_node db (node_id m) = Some m"
  using find_key_member [of node_id "nodes db" m] by (simp add: keys_ok_def find_node_def)

lemma claim_one_ready:
  assumes "keys_ok db" "ready_row rt cid db n"
  shows "\<exists>m. claim_one rt be env cid w expires (k, n) db =
      (Inr [m], claim_nodes (node_id n) w expires (randomUUID env k) (nowIso env) db)
    \<and> node_id m = node_id n \<and> n_status m = Leased \<and> lease_owner m = or_null (Some w)
    \<and> attempt_id m = or_null (Some (randomUUID env k)) \<and> lease_generation m = lease_generation n + 1"
proof -
  let ?a = "randomUUID env k" and ?now = "nowIso env"
  let ?db = "claim_nodes (node_id n) w expires ?a ?now db"
  obtain m where m: "m \<in> set (nodes db)" "claimable (node_id n) cid (node_revision n) db m"
      "mapCampaignNodeRow rt m = Inr (normalize_node m)" "lease_generation m = lease_generation n"
    using assms(2) by (auto simp: ready_row_def)
  let ?m = "claimed_row w expires ?a ?now m"
  have in': "?m \<in> set (nodes ?db)" using m(1,2) by (force simp: claimable_def)
  have "find (\<lambda>x. node_id x = node_id n \<and> lease_owner x = Some w \<and> attempt_id x = Some ?a) (nodes ?db) = Some ?m"
  proof (cases "find (\<lambda>x. node_id x = node_id n \<and> lease_owner x = Some w \<and> attempt_id x = Some ?a) (nodes ?db)")
    case None
    then have "\<not> (node_id ?m = node_id n \<and> lease_owner ?m = Some w \<and> attempt_id ?m = Some ?a)"
      using in' unfolding find_None_iff by blast
    then show ?thesis using m(2) by (simp add: claimable_def)
  next
    case (Some x)
    from find_SomeD [OF Some] m(2) have x: "x \<in> set (nodes ?db)" "node_id x = node_id ?m"
      by (auto simp: claimable_def)
    have "x = ?m" by (rule same_node [OF keys_ok_claim [OF assms(1)] x(1) in' x(2)])
    with Some show ?thesis by (simp only:)
  qed
  then have "read_claimed rt (node_id n) w ?a ?db = Inr [normalize_node ?m]"
    using claimed_readable [OF m(3)] by (simp add: read_claimed_def)
  moreover have "list_ex (claimable (node_id n) cid (node_revision n) db) (nodes db)"
    using m(1,2) by (auto simp: list_ex_iff)
  ultimately have "claim_one rt be env cid w expires (k, n) db = (Inr [normalize_node ?m], ?db)"
    unfolding claim_one_def Let_def by (simp add: op_catch_def op_bind_def op_read_def claim_submit [OF assms(1)])
  with m(2,4) show ?thesis by (simp add: claimable_def)
qed

lemma ready_row_kept:
  assumes "keys_ok db" "ready_row rt cid db n" "ready_row rt cid db x" "node_id x \<noteq> node_id n"
  shows "ready_row rt cid (claim_nodes (node_id n) w expires a now db) x"
proof -
  let ?db = "claim_nodes (node_id n) w expires a now db"
  obtain q where q: "q \<in> set (nodes db)" "claimable (node_id n) cid (node_revision n) db q"
    using assms(2) by (auto simp: ready_row_def)
  obtain m where m: "m \<in> set (nodes db)" "claimable (node_id x) cid (node_revision x) db m"
      "mapCampaignNodeRow rt m = Inr (normalize_node m)" "lease_generation m = lease_generation x"
    using assms(3) by (auto simp: ready_row_def)
  have "find_node db (node_id n) = Some q"
    using find_key_node [OF assms(1) q(1)] q(2) by (simp add: claimable_def)
  then have "d \<noteq> node_id n" if "d \<in> set (dependencies m)" for d
    using m(2) q(2) that by (auto simp: claimable_def dependencies_done_def list_all_iff node_done_def)
  moreover have "find_node ?db d = find_node db d" if "d \<noteq> node_id n" for d
    using find_map_update [of node_id "claimed_row w expires a now" d "\<lambda>m. node_id m = node_id n" "nodes db"] that
    by (auto simp: find_node_def dest: find_key_SomeD intro!: option.map_ident_strong)
  ultimately have "dependencies_done ?db m"
    using m(2) by (auto simp: claimable_def dependencies_done_def list_all_iff)
  then have "claimable (node_id x) cid (node_revision x) ?db m"
    using m(2) by (simp add: claimable_def campaign_has_status_def)
  moreover have "m \<in> set (nodes ?db)" using m(1,2) assms(4) by (force simp: claimable_def)
  ultimately show ?thesis using m(3,4) by (auto simp: ready_row_def)
qed


lemma claims_ready:
  assumes "keys_ok db" "distinct (map (node_id \<circ> snd) kns)" "\<And>k n. (k, n) \<in> set kns \<Longrightarrow> ready_row rt cid db n"
  shows "\<exists>mss db'. op_map (claim_one rt be env cid w expires) kns db = (Inr mss, db')
    \<and> list_all2 (\<lambda>ms kn. \<exists>m. ms = [m] \<and> node_id m = node_id (snd kn) \<and> n_status m = Leased
        \<and> lease_owner m = or_null (Some w) \<and> attempt_id m = or_null (Some (randomUUID env (fst kn)))
        \<and> lease_generation m = lease_generation (snd kn) + 1) mss kns"
  using assms
proof (induction kns arbitrary: db)
  case Nil
  then show ?case by (simp add: op_return_def)
next
  case (Cons kn kns)
  obtain k n where kn: "kn = (k, n)" by (cases kn)
  let ?db = "claim_nodes (node_id n) w expires (randomUUID env k) (nowIso env) db"
  have ready: "ready_row rt cid db n" using Cons.prems(3) [of k n] kn by simp
  obtain m where m: "claim_one rt be env cid w expires (k, n) db = (Inr [m], ?db)" "node_id m = node_id n"
      "n_status m = Leased" "lease_owner m = or_null (Some w)" "attempt_id m = or_null (Some (randomUUID env k))"
      "lease_generation m = lease_generation n + 1"
    using claim_one_ready [OF Cons.prems(1) ready] by blast
  have rest: "ready_row rt cid ?db x" if "(j, x) \<in> set kns" for j x
  proof (rule ready_row_kept [OF Cons.prems(1) ready])
    show "ready_row rt cid db x" using Cons.prems(3) [of j x] that by simp
    show "node_id x \<noteq> node_id n" using Cons.prems(2) that kn by (force simp: image_iff)
  qed
  have "distinct (map (node_id \<circ> snd) kns)" using Cons.prems(2) by (simp add: comp_def)
  then obtain mss db' where
    "op_map (claim_one rt be env cid w expires) kns ?db = (Inr mss, db')"
    and "list_all2 (\<lambda>ms kn. \<exists>m. ms = [m] \<and> node_id m = node_id (snd kn) \<and> n_status m = Leased
        \<and> lease_owner m = or_null (Some w) \<and> attempt_id m = or_null (Some (randomUUID env (fst kn)))
        \<and> lease_generation m = lease_generation (snd kn) + 1) mss kns"
    using Cons.IH [of ?db] keys_ok_claim [OF Cons.prems(1)] rest by blast
  with m kn show ?case by (auto simp: op_bind_def op_return_def)
qed

lemma ready_selected:
  assumes "store_ok rt db" "map_option c_status (getCampaign cid db) = Some C_running" "listNodes rt cid db = Inr ns"
    "n \<in> set ns" "node_ready ns n"
  shows "ready_row rt cid db n"
proof -
  have keys: "keys_ok db" using assms(1) by (simp add: store_ok_def)
  have rows: "ns = map normalize_node (sort_by sqlNodeOrder (campaign_nodes db cid))"
    using assms(3) unfolding listNodes_def by (rule rmap_node_rows)
  have ids: "distinct (map node_id ns)"
    using keys by (simp add: rows keys_ok_def campaign_nodes_def comp_def distinct_map_filter)
  obtain r where r: "r \<in> set (nodes db)" "n_campaign_id r = cid" "n = normalize_node r"
    using assms(4) by (auto simp: rows campaign_nodes_def)
  have readable: "mapCampaignNodeRow rt r = Inr (normalize_node r)"
  proof -
    have "list_all2 (\<lambda>x y. mapCampaignNodeRow rt x = Inr y) (sort_by sqlNodeOrder (campaign_nodes db cid)) ns"
      using assms(3) unfolding listNodes_def rmap_Inr_iff .
    then have "\<forall>x\<in>set (sort_by sqlNodeOrder (campaign_nodes db cid)). mapCampaignNodeRow rt x = Inr (normalize_node x)"
      unfolding rows by (simp add: list_all2_map2 list_all2_same)
    with r show ?thesis by (simp add: campaign_nodes_def)
  qed
  have "find_node db d = Some m \<longrightarrow> node_done (n_status m)" "find_node db d \<noteq> None" if "d \<in> set (dependencies r)" for d m
  proof -
    have "d \<in> set (dependencies n)" using that r(3) by simp
    then obtain p where "p \<in> set ns" "node_id p = d" "node_done (n_status p)"
      using node_ready_dependency [OF ids assms(5)] by blast
    then obtain q where "q \<in> set (nodes db)" "node_id q = d" "node_done (n_status q)"
      by (auto simp: rows campaign_nodes_def)
    then have "find_node db d = Some q" using find_key_node [OF keys] by blast
    with \<open>node_done (n_status q)\<close> show "find_node db d = Some m \<longrightarrow> node_done (n_status m)" "find_node db d \<noteq> None" by auto
  qed
  then have "dependencies_done db r" by (fastforce simp: dependencies_done_def list_all_iff split: option.splits)
  moreover have "n_status r = Queued" using assms(5) r(3) by (simp add: node_ready_def)
  ultimately have "claimable (node_id n) cid (node_revision n) db r"
    using r getCampaign_running [OF assms(2)] by (simp add: claimable_def)
  with r readable show ?thesis by (auto simp: ready_row_def)
qed


lemma claimReady_selected:
  assumes "store_ok rt db" "map_option c_status (getCampaign cid db) = Some C_running" "listNodes rt cid db = Inr ns"
    "\<not> list_ex (recovery_candidate os (nowIso env1)) ns"
  shows "\<exists>ms db'. claimReady rt os be env1 env cid w seconds limit db = (Inr ms, db')
    \<and> list_all2 (\<lambda>m n. node_id m = node_id n \<and> n_status m = Leased \<and> lease_owner m = or_null (Some w)
        \<and> lease_generation m = lease_generation n + 1) ms (selectReadyCampaignNodes rt ns limit)"
proof -
  let ?sel = "selectReadyCampaignNodes rt ns limit"
  let ?expires = "nowMs env + max 1 seconds * 1000"
  have keys: "keys_ok db" using assms(1) by (simp add: store_ok_def)
  have "ns = map normalize_node (sort_by sqlNodeOrder (campaign_nodes db cid))"
    using assms(3) unfolding listNodes_def by (rule rmap_node_rows)
  then have "distinct (map node_id ns)"
    using keys by (simp add: keys_ok_def campaign_nodes_def comp_def distinct_map_filter)
  then have ids: "distinct (map (node_id \<circ> snd) (enumerate 0 ?sel))"
    by (simp add: map_map [symmetric] selectReadyCampaignNodes_def take_map [symmetric] distinct_map_filter
        del: map_map)
  have ready: "ready_row rt cid db n" if "(k, n) \<in> set (enumerate 0 ?sel)" for k n
  proof -
    have "n \<in> set ?sel" using that by (auto simp: in_set_enumerate_eq)
    from selectReady_subset [OF this] show ?thesis by (blast intro: ready_selected [OF assms(1-3)])
  qed
  obtain mss db' where claims: "op_map (claim_one rt be env cid w ?expires) (enumerate 0 ?sel) db = (Inr mss, db')"
    and rel: "list_all2 (\<lambda>ms kn. \<exists>m. ms = [m] \<and> node_id m = node_id (snd kn) \<and> n_status m = Leased
        \<and> lease_owner m = or_null (Some w) \<and> attempt_id m = or_null (Some (randomUUID env (fst kn)))
        \<and> lease_generation m = lease_generation (snd kn) + 1) mss (enumerate 0 ?sel)"
    using claims_ready [OF keys ids, of rt cid be env w ?expires] ready by blast
  have none: "filter (recovery_candidate os (nowIso env1)) ns = []"
    using assms(4) by (simp add: filter_empty_conv list_ex_iff)
  have "claimReady rt os be env1 env cid w seconds limit db = (Inr (concat mss), db')"
    unfolding claimReady_def recoverExpiredLeases_def
    by (simp add: assms(2,3) none claims op_bind_def op_read_def op_return_def)
  moreover have "list_all2 (\<lambda>m n. node_id m = node_id n \<and> n_status m = Leased \<and> lease_owner m = or_null (Some w)
        \<and> lease_generation m = lease_generation n + 1) (concat mss) (map snd (enumerate 0 ?sel))"
    using rel by (induction rule: list_all2_induct) auto
  ultimately show ?thesis by simp
qed

section \<open>Properties\<close>

text \<open>
  C9. A claim takes a ready node and nothing else: the transaction either leaves the database
  as it is or turns exactly one queued node of a running campaign, all of whose dependencies
  are completed or skipped, into a leased one of the next generation; no other row changes.
\<close>

theorem claim_takes_one_ready_node:
  assumes "store_ok rt db"
  shows "snd (claim_one rt be env cid w expires (k, n) db) = db
    \<or> (\<exists>m\<in>set (nodes db). node_id m = node_id n \<and> n_campaign_id m = cid \<and> n_status m = Queued
        \<and> campaign_has_status db cid C_running \<and> dependencies_done db m
        \<and> snd (claim_one rt be env cid w expires (k, n) db) =
            db\<lparr>nodes := map (\<lambda>x. if node_id x = node_id n
              then x\<lparr>n_status := Leased, lease_owner := Some w, lease_expires_at := Some expires,
                attempt_id := Some (randomUUID env k), lease_generation := lease_generation x + 1,
                node_revision := node_revision x + 1, n_updated_at := nowIso env\<rparr>
              else x) (nodes db)\<rparr>)"
  using claim_effect [of db rt be env cid w expires k n] assms
  by (auto simp: store_ok_def list_ex_iff claimable_def claimed_row_def)

theorem claim_takes_one_ready_node_witness:
  "map n_status (nodes (snd (claim_one ex_rt Native (ex_env 10 ''u'') ''c'' ''w2'' 500 (0, ex_node ''c'' []) ex_db)))
      = [Running, Queued, Leased]
    \<and> (\<exists>m\<in>set (nodes ex_db). node_id m = ''c'' \<and> dependencies_done ex_db m)"
proof -
  have leased: "map n_status (nodes (snd (claim_one ex_rt Native (ex_env 10 ''u'') ''c'' ''w2'' 500 (0, ex_node ''c'' []) ex_db)))
      = [Running, Queued, Leased]" by code_simp
  have "map n_status (nodes ex_db) = [Running, Queued, Queued]" by code_simp
  with leased have "snd (claim_one ex_rt Native (ex_env 10 ''u'') ''c'' ''w2'' 500 (0, ex_node ''c'' []) ex_db) \<noteq> ex_db" by auto
  moreover have "node_id (ex_node ''c'' []) = ''c''" by code_simp
  ultimately show ?thesis
    using leased claim_takes_one_ready_node [OF ex_ok, of Native "ex_env 10 ''u''" "''c''" "''w2''" 500 0 "ex_node ''c'' []"]
    by auto
qed

text \<open>
  C10. The scheduler makes progress: in a running campaign with readable rows and no lease to
  recover, \<open>claimReady\<close> succeeds and returns exactly the nodes the policy selected, in that
  order, each leased to the caller with the next generation.
\<close>

theorem claimReady_claims_selection:
  assumes "store_ok rt db" "map_option c_status (getCampaign cid db) = Some C_running" "listNodes rt cid db = Inr ns"
    "\<not> list_ex (recovery_candidate os (nowIso env1)) ns" "w \<noteq> []"
  shows "\<exists>ms db'. claimReady rt os be env1 env cid w seconds limit db = (Inr ms, db')
    \<and> list_all2 (\<lambda>m n. node_id m = node_id n \<and> n_status m = Leased \<and> lease_owner m = Some w
        \<and> lease_generation m = lease_generation n + 1) ms (selectReadyCampaignNodes rt ns limit)"
  using claimReady_selected [OF assms(1-4), of be env w seconds limit] assms(5) by (simp add: or_null_def)

theorem claimReady_claims_selection_witness:
  "\<exists>ms db'. claimReady ex_rt ex_os Legacy (ex_env 5 ''u'') (ex_env 10 ''v'') ''c'' ''w2'' 60 4 ex_db = (Inr ms, db')
    \<and> map node_id ms = [''c''] \<and> map lease_owner ms = [Some ''w2'']"
proof -
  define ns where "ns = projr (listNodes ex_rt ''c'' ex_db)"
  have "\<not> isl (listNodes ex_rt ''c'' ex_db)" by code_simp
  then have ns: "listNodes ex_rt ''c'' ex_db = Inr ns" by (simp add: ns_def)
  have sel: "map node_id (selectReadyCampaignNodes ex_rt ns 4) = [''c'']" unfolding ns_def by code_simp
  have live: "\<not> list_ex (recovery_candidate ex_os (nowIso (ex_env 5 ''u''))) ns" unfolding ns_def by code_simp
  have "map_option c_status (getCampaign ''c'' ex_db) = Some C_running" by code_simp
  from claimReady_claims_selection [OF ex_ok this ns live, of "''w2''" Legacy "ex_env 10 ''v''" 60 4] sel
  show ?thesis by (auto simp: map_eq_Cons_conv list_all2_Cons2)
qed

end
