(* ===== verification/Contract_Properties.thy ===== *)
theory Contract_Properties
  imports Campaign_Example
begin

text \<open>
  Round trips of the self-certifying records: record hashes do not depend on key order, what
  the builders of external action descriptors, outcomes and infrastructure reservations
  produce is what their verifiers accept, and the process identity written into a lease
  owner is the one recovery reads back.
\<close>

section \<open>Lemmas\<close>

lemma formatSuffix_Inr:
  "formatProcessIdentitySuffix i = Inr s \<Longrightarrow>
    normalizedPid (pid i) = Some (pid i) \<and> s = ''process:'' @ nat_text (pid i) @ '':'' @
      (case pidStartTime i of Some t \<Rightarrow> if all_digits t then t else ''unknown'' | None \<Rightarrow> ''unknown'')"
  by (auto simp: formatProcessIdentitySuffix_def normalizedPid_def split: option.splits if_splits)

lemma all_digits_not_unknown: "all_digits t \<Longrightarrow> t \<noteq> ''unknown''"
  by (auto simp: all_digits_def is_digit_def less_eq_char_def)

lemma parse_formatted:
  assumes "formatProcessIdentitySuffix i = Inr s"
  shows "parseProcessIdentitySuffix (owner @ '':'' @ s) =
    Some (i\<lparr>pidStartTime := (case pidStartTime i of Some t \<Rightarrow> if all_digits t then Some t else None | None \<Rightarrow> None)\<rparr>)"
proof -
  let ?t = "case pidStartTime i of Some t \<Rightarrow> if all_digits t then t else ''unknown'' | None \<Rightarrow> ''unknown''"
  have p: "normalizedPid (pid i) = Some (pid i)" and s: "s = ''process:'' @ nat_text (pid i) @ '':'' @ ?t"
    using formatSuffix_Inr [OF assms] by simp_all
  have "all_digits ?t \<or> ?t = ''unknown''" by (simp split: option.split)
  from parse_suffix [OF _ this, of "nat_text (pid i)" owner]
  have "parseProcessIdentitySuffix (owner @ '':'' @ s) =
      Some \<lparr>pid = pid i, pidStartTime = (if ?t = ''unknown'' then None else Some ?t)\<rparr>"
    using p by (simp add: s nat_text_digits)
  then show ?thesis
    using all_digits_not_unknown by (cases i) (auto split: option.splits)
qed

lemma stale_formatted:
  assumes "formatProcessIdentitySuffix i = Inr s" "pidStartTime i = Some t" "all_digits t"
  shows "owner_is_stale os (owner @ '':'' @ s) = processIdentityIsStale os i"
  using parse_formatted [OF assms(1), of owner] assms(2,3) by (cases i) (simp add: owner_is_stale_def)

lemma assertDescriptor_sealed:
  assumes "assertCampaignExternalActionDescriptor rt v expected = Inr d"
  shows "\<exists>identity. d = JObj (identity @ [(''externalActionId'',
      JStr (hashRecord rt ''CampaignNodeExternalActionIdentity'' (JObj identity)))])"
  using assms by (auto simp: assertCampaignExternalActionDescriptor_def Let_def split: option.splits if_splits)

lemma assertOutcome_sealed:
  "assertCampaignExternalActionOutcome rt p h = Inr out \<Longrightarrow>
    h = Some (JStr (snd out)) \<and> buildCampaignExternalActionOutcome rt p = Inr out"
  by (auto simp: assertCampaignExternalActionOutcome_def rbind_Inr_iff split: if_splits)

section \<open>Properties\<close>

text \<open>
  C35. A record hash depends on the value and not on how its objects are listed: values that
  differ only in the order of object keys, at any depth, have the same canonical text and the
  same hash, when the collation is a total preorder that separates the keys in use.
\<close>

theorem record_hash_ignores_key_order:
  assumes "key_collation (localeCompare rt) key" "json_equiv v w" "\<forall>k\<in>set (json_keys v). key k"
  shows "stableStringify rt v = stableStringify rt w \<and> hashRecord rt kind v = hashRecord rt kind w"
  using stable_equiv [OF assms] hashRecord_equiv [OF assms] by (simp add: stableStringify_def)

theorem record_hash_ignores_key_order_witness:
  "stableStringify ex_rt (JObj [(''b'', JInt 1), (''a'', JArr [JStr ''x''])])
      = stableStringify ex_rt (JObj [(''a'', JArr [JStr ''x'']), (''b'', JInt 1)])"
proof -
  have "key_collation (localeCompare ex_rt) (\<lambda>_. True)"
    by (simp add: ex_rt_def code_unit_keys.key_collation_axioms)
  moreover have "json_equiv (JObj [(''b'', JInt 1), (''a'', JArr [JStr ''x''])]) (JObj [(''a'', JArr [JStr ''x'']), (''b'', JInt 1)])"
    by (rule json_equiv.obj [where fs = "[(''b'', JInt 1), (''a'', JArr [JStr ''x''])]"]) (auto intro: json_equiv.refl)
  ultimately show ?thesis using record_hash_ignores_key_order by blast
qed

text \<open>
  C36. External action descriptors round trip: a descriptor the builder returns for a node of
  its campaign is accepted unchanged by the verifier under that campaign and node, and every
  descriptor the verifier accepts carries the hash of its own identity fields.
\<close>

theorem descriptor_round_trip:
  assumes "sha256_runtime rt"
    "buildCampaignExternalActionDescriptor rt (Some c) n (action_request action dg) ordinal resolver = Inr d"
  shows "assertCampaignExternalActionDescriptor rt (Some d)
      [(''campaignId'', JStr (campaign_id c)), (''nodeId'', JStr (node_id n))] = Inr d
    \<and> (\<exists>identity. d = JObj (identity @ [(''externalActionId'',
        JStr (hashRecord rt ''CampaignNodeExternalActionIdentity'' (JObj identity)))]))"
  using buildDescriptor_accepted [OF assms] assertDescriptor_sealed by blast

theorem descriptor_round_trip_witness:
  "\<exists>d. buildCampaignExternalActionDescriptor ex_rt (Some ex_campaign) ex_running (action_request ''llm'' None) 1 ''r'' = Inr d
    \<and> assertCampaignExternalActionDescriptor ex_rt (Some d) [(''campaignId'', JStr ''c''), (''nodeId'', JStr ''a'')] = Inr d"
proof -
  let ?d = "buildCampaignExternalActionDescriptor ex_rt (Some ex_campaign) ex_running (action_request ''llm'' None) 1 ''r''"
  have "\<not> isl ?d" by code_simp
  then obtain d where d: "?d = Inr d" by (cases ?d) auto
  have "is_sha256 (''sha256:'' @ replicate 64 (CHR ''a''))" by code_simp
  then have "sha256_runtime ex_rt" by (simp add: sha256_runtime_def ex_rt_def)
  moreover have "campaign_id ex_campaign = ''c''" "node_id ex_running = ''a''" by code_simp+
  ultimately show ?thesis using descriptor_round_trip [OF _ d] d by auto
qed

text \<open>
  C37. Infrastructure reservations round trip: the record the builder returns is accepted by
  the verifier under the identity it was built for and yields the same reservation, with the
  same usage; no other attempt or generation can use it.
\<close>

theorem reservation_round_trip:
  assumes "buildNativeStoreNodeInfrastructureReservation rt (Some (JStr i)) (Some (JStr cid))
      (Some (JStr nid)) (Some (JStr att)) (Some (JInt gen)) d = Inr r"
  shows "assertNativeStoreNodeInfrastructureReservation rt (Some (reservation_json r)) cid nid att gen = Inr r
    \<and> (att' \<noteq> [] \<and> att' \<noteq> att \<or> gen' \<noteq> gen \<longrightarrow>
      isl (assertNativeStoreNodeInfrastructureReservation rt (Some (reservation_json r)) cid nid att' gen'))"
proof
  show own: "assertNativeStoreNodeInfrastructureReservation rt (Some (reservation_json r)) cid nid att gen = Inr r"
    by (rule assertReservation_built [OF assms])
  have ids: "rv_attempt r = att" "rv_generation r = gen" using buildReservation_Inr [OF assms] by auto
  show "att' \<noteq> [] \<and> att' \<noteq> att \<or> gen' \<noteq> gen \<longrightarrow>
      isl (assertNativeStoreNodeInfrastructureReservation rt (Some (reservation_json r)) cid nid att' gen')"
    using own ids by (auto simp: assertNativeStoreNodeInfrastructureReservation_def Let_def rbind_def
      split: sum.splits if_splits)
qed

theorem reservation_round_trip_witness:
  "\<exists>r. buildNativeStoreNodeInfrastructureReservation ex_rt (Some (JStr ''i'')) (Some (JStr ''c'')) (Some (JStr ''a''))
        (Some (JStr ''t1'')) (Some (JInt 1)) (usage_delta_json ex_usage) = Inr r
    \<and> assertNativeStoreNodeInfrastructureReservation ex_rt (Some (reservation_json r)) ''c'' ''a'' ''t1'' 1 = Inr r
    \<and> isl (assertNativeStoreNodeInfrastructureReservation ex_rt (Some (reservation_json r)) ''c'' ''a'' ''t2'' 1)"
proof -
  let ?r = "buildNativeStoreNodeInfrastructureReservation ex_rt (Some (JStr ''i'')) (Some (JStr ''c'')) (Some (JStr ''a''))
    (Some (JStr ''t1'')) (Some (JInt 1)) (usage_delta_json ex_usage)"
  have "\<not> isl ?r" by code_simp
  then obtain r where r: "?r = Inr r" by (cases ?r) auto
  then show ?thesis using reservation_round_trip [OF r, of "''t2''" 1] by auto
qed

text \<open>
  C38. Recovery judges a worker by the process that wrote the lease: the identity suffix of a
  lease owner parses back to the identity it was formatted from, whatever the owner's prefix,
  and with a readable start time an owner is stale exactly when its own process is.
\<close>

theorem process_identity_round_trip:
  assumes "formatProcessIdentitySuffix i = Inr s" "pidStartTime i = Some t" "all_digits t"
  shows "parseProcessIdentitySuffix (owner @ '':'' @ s) = Some i
    \<and> owner_is_stale os (owner @ '':'' @ s) = processIdentityIsStale os i"
  using parse_formatted [OF assms(1), of owner] stale_formatted [OF assms] assms(2,3) by (cases i) simp

theorem process_identity_round_trip_witness:
  "parseProcessIdentitySuffix (''host:7'' @ '':'' @ ''process:42:1700'') = Some \<lparr>pid = 42, pidStartTime = Some ''1700''\<rparr>
    \<and> owner_is_stale ex_os (''host:7'' @ '':'' @ ''process:42:1700'')"
proof -
  let ?i = "\<lparr>pid = 42, pidStartTime = Some ''1700''\<rparr>"
  have digits: "all_digits ''1700''" by code_simp
  have "digit_char 4 = CHR ''4''" "digit_char 2 = CHR ''2''" by code_simp+
  then have "nat_text 42 = ''42''" by (simp add: nat_text.simps)
  with digits have fmt: "formatProcessIdentitySuffix ?i = Inr ''process:42:1700''"
    by (simp add: formatProcessIdentitySuffix_def normalizedPid_def)
  have stale: "processIdentityIsStale ex_os ?i"
    by (simp add: processIdentityIsStale_def observeProcessIdentity_def normalizedPid_def ex_os_def)
  show ?thesis using process_identity_round_trip [OF fmt _ digits, of "''host:7''" ex_os] stale by simp
qed

end
