(* ===== verification/Policy_Properties.thy ===== *)
theory Policy_Properties
  imports Campaign_Example
begin

text \<open>
  The state policy of \<open>campaign-state-policy.mjs\<close>: the projection statement of the SQL plan
  against the policy's projection (one status and review round, one phase only under an ordering
  of the node ids), the ready selection is the prefix of the order the policy
  defines, and the cancellation cascade is the root with its
  dependency cone.
\<close>

section \<open>Lemmas\<close>

lemma insert_by_agree:
  assumes "\<forall>y\<in>set ys. (c1 x y \<le> 0) = (c2 x y \<le> (0::int))"
  shows "insert_by c1 x ys = insert_by c2 x ys"
  using assms by (induction ys) auto

lemma sort_by_agree:
  assumes "\<forall>x\<in>set xs. \<forall>y\<in>set xs. (c1 x y \<le> 0) = (c2 x y \<le> (0::int))"
  shows "sort_by c1 xs = sort_by c2 xs"
  using assms
proof (induction xs)
  case Nil
  then show ?case by simp
next
  case (Cons x xs)
  then have "sort_by c1 xs = sort_by c2 xs" by simp
  moreover have "insert_by c1 x (sort_by c2 xs) = insert_by c2 x (sort_by c2 xs)"
    using Cons.prems by (intro insert_by_agree) simp
  ultimately show ?case by simp
qed

lemma max_list_Max: "xs \<noteq> [] \<Longrightarrow> max_list xs = Max (set xs)"
proof -
  have "foldr max ys a = Max (insert a (set ys))" for ys and a :: int
    by (induction ys) (auto simp: insert_commute)
  then show "xs \<noteq> [] \<Longrightarrow> max_list xs = Max (set xs)" by (cases xs) (auto simp: max_list_def)
qed

lemma max_list_cong: "set xs = set ys \<Longrightarrow> max_list xs = max_list ys"
  by (metis max_list_Max set_empty)

definition orders_agree :: "runtime \<Rightarrow> node_row list \<Rightarrow> bool" where
  "orders_agree rt ns = list_all (\<lambda>x. priority x \<noteq> 0 \<and> n_kind x \<noteq> [] \<and>
    list_all (\<lambda>y. (localeCompare rt (node_id x) (node_id y) \<le> 0) = (node_id x \<le> node_id y)) ns) ns"

lemma orders_agree_sort: "orders_agree rt ns \<Longrightarrow> sort_by (nodeOrder rt) ns = sort_by sqlNodeOrder ns"
  by (rule sort_by_agree)
    (auto simp: orders_agree_def list_all_iff nodeOrder_def sqlNodeOrder_def codeUnitCompare_le)

lemma first_kind_agree:
  assumes "orders_agree rt (campaign_nodes db cid)"
  shows "or_kind (map_option n_kind (find (\<lambda>n. P (n_status n)) (sort_by (nodeOrder rt) (campaign_nodes db cid)))) d
    = coalesce (sql_first_kind db cid P) d"
proof -
  have "n_kind n \<noteq> []" if "find (\<lambda>n. P (n_status n)) (sort_by sqlNodeOrder (campaign_nodes db cid)) = Some n" for n
  proof -
    have "n \<in> set (campaign_nodes db cid)" using find_SomeD [OF that] by simp
    then show ?thesis using assms by (auto simp: orders_agree_def list_all_iff)
  qed
  then show ?thesis
    by (auto simp: orders_agree_sort [OF assms] sql_first_kind_def or_kind_def coalesce_def split: option.splits)
qed

lemma project_effect:
  assumes "projectCampaign cid now db = Inr (k, db')" "c \<in> set (campaigns db)" "campaign_id c = cid" "c_status c = C_running"
  shows "\<exists>c'\<in>set (campaigns db'). campaign_id c' = cid \<and> c_status c' = sql_status db cid
    \<and> current_phase c' = sql_phase db cid \<and> current_review_round c' = sql_current_round db cid"
proof -
  obtain f where f: "campaigns db' = map (\<lambda>c. if campaign_id c = cid \<and> c_status c = C_running then f c else c) (campaigns db)"
    and row: "\<And>c. campaign_id (f c) = campaign_id c \<and> c_status (f c) = sql_status db cid
      \<and> current_phase (f c) = sql_phase db cid \<and> current_review_round (f c) = sql_current_round db cid"
    using assms(1) by (fastforce simp: projectCampaign_def update_campaigns_def Let_def)
  have "f c \<in> set (campaigns db')" using assms(2-4) by (force simp: f)
  then show ?thesis using row [of c] assms(3) by blast
qed

section \<open>Two orders of the node ids\<close>

text \<open>
  The policy orders the ids with \<open>localeCompare\<close>, the statement with the binary collation of
  SQLite. In the root collation of ICU punctuation comes before the digits, in ASCII the colon comes
  after them, so the ids of the rounds 1 and 10 of a campaign are ordered differently. The
  comparator below is the code-unit order with the colon moved before the digits.
\<close>

definition colon_first :: "string \<Rightarrow> string" where
  "colon_first = map (\<lambda>k. if k = CHR '':'' then CHR ''!'' else if k = CHR ''!'' then CHR '':'' else k)"

definition ex_collating :: runtime where
  "ex_collating = ex_rt\<lparr>localeCompare := \<lambda>x y. codeUnitCompare (colon_first x) (colon_first y)\<rparr>"

lemma ex_collating_order: "js_comparator (localeCompare ex_collating)"
  by unfold_locales (auto simp: ex_collating_def intro: code_unit.cmp_total code_unit.cmp_trans)

text \<open>Two queued referees of the rounds 1 and 10 of a campaign.\<close>

definition ex_rounds :: db where
  "ex_rounds = ex_db\<lparr>nodes := [
    fresh_node ''c:1:referee-2'' ''c'' ''referee-2'' 1 60 [] (JObj []) 3 0 None,
    fresh_node ''c:10:referee-1'' ''c'' ''referee-1'' 10 60 [] (JObj []) 3 0 None]\<rparr>"

definition phases_differ :: "runtime \<Rightarrow> string \<Rightarrow> db \<Rightarrow> bool" where
  "phases_differ rt cid db = (sql_phase db cid = ''referee-1''
    \<and> pr_phase (deriveCampaignOperationalProjection rt (campaign_nodes db cid)) = ''referee-2'')"

section \<open>Properties\<close>

text \<open>
  C32. The projection the store computes in SQL against the projection of the state policy: the
  statement gives a running campaign the status and the review round the policy derives from its
  nodes, always. It gives the policy's phase where the collation orders the node ids by code unit
  and every node has a kind and a priority other than 0. Under a collation that puts the colon
  before the digits the two phases do differ, on two queued referees of the rounds 1 and 10.
\<close>

theorem projection_matches_policy:
  assumes "projectCampaign cid now db = Inr (k, db')" "c \<in> set (campaigns db)" "campaign_id c = cid" "c_status c = C_running"
  shows "(\<exists>c'\<in>set (campaigns db'). campaign_id c' = cid
      \<and> c_status c' = pr_status (deriveCampaignOperationalProjection rt (campaign_nodes db cid))
      \<and> current_review_round c' = pr_review_round (deriveCampaignOperationalProjection rt (campaign_nodes db cid))
      \<and> (orders_agree rt (campaign_nodes db cid) \<longrightarrow>
          current_phase c' = pr_phase (deriveCampaignOperationalProjection rt (campaign_nodes db cid))))
    \<and> js_comparator (localeCompare ex_collating) \<and> phases_differ ex_collating ''c'' ex_rounds"
proof -
  let ?p = "deriveCampaignOperationalProjection rt (campaign_nodes db cid)"
  have fail: "list_ex (\<lambda>n. n_status n = Failed_terminal) (sort_by (nodeOrder rt) (campaign_nodes db cid)) = sql_terminal_failure db cid"
    by (simp add: sql_terminal_failure_def list_ex_iff)
  have all_done: "(sort_by (nodeOrder rt) (campaign_nodes db cid) \<noteq> []
      \<and> list_all (\<lambda>n. node_done (n_status n)) (sort_by (nodeOrder rt) (campaign_nodes db cid))) = sql_complete db cid"
    by (auto simp: sql_complete_def list_ex_iff list_all_iff node_done_def)
  have "sql_status db cid = pr_status ?p"
    using fail all_done by (simp add: sql_status_def deriveCampaignOperationalProjection_def Let_def)
  moreover have "sql_current_round db cid = pr_review_round ?p"
    by (simp add: sql_current_round_def deriveCampaignOperationalProjection_def Let_def)
      (rule max_list_cong, simp)
  moreover have "orders_agree rt (campaign_nodes db cid) \<longrightarrow> sql_phase db cid = pr_phase ?p"
    using fail all_done first_kind_agree [of rt db cid "\<lambda>s. s \<in> {Running, Leased}"]
      first_kind_agree [of rt db cid "\<lambda>s. s \<notin> {Completed, Skipped, Failed_terminal}"]
    by (simp add: sql_phase_def deriveCampaignOperationalProjection_def Let_def)
  moreover have "phases_differ ex_collating ''c'' ex_rounds" by code_simp
  ultimately show ?thesis using project_effect [OF assms] ex_collating_order by auto
qed

theorem projection_matches_policy_witness:
  "\<exists>k db'. projectCampaign ''c'' 20 ex_db = Inr (k, db') \<and> (\<exists>c'\<in>set (campaigns db'). campaign_id c' = ''c''
    \<and> current_phase c' = pr_phase (deriveCampaignOperationalProjection ex_rt (campaign_nodes ex_db ''c'')))"
proof -
  obtain k db' where run: "projectCampaign ''c'' 20 ex_db = Inr (k, db')"
    by (simp add: projectCampaign_def update_campaigns_def)
  have agree: "orders_agree ex_rt (campaign_nodes ex_db ''c'')" by code_simp
  have c: "ex_campaign \<in> set (campaigns ex_db)" "campaign_id ex_campaign = ''c''" "c_status ex_campaign = C_running"
    by (simp_all add: ex_db_def ex_campaign_def)
  show ?thesis using projection_matches_policy [OF run c, of ex_rt] agree run by blast
qed

text \<open>
  C33. The ready selection is correct and fair to the policy's order: every selected node is
  queued with all dependencies done, there are as many as the limit and the ready nodes
  allow, and no ready node left out comes strictly before a selected one.
\<close>

theorem ready_selection_is_ordered_prefix:
  assumes "js_comparator (localeCompare rt)"
  shows "(\<forall>n\<in>set (selectReadyCampaignNodes rt ns limit). n \<in> set ns \<and> node_ready ns n
        \<and> (\<forall>m\<in>set ns. node_ready ns m \<and> m \<notin> set (selectReadyCampaignNodes rt ns limit) \<longrightarrow> nodeOrder rt n m \<le> 0))
    \<and> length (selectReadyCampaignNodes rt ns limit) = min (nat (max 1 (or_num limit 1))) (length (filter (node_ready ns) ns))"
proof -
  let ?k = "nat (max 1 (or_num limit 1))" and ?r = "sort_by (nodeOrder rt) (filter (node_ready ns) ns)"
  have sel: "selectReadyCampaignNodes rt ns limit = take ?k ?r" by (simp add: selectReadyCampaignNodes_def)
  have "nodeOrder rt n m \<le> 0" if "n \<in> set (take ?k ?r)" "m \<in> set ns" "node_ready ns m" "m \<notin> set (take ?k ?r)" for n m
  proof -
    have "m \<in> set (take ?k ?r @ drop ?k ?r)" using that by simp
    then have "m \<in> set (drop ?k ?r)" using that(4) by (simp only: set_append Un_iff) blast
    with that(1) show ?thesis
      by (rule js_comparator.take_sort_by_minimal [OF nodeOrder_comparator [OF assms]])
  qed
  moreover have "n \<in> set ns \<and> node_ready ns n" if "n \<in> set (take ?k ?r)" for n
    using in_set_takeD [OF that] by simp
  moreover have "length (take ?k ?r) = min ?k (length (filter (node_ready ns) ns))" by simp
  ultimately show ?thesis unfolding sel by blast
qed

theorem ready_selection_is_ordered_prefix_witness:
  "\<exists>n\<in>set (selectReadyCampaignNodes ex_rt (nodes ex_db) 4). node_ready (nodes ex_db) n \<and> node_id n = ''c''"
proof -
  have "js_comparator (localeCompare ex_rt)" by (simp add: ex_rt_def code_unit.js_comparator_axioms)
  moreover have "map node_id (selectReadyCampaignNodes ex_rt (nodes ex_db) 4) = [''c'']" by code_simp
  ultimately show ?thesis using ready_selection_is_ordered_prefix [of ex_rt "nodes ex_db" 4] by auto
qed

text \<open>
  C34. The cancellation cascade from a root (a non-empty id) returns for every node graph, cyclic
  ones included, and the ids it returns are, in order and without repetition, exactly the root and
  all nodes that depend on it through a chain of dependencies, whatever their status.
\<close>

theorem cancellation_cascade_is_cone:
  assumes "origin \<noteq> []"
  shows "\<exists>ids. cascadeCancelledNodeIds ns origin = Inr ids \<and> sorted ids \<and> distinct ids
    \<and> set ids = {i. cascaded ns origin i}"
proof -
  obtain ids where "cascadeCancelledNodeIds ns origin = Inr ids" using assms by (simp add: cascadeCancelledNodeIds_def)
  with cascadeCancelled_iff [OF this] show ?thesis by auto
qed

theorem cancellation_cascade_is_cone_witness:
  "\<exists>ids. cascadeCancelledNodeIds (nodes ex_db) ''a'' = Inr ids \<and> ids = [''a'', ''b'']
    \<and> set ids = {i. cascaded (nodes ex_db) ''a'' i}"
proof -
  have "cascadeCancelledNodeIds (nodes ex_db) ''a'' = Inr [''a'', ''b'']" by code_simp
  then show ?thesis using cancellation_cascade_is_cone [of "''a''" "nodes ex_db"] by auto
qed

end
