(* ===== verification/Backend_Properties.thy ===== *)
theory Backend_Properties
  imports Campaign_Example
begin

text \<open>
  The two backends of the mutation boundary. The legacy backend runs the statement list an
  operation builds, the native one the mutation it submits; both are checked row counts over
  the same statements. Two outcomes agree when they leave the same database and return the
  same value, or both fail: the error texts of the backends differ.
\<close>

section \<open>Agreement\<close>

definition agree :: "'a result \<Rightarrow> 'a result \<Rightarrow> bool" where
  "agree r s = (r = s \<or> isl r \<and> isl s)"

definition same_outcome :: "'a op \<Rightarrow> 'a op \<Rightarrow> db \<Rightarrow> bool" where
  "same_outcome m n db = (agree (fst (m db)) (fst (n db)) \<and> snd (m db) = snd (n db))"

definition tx_agree :: "tx \<Rightarrow> tx \<Rightarrow> bool" where
  "tx_agree t u = (\<forall>db. agree (t db) (u db))"

named_theorems agreement \<open>rules that reduce agreement of operations to agreement of transactions\<close>

lemma agree_refl [simp, intro]: "agree r r"
  by (simp add: agree_def)

lemma agree_rbind: "agree r s \<Longrightarrow> (\<And>x. r = Inr x \<Longrightarrow> agree (f x) (g x)) \<Longrightarrow> agree (rbind r f) (rbind s g)"
  by (cases r; cases s) (auto simp: agree_def)

lemma agree_sym: "agree r s \<Longrightarrow> agree s r"
  by (auto simp: agree_def)

lemma tx_agree_seq: "list_all2 tx_agree ts us \<Longrightarrow> tx_agree (tx_seq ts) (tx_seq us)"
  by (induction rule: list_all2_induct) (auto simp: tx_agree_def intro!: agree_rbind)

lemma tx_agree_append:
  "tx_agree (tx_seq xs) (tx_seq us) \<Longrightarrow> tx_agree (tx_seq ys) (tx_seq vs) \<Longrightarrow> tx_agree (tx_seq (xs @ ys)) (tx_seq (us @ vs))"
  unfolding tx_seq_append by (auto simp: tx_agree_def intro!: agree_rbind)

lemma tx_agree_required: "tx_agree (required c st) (required c' st)" "tx_agree (guarded st) (required c st)"
  by (auto simp: tx_agree_def required_def guarded_def agree_def rbind_def split: sum.splits)

lemma inserts_change_one:
  "insert_event e db = Inr (k, db') \<Longrightarrow> k = 1" "insert_node n db = Inr (k, db') \<Longrightarrow> k = 1"
  by (auto simp: insert_event_def insert_node_def split: if_splits)

lemma tx_agree_inserts: "tx_agree (run (insert_event e)) (insertNativeStoreCampaignEvent e)"
  "tx_agree (run (insert_node n)) (required c (insert_node n))"
  by (auto simp: tx_agree_def run_def required_def insertNativeStoreCampaignEvent_def agree_def rbind_def
      split: sum.splits dest: inserts_change_one)

lemma tx_agree_simps [simp]:
  "tx_agree t t" "tx_agree (run (projectCampaign cid now)) (projectNativeStoreCampaign cid now)"
  by (auto simp: tx_agree_def projectNativeStoreCampaign_def)

lemma tx_seq_single [simp]: "tx_seq [t] = t"
  by (rule ext) (simp add: rbind_def split: sum.splits)

lemmas tx_agreements = tx_agree_seq tx_agree_required tx_agree_inserts tx_agree_simps(1,2)

lemma agree_return [agreement]: "same_outcome m m db"
  by (simp add: same_outcome_def)

lemma agree_bind:
  assumes "same_outcome m n db" "\<And>x. fst (m db) = Inr x \<Longrightarrow> same_outcome (k x) (l x) (snd (m db))"
  shows "same_outcome (op_bind m k) (op_bind n l) db"
proof -
  obtain r d where m: "m db = (r, d)" by fastforce
  moreover obtain s where "n db = (s, d)" "agree r s"
    using assms(1) m by (cases "n db") (simp add: same_outcome_def)
  ultimately show ?thesis
    using assms(2) by (cases r; cases s) (auto simp: same_outcome_def op_bind_def agree_def)
qed

lemma agree_then [agreement]: "same_outcome m n db \<Longrightarrow> same_outcome (op_bind m k) (op_bind n k) db"
  by (rule agree_bind) (auto intro: agree_return)

lemma agree_catch [agreement]:
  assumes "same_outcome m n db" "\<And>e e'. same_outcome (h e) (h' e') (snd (m db))"
  shows "same_outcome (op_catch m h) (op_catch n h') db"
proof -
  obtain r d where m: "m db = (r, d)" by fastforce
  moreover obtain s where "n db = (s, d)" "agree r s"
    using assms(1) m by (cases "n db") (simp add: same_outcome_def)
  ultimately show ?thesis
    using assms(2) by (cases r; cases s) (auto simp: same_outcome_def op_catch_def agree_def)
qed

lemma agree_read [agreement]:
  "(\<And>x. q db = Inr x \<Longrightarrow> same_outcome (k x) (l x) db) \<Longrightarrow> same_outcome (op_bind (op_read q) k) (op_bind (op_read q) l) db"
  by (auto simp: same_outcome_def op_bind_def op_read_def agree_def split: sum.splits)

lemma agree_throw [agreement]: "same_outcome (op_throw e) (op_throw e') db"
  by (simp add: same_outcome_def op_throw_def agree_def)

lemma agree_submit_at:
  "agree (t db) (applyNativeStoreCampaignMutation rt m db) \<Longrightarrow> same_outcome (submit rt Legacy c t m) (submit rt Native c t m) db"
  by (auto simp: same_outcome_def submit_def mutation_def agree_def split: sum.splits)

lemma agree_submit [agreement]:
  "tx_agree t (applyNativeStoreCampaignMutation rt m) \<Longrightarrow> same_outcome (submit rt Legacy c t m) (submit rt Native c t m) db"
  by (simp add: agree_submit_at tx_agree_def)

lemma agree_if [agreement]:
  "(b \<Longrightarrow> same_outcome m m' db) \<Longrightarrow> (\<not> b \<Longrightarrow> same_outcome n n' db)
    \<Longrightarrow> same_outcome (if b then m else n) (if b then m' else n') db"
  by simp

lemma agree_option [agreement]:
  "same_outcome m m' db \<Longrightarrow> (\<And>x. y = Some x \<Longrightarrow> same_outcome (k x) (l x) db)
    \<Longrightarrow> same_outcome (case y of None \<Rightarrow> m | Some x \<Rightarrow> k x) (case y of None \<Rightarrow> m' | Some x \<Rightarrow> l x) db"
  by (cases y) simp_all

lemma agree_pair [agreement]:
  "(\<And>x y. p = (x, y) \<Longrightarrow> same_outcome (k x y) (l x y) db)
    \<Longrightarrow> same_outcome (case p of (x, y) \<Rightarrow> k x y) (case p of (x, y) \<Rightarrow> l x y) db"
  by (cases p) simp

lemma agree_with_campaign [agreement]:
  "(\<And>c. getCampaign cid db = Some c \<Longrightarrow> same_outcome (k c) (l c) db) \<Longrightarrow> same_outcome (with_campaign cid k) (with_campaign cid l) db"
  by (auto simp: same_outcome_def with_campaign_def split: option.splits)

lemma agree_when [agreement]:
  "same_outcome k l db \<Longrightarrow> same_outcome (when_applicable c cmd k) (when_applicable c cmd l) db"
  by (auto simp: when_applicable_def intro: agreement split: sum.splits)

section \<open>Worker operations\<close>

lemma agree_worker_txs:
  "tx_agree (guarded (S_renewLease expires now f)) (applyRenewNodeLease expires now f)"
  "tx_agree (guarded (S_claimNode w expires att now (node_id n) cid (node_revision n))) (applyClaimReady w expires att now n cid)"
  "tx_agree (start_statements n now f delta ev) (applyStartNode n now f delta ev)"
  "tx_agree (tx_seq [guarded (S_reserveInfrastructureNode f now),
      guarded (S_reserveInfrastructureUsage (nativeStoreCampaignUsageParameters (refund_delta u)) now (n_campaign_id n)),
      run (insert_event ev)]) (applyReserveNodeInfrastructureUsage n f now u ev)"
  "tx_agree (tx_seq [guarded (S_prepareNode res h f now req (or_null key)), run (insert_event ev)])
    (applyPrepareNodeResult res h f now req key ev)"
  "tx_agree (tx_seq [guarded (S_beginIntegrationNode now expires f ikey), run (insert_event ev)])
    (applyBeginNodeResultIntegration now expires f ikey ev)"
  "tx_agree (tx_seq [guarded (S_markIntegratedNode rcpt h now f ikey), run (insert_event ev)])
    (applyMarkNodeResultIntegrated rcpt h now f ikey ev)"
  "tx_agree (guarded (if integrated then S_assertIntegratedAttempt f now ikey h else S_assertIntegratingAttempt f now ikey))
    (applyAssertLiveNodeAttempt f now integrated ikey h)"
  unfolding applyRenewNodeLease_def applyClaimReady_def start_statements_def applyStartNode_def
    applyReserveNodeInfrastructureUsage_def applyPrepareNodeResult_def applyBeginNodeResultIntegration_def
    applyMarkNodeResultIntegrated_def applyAssertLiveNodeAttempt_def
  by (intro tx_agreements list_all2_Cons[THEN iffD2] list.rel_intros conjI)+

lemma agree_worker_ops:
  "same_outcome (renewNodeLease rt Legacy env f seconds) (renewNodeLease rt Native env f seconds) db"
  "same_outcome (claim_one rt Legacy env cid w expires kn) (claim_one rt Native env cid w expires kn) db"
  "same_outcome (startNode rt Legacy env f delta) (startNode rt Native env f delta) db"
  "same_outcome (reserveNodeInfrastructureUsage rt Legacy env f delta) (reserveNodeInfrastructureUsage rt Native env f delta) db"
  "same_outcome (prepareNodeResult rt Legacy env f res req key) (prepareNodeResult rt Native env f res req key) db"
  "same_outcome (assertLiveNodeAttempt rt Legacy f now integrated ikey h) (assertLiveNodeAttempt rt Native f now integrated ikey h) db"
  unfolding renewNodeLease_def claim_one_def startNode_def reserveNodeInfrastructureUsage_def prepareNodeResult_def
    assertLiveNodeAttempt_def Let_def tx_seq_single
  by (intro agreement; simp add: agree_worker_txs agree_return)+

lemma agree_integration_ops:
  "same_outcome (beginNodeResultIntegration rt Legacy env f ikey seconds) (beginNodeResultIntegration rt Native env f ikey seconds) db"
  "same_outcome (markNodeResultIntegrated rt Legacy env f ikey receipt) (markNodeResultIntegrated rt Native env f ikey receipt) db"
  unfolding beginNodeResultIntegration_def markNodeResultIntegrated_def Let_def
  by (intro agreement agree_worker_ops; simp add: agree_worker_txs agree_return)+

section \<open>Lifecycle operations\<close>

lemma agree_campaign_txs:
  "campaign_id c = cid \<Longrightarrow> tx_agree (tx_seq [guarded (S_pauseCampaign reason now cid (revision c)),
      run (S_pauseCampaignNodes now cid), run (insert_event ev)]) (applyPauseCampaign reason now c ev)"
  "tx_agree (settle_statements settled nst reason now c ev) (applySettleCampaign settled nst code reason now c ev)"
  "tx_agree (retry_statements n c siblings now ev) (applyRetryNode n c siblings now ev)"
  unfolding applyPauseCampaign_def settle_statements_def applySettleCampaign_def retry_statements_def applyRetryNode_def
  by (hypsubst?, intro tx_agreements list_all2_appendI list_all2_Cons [THEN iffD2] list.rel_intros conjI
      list.rel_map(1) [THEN iffD2] list.rel_map(2) [THEN iffD2] list.rel_refl_strong)+

lemma agree_extend_tx:
  "tx_agree (tx_seq ([run (S_extendSupersedePackage now (spec_string ''campaignId'' spec))]
        @ map (\<lambda>item. run (extendNodeStatement (spec_string ''campaignId'' spec) now item)) additions
        @ [guarded (S_extendCampaign (spec_int ''maxRounds'' 0 spec) spec now (spec_string ''campaignId'' spec) (c_status c) (revision c)),
           run (insert_event ev)])) (applyExtendCampaign spec additions c now ev)"
  unfolding applyExtendCampaign_def Let_def extendNodeStatement_def S_extendCampaignNode_def
  by (intro tx_agreements list_all2_appendI list_all2_Cons [THEN iffD2] list.rel_intros conjI
      list.rel_map(1) [THEN iffD2] list.rel_map(2) [THEN iffD2] list.rel_refl_strong)

lemma reopen_has_reason:
  assumes "evolveCampaignForResume rt v c overrides = Inr evo" "ev_reopen evo"
  shows "stop_reason c = Some (sqlText (stop_reason c))"
  using assms
  by (cases "stop_reason c")
    (auto simp: evolveCampaignForResume_def Let_def rbind_Inr_iff exhausted_budget_def supervisor_recoverable_def)

lemma agree_resume_tx:
  assumes "evolveCampaignForResume rt v c overrides = Inr evo" "campaign_id c = cid"
  shows "tx_agree (tx_seq ([guarded (S_resumeCampaign now (ev_spec evo) cid (c_status c) (revision c))]
        @ (if ev_reopen evo then [run (S_resumeNodes now cid (Some (sqlText (stop_reason c))))] else [])
        @ [run (insert_event ev)])) (applyResumeCampaign now (ev_spec evo) c (ev_reopen evo) ev)"
proof (cases "ev_reopen evo")
  case True
  have "Some (sqlText (stop_reason c)) = stop_reason c" using reopen_has_reason [OF assms(1) True] by simp
  with True assms(2) show ?thesis
    unfolding applyResumeCampaign_def by (auto intro!: tx_agreements)
next
  case False
  with assms(2) show ?thesis unfolding applyResumeCampaign_def by (auto intro!: tx_agreements)
qed

lemma agree_lifecycle_ops:
  "same_outcome (pauseCampaign rt Legacy env cid reason) (pauseCampaign rt Native env cid reason) db"
  "same_outcome (cancelCampaign rt Legacy env cid reason) (cancelCampaign rt Native env cid reason) db"
  "same_outcome (failCampaign rt Legacy env cid reason) (failCampaign rt Native env cid reason) db"
  "same_outcome (stopCampaign rt Legacy env cid reason) (stopCampaign rt Native env cid reason) db"
  "same_outcome (retryNode rt Legacy env i) (retryNode rt Native env i) db"
  "same_outcome (extendCampaign rt v Legacy env spec) (extendCampaign rt v Native env spec) db"
  unfolding pauseCampaign_def cancelCampaign_def failCampaign_def stopCampaign_def retryNode_def extendCampaign_def Let_def
  by (intro agreement; simp add: agree_campaign_txs agree_extend_tx [simplified] agree_return getCampaign_id del: tx_seq.simps)+

lemma agree_resume: "same_outcome (resumeCampaign rt v Legacy env cid overrides) (resumeCampaign rt v Native env cid overrides) db"
  unfolding resumeCampaign_def Let_def
  by (intro agreement; simp add: agree_resume_tx [simplified] getCampaign_id)

lemma agree_usage:
  "same_outcome (recordUsage rt Legacy env cid delta enforce) (recordUsage rt Native env cid delta enforce) db"
  unfolding recordUsage_def Let_def tx_seq_single
  by (intro agreement) (simp add: runNativeStoreCampaignUsage_def tx_agreements)

section \<open>Statements over a list of nodes\<close>

text \<open>
  The legacy backend names all nodes in one statement, the native one issues a statement per
  node; the results agree because an updated row no longer satisfies the condition.
\<close>

lemma seq_update_nodes:
  assumes "\<And>n. node_id (f n) = node_id n" "\<And>n. \<not> Q (f n)"
  shows "tx_seq (map (\<lambda>i. run (update_nodes (\<lambda>_ n. node_id n = i \<and> Q n) f)) ids) db
    = run (update_nodes (\<lambda>_ n. node_id n \<in> set ids \<and> Q n) f) db"
proof (induction ids arbitrary: db)
  case Nil
  then show ?case by (simp add: run_def update_nodes_def)
next
  case (Cons i ids)
  have "(\<lambda>n. if node_id n \<in> set ids \<and> Q n then f n else n) \<circ> (\<lambda>n. if node_id n = i \<and> Q n then f n else n)
      = (\<lambda>n. if node_id n \<in> set (i # ids) \<and> Q n then f n else n)"
    using assms by auto
  then have rest: "run (update_nodes (\<lambda>_ n. node_id n \<in> set ids \<and> Q n) f)
        (db\<lparr>nodes := map (\<lambda>n. if node_id n = i \<and> Q n then f n else n) (nodes db)\<rparr>)
      = run (update_nodes (\<lambda>_ n. node_id n \<in> set (i # ids) \<and> Q n) f) db"
    by (simp add: run_def update_nodes_def)
  have here: "run (update_nodes (\<lambda>_ n. node_id n = i \<and> Q n) f) db
      = Inr (db\<lparr>nodes := map (\<lambda>n. if node_id n = i \<and> Q n then f n else n) (nodes db)\<rparr>)"
    by (simp add: run_def update_nodes_def)
  show ?case by (simp only: list.map tx_seq.simps here rbind_simps Cons.IH rest)
qed

lemma seq_skip: "tx_seq (map (\<lambda>i. run (S_skipFutureNode reason now i cid)) ids) db = run (S_skipFutureNodes ids reason now cid) db"
  unfolding S_skipFutureNode_def S_skipFutureNodes_def
  by (rule seq_update_nodes [where Q = "\<lambda>n. n_campaign_id n = cid \<and> n_status n = Queued"]) (simp_all add: release_lease_def)

lemma seq_cancel: "tx_seq (map (\<lambda>i. run (S_cancelOneNode reason detail h now i)) ids) db = run (S_cancelNodes ids reason detail h now) db"
  unfolding S_cancelOneNode_def S_cancelNodes_def
  by (rule seq_update_nodes [where Q = "\<lambda>n. n_status n \<in> {Queued, Leased, Running}"])
    (simp_all add: cancel_one_def release_lease_def)

lemma agree_skip: "same_outcome (skipFutureRounds rt Legacy env cid after reason) (skipFutureRounds rt Native env cid after reason) db"
proof -
  have "tx_agree (tx_seq ((if ids = [] then [] else [run (S_skipFutureNodes ids reason now cid)])
        @ [run (insert_event ev), run (projectCampaign cid now)])) (applySkipFutureRounds ids reason now cid ev)" for ids now ev
  proof -
    have "tx_seq (map (\<lambda>i. run (S_skipFutureNode reason now i cid)) ids)
        = tx_seq (if ids = [] then [] else [run (S_skipFutureNodes ids reason now cid)])"
      by (rule ext) (auto simp: seq_skip run_def S_skipFutureNodes_def update_nodes_def simp del: tx_seq.simps(2))
    then show ?thesis
      unfolding applySkipFutureRounds_def by (intro tx_agree_append) (auto intro!: tx_agreements)
  qed
  then show ?thesis unfolding skipFutureRounds_def Let_def by (intro agreement) simp
qed

lemma inspections:
  assumes "keys_ok db"
  shows "tx_seq (map (cancel_inspection cid) ids) db =
    (if list_ex (\<lambda>n. n_campaign_id n = cid \<and> node_id n \<in> set ids \<and> n_status n \<noteq> Completed
        \<and> integ n \<in> {Integ_integrating, Integ_integrated}) (nodes db)
     then Inl ''campaign_node_cancel_integration_in_progress'' else Inr db)"
proof (induction ids)
  case Nil
  then show ?case by (simp add: list_ex_iff)
next
  case (Cons i ids)
  let ?bad = "\<lambda>n. n_status n \<noteq> Completed \<and> integ n \<in> {Integ_integrating, Integ_integrated}"
  have "cancel_inspection cid i db = (if list_ex (\<lambda>n. n_campaign_id n = cid \<and> node_id n = i \<and> ?bad n) (nodes db)
      then Inl ''campaign_node_cancel_integration_in_progress'' else Inr db)"
  proof (cases "S_cancelNodeInspect i cid db")
    case None
    then have "\<not> list_ex (\<lambda>n. n_campaign_id n = cid \<and> node_id n = i \<and> ?bad n) (nodes db)"
      by (auto simp: S_cancelNodeInspect_def find_None_iff list_ex_iff)
    with None show ?thesis by (simp only: cancel_inspection_def option.case if_False)
  next
    case (Some m)
    then have m: "m \<in> set (nodes db)" "node_id m = i" "n_campaign_id m = cid"
      unfolding S_cancelNodeInspect_def using find_SomeD by fastforce+
    have "n = m" if "n \<in> set (nodes db)" "node_id n = i" for n
      using same_node [OF assms that(1) m(1)] that(2) m(2) by simp
    then have "list_ex (\<lambda>n. n_campaign_id n = cid \<and> node_id n = i \<and> ?bad n) (nodes db) = ?bad m"
      using m unfolding list_ex_iff by blast
    with Some show ?thesis by (simp add: cancel_inspection_def tx_check_def)
  qed
  then show ?case by (auto simp: Cons.IH list_ex_iff)
qed

lemma cancel_guards:
  assumes "keys_ok db"
  shows "agree (guarded (S_cancelNodesGuard ids cid) db)
    (tx_seq (map (cancel_inspection cid) ids @ [required code (S_cancelNodeGuard cid)]) db)"
proof -
  have same: "map (\<lambda>c. if P c then c else c) cs = cs" for P and cs :: "campaign_row list"
    by (induction cs) auto
  show ?thesis
    using inspections [OF assms, of cid ids]
    by (auto simp: tx_seq_append guarded_def required_def S_cancelNodesGuard_def S_cancelNodeGuard_def update_campaigns_def
        agree_def same)
qed

lemma agree_cancel_tx:
  assumes "keys_ok db"
  shows "agree (cancel_statements n c ids reason detail h now ev se db) (applyCancelNode n c ids reason detail h now ev se db)"
proof -
  define cid where "cid = n_campaign_id n"
  define old where "old = run (insert_event ev)
      # (case (se, c) of (Some se, Some c) \<Rightarrow> [guarded (S_cancelNodeStopCampaign now cid (revision c)), run (insert_event se)]
          | _ \<Rightarrow> [run (projectCampaign cid now)])"
  define new where "new = insertNativeStoreCampaignEvent ev
      # (case (se, c) of (Some se, Some c) \<Rightarrow> [required ''campaign_node_cancel_failed'' (S_cancelNodeStopCampaign now cid (revision c)),
              insertNativeStoreCampaignEvent se]
          | _ \<Rightarrow> [projectNativeStoreCampaign cid now])"
  have rest: "tx_agree (tx_seq old) (tx_seq new)"
    unfolding old_def new_def by (auto intro!: tx_agreements split: option.split)
  have tail: "agree (tx_seq ([run (S_cancelNodes ids reason detail h now)] @ old) d)
      (tx_seq (map (\<lambda>i. run (S_cancelOneNode reason detail h now i)) ids @ new) d)" for d
    unfolding tx_seq_append tx_seq_single seq_cancel
    using rest unfolding tx_agree_def by (intro agree_rbind agree_refl) simp
  have "agree (tx_seq ([guarded (S_cancelNodesGuard ids cid)] @ [run (S_cancelNodes ids reason detail h now)] @ old) db)
    (tx_seq ((map (cancel_inspection cid) ids @ [required ''campaign_node_cancel_failed'' (S_cancelNodeGuard cid)])
      @ map (\<lambda>i. run (S_cancelOneNode reason detail h now i)) ids @ new) db)"
    using cancel_guards [OF assms] tail
    by (simp only: tx_seq_append [of "[guarded _]"] tx_seq_append [of "_ @ [required _ _]"] tx_seq_single agree_rbind)
  then show ?thesis
    by (simp only: cancel_statements_def applyCancelNode_def Let_def cid_def old_def new_def append.assoc append_Cons append_Nil)
qed

lemma agree_cancel_node:
  assumes "keys_ok db"
  shows "same_outcome (cancelNode rt Legacy env i reason) (cancelNode rt Native env i reason) db"
  unfolding cancelNode_def Let_def
  by (intro agree_read agree_option agree_if agree_return agree_throw agree_then agree_submit_at)
    (simp add: agree_cancel_tx [OF assms])

section \<open>Completion\<close>

lemma usage_update_applies:
  assumes "distinct (map campaign_id (campaigns db))" "campaign_has_status db cid C_running"
  shows "run (S_updateCampaignUsage u now cid) db = runNativeStoreCampaignUsage False True (S_updateCampaignUsage u now cid) db"
proof -
  obtain c where c: "c \<in> set (campaigns db)" "campaign_id c = cid" "c_status c = C_running"
    using assms(2) by (auto simp: campaign_has_status_def list_ex_iff)
  have "find (\<lambda>d. campaign_id d = cid) (campaigns db) = Some c"
    using find_key_member [of campaign_id "campaigns db" c] assms(1) c by simp
  then have "filter (\<lambda>d. campaign_id d = cid \<and> c_status d = C_running) (campaigns db) = [c]"
    using find_distinct_filter [of campaign_id "campaigns db" cid "\<lambda>d. c_status d = C_running"] assms(1) c(3)
    by simp
  then show ?thesis
    by (simp add: run_def runNativeStoreCampaignUsage_def required_def S_updateCampaignUsage_def update_campaigns_def)
qed

lemma completed_campaign:
  assumes "keys_ok db" "guarded (S_completeNode now rv f h) db = Inr db'" "r \<in> set (nodes db)" "node_id r = f_node f"
  shows "campaigns db' = campaigns db \<and> campaign_has_status db (n_campaign_id r) C_running"
proof -
  have "campaigns db' = campaigns db" and "filter (completable h f now db) (nodes db) \<noteq> []"
    using assms(2) by (auto simp: guarded_def required_def S_completeNode_def update_nodes_def split: if_splits)
  then obtain m where m: "m \<in> set (nodes db)" "completable h f now db m" by (auto simp: filter_empty_conv)
  then have "m = r" using same_node [OF assms(1) m(1) assms(3)] assms(4) by (simp add: completable_def holds_lease_def)
  with m \<open>campaigns db' = campaigns db\<close> show ?thesis by (simp add: completable_def holds_lease_def)
qed

lemma agree_complete_tx:
  assumes "keys_ok db" "r \<in> set (nodes db)" "node_id r = f_node f" "n_campaign_id r = n_campaign_id n"
  shows "agree (complete_statements n now rv f delta ev receipt db) (applyCompleteNode n now rv f delta ev receipt db)"
proof -
  define h where "h = sqlText (prepared_hash n)"
  define u where "u = S_updateCampaignUsage (nativeStoreCampaignUsageParameters delta) now (n_campaign_id n)"
  define old where "old = [run (insert_event ev), run (projectCampaign (n_campaign_id n) now)]
      @ (case receipt of None \<Rightarrow> [] | Some rel \<Rightarrow> [guarded (S_publishCurrentRelease rel f (n_campaign_id n) h)])"
  define new where "new = [insertNativeStoreCampaignEvent ev, projectNativeStoreCampaign (n_campaign_id n) now]
      @ [publishRelease receipt f (n_campaign_id n) h]"
  have "tx_agree (tx_seq old) (tx_seq new)"
    unfolding old_def new_def
  proof (rule tx_agree_append)
    show "tx_agree (tx_seq (case receipt of None \<Rightarrow> [] | Some rel \<Rightarrow> [guarded (S_publishCurrentRelease rel f (n_campaign_id n) h)]))
        (tx_seq [publishRelease receipt f (n_campaign_id n) h])"
      by (cases receipt) (simp_all add: publishRelease_def tx_agree_required, simp add: tx_agree_def)
  qed (auto intro!: tx_agreements)
  then have rest: "agree (tx_seq old d) (tx_seq new d)" for d by (simp add: tx_agree_def)
  have usage: "agree (run u d) (runNativeStoreCampaignUsage False True u d)" if "guarded (S_completeNode now rv f h) db = Inr d" for d
  proof -
    have "campaigns d = campaigns db" "campaign_has_status db (n_campaign_id n) C_running"
      using completed_campaign [OF assms(1) that assms(2,3)] assms(4) by simp_all
    then show ?thesis using assms(1) usage_update_applies [of d] by (simp add: u_def campaign_has_status_def keys_ok_def)
  qed
  have "agree (tx_seq (guarded (S_completeNode now rv f h) # run u # old) db)
    (tx_seq (required ''campaign_node_complete_failed'' (S_completeNode now rv f h) # runNativeStoreCampaignUsage False True u # new) db)"
    unfolding tx_seq.simps
    by (intro agree_rbind rest usage tx_agree_required(2) [unfolded tx_agree_def, rule_format])
  then show ?thesis
    by (simp only: complete_statements_def applyCompleteNode_def Let_def h_def u_def old_def new_def append_Cons append_Nil)
qed

lemma prepare_phase_reread:
  assumes "readNode rt (f_node f) db = Inr node0" "fst (prepare_phase rt be env f res node0 db) = Inr (Some n)"
  shows "readNode rt (f_node f) (snd (prepare_phase rt be env f res node0 db)) = Inr (Some n)"
  using assms prepared_reread [of rt be env f _ False None db n]
  by (auto simp: prepare_phase_def op_return_def split: option.splits if_splits)

lemma prepare_phase_ok:
  assumes "store_ok rt db"
  shows "store_ok rt (snd (prepare_phase rt be env f res node0 db))"
proof -
  have "op_in (preserves (store_ok rt)) (prepare_phase rt be env f res node0)"
    unfolding prepare_phase_def by (auto intro!: preserving.op_return_in ok_store.prepared_ops_in(1) split: option.splits)
  with assms show ?thesis by (simp add: op_in_def preserves_def)
qed

lemma agree_completion:
  assumes "keys_ok d" "\<And>n. node = Some n \<Longrightarrow> readNode rt (f_node f) d = Inr (Some n)"
  shows "same_outcome (complete_phase rt promote Legacy env f ph delta node) (complete_phase rt promote Native env f ph delta node) d"
  unfolding complete_phase_def
proof (intro agree_option agree_if agree_throw agree_read agree_then agree_catch agree_submit_at)
  fix n receipt
  assume "node = Some n"
  then obtain r where "r \<in> set (nodes d)" "node_id r = f_node f" "n = normalize_node r"
    using readNode_row [OF assms(2)] by blast
  then show "agree (complete_statements n (nowIso env) (completion_reviewer n) f delta (completed_event rt env n f receipt) receipt d)
      (applyNativeStoreCampaignMutation rt
        (M_completeNode n (nowIso env) (completion_reviewer n) f delta (completed_event rt env n f receipt) receipt) d)"
    using agree_complete_tx [OF assms(1), of r f n] by simp
qed

lemma agree_complete:
  assumes "store_ok rt db"
  shows "same_outcome (completeNode rt promote Legacy env1 env f ph res delta) (completeNode rt promote Native env1 env f ph res delta) db"
  unfolding completeNode_phases
proof (intro agree_if agree_throw agree_read agree_return agree_bind agree_completion)
  fix node0 node n
  assume node0: "readNode rt (f_node f) db = Inr node0"
    and node: "fst (prepare_phase rt Legacy env1 f res node0 db) = Inr node"
  show "keys_ok (snd (prepare_phase rt Legacy env1 f res node0 db))"
    using prepare_phase_ok [OF assms] by (simp add: store_ok_def)
  show "readNode rt (f_node f) (snd (prepare_phase rt Legacy env1 f res node0 db)) = Inr (Some n)" if "node = Some n"
    using prepare_phase_reread [OF node0] node that by simp
qed (auto simp: prepare_phase_def intro!: agree_return agree_worker_ops split: option.splits)

section \<open>Failure\<close>

text \<open>
  A failure that ends the node settles its siblings, and the two backends give the settlement
  events different ids. Without siblings to settle they agree.
\<close>

definition settles_no_sibling :: "fence \<Rightarrow> bool \<Rightarrow> db \<Rightarrow> bool" where
  "settles_no_sibling f retryable db = list_all (\<lambda>n. node_id n = f_node f
      \<longrightarrow> ft_status (decideNodeFailureTransition (normalize_node n) retryable) \<noteq> Failed_terminal
        \<or> S_inspectTerminalSiblingNodes False (n_campaign_id n) (f_node f) db = []) (nodes db)"

lemma live_campaign:
  assumes "keys_ok db" "live_attempt f now db m" "m \<in> set (nodes db)" "r \<in> set (nodes db)" "node_id r = f_node f"
  shows "campaign_has_status db (n_campaign_id r) C_running"
  using same_node [OF assms(1,3,4)] assms(2,5) by (simp add: holds_lease_def)

lemma failed_siblings:
  assumes "S_inspectTerminalSiblingNodes False cid i db = []" "campaigns d = campaigns db"
    and "nodes d = map (\<lambda>n. if P n then g n else n) (nodes db)" "\<And>n. P n \<Longrightarrow> node_id (g n) = i"
  shows "S_inspectTerminalSiblingNodes True cid i d = []"
  using assms by (auto simp: S_inspectTerminalSiblingNodes_def filter_empty_conv sibling_policy_def split: if_splits)

lemma failed_node:
  assumes "guarded (failNodeStatement abandon nst cls detail h now f) db = Inr d"
  shows "\<exists>m g. m \<in> set (nodes db) \<and> live_attempt f now db m \<and> campaigns d = campaigns db
    \<and> nodes d = map (\<lambda>n. if live_attempt f now db n then g n else n) (nodes db) \<and> (\<forall>n. node_id (g n) = node_id n)"
proof -
  define g where "g n = (fail_update nst cls detail h now n)\<lparr>prep := if abandon then no_prepared else interrupt_integration (prep n)\<rparr>" for n
  have "failNodeStatement abandon nst cls detail h now f = update_nodes (live_attempt f now) g"
    by (rule ext) (simp add: failNodeStatement_def S_failNodeAbandonPrepared_def S_failNodePreservePrepared_def g_def [abs_def])
  then have "filter (live_attempt f now db) (nodes db) \<noteq> []" "d = db\<lparr>nodes := map (\<lambda>n. if live_attempt f now db n then g n else n) (nodes db)\<rparr>"
    using assms by (auto simp: guarded_def required_def update_nodes_def split: if_splits)
  moreover from this obtain m where "m \<in> set (nodes db)" "live_attempt f now db m" by (auto simp: filter_empty_conv)
  ultimately show ?thesis by (intro exI [of _ m] exI [of _ g]) (simp add: g_def fail_update_def)
qed

lemma agree_fail_tx:
  assumes "keys_ok db" "r \<in> set (nodes db)" "node_id r = f_node f" "n_campaign_id r = n_campaign_id n"
    and "nst = Failed_terminal \<Longrightarrow> S_inspectTerminalSiblingNodes False (n_campaign_id n) (f_node f) db = []"
  shows "agree (fail_statements rt env n f nst cls detail h abandon delta [] ev db)
    (applyFailNode rt n (nowIso env) f nst cls detail h abandon delta ev db)"
proof -
  define now where "now = nowIso env"
  define fail where "fail = failNodeStatement abandon nst cls detail h now f"
  define u where "u = S_updateCampaignUsage (nativeStoreCampaignUsageParameters delta) now (n_campaign_id n)"
  define old where "old = [run (insert_event ev), run (projectCampaign (n_campaign_id n) now)]"
  define new where "new = [insertNativeStoreCampaignEvent ev, projectNativeStoreCampaign (n_campaign_id n) now]"
  define settle where "settle = (if nst = Failed_terminal then [settle_siblings rt now (n_campaign_id n) (f_node f) h] else [])"
  have "tx_agree (tx_seq old) (tx_seq new)" unfolding old_def new_def by (auto intro!: tx_agreements)
  then have rest: "agree (tx_seq old d) (tx_seq new d)" for d by (simp add: tx_agree_def)
  have after: "agree (tx_seq (run u # old) d) (tx_seq (settle @ runNativeStoreCampaignUsage False True u # new) d)"
    if failed: "guarded fail db = Inr d" for d
  proof -
    obtain m g where m: "m \<in> set (nodes db)" "live_attempt f now db m" "campaigns d = campaigns db"
      "nodes d = map (\<lambda>n. if live_attempt f now db n then g n else n) (nodes db)" "\<forall>n. node_id (g n) = node_id n"
      using failed_node [OF failed [unfolded fail_def]] by blast
    have "S_inspectTerminalSiblingNodes True (n_campaign_id n) (f_node f) d = []" if "nst = Failed_terminal"
      using assms(5) [OF that] m(3,4) by (rule failed_siblings) (simp add: m(5) holds_lease_def)
    then have "tx_seq settle d = Inr d" by (simp add: settle_def settle_siblings_def)
    moreover have "campaign_has_status d (n_campaign_id n) C_running"
      using live_campaign [OF assms(1) m(2,1) assms(2,3)] assms(4) m(3) by (simp add: campaign_has_status_def)
    then have "run u d = runNativeStoreCampaignUsage False True u d"
      unfolding u_def using assms(1) m(3) by (intro usage_update_applies) (simp_all add: keys_ok_def)
    ultimately show ?thesis by (simp add: tx_seq_append agree_rbind rest)
  qed
  have "agree (tx_seq (guarded fail # run u # old) db)
    (tx_seq (required ''campaign_node_failure_failed'' fail # settle @ runNativeStoreCampaignUsage False True u # new) db)"
    unfolding tx_seq.simps(2) [of "guarded fail"] tx_seq.simps(2) [of "required _ fail"]
    by (intro agree_rbind after tx_agree_required(2) [unfolded tx_agree_def, rule_format])
  then show ?thesis
    by (simp only: fail_statements_def applyFailNode_def Let_def fail_def u_def old_def new_def settle_def now_def
        enumerate_simps list.map concat.simps append_Cons append_Nil append_assoc)
qed

lemma agree_fail:
  assumes "keys_ok db" "settles_no_sibling f retryable db"
  shows "same_outcome (failNode rt Legacy env f cls detail retryable abandon delta) (failNode rt Native env f cls detail retryable abandon delta) db"
  unfolding failNode_def Let_def
proof (intro agree_if agree_throw agree_read agree_option agree_then agree_catch agree_submit_at)
  fix earlier n siblings
  assume "readNode rt (f_node f) db = Inr earlier" "earlier = Some n"
    and siblings: "(if ft_status (decideNodeFailureTransition n retryable) = Failed_terminal
      then rmap (mapCampaignNodeRow rt) (S_inspectTerminalSiblingNodes False (n_campaign_id n) (f_node f) db) else Inr []) = Inr siblings"
  then obtain r where r: "r \<in> set (nodes db)" "node_id r = f_node f" "n = normalize_node r"
    using readNode_row by blast
  then have none: "ft_status (decideNodeFailureTransition n retryable) = Failed_terminal
      \<Longrightarrow> S_inspectTerminalSiblingNodes False (n_campaign_id n) (f_node f) db = []"
    using assms(2) by (auto simp: settles_no_sibling_def list_all_iff)
  then have "siblings = []" using siblings by (auto split: if_splits)
  then show "agree (fail_statements rt env n f (ft_status (decideNodeFailureTransition n retryable)) cls detail
        (hashRecord rt ''PaperCampaignNodeFailure'' detail) abandon delta siblings
        (fail_event rt env (length siblings) n f (ft_event_kind (decideNodeFailureTransition n retryable)) cls
          (hashRecord rt ''PaperCampaignNodeFailure'' detail) abandon) db)
      (applyNativeStoreCampaignMutation rt (M_failNode n (nowIso env) f (ft_status (decideNodeFailureTransition n retryable)) cls detail
        (hashRecord rt ''PaperCampaignNodeFailure'' detail) abandon delta
        (fail_event rt env (length siblings) n f (ft_event_kind (decideNodeFailureTransition n retryable)) cls
          (hashRecord rt ''PaperCampaignNodeFailure'' detail) abandon)) db)"
    using agree_fail_tx [OF assms(1) r(1,2)] r(3) none by simp
qed

section \<open>Properties\<close>

text \<open>
  C11. The native executor refines the legacy statement lists for these worker operations: from
  every store that satisfies the invariant, renewing, claiming, starting, reserving, preparing,
  beginning and marking an integration and completing end in the same database on both backends,
  and succeed with the same value on both or fail on both; so does a failure that leaves no
  sibling to settle. Failures that settle siblings (the two backends number the settlement events
  differently), the two journal operations on external actions and the deferral (whose native
  transactions read the journal again) are not part of the statement.
\<close>

theorem worker_backends_agree:
  assumes "store_ok rt db"
  shows "same_outcome (renewNodeLease rt Legacy env f seconds) (renewNodeLease rt Native env f seconds) db
    \<and> same_outcome (claim_one rt Legacy env cid w expires kn) (claim_one rt Native env cid w expires kn) db
    \<and> same_outcome (startNode rt Legacy env f delta) (startNode rt Native env f delta) db
    \<and> same_outcome (reserveNodeInfrastructureUsage rt Legacy env f delta) (reserveNodeInfrastructureUsage rt Native env f delta) db
    \<and> same_outcome (prepareNodeResult rt Legacy env f result req key) (prepareNodeResult rt Native env f result req key) db
    \<and> same_outcome (beginNodeResultIntegration rt Legacy env f ikey seconds) (beginNodeResultIntegration rt Native env f ikey seconds) db
    \<and> same_outcome (markNodeResultIntegrated rt Legacy env f ikey receipt) (markNodeResultIntegrated rt Native env f ikey receipt) db
    \<and> same_outcome (completeNode rt promote Legacy env1 env f ph res delta) (completeNode rt promote Native env1 env f ph res delta) db
    \<and> (settles_no_sibling f retryable db \<longrightarrow>
        same_outcome (failNode rt Legacy env f cls detail retryable abandon delta) (failNode rt Native env f cls detail retryable abandon delta) db)"
  using assms by (intro conjI impI agree_worker_ops agree_integration_ops agree_complete agree_fail) (simp_all add: store_ok_def)

theorem worker_backends_agree_witness:
  "snd (completeNode ex_rt ex_promote Legacy (ex_env 10 ''u'') (ex_env 10 ''v'') ex_fence None (Some (JInt 1)) ex_usage ex_db)
    = snd (completeNode ex_rt ex_promote Native (ex_env 10 ''u'') (ex_env 10 ''v'') ex_fence None (Some (JInt 1)) ex_usage ex_db)
    \<and> map n_status (nodes (snd (completeNode ex_rt ex_promote Native (ex_env 10 ''u'') (ex_env 10 ''v'') ex_fence None (Some (JInt 1))
        ex_usage ex_db))) = [Completed, Queued, Queued]"
proof
  show "snd (completeNode ex_rt ex_promote Legacy (ex_env 10 ''u'') (ex_env 10 ''v'') ex_fence None (Some (JInt 1)) ex_usage ex_db)
    = snd (completeNode ex_rt ex_promote Native (ex_env 10 ''u'') (ex_env 10 ''v'') ex_fence None (Some (JInt 1)) ex_usage ex_db)"
    using worker_backends_agree [OF ex_ok] by (simp add: same_outcome_def)
qed code_simp

text \<open>
  C12. The native executor refines the legacy statement lists for the control operations:
  pausing, resuming, extending, cancelling, failing and stopping a campaign, skipping future
  rounds, cancelling and retrying a node and recording usage end in the same database on both
  backends, with the same value or with an error on both.
\<close>

theorem control_backends_agree:
  assumes "store_ok rt db"
  shows "same_outcome (pauseCampaign rt Legacy env cid reason) (pauseCampaign rt Native env cid reason) db
    \<and> same_outcome (resumeCampaign rt v Legacy env cid overrides) (resumeCampaign rt v Native env cid overrides) db
    \<and> same_outcome (extendCampaign rt v Legacy env spec) (extendCampaign rt v Native env spec) db
    \<and> same_outcome (skipFutureRounds rt Legacy env cid after reason) (skipFutureRounds rt Native env cid after reason) db
    \<and> same_outcome (cancelCampaign rt Legacy env cid reason) (cancelCampaign rt Native env cid reason) db
    \<and> same_outcome (failCampaign rt Legacy env cid reason) (failCampaign rt Native env cid reason) db
    \<and> same_outcome (stopCampaign rt Legacy env cid reason) (stopCampaign rt Native env cid reason) db
    \<and> same_outcome (cancelNode rt Legacy env i reason) (cancelNode rt Native env i reason) db
    \<and> same_outcome (retryNode rt Legacy env i) (retryNode rt Native env i) db
    \<and> same_outcome (recordUsage rt Legacy env cid delta enforce) (recordUsage rt Native env cid delta enforce) db"
  using assms by (intro conjI agree_lifecycle_ops agree_resume agree_skip agree_cancel_node agree_usage) (simp add: store_ok_def)

theorem control_backends_agree_witness:
  "snd (cancelNode ex_rt Legacy (ex_env 10 ''u'') ''a'' ''operator'' ex_db) = snd (cancelNode ex_rt Native (ex_env 10 ''u'') ''a'' ''operator'' ex_db)
    \<and> map n_status (nodes (snd (cancelNode ex_rt Native (ex_env 10 ''u'') ''a'' ''operator'' ex_db))) = [Skipped, Skipped, Queued]"
proof
  show "snd (cancelNode ex_rt Legacy (ex_env 10 ''u'') ''a'' ''operator'' ex_db) = snd (cancelNode ex_rt Native (ex_env 10 ''u'') ''a'' ''operator'' ex_db)"
    using control_backends_agree [OF ex_ok] by (simp add: same_outcome_def)
qed code_simp

section \<open>Where the backends differ\<close>

lemma native_exclusive_submit [simp]:
  "submit rt Native c t (M_createCampaignExclusive spec a ph now ev) db
    = (Inl (c @ '':native_store_campaign_operation_invalid''), db)"
  by (simp add: submit_def mutation_def)

interpretation papers_kept: db_preorder "\<lambda>a b. papers b = papers a"
  by unfold_locales auto

lemma papers_kept_stmts:
  "stmt_in (\<lambda>a b. papers b = papers a) (insert_event e)" "stmt_in (\<lambda>a b. papers b = papers a) (createCampaignStatement spec adm ph now)"
  "stmt_in (\<lambda>a b. papers b = papers a) (createNodeStatement cid now nd)" "stmt_in (\<lambda>a b. papers b = papers a) (S_createCampaignStart now cid)"
  by (auto simp: stmt_in_def insert_event_def createCampaignStatement_def S_createCampaign_def insert_campaign_def createNodeStatement_def
      S_createCampaignNode_def insert_node_def S_createCampaignStart_def update_campaigns_def split: if_splits)

lemma papers_kept_native: "tx_in (\<lambda>a b. papers b = papers a) (applyCreateCampaign spec adm ph now ev)"
  unfolding applyCreateCampaign_def
  by (intro papers_kept.tx_seq_in) (auto intro!: required_in insertEvent_in papers_kept_stmts split: if_splits)

lemma papers_kept_submit:
  "tx_in (\<lambda>a b. papers b = papers a) (applyNativeStoreCampaignMutation rt m) \<Longrightarrow> op_in (\<lambda>a b. papers b = papers a) (submit rt Native c t m)"
  by (auto simp: op_in_def tx_in_def submit_def mutation_def split: sum.splits)

lemma legacy_inserts_paper:
  assumes "creation_statements spec adm ph now ev db = Inr db'"
  shows "spec_string ''paperId'' spec \<in> slug ` set (papers db')"
proof -
  let ?cid = "spec_string ''campaignId'' spec"
  let ?rest = "tx_seq ([run (createCampaignStatement spec adm ph now)]
      @ map (\<lambda>nd. run (createNodeStatement ?cid now nd)) (spec_list ''nodes'' spec)
      @ (if adm then [] else [run (S_createCampaignStart now ?cid)]) @ [run (insert_event ev)])"
  obtain d where d: "run (S_createCampaignPaper (spec_string ''paperId'' spec) (spec_string ''venueTarget'' spec)
      (spec_string ''sourceWorkspace'' spec) (paper_metadata spec) now) db = Inr d" "?rest d = Inr db'"
    using assms by (auto simp: creation_statements_def Let_def rbind_Inr_iff)
  have "spec_string ''paperId'' spec \<in> slug ` set (papers d)"
    using d(1) by (force simp: run_def S_createCampaignPaper_def insert_or_ignore_paper_def list_ex_iff split: if_splits)
  moreover have "tx_in (\<lambda>a b. papers b = papers a) ?rest"
    by (intro papers_kept.tx_seq_in) (auto intro!: run_in papers_kept_stmts split: if_splits)
  ultimately show ?thesis using d(2) by (simp only: tx_in_def)
qed

lemma native_exclusive_create_fails:
  "\<exists>e. createCampaignExclusive rt v Native env spec db = (Inl e, db)"
  by (auto simp: createCampaignExclusive_def create_common_def Let_def op_bind_def op_read_def op_throw_def op_catch_def
      op_return_def split: sum.splits option.splits prod.splits)

text \<open>
  C39. Creation on the native backend is incomplete. The exclusive creation of a campaign never
  succeeds: the dispatch has no branch for its operation id, so the call returns an error for every
  definition and leaves the store unchanged. The ordinary creation never inserts the paper row that
  the legacy backend inserts and the plan of the operation lists.
\<close>

theorem native_creation_incomplete:
  "(\<exists>e. createCampaignExclusive rt v Native env spec db = (Inl e, db))
    \<and> papers (snd (createCampaign rt v Native env spec db)) = papers db
    \<and> (creation_statements spec admitted phase now ev db = Inr db' \<longrightarrow> spec_string ''paperId'' spec \<in> slug ` set (papers db'))"
proof (intro conjI impI)
  have "op_in (\<lambda>a b. papers b = papers a) (createCampaign rt v Native env spec)"
    unfolding createCampaign_def create_common_def Let_def
    by (intro papers_kept.op_bind_in papers_kept.op_catch_in papers_kept.op_return_in papers_kept.op_option_in papers_kept.op_pair_in
        papers_kept.op_if_in papers_kept_submit) (simp_all add: papers_kept_native)
  then show "papers (snd (createCampaign rt v Native env spec db)) = papers db" by (simp add: op_in_def)
qed (rule native_exclusive_create_fails, rule legacy_inserts_paper)

theorem native_creation_incomplete_witness:
  "papers (snd (createCampaign ex_rt ex_verifiers Native (ex_env 10 ''u'') ex_definition empty_db)) = []
    \<and> (\<exists>db'. creation_statements ex_definition False ''dispatching'' 10
        (created_event ex_rt (ex_env 10 ''u'') ex_definition \<lparr>is_admitted = False, is_phase = ''dispatching'', is_admission_hash = None\<rparr>) empty_db = Inr db'
      \<and> ''p'' \<in> slug ` set (papers db'))"
proof -
  let ?tx = "creation_statements ex_definition False ''dispatching'' 10 (created_event ex_rt (ex_env 10 ''u'') ex_definition
    \<lparr>is_admitted = False, is_phase = ''dispatching'', is_admission_hash = None\<rparr>) empty_db"
  have "\<not> isl ?tx" by code_simp
  then obtain db' where tx: "?tx = Inr db'" by (cases ?tx) auto
  have "spec_string ''paperId'' ex_definition = ''p''" by code_simp
  with native_creation_incomplete [of ex_rt ex_verifiers "ex_env 10 ''u''" ex_definition empty_db] tx show ?thesis
    by (auto simp: empty_db_def)
qed

end
