(* ===== verification/Recovery_Properties.thy ===== *)
theory Recovery_Properties
  imports Backend_Properties
begin

text \<open>
  Recovery of an expired lease. The legacy backend trusts the audit of the calling operation;
  the native one repeats it inside the transaction, with a stricter rule for attempts that
  have started external actions.
\<close>

section \<open>The audit inside the native transaction\<close>

lemma started_actions_block_refund:
  assumes "inspectNodeInfrastructureAttempt rt cid i att gen db = Inr a" "ai_actions a \<noteq> []"
  shows "infrastructureRefundFromEvents rt recover_event_kinds cid i att gen db
    = Inl ''campaign_node_infrastructure_external_action_may_have_started''"
proof -
  obtain es where es: "infrastructureAttemptEvents rt recover_event_kinds cid i att gen db = Inr es"
    "filter (event_kind_is ''campaign_node_external_action_started'') es \<noteq> []"
    using assms by (auto simp: inspectNodeInfrastructureAttempt_def Let_def rbind_Inr_iff)
  then have "list_ex (event_kind_is ''campaign_node_external_action_started'') es" by (auto simp: filter_empty_conv list_ex_iff)
  with es(1) show ?thesis by (simp add: infrastructureRefundFromEvents_def check_def)
qed

lemma attempt_events_of_nodes:
  "infrastructureRefundFromEvents rt ks cid i att gen (db\<lparr>nodes := ns\<rparr>) = infrastructureRefundFromEvents rt ks cid i att gen db"
  by (simp add: infrastructureRefundFromEvents_def infrastructureAttemptEvents_def S_infrastructureReservationEvents_def select_events_def)

lemma native_refund_rejected:
  assumes "inspectNodeInfrastructureAttempt rt (n_campaign_id n) (node_id n) att (lease_generation n) db = Inr a"
    "ai_actions a \<noteq> []" "attempt_id n = Some att"
  shows "isl (applyRecoverExpiredLease rt n cid expired now Pre_external_action_refund r detail h actions ev db)"
  using started_actions_block_refund [OF assms(1,2)] assms(3)
  by (auto simp: applyRecoverExpiredLease_def Let_def required_def S_recoverLease_def update_nodes_def attempt_events_of_nodes rbind_def
      split: sum.splits)

section \<open>Property\<close>

text \<open>
  C40. An attempt that completed all its external actions but died before preparing a result
  cannot be recovered on the native backend: the operation chooses the refund disposition,
  the transaction refuses it because an action was started, and recovery of that node returns
  an error and changes nothing, at whatever time it is tried.
\<close>

theorem native_recovery_of_completed_actions_fails:
  assumes "inspectNodeInfrastructureAttempt rt (n_campaign_id n) (node_id n) att (lease_generation n) db = Inr a"
    "ai_actions a \<noteq> []" "ai_unresolved a = []" "attempt_id n = Some att" "n_status n = Running" "prepared_hash n = None"
    "readNode rt (node_id n) db = Inr (Some n)"
  shows "\<exists>e. recover_one rt Native env (n_campaign_id n) (k, n) db = (Inl e, db)"
proof -
  have disp: "recovery_disposition n (Some a) = Pre_external_action_refund"
    using assms(3,5,6) by (simp add: recovery_disposition_def)
  define r where "r = ai_refundable a"
  define d where "d = uncertain_detail rt (n_campaign_id n) n [] (nowIso env)"
  define ev where "ev = recovery_event rt env k (n_campaign_id n) n Pre_external_action_refund r []"
  define work where "work = submit rt Native ''campaign_lease_recovery_failed''
    (recovery_statements n (n_campaign_id n) (lapsed (nowIso env) n) (nowIso env) Pre_external_action_refund r d
      (hashRecord rt ''CampaignNodeFailureDetail'' d) ev)
    (M_recoverExpiredLeases n (n_campaign_id n) (lapsed (nowIso env) n) (nowIso env) Pre_external_action_refund r d
      (hashRecord rt ''CampaignNodeFailureDetail'' d) [] ev)"
  have run: "recover_one rt Native env (n_campaign_id n) (k, n) db
      = op_catch (op_bind work (\<lambda>_. op_bind (op_read (readNode rt (node_id n))) (\<lambda>m. op_return [m])))
          (\<lambda>e. op_bind (op_read (readNode rt (node_id n))) (\<lambda>latest. case latest of
             Some m \<Rightarrow> if n_status m = n_status n \<and> attempt_id m = attempt_id n
                 \<and> lease_generation m = lease_generation n \<and> lease_expires_at m = lease_expires_at n
               then op_throw e else op_return []
           | None \<Rightarrow> op_return [])) db"
    unfolding recover_one_def Let_def op_bind_def [of "op_read _"] op_read_def
    by (simp add: assms(1,4,5) disp rbind_def work_def r_def d_def ev_def op_read_def [abs_def] cong: if_cong option.case_cong)
  obtain e where e: "work db = (Inl e, db)"
    using native_refund_rejected [OF assms(1,2,4), of "n_campaign_id n" "lapsed (nowIso env) n" "nowIso env" r d
      "hashRecord rt ''CampaignNodeFailureDetail'' d" "[]" ev]
    unfolding work_def submit_def mutation_def isl_def by auto
  show ?thesis
    unfolding run by (simp add: op_catch_def op_bind_def op_read_def op_throw_def e assms(7))
qed

section \<open>An attempt with a completed action\<close>

definition ex_reservation :: reservation where
  "ex_reservation = \<lparr>rv_id = ''node-attempt:t1:base'', rv_campaign = ''c'', rv_node = ''a'', rv_attempt = ''t1'', rv_generation = 1,
    rv_usage = \<lparr>rf_agent = 1, rf_cpu = 0, rf_gpu = 0\<rparr>, rv_hash = ''sha256:'' @ replicate 64 (CHR ''a'')\<rparr>"

definition ex_action :: json where
  "ex_action = JObj [(''action'', JStr ''llm''), (''externalActionId'', JStr ''x1'')]"

text \<open>Node \<open>a\<close> was started with one agent call, its action was started and completed.\<close>

definition ex_acted :: db where
  "ex_acted = ex_db\<lparr>campaigns := [ex_campaign\<lparr>agent_call_count := 1\<rparr>],
    events := [started_event ex_rt (ex_env 1 ''e1'') (ex_running\<lparr>attempt_count := 0\<rparr>) ex_fence ex_reservation,
      action_started_event ex_rt (ex_env 2 ''e2'') ex_running ex_fence ex_action,
      action_completed_event ex_rt (ex_env 3 ''e3'') ex_running ex_fence ex_action (action_id_of ex_action)
        (JInt 1, hashRecord ex_rt ''CampaignNodeExternalActionOutcome'' (JInt 1)) ex_usage]\<rparr>"

lemma ex_hash_record: "hashRecord ex_rt kind v = ''sha256:'' @ replicate 64 (CHR ''a'')"
  by (simp add: hashRecord_def digest_def ex_rt_def)

lemma ex_reservation_built:
  "buildNativeStoreNodeInfrastructureReservation ex_rt (Some (JStr ''node-attempt:t1:base'')) (Some (JStr ''c''))
    (Some (JStr ''a'')) (Some (JStr ''t1'')) (Some (JInt 1)) (usage_delta_json ex_usage) = Inr ex_reservation"
  by (simp add: buildNativeStoreNodeInfrastructureReservation_def ex_reservation_def ex_hash_record ex_usage_def usage_delta_json_def
    normalizeNativeStoreNodeInfrastructureUsage_def infrastructureCount_def opt_field_def or_else_def jtruthy_def isSafeInteger_def Let_def)

lemma ex_acted_inspected:
  "case inspectNodeInfrastructureAttempt ex_rt ''c'' ''a'' ''t1'' 1 ex_acted of
     Inl _ \<Rightarrow> False | Inr a \<Rightarrow> ai_actions a \<noteq> [] \<and> ai_unresolved a = []"
  using assertReservation_built [OF ex_reservation_built]
  by (simp add: inspectNodeInfrastructureAttempt_def infrastructureAttemptEvents_def S_infrastructureReservationEvents_def
    select_events_def ex_acted_def started_event_def action_started_event_def action_completed_event_def checked_attempt_event_def
    recover_event_kinds_def event_payload_def event_on_node_def event_of_attempt_def eventOrder_def cast_integer_def
    ex_fence_def ex_env_def ex_running_def ex_node_def fresh_node_def ex_action_def action_id_of_def jstr_def is_reservation_event_def
    event_kind_is_def check_def rbind_def started_action_def started_action_id_def action_id_or_def or_else_def jtruthy_def Let_def entries_def cancel_event_kinds_def JOptStr_def
    del: set_map list.set_map set_filter)

lemma ex_acted_row: "readNode ex_rt ''a'' ex_acted = Inr (Some ex_running)"
  by code_simp

theorem native_recovery_of_completed_actions_fails_witness:
  "\<exists>e. recover_one ex_rt Native (ex_env 200 ''u'') ''c'' (0, ex_running) ex_acted = (Inl e, ex_acted)"
proof -
  have row: "n_campaign_id ex_running = ''c''" "node_id ex_running = ''a''" "lease_generation ex_running = 1"
    "attempt_id ex_running = Some ''t1''" "n_status ex_running = Running" "prepared_hash ex_running = None"
    by code_simp+
  obtain a where "inspectNodeInfrastructureAttempt ex_rt ''c'' ''a'' ''t1'' 1 ex_acted = Inr a"
    "ai_actions a \<noteq> []" "ai_unresolved a = []"
    using ex_acted_inspected by (auto split: sum.splits)
  from native_recovery_of_completed_actions_fails [of ex_rt ex_running "''t1''" ex_acted a "ex_env 200 ''u''" 0,
      unfolded row, OF this HOL.refl HOL.refl HOL.refl ex_acted_row]
  show ?thesis .
qed

end
