(* ===== verification/Release_Properties.thy ===== *)
theory Release_Properties
  imports Store_Properties
begin

text \<open>
  Published releases: in every history whose promotions are made by the release contract, each
  row of \<open>campaign_current_releases\<close>, written by the completion of a node or by the promotion
  of a completed campaign, rests on the completed and integrated package node it names, of the
  campaign it names, whose stored result carries the hashes of the row.
\<close>

section \<open>Releases rest on completed package nodes\<close>

text \<open>
  The completing statement compares the bundle hash of the row with the result's own field, the
  promotion of a completed campaign takes it from the bundle in the result.
\<close>

definition carries_bundle :: "release_row \<Rightarrow> json option \<Rightarrow> bool" where
  "carries_bundle r res =
    (Option.bind res (jpath [''campaignReleaseBundleHash'']) = Some (JStr (rel_bundle_hash r))
     \<or> Option.bind res (jpath [''releaseBundle'', ''campaignReleaseBundleHash'']) = Some (JStr (rel_bundle_hash r)))"

definition backing_node :: "release_row \<Rightarrow> node_row \<Rightarrow> bool" where
  "backing_node r n = (node_id n = rel_package_node_id r \<and> n_campaign_id n = rel_campaign_id r
    \<and> n_kind n = ''package'' \<and> n_status n = Completed \<and> integ n = Integ_integrated
    \<and> result_sha256 n = Some (rel_result_hash r)
    \<and> prepared_integration_key (prep n) = Some (rel_integration_descriptor_hash r)
    \<and> prepared_integration_receipt_sha256 (prep n) = Some (rel_integration_receipt_hash r)
    \<and> carries_bundle r (result_json n)
    \<and> Option.bind (result_json n) (jpath [''campaignReleaseBundleMaterializationReceiptHash''])
        = Some (JStr (rel_materialization_receipt_hash r)))"

definition backed :: "release_row \<Rightarrow> db \<Rightarrow> bool" where
  "backed r db = list_ex (\<lambda>n. backing_node r n
    \<and> list_ex (\<lambda>c. campaign_id c = rel_campaign_id r \<and> paper_id c = rel_paper_id r) (campaigns db)) (nodes db)"

definition releasing :: "db \<Rightarrow> db \<Rightarrow> bool" where
  "releasing db db' = (store_evolves node_kept campaign_kept db db'
    \<and> (\<forall>r\<in>set (releases db'). r \<in> set (releases db) \<or> backed r db'))"

lemma backed_kept:
  assumes "backed r db" "store_evolves node_kept campaign_kept db db'"
  shows "backed r db'"
proof -
  obtain n c where n: "n \<in> set (nodes db)" "backing_node r n"
    and c: "c \<in> set (campaigns db)" "campaign_id c = rel_campaign_id r" "paper_id c = rel_paper_id r"
    using assms(1) by (auto simp: backed_def list_ex_iff)
  obtain n' where n': "n' \<in> set (nodes db')" "node_kept n n'"
    using table_evolves_member [of node_kept "nodes db" "nodes db'" n] assms(2) n(1) by (auto simp: store_evolves_def)
  obtain c' where c': "c' \<in> set (campaigns db')" "campaign_kept c c'"
    using table_evolves_member [of campaign_kept "campaigns db" "campaigns db'" c] assms(2) c(1) by (auto simp: store_evolves_def)
  have "n_status n = Completed" using n(2) by (simp add: backing_node_def)
  then have "backing_node r n'"
    using n(2) n'(2) by (auto simp: backing_node_def node_kept_def node_identity_def completed_part_def)
  moreover have "campaign_id c' = campaign_id c" "paper_id c' = paper_id c" using c'(2) by (auto simp: campaign_kept_def)
  ultimately show ?thesis using n' c c' unfolding backed_def list_ex_iff by metis
qed

interpretation releasing: db_preorder releasing
proof
  show "releasing db db" for db by (simp add: releasing_def kept.store_refl)
  show "releasing a c" if "releasing a b" "releasing b c" for a b c
    using that backed_kept kept.store_trans unfolding releasing_def by blast
qed

lemma releasing_of:
  "stmt_in (store_evolves node_kept campaign_kept) st \<Longrightarrow> stmt_in (\<lambda>a b. releases b = releases a) st \<Longrightarrow> stmt_in releasing st"
  by (auto simp: stmt_in_def releasing_def)

lemma releases_same:
  "stmt_in (\<lambda>a b. releases b = releases a) (update_nodes P f)"
  "stmt_in (\<lambda>a b. releases b = releases a) (update_campaigns Q g)"
  "stmt_in (\<lambda>a b. releases b = releases a) (update_elapsed Q g' now)"
  "stmt_in (\<lambda>a b. releases b = releases a) (insert_event e)"
  "stmt_in (\<lambda>a b. releases b = releases a) (insert_node n)"
  "stmt_in (\<lambda>a b. releases b = releases a) (insert_campaign c)"
  "stmt_in (\<lambda>a b. releases b = releases a) (insert_or_ignore_paper p)"
  "stmt_in (\<lambda>a b. releases b = releases a) (S_completeNode now rv f' h)"
  by (auto simp: stmt_in_def update_nodes_def update_campaigns_def update_elapsed_def insert_event_def insert_node_def
      insert_campaign_def insert_or_ignore_paper_def S_completeNode_def split: if_splits)

lemma releases_same_if:
  "stmt_in R st \<Longrightarrow> stmt_in R st' \<Longrightarrow> stmt_in R (if b then st else st')"
  by simp

lemmas statement_defs = projectCampaign_def createCampaignStatement_def S_createCampaign_def createNodeStatement_def
  S_createCampaignNode_def extendNodeStatement_def S_extendCampaignNode_def S_createCampaignStart_def
  S_assertIntegratedAttempt_def S_assertIntegratingAttempt_def S_cancelInfrastructureNode_def
  S_cancelInfrastructureUsage_def S_reserveInfrastructureNode_def S_reserveInfrastructureUsage_def
  S_markInfrastructureNode_def S_updateCampaignUsage_def S_recordUsage_def
  S_skipFutureNode_def S_skipFutureNodes_def S_resumeCampaign_def S_resumeNodes_def
  S_extendSupersedePackage_def S_extendCampaign_def S_retryCampaign_def S_retryNode_def S_retrySiblingNode_def
  S_pauseCampaignNodes_def S_settleCampaignNodes_def S_pauseCampaign_def S_settleCampaign_def S_cancelNodeGuard_def
  S_cancelNodesGuard_def S_cancelOneNode_def S_cancelNodes_def S_cancelNodeStopCampaign_def
  S_recoverLease_def S_recoverLeaseUncertain_def S_recoverLeaseUsage_def S_renewLease_def S_claimNode_def
  S_startNode_def S_startNodeCampaign_def failNodeStatement_def S_failNodeAbandonPrepared_def
  S_failNodePreservePrepared_def settleStatement_def S_settleTerminalSiblingNodes_def
  S_prepareNode_def S_beginIntegrationNode_def S_markIntegratedNode_def Let_def

lemma promoted_row:
  assumes "promoted (contract_promotion rt checks) rel f cid h"
  shows "rel_campaign_id rel = cid" "rel_package_node_id rel = f_node f" "rel_result_hash rel = h"
proof -
  obtain c n now where p: "promotion_receipt (contract_promotion rt checks) c n now = Inr (Some rel)"
    and n: "node_id n = f_node f" "sqlText (prepared_hash n) = h" and c: "\<forall>c'. c = Some c' \<longrightarrow> campaign_id c' = cid"
    using assms by (auto simp: promoted_def)
  obtain res r where r: "contract_promotion rt checks c n res now = Inr r"
    and rel: "rel = r\<lparr>rel_bundle := or_else (jget ''releaseBundle'' res) JNull\<rparr>"
    using p by (auto simp: promotion_receipt_def rbind_Inr_iff split: option.splits if_splits)
  show "rel_campaign_id rel = cid" "rel_package_node_id rel = f_node f" "rel_result_hash rel = h"
    using contract_promotion_row(1-3) [OF r] n c by (auto simp: rel)
qed

lemma releasing_publish:
  assumes "promoted (contract_promotion rt checks) rel f cid h"
  shows "stmt_in releasing (S_publishCurrentRelease rel f cid h)"
proof -
  have "backed rel (db\<lparr>releases := rs\<rparr>)" if "release_backed rel f cid h db" for db rs
    using that promoted_row [OF assms]
    by (fastforce simp: release_backed_def backed_def backing_node_def carries_bundle_def list_ex_iff)
  then show ?thesis
    using kept.inserts_in(5) [of rel f cid h]
    by (auto simp: stmt_in_def releasing_def S_publishCurrentRelease_def kept.store_refl split: if_splits)
qed

text \<open>The promotion of a completed campaign publishes a row of the package node it reads.\<close>

lemma completed_package:
  assumes "S_completedPackage cid db = Some (c, n)"
  shows "c \<in> set (campaigns db)" "n \<in> set (nodes db)" "n_campaign_id n = campaign_id c" "n_kind n = ''package''" "n_status n = Completed"
proof -
  let ?rows = "concat (map (\<lambda>c. map (Pair c) (filter (\<lambda>n. n_campaign_id n = campaign_id c \<and> n_kind n = ''package'' \<and> n_status n = Completed) (nodes db)))
    (filter (\<lambda>c. campaign_id c = cid \<and> c_status c = C_completed) (campaigns db)))"
  have "(c, n) \<in> set (sort_by package_order ?rows)"
    using assms by (cases "sort_by package_order ?rows") (simp_all add: S_completedPackage_def head_option_def)
  then have "(c, n) \<in> set ?rows" by simp
  then show "c \<in> set (campaigns db)" "n \<in> set (nodes db)" "n_campaign_id n = campaign_id c" "n_kind n = ''package''" "n_status n = Completed"
    by auto
qed

lemma promotion_effect:
  "snd (promoteCompletedRelease rt checks promote cid db) = db
    \<or> (\<exists>c n res rel. S_completedPackage cid db = Some (c, n) \<and> result_json n = Some res
        \<and> promote (Some c) (completed_node n) res (promotion_time n) = Inr rel
        \<and> snd (promoteCompletedRelease rt checks promote cid db) = db\<lparr>releases := releases db @ [rel]\<rparr>)"
  by (auto simp: promoteCompletedRelease_def op_bind_def op_read_def op_throw_def op_return_def insert_current_release_def run_def
      S_insertCurrentRelease_def split: sum.splits option.splits)

lemma releasing_promotion: "op_in releasing (promoteCompletedRelease rt checks (contract_promotion rt' checks') cid)"
  unfolding op_in_def
proof
  fix db
  show "releasing db (snd (promoteCompletedRelease rt checks (contract_promotion rt' checks') cid db))"
    using promotion_effect [of rt checks "contract_promotion rt' checks'" cid db]
  proof (elim disjE exE conjE)
    fix c n res rel
    assume read: "S_completedPackage cid db = Some (c, n)" "result_json n = Some res"
      and rel: "contract_promotion rt' checks' (Some c) (completed_node n) res (promotion_time n) = Inr rel"
      and after: "snd (promoteCompletedRelease rt checks (contract_promotion rt' checks') cid db) = db\<lparr>releases := releases db @ [rel]\<rparr>"
    note row = contract_promotion_row [OF rel] and n = completed_package [OF read(1)]
    have "backing_node rel n"
      using row n read(2) by (auto simp: backing_node_def carries_bundle_def completed_node_def)
    then have "backed rel (db\<lparr>releases := releases db @ [rel]\<rparr>)"
      using row(1) n(1,2) by (auto simp: backed_def list_ex_iff)
    moreover have "store_evolves node_kept campaign_kept db (db\<lparr>releases := releases db @ [rel]\<rparr>)"
      using kept.store_refl [of db] by (simp add: store_evolves_def table_evolves_append)
    ultimately show ?thesis by (simp add: after releasing_def)
  qed (simp add: releasing.R_refl)
qed

interpretation release_store: statement_contract releasing rt "contract_promotion rt checks" for rt checks
proof unfold_locales
  note keep = kept.inserts_in kept_creation kept_infrastructure kept_lifecycle kept_leases kept_prepared kept_control
  have same: "stmt_in releasing (S_pauseCampaign reason now cid seen)" "stmt_in releasing (S_pauseCampaignNodes now cid)"
    "stmt_in releasing (S_settleCampaign cst' resumed now reason cid cst seen)"
    "nst \<noteq> Completed \<Longrightarrow> stmt_in releasing (S_settleCampaignNodes nst reason now cid)"
    "stmt_in releasing (S_cancelNodeGuard cid)" "stmt_in releasing (S_cancelNodesGuard ids cid)"
    "stmt_in releasing (S_cancelOneNode reason detail h now i)" "stmt_in releasing (S_cancelNodes ids reason detail h now)"
    "stmt_in releasing (S_cancelNodeStopCampaign now cid seen)" "stmt_in releasing (insert_event e)" "stmt_in releasing (projectCampaign cid now)"
    for reason now cid seen cst' resumed cst nst ids detail h i e
    by (rule releasing_of, (rule keep; assumption?), ((simp only: statement_defs)?, (rule releases_same releases_same_if)+))+
  show "op_in releasing (cancelNode rt be env i reason)" for be env i reason
    by (intro releasing.cancel_node_of_stmts same)
  show "tx_in releasing (tx_seq [required code (S_pauseCampaign reason now cid seen), run (S_pauseCampaignNodes now cid)])"
    for code reason now cid seen
    by (intro releasing.pause_tx_of_stmts same)
  show "tx_in releasing
     (tx_seq [required code (S_settleCampaign cst' resumed now reason cid cst seen), run (S_settleCampaignNodes nst'' reason now cid)])"
    if "(cst', nst'') \<in> {(C_cancelled, Skipped), (C_failed, Failed_terminal), (C_stopped, Skipped)}"
    for cst' nst'' code resumed now reason cid cst seen
    using that by (intro releasing.settle_tx_of_stmts same) auto
  show "stmt_in releasing (failNodeStatement abandon nst' cls detail hash now f)" for abandon nst' cls detail hash now f
    by (rule releasing_of [OF kept_leases(8)]) (cases abandon; simp add: statement_defs releases_same)
  show "stmt_in releasing (S_publishCurrentRelease rel f cid resultHash)"
    if "promoted (contract_promotion rt checks) rel f cid resultHash" for rel f cid resultHash
    using that by (rule releasing_publish)
  show "op_in releasing (promoteCompletedRelease rt checks' (contract_promotion rt checks) cid)" for checks' cid
    by (rule releasing_promotion)
qed (rule releasing_of, (rule kept.inserts_in kept_creation kept_infrastructure kept_lifecycle kept_leases kept_prepared; assumption?),
  ((simp only: statement_defs)?, (rule releases_same releases_same_if)+))+

section \<open>A published release\<close>

text \<open>
  A campaign whose package node is integrated and runs: completing it publishes a release. The
  same release is published by the promotion of the completed campaign when the completion left
  none.
\<close>

definition ex_hash :: string where
  "ex_hash = ''sha256:a''"

definition ex_release_rt :: runtime where
  "ex_release_rt = ex_rt\<lparr>localeCompare := \<lambda>_ _. 0, sha256_hex := \<lambda>_. ''a''\<rparr>"

definition ex_release_checks :: release_checks where
  "ex_release_checks = \<lparr>rc_bundle = (\<lambda>_ _ _. []), rc_record = (\<lambda>_ _. Inr ()), rc_sealed = (\<lambda>_. Inr ())\<rparr>"

definition ex_package_result :: json where
  "ex_package_result = JObj [(''releaseBundle'', JObj [(''campaignReleaseBundleHash'', JStr ''bundle'')]),
    (''campaignReleaseBundleHash'', JStr ''bundle''),
    (''campaignReleaseBundleMaterializationReceiptHash'', JStr ex_hash),
    (''materializationReceipt'', JObj [(''status'', JStr ''campaign_release_bundle_materialized''),
      (''campaignReleaseBundleHash'', JStr ''bundle''), (''campaignReleaseBundleMaterializationReceiptHash'', JStr ex_hash)]),
    (''campaignReleasePackageResultHash'', JStr ex_hash),
    (''workspaceAttemptIntegration'', JObj [(''workspaceAttemptIntegrationDescriptorHash'', JStr ''key'')])]"

definition ex_integration_receipt :: json where
  "ex_integration_receipt = JObj [(''workspaceAttemptIntegrationReceiptHash'', JStr ex_hash), (''descriptorHash'', JStr ''key''),
    (''status'', JStr ''workspace_attempt_integrated'')]"

definition ex_packaging :: db where
  "ex_packaging = ex_db\<lparr>nodes := [ex_running\<lparr>n_kind := ''package'', prep := \<lparr>prepared_result = Some ex_package_result,
    prepared_result_sha256 = Some ex_hash, prepared_attempt_id = Some ''t1'', prepared_at = Some 5,
    prepared_requires_integration = True, prepared_integration_key = Some ''key'',
    prepared_integration_status = Integ_integrated, prepared_integration_started_at = Some 6,
    prepared_integration_receipt = Some ex_integration_receipt,
    prepared_integration_receipt_sha256 = Some ex_hash, prepared_integrated_at = Some 7\<rparr>\<rparr>]\<rparr>"

definition ex_released :: db where
  "ex_released = snd (completeNode ex_release_rt (contract_promotion ex_release_rt ex_release_checks) Native (ex_env 10 ''u'') (ex_env 10 ''v'')
    ex_fence None None ex_usage ex_packaging)"

definition ex_unreleased :: db where
  "ex_unreleased = ex_packaging\<lparr>nodes := map (\<lambda>n. n\<lparr>n_status := Completed, result_json := Some ex_package_result,
      result_sha256 := Some ex_hash, lease_owner := None, lease_expires_at := None\<rparr>) (nodes ex_packaging),
    campaigns := [ex_campaign\<lparr>c_status := C_completed\<rparr>]\<rparr>"

section \<open>Property\<close>

text \<open>
  C31. Nothing is released that was not packaged: whatever operations a history runs, with the
  promotions of the release contract and whatever its verifiers accept, each release published in
  it, by the completion of a node or by the promotion of a completed campaign, rests on a node of
  the present database that is the package node the release names and belongs to the campaign the
  release names, which is of the paper it names. The node is of kind package, completed and
  integrated, has the result hash, the integration key and the integration receipt of the release,
  and its stored result carries the hashes of the release's bundle (its own field, or the one of
  the bundle in it) and materialization. From the empty database this holds of every release.
\<close>

theorem releases_backed:
  assumes "store_steps rt os v (contract_promotion rt checks) db db'"
  shows "list_all (\<lambda>r. r \<in> set (releases db) \<or> backed r db') (releases db')"
  using release_store.steps_in [OF assms] by (simp add: releasing_def list_all_iff)

theorem releases_backed_witness:
  "map rel_bundle_hash (releases ex_released) = [''bundle''] \<and> list_all (\<lambda>r. backed r ex_released) (releases ex_released)
    \<and> (\<exists>db'. store_steps ex_release_rt ex_os ex_verifiers (contract_promotion ex_release_rt ex_release_checks) ex_unreleased db'
        \<and> map rel_package_node_id (releases db') = [''a''] \<and> list_all (\<lambda>r. backed r db') (releases db'))"
proof -
  let ?db' = "snd (promoteCompletedRelease ex_release_rt ex_release_checks (contract_promotion ex_release_rt ex_release_checks) ''c'' ex_unreleased)"
  have first: "store_steps ex_release_rt ex_os ex_verifiers (contract_promotion ex_release_rt ex_release_checks) ex_packaging ex_released"
    unfolding ex_released_def by (rule one_step [OF store_step.complete])
  have second: "store_steps ex_release_rt ex_os ex_verifiers (contract_promotion ex_release_rt ex_release_checks) ex_unreleased ?db'"
    by (rule one_step [OF store_step.promote_release])
  have "map rel_bundle_hash (releases ex_released) = [''bundle'']" by code_simp
  moreover have "map rel_package_node_id (releases ?db') = [''a'']" by code_simp
  moreover have "releases ex_packaging = []" "releases ex_unreleased = []" by code_simp+
  ultimately show ?thesis using releases_backed [OF first] releases_backed [OF second] second by auto
qed

end
