(* ===== verification/Campaign_Graph.thy ===== *)
theory Campaign_Graph
  imports Campaign_Definition
begin

text \<open>
  The node graph of a campaign mode (\<open>campaign-mode-graph.mjs\<close>,
  \<open>campaign-source-closure-graph.mjs\<close>, \<open>gpu-scientific-campaign-graph.mjs\<close>) and the budget
  estimates taken from it (\<open>campaign-mode-resource-budget.mjs\<close>). Rounds, reviewers and
  priorities are whole numbers; a falsy option is 0, the empty string or \<open>None\<close>. The
  verifiers of the two numerical execution plans are the fields of \<open>plan_checks\<close>.
\<close>

section \<open>Nodes\<close>

record node_options =
  o_roundIndex :: nat
  o_priority :: nat
  o_maxAttempts :: nat
  o_role :: string
  o_language :: string
  o_requiresGpu :: bool
  o_nodeIdKind :: string
  o_sourceClosureTerminal :: bool
  o_sourceMutationPolicy :: string
  o_executionIntent :: "json option"
  o_advancedPlanHash :: string
  o_gpuPlanHash :: string
  o_gpuBudgetHash :: string

definition no_options :: node_options where
  "no_options = \<lparr>o_roundIndex = 0, o_priority = 0, o_maxAttempts = 0, o_role = [], o_language = [], o_requiresGpu = False,
    o_nodeIdKind = [], o_sourceClosureTerminal = False, o_sourceMutationPolicy = [], o_executionIntent = None,
    o_advancedPlanHash = [], o_gpuPlanHash = [], o_gpuBudgetHash = []\<rparr>"

record graph_node =
  g_nodeId :: string
  g_kind :: string
  g_roundIndex :: nat
  g_dependencies :: "string list"
  g_priority :: nat
  g_maxAttempts :: nat
  g_role :: "string option"
  g_language :: "string option"
  g_requiresGpu :: bool
  g_sourceClosureTerminal :: bool
  g_sourceMutationPolicy :: "string option"
  g_executionIntent :: "json option"
  g_advancedPlanHash :: "string option"
  g_gpuPlanHash :: "string option"
  g_gpuBudgetHash :: "string option"

definition graph_node_id :: "string \<Rightarrow> nat \<Rightarrow> string \<Rightarrow> string" where
  "graph_node_id cid r kind = cid @ '':'' @ nat_text r @ '':'' @ kind"

definition or_nat :: "nat \<Rightarrow> nat \<Rightarrow> nat" where
  "or_nat n d = (if n = 0 then d else n)"

definition campaignGraphNode :: "string \<Rightarrow> string \<Rightarrow> string list \<Rightarrow> node_options \<Rightarrow> graph_node" where
  "campaignGraphNode cid kind ds opt = \<lparr>
    g_nodeId = graph_node_id cid (o_roundIndex opt) (if o_nodeIdKind opt = [] then kind else o_nodeIdKind opt),
    g_kind = kind, g_roundIndex = o_roundIndex opt, g_dependencies = ds,
    g_priority = or_nat (o_priority opt) 100, g_maxAttempts = or_nat (o_maxAttempts opt) 3,
    g_role = or_null (Some (o_role opt)), g_language = or_null (Some (o_language opt)), g_requiresGpu = o_requiresGpu opt,
    g_sourceClosureTerminal = o_sourceClosureTerminal opt,
    g_sourceMutationPolicy = or_null (Some (o_sourceMutationPolicy opt)),
    g_executionIntent = (if jtruthy (o_executionIntent opt) then o_executionIntent opt else None),
    g_advancedPlanHash = or_null (Some (o_advancedPlanHash opt)), g_gpuPlanHash = or_null (Some (o_gpuPlanHash opt)),
    g_gpuBudgetHash = or_null (Some (o_gpuBudgetHash opt))\<rparr>"

text \<open>The object the function returns; absent spreads leave the key out.\<close>

definition graph_node_json :: "graph_node \<Rightarrow> json" where
  "graph_node_json n = JObj ([(''nodeId'', JStr (g_nodeId n)), (''kind'', JStr (g_kind n)),
      (''roundIndex'', JInt (int (g_roundIndex n))), (''dependencies'', JArr (map JStr (g_dependencies n))),
      (''priority'', JInt (int (g_priority n))), (''maxAttempts'', JInt (int (g_maxAttempts n))),
      (''role'', JOptStr (g_role n)), (''language'', JOptStr (g_language n)), (''requiresGpu'', JBool (g_requiresGpu n))]
    @ (if g_sourceClosureTerminal n then [(''sourceClosureTerminal'', JBool True)] else [])
    @ opt_field ''sourceMutationPolicy'' JStr (g_sourceMutationPolicy n)
    @ opt_field ''executionIntent'' id (g_executionIntent n)
    @ opt_field ''advancedNumericalExecutionPlanHash'' JStr (g_advancedPlanHash n)
    @ opt_field ''gpuScientificExecutionPlanHash'' JStr (g_gpuPlanHash n)
    @ opt_field ''gpuScientificResourceBudgetHash'' JStr (g_gpuBudgetHash n))"

section \<open>Execution profiles and chains\<close>

record execution_profile =
  p_label :: string
  p_language :: string
  p_requiresGpu :: bool

definition empiricalExecutionProfiles :: "string list \<Rightarrow> bool \<Rightarrow> bool \<Rightarrow> execution_profile list" where
  "empiricalExecutionProfiles languages requiresGpu excludeLean =
    map (\<lambda>label. \<lparr>p_label = label, p_language = (if label = ''gpu'' then ''python'' else label),
        p_requiresGpu = (label = ''gpu'' \<or> (requiresGpu \<and> label = ''python''))\<rparr>)
      (filter (\<lambda>l. l \<noteq> ''latex'' \<and> (\<not> excludeLean \<or> l \<noteq> ''lean'')) languages)"

definition profile_suffix :: "execution_profile list \<Rightarrow> execution_profile \<Rightarrow> string" where
  "profile_suffix ps p = (if length ps = 1 then [] else ''-'' @ p_label p)"

definition profile_options :: "json option \<Rightarrow> nat \<Rightarrow> nat \<Rightarrow> execution_profile \<Rightarrow> node_options" where
  "profile_options intent r prio p = no_options\<lparr>o_roundIndex := r, o_priority := prio, o_language := p_language p,
    o_requiresGpu := p_requiresGpu p, o_executionIntent := intent\<rparr>"

abbreviation sealing :: "node_options \<Rightarrow> node_options" where
  "sealing opt \<equiv> opt\<lparr>o_sourceMutationPolicy := ''forbid''\<rparr>"

abbreviation closing :: "node_options \<Rightarrow> node_options" where
  "closing opt \<equiv> opt\<lparr>o_sourceClosureTerminal := True, o_sourceMutationPolicy := ''forbid''\<rparr>"

text \<open>Each chain is coder, empirical run and replay; a chain waits for the replay before it.\<close>

definition empirical_chain :: "string \<Rightarrow> string list \<Rightarrow> execution_profile list \<Rightarrow> json option \<Rightarrow> execution_profile \<Rightarrow> string option
    \<Rightarrow> graph_node \<times> graph_node \<times> graph_node" where
  "empirical_chain cid ds ps intent p previous =
    (let s = profile_suffix ps p;
         coder = campaignGraphNode cid (''coder'' @ s) (case previous of None \<Rightarrow> ds | Some i \<Rightarrow> ds @ [i])
           ((profile_options intent 0 20 p)\<lparr>o_role := ''coder-'' @ p_label p\<rparr>);
         empirical = campaignGraphNode cid (''empirical'' @ s) [g_nodeId coder] (profile_options intent 0 30 p);
         reproduce = campaignGraphNode cid (''empirical-reproduce'' @ s) [g_nodeId empirical]
           (sealing (profile_options intent 0 35 p))
     in (coder, empirical, reproduce))"

fun empirical_chains_from :: "string \<Rightarrow> string list \<Rightarrow> execution_profile list \<Rightarrow> json option \<Rightarrow> string option \<Rightarrow> execution_profile list
    \<Rightarrow> (graph_node \<times> graph_node \<times> graph_node) list" where
  "empirical_chains_from cid ds ps intent previous [] = []"
| "empirical_chains_from cid ds ps intent previous (p # rest) =
    (let chain = empirical_chain cid ds ps intent p previous in
     chain # empirical_chains_from cid ds ps intent (Some (g_nodeId (snd (snd chain)))) rest)"

definition empiricalChains :: "string \<Rightarrow> string list \<Rightarrow> execution_profile list \<Rightarrow> json option
    \<Rightarrow> (graph_node \<times> graph_node \<times> graph_node) list" where
  "empiricalChains cid ds ps intent = empirical_chains_from cid ds ps intent None ps"

definition chain_nodes :: "(graph_node \<times> graph_node \<times> graph_node) list \<Rightarrow> graph_node list" where
  "chain_nodes cs = concat (map (\<lambda>(a, b, c). [a, b, c]) cs)"

definition replay_ids :: "(graph_node \<times> graph_node \<times> graph_node) list \<Rightarrow> string list" where
  "replay_ids cs = map (\<lambda>c. g_nodeId (snd (snd c))) cs"

definition formalVerificationChain :: "string \<Rightarrow> string list \<Rightarrow> json option \<Rightarrow> nat \<Rightarrow> nat \<Rightarrow> string \<Rightarrow> bool \<Rightarrow> graph_node \<times> graph_node" where
  "formalVerificationChain cid ds intent r prio prefix terminal =
    (let base = no_options\<lparr>o_roundIndex := r, o_language := ''lean'', o_executionIntent := intent, o_sourceClosureTerminal := terminal\<rparr>;
         spec = campaignGraphNode cid ''theorem-spec'' ds
           (base\<lparr>o_priority := prio, o_role := ''theorem-spec-author'', o_nodeIdKind := prefix @ ''theorem-spec''\<rparr>);
         verify = campaignGraphNode cid ''formal-verify'' [g_nodeId spec]
           (base\<lparr>o_priority := prio + 2, o_role := ''formal-candidate'', o_nodeIdKind := prefix @ ''formal-verify''\<rparr>)
     in (spec, verify))"

definition sealed_chain :: "string \<Rightarrow> string list \<Rightarrow> execution_profile list \<Rightarrow> json option \<Rightarrow> execution_profile \<Rightarrow> graph_node \<times> graph_node" where
  "sealed_chain cid ds ps intent p =
    (let s = profile_suffix ps p;
         empirical = campaignGraphNode cid (''revalidate-empirical-source-seal'' @ s) ds (closing (profile_options intent 0 96 p));
         reproduce = campaignGraphNode cid (''revalidate-empirical-reproduce-source-seal'' @ s) [g_nodeId empirical]
           (closing (profile_options intent 0 97 p))
     in (empirical, reproduce))"

definition sealedEmpiricalChains :: "string \<Rightarrow> string list \<Rightarrow> execution_profile list \<Rightarrow> json option \<Rightarrow> (graph_node \<times> graph_node) list" where
  "sealedEmpiricalChains cid ds ps intent = map (sealed_chain cid ds ps intent) ps"

definition pair_nodes :: "(graph_node \<times> graph_node) list \<Rightarrow> graph_node list" where
  "pair_nodes cs = concat (map (\<lambda>c. [fst c, snd c]) cs)"

definition formal_nodes :: "(graph_node \<times> graph_node) option \<Rightarrow> graph_node list" where
  "formal_nodes f = (case f of None \<Rightarrow> [] | Some (spec, verify) \<Rightarrow> [spec, verify])"

definition formal_ids :: "(graph_node \<times> graph_node) option \<Rightarrow> string list" where
  "formal_ids f = (case f of None \<Rightarrow> [] | Some (spec, verify) \<Rightarrow> [g_nodeId verify])"

definition opt_list :: "'a option \<Rightarrow> 'a list" where
  "opt_list x = (case x of None \<Rightarrow> [] | Some v \<Rightarrow> [v])"

definition plain :: "json option \<Rightarrow> nat \<Rightarrow> nat \<Rightarrow> node_options" where
  "plain intent r prio = no_options\<lparr>o_roundIndex := r, o_priority := prio, o_executionIntent := intent\<rparr>"

abbreviation latex :: "node_options \<Rightarrow> node_options" where
  "latex opt \<equiv> opt\<lparr>o_language := ''latex''\<rparr>"

text \<open>The dependencies after an optional node: the node when there is one.\<close>

definition after_node :: "string list \<Rightarrow> graph_node option \<Rightarrow> string list" where
  "after_node ds n = (case n of None \<Rightarrow> ds | Some m \<Rightarrow> [g_nodeId m])"

definition if_requested :: "bool \<Rightarrow> 'a \<Rightarrow> 'a option" where
  "if_requested b x = (if b then Some x else None)"

section \<open>Review rounds\<close>

definition referees :: "string \<Rightarrow> string \<Rightarrow> string list \<Rightarrow> json option \<Rightarrow> nat \<Rightarrow> nat \<Rightarrow> nat \<Rightarrow> graph_node list" where
  "referees cid name ds intent r prio reviewers = map (\<lambda>i.
    let k = name @ ''-'' @ nat_text (i + 1) in campaignGraphNode cid k ds ((plain intent r prio)\<lparr>o_role := k\<rparr>)) [0..<reviewers]"

definition revalidation_chain :: "string \<Rightarrow> string \<Rightarrow> execution_profile list \<Rightarrow> json option \<Rightarrow> nat \<Rightarrow> execution_profile
    \<Rightarrow> graph_node \<times> graph_node \<times> graph_node" where
  "revalidation_chain cid anchor ps intent r p =
    (let s = profile_suffix ps p;
         code = campaignGraphNode cid (''revalidate-code'' @ s) [anchor] (sealing (profile_options intent r 80 p));
         empirical = campaignGraphNode cid (''revalidate-empirical'' @ s) [g_nodeId code] (sealing (profile_options intent r 81 p));
         reproduce = campaignGraphNode cid (''revalidate-empirical-reproduce'' @ s) [g_nodeId empirical]
           (sealing (profile_options intent r 82 p))
     in (code, empirical, reproduce))"

record review_state =
  rs_previous :: string
  rs_replays :: "string list"
  rs_formal :: "string list"
  rs_latest_formal :: "string option"
  rs_convergence :: "string list"

text \<open>A round reviews and revises the manuscript, then revalidates the revision.\<close>

definition revision_part :: "string \<Rightarrow> nat \<Rightarrow> json option \<Rightarrow> bool \<Rightarrow> nat \<Rightarrow> review_state
    \<Rightarrow> graph_node list \<times> graph_node \<times> (graph_node \<times> graph_node) option" where
  "revision_part cid reviewers intent formalRequested r s =
    (let refs = referees cid ''referee'' [rs_previous s] intent r 60 reviewers;
         revise = campaignGraphNode cid ''revise''
           (map g_nodeId refs @ (if formalRequested then opt_list (rs_latest_formal s) else []))
           ((plain intent r 70)\<lparr>o_role := ''reviser''\<rparr>)
     in (refs, revise, if_requested formalRequested (formalVerificationChain cid [g_nodeId revise] intent r 74 [] False)))"

definition revision_checks :: "string \<Rightarrow> string \<Rightarrow> json option \<Rightarrow> nat \<Rightarrow> graph_node list" where
  "revision_checks cid anchor intent r =
    [campaignGraphNode cid ''revalidate-compile'' [anchor] (latex (plain intent r 80)),
     campaignGraphNode cid ''revalidate-citations'' [anchor] (latex (plain intent r 80)),
     campaignGraphNode cid ''revalidate-artifacts'' [anchor] (plain intent r 80)]"

definition revalidation_part :: "string \<Rightarrow> nat \<Rightarrow> execution_profile list \<Rightarrow> json option \<Rightarrow> nat \<Rightarrow> string
    \<Rightarrow> (graph_node \<times> graph_node \<times> graph_node) list \<times> graph_node list \<times> graph_node list \<times> graph_node" where
  "revalidation_part cid reviewers ps intent r anchor =
    (let chains = map (revalidation_chain cid anchor ps intent r) ps;
         checks = revision_checks cid anchor intent r;
         second = referees cid ''revision-referee'' (map g_nodeId (chain_nodes chains) @ map g_nodeId checks) intent r 85 reviewers
     in (chains, checks, second, campaignGraphNode cid ''convergence'' (map g_nodeId second) (plain intent r 90)))"

definition after_formal :: "string \<Rightarrow> (graph_node \<times> graph_node) option \<Rightarrow> string" where
  "after_formal i formal = (case formal of None \<Rightarrow> i | Some (_, v) \<Rightarrow> g_nodeId v)"

definition review_round :: "string \<Rightarrow> nat \<Rightarrow> execution_profile list \<Rightarrow> json option \<Rightarrow> bool \<Rightarrow> nat \<Rightarrow> review_state
    \<Rightarrow> graph_node list \<times> review_state" where
  "review_round cid reviewers ps intent formalRequested r s =
    (let (refs, revise, formal) = revision_part cid reviewers intent formalRequested r s;
         (chains, checks, second, convergence) = revalidation_part cid reviewers ps intent r (after_formal (g_nodeId revise) formal)
     in (refs @ [revise] @ formal_nodes formal @ chain_nodes chains @ checks @ second @ [convergence],
         \<lparr>rs_previous = g_nodeId convergence, rs_replays = rs_replays s @ replay_ids chains,
          rs_formal = rs_formal s @ formal_ids formal,
          rs_latest_formal = (case formal of None \<Rightarrow> rs_latest_formal s | Some (_, v) \<Rightarrow> Some (g_nodeId v)),
          rs_convergence = rs_convergence s @ [g_nodeId convergence]\<rparr>))"

fun review_rounds :: "string \<Rightarrow> nat \<Rightarrow> execution_profile list \<Rightarrow> json option \<Rightarrow> bool \<Rightarrow> nat list \<Rightarrow> graph_node list \<Rightarrow> review_state
    \<Rightarrow> graph_node list \<times> review_state" where
  "review_rounds cid reviewers ps intent formalRequested [] nds s = (nds, s)"
| "review_rounds cid reviewers ps intent formalRequested (r # rs) nds s =
    (let (added, s') = review_round cid reviewers ps intent formalRequested r s in
     review_rounds cid reviewers ps intent formalRequested rs (nds @ added) s')"

definition appendReviewRounds :: "graph_node list \<Rightarrow> string \<Rightarrow> string \<Rightarrow> nat \<Rightarrow> nat \<Rightarrow> execution_profile list \<Rightarrow> json option \<Rightarrow> bool
    \<Rightarrow> string list \<Rightarrow> string option \<Rightarrow> graph_node list \<times> review_state" where
  "appendReviewRounds nds cid previous rounds reviewers ps intent formalRequested initialReplays initialFormal =
    review_rounds cid reviewers ps intent formalRequested [1..<rounds + 1] nds
      \<lparr>rs_previous = previous, rs_replays = initialReplays,
       rs_formal = (case initialFormal of None \<Rightarrow> [] | Some i \<Rightarrow> [i]), rs_latest_formal = initialFormal, rs_convergence = []\<rparr>"

section \<open>The full campaign\<close>

definition gpu_budget_payload :: json where
  "gpu_budget_payload = JObj [(''version'', JInt 1), (''kind'', JStr ''GpuScientificCampaignResourceBudget''),
    (''nodeReservation'', JObj [(''agent'', JInt 0), (''cpu'', JInt 1), (''gpu'', JInt 1), (''memoryMiB'', JInt 8192)]),
    (''pdePoisson2d'', JObj [(''timeoutMs'', JInt (15 * 60 * 1000)), (''memoryBytes'', JInt (2 * 1024 ^ 3)), (''cpuSeconds'', JInt 900),
      (''maximumProcesses'', JInt 16), (''maximumOutputBytes'', JInt (8 * 1024 ^ 2))]),
    (''deepLearning'', JObj [(''timeoutMs'', JInt (60 * 60 * 1000)), (''memoryBytes'', JInt (8 * 1024 ^ 3)), (''cpuSeconds'', JInt 3600),
      (''maximumProcesses'', JInt 32), (''maximumOutputBytes'', JInt (2 * 1024 ^ 3))]),
    (''schedulingSemantics'', JStr ''sequential-workers-reserve-maximum-memory-v1'')]"

definition plan_hash :: "runtime \<Rightarrow> string \<Rightarrow> json \<Rightarrow> string" where
  "plan_hash rt key plan = str_or rt (jget key plan)"

definition buildGpuScientificCampaignGraphNode :: "runtime \<Rightarrow> string \<Rightarrow> string list \<Rightarrow> json option \<Rightarrow> json option \<Rightarrow> graph_node option" where
  "buildGpuScientificCampaignGraphNode rt cid ds intent plan = map_option (\<lambda>v.
    campaignGraphNode cid ''gpu-scientific-execution'' ds
      (closing ((plain intent 0 99)\<lparr>o_requiresGpu := True,
        o_gpuPlanHash := plan_hash rt ''gpuScientificCampaignExecutionPlanHash'' v,
        o_gpuBudgetHash := hashRecord rt ''GpuScientificCampaignResourceBudget'' gpu_budget_payload\<rparr>))) plan"

text \<open>The part before the review rounds, node by node in the order of the function.\<close>

definition research_node :: "string \<Rightarrow> json option \<Rightarrow> graph_node" where
  "research_node cid intent = campaignGraphNode cid ''research-plan'' [] (plain intent 0 10)"

definition writer_node :: "string \<Rightarrow> json option \<Rightarrow> graph_node" where
  "writer_node cid intent = campaignGraphNode cid ''writer'' [g_nodeId (research_node cid intent)] ((plain intent 0 20)\<lparr>o_role := ''writer''\<rparr>)"

definition opening_chains :: "string \<Rightarrow> execution_profile list \<Rightarrow> json option \<Rightarrow> (graph_node \<times> graph_node \<times> graph_node) list" where
  "opening_chains cid ps intent = empiricalChains cid [g_nodeId (writer_node cid intent)] ps intent"

definition manuscript_dependencies :: "string \<Rightarrow> execution_profile list \<Rightarrow> json option \<Rightarrow> string list" where
  "manuscript_dependencies cid ps intent = g_nodeId (writer_node cid intent) # replay_ids (opening_chains cid ps intent)"

definition render_authority :: "string \<Rightarrow> execution_profile list \<Rightarrow> json option \<Rightarrow> bool \<Rightarrow> bool \<Rightarrow> (graph_node \<times> graph_node) option" where
  "render_authority cid ps intent integrateManuscript formalRequested = if_requested (formalRequested \<and> integrateManuscript)
    (formalVerificationChain cid (manuscript_dependencies cid ps intent) intent 0 38 ''render-authority-'' False)"

definition integrate_node :: "string \<Rightarrow> execution_profile list \<Rightarrow> json option \<Rightarrow> bool \<Rightarrow> bool \<Rightarrow> graph_node option" where
  "integrate_node cid ps intent integrateManuscript formalRequested = if_requested integrateManuscript
    (campaignGraphNode cid ''manuscript-integrate''
      (manuscript_dependencies cid ps intent @ formal_ids (render_authority cid ps intent integrateManuscript formalRequested))
      ((plain intent 0 40)\<lparr>o_role := ''writer''\<rparr>))"

definition integrated_dependencies :: "string \<Rightarrow> execution_profile list \<Rightarrow> json option \<Rightarrow> bool \<Rightarrow> bool \<Rightarrow> string list" where
  "integrated_dependencies cid ps intent integrateManuscript formalRequested =
    after_node (manuscript_dependencies cid ps intent) (integrate_node cid ps intent integrateManuscript formalRequested)"

definition opening_formal :: "string \<Rightarrow> execution_profile list \<Rightarrow> json option \<Rightarrow> bool \<Rightarrow> bool \<Rightarrow> (graph_node \<times> graph_node) option" where
  "opening_formal cid ps intent integrateManuscript formalRequested = if_requested formalRequested
    (formalVerificationChain cid (integrated_dependencies cid ps intent integrateManuscript formalRequested) intent 0 42 [] False)"

definition initial_compile :: "string \<Rightarrow> execution_profile list \<Rightarrow> json option \<Rightarrow> bool \<Rightarrow> bool \<Rightarrow> graph_node" where
  "initial_compile cid ps intent integrateManuscript formalRequested = campaignGraphNode cid ''compile''
    (after_node (integrated_dependencies cid ps intent integrateManuscript formalRequested)
      (map_option snd (opening_formal cid ps intent integrateManuscript formalRequested))) (latex (plain intent 0 50))"

definition full_opening :: "string \<Rightarrow> execution_profile list \<Rightarrow> json option \<Rightarrow> bool \<Rightarrow> bool \<Rightarrow> graph_node list" where
  "full_opening cid ps intent im fr = [research_node cid intent, writer_node cid intent]
    @ chain_nodes (opening_chains cid ps intent) @ formal_nodes (render_authority cid ps intent im fr)
    @ opt_list (integrate_node cid ps intent im fr) @ formal_nodes (opening_formal cid ps intent im fr) @ [initial_compile cid ps intent im fr]"

text \<open>The part after the rounds, over the state they end in.\<close>

definition closing_formal :: "string \<Rightarrow> json option \<Rightarrow> bool \<Rightarrow> review_state \<Rightarrow> (graph_node \<times> graph_node) option" where
  "closing_formal cid intent formalRequested s =
    if_requested formalRequested (formalVerificationChain cid [rs_previous s] intent 0 94 ''source-closure-'' True)"

definition closing_anchor :: "string \<Rightarrow> json option \<Rightarrow> bool \<Rightarrow> review_state \<Rightarrow> string" where
  "closing_anchor cid intent formalRequested s = after_formal (rs_previous s) (closing_formal cid intent formalRequested s)"

definition closing_chains :: "string \<Rightarrow> execution_profile list \<Rightarrow> json option \<Rightarrow> bool \<Rightarrow> review_state \<Rightarrow> (graph_node \<times> graph_node) list" where
  "closing_chains cid ps intent formalRequested s = sealedEmpiricalChains cid [closing_anchor cid intent formalRequested s] ps intent"

definition closing_replays :: "string \<Rightarrow> execution_profile list \<Rightarrow> json option \<Rightarrow> bool \<Rightarrow> review_state \<Rightarrow> string list" where
  "closing_replays cid ps intent formalRequested s = map (\<lambda>c. g_nodeId (snd c)) (closing_chains cid ps intent formalRequested s)"

definition numerical_dependencies :: "string \<Rightarrow> execution_profile list \<Rightarrow> json option \<Rightarrow> bool \<Rightarrow> review_state \<Rightarrow> string list" where
  "numerical_dependencies cid ps intent formalRequested s =
    (let replays = closing_replays cid ps intent formalRequested s in
     if replays = [] then [closing_anchor cid intent formalRequested s] else replays)"

definition numerical_nodes :: "runtime \<Rightarrow> string \<Rightarrow> execution_profile list \<Rightarrow> json option \<Rightarrow> bool \<Rightarrow> json option \<Rightarrow> json option \<Rightarrow> review_state
    \<Rightarrow> graph_node list" where
  "numerical_nodes rt cid ps intent formalRequested advancedPlan gpuPlan s =
    (let ds = numerical_dependencies cid ps intent formalRequested s in
     opt_list (map_option (\<lambda>plan. campaignGraphNode cid ''advanced-numerical-analysis'' ds
       (closing ((plain intent 0 98)\<lparr>o_advancedPlanHash := plan_hash rt ''advancedNumericalCampaignExecutionPlanHash'' plan\<rparr>))) advancedPlan)
     @ opt_list (buildGpuScientificCampaignGraphNode rt cid ds intent gpuPlan))"

definition final_compile :: "string \<Rightarrow> nat \<Rightarrow> execution_profile list \<Rightarrow> json option \<Rightarrow> bool \<Rightarrow> graph_node list \<Rightarrow> review_state \<Rightarrow> graph_node" where
  "final_compile cid rounds ps intent formalRequested numerical s =
    (let formal = closing_formal cid intent formalRequested s; chains = closing_chains cid ps intent formalRequested s;
         opt = latex (plain intent rounds 100)
     in campaignGraphNode cid ''final-compile''
       (rs_convergence s @ formal_ids formal @ closing_replays cid ps intent formalRequested s @ map g_nodeId numerical)
       (if formal \<noteq> None \<or> chains \<noteq> [] then closing opt else opt))"

definition research_verify_node :: "string \<Rightarrow> nat \<Rightarrow> execution_profile list \<Rightarrow> json option \<Rightarrow> bool \<Rightarrow> bool \<Rightarrow> graph_node list \<Rightarrow> string list
    \<Rightarrow> review_state \<Rightarrow> graph_node option" where
  "research_verify_node cid rounds ps intent formalRequested researchRequired numerical authorityIds s =
    if_requested researchRequired (campaignGraphNode cid ''research-verify''
      (g_nodeId (final_compile cid rounds ps intent formalRequested numerical s)
        # (authorityIds @ rs_formal s @ formal_ids (closing_formal cid intent formalRequested s))
        @ (rs_replays s @ closing_replays cid ps intent formalRequested s) @ map g_nodeId numerical)
      (plain intent (rounds + 1) 105))"

definition package_node :: "string \<Rightarrow> nat \<Rightarrow> json option \<Rightarrow> graph_node \<Rightarrow> graph_node option \<Rightarrow> graph_node" where
  "package_node cid rounds intent final research = campaignGraphNode cid ''package''
    (g_nodeId final # map g_nodeId (opt_list research)) (plain intent (rounds + 1) 110)"

definition full_closing :: "runtime \<Rightarrow> string \<Rightarrow> nat \<Rightarrow> execution_profile list \<Rightarrow> json option \<Rightarrow> bool \<Rightarrow> bool \<Rightarrow> json option \<Rightarrow> json option
    \<Rightarrow> string list \<Rightarrow> review_state \<Rightarrow> graph_node list" where
  "full_closing rt cid rounds ps intent fr rr advancedPlan gpuPlan authorityIds s =
    (let numerical = numerical_nodes rt cid ps intent fr advancedPlan gpuPlan s;
         final = final_compile cid rounds ps intent fr numerical s;
         research = research_verify_node cid rounds ps intent fr rr numerical authorityIds s
     in formal_nodes (closing_formal cid intent fr s) @ pair_nodes (closing_chains cid ps intent fr s)
       @ numerical @ [final] @ opt_list research @ [package_node cid rounds intent final research])"

definition full_review :: "string \<Rightarrow> nat \<Rightarrow> nat \<Rightarrow> execution_profile list \<Rightarrow> json option \<Rightarrow> bool \<Rightarrow> bool \<Rightarrow> graph_node list \<times> review_state" where
  "full_review cid rounds reviewers ps intent im fr = appendReviewRounds (full_opening cid ps intent im fr) cid
    (g_nodeId (initial_compile cid ps intent im fr)) rounds reviewers ps intent fr (replay_ids (opening_chains cid ps intent))
    (map_option (\<lambda>f. g_nodeId (snd f)) (opening_formal cid ps intent im fr))"

definition appendFullCampaign :: "runtime \<Rightarrow> string \<Rightarrow> nat \<Rightarrow> nat \<Rightarrow> execution_profile list \<Rightarrow> json option \<Rightarrow> bool \<Rightarrow> bool \<Rightarrow> bool
    \<Rightarrow> json option \<Rightarrow> json option \<Rightarrow> graph_node list" where
  "appendFullCampaign rt cid rounds reviewers ps intent integrateManuscript formalRequested researchRequired advancedPlan gpuPlan =
    (let (nds, s) = full_review cid rounds reviewers ps intent integrateManuscript formalRequested
     in nds @ full_closing rt cid rounds ps intent formalRequested researchRequired advancedPlan gpuPlan
       (formal_ids (render_authority cid ps intent integrateManuscript formalRequested)) s)"

section \<open>The other modes\<close>

definition preflight :: "string \<Rightarrow> json option \<Rightarrow> bool \<Rightarrow> graph_node option" where
  "preflight cid intent formalRequested = if_requested formalRequested (campaignGraphNode cid ''compile'' [] (latex (plain intent 0 10)))"

definition prepared_formal :: "string \<Rightarrow> json option \<Rightarrow> bool \<Rightarrow> (graph_node \<times> graph_node) option" where
  "prepared_formal cid intent formalRequested =
    map_option (\<lambda>n. formalVerificationChain cid [g_nodeId n] intent 0 20 [] True) (preflight cid intent formalRequested)"

definition prepared_final :: "string \<Rightarrow> json option \<Rightarrow> bool \<Rightarrow> graph_node" where
  "prepared_final cid intent formalRequested =
    (let opt = latex (plain intent 0 (if formalRequested then 30 else 10)) in
     campaignGraphNode cid ''final-compile'' (formal_ids (prepared_formal cid intent formalRequested))
       (if formalRequested then closing opt else opt))"

definition prepared_research :: "string \<Rightarrow> json option \<Rightarrow> bool \<Rightarrow> graph_node" where
  "prepared_research cid intent formalRequested = campaignGraphNode cid ''research-verify''
    (g_nodeId (prepared_final cid intent formalRequested) # formal_ids (prepared_formal cid intent formalRequested))
    (plain intent 0 (if formalRequested then 30 else 20))"

definition prepared_referees :: "string \<Rightarrow> json option \<Rightarrow> bool \<Rightarrow> nat \<Rightarrow> bool \<Rightarrow> graph_node list" where
  "prepared_referees cid intent formalRequested reviewers includeReferees =
    (if includeReferees then referees cid ''referee'' [g_nodeId (prepared_final cid intent formalRequested)] intent 1
       (if formalRequested then 40 else 30) reviewers else [])"

definition prepared_package :: "string \<Rightarrow> json option \<Rightarrow> bool \<Rightarrow> nat \<Rightarrow> bool \<Rightarrow> graph_node" where
  "prepared_package cid intent formalRequested reviewers includeReferees = campaignGraphNode cid ''package''
    ([g_nodeId (prepared_final cid intent formalRequested), g_nodeId (prepared_research cid intent formalRequested)]
      @ map g_nodeId (prepared_referees cid intent formalRequested reviewers includeReferees))
    (plain intent (if includeReferees then 2 else 1)
      (if formalRequested then (if includeReferees then 50 else 40) else (if includeReferees then 40 else 30)))"

definition appendPackagePreparation :: "string \<Rightarrow> json option \<Rightarrow> bool \<Rightarrow> nat \<Rightarrow> bool \<Rightarrow> graph_node list" where
  "appendPackagePreparation cid intent formalRequested reviewers includeReferees =
    opt_list (preflight cid intent formalRequested) @ formal_nodes (prepared_formal cid intent formalRequested)
    @ [prepared_final cid intent formalRequested, prepared_research cid intent formalRequested]
    @ prepared_referees cid intent formalRequested reviewers includeReferees
    @ [prepared_package cid intent formalRequested reviewers includeReferees]"

lemmas package_preparation = appendPackagePreparation_def preflight_def prepared_formal_def prepared_final_def prepared_research_def
  prepared_referees_def prepared_package_def

definition research_verify_nodes :: "string \<Rightarrow> json option \<Rightarrow> bool \<Rightarrow> graph_node list" where
  "research_verify_nodes cid intent formalRequested =
    (let formal = if_requested formalRequested (formalVerificationChain cid [] intent 0 10 [] False) in
     formal_nodes formal @ [campaignGraphNode cid ''research-verify'' (formal_ids formal) (plain intent 0 (if formalRequested then 20 else 10))])"

definition referee_revise_nodes :: "string \<Rightarrow> nat \<Rightarrow> json option \<Rightarrow> bool \<Rightarrow> graph_node list" where
  "referee_revise_nodes cid reviewers intent formalRequested =
    (let refs = referees cid ''referee'' [] intent 1 10 reviewers;
         revise = campaignGraphNode cid ''revise'' (map g_nodeId refs) ((plain intent 1 20)\<lparr>o_role := ''reviser''\<rparr>);
         formal = if_requested formalRequested (formalVerificationChain cid [g_nodeId revise] intent 1 24 [] False);
         anchor = after_formal (g_nodeId revise) formal;
         compile = campaignGraphNode cid ''revalidate-compile'' [anchor] (latex (plain intent 1 30));
         citations = campaignGraphNode cid ''revalidate-citations'' [anchor] (latex (plain intent 1 30));
         artifacts = campaignGraphNode cid ''revalidate-artifacts'' [anchor] (plain intent 1 30);
         final = campaignGraphNode cid ''final-compile'' [g_nodeId compile, g_nodeId citations, g_nodeId artifacts] (latex (plain intent 1 40))
     in refs @ [revise] @ formal_nodes formal @ [compile, citations, artifacts, final])"

definition empirical_analysis_nodes :: "string \<Rightarrow> execution_profile list \<Rightarrow> json option \<Rightarrow> bool \<Rightarrow> graph_node list" where
  "empirical_analysis_nodes cid ps intent applyManuscript =
    (let research = campaignGraphNode cid ''research-plan'' [] (plain intent 0 10);
         chains = empiricalChains cid [g_nodeId research] ps intent;
         integrate = campaignGraphNode cid ''manuscript-integrate'' (replay_ids chains) ((plain intent 0 40)\<lparr>o_role := ''writer''\<rparr>);
         final = campaignGraphNode cid ''final-compile'' [g_nodeId integrate] (latex (plain intent 0 50))
     in [research] @ chain_nodes chains @ (if applyManuscript then [integrate, final] else []))"

definition review_loop_opening :: "string \<Rightarrow> execution_profile list \<Rightarrow> json option \<Rightarrow> bool \<Rightarrow> bool \<Rightarrow> graph_node list \<times> string list" where
  "review_loop_opening cid ps intent empiricalRequested applyManuscript =
    (if empiricalRequested then
       (let research = campaignGraphNode cid ''research-plan'' [] (plain intent 0 10);
            chains = empiricalChains cid [g_nodeId research] ps intent;
            integrate = campaignGraphNode cid ''manuscript-integrate'' (replay_ids chains) ((plain intent 0 40)\<lparr>o_role := ''writer''\<rparr>)
        in if applyManuscript then (research # chain_nodes chains @ [integrate], [g_nodeId integrate])
           else (research # chain_nodes chains, replay_ids chains))
     else ([], []))"

definition review_loop_nodes :: "string \<Rightarrow> nat \<Rightarrow> nat \<Rightarrow> execution_profile list \<Rightarrow> json option \<Rightarrow> bool \<Rightarrow> bool \<Rightarrow> bool \<Rightarrow> graph_node list" where
  "review_loop_nodes cid rounds reviewers ps intent empiricalRequested applyManuscript formalRequested =
    (let (opening, ds) = review_loop_opening cid ps intent empiricalRequested applyManuscript;
         compile = campaignGraphNode cid ''compile'' ds (latex (plain intent 0 50));
         (nds, rv) = appendReviewRounds (opening @ [compile]) cid (g_nodeId compile) rounds reviewers
           (if empiricalRequested then ps else []) intent formalRequested [] None
     in nds @ [campaignGraphNode cid ''final-compile'' [rs_previous rv] (latex (plain intent rounds 100))])"

record plan_checks =
  advanced_plan_check :: "json \<Rightarrow> string \<Rightarrow> unit result"
  gpu_plan_check :: "json \<Rightarrow> string \<Rightarrow> unit result"

record mode_request =
  mr_campaignId :: string
  mr_mode :: string
  mr_rounds :: nat
  mr_reviewers :: nat
  mr_profiles :: "execution_profile list"
  mr_intent :: "json option"
  mr_empirical :: bool
  mr_applyManuscript :: bool
  mr_formal :: bool
  mr_research :: bool
  mr_advancedPlan :: "json option"
  mr_gpuPlan :: "json option"

definition mode_nodes :: "runtime \<Rightarrow> mode_request \<Rightarrow> graph_node list result" where
  "mode_nodes rt q =
    (let cid = mr_campaignId q; ps = mr_profiles q; intent = mr_intent q in
     if mr_mode q = ''full-campaign'' then
       Inr (appendFullCampaign rt cid (mr_rounds q) (mr_reviewers q) ps intent True (mr_formal q) (mr_research q) (mr_advancedPlan q) (mr_gpuPlan q))
     else if mr_mode q = ''local-build'' then Inr [campaignGraphNode cid ''compile'' [] (latex (plain intent 0 10))]
     else if mr_mode q = ''local-package'' \<or> mr_mode q = ''reviewed-submit'' then
       Inr (appendPackagePreparation cid intent (mr_formal q) 0 False)
     else if mr_mode q = ''research-verify'' then Inr (research_verify_nodes cid intent (mr_formal q))
     else if mr_mode q = ''referee-review'' then Inr (referees cid ''referee'' [] intent 1 10 (mr_reviewers q))
     else if mr_mode q = ''referee-revise'' then Inr (referee_revise_nodes cid (mr_reviewers q) intent (mr_formal q))
     else if mr_mode q = ''empirical-analysis'' then
       (if ps = [] then Inl ''campaign_empirical_mode_requires_non_latex_language''
        else Inr (empirical_analysis_nodes cid ps intent (mr_applyManuscript q)))
     else if mr_mode q = ''local-review-loop'' then
       (if mr_empirical q \<and> ps = [] then Inl ''campaign_empirical_mode_requires_non_latex_language''
        else Inr (review_loop_nodes cid (mr_rounds q) (mr_reviewers q) ps intent (mr_empirical q) (mr_applyManuscript q) (mr_formal q)))
     else if mr_mode q = ''local-dry-run'' then Inr (appendPackagePreparation cid intent (mr_formal q) (mr_reviewers q) True)
     else Inr [])"

definition buildCampaignModeNodes :: "runtime \<Rightarrow> plan_checks \<Rightarrow> mode_request \<Rightarrow> graph_node list result" where
  "buildCampaignModeNodes rt pc q =
    rbind (case mr_advancedPlan q of None \<Rightarrow> Inr () | Some plan \<Rightarrow> advanced_plan_check pc plan (mr_campaignId q)) (\<lambda>_.
    rbind (case mr_gpuPlan q of None \<Rightarrow> Inr () | Some plan \<Rightarrow> gpu_plan_check pc plan (mr_campaignId q)) (\<lambda>_.
    mode_nodes rt q))"

section \<open>Budget estimates\<close>

definition all_digits_after :: "string \<Rightarrow> string \<Rightarrow> bool" where
  "all_digits_after prefix s = (take (length prefix) s = prefix \<and> all_digits (drop (length prefix) s))"

definition plannedAgentNode :: "string \<Rightarrow> bool" where
  "plannedAgentNode kind = (kind \<in> {''research-plan'', ''writer'', ''theorem-spec'', ''manuscript-integrate'', ''revise''}
    \<or> kind = ''coder'' \<or> take 6 kind = ''coder-''
    \<or> all_digits_after ''referee-'' kind \<or> all_digits_after ''revision-referee-'' kind)"

definition planned_attempts :: "graph_node \<Rightarrow> nat" where
  "planned_attempts n = max 1 (or_nat (g_maxAttempts n) 1)"

definition plannedAgentCallUpperBound :: "graph_node list \<Rightarrow> nat" where
  "plannedAgentCallUpperBound ns = sum_list (map (\<lambda>n.
    (if plannedAgentNode (g_kind n) then planned_attempts n else 0)
    + (if g_kind n = ''formal-verify'' then 6 * planned_attempts n else 0)) ns)"

text \<open>\<open>/^(?:revalidate-)?empirical(?:-reproduce)?(?:-|$)/\<close> on the dash-separated words of a kind.\<close>

definition benchmarkExecutionNode :: "graph_node \<Rightarrow> bool" where
  "benchmarkExecutionNode n = (case split_on CHR ''-'' (g_kind n) of
      w # ws \<Rightarrow> w = ''empirical'' \<or> (w = ''revalidate'' \<and> ws \<noteq> [] \<and> hd ws = ''empirical'') | [] \<Rightarrow> False)"

fun text_includes :: "string \<Rightarrow> string \<Rightarrow> bool" where
  "text_includes [] w = (w = [])"
| "text_includes (c # cs) w = (take (length w) (c # cs) = w \<or> text_includes cs w)"

definition benchmark_process_count :: "runtime \<Rightarrow> json \<Rightarrow> rat option" where
  "benchmark_process_count rt selector =
    (let design = or_else (jget ''experimentDesign'' selector) (JObj []) in
     if jget ''selectorType'' selector = Some (JStr ''authorized_dataset_mount'')
     then map_option (\<lambda>q. rat_of_nat (case jget ''seedSchedule'' design of Some (JArr vs) \<Rightarrow> length vs | _ \<Rightarrow> 0) * q * 3)
       (js_number rt (Some (or_else (jget ''minimumRepetitions'' design) (JNum 0))))
     else Some 3)"

definition cell_jobs :: "rat \<Rightarrow> graph_node \<Rightarrow> rat" where
  "cell_jobs processCount n = processCount * rat_of_nat (planned_attempts n) * (if text_includes (g_kind n) ''reproduce'' then 2 else 3)"

definition jobs_total :: "rat option \<Rightarrow> graph_node list \<Rightarrow> rat option" where
  "jobs_total processes cells = (if cells = [] then Some 0 else map_option (\<lambda>c. sum_list (map (cell_jobs c) cells)) processes)"

definition plannedBenchmarkCellJobUpperBounds :: "runtime \<Rightarrow> graph_node list \<Rightarrow> json option \<Rightarrow> rat option \<times> rat option" where
  "plannedBenchmarkCellJobUpperBounds rt ns selector = (case selector of None \<Rightarrow> (Some 0, Some 0)
    | Some sel \<Rightarrow> let processes = benchmark_process_count rt sel; cells = filter benchmarkExecutionNode ns in
        (jobs_total processes cells, jobs_total processes (filter g_requiresGpu cells)))"

end
