(* ===== verification/Graph_Order.thy ===== *)
theory Graph_Order
  imports Campaign_Graph
begin

text \<open>
  The shape of the graphs: every node waits only for nodes listed before it, and no two nodes
  share an id. Both are shown block by block, in the order in which the modes append them.
\<close>

section \<open>Node ids\<close>

lemma nat_text_inj [simp]: "nat_text m = nat_text n \<longleftrightarrow> m = n"
  by (metis nat_text_value)

lemma prefix_until:
  assumes "x @ c # y = x' @ c # y'" "c \<notin> set x" "c \<notin> set x'"
  shows "x = x' \<and> y = y'"
proof -
  have cut: "takeWhile (\<lambda>d. d \<noteq> c) (u @ c # v) = u" if "c \<notin> set u" for u v
    using that by (induction u) auto
  have "x = x'" using cut [OF assms(2), of y] cut [OF assms(3), of y'] assms(1) by simp
  then show ?thesis using assms(1) by simp
qed

lemma graph_node_id_eq [simp]: "graph_node_id cid r k = graph_node_id cid r' k' \<longleftrightarrow> r = r' \<and> k = k'"
  using prefix_until [of "nat_text r" "CHR '':''" k "nat_text r'" k'] all_digits_no_colon [OF nat_text_digits]
  by (auto simp: graph_node_id_def)

lemma graph_node_id_nonempty [simp]: "graph_node_id cid r k \<noteq> []"
  by (simp add: graph_node_id_def)

lemma campaignGraphNode_fields [simp]:
  "g_nodeId (campaignGraphNode cid kind ds opt) =
    graph_node_id cid (o_roundIndex opt) (if o_nodeIdKind opt = [] then kind else o_nodeIdKind opt)"
  "g_kind (campaignGraphNode cid kind ds opt) = kind"
  "g_dependencies (campaignGraphNode cid kind ds opt) = ds"
  "g_sourceClosureTerminal (campaignGraphNode cid kind ds opt) = o_sourceClosureTerminal opt"
  "g_sourceMutationPolicy (campaignGraphNode cid kind ds opt) = or_null (Some (o_sourceMutationPolicy opt))"
  by (simp_all add: campaignGraphNode_def)

lemma option_fields [simp]:
  "o_roundIndex (plain i r p) = r" "o_nodeIdKind (plain i r p) = []" "\<not> o_sourceClosureTerminal (plain i r p)"
  "o_sourceMutationPolicy (plain i r p) = []"
  "o_roundIndex (profile_options i r p x) = r" "o_nodeIdKind (profile_options i r p x) = []"
  "\<not> o_sourceClosureTerminal (profile_options i r p x)" "o_sourceMutationPolicy (profile_options i r p x) = []"
  "o_sourceMutationPolicy no_options = []" "o_nodeIdKind no_options = []"
  by (simp_all add: plain_def profile_options_def no_options_def)

section \<open>Dependencies come first\<close>

abbreviation ids :: "graph_node list \<Rightarrow> string set" where
  "ids ns \<equiv> g_nodeId ` set ns"

fun scheduled :: "string set \<Rightarrow> graph_node list \<Rightarrow> bool" where
  "scheduled S [] = True"
| "scheduled S (n # ns) = (set (g_dependencies n) \<subseteq> S \<and> scheduled (insert (g_nodeId n) S) ns)"

lemma scheduled_append [simp]: "scheduled S (xs @ ys) \<longleftrightarrow> scheduled S xs \<and> scheduled (S \<union> ids xs) ys"
  by (induction xs arbitrary: S) auto

lemma scheduled_mono: "scheduled S xs \<Longrightarrow> S \<subseteq> T \<Longrightarrow> scheduled T xs"
  by (induction xs arbitrary: S T) (auto, meson insert_mono)

lemma scheduled_flat: "(\<And>n. n \<in> set xs \<Longrightarrow> set (g_dependencies n) \<subseteq> S) \<Longrightarrow> scheduled S xs"
proof (induction xs arbitrary: S)
  case (Cons n ns)
  then have "scheduled (insert (g_nodeId n) S) ns" by (metis list.set_intros(2) subset_insertI2)
  with Cons.prems show ?case by simp
qed simp

lemma scheduled_concat:
  "(\<And>x T. x \<in> set xs \<Longrightarrow> S \<subseteq> T \<Longrightarrow> scheduled T (f x)) \<Longrightarrow> scheduled S (concat (map f xs))"
proof (induction xs arbitrary: S)
  case (Cons x xs)
  have "scheduled (S \<union> ids (f x)) (concat (map f xs))"
    using Cons.prems by (intro Cons.IH) auto
  then show ?case using Cons.prems [of x S] by simp
qed simp

text \<open>A dependency is listed before the node that waits for it.\<close>

lemma scheduled_nth:
  "scheduled S ns \<Longrightarrow> i < length ns \<Longrightarrow> d \<in> set (g_dependencies (ns ! i)) \<Longrightarrow> d \<in> S \<or> (\<exists>j<i. g_nodeId (ns ! j) = d)"
proof (induction ns arbitrary: S i)
  case (Cons n ns)
  show ?case
  proof (cases i)
    case (Suc k)
    with Cons have "d \<in> insert (g_nodeId n) S \<or> (\<exists>j<k. g_nodeId (ns ! j) = d)" by auto
    then show ?thesis
    proof (elim disjE exE conjE)
      fix j assume "j < k" "g_nodeId (ns ! j) = d"
      with Suc have "Suc j < i" "g_nodeId ((n # ns) ! Suc j) = d" by auto
      then show ?thesis by blast
    qed (use Suc in auto)
  qed (use Cons in auto)
qed simp

section \<open>Blocks in order\<close>

lemma block_simps [simp]:
  "chain_nodes [] = []" "chain_nodes (c # cs) = [fst c, fst (snd c), snd (snd c)] @ chain_nodes cs"
  "pair_nodes [] = []" "pair_nodes (d # ds) = [fst d, snd d] @ pair_nodes ds"
  "replay_ids [] = []" "replay_ids (c # cs) = g_nodeId (snd (snd c)) # replay_ids cs"
  "formal_nodes None = []" "formal_nodes (Some f) = [fst f, snd f]" "formal_ids None = []" "formal_ids (Some f) = [g_nodeId (snd f)]"
  "opt_list None = []" "opt_list (Some x) = [x]"
  by (auto simp: chain_nodes_def pair_nodes_def replay_ids_def formal_nodes_def formal_ids_def opt_list_def split: prod.splits)

lemma after_node_simps [simp]: "after_node ds None = ds" "after_node ds (Some n) = [g_nodeId n]"
  by (simp_all add: after_node_def)

lemma if_requested_simps [simp]: "if_requested True x = Some x" "if_requested False x = None"
  by (simp_all add: if_requested_def)

lemma scheduled_referees: "set ds \<subseteq> S \<Longrightarrow> scheduled S (referees cid name ds i r p k)"
  by (rule scheduled_flat) (auto simp: referees_def Let_def)

lemma scheduled_formal:
  "set ds \<subseteq> S \<Longrightarrow> scheduled S (formal_nodes (if_requested b (formalVerificationChain cid ds i r p prefix t)))"
  by (cases b) (auto simp: formalVerificationChain_def Let_def)

lemma replay_ids_subset: "set (replay_ids cs) \<subseteq> ids (chain_nodes cs)"
  by (induction cs) auto

lemma formal_ids_subset: "set (formal_ids f) \<subseteq> ids (formal_nodes f)"
  by (cases f) auto

lemma scheduled_chains:
  "set ds \<subseteq> S \<Longrightarrow> (\<And>i. previous = Some i \<Longrightarrow> i \<in> S) \<Longrightarrow> scheduled S (chain_nodes (empirical_chains_from cid ds ps intent previous qs))"
proof (induction qs arbitrary: previous S)
  case (Cons q qs)
  define c where "c = empirical_chain cid ds ps intent q previous"
  have "scheduled S (chain_nodes [c])"
    using Cons.prems by (auto simp: c_def empirical_chain_def Let_def split: option.splits)
  moreover have "scheduled (S \<union> ids (chain_nodes [c])) (chain_nodes (empirical_chains_from cid ds ps intent (Some (g_nodeId (snd (snd c)))) qs))"
    using Cons.prems(1) replay_ids_subset [of "[c]"] by (intro Cons.IH) auto
  ultimately show ?case by (simp add: c_def [symmetric] Let_def insert_commute)
qed simp

lemma scheduled_empirical: "set ds \<subseteq> S \<Longrightarrow> scheduled S (chain_nodes (empiricalChains cid ds ps intent))"
  unfolding empiricalChains_def by (rule scheduled_chains) auto

lemma scheduled_revalidation:
  "anchor \<in> S \<Longrightarrow> scheduled S (chain_nodes (map (revalidation_chain cid anchor ps i r) qs))"
  by (induction qs arbitrary: S) (auto simp: revalidation_chain_def Let_def)

lemma scheduled_sealed:
  "set ds \<subseteq> S \<Longrightarrow> scheduled S (pair_nodes (map (sealed_chain cid ds ps i) qs))"
  by (induction qs arbitrary: S) (auto simp: sealed_chain_def Let_def subset_insertI2)

text \<open>What the review state refers to.\<close>

definition state_ids :: "review_state \<Rightarrow> string set" where
  "state_ids s = {rs_previous s} \<union> set (rs_replays s) \<union> set (rs_formal s) \<union> set (opt_list (rs_latest_formal s)) \<union> set (rs_convergence s)"

lemma after_formal_in: "after_formal i formal \<in> insert i (ids (formal_nodes formal))"
  by (cases formal) (auto simp: after_formal_def)

lemma revision_scheduled:
  assumes "revision_part cid reviewers i fr r s = (refs, revise, formal)" "state_ids s \<subseteq> S"
  shows "scheduled S (refs @ [revise] @ formal_nodes formal)"
proof -
  have parts: "refs = referees cid ''referee'' [rs_previous s] i r 60 reviewers"
    "g_dependencies revise = map g_nodeId refs @ (if fr then opt_list (rs_latest_formal s) else [])"
    "formal = if_requested fr (formalVerificationChain cid [g_nodeId revise] i r 74 [] False)"
    using assms(1) by (auto simp: revision_part_def Let_def)
  have "scheduled S refs" using assms(2) unfolding parts(1) by (intro scheduled_referees) (auto simp: state_ids_def)
  moreover have "scheduled (S \<union> ids refs) [revise]" using assms(2) by (cases fr) (auto simp: parts(2) state_ids_def)
  moreover have "scheduled (S \<union> ids (refs @ [revise])) (formal_nodes formal)"
    unfolding parts(3) by (rule scheduled_formal) auto
  ultimately show ?thesis by (simp add: Un_assoc)
qed

lemma revalidation_scheduled:
  assumes "revalidation_part cid reviewers ps i r anchor = (cs, checks, second, convergence)" "anchor \<in> S"
  shows "scheduled S (chain_nodes cs @ checks @ second @ [convergence])"
proof -
  have parts: "cs = map (revalidation_chain cid anchor ps i r) ps" "checks = revision_checks cid anchor i r"
    "second = referees cid ''revision-referee'' (map g_nodeId (chain_nodes cs) @ map g_nodeId checks) i r 85 reviewers"
    "g_dependencies convergence = map g_nodeId second"
    using assms(1) by (auto simp: revalidation_part_def Let_def)
  have "scheduled S (chain_nodes cs)" unfolding parts(1) by (rule scheduled_revalidation [OF assms(2)])
  moreover have "scheduled (S \<union> ids (chain_nodes cs)) checks"
    using assms(2) unfolding parts(2) by (intro scheduled_flat) (auto simp: revision_checks_def)
  moreover have "scheduled (S \<union> ids (chain_nodes cs @ checks)) second" unfolding parts(3) by (rule scheduled_referees) auto
  moreover have "scheduled (S \<union> ids (chain_nodes cs @ checks @ second)) [convergence]" by (auto simp: parts(4))
  ultimately show ?thesis by (simp only: scheduled_append set_append image_Un Un_assoc simp_thms)
qed

lemma review_round_scheduled:
  assumes "review_round cid reviewers ps i fr r s = (added, s')" "state_ids s \<subseteq> S"
  shows "scheduled S added \<and> state_ids s' \<subseteq> S \<union> ids added"
proof -
  obtain refs revise formal where first: "revision_part cid reviewers i fr r s = (refs, revise, formal)" by (metis prod_cases3)
  obtain cs checks second convergence where
    rest: "revalidation_part cid reviewers ps i r (after_formal (g_nodeId revise) formal) = (cs, checks, second, convergence)"
    by (metis prod_cases4)
  have res: "added = (refs @ [revise] @ formal_nodes formal) @ (chain_nodes cs @ checks @ second @ [convergence])"
    "s' = \<lparr>rs_previous = g_nodeId convergence, rs_replays = rs_replays s @ replay_ids cs,
      rs_formal = rs_formal s @ formal_ids formal,
      rs_latest_formal = (case formal of None \<Rightarrow> rs_latest_formal s | Some (_, v) \<Rightarrow> Some (g_nodeId v)),
      rs_convergence = rs_convergence s @ [g_nodeId convergence]\<rparr>"
    using assms(1) by (auto simp: review_round_def first rest Let_def)
  have "scheduled (S \<union> ids (refs @ [revise] @ formal_nodes formal)) (chain_nodes cs @ checks @ second @ [convergence])"
    using after_formal_in [of "g_nodeId revise" formal] by (intro revalidation_scheduled [OF rest]) auto
  then have "scheduled S added"
    using revision_scheduled [OF first assms(2)] unfolding res(1) by (subst scheduled_append) blast
  moreover have "set (replay_ids cs) \<subseteq> ids added" using replay_ids_subset [of cs] unfolding res(1) by auto
  moreover have "set (formal_ids formal) \<subseteq> ids added" using formal_ids_subset [of formal] unfolding res(1) by auto
  moreover have "g_nodeId convergence \<in> ids added" by (simp add: res(1))
  ultimately show ?thesis
    using assms(2) by (cases formal) (auto simp: state_ids_def res(2))
qed

lemma review_rounds_scheduled:
  "review_rounds cid reviewers ps i fr rs nds s = (ns, s') \<Longrightarrow> scheduled {} nds \<Longrightarrow> state_ids s \<subseteq> ids nds
    \<Longrightarrow> scheduled {} ns \<and> state_ids s' \<subseteq> ids ns"
proof (induction rs arbitrary: nds s)
  case (Cons r rs)
  obtain added t where t: "review_round cid reviewers ps i fr r s = (added, t)" by fastforce
  have "scheduled (ids nds) added \<and> state_ids t \<subseteq> ids nds \<union> ids added"
    by (rule review_round_scheduled [OF t Cons.prems(3)])
  then have "scheduled {} (nds @ added) \<and> state_ids t \<subseteq> ids (nds @ added)" using Cons.prems(2) by auto
  then show ?case using Cons.IH Cons.prems(1) by (simp add: t)
qed simp

lemma review_rounds_extends:
  "review_rounds cid reviewers ps i fr rs nds s = (ns, s') \<Longrightarrow> \<exists>added. ns = nds @ added"
proof (induction rs arbitrary: nds s)
  case (Cons r rs)
  then show ?case by (fastforce simp: Let_def split: prod.splits)
qed simp

text \<open>The parts of the full campaign.\<close>

lemma opening_ids [simp]: "g_nodeId (research_node cid i) = graph_node_id cid 0 ''research-plan''"
  "g_nodeId (writer_node cid i) = graph_node_id cid 0 ''writer''"
  by (simp_all add: research_node_def writer_node_def)

lemma opening_scheduled:
  "scheduled {} (full_opening cid ps i im fr)
   \<and> {g_nodeId (initial_compile cid ps i im fr)} \<union> set (replay_ids (opening_chains cid ps i))
      \<union> set (formal_ids (render_authority cid ps i im fr)) \<union> set (formal_ids (opening_formal cid ps i im fr)) \<subseteq> ids (full_opening cid ps i im fr)"
proof -
  let ?h = "[research_node cid i, writer_node cid i]" and ?cs = "opening_chains cid ps i" and ?au = "render_authority cid ps i im fr"
  let ?it = "integrate_node cid ps i im fr" and ?fo = "opening_formal cid ps i im fr" and ?co = "initial_compile cid ps i im fr"
  let ?md = "manuscript_dependencies cid ps i" and ?ai = "integrated_dependencies cid ps i im fr"
  have md: "set ?md \<subseteq> ids (?h @ chain_nodes ?cs)" using replay_ids_subset [of ?cs] by (auto simp: manuscript_dependencies_def)
  have ai: "set ?ai \<subseteq> ids (?h @ chain_nodes ?cs @ opt_list ?it)"
    using md by (cases ?it) (auto simp: integrated_dependencies_def)
  have "scheduled {} ?h" by (simp add: research_node_def writer_node_def)
  moreover have "scheduled (ids ?h) (chain_nodes ?cs)" unfolding opening_chains_def by (rule scheduled_empirical) simp
  moreover have "scheduled (ids (?h @ chain_nodes ?cs)) (formal_nodes ?au)"
    unfolding render_authority_def by (rule scheduled_formal [OF md])
  moreover have "scheduled (ids (?h @ chain_nodes ?cs @ formal_nodes ?au)) (opt_list ?it)"
    using md formal_ids_subset [of ?au] by (cases im) (auto simp: integrate_node_def)
  moreover have "scheduled (ids (?h @ chain_nodes ?cs @ formal_nodes ?au @ opt_list ?it)) (formal_nodes ?fo)"
    using ai unfolding opening_formal_def by (intro scheduled_formal) auto
  moreover have "scheduled (ids (?h @ chain_nodes ?cs @ formal_nodes ?au @ opt_list ?it @ formal_nodes ?fo)) [?co]"
    using ai by (cases ?fo) (auto simp: initial_compile_def)
  ultimately have "scheduled {} (full_opening cid ps i im fr)"
    unfolding full_opening_def by (simp only: scheduled_append set_append image_Un Un_assoc Un_empty_left simp_thms)
  then show ?thesis
    using replay_ids_subset [of ?cs] formal_ids_subset [of ?au] formal_ids_subset [of ?fo] by (auto simp: full_opening_def)
qed

lemma sealed_replays_subset: "set (map (\<lambda>c. g_nodeId (snd c)) cs) \<subseteq> ids (pair_nodes cs)"
  by (induction cs) auto

lemma numerical_scheduled:
  "insert (closing_anchor cid i fr s) (set (closing_replays cid ps i fr s)) \<subseteq> S
    \<Longrightarrow> scheduled S (numerical_nodes rt cid ps i fr advancedPlan gpuPlan s)"
  by (cases advancedPlan; cases gpuPlan)
    (auto simp: numerical_nodes_def numerical_dependencies_def Let_def buildGpuScientificCampaignGraphNode_def)

lemma closing_scheduled:
  assumes "state_ids s \<subseteq> S" "set authority \<subseteq> S"
  shows "scheduled S (full_closing rt cid rounds ps i fr rr advancedPlan gpuPlan authority s)"
proof -
  let ?fo = "closing_formal cid i fr s" and ?cs = "closing_chains cid ps i fr s" and ?nu = "numerical_nodes rt cid ps i fr advancedPlan gpuPlan s"
  let ?se = "pair_nodes ?cs" and ?re = "closing_replays cid ps i fr s"
  let ?fc = "final_compile cid rounds ps i fr ?nu s" and ?rv = "research_verify_node cid rounds ps i fr rr ?nu authority s"
  have re: "set ?re \<subseteq> ids ?se" unfolding closing_replays_def by (rule sealed_replays_subset)
  have anchor: "closing_anchor cid i fr s \<in> S \<union> ids (formal_nodes ?fo)"
    using after_formal_in [of "rs_previous s" ?fo] assms(1) by (auto simp: closing_anchor_def state_ids_def)
  have "scheduled S (formal_nodes ?fo)"
    using assms(1) unfolding closing_formal_def by (intro scheduled_formal) (auto simp: state_ids_def)
  moreover have "scheduled (S \<union> ids (formal_nodes ?fo)) ?se"
    using anchor unfolding closing_chains_def sealedEmpiricalChains_def by (intro scheduled_sealed) auto
  moreover have "scheduled (S \<union> ids (formal_nodes ?fo @ ?se)) ?nu"
    using anchor re by (intro numerical_scheduled) auto
  moreover have "scheduled (S \<union> ids (formal_nodes ?fo @ ?se @ ?nu)) [?fc]"
    using assms(1) re formal_ids_subset [of ?fo] by (auto simp: final_compile_def Let_def state_ids_def)
  moreover have "scheduled (S \<union> ids (formal_nodes ?fo @ ?se @ ?nu @ [?fc])) (opt_list ?rv)"
    using assms re formal_ids_subset [of ?fo] by (cases rr) (auto simp: research_verify_node_def state_ids_def)
  moreover have "scheduled (S \<union> ids (formal_nodes ?fo @ ?se @ ?nu @ [?fc] @ opt_list ?rv)) [package_node cid rounds i ?fc ?rv]"
    by (auto simp: package_node_def)
  ultimately show ?thesis
    unfolding full_closing_def Let_def by (simp only: scheduled_append set_append image_Un Un_assoc simp_thms)
qed

lemma full_scheduled:
  "scheduled {} (appendFullCampaign rt cid rounds reviewers ps i im fr rr advancedPlan gpuPlan)"
proof -
  obtain ns s where run: "full_review cid rounds reviewers ps i im fr = (ns, s)" by fastforce
  let ?op = "full_opening cid ps i im fr"
  have "scheduled {} ns \<and> state_ids s \<subseteq> ids ns"
    using opening_scheduled [of cid ps i im fr]
    by (intro review_rounds_scheduled [OF run [unfolded full_review_def appendReviewRounds_def]])
      (cases "opening_formal cid ps i im fr"; auto simp: state_ids_def)+
  moreover have "set (formal_ids (render_authority cid ps i im fr)) \<subseteq> ids ns"
    using opening_scheduled [of cid ps i im fr] review_rounds_extends [OF run [unfolded full_review_def appendReviewRounds_def]] by auto
  ultimately show ?thesis
    by (simp add: appendFullCampaign_def run closing_scheduled)
qed

lemma package_scheduled: "scheduled {} (appendPackagePreparation cid i fr reviewers inc)"
  by (cases fr; cases inc) (auto simp: package_preparation Let_def formalVerificationChain_def intro!: scheduled_referees)

lemma revise_scheduled: "scheduled {} (referee_revise_nodes cid reviewers i fr)"
  by (cases fr) (auto simp: referee_revise_nodes_def Let_def formalVerificationChain_def after_formal_def intro!: scheduled_referees)

lemma analysis_scheduled: "scheduled {} (empirical_analysis_nodes cid ps i am)"
  using replay_ids_subset [of "empiricalChains cid [graph_node_id cid 0 ''research-plan''] ps i"]
  by (auto simp: empirical_analysis_nodes_def Let_def intro!: scheduled_empirical)

lemma loop_opening_scheduled:
  "review_loop_opening cid ps i er am = (ns, ds) \<Longrightarrow> scheduled {} ns \<and> set ds \<subseteq> ids ns"
  using replay_ids_subset [of "empiricalChains cid [graph_node_id cid 0 ''research-plan''] ps i"]
  by (cases er; cases am) (auto simp: review_loop_opening_def Let_def intro!: scheduled_empirical)

lemma loop_scheduled: "scheduled {} (review_loop_nodes cid rounds reviewers ps i er am fr)"
proof -
  obtain ns ds where op: "review_loop_opening cid ps i er am = (ns, ds)" by fastforce
  let ?co = "campaignGraphNode cid ''compile'' ds (latex (plain i 0 50))"
  obtain ms s where run: "appendReviewRounds (ns @ [?co]) cid (g_nodeId ?co) rounds reviewers (if er then ps else []) i fr [] None = (ms, s)"
    by fastforce
  have "scheduled {} ms \<and> state_ids s \<subseteq> ids ms"
    using loop_opening_scheduled [OF op]
    by (intro review_rounds_scheduled [OF run [unfolded appendReviewRounds_def]]) (auto simp: state_ids_def)
  then show ?thesis by (simp add: review_loop_nodes_def op run Let_def state_ids_def del: campaignGraphNode_fields(1))
qed

lemma mode_scheduled: "mode_nodes rt q = Inr ns \<Longrightarrow> scheduled {} ns"
  by (auto simp: mode_nodes_def Let_def full_scheduled package_scheduled revise_scheduled analysis_scheduled loop_scheduled
      research_verify_nodes_def formalVerificationChain_def if_requested_def scheduled_referees split: if_splits)

end
