(* ===== verification/Graph_Identity.thy ===== *)
theory Graph_Identity
  imports Graph_Order
begin

text \<open>
  No two nodes of a mode share an id. An id is the round and the kind, so the blocks of a graph
  are told apart by their round and by the kinds they use; the empirical chains of several
  execution profiles by the label of the profile.
\<close>

section \<open>Profile labels\<close>

text \<open>
  With several profiles a label becomes the end of a kind. It must not make the kind read as
  that of another node: \<open>empirical-reproduce-x\<close> is the replay of \<open>x\<close>.
\<close>

definition label_ok :: "string \<Rightarrow> bool" where
  "label_ok l = (''empirical'' \<notin> set (split_on CHR ''-'' l) \<and> hd (split_on CHR ''-'' l) \<noteq> ''reproduce'')"

definition profiles_ok :: "execution_profile list \<Rightarrow> bool" where
  "profiles_ok ps = (distinct (map p_label ps) \<and> (length ps = 1 \<or> list_all (\<lambda>p. label_ok (p_label p)) ps))"

lemma profiles_distinct: "profiles_ok ps \<Longrightarrow> distinct ps"
  by (auto simp: profiles_ok_def distinct_map)

lemma suffix_inj:
  assumes "profiles_ok ps" "p \<in> set ps" "q \<in> set ps"
  shows "profile_suffix ps p = profile_suffix ps q \<longleftrightarrow> p = q"
proof (cases "length ps = 1")
  case True
  then obtain x where "ps = [x]" by (metis One_nat_def length_0_conv length_Suc_conv)
  with assms show ?thesis by simp
next
  case False
  with assms show ?thesis by (auto simp: profile_suffix_def profiles_ok_def distinct_map inj_on_def)
qed

lemma suffix_not_reproduce:
  assumes "profiles_ok ps" "p \<in> set ps" "q \<in> set ps"
  shows "profile_suffix ps p \<noteq> ''-reproduce'' @ profile_suffix ps q"
proof
  assume eq: "profile_suffix ps p = ''-reproduce'' @ profile_suffix ps q"
  then have many: "length ps \<noteq> 1" by (auto simp: profile_suffix_def)
  with eq have "p_label p = ''reproduce'' @ CHR ''-'' # p_label q" by (simp add: profile_suffix_def)
  then have "split_on CHR ''-'' (p_label p) = split_on CHR ''-'' ''reproduce'' @ split_on CHR ''-'' (p_label q)"
    by (simp only: split_on_append)
  then have "hd (split_on CHR ''-'' (p_label p)) = ''reproduce''" by simp
  with assms many show False by (auto simp: profiles_ok_def label_ok_def list_all_iff)
qed

lemmas suffix_rules = suffix_inj suffix_not_reproduce suffix_not_reproduce [symmetric]

lemma distinct_suffixed:
  assumes "distinct ps" "distinct ws"
    "\<And>p q w v. p \<in> set ps \<Longrightarrow> q \<in> set ps \<Longrightarrow> w \<in> set ws \<Longrightarrow> v \<in> set ws \<Longrightarrow> w @ suf p = v @ suf q \<Longrightarrow> w = v \<and> p = q"
  shows "distinct (concat (map (\<lambda>p. map (\<lambda>w. graph_node_id cid r (w @ suf p)) ws) ps))"
  using assms
proof (induction ps)
  case (Cons p ps)
  have "distinct (map (\<lambda>w. graph_node_id cid r (w @ suf p)) ws)"
    using Cons.prems(2) by (simp add: distinct_map inj_on_def)
  moreover have "set (map (\<lambda>w. graph_node_id cid r (w @ suf p)) ws)
      \<inter> set (concat (map (\<lambda>p. map (\<lambda>w. graph_node_id cid r (w @ suf p)) ws) ps)) = {}"
    using Cons.prems(1) Cons.prems(3) [of p] by fastforce
  moreover have "distinct (concat (map (\<lambda>p. map (\<lambda>w. graph_node_id cid r (w @ suf p)) ws) ps))"
    using Cons.prems by (intro Cons.IH) auto
  ultimately show ?case by simp
qed simp

section \<open>The ids of the blocks\<close>

lemma referee_ids: "map g_nodeId (referees cid name ds i r p k) = map (\<lambda>j. graph_node_id cid r (name @ CHR ''-'' # nat_text (Suc j))) [0..<k]"
  by (simp add: referees_def Let_def)

lemma referees_distinct: "distinct (map g_nodeId (referees cid name ds i r p k))"
  by (simp add: referee_ids distinct_map inj_on_def)

lemma chain_ids:
  "map g_nodeId (chain_nodes (empirical_chains_from cid ds ps i previous qs)) =
    concat (map (\<lambda>p. map (\<lambda>w. graph_node_id cid 0 (w @ profile_suffix ps p)) [''coder'', ''empirical'', ''empirical-reproduce'']) qs)"
  by (induction qs arbitrary: previous) (simp_all add: empirical_chain_def Let_def)

lemma revalidation_ids:
  "map g_nodeId (chain_nodes (map (revalidation_chain cid anchor ps i r) qs)) =
    concat (map (\<lambda>p. map (\<lambda>w. graph_node_id cid r (w @ profile_suffix ps p))
      [''revalidate-code'', ''revalidate-empirical'', ''revalidate-empirical-reproduce'']) qs)"
  by (induction qs) (simp_all add: revalidation_chain_def Let_def)

lemma sealed_ids:
  "map g_nodeId (pair_nodes (map (sealed_chain cid ds ps i) qs)) =
    concat (map (\<lambda>p. map (\<lambda>w. graph_node_id cid 0 (w @ profile_suffix ps p))
      [''revalidate-empirical-source-seal'', ''revalidate-empirical-reproduce-source-seal'']) qs)"
  by (induction qs) (simp_all add: sealed_chain_def Let_def)

lemma chains_distinct:
  assumes "profiles_ok ps"
  shows "distinct (map g_nodeId (chain_nodes (empirical_chains_from cid ds ps i previous ps)))"
    "distinct (map g_nodeId (chain_nodes (map (revalidation_chain cid anchor ps i r) ps)))"
    "distinct (map g_nodeId (pair_nodes (map (sealed_chain cid ds ps i) ps)))"
  unfolding chain_ids revalidation_ids sealed_ids
  by (rule distinct_suffixed [OF profiles_distinct [OF assms]];
      use suffix_rules [OF assms] in auto)+

text \<open>The ids of a block as a set: their round and the kinds that can occur.\<close>

definition at_round :: "string \<Rightarrow> nat \<Rightarrow> (string \<Rightarrow> bool) \<Rightarrow> string set" where
  "at_round cid r P = {graph_node_id cid r k | k. P k}"

lemma at_round_member [simp]: "graph_node_id cid r k \<in> at_round cid r' P \<longleftrightarrow> r = r' \<and> P k"
  by (auto simp: at_round_def)

lemma at_round_disjoint: "r \<noteq> r' \<Longrightarrow> at_round cid r P \<inter> at_round cid r' Q = {}"
  by (auto simp: at_round_def)

lemma at_round_apart: "A \<subseteq> at_round cid r P \<Longrightarrow> B \<subseteq> at_round cid r' Q \<Longrightarrow> (\<And>k. P k \<Longrightarrow> Q k \<Longrightarrow> r \<noteq> r') \<Longrightarrow> A \<inter> B = {}"
  by (fastforce simp: at_round_def)

lemma at_round_mono: "A \<subseteq> at_round cid r P \<Longrightarrow> (\<And>k. P k \<Longrightarrow> Q k) \<Longrightarrow> A \<subseteq> at_round cid r Q"
  by (auto simp: at_round_def)

lemma ids_map: "ids ns = set (map g_nodeId ns)"
  by simp

definition starts :: "string \<Rightarrow> string \<Rightarrow> bool" where
  "starts w k = (\<exists>t. k = w @ t)"

lemma starts_prefix: "starts (w @ v) k \<Longrightarrow> starts w k"
  by (auto simp: starts_def)

lemma referees_at: "ids (referees cid name ds i r p k) \<subseteq> at_round cid r (starts (name @ ''-''))"
  unfolding ids_map referee_ids by (auto simp: starts_def)

lemma chains_at: "ids (chain_nodes (empirical_chains_from cid ds ps i previous qs)) \<subseteq> at_round cid 0 (\<lambda>k. starts ''coder'' k \<or> starts ''empirical'' k)"
  unfolding ids_map chain_ids by (auto simp: starts_def)

lemma revalidation_at:
  "ids (chain_nodes (map (revalidation_chain cid anchor ps i r) qs)) \<subseteq> at_round cid r (\<lambda>k. starts ''revalidate-code'' k \<or> starts ''revalidate-empirical'' k)"
  unfolding ids_map revalidation_ids by (auto simp: starts_def)

lemma sealed_at: "ids (pair_nodes (map (sealed_chain cid ds ps i) qs)) \<subseteq> at_round cid 0 (starts ''revalidate-empirical'')"
  unfolding ids_map sealed_ids by (auto simp: starts_def)

lemma formal_at:
  "map g_nodeId (formal_nodes (if_requested b (formalVerificationChain cid ds i r p prefix t))) =
    (if b then [graph_node_id cid r (prefix @ ''theorem-spec''), graph_node_id cid r (prefix @ ''formal-verify'')] else [])"
  by (cases b) (simp_all add: formalVerificationChain_def Let_def)

section \<open>Review rounds\<close>

lemma distinct_ids_append:
  "distinct (map g_nodeId (xs @ ys)) \<longleftrightarrow> distinct (map g_nodeId xs) \<and> distinct (map g_nodeId ys) \<and> ids xs \<inter> ids ys = {}"
  by simp

lemma revision_distinct:
  assumes "revision_part cid reviewers i fr r s = (refs, revise, formal)"
  shows "distinct (map g_nodeId (refs @ [revise] @ formal_nodes formal))
    \<and> ids (refs @ [revise] @ formal_nodes formal) \<subseteq> at_round cid r (\<lambda>k. starts ''referee-'' k \<or> k \<in> {''revise'', ''theorem-spec'', ''formal-verify''})"
proof -
  have parts: "refs = referees cid ''referee'' [rs_previous s] i r 60 reviewers" "g_nodeId revise = graph_node_id cid r ''revise''"
    "formal = if_requested fr (formalVerificationChain cid [g_nodeId revise] i r 74 [] False)"
    using assms by (auto simp: revision_part_def Let_def)
  have refs: "ids refs \<subseteq> at_round cid r (starts ''referee-'')" using referees_at [of cid "''referee''"] by (simp add: parts(1))
  have rest: "map g_nodeId ([revise] @ formal_nodes formal) = (if fr then map (graph_node_id cid r) [''revise'', ''theorem-spec'', ''formal-verify'']
      else [graph_node_id cid r ''revise''])"
    unfolding parts(3) map_append formal_at by (simp add: parts(2))
  have ids_rest: "ids ([revise] @ formal_nodes formal) \<subseteq> at_round cid r (\<lambda>k. k \<in> {''revise'', ''theorem-spec'', ''formal-verify''})"
    unfolding ids_map rest by auto
  have "distinct (map g_nodeId refs)" unfolding parts(1) by (rule referees_distinct)
  moreover have "distinct (map g_nodeId ([revise] @ formal_nodes formal))" unfolding rest by simp
  moreover have "ids refs \<inter> ids ([revise] @ formal_nodes formal) = {}"
    by (rule at_round_apart [OF refs ids_rest]) (auto simp: starts_def)
  ultimately have "distinct (map g_nodeId (refs @ [revise] @ formal_nodes formal))" by (subst distinct_ids_append) blast
  moreover have "ids (refs @ [revise] @ formal_nodes formal) = ids refs \<union> ids ([revise] @ formal_nodes formal)" by auto
  ultimately show ?thesis using refs ids_rest by (auto simp: at_round_def)
qed

lemma revalidation_distinct:
  assumes "revalidation_part cid reviewers ps i r anchor = (cs, checks, second, convergence)" "profiles_ok ps"
  shows "distinct (map g_nodeId (chain_nodes cs @ checks @ second @ [convergence]))
    \<and> ids (chain_nodes cs @ checks @ second @ [convergence])
      \<subseteq> at_round cid r (\<lambda>k. starts ''revalidate-'' k \<or> starts ''revision-referee-'' k \<or> k = ''convergence'')"
  (is "_ \<and> _ \<subseteq> at_round cid r ?P")
proof -
  have parts: "cs = map (revalidation_chain cid anchor ps i r) ps"
    "map g_nodeId checks = map (graph_node_id cid r) [''revalidate-compile'', ''revalidate-citations'', ''revalidate-artifacts'']"
    "second = referees cid ''revision-referee'' (map g_nodeId (chain_nodes cs) @ map g_nodeId checks) i r 85 reviewers"
    "g_nodeId convergence = graph_node_id cid r ''convergence''"
    using assms(1) by (auto simp: revalidation_part_def revision_checks_def Let_def)
  have cs: "ids (chain_nodes cs) \<subseteq> at_round cid r (\<lambda>k. starts ''revalidate-code'' k \<or> starts ''revalidate-empirical'' k)"
    unfolding parts(1) by (rule revalidation_at)
  have checks: "ids checks \<subseteq> at_round cid r (\<lambda>k. k \<in> {''revalidate-compile'', ''revalidate-citations'', ''revalidate-artifacts''})"
    unfolding ids_map parts(2) by auto
  have second: "ids second \<subseteq> at_round cid r (starts ''revision-referee-'')"
    using referees_at [of cid "''revision-referee''"] unfolding parts(3) by simp
  have conv: "ids [convergence] \<subseteq> at_round cid r (\<lambda>k. k = ''convergence'')" by (simp add: parts(4))
  have "distinct (map g_nodeId (chain_nodes cs))" unfolding parts(1) by (rule chains_distinct(2) [OF assms(2)])
  moreover have "distinct (map g_nodeId checks)" unfolding parts(2) by simp
  moreover have "distinct (map g_nodeId second)" unfolding parts(3) by (rule referees_distinct)
  moreover have "ids (chain_nodes cs) \<inter> ids checks = {}" "ids (chain_nodes cs) \<inter> ids second = {}"
      "ids (chain_nodes cs) \<inter> ids [convergence] = {}" "ids checks \<inter> ids second = {}" "ids checks \<inter> ids [convergence] = {}"
      "ids second \<inter> ids [convergence] = {}"
    by (rule at_round_apart [OF cs checks] at_round_apart [OF cs second] at_round_apart [OF cs conv]
        at_round_apart [OF checks second] at_round_apart [OF checks conv] at_round_apart [OF second conv]; auto simp: starts_def)+
  ultimately have "distinct (map g_nodeId (chain_nodes cs @ checks @ second @ [convergence]))"
    unfolding distinct_ids_append set_append image_Un by (auto simp del: map_append)
  moreover have "ids (chain_nodes cs) \<subseteq> at_round cid r ?P" "ids checks \<subseteq> at_round cid r ?P" "ids second \<subseteq> at_round cid r ?P"
      "ids [convergence] \<subseteq> at_round cid r ?P"
    by (rule at_round_mono [OF cs] at_round_mono [OF checks] at_round_mono [OF second] at_round_mono [OF conv]; auto simp: starts_def)+
  ultimately show ?thesis unfolding set_append image_Un by (intro conjI Un_least)
qed

section \<open>All rounds\<close>

definition round_kind :: "string \<Rightarrow> bool" where
  "round_kind k = (k \<noteq> ''final-compile'')"

lemma review_round_distinct:
  assumes "review_round cid reviewers ps i fr r s = (added, s')" "profiles_ok ps"
  shows "distinct (map g_nodeId added) \<and> ids added \<subseteq> at_round cid r round_kind"
proof -
  obtain refs revise formal where first: "revision_part cid reviewers i fr r s = (refs, revise, formal)" by (metis prod_cases3)
  obtain cs checks second convergence where
    rest: "revalidation_part cid reviewers ps i r (after_formal (g_nodeId revise) formal) = (cs, checks, second, convergence)"
    by (metis prod_cases4)
  have added: "added = (refs @ [revise] @ formal_nodes formal) @ (chain_nodes cs @ checks @ second @ [convergence])"
    using assms(1) by (auto simp: review_round_def first rest Let_def)
  note a = revision_distinct [OF first] and b = revalidation_distinct [OF rest assms(2)]
  have "ids (refs @ [revise] @ formal_nodes formal) \<inter> ids (chain_nodes cs @ checks @ second @ [convergence]) = {}"
    by (rule at_round_apart [OF a [THEN conjunct2] b [THEN conjunct2]]) (auto simp: starts_def)
  then have "distinct (map g_nodeId added)" unfolding added using a b by (subst distinct_ids_append) blast
  moreover have "ids (refs @ [revise] @ formal_nodes formal) \<subseteq> at_round cid r round_kind"
    by (rule at_round_mono [OF a [THEN conjunct2]]) (auto simp: starts_def round_kind_def)
  moreover have "ids (chain_nodes cs @ checks @ second @ [convergence]) \<subseteq> at_round cid r round_kind"
    by (rule at_round_mono [OF b [THEN conjunct2]]) (auto simp: starts_def round_kind_def)
  ultimately show ?thesis by (simp only: added set_append [of "refs @ [revise] @ formal_nodes formal"] image_Un Un_subset_iff simp_thms)
qed

lemma review_rounds_distinct:
  assumes "profiles_ok ps"
  shows "review_rounds cid reviewers ps i fr rs nds s = (ns, s') \<Longrightarrow> distinct rs \<Longrightarrow> distinct (map g_nodeId nds)
    \<Longrightarrow> ids nds \<inter> (\<Union>r\<in>set rs. at_round cid r round_kind) = {}
    \<Longrightarrow> distinct (map g_nodeId ns) \<and> ids ns \<subseteq> ids nds \<union> (\<Union>r\<in>set rs. at_round cid r round_kind)"
proof (induction rs arbitrary: nds s)
  case (Cons r rs)
  obtain added t where t: "review_round cid reviewers ps i fr r s = (added, t)" by fastforce
  note a = review_round_distinct [OF t assms]
  have "distinct (map g_nodeId (nds @ added))" using a Cons.prems(3,4) by (subst distinct_ids_append) auto
  moreover have "at_round cid r round_kind \<inter> (\<Union>r\<in>set rs. at_round cid r round_kind) = {}"
    using Cons.prems(2) at_round_disjoint [of r] by fastforce
  then have "ids (nds @ added) \<inter> (\<Union>r\<in>set rs. at_round cid r round_kind) = {}"
    using a Cons.prems(4) by (simp add: image_Un Int_Un_distrib2) blast
  ultimately have "distinct (map g_nodeId ns) \<and> ids ns \<subseteq> ids (nds @ added) \<union> (\<Union>r\<in>set rs. at_round cid r round_kind)"
    using Cons.IH [of "nds @ added" t] Cons.prems(1,2) by (simp add: t)
  then show ?case using a by (simp add: image_Un) blast
qed simp

section \<open>The full campaign\<close>

lemma apart_union:
  assumes "Z \<subseteq> at_round cid 0 Q \<union> at_round cid n (\<lambda>k. k = f) \<union> at_round cid (n + 1) (\<lambda>k. True)" "X \<subseteq> at_round cid 0 P"
    "\<And>k. P k \<Longrightarrow> \<not> Q k \<and> k \<noteq> f"
  shows "X \<inter> Z = {}"
proof -
  have "X \<inter> at_round cid 0 Q = {}" "X \<inter> at_round cid n (\<lambda>k. k = f) = {}" "X \<inter> at_round cid (n + 1) (\<lambda>k. True) = {}"
    by (rule at_round_apart [OF assms(2) order.refl]; use assms(3) in fastforce)+
  with assms(1) show ?thesis by blast
qed

lemma three_blocks:
  assumes "distinct (map g_nodeId xs)" "distinct (map g_nodeId ys)" "distinct (map g_nodeId zs)"
    "ids xs \<inter> ids ys = {}" "ids xs \<inter> ids zs = {}" "ids ys \<inter> ids zs = {}" "ids xs \<subseteq> T" "ids ys \<subseteq> T" "ids zs \<subseteq> T"
  shows "distinct (map g_nodeId (xs @ ys @ zs)) \<and> ids (xs @ ys @ zs) \<subseteq> T"
  using assms by (simp add: image_Un Int_Un_distrib)

definition closing_kind :: "string \<Rightarrow> bool" where
  "closing_kind k = (starts ''revalidate-'' k \<or> starts ''source-closure-'' k
    \<or> k \<in> {''advanced-numerical-analysis'', ''gpu-scientific-execution'', ''final-compile''})"

lemma opening_distinct:
  assumes "profiles_ok ps"
  shows "distinct (map g_nodeId (full_opening cid ps i im fr))
    \<and> ids (full_opening cid ps i im fr) \<subseteq> at_round cid 0 (\<lambda>k. \<not> closing_kind k)"
proof -
  let ?cs = "chain_nodes (opening_chains cid ps i)"
  define rest where "rest = formal_nodes (render_authority cid ps i im fr) @ opt_list (integrate_node cid ps i im fr)
    @ formal_nodes (opening_formal cid ps i im fr) @ [initial_compile cid ps i im fr]"
  have rest: "map g_nodeId rest = map (graph_node_id cid 0) ((if fr \<and> im then [''render-authority-theorem-spec'', ''render-authority-formal-verify''] else [])
      @ (if im then [''manuscript-integrate''] else []) @ (if fr then [''theorem-spec'', ''formal-verify''] else []) @ [''compile''])"
    unfolding rest_def map_append render_authority_def opening_formal_def formal_at
    by (cases im) (simp_all add: integrate_node_def initial_compile_def)
  have heads: "map g_nodeId [research_node cid i, writer_node cid i] = map (graph_node_id cid 0) [''research-plan'', ''writer'']" by simp
  have cs: "ids ?cs \<subseteq> at_round cid 0 (\<lambda>k. starts ''coder'' k \<or> starts ''empirical'' k)"
    unfolding opening_chains_def empiricalChains_def by (rule chains_at)
  have at: "ids [research_node cid i, writer_node cid i] \<subseteq> at_round cid 0 (\<lambda>k. k \<in> {''research-plan'', ''writer''})"
    "ids rest \<subseteq> at_round cid 0 (\<lambda>k. k \<in> {''render-authority-theorem-spec'', ''render-authority-formal-verify'', ''manuscript-integrate'',
      ''theorem-spec'', ''formal-verify'', ''compile''})"
    unfolding ids_map heads rest by auto
  have "distinct (map g_nodeId [research_node cid i, writer_node cid i])" unfolding heads by simp
  moreover have "distinct (map g_nodeId ?cs)" unfolding opening_chains_def empiricalChains_def by (rule chains_distinct(1) [OF assms])
  moreover have "distinct (map g_nodeId rest)" unfolding rest by auto
  moreover have "ids [research_node cid i, writer_node cid i] \<inter> ids ?cs = {}" "ids [research_node cid i, writer_node cid i] \<inter> ids rest = {}"
      "ids ?cs \<inter> ids rest = {}"
    by (rule at_round_apart [OF at(1) cs] at_round_apart [OF at] at_round_apart [OF cs at(2)]; auto simp: starts_def)+
  moreover have "ids [research_node cid i, writer_node cid i] \<subseteq> at_round cid 0 (\<lambda>k. \<not> closing_kind k)"
      "ids ?cs \<subseteq> at_round cid 0 (\<lambda>k. \<not> closing_kind k)" "ids rest \<subseteq> at_round cid 0 (\<lambda>k. \<not> closing_kind k)"
    by (rule at_round_mono [OF at(1)] at_round_mono [OF cs] at_round_mono [OF at(2)]; auto simp: closing_kind_def starts_def)+
  moreover have "full_opening cid ps i im fr = [research_node cid i, writer_node cid i] @ ?cs @ rest"
    by (simp add: full_opening_def rest_def)
  ultimately show ?thesis by (simp only:) (rule three_blocks)
qed

lemma closing_distinct:
  assumes "profiles_ok ps"
  shows "distinct (map g_nodeId (full_closing rt cid rounds ps i fr rr advancedPlan gpuPlan authority s))
    \<and> ids (full_closing rt cid rounds ps i fr rr advancedPlan gpuPlan authority s)
      \<subseteq> at_round cid 0 closing_kind \<union> at_round cid rounds (\<lambda>k. k = ''final-compile'') \<union> at_round cid (rounds + 1) (\<lambda>k. True)"
  (is "_ \<and> _ \<subseteq> ?T")
proof -
  let ?nu = "numerical_nodes rt cid ps i fr advancedPlan gpuPlan s"
  let ?fc = "final_compile cid rounds ps i fr ?nu s" and ?cs = "pair_nodes (closing_chains cid ps i fr s)"
  let ?rv = "research_verify_node cid rounds ps i fr rr ?nu authority s"
  let ?fo = "formal_nodes (closing_formal cid i fr s)"
  define rest where "rest = ?nu @ [?fc] @ opt_list ?rv @ [package_node cid rounds i ?fc ?rv]"
  have fo: "map g_nodeId ?fo = map (graph_node_id cid 0) (if fr then [''source-closure-theorem-spec'', ''source-closure-formal-verify''] else [])"
    unfolding closing_formal_def formal_at by simp
  have rest: "map g_nodeId rest = map (graph_node_id cid 0) ((if advancedPlan = None then [] else [''advanced-numerical-analysis''])
      @ (if gpuPlan = None then [] else [''gpu-scientific-execution'']))
      @ [graph_node_id cid rounds ''final-compile''] @ map (graph_node_id cid (rounds + 1)) ((if rr then [''research-verify''] else []) @ [''package''])"
    by (cases advancedPlan; cases gpuPlan; cases rr) (simp_all add: rest_def numerical_nodes_def Let_def buildGpuScientificCampaignGraphNode_def
      research_verify_node_def final_compile_def package_node_def)
  have cs: "ids ?cs \<subseteq> at_round cid 0 (starts ''revalidate-empirical'')"
    unfolding closing_chains_def sealedEmpiricalChains_def by (rule sealed_at)
  have fo_at: "ids ?fo \<subseteq> at_round cid 0 (starts ''source-closure-'')" unfolding ids_map fo by (auto simp: starts_def)
  have rest_at: "ids rest \<subseteq> at_round cid 0 (\<lambda>k. k \<in> {''advanced-numerical-analysis'', ''gpu-scientific-execution''})
      \<union> at_round cid rounds (\<lambda>k. k = ''final-compile'') \<union> at_round cid (rounds + 1) (\<lambda>k. True)"
    unfolding ids_map rest by auto
  have "distinct (map g_nodeId ?fo)" "distinct (map g_nodeId rest)" unfolding fo rest by auto
  moreover have "distinct (map g_nodeId ?cs)"
    unfolding closing_chains_def sealedEmpiricalChains_def by (rule chains_distinct(3) [OF assms])
  moreover have "ids ?fo \<inter> ids ?cs = {}" by (rule at_round_apart [OF fo_at cs]) (auto simp: starts_def)
  moreover have "ids ?fo \<inter> ids rest = {}" by (rule apart_union [OF rest_at fo_at]) (auto simp: starts_def)
  moreover have "ids ?cs \<inter> ids rest = {}" by (rule apart_union [OF rest_at cs]) (auto simp: starts_def)
  moreover have "ids ?fo \<subseteq> ?T" by (intro le_supI1 at_round_mono [OF fo_at]) (simp add: closing_kind_def)
  moreover have "ids ?cs \<subseteq> ?T"
    using starts_prefix [of "''revalidate-''" "''empirical''"] by (intro le_supI1 at_round_mono [OF cs]) (simp add: closing_kind_def)
  moreover have "ids rest \<subseteq> ?T"
    by (rule order.trans [OF rest_at]) (intro Un_mono order.refl at_round_mono [OF order.refl], auto simp: closing_kind_def)
  moreover have "full_closing rt cid rounds ps i fr rr advancedPlan gpuPlan authority s = ?fo @ ?cs @ rest"
    by (simp add: full_closing_def rest_def Let_def)
  ultimately show ?thesis by (simp only:) (rule three_blocks)
qed

lemma closing_apart:
  assumes "A \<subseteq> at_round cid 0 (\<lambda>k. \<not> P k) \<union> (\<Union>r\<in>set [1..<n + 1]. at_round cid r Q)"
    "B \<subseteq> at_round cid 0 P \<union> at_round cid n (\<lambda>k. k = f) \<union> at_round cid (n + 1) (\<lambda>k. True)" "P f" "\<not> Q f"
  shows "A \<inter> B = {}"
proof -
  have "x \<notin> B" if "x \<in> A" for x
  proof
    assume "x \<in> B"
    with assms(2) obtain r k where x: "x = graph_node_id cid r k" "r = 0 \<and> P k \<or> r = n \<and> k = f \<or> r = n + 1"
      by (auto simp: at_round_def)
    with assms(1) that have "r = 0 \<and> \<not> P k \<or> 0 < r \<and> r \<le> n \<and> Q k" by (fastforce simp: at_round_def)
    with x(2) assms(3,4) show False by auto
  qed
  then show ?thesis by blast
qed

lemma full_distinct:
  assumes "profiles_ok ps"
  shows "distinct (map g_nodeId (appendFullCampaign rt cid rounds reviewers ps i im fr rr advancedPlan gpuPlan))"
proof -
  obtain ns s where run: "full_review cid rounds reviewers ps i im fr = (ns, s)" by fastforce
  let ?cl = "full_closing rt cid rounds ps i fr rr advancedPlan gpuPlan (formal_ids (render_authority cid ps i im fr)) s"
  note op = opening_distinct [OF assms, of cid i im fr]
    and cl = closing_distinct [OF assms, of rt cid rounds i fr rr advancedPlan gpuPlan "formal_ids (render_authority cid ps i im fr)" s]
  have "ids (full_opening cid ps i im fr) \<inter> (\<Union>r\<in>set [1..<rounds + 1]. at_round cid r round_kind) = {}"
    using op by (auto simp: at_round_def)
  from review_rounds_distinct [OF assms run [unfolded full_review_def appendReviewRounds_def] distinct_upt conjunct1 [OF op] this]
  have ns: "distinct (map g_nodeId ns)"
    "ids ns \<subseteq> at_round cid 0 (\<lambda>k. \<not> closing_kind k) \<union> (\<Union>r\<in>set [1..<rounds + 1]. at_round cid r round_kind)"
    using op by blast+
  have final: "closing_kind ''final-compile''" "\<not> round_kind ''final-compile''" by (simp_all add: closing_kind_def round_kind_def)
  have "ids ns \<inter> ids ?cl = {}"
    by (rule closing_apart [OF ns(2) conjunct2 [OF cl] final])
  then show ?thesis using ns(1) cl by (simp add: appendFullCampaign_def run)
qed

section \<open>The other modes\<close>

lemma package_distinct: "distinct (map g_nodeId (appendPackagePreparation cid i fr reviewers inc))"
  using referees_distinct [of cid "''referee''"] referees_at [of cid "''referee''"]
  by (cases fr; cases inc) (fastforce simp: package_preparation Let_def formalVerificationChain_def at_round_def starts_def)+

lemma revise_distinct: "distinct (map g_nodeId (referee_revise_nodes cid reviewers i fr))"
  using referees_distinct [of cid "''referee''"] referees_at [of cid "''referee''"]
  by (cases fr) (fastforce simp: referee_revise_nodes_def Let_def formalVerificationChain_def at_round_def starts_def)+

text \<open>The opening of the empirical modes: the plan, the chains, and what follows them at round 0.\<close>

lemma plan_and_chains_distinct:
  assumes "profiles_ok ps" "set ks \<subseteq> {''manuscript-integrate'', ''compile''}" "distinct ks" "map g_nodeId rest = map (graph_node_id cid 0) ks"
  shows "distinct (map g_nodeId ([campaignGraphNode cid ''research-plan'' [] (plain i 0 10)] @ chain_nodes (empiricalChains cid ds ps i) @ rest))
    \<and> ids ([campaignGraphNode cid ''research-plan'' [] (plain i 0 10)] @ chain_nodes (empiricalChains cid ds ps i) @ rest)
      \<subseteq> at_round cid 0 (\<lambda>k. k \<noteq> ''final-compile'')"
proof (rule three_blocks)
  let ?r = "[campaignGraphNode cid ''research-plan'' [] (plain i 0 10)]" and ?cs = "chain_nodes (empiricalChains cid ds ps i)"
  have cs: "ids ?cs \<subseteq> at_round cid 0 (\<lambda>k. starts ''coder'' k \<or> starts ''empirical'' k)"
    unfolding empiricalChains_def by (rule chains_at)
  have r: "ids ?r \<subseteq> at_round cid 0 (\<lambda>k. k = ''research-plan'')" by simp
  have rest: "ids rest \<subseteq> at_round cid 0 (\<lambda>k. k \<in> {''manuscript-integrate'', ''compile''})"
    using assms(2) unfolding ids_map assms(4) by auto
  show "distinct (map g_nodeId ?r)" by simp
  show "distinct (map g_nodeId ?cs)" unfolding empiricalChains_def by (rule chains_distinct(1) [OF assms(1)])
  show "distinct (map g_nodeId rest)" unfolding assms(4) using assms(3) by (simp add: distinct_map inj_on_def)
  show "ids ?r \<inter> ids ?cs = {}" by (rule at_round_apart [OF r cs]) (auto simp: starts_def)
  show "ids ?r \<inter> ids rest = {}" by (rule at_round_apart [OF r rest]) auto
  show "ids ?cs \<inter> ids rest = {}" by (rule at_round_apart [OF cs rest]) (auto simp: starts_def)
  show "ids ?r \<subseteq> at_round cid 0 (\<lambda>k. k \<noteq> ''final-compile'')" by simp
  show "ids ?cs \<subseteq> at_round cid 0 (\<lambda>k. k \<noteq> ''final-compile'')" by (rule at_round_mono [OF cs]) (auto simp: starts_def)
  show "ids rest \<subseteq> at_round cid 0 (\<lambda>k. k \<noteq> ''final-compile'')" by (rule at_round_mono [OF rest]) auto
qed

lemma with_final_distinct:
  assumes "distinct (map g_nodeId ns)" "ids ns \<subseteq> (\<Union>r. at_round cid r (\<lambda>k. k \<noteq> ''final-compile''))" "g_nodeId n = graph_node_id cid r ''final-compile''"
  shows "distinct (map g_nodeId (ns @ [n]))"
proof -
  have "graph_node_id cid r ''final-compile'' \<notin> (\<Union>r. at_round cid r (\<lambda>k. k \<noteq> ''final-compile''))" by simp
  with assms(2) have "g_nodeId n \<notin> ids ns" unfolding assms(3) by blast
  with assms(1) show ?thesis by simp
qed

lemma analysis_distinct:
  assumes "profiles_ok ps"
  shows "distinct (map g_nodeId (empirical_analysis_nodes cid ps i am))"
proof -
  let ?ds = "[graph_node_id cid 0 ''research-plan'']"
  let ?it = "campaignGraphNode cid ''manuscript-integrate'' (replay_ids (empiricalChains cid ?ds ps i)) ((plain i 0 40)\<lparr>o_role := ''writer''\<rparr>)"
  let ?start = "\<lambda>rest. [campaignGraphNode cid ''research-plan'' [] (plain i 0 10)] @ chain_nodes (empiricalChains cid ?ds ps i) @ rest"
  have plain: "distinct (map g_nodeId (?start []))"
    using plan_and_chains_distinct [OF assms, of "[]" "[]" cid i ?ds] by simp
  have "distinct (map g_nodeId (?start [?it])) \<and> ids (?start [?it]) \<subseteq> at_round cid 0 (\<lambda>k. k \<noteq> ''final-compile'')"
    by (rule plan_and_chains_distinct [OF assms, of "[''manuscript-integrate'']"]) simp_all
  then have "distinct (map g_nodeId (?start [?it] @ [campaignGraphNode cid ''final-compile'' [g_nodeId ?it] (latex (plain i 0 50))]))"
    by (intro with_final_distinct [where r = 0 and cid = cid]) (blast, blast, simp)
  with plain show ?thesis by (cases am) (auto simp: empirical_analysis_nodes_def Let_def)
qed

lemma loop_opening_distinct:
  assumes "profiles_ok ps" "review_loop_opening cid ps i er am = (ns, ds)" "g_nodeId co = graph_node_id cid 0 ''compile''"
  shows "distinct (map g_nodeId (ns @ [co])) \<and> ids (ns @ [co]) \<subseteq> at_round cid 0 (\<lambda>k. k \<noteq> ''final-compile'')"
proof (cases er)
  case True
  have "\<exists>rest ks ds. ns @ [co] = [campaignGraphNode cid ''research-plan'' [] (plain i 0 10)] @ chain_nodes (empiricalChains cid ds ps i) @ rest
      \<and> set ks \<subseteq> {''manuscript-integrate'', ''compile''} \<and> distinct ks \<and> map g_nodeId rest = map (graph_node_id cid 0) ks"
  proof (cases am)
    case True
    with \<open>er\<close> assms(2,3) show ?thesis
      by (intro exI [of _ "[campaignGraphNode cid ''manuscript-integrate'' (replay_ids (empiricalChains cid [graph_node_id cid 0 ''research-plan''] ps i))
            ((plain i 0 40)\<lparr>o_role := ''writer''\<rparr>), co]"] exI [of _ "[''manuscript-integrate'', ''compile'']"] exI)
        (auto simp: review_loop_opening_def Let_def)
  next
    case False
    with \<open>er\<close> assms(2,3) show ?thesis
      by (intro exI [of _ "[co]"] exI [of _ "[''compile'']"] exI) (auto simp: review_loop_opening_def Let_def)
  qed
  then show ?thesis using plan_and_chains_distinct [OF assms(1)] by metis
next
  case False
  with assms(2,3) show ?thesis by (simp add: review_loop_opening_def)
qed

lemma loop_distinct:
  assumes "profiles_ok ps"
  shows "distinct (map g_nodeId (review_loop_nodes cid rounds reviewers ps i er am fr))"
proof -
  obtain ns ds where op: "review_loop_opening cid ps i er am = (ns, ds)" by fastforce
  let ?co = "campaignGraphNode cid ''compile'' ds (latex (plain i 0 50))"
  obtain ms s where run: "appendReviewRounds (ns @ [?co]) cid (g_nodeId ?co) rounds reviewers (if er then ps else []) i fr [] None = (ms, s)"
    by fastforce
  have ok: "profiles_ok (if er then ps else [])" using assms by (simp add: profiles_ok_def)
  have start: "distinct (map g_nodeId (ns @ [?co]))" "ids (ns @ [?co]) \<subseteq> at_round cid 0 (\<lambda>k. k \<noteq> ''final-compile'')"
    using loop_opening_distinct [OF assms op, of ?co] by auto
  have "ids (ns @ [?co]) \<inter> (\<Union>r\<in>set [1..<rounds + 1]. at_round cid r round_kind) = {}"
    using start(2) by (auto simp: at_round_def)
  from review_rounds_distinct [OF ok run [unfolded appendReviewRounds_def] distinct_upt start(1) this]
  have ms: "distinct (map g_nodeId ms)" "ids ms \<subseteq> (\<Union>r. at_round cid r (\<lambda>k. k \<noteq> ''final-compile''))"
    using start(2) unfolding round_kind_def [abs_def] by blast+
  then have "distinct (map g_nodeId (ms @ [campaignGraphNode cid ''final-compile'' [rs_previous s] (latex (plain i rounds 100))]))"
    by (intro with_final_distinct [where r = rounds and cid = cid]) auto
  then show ?thesis by (simp add: review_loop_nodes_def op run Let_def del: campaignGraphNode_fields(1))
qed

lemma mode_distinct:
  assumes "mode_nodes rt q = Inr ns" "profiles_ok (mr_profiles q)"
  shows "distinct (map g_nodeId ns)"
  using assms full_distinct [OF assms(2)] analysis_distinct [OF assms(2)] loop_distinct [OF assms(2)]
  by (auto simp: mode_nodes_def Let_def package_distinct revise_distinct referees_distinct
      research_verify_nodes_def formalVerificationChain_def if_requested_def split: if_splits)

end
