(* ===== verification/Graph_Release.thy ===== *)
theory Graph_Release
  imports Graph_Identity
begin

text \<open>
  The graphs against the release topology gate. \<open>release_ready\<close> says on graph nodes what the
  gate looks for; a graph with that shape has no blocker, and the modes that package have it.
\<close>

section \<open>Kinds of nodes\<close>

definition replay_kind :: "string \<Rightarrow> bool" where
  "replay_kind k = has_pair ''empirical'' ''reproduce'' (split_on CHR ''-'' k)"

definition run_kind :: "string \<Rightarrow> bool" where
  "run_kind k = (''empirical'' \<in> set (split_on CHR ''-'' k) \<and> \<not> replay_kind k)"

abbreviation forbids :: "graph_node \<Rightarrow> bool" where
  "forbids n \<equiv> g_sourceMutationPolicy n = Some ''forbid''"

lemma graph_node_json_get:
  "jget ''nodeId'' (graph_node_json n) = Some (JStr (g_nodeId n))" "jget ''kind'' (graph_node_json n) = Some (JStr (g_kind n))"
  "jget ''dependencies'' (graph_node_json n) = Some (JArr (map JStr (g_dependencies n)))"
  "jget ''sourceClosureTerminal'' (graph_node_json n) = (if g_sourceClosureTerminal n then Some (JBool True) else None)"
  "jget ''sourceMutationPolicy'' (graph_node_json n) = map_option JStr (g_sourceMutationPolicy n)"
  "jget ''spec'' (graph_node_json n) = None"
  by (cases "g_sourceMutationPolicy n"; cases "g_executionIntent n"; cases "g_advancedPlanHash n"; cases "g_gpuPlanHash n"; cases "g_gpuBudgetHash n";
      simp add: graph_node_json_def opt_field_def)+

lemma graph_node_json_view [simp]:
  "isEmpiricalReplay rt (graph_node_json n) = replay_kind (g_kind n)" "isEmpiricalRun rt (graph_node_json n) = run_kind (g_kind n)"
  "kind_is k (graph_node_json n) = (g_kind n = k)" "is_package rt (graph_node_json n) = (g_kind n \<in> {''package'', ''release-package''})"
  "id_text rt (graph_node_json n) = g_nodeId n" "str_or rt (jget ''nodeId'' (graph_node_json n)) = g_nodeId n"
  "deps rt (graph_node_json n) = g_dependencies n" "deps_opt rt (Some (graph_node_json n)) = g_dependencies n"
  "sourceClosureTerminal (Some (graph_node_json n)) = g_sourceClosureTerminal n"
  "sourceMutationForbidden (Some (graph_node_json n)) = forbids n"
  by (auto simp: isEmpiricalReplay_def isEmpiricalRun_def replay_kind_def run_kind_def kind_words_def str_or_def or_else_def kind_is_def is_package_def
      text_of_def deps_def deps_opt_def sourceClosureTerminal_def sourceMutationForbidden_def graph_node_json_get Let_def comp_def jtruthy_def
      split: option.splits)

section \<open>The index of a graph\<close>

lemma obj_set_new: "k \<notin> fst ` set es \<Longrightarrow> obj_set k v es = es @ [(k, v)]"
  by (induction es) auto

lemma by_id_entries:
  assumes "distinct (map g_nodeId ns)"
  shows "by_id rt (map graph_node_json ns) = map (\<lambda>n. (g_nodeId n, graph_node_json n)) ns"
proof -
  have "distinct (map g_nodeId ms) \<Longrightarrow> fst ` set es \<inter> ids ms = {} \<Longrightarrow>
      fold (\<lambda>nd. obj_set (str_or rt (jget ''nodeId'' nd)) nd) (map graph_node_json ms) es
        = es @ map (\<lambda>n. (g_nodeId n, graph_node_json n)) ms" for ms es
    by (induction ms arbitrary: es) (auto simp: obj_set_new)
  from this [OF assms, of "[]"] show ?thesis by (simp add: by_id_def)
qed

lemma index_lookup:
  assumes "distinct (map g_nodeId ns)" "n \<in> set ns"
  shows "map_of (map (\<lambda>n. (g_nodeId n, graph_node_json n)) ns) (g_nodeId n) = Some (graph_node_json n)"
  using assms by (intro map_of_is_SomeI) (auto simp: comp_def)

section \<open>The shape the gate accepts\<close>

definition replays_paired :: "graph_node list \<Rightarrow> bool" where
  "replays_paired ns = ((\<forall>n\<in>set ns. run_kind (g_kind n) \<longrightarrow> (\<exists>m\<in>set ns. replay_kind (g_kind m) \<and> g_nodeId n \<in> set (g_dependencies m)))
    \<and> (\<forall>n\<in>set ns. replay_kind (g_kind n) \<longrightarrow> (\<exists>m\<in>set ns. run_kind (g_kind m) \<and> g_nodeId m \<in> set (g_dependencies n))))"

definition evidence_verified :: "graph_node list \<Rightarrow> graph_node \<Rightarrow> bool" where
  "evidence_verified ns rv = (\<forall>n\<in>set ns. replay_kind (g_kind n) \<or> g_kind n = ''formal-verify'' \<longrightarrow> g_nodeId n \<in> set (g_dependencies rv))"

definition formal_closed :: "graph_node list \<Rightarrow> graph_node \<Rightarrow> bool" where
  "formal_closed ns fc = ((\<exists>n\<in>set ns. g_kind n = ''formal-verify'') \<longrightarrow>
    (\<exists>c. filter (\<lambda>n. g_kind n = ''formal-verify'' \<and> g_sourceClosureTerminal n) ns = [c] \<and> g_nodeId c \<in> set (g_dependencies fc))
    \<and> g_sourceClosureTerminal fc \<and> forbids fc)"

definition sealed_replay :: "graph_node list \<Rightarrow> graph_node \<Rightarrow> graph_node \<Rightarrow> bool" where
  "sealed_replay ns fc n = (forbids n \<and> g_nodeId n \<in> set (g_dependencies fc)
    \<and> (\<exists>m\<in>set ns. g_dependencies n = [g_nodeId m] \<and> run_kind (g_kind m) \<and> g_sourceClosureTerminal m \<and> forbids m))"

definition empirical_closed :: "graph_node list \<Rightarrow> graph_node \<Rightarrow> bool" where
  "empirical_closed ns fc = ((\<exists>n\<in>set ns. run_kind (g_kind n)) \<longrightarrow>
    (\<exists>n\<in>set ns. replay_kind (g_kind n) \<and> g_sourceClosureTerminal n)
    \<and> (\<forall>n\<in>set ns. replay_kind (g_kind n) \<and> g_sourceClosureTerminal n \<longrightarrow> sealed_replay ns fc n)
    \<and> g_sourceClosureTerminal fc \<and> forbids fc)"

definition package_bound :: "graph_node list \<Rightarrow> graph_node \<Rightarrow> graph_node \<Rightarrow> graph_node \<Rightarrow> bool" where
  "package_bound ns pk fc rv = (filter (\<lambda>n. g_kind n \<in> {''package'', ''release-package''}) ns = [pk]
    \<and> fc \<in> set ns \<and> rv \<in> set ns \<and> g_kind fc = ''final-compile'' \<and> g_kind rv = ''research-verify'' \<and> g_nodeId fc \<in> set (g_dependencies rv)
    \<and> (\<exists>rest. g_dependencies pk = [g_nodeId fc, g_nodeId rv] @ map g_nodeId rest \<and> distinct (g_dependencies pk)
      \<and> (\<forall>n\<in>set rest. n \<in> set ns \<and> g_kind n \<notin> {''final-compile'', ''research-verify''})))"

definition release_ready :: "graph_node list \<Rightarrow> graph_node \<Rightarrow> graph_node \<Rightarrow> graph_node \<Rightarrow> bool" where
  "release_ready ns pk fc rv = (distinct (map g_nodeId ns) \<and> package_bound ns pk fc rv \<and> replays_paired ns \<and> evidence_verified ns rv
    \<and> formal_closed ns fc \<and> empirical_closed ns fc)"

lemma blocker_Nil [simp]: "blocker b msg = [] \<longleftrightarrow> \<not> b"
  by (simp add: blocker_def)

lemma filter_graph_json: "filter P (map graph_node_json ns) = map graph_node_json (filter (\<lambda>n. P (graph_node_json n)) ns)"
  by (simp add: filter_map comp_def)

lemma map_filter_lookup:
  assumes "distinct (map g_nodeId ns)" "set ms \<subseteq> set ns"
  shows "List.map_filter (map_of (map (\<lambda>n. (g_nodeId n, graph_node_json n)) ns)) (map g_nodeId ms) = map graph_node_json ms"
  using assms(2) index_lookup [OF assms(1)] by (induction ms) (auto simp: List.map_filter_simps)

lemma package_direct:
  assumes "distinct (map g_nodeId ns)" "package_bound ns pk fc rv"
  shows "filter (kind_is ''final-compile'') (direct_dependencies rt (map (\<lambda>n. (g_nodeId n, graph_node_json n)) ns) (graph_node_json pk)) = [graph_node_json fc]"
    "filter (kind_is ''research-verify'') (direct_dependencies rt (map (\<lambda>n. (g_nodeId n, graph_node_json n)) ns) (graph_node_json pk)) = [graph_node_json rv]"
proof -
  obtain rest where rest: "g_dependencies pk = map g_nodeId ([fc, rv] @ rest)" "distinct (g_dependencies pk)"
    "\<forall>n\<in>set rest. n \<in> set ns \<and> g_kind n \<notin> {''final-compile'', ''research-verify''}" and
    kinds: "fc \<in> set ns" "rv \<in> set ns" "g_kind fc = ''final-compile''" "g_kind rv = ''research-verify''"
    using assms(2) by (auto simp: package_bound_def)
  have "unique (g_dependencies pk) = g_dependencies pk" using rest(2) by (simp add: unique_def distinct_remdups_id)
  then have "direct_dependencies rt (map (\<lambda>n. (g_nodeId n, graph_node_json n)) ns) (graph_node_json pk) = map graph_node_json ([fc, rv] @ rest)"
    using map_filter_lookup [OF assms(1), of "[fc, rv] @ rest"] kinds rest(1,3) by (auto simp: direct_dependencies_def)
  moreover have "filter (\<lambda>n. g_kind n = ''final-compile'') rest = []" "filter (\<lambda>n. g_kind n = ''research-verify'') rest = []"
    using rest(3) by (auto simp: filter_empty_conv)
  ultimately show "filter (kind_is ''final-compile'') (direct_dependencies rt (map (\<lambda>n. (g_nodeId n, graph_node_json n)) ns) (graph_node_json pk)) = [graph_node_json fc]"
    "filter (kind_is ''research-verify'') (direct_dependencies rt (map (\<lambda>n. (g_nodeId n, graph_node_json n)) ns) (graph_node_json pk)) = [graph_node_json rv]"
    using kinds by (simp_all only: filter_graph_json graph_node_json_view) auto
qed

lemma head_option_simps [simp]: "head_option [] = None" "head_option (x # xs) = Some x"
  by (simp_all add: head_option_def)

lemma package_unblocked:
  assumes "release_ready ns pk fc rv"
  shows "package_blockers rt (map (\<lambda>n. (g_nodeId n, graph_node_json n)) ns) (graph_node_json pk) = []"
proof -
  let ?ix = "map (\<lambda>n. (g_nodeId n, graph_node_json n)) ns"
  have ids: "distinct (map g_nodeId ns)" and bound: "package_bound ns pk fc rv" and
    verified: "evidence_verified ns rv" and fclosed: "formal_closed ns fc" and eclosed: "empirical_closed ns fc" and fcrv: "g_nodeId fc \<in> set (g_dependencies rv)"
    using assms by (auto simp: release_ready_def package_bound_def)
  have vals: "map snd ?ix = map graph_node_json ns" by (simp add: comp_def)
  have sealed: "filter (\<lambda>c. isEmpiricalRun rt c \<and> sourceClosureTerminal (Some c)) (List.map_filter (map_of ?ix) (g_dependencies n)) = [graph_node_json m]"
    if "m \<in> set ns" "g_dependencies n = [g_nodeId m]" "run_kind (g_kind m)" "g_sourceClosureTerminal m" for n m
    using map_filter_lookup [OF ids, of "[m]"] that by simp
  let ?sealed = "\<lambda>n. filter (\<lambda>c. isEmpiricalRun rt c \<and> sourceClosureTerminal (Some c)) (List.map_filter (map_of ?ix) (g_dependencies n))"
  have replay: "length (?sealed n) = 1 \<and> sourceMutationForbidden (head_option (?sealed n)) \<and> forbids n \<and> g_nodeId n \<in> set (g_dependencies fc)"
    if "\<exists>k\<in>set ns. run_kind (g_kind k)" "n \<in> set ns" "replay_kind (g_kind n)" "g_sourceClosureTerminal n" for n
  proof -
    from eclosed that have "sealed_replay ns fc n" unfolding empirical_closed_def by blast
    then obtain m where m: "m \<in> set ns" "g_dependencies n = [g_nodeId m]" "run_kind (g_kind m)" "g_sourceClosureTerminal m" "forbids m"
      and n: "forbids n" "g_nodeId n \<in> set (g_dependencies fc)" unfolding sealed_replay_def by blast
    from sealed [OF m(1-4)] m(5) n show ?thesis by simp
  qed
  show ?thesis
    unfolding package_blockers_def Let_def vals package_direct [OF ids bound] filter_graph_json graph_node_json_view append_is_Nil_conv blocker_Nil
    apply (intro conjI)
    subgoal by simp
    subgoal by simp
    subgoal using fcrv by (simp add: head_option_def)
    subgoal using verified by (auto simp: head_option_def evidence_verified_def)
    subgoal using verified by (auto simp: head_option_def evidence_verified_def)
    subgoal using fclosed by (auto simp: head_option_def filter_empty_conv filter_graph_json formal_closed_def)
    subgoal using replay eclosed by (auto simp: filter_empty_conv empirical_closed_def)
    subgoal using fclosed eclosed by (auto simp: head_option_def filter_empty_conv formal_closed_def empirical_closed_def)
    done
qed

lemma release_ready_unblocked:
  assumes "release_ready ns pk fc rv"
  shows "rt_blockers (evaluateCampaignReleaseTopology rt (map graph_node_json ns)) = []"
proof -
  have ids: "distinct (map g_nodeId ns)" and pk: "filter (\<lambda>n. g_kind n \<in> {''package'', ''release-package''}) ns = [pk]"
    and paired: "replays_paired ns"
    using assms by (auto simp: release_ready_def package_bound_def)
  have "map snd (by_id rt (map graph_node_json ns)) = map graph_node_json ns" by (simp add: by_id_entries [OF ids] comp_def)
  moreover have "package_blockers rt (map (\<lambda>n. (g_nodeId n, graph_node_json n)) ns) (graph_node_json n) = []"
    if "n \<in> set ns" "g_kind n \<in> {''package'', ''release-package''}" for n
  proof -
    from that have "n \<in> set (filter (\<lambda>n. g_kind n \<in> {''package'', ''release-package''}) ns)" by auto
    then have "n = pk" unfolding pk by simp
    then show ?thesis using package_unblocked [OF assms] by simp
  qed
  moreover have "\<exists>d\<in>set (g_dependencies n). \<exists>m\<in>set ns. run_kind (g_kind m) \<and> g_nodeId m = d" if "n \<in> set ns" "replay_kind (g_kind n)" for n
    using paired that unfolding replays_paired_def by blast
  moreover have "\<exists>m\<in>set ns. replay_kind (g_kind m) \<and> g_nodeId n \<in> set (g_dependencies m)" if "n \<in> set ns" "run_kind (g_kind n)" for n
    using paired that unfolding replays_paired_def by blast
  ultimately show ?thesis
    by (auto simp: evaluateCampaignReleaseTopology_def Let_def by_id_entries [OF ids] filter_graph_json filter_empty_conv list_ex_iff)
qed

lemma no_package_unblocked:
  assumes "distinct (map g_nodeId ns)" "\<And>n. n \<in> set ns \<Longrightarrow> g_kind n \<notin> {''package'', ''release-package''}"
  shows "rt_blockers (evaluateCampaignReleaseTopology rt (map graph_node_json ns)) = []"
proof -
  have "filter (\<lambda>n. g_kind n \<in> {''package'', ''release-package''}) ns = []" using assms(2) by (simp add: filter_empty_conv)
  moreover have "map snd (by_id rt (map graph_node_json ns)) = map graph_node_json ns" by (simp add: by_id_entries [OF assms(1)] comp_def)
  ultimately show ?thesis
    by (simp add: evaluateCampaignReleaseTopology_def Let_def filter_graph_json)
qed

section \<open>Kinds with a profile label or a number\<close>

lemma has_pair_append:
  "has_pair a b (xs @ ys) \<longleftrightarrow> has_pair a b xs \<or> has_pair a b ys \<or> (xs \<noteq> [] \<and> ys \<noteq> [] \<and> last xs = a \<and> hd ys = b)"
  by (induction a b xs rule: has_pair.induct; cases ys) auto

lemma has_pair_member: "has_pair a b xs \<Longrightarrow> a \<in> set xs \<and> b \<in> set xs"
  by (induction a b xs rule: has_pair.induct) auto

lemma labelled_kind:
  assumes "''empirical'' \<notin> set (split_on CHR ''-'' l)" "hd (split_on CHR ''-'' l) \<noteq> ''reproduce''"
  shows "replay_kind (w @ CHR ''-'' # l) = replay_kind w" "run_kind (w @ CHR ''-'' # l) = run_kind w"
  using assms has_pair_member [of "''empirical''" "''reproduce''" "split_on CHR ''-'' l"]
  by (auto simp: replay_kind_def run_kind_def split_on_append has_pair_append)

lemma suffixed_kind:
  assumes "profiles_ok ps" "p \<in> set ps"
  shows "replay_kind (w @ profile_suffix ps p) = replay_kind w" "run_kind (w @ profile_suffix ps p) = run_kind w"
  using assms labelled_kind [of "p_label p"] by (auto simp: profile_suffix_def profiles_ok_def label_ok_def list_all_iff)

lemma numbered_kind: "replay_kind (w @ CHR ''-'' # nat_text n) = replay_kind w" "run_kind (w @ CHR ''-'' # nat_text n) = run_kind w"
proof -
  have digits: "list_all is_digit (nat_text n)" using nat_text_digits [of n] by (simp add: all_digits_def)
  then have dash: "CHR ''-'' \<notin> set (nat_text n)" by (auto simp: list_all_iff is_digit_def less_eq_char_def)
  have "\<not> list_all is_digit ''empirical''" "\<not> list_all is_digit ''reproduce''" by (simp_all add: is_digit_def less_eq_char_def)
  with digits have "nat_text n \<noteq> ''empirical''" "nat_text n \<noteq> ''reproduce''" by metis+
  with dash show "replay_kind (w @ CHR ''-'' # nat_text n) = replay_kind w" "run_kind (w @ CHR ''-'' # nat_text n) = run_kind w"
    by (auto intro!: labelled_kind simp: split_on_absent)
qed

lemmas kind_eval = replay_kind_def run_kind_def

lemma literal_kinds [simp]:
  "run_kind ''empirical''" "\<not> replay_kind ''empirical''" "replay_kind ''empirical-reproduce''" "\<not> run_kind ''empirical-reproduce''"
  "run_kind ''revalidate-empirical''" "\<not> replay_kind ''revalidate-empirical''"
  "replay_kind ''revalidate-empirical-reproduce''" "\<not> run_kind ''revalidate-empirical-reproduce''"
  "run_kind ''revalidate-empirical-source-seal''" "\<not> replay_kind ''revalidate-empirical-source-seal''"
  "replay_kind ''revalidate-empirical-reproduce-source-seal''" "\<not> run_kind ''revalidate-empirical-reproduce-source-seal''"
  by (simp_all add: kind_eval)

lemma chain_kinds:
  assumes "profiles_ok ps" "p \<in> set ps"
  shows "run_kind (''empirical'' @ profile_suffix ps p)" "replay_kind (''empirical-reproduce'' @ profile_suffix ps p)"
    "run_kind (''revalidate-empirical'' @ profile_suffix ps p)" "replay_kind (''revalidate-empirical-reproduce'' @ profile_suffix ps p)"
    "run_kind (''revalidate-empirical-source-seal'' @ profile_suffix ps p)"
    "replay_kind (''revalidate-empirical-reproduce-source-seal'' @ profile_suffix ps p)"
  by (simp_all only: suffixed_kind [OF assms] literal_kinds)

section \<open>Evidence nodes of the blocks\<close>

text \<open>
  What a block must guarantee before the closing part: its runs and replays are paired inside
  the block, the replays and formal results are among the recorded ids, none of them claims to
  close the source, and there is no release node.
\<close>

definition evidence_ok :: "bool \<Rightarrow> bool \<Rightarrow> string set \<Rightarrow> string set \<Rightarrow> graph_node list \<Rightarrow> graph_node \<Rightarrow> bool" where
  "evidence_ok b c R F ns n = (
    (run_kind (g_kind n) \<longrightarrow> c \<and> (\<exists>m\<in>set ns. replay_kind (g_kind m) \<and> g_nodeId n \<in> set (g_dependencies m)))
    \<and> (replay_kind (g_kind n) \<longrightarrow> c \<and> \<not> g_sourceClosureTerminal n \<and> g_nodeId n \<in> R
      \<and> (\<exists>m\<in>set ns. run_kind (g_kind m) \<and> g_nodeId m \<in> set (g_dependencies n)))
    \<and> (g_kind n = ''formal-verify'' \<longrightarrow> b \<and> \<not> g_sourceClosureTerminal n \<and> g_nodeId n \<in> F)
    \<and> g_kind n \<notin> {''package'', ''release-package'', ''final-compile'', ''research-verify''})"

definition covered :: "bool \<Rightarrow> bool \<Rightarrow> string set \<Rightarrow> string set \<Rightarrow> graph_node list \<Rightarrow> bool" where
  "covered b c R F ns = (\<forall>n\<in>set ns. evidence_ok b c R F ns n)"

lemma evidence_ok_mono: "evidence_ok b c R F ns n \<Longrightarrow> R \<subseteq> R' \<Longrightarrow> F \<subseteq> F' \<Longrightarrow> set ns \<subseteq> set ms \<Longrightarrow> evidence_ok b c R' F' ms n"
  unfolding evidence_ok_def by blast

lemma covered_append: "covered b c R F xs \<Longrightarrow> covered b c R F ys \<Longrightarrow> covered b c R F (xs @ ys)"
  unfolding covered_def by (auto elim!: evidence_ok_mono)

lemma covered_mono: "covered b c R F xs \<Longrightarrow> R \<subseteq> R' \<Longrightarrow> F \<subseteq> F' \<Longrightarrow> covered b c R' F' xs"
  unfolding covered_def by (auto elim!: evidence_ok_mono)

definition ordinary :: "graph_node \<Rightarrow> bool" where
  "ordinary n = (\<not> run_kind (g_kind n) \<and> \<not> replay_kind (g_kind n)
    \<and> g_kind n \<notin> {''formal-verify'', ''package'', ''release-package'', ''final-compile'', ''research-verify''})"

lemma covered_ordinary: "(\<And>n. n \<in> set ns \<Longrightarrow> ordinary n) \<Longrightarrow> covered b c R F ns"
  by (auto simp: covered_def evidence_ok_def ordinary_def)

lemma covered_Nil [simp]: "covered b c R F []"
  by (simp add: covered_def)

lemma covered_referees:
  assumes "\<not> run_kind name" "\<not> replay_kind name" "name \<in> {''referee'', ''revision-referee''}"
  shows "covered b c R F (referees cid name ds i r p k)"
proof (rule covered_ordinary)
  fix n assume "n \<in> set (referees cid name ds i r p k)"
  then obtain j where "g_kind n = name @ CHR ''-'' # nat_text (Suc j)" by (auto simp: referees_def Let_def)
  with assms show "ordinary n" by (auto simp: ordinary_def numbered_kind)
qed

lemma covered_formal:
  "b \<Longrightarrow> covered b c R {graph_node_id cid r (prefix @ ''formal-verify'')} (formal_nodes (Some (formalVerificationChain cid ds i r p prefix False)))"
  by (simp add: formalVerificationChain_def Let_def covered_def evidence_ok_def kind_eval no_options_def)

text \<open>A chain: an ordinary node, a run that waits for it, and the replay of the run.\<close>

lemma covered_chain:
  assumes "ordinary a" "run_kind (g_kind e)" "replay_kind (g_kind r)" "g_dependencies r = [g_nodeId e]" "\<not> g_sourceClosureTerminal r" "c"
  shows "covered b c {g_nodeId r} F [a, e, r]"
proof -
  have "g_kind r \<notin> {''formal-verify'', ''package'', ''release-package'', ''final-compile'', ''research-verify''}"
    "g_kind e \<notin> {''formal-verify'', ''package'', ''release-package'', ''final-compile'', ''research-verify''}"
    using assms(2,3) by (auto simp: kind_eval)
  moreover have "\<not> replay_kind (g_kind e)" "\<not> run_kind (g_kind r)" using assms(2,3) by (auto simp: run_kind_def)
  ultimately show ?thesis using assms by (auto simp: covered_def evidence_ok_def ordinary_def)
qed

lemma covered_chains:
  assumes "\<And>x. x \<in> set cs \<Longrightarrow> covered b c {g_nodeId (snd (snd x))} F [fst x, fst (snd x), snd (snd x)]"
  shows "covered b c (set (replay_ids cs)) F (chain_nodes cs)"
  using assms
proof (induction cs)
  case (Cons x cs)
  have "covered b c (set (replay_ids (x # cs))) F [fst x, fst (snd x), snd (snd x)]"
    using Cons.prems [of x] by (rule covered_mono) auto
  moreover have "covered b c (set (replay_ids (x # cs))) F (chain_nodes cs)"
    using Cons by (intro covered_mono [OF Cons.IH]) auto
  ultimately show ?case unfolding block_simps by (rule covered_append)
qed simp

lemma ordinary_labelled:
  assumes "profiles_ok ps" "p \<in> set ps" "g_kind n = w @ profile_suffix ps p" "w = ''coder'' \<or> w = ''revalidate-code''"
  shows "ordinary n"
proof -
  have "\<not> run_kind w" "\<not> replay_kind w" using assms(4) by (auto simp: kind_eval)
  with assms show ?thesis by (auto simp: ordinary_def suffixed_kind)
qed

lemma covered_empirical:
  assumes "profiles_ok ps" "set qs \<subseteq> set ps" "c"
  shows "x \<in> set (empirical_chains_from cid ds ps i previous qs) \<Longrightarrow> covered b c {g_nodeId (snd (snd x))} F [fst x, fst (snd x), snd (snd x)]"
  using assms(2)
proof (induction qs arbitrary: previous)
  case (Cons q qs)
  have "covered b c {g_nodeId (snd (snd y))} F [fst y, fst (snd y), snd (snd y)]" if "y = empirical_chain cid ds ps i q previous" for y
    using that Cons.prems(2) chain_kinds(1,2) [OF assms(1), of q] ordinary_labelled [OF assms(1), of q] assms(3)
    by (intro covered_chain) (auto simp: empirical_chain_def Let_def)
  with Cons show ?case by (auto simp: Let_def)
qed simp

lemma covered_revalidation:
  assumes "profiles_ok ps" "q \<in> set ps" "c" "x = revalidation_chain cid anchor ps i r q"
  shows "covered b c {g_nodeId (snd (snd x))} F [fst x, fst (snd x), snd (snd x)]"
  using assms chain_kinds(3,4) [OF assms(1,2)] ordinary_labelled [OF assms(1,2)]
  by (intro covered_chain) (auto simp: revalidation_chain_def Let_def)

section \<open>Rounds and opening\<close>

lemma covered_requested:
  "covered b c R (set (formal_ids (if_requested b (formalVerificationChain cid ds i r p prefix False))))
    (formal_nodes (if_requested b (formalVerificationChain cid ds i r p prefix False)))"
  using covered_formal [of b c R cid r prefix ds i p] by (cases b) (simp_all add: formalVerificationChain_def Let_def)

lemma review_round_covered:
  assumes "review_round cid reviewers ps i fr r s = (added, s')" "profiles_ok ps"
  shows "covered fr (ps \<noteq> []) (set (rs_replays s')) (set (rs_formal s')) added
    \<and> set (rs_replays s) \<subseteq> set (rs_replays s') \<and> set (rs_formal s) \<subseteq> set (rs_formal s')"
proof -
  obtain refs revise formal where first: "revision_part cid reviewers i fr r s = (refs, revise, formal)" by (metis prod_cases3)
  let ?a = "after_formal (g_nodeId revise) formal"
  obtain cs checks second convergence where rest: "revalidation_part cid reviewers ps i r ?a = (cs, checks, second, convergence)"
    by (metis prod_cases4)
  let ?R = "set (rs_replays s')" and ?F = "set (rs_formal s')"
  have res: "added = refs @ [revise] @ formal_nodes formal @ chain_nodes cs @ checks @ second @ [convergence]"
    "rs_replays s' = rs_replays s @ replay_ids cs" "rs_formal s' = rs_formal s @ formal_ids formal"
    using assms(1) by (auto simp: review_round_def first rest Let_def)
  have parts: "refs = referees cid ''referee'' [rs_previous s] i r 60 reviewers" "g_kind revise = ''revise''"
    "formal = if_requested fr (formalVerificationChain cid [g_nodeId revise] i r 74 [] False)"
    using first by (auto simp: revision_part_def Let_def)
  have parts2: "cs = map (revalidation_chain cid ?a ps i r) ps" "checks = revision_checks cid ?a i r"
    "\<exists>ds. second = referees cid ''revision-referee'' ds i r 85 reviewers" "g_kind convergence = ''convergence''"
    using rest by (auto simp: revalidation_part_def Let_def)
  have "covered fr (ps \<noteq> []) ?R ?F refs" unfolding parts(1) by (rule covered_referees) (simp_all add: kind_eval)
  moreover have "covered fr (ps \<noteq> []) ?R ?F [revise]" by (rule covered_ordinary) (simp add: ordinary_def parts(2) kind_eval)
  moreover have "covered fr (ps \<noteq> []) ?R ?F (formal_nodes formal)"
    unfolding parts(3) by (rule covered_mono [OF covered_requested order.refl]) (simp add: res(3) parts(3))
  moreover have "covered fr (ps \<noteq> []) (set (replay_ids cs)) ?F (chain_nodes cs)"
    by (rule covered_chains) (auto simp: parts2(1) intro: covered_revalidation [OF assms(2)])
  then have "covered fr (ps \<noteq> []) ?R ?F (chain_nodes cs)" by (rule covered_mono) (auto simp: res(2))
  moreover have "covered fr (ps \<noteq> []) ?R ?F checks"
    by (rule covered_ordinary) (auto simp: parts2(2) revision_checks_def ordinary_def kind_eval)
  moreover have "covered fr (ps \<noteq> []) ?R ?F second" using parts2(3) by (auto intro!: covered_referees simp: kind_eval)
  moreover have "covered fr (ps \<noteq> []) ?R ?F [convergence]" by (rule covered_ordinary) (simp add: ordinary_def parts2(4) kind_eval)
  ultimately have "covered fr (ps \<noteq> []) ?R ?F added" unfolding res(1) by (intro covered_append)
  then show ?thesis by (simp add: res(2,3))
qed

lemma review_rounds_covered:
  assumes "profiles_ok ps"
  shows "review_rounds cid reviewers ps i fr rs nds s = (ns, s') \<Longrightarrow> covered fr (ps \<noteq> []) (set (rs_replays s)) (A \<union> set (rs_formal s)) nds
    \<Longrightarrow> covered fr (ps \<noteq> []) (set (rs_replays s')) (A \<union> set (rs_formal s')) ns"
proof (induction rs arbitrary: nds s)
  case (Cons r rs)
  obtain added t where t: "review_round cid reviewers ps i fr r s = (added, t)" by fastforce
  note c = review_round_covered [OF t assms]
  have "covered fr (ps \<noteq> []) (set (rs_replays t)) (A \<union> set (rs_formal t)) (nds @ added)"
    by (rule covered_append) (use c Cons.prems(2) in \<open>auto elim!: covered_mono\<close>)
  then show ?case using Cons.IH Cons.prems(1) by (simp add: t)
qed simp

lemma opening_covered:
  assumes "profiles_ok ps"
  shows "covered fr (ps \<noteq> []) (set (replay_ids (opening_chains cid ps i)))
    (set (formal_ids (render_authority cid ps i im fr)) \<union> set (formal_ids (opening_formal cid ps i im fr))) (full_opening cid ps i im fr)"
proof -
  let ?cs = "opening_chains cid ps i" and ?au = "render_authority cid ps i im fr" and ?fo = "opening_formal cid ps i im fr"
  let ?R = "set (replay_ids ?cs)" and ?F = "set (formal_ids ?au) \<union> set (formal_ids ?fo)"
  have "covered fr (ps \<noteq> []) ?R ?F [research_node cid i, writer_node cid i]"
    by (rule covered_ordinary) (auto simp: research_node_def writer_node_def ordinary_def kind_eval)
  moreover have "covered fr (ps \<noteq> []) ?R ?F (chain_nodes ?cs)"
  proof (cases "ps = []")
    case False
    then show ?thesis unfolding opening_chains_def empiricalChains_def
      by (intro covered_chains covered_empirical [OF assms order.refl])
  qed (simp add: opening_chains_def empiricalChains_def)
  moreover have "covered fr (ps \<noteq> []) ?R ?F (formal_nodes ?au)"
    using covered_requested [of fr "ps \<noteq> []" ?R cid "manuscript_dependencies cid ps i" i 0 38 "''render-authority-''"]
    by (cases im) (auto simp: render_authority_def elim!: covered_mono)
  moreover have "covered fr (ps \<noteq> []) ?R ?F (opt_list (integrate_node cid ps i im fr))"
    by (cases im) (auto simp: integrate_node_def ordinary_def kind_eval intro!: covered_ordinary)
  moreover have "covered fr (ps \<noteq> []) ?R (set (formal_ids ?fo)) (formal_nodes ?fo)"
    unfolding opening_formal_def by (rule covered_requested)
  then have "covered fr (ps \<noteq> []) ?R ?F (formal_nodes ?fo)" by (rule covered_mono) auto
  moreover have "covered fr (ps \<noteq> []) ?R ?F [initial_compile cid ps i im fr]"
    by (rule covered_ordinary) (simp add: initial_compile_def ordinary_def kind_eval)
  ultimately show ?thesis unfolding full_opening_def by (intro covered_append)
qed

section \<open>Modes that package\<close>

lemma filter_none: "(\<And>n. n \<in> set xs \<Longrightarrow> \<not> P n) \<Longrightarrow> filter P xs = []"
  by (simp add: filter_empty_conv)

text \<open>The sealed chains and the numerical nodes of the closing part.\<close>

lemma sealed_member:
  assumes "profiles_ok ps" "n \<in> set (pair_nodes (map (sealed_chain cid ds ps i) qs))" "set qs \<subseteq> set ps"
  obtains m where "m \<in> set (pair_nodes (map (sealed_chain cid ds ps i) qs))" "run_kind (g_kind m)" "g_sourceClosureTerminal m" "forbids m"
    "n = m \<or> replay_kind (g_kind n) \<and> g_sourceClosureTerminal n \<and> forbids n \<and> g_dependencies n = [g_nodeId m]
      \<and> g_nodeId n \<in> set (map (\<lambda>c. g_nodeId (snd c)) (map (sealed_chain cid ds ps i) qs))"
    "\<exists>k\<in>set (pair_nodes (map (sealed_chain cid ds ps i) qs)). replay_kind (g_kind k) \<and> g_sourceClosureTerminal k
      \<and> g_nodeId m \<in> set (g_dependencies k)"
proof -
  from assms(2) obtain q where q: "q \<in> set qs" "n = fst (sealed_chain cid ds ps i q) \<or> n = snd (sealed_chain cid ds ps i q)"
    by (auto simp: pair_nodes_def)
  let ?m = "fst (sealed_chain cid ds ps i q)" and ?k = "snd (sealed_chain cid ds ps i q)"
  have mem: "?m \<in> set (pair_nodes (map (sealed_chain cid ds ps i) qs))" "?k \<in> set (pair_nodes (map (sealed_chain cid ds ps i) qs))"
    "g_nodeId ?k \<in> set (map (\<lambda>c. g_nodeId (snd c)) (map (sealed_chain cid ds ps i) qs))"
    using q(1) by (auto simp: pair_nodes_def)
  have facts: "run_kind (g_kind ?m)" "g_sourceClosureTerminal ?m" "forbids ?m" "replay_kind (g_kind ?k)" "g_sourceClosureTerminal ?k" "forbids ?k"
    "g_dependencies ?k = [g_nodeId ?m]"
    using chain_kinds(5,6) [OF assms(1), of q] q(1) assms(3) by (auto simp: sealed_chain_def Let_def)
  show ?thesis
    by (rule that [of ?m]) (use mem facts q(2) in auto)
qed

lemma numerical_ordinary: "n \<in> set (numerical_nodes rt cid ps i fr advancedPlan gpuPlan s) \<Longrightarrow> ordinary n"
  by (cases advancedPlan; cases gpuPlan)
    (auto simp: numerical_nodes_def Let_def buildGpuScientificCampaignGraphNode_def ordinary_def kind_eval)

text \<open>Nodes in front of a closing part: what \<open>covered\<close> leaves to show about the whole graph.\<close>

lemma evidence_kinds:
  "run_kind k \<or> replay_kind k \<Longrightarrow> k \<notin> {''formal-verify'', ''theorem-spec'', ''package'', ''release-package'', ''final-compile'', ''research-verify''}"
  by (auto simp: kind_eval)

lemma run_not_replay: "run_kind k \<Longrightarrow> \<not> replay_kind k"
  by (simp add: run_kind_def)

definition sealed_block :: "graph_node list \<Rightarrow> graph_node \<Rightarrow> graph_node \<Rightarrow> bool" where
  "sealed_block SE fc rv = (\<forall>n\<in>set SE. \<exists>m\<in>set SE. run_kind (g_kind m) \<and> g_sourceClosureTerminal m \<and> forbids m
    \<and> (n = m \<or> replay_kind (g_kind n) \<and> g_sourceClosureTerminal n \<and> forbids n \<and> g_dependencies n = [g_nodeId m]
      \<and> g_nodeId n \<in> set (g_dependencies fc) \<and> g_nodeId n \<in> set (g_dependencies rv))
    \<and> (\<exists>k\<in>set SE. replay_kind (g_kind k) \<and> g_sourceClosureTerminal k \<and> g_nodeId m \<in> set (g_dependencies k)))"

definition formal_block :: "bool \<Rightarrow> graph_node list \<Rightarrow> graph_node \<Rightarrow> graph_node \<Rightarrow> bool" where
  "formal_block fr FO fc rv = (FO = [] \<and> \<not> fr \<or> (\<exists>u v. fr \<and> FO = [u, v] \<and> g_kind u = ''theorem-spec'' \<and> g_kind v = ''formal-verify''
    \<and> g_sourceClosureTerminal v \<and> g_nodeId v \<in> set (g_dependencies fc) \<and> g_nodeId v \<in> set (g_dependencies rv)))"

locale closed_graph =
  fixes A FO SE NU RF :: "graph_node list" and fc rv pk :: graph_node and fr emp :: bool and R F :: "string set"
  assumes cov: "covered fr emp R F A" and fo: "formal_block fr FO fc rv" and se: "sealed_block SE fc rv"
    and nu: "\<And>n. n \<in> set (NU @ RF) \<Longrightarrow> ordinary n" and recorded: "R \<union> F \<subseteq> set (g_dependencies rv)"
    and kinds: "g_kind fc = ''final-compile''" "g_kind rv = ''research-verify''" "g_kind pk = ''package''"
    and bound: "g_dependencies pk = [g_nodeId fc, g_nodeId rv] @ map g_nodeId RF" "g_nodeId fc \<in> set (g_dependencies rv)"
    and sealed: "fr \<or> emp \<Longrightarrow> g_sourceClosureTerminal fc \<and> forbids fc" and some: "emp \<longleftrightarrow> SE \<noteq> []"
begin

abbreviation graph :: "graph_node list" where
  "graph \<equiv> A @ FO @ SE @ NU @ [fc, rv] @ RF @ [pk]"

lemma ends_plain: "\<not> run_kind (g_kind fc)" "\<not> replay_kind (g_kind fc)" "\<not> run_kind (g_kind rv)" "\<not> replay_kind (g_kind rv)"
  "\<not> run_kind (g_kind pk)" "\<not> replay_kind (g_kind pk)"
  by (simp_all add: kinds kind_eval)

lemma in_A: "n \<in> set A \<Longrightarrow> evidence_ok fr emp R F A n"
  using cov by (simp add: covered_def)

lemma in_FO: "n \<in> set FO \<Longrightarrow> fr \<and> \<not> run_kind (g_kind n) \<and> \<not> replay_kind (g_kind n) \<and> g_kind n \<in> {''theorem-spec'', ''formal-verify''}"
  using fo by (auto simp: formal_block_def kind_eval)

lemma in_SE: "n \<in> set SE \<Longrightarrow> run_kind (g_kind n) \<or> replay_kind (g_kind n)"
  using se unfolding sealed_block_def by blast

lemma evidence_nodes:
  assumes "n \<in> set graph" "run_kind (g_kind n) \<or> replay_kind (g_kind n)"
  shows "n \<in> set A \<or> n \<in> set SE"
  using assms in_FO nu ends_plain by (auto simp: ordinary_def)

lemma formal_nodes_of:
  assumes "n \<in> set graph" "g_kind n = ''formal-verify''"
  shows "n \<in> set A \<or> n \<in> set FO"
  using assms in_SE evidence_kinds nu kinds by (auto simp: ordinary_def)

lemma paired: "replays_paired graph"
  unfolding replays_paired_def
proof (intro conjI ballI impI)
  fix n assume n: "n \<in> set graph" "run_kind (g_kind n)"
  with evidence_nodes consider "n \<in> set A" | "n \<in> set SE" by blast
  then show "\<exists>m\<in>set graph. replay_kind (g_kind m) \<and> g_nodeId n \<in> set (g_dependencies m)"
  proof cases
    case 1
    then show ?thesis using in_A [OF 1] n(2) by (auto simp: evidence_ok_def)
  next
    case 2
    then obtain m k where "n = m \<or> replay_kind (g_kind n)" "k \<in> set SE" "replay_kind (g_kind k)" "g_nodeId m \<in> set (g_dependencies k)"
      using se unfolding sealed_block_def by blast
    with n(2) run_not_replay show ?thesis by auto
  qed
next
  fix n assume n: "n \<in> set graph" "replay_kind (g_kind n)"
  with evidence_nodes consider "n \<in> set A" | "n \<in> set SE" by blast
  then show "\<exists>m\<in>set graph. run_kind (g_kind m) \<and> g_nodeId m \<in> set (g_dependencies n)"
  proof cases
    case 1
    then show ?thesis using in_A [OF 1] n(2) by (auto simp: evidence_ok_def)
  next
    case 2
    then obtain m where "m \<in> set SE" "run_kind (g_kind m)" "n = m \<or> g_dependencies n = [g_nodeId m]"
      using se unfolding sealed_block_def by blast
    with n(2) run_not_replay show ?thesis by auto
  qed
qed

lemma verified: "evidence_verified graph rv"
  unfolding evidence_verified_def
proof (intro ballI impI)
  fix n assume n: "n \<in> set graph" "replay_kind (g_kind n) \<or> g_kind n = ''formal-verify''"
  then consider "n \<in> set A" | "n \<in> set SE" "replay_kind (g_kind n)" | "n \<in> set FO" "g_kind n = ''formal-verify''"
    using evidence_nodes formal_nodes_of by blast
  then show "g_nodeId n \<in> set (g_dependencies rv)"
  proof cases
    case 1
    then show ?thesis using in_A [OF 1] n(2) recorded by (auto simp: evidence_ok_def)
  next
    case 2
    then show ?thesis using se run_not_replay unfolding sealed_block_def by blast
  next
    case 3
    then show ?thesis using fo by (auto simp: formal_block_def)
  qed
qed

lemma formally: "formal_closed graph fc"
  unfolding formal_closed_def
proof
  assume "\<exists>n\<in>set graph. g_kind n = ''formal-verify''"
  then obtain n where n: "n \<in> set graph" "g_kind n = ''formal-verify''" by blast
  from formal_nodes_of [OF n] have fr
  proof
    assume "n \<in> set A"
    from in_A [OF this] n(2) show fr by (simp only: evidence_ok_def simp_thms)
  qed (simp add: in_FO)
  with fo obtain u v where FO: "FO = [u, v]" "g_kind u = ''theorem-spec''" "g_kind v = ''formal-verify''" "g_sourceClosureTerminal v"
    "g_nodeId v \<in> set (g_dependencies fc)" by (auto simp: formal_block_def)
  have "filter (\<lambda>n. g_kind n = ''formal-verify'' \<and> g_sourceClosureTerminal n) A = []"
    using in_A by (intro filter_none) (auto simp: evidence_ok_def)
  moreover have "filter (\<lambda>n. g_kind n = ''formal-verify'' \<and> g_sourceClosureTerminal n) SE = []"
    using in_SE evidence_kinds by (intro filter_none) blast
  moreover have "filter (\<lambda>n. g_kind n = ''formal-verify'' \<and> g_sourceClosureTerminal n) NU = []"
      "filter (\<lambda>n. g_kind n = ''formal-verify'' \<and> g_sourceClosureTerminal n) RF = []"
    using nu by (intro filter_none; simp add: ordinary_def)+
  ultimately have "filter (\<lambda>n. g_kind n = ''formal-verify'' \<and> g_sourceClosureTerminal n) graph = [v]"
    using FO kinds by simp
  then show "(\<exists>c. filter (\<lambda>n. g_kind n = ''formal-verify'' \<and> g_sourceClosureTerminal n) graph = [c] \<and> g_nodeId c \<in> set (g_dependencies fc))
      \<and> g_sourceClosureTerminal fc \<and> forbids fc"
    using FO(5) sealed \<open>fr\<close> by blast
qed

lemma empirically: "empirical_closed graph fc"
  unfolding empirical_closed_def
proof (intro impI conjI)
  assume "\<exists>n\<in>set graph. run_kind (g_kind n)"
  then obtain k where k: "k \<in> set graph" "run_kind (g_kind k)" by blast
  have emp
  proof (cases "k \<in> set A")
    case True
    from in_A [OF this] k(2) show emp by (simp only: evidence_ok_def simp_thms)
  next
    case False
    with evidence_nodes k have "SE \<noteq> []" by force
    then show emp by (simp add: some)
  qed
  with sealed show "g_sourceClosureTerminal fc" "forbids fc" by blast+
  from \<open>emp\<close> some obtain n where "n \<in> set SE" by (cases SE) auto
  then show "\<exists>n\<in>set graph. replay_kind (g_kind n) \<and> g_sourceClosureTerminal n"
    using se unfolding sealed_block_def by fastforce
  show "\<forall>n\<in>set graph. replay_kind (g_kind n) \<and> g_sourceClosureTerminal n \<longrightarrow> sealed_replay graph fc n"
  proof (intro ballI impI)
    fix n assume n: "n \<in> set graph" "replay_kind (g_kind n) \<and> g_sourceClosureTerminal n"
    have "n \<notin> set A" using in_A [of n] n(2) by (simp only: evidence_ok_def simp_thms) blast
    then have "n \<in> set SE" using evidence_nodes n by blast
    then obtain m where "m \<in> set SE" "run_kind (g_kind m)" "g_sourceClosureTerminal m" "forbids m"
      "n = m \<or> forbids n \<and> g_dependencies n = [g_nodeId m] \<and> g_nodeId n \<in> set (g_dependencies fc)"
      using se unfolding sealed_block_def by blast
    with n(2) run_not_replay show "sealed_replay graph fc n" by (auto simp: sealed_replay_def)
  qed
qed

lemma packaged: "distinct (map g_nodeId graph) \<Longrightarrow> package_bound graph pk fc rv"
proof -
  assume ids: "distinct (map g_nodeId graph)"
  let ?P = "\<lambda>n. g_kind n \<in> {''package'', ''release-package''}"
  have "filter ?P A = []" by (rule filter_none) (use in_A in \<open>simp add: evidence_ok_def\<close>)
  moreover have "filter ?P FO = []" by (rule filter_none) (drule in_FO, auto)
  moreover have "filter ?P SE = []" by (rule filter_none) (use in_SE evidence_kinds in blast)
  moreover have "filter ?P NU = []" "filter ?P RF = []" by (rule filter_none; use nu in \<open>simp add: ordinary_def\<close>)+
  ultimately have "filter ?P graph = [pk]" using kinds by simp
  moreover have "distinct (g_dependencies pk)" using ids by (simp add: bound(1))
  moreover have "\<forall>n\<in>set RF. n \<in> set graph \<and> g_kind n \<notin> {''final-compile'', ''research-verify''}" using nu by (simp add: ordinary_def)
  ultimately show "package_bound graph pk fc rv" using kinds bound by (simp only: package_bound_def) auto
qed

lemma ready: "distinct (map g_nodeId graph) \<Longrightarrow> release_ready graph pk fc rv"
  using packaged paired verified formally empirically by (simp only: release_ready_def)

end

section \<open>The modes that package are such graphs\<close>

abbreviation full_final :: "runtime \<Rightarrow> string \<Rightarrow> nat \<Rightarrow> execution_profile list \<Rightarrow> json option \<Rightarrow> bool \<Rightarrow> json option \<Rightarrow> json option \<Rightarrow> review_state \<Rightarrow> graph_node" where
  "full_final rt cid rounds ps i fr ap gp s \<equiv> final_compile cid rounds ps i fr (numerical_nodes rt cid ps i fr ap gp s) s"

abbreviation full_research :: "runtime \<Rightarrow> string \<Rightarrow> nat \<Rightarrow> execution_profile list \<Rightarrow> json option \<Rightarrow> bool \<Rightarrow> json option \<Rightarrow> json option \<Rightarrow> string list
    \<Rightarrow> review_state \<Rightarrow> graph_node" where
  "full_research rt cid rounds ps i fr ap gp au s \<equiv>
    the (research_verify_node cid rounds ps i fr True (numerical_nodes rt cid ps i fr ap gp s) au s)"

lemma closing_sealed:
  assumes "profiles_ok ps" "set (closing_replays cid ps i fr s) \<subseteq> set (g_dependencies fc) \<inter> set (g_dependencies rv)"
  shows "sealed_block (pair_nodes (closing_chains cid ps i fr s)) fc rv"
  unfolding sealed_block_def
proof
  let ?cs = "map (sealed_chain cid [closing_anchor cid i fr s] ps i) ps"
  have cs: "closing_chains cid ps i fr s = ?cs" "set (map (\<lambda>c. g_nodeId (snd c)) ?cs) \<subseteq> set (g_dependencies fc) \<inter> set (g_dependencies rv)"
    using assms(2) by (simp_all add: closing_chains_def closing_replays_def sealedEmpiricalChains_def)
  fix n assume "n \<in> set (pair_nodes (closing_chains cid ps i fr s))"
  with cs have "n \<in> set (pair_nodes ?cs)" by simp
  from sealed_member [OF assms(1) this order.refl] obtain m where
    m: "m \<in> set (pair_nodes ?cs)" "run_kind (g_kind m)" "g_sourceClosureTerminal m" "forbids m"
      "n = m \<or> replay_kind (g_kind n) \<and> g_sourceClosureTerminal n \<and> forbids n \<and> g_dependencies n = [g_nodeId m]
        \<and> g_nodeId n \<in> set (map (\<lambda>c. g_nodeId (snd c)) ?cs)"
      "\<exists>k\<in>set (pair_nodes ?cs). replay_kind (g_kind k) \<and> g_sourceClosureTerminal k \<and> g_nodeId m \<in> set (g_dependencies k)"
    by blast
  then have "n = m \<or> replay_kind (g_kind n) \<and> g_sourceClosureTerminal n \<and> forbids n \<and> g_dependencies n = [g_nodeId m]
      \<and> g_nodeId n \<in> set (g_dependencies fc) \<and> g_nodeId n \<in> set (g_dependencies rv)"
    using cs(2) by blast
  with m(1-4,6) show "\<exists>m\<in>set (pair_nodes (closing_chains cid ps i fr s)). run_kind (g_kind m) \<and> g_sourceClosureTerminal m \<and> forbids m
    \<and> (n = m \<or> replay_kind (g_kind n) \<and> g_sourceClosureTerminal n \<and> forbids n \<and> g_dependencies n = [g_nodeId m]
      \<and> g_nodeId n \<in> set (g_dependencies fc) \<and> g_nodeId n \<in> set (g_dependencies rv))
    \<and> (\<exists>k\<in>set (pair_nodes (closing_chains cid ps i fr s)). replay_kind (g_kind k) \<and> g_sourceClosureTerminal k \<and> g_nodeId m \<in> set (g_dependencies k))"
    unfolding cs(1) by blast
qed

lemma full_closed_graph:
  assumes "profiles_ok ps" "covered fr (ps \<noteq> []) (set (rs_replays s)) (set au \<union> set (rs_formal s)) A"
  shows "closed_graph A (formal_nodes (closing_formal cid i fr s)) (pair_nodes (closing_chains cid ps i fr s))
    (numerical_nodes rt cid ps i fr ap gp s) [] (full_final rt cid rounds ps i fr ap gp s) (full_research rt cid rounds ps i fr ap gp au s)
    (package_node cid rounds i (full_final rt cid rounds ps i fr ap gp s) (Some (full_research rt cid rounds ps i fr ap gp au s)))
    fr (ps \<noteq> []) (set (rs_replays s)) (set au \<union> set (rs_formal s))"
proof
  let ?nu = "numerical_nodes rt cid ps i fr ap gp s" and ?fc = "full_final rt cid rounds ps i fr ap gp s"
  let ?rv = "full_research rt cid rounds ps i fr ap gp au s"
  have rv_deps: "set (g_dependencies ?rv) = {g_nodeId ?fc} \<union> set au \<union> set (rs_formal s) \<union> set (formal_ids (closing_formal cid i fr s))
      \<union> set (rs_replays s) \<union> set (closing_replays cid ps i fr s) \<union> ids ?nu"
    by (auto simp: research_verify_node_def)
  have fc_deps: "set (g_dependencies ?fc) = set (rs_convergence s) \<union> set (formal_ids (closing_formal cid i fr s)) \<union> set (closing_replays cid ps i fr s) \<union> ids ?nu"
    by (auto simp: final_compile_def Let_def)
  show "covered fr (ps \<noteq> []) (set (rs_replays s)) (set au \<union> set (rs_formal s)) A" by (rule assms(2))
  show "formal_block fr (formal_nodes (closing_formal cid i fr s)) ?fc ?rv"
    unfolding formal_block_def rv_deps fc_deps by (cases fr) (auto simp: closing_formal_def formalVerificationChain_def Let_def)
  show "sealed_block (pair_nodes (closing_chains cid ps i fr s)) ?fc ?rv"
    by (rule closing_sealed [OF assms(1)]) (auto simp: rv_deps fc_deps)
  show "\<And>n. n \<in> set (?nu @ []) \<Longrightarrow> ordinary n" using numerical_ordinary by auto
  show "set (rs_replays s) \<union> (set au \<union> set (rs_formal s)) \<subseteq> set (g_dependencies ?rv)" by (auto simp: rv_deps)
  show "g_nodeId ?fc \<in> set (g_dependencies ?rv)" by (simp add: rv_deps)
  show "fr \<or> ps \<noteq> [] \<Longrightarrow> g_sourceClosureTerminal ?fc \<and> forbids ?fc"
    by (cases fr) (auto simp: final_compile_def Let_def closing_formal_def closing_chains_def sealedEmpiricalChains_def)
  show "ps \<noteq> [] \<longleftrightarrow> pair_nodes (closing_chains cid ps i fr s) \<noteq> []"
    by (cases ps) (auto simp: closing_chains_def sealedEmpiricalChains_def)
qed (simp_all add: final_compile_def Let_def research_verify_node_def package_node_def)

text \<open>Profiles whose labels cannot be confused with a kind, as an argument of the interpretation.\<close>

definition sane :: "execution_profile list \<Rightarrow> execution_profile list" where
  "sane ps = (if profiles_ok ps then ps else [])"

lemma sane_ok: "profiles_ok (sane ps)" "profiles_ok ps \<Longrightarrow> sane ps = ps"
  by (simp_all add: sane_def profiles_ok_def)

definition reviewed :: "string \<Rightarrow> nat \<Rightarrow> nat \<Rightarrow> execution_profile list \<Rightarrow> json option \<Rightarrow> bool \<Rightarrow> bool \<Rightarrow> review_state" where
  "reviewed cid rounds reviewers ps i im fr = snd (full_review cid rounds reviewers ps i im fr)"

lemma full_front_covered:
  assumes "profiles_ok ps"
  shows "covered fr (ps \<noteq> []) (set (rs_replays (reviewed cid rounds reviewers ps i im fr)))
    (set (formal_ids (render_authority cid ps i im fr)) \<union> set (rs_formal (reviewed cid rounds reviewers ps i im fr)))
    (fst (full_review cid rounds reviewers ps i im fr))"
proof -
  obtain ns s where run: "full_review cid rounds reviewers ps i im fr = (ns, s)" by fastforce
  have "covered fr (ps \<noteq> []) (set (rs_replays s)) (set (formal_ids (render_authority cid ps i im fr)) \<union> set (rs_formal s)) ns"
    using opening_covered [OF assms, of fr cid i im]
    by (intro review_rounds_covered [OF assms run [unfolded full_review_def appendReviewRounds_def]])
      (cases "opening_formal cid ps i im fr"; simp)
  then show ?thesis by (simp add: run reviewed_def)
qed

interpretation full: closed_graph "fst (full_review cid rounds reviewers (sane ps) i im fr)"
  "formal_nodes (closing_formal cid i fr (reviewed cid rounds reviewers (sane ps) i im fr))"
  "pair_nodes (closing_chains cid (sane ps) i fr (reviewed cid rounds reviewers (sane ps) i im fr))"
  "numerical_nodes rt cid (sane ps) i fr ap gp (reviewed cid rounds reviewers (sane ps) i im fr)" "[]"
  "full_final rt cid rounds (sane ps) i fr ap gp (reviewed cid rounds reviewers (sane ps) i im fr)"
  "full_research rt cid rounds (sane ps) i fr ap gp (formal_ids (render_authority cid (sane ps) i im fr)) (reviewed cid rounds reviewers (sane ps) i im fr)"
  "package_node cid rounds i (full_final rt cid rounds (sane ps) i fr ap gp (reviewed cid rounds reviewers (sane ps) i im fr))
    (Some (full_research rt cid rounds (sane ps) i fr ap gp (formal_ids (render_authority cid (sane ps) i im fr)) (reviewed cid rounds reviewers (sane ps) i im fr)))"
  fr "sane ps \<noteq> []" "set (rs_replays (reviewed cid rounds reviewers (sane ps) i im fr))"
  "set (formal_ids (render_authority cid (sane ps) i im fr)) \<union> set (rs_formal (reviewed cid rounds reviewers (sane ps) i im fr))"
  for cid rounds reviewers ps i im fr rt ap gp
  by (rule full_closed_graph [OF sane_ok(1) full_front_covered [OF sane_ok(1)]])

lemma full_unblocked:
  assumes "profiles_ok ps"
  shows "rt_blockers (evaluateCampaignReleaseTopology rt' (map graph_node_json (appendFullCampaign rt cid rounds reviewers ps i im fr True ap gp))) = []"
proof -
  have "appendFullCampaign rt cid rounds reviewers ps i im fr True ap gp = full.graph cid rounds reviewers ps i im fr rt ap gp"
    by (simp add: appendFullCampaign_def full_closing_def Let_def sane_ok(2) [OF assms] reviewed_def research_verify_node_def split: prod.splits)
  then show ?thesis
    using release_ready_unblocked [OF full.ready] full_distinct [OF assms, of rt cid rounds reviewers i im fr True ap gp] by simp
qed

lemma referees_ordinary: "n \<in> set (referees cid ''referee'' ds i r p k) \<Longrightarrow> ordinary n"
  using numbered_kind [of "''referee''"] by (auto simp: referees_def Let_def ordinary_def kind_eval)

interpretation package: closed_graph "opt_list (preflight cid i fr)" "formal_nodes (prepared_formal cid i fr)" "[]" "[]"
  "prepared_referees cid i fr reviewers inc" "prepared_final cid i fr" "prepared_research cid i fr" "prepared_package cid i fr reviewers inc"
  fr False "{}" "{}"
  for cid i fr reviewers inc
proof
  show "covered fr False {} {} (opt_list (preflight cid i fr))"
    by (rule covered_ordinary) (cases fr; simp add: preflight_def ordinary_def kind_eval)
  show "formal_block fr (formal_nodes (prepared_formal cid i fr)) (prepared_final cid i fr) (prepared_research cid i fr)"
    by (cases fr) (simp_all add: formal_block_def prepared_formal_def preflight_def formalVerificationChain_def prepared_final_def prepared_research_def Let_def)
  show "\<And>n. n \<in> set ([] @ prepared_referees cid i fr reviewers inc) \<Longrightarrow> ordinary n"
    using referees_ordinary by (auto simp: prepared_referees_def split: if_splits)
  show "fr \<or> False \<Longrightarrow> g_sourceClosureTerminal (prepared_final cid i fr) \<and> forbids (prepared_final cid i fr)"
    by (simp add: prepared_final_def Let_def)
qed (simp_all add: sealed_block_def prepared_final_def prepared_research_def prepared_package_def Let_def)

lemma package_unblocked_graph:
  "rt_blockers (evaluateCampaignReleaseTopology rt (map graph_node_json (appendPackagePreparation cid i fr reviewers inc))) = []"
proof -
  have "appendPackagePreparation cid i fr reviewers inc = package.graph cid i fr reviewers inc" by (simp add: appendPackagePreparation_def)
  then show ?thesis using release_ready_unblocked [OF package.ready] package_distinct [of cid i fr reviewers inc] by simp
qed

text \<open>Without a research verification the package waits for the final compilation only.\<close>

lemma unverified_package_blocked:
  assumes "distinct (map g_nodeId ns)" "pk \<in> set ns" "g_kind pk = ''package''" "fc \<in> set ns" "g_kind fc = ''final-compile''"
    "g_dependencies pk = [g_nodeId fc]"
  shows "rt_blockers (evaluateCampaignReleaseTopology rt (map graph_node_json ns)) \<noteq> []"
proof -
  let ?ix = "map (\<lambda>n. (g_nodeId n, graph_node_json n)) ns"
  have "direct_dependencies rt ?ix (graph_node_json pk) = [graph_node_json fc]"
    using map_filter_lookup [OF assms(1), of "[fc]"] assms(4,6) by (simp add: direct_dependencies_def unique_def)
  then have "package_blockers rt ?ix (graph_node_json pk) \<noteq> []"
    using assms(5) by (simp add: package_blockers_def Let_def blocker_def)
  moreover have "map snd (by_id rt (map graph_node_json ns)) = map graph_node_json ns" by (simp add: by_id_entries [OF assms(1)] comp_def)
  ultimately show ?thesis
    using assms(2,3) by (auto simp: evaluateCampaignReleaseTopology_def Let_def by_id_entries [OF assms(1)] filter_graph_json unique_def)
qed

lemma full_unverified_blocked:
  assumes "distinct (map g_nodeId (appendFullCampaign rt cid rounds reviewers ps i im fr False ap gp))"
  shows "rt_blockers (evaluateCampaignReleaseTopology rt' (map graph_node_json (appendFullCampaign rt cid rounds reviewers ps i im fr False ap gp))) \<noteq> []"
proof (rule unverified_package_blocked [OF assms])
  let ?s = "snd (full_review cid rounds reviewers ps i im fr)"
  let ?fc = "full_final rt cid rounds ps i fr ap gp ?s"
  show "package_node cid rounds i ?fc None \<in> set (appendFullCampaign rt cid rounds reviewers ps i im fr False ap gp)"
    "?fc \<in> set (appendFullCampaign rt cid rounds reviewers ps i im fr False ap gp)"
    by (simp_all add: appendFullCampaign_def full_closing_def Let_def research_verify_node_def case_prod_beta)
qed (simp_all add: package_node_def final_compile_def Let_def)

section \<open>Modes without a package\<close>

definition unpackaged :: "graph_node list \<Rightarrow> bool" where
  "unpackaged ns = list_all (\<lambda>n. g_kind n \<notin> {''package'', ''release-package''}) ns"

lemma unpackaged_simps [simp]: "unpackaged []" "unpackaged (n # ns) \<longleftrightarrow> g_kind n \<notin> {''package'', ''release-package''} \<and> unpackaged ns"
  "unpackaged (xs @ ys) \<longleftrightarrow> unpackaged xs \<and> unpackaged ys"
  by (simp_all add: unpackaged_def)

lemma covered_unpackaged: "covered b c R F ns \<Longrightarrow> unpackaged ns"
  by (auto simp: covered_def evidence_ok_def unpackaged_def list_all_iff)

lemma chains_unpackaged: "unpackaged (chain_nodes (empirical_chains_from cid ds ps i previous qs))"
  by (induction qs arbitrary: previous) (auto simp: empirical_chain_def Let_def)

lemma referees_unpackaged: "unpackaged (referees cid ''referee'' ds i r p k)"
  using referees_ordinary by (fastforce simp: unpackaged_def list_all_iff ordinary_def)

lemma formal_unpackaged: "unpackaged (formal_nodes (if_requested b (formalVerificationChain cid ds i r p prefix t)))"
  by (cases b) (simp_all add: formalVerificationChain_def Let_def)

lemma rounds_unpackaged:
  assumes "profiles_ok ps"
  shows "review_rounds cid reviewers ps i fr rs nds s = (ns, s') \<Longrightarrow> unpackaged nds \<Longrightarrow> unpackaged ns"
proof (induction rs arbitrary: nds s)
  case (Cons r rs)
  obtain added t where t: "review_round cid reviewers ps i fr r s = (added, t)" by fastforce
  have "unpackaged added" using review_round_covered [OF t assms] covered_unpackaged by blast
  then have "unpackaged (nds @ added)" using Cons.prems(2) by simp
  then show ?case using Cons.IH Cons.prems(1) by (simp add: t)
qed simp

lemma loop_unpackaged:
  assumes "profiles_ok ps"
  shows "unpackaged (review_loop_nodes cid rounds reviewers ps i er am fr)"
proof -
  obtain ns ds where op: "review_loop_opening cid ps i er am = (ns, ds)" by fastforce
  let ?co = "campaignGraphNode cid ''compile'' ds (latex (plain i 0 50))"
  obtain ms s where run: "appendReviewRounds (ns @ [?co]) cid (g_nodeId ?co) rounds reviewers (if er then ps else []) i fr [] None = (ms, s)"
    by fastforce
  have ok: "profiles_ok (if er then ps else [])" using assms by (simp add: profiles_ok_def)
  have "unpackaged ns" using op
    by (cases er; cases am) (auto simp: review_loop_opening_def Let_def empiricalChains_def chains_unpackaged)
  then have "unpackaged (ns @ [?co])" by simp
  from rounds_unpackaged [OF ok run [unfolded appendReviewRounds_def] this]
  show ?thesis by (simp add: review_loop_nodes_def op run Let_def del: campaignGraphNode_fields(1))
qed

lemma other_unpackaged: "unpackaged (referee_revise_nodes cid reviewers i fr)" "unpackaged (research_verify_nodes cid i fr)"
  "unpackaged (empirical_analysis_nodes cid ps i am)"
  by (simp_all add: referee_revise_nodes_def research_verify_nodes_def empirical_analysis_nodes_def empiricalChains_def Let_def
      referees_unpackaged formal_unpackaged chains_unpackaged)

lemma mode_unblocked:
  assumes "mode_nodes rt q = Inr ns" "profiles_ok (mr_profiles q)" "mr_mode q = ''full-campaign'' \<longrightarrow> mr_research q"
  shows "rt_blockers (evaluateCampaignReleaseTopology rt' (map graph_node_json ns)) = []"
proof (cases "mr_mode q \<in> {''full-campaign'', ''local-package'', ''reviewed-submit'', ''local-dry-run''}")
  case True
  with assms show ?thesis
    by (auto simp: mode_nodes_def Let_def full_unblocked package_unblocked_graph)
next
  case False
  with assms have "unpackaged ns"
    using loop_unpackaged [OF assms(2)] by (auto simp: other_unpackaged referees_unpackaged mode_nodes_def Let_def split: if_splits)
  with mode_distinct [OF assms(1,2)] show ?thesis by (intro no_package_unblocked) (auto simp: unpackaged_def list_all_iff)
qed

lemma mode_blocked:
  assumes "mode_nodes rt q = Inr ns" "profiles_ok (mr_profiles q)" "mr_mode q = ''full-campaign''" "\<not> mr_research q"
  shows "rt_blockers (evaluateCampaignReleaseTopology rt' (map graph_node_json ns)) \<noteq> []"
proof -
  have ns: "ns = appendFullCampaign rt (mr_campaignId q) (mr_rounds q) (mr_reviewers q) (mr_profiles q) (mr_intent q) True (mr_formal q)
      False (mr_advancedPlan q) (mr_gpuPlan q)"
    using assms(1,3,4) by (simp add: mode_nodes_def Let_def)
  show ?thesis
    using mode_distinct [OF assms(1,2)] unfolding ns by (rule full_unverified_blocked)
qed

end
