(* ===== verification/Graph_Properties.thy ===== *)
theory Graph_Properties
  imports Graph_Release Campaign_Example
begin

text \<open>
  Properties of the generated campaign graphs: they are well formed, they pass the release
  gate of the definition codec unless a full campaign does not require research verification, and the ready policy never gets stuck on them.
\<close>

section \<open>Building succeeds with the nodes of the mode\<close>

lemma build_mode_nodes: "buildCampaignModeNodes rt pc q = Inr ns \<Longrightarrow> mode_nodes rt q = Inr ns"
  by (auto simp: buildCampaignModeNodes_def rbind_Inr_iff)

lemma profiles_of_languages:
  assumes "distinct languages" "list_all label_ok languages"
  shows "profiles_ok (empiricalExecutionProfiles languages g e)"
  using assms by (auto simp: profiles_ok_def empiricalExecutionProfiles_def comp_def list_all_iff)

section \<open>Rows of a graph\<close>

definition node_shape :: "node_row \<Rightarrow> string \<times> string list" where
  "node_shape r = (node_id r, dependencies r)"

definition graph_shape :: "graph_node \<Rightarrow> string \<times> string list" where
  "graph_shape n = (g_nodeId n, g_dependencies n)"

lemma row_lookup:
  assumes "distinct (map node_id rows)" "m \<in> set rows"
  shows "map_of (rev (map (\<lambda>m. (node_id m, m)) rows)) (node_id m) = Some m"
  using assms by (intro map_of_is_SomeI) (auto simp: rev_map [symmetric] comp_def)

lemma least_open_ready:
  assumes order: "scheduled {} ns" and ids: "distinct (map g_nodeId ns)"
    and rows: "mset (map node_shape rows) = mset (map graph_shape ns)"
    and open_row: "r \<in> set rows" "\<not> node_done (n_status r)"
    and states: "\<And>m. m \<in> set rows \<Longrightarrow> n_status m = Queued \<or> node_done (n_status m)"
  shows "\<exists>m\<in>set rows. node_ready rows m"
proof -
  have shapes: "node_shape ` set rows = graph_shape ` set ns" using arg_cong [OF rows, of set_mset] by simp
  have "mset (map node_id rows) = mset (map g_nodeId ns)"
    using arg_cong [OF rows, of "image_mset fst"] by (simp add: image_mset.compositionality comp_def node_shape_def graph_shape_def)
  then have distinct: "distinct (map node_id rows)" using ids by (metis mset_eq_imp_distinct_iff)
  define P where "P i = (i < length ns \<and> (\<exists>m\<in>set rows. node_id m = g_nodeId (ns ! i) \<and> \<not> node_done (n_status m)))" for i
  have "node_shape r \<in> graph_shape ` set ns" using open_row(1) shapes by blast
  then obtain k where "k < length ns" "node_shape r = graph_shape (ns ! k)" by (auto simp: in_set_conv_nth)
  with open_row have "P k" by (auto simp: P_def node_shape_def graph_shape_def)
  then have least: "P (LEAST i. P i)" "\<And>j. j < (LEAST i. P i) \<Longrightarrow> \<not> P j" by (auto intro: LeastI dest: not_less_Least)
  define i where "i = (LEAST i. P i)"
  obtain m where m: "m \<in> set rows" "node_id m = g_nodeId (ns ! i)" "\<not> node_done (n_status m)" and i: "i < length ns"
    using least(1) by (auto simp: P_def i_def)
  have "node_shape m \<in> graph_shape ` set ns" using m(1) shapes by blast
  then have deps_m: "dependencies m = g_dependencies (ns ! i)"
    using m(2) i ids by (auto simp: node_shape_def graph_shape_def distinct_map inj_on_def)
  have "\<exists>n. map_of (rev (map (\<lambda>m. (node_id m, m)) rows)) d = Some n \<and> node_done (n_status n)" if d: "d \<in> set (dependencies m)" for d
  proof -
    obtain j where j: "j < i" "g_nodeId (ns ! j) = d" using scheduled_nth [OF order i, of d] d deps_m by auto
    with i have "graph_shape (ns ! j) \<in> graph_shape ` set ns" by simp
    then obtain n where n: "n \<in> set rows" "node_id n = d" using shapes j(2) by (force simp: node_shape_def graph_shape_def)
    moreover have "node_done (n_status n)" using least(2) [of j] j n i by (auto simp: P_def i_def)
    ultimately show ?thesis using row_lookup [OF distinct n(1)] by auto
  qed
  then have "node_ready rows m" using states [OF m(1)] m(3) by (fastforce simp: node_ready_def list_all_iff)
  with m(1) show ?thesis by blast
qed

section \<open>Properties\<close>

text \<open>
  C14. Every graph the mode builder returns is well formed: node ids are distinct, and every
  dependency is the id of a node listed before the one that waits for it, so the graph has no
  dangling edge and no cycle.
\<close>

theorem mode_graph_well_formed:
  assumes "buildCampaignModeNodes rt pc q = Inr ns" "profiles_ok (mr_profiles q)"
  shows "distinct (map g_nodeId ns) \<and> (\<forall>i<length ns. \<forall>d\<in>set (g_dependencies (ns ! i)). \<exists>j<i. g_nodeId (ns ! j) = d)"
  using mode_distinct [OF build_mode_nodes [OF assms(1)] assms(2)] scheduled_nth [OF mode_scheduled [OF build_mode_nodes [OF assms(1)]]]
  by blast

text \<open>
  C13. The graph builder and the release gate of the definition codec, for profiles with distinct
  and unambiguous labels: the nodes the builder returns for a mode pass the gate without a
  blocker exactly when the mode is not the full campaign or research verification is required.
  The plan factory requires it for the full campaign; with the default of the builder itself,
  which does not, the gate blocks the package of every full campaign.
\<close>

theorem mode_graph_passes_release_gate:
  assumes "buildCampaignModeNodes rt pc q = Inr ns" "profiles_ok (mr_profiles q)"
  shows "rt_blockers (evaluateCampaignReleaseTopology rt' (map graph_node_json ns)) = []
    \<longleftrightarrow> (mr_mode q = ''full-campaign'' \<longrightarrow> mr_research q)"
  using mode_unblocked [OF build_mode_nodes [OF assms(1)] assms(2)] mode_blocked [OF build_mode_nodes [OF assms(1)] assms(2)]
  by blast

text \<open>
  C15. Scheduling never gets stuck on a generated graph: as long as every row of the campaign is
  queued or done and one is not done, in whatever order the rows are read, the ready policy
  selects a node.
\<close>

theorem mode_graph_never_stuck:
  assumes "buildCampaignModeNodes rt pc q = Inr ns" "profiles_ok (mr_profiles q)"
    "mset (map node_shape rows) = mset (map graph_shape ns)"
    "\<forall>m\<in>set rows. n_status m = Queued \<or> node_done (n_status m)" "\<exists>r\<in>set rows. \<not> node_done (n_status r)"
  shows "selectReadyCampaignNodes rt' rows limit \<noteq> []"
proof -
  obtain r where "r \<in> set rows" "\<not> node_done (n_status r)" using assms(5) by blast
  from least_open_ready [OF mode_scheduled [OF build_mode_nodes [OF assms(1)]] mode_distinct [OF build_mode_nodes [OF assms(1)] assms(2)] assms(3) this]
  obtain m where "m \<in> set rows" "node_ready rows m" using assms(4) by blast
  then show ?thesis by (rule selectReady_progress)
qed

section \<open>A full campaign in two languages\<close>

definition ex_checks :: plan_checks where
  "ex_checks = \<lparr>advanced_plan_check = (\<lambda>_ _. Inl ''campaign_advanced_numerical_execution_plan_invalid''),
    gpu_plan_check = (\<lambda>_ _. Inl ''campaign_gpu_scientific_execution_plan_invalid'')\<rparr>"

definition ex_request :: "string \<Rightarrow> mode_request" where
  "ex_request mode = \<lparr>mr_campaignId = ''c'', mr_mode = mode, mr_rounds = 2, mr_reviewers = 2,
    mr_profiles = empiricalExecutionProfiles [''latex'', ''python'', ''julia''] False True, mr_intent = None, mr_empirical = True,
    mr_applyManuscript = True, mr_formal = True, mr_research = True, mr_advancedPlan = None, mr_gpuPlan = None\<rparr>"

definition ex_graph :: "graph_node list" where
  "ex_graph = projr (buildCampaignModeNodes ex_rt ex_checks (ex_request ''full-campaign''))"

lemma ex_graph_built: "buildCampaignModeNodes ex_rt ex_checks (ex_request ''full-campaign'') = Inr ex_graph"
  by (simp add: ex_graph_def buildCampaignModeNodes_def mode_nodes_def ex_request_def Let_def)

lemma ex_profiles: "profiles_ok (mr_profiles (ex_request mode))"
  unfolding ex_request_def by (simp add: profiles_of_languages label_ok_def)

lemma ex_graph_size: "length ex_graph = 57"
  by code_simp

theorem mode_graph_well_formed_witness:
  "distinct (map g_nodeId ex_graph) \<and> length ex_graph = 57
    \<and> list_all (\<lambda>i. set (g_dependencies (ex_graph ! i)) \<subseteq> g_nodeId ` set (take i ex_graph)) [0..<57]"
proof -
  note wf = mode_graph_well_formed [OF ex_graph_built ex_profiles]
  have "d \<in> g_nodeId ` set (take i ex_graph)" if i57: "i < 57" and d: "d \<in> set (g_dependencies (ex_graph ! i))" for i d
  proof -
    from i57 have i: "i < length ex_graph" by (simp only: ex_graph_size)
    then obtain j where j: "j < i" "g_nodeId (ex_graph ! j) = d" using wf d by blast
    with i have "ex_graph ! j \<in> set (take i ex_graph)" using nth_mem [of j "take i ex_graph"] by simp
    with j(2) show ?thesis by blast
  qed
  with wf ex_graph_size show ?thesis by (simp add: list_all_iff subset_iff)
qed

definition ex_unverified :: mode_request where
  "ex_unverified = (ex_request ''full-campaign'')\<lparr>mr_research := False\<rparr>"

theorem mode_graph_passes_release_gate_witness:
  "rt_blockers (evaluateCampaignReleaseTopology ex_rt (map graph_node_json ex_graph)) = []
    \<and> rt_blockers (evaluateCampaignReleaseTopology ex_rt
        (map graph_node_json (projr (buildCampaignModeNodes ex_rt ex_checks ex_unverified)))) \<noteq> []"
proof
  show "rt_blockers (evaluateCampaignReleaseTopology ex_rt (map graph_node_json ex_graph)) = []"
    using mode_graph_passes_release_gate [OF ex_graph_built ex_profiles, of ex_rt] by (simp add: ex_request_def)
  have built: "buildCampaignModeNodes ex_rt ex_checks ex_unverified = Inr (projr (buildCampaignModeNodes ex_rt ex_checks ex_unverified))"
    by (simp add: buildCampaignModeNodes_def mode_nodes_def ex_unverified_def ex_request_def Let_def)
  have ok: "profiles_ok (mr_profiles ex_unverified)" using ex_profiles [of "''full-campaign''"] by (simp add: ex_unverified_def)
  have "mr_mode ex_unverified = ''full-campaign''" "\<not> mr_research ex_unverified" by (simp_all add: ex_unverified_def ex_request_def)
  with mode_graph_passes_release_gate [OF built ok, of ex_rt] show "rt_blockers (evaluateCampaignReleaseTopology ex_rt
      (map graph_node_json (projr (buildCampaignModeNodes ex_rt ex_checks ex_unverified)))) \<noteq> []" by blast
qed

definition ex_rows :: "node_row list" where
  "ex_rows = map (\<lambda>n. fresh_node (g_nodeId n) ''c'' (g_kind n) 0 100 (g_dependencies n) (JObj []) 3 0 None) ex_graph"

theorem mode_graph_never_stuck_witness:
  "selectReadyCampaignNodes ex_rt ex_rows 1 \<noteq> []"
proof (rule mode_graph_never_stuck [OF ex_graph_built ex_profiles])
  show "mset (map node_shape ex_rows) = mset (map graph_shape ex_graph)"
    by (simp add: ex_rows_def comp_def node_shape_def [abs_def] graph_shape_def [abs_def] fresh_node_def)
  show "\<forall>m\<in>set ex_rows. n_status m = Queued \<or> node_done (n_status m)" by (simp add: ex_rows_def fresh_node_def)
  have "hd ex_graph \<in> set ex_graph" using ex_graph_size by (intro hd_in_set) auto
  then show "\<exists>r\<in>set ex_rows. \<not> node_done (n_status r)" by (auto simp: ex_rows_def fresh_node_def node_done_def)
qed

end
