(* ===== verification/Resource_Governor.thy ===== *)
theory Resource_Governor
  imports Campaign_Graph
begin

text \<open>
  Node kinds (\<open>campaign-node-kind-policy.mjs\<close>) and the resource governor
  (\<open>resource-governor.mjs\<close>). A JavaScript number is a rational, NaN is \<open>None\<close>. A waiter is
  the object the source queues; \<open>resolve\<close> and \<open>reject\<close> only schedule continuations, so a call of
  \<open>drain\<close> runs to its end before any client resumes, and its result is the list of the
  promises it settled, in order. An abort signal is a number; \<open>aborted\<close> maps it to its
  reason once it has fired.
\<close>

section \<open>Node kinds\<close>

text \<open>\<open>starts_word w kind\<close> is the regular expression \<open>/^w(?:-|$)/\<close>.\<close>

definition starts_word :: "string \<Rightarrow> string \<Rightarrow> bool" where
  "starts_word w kind = (kind = w \<or> take (length w + 1) kind = w @ ''-'')"

text \<open>\<open>/^w(?:$|-(?!reproduce(?:-|$)))/\<close>.\<close>

definition starts_unreproduced :: "string \<Rightarrow> string \<Rightarrow> bool" where
  "starts_unreproduced w kind = (kind = w \<or> take (length w + 1) kind = w @ ''-''
    \<and> \<not> starts_word ''reproduce'' (drop (length w + 1) kind))"

definition isCampaignRefereeNode :: "string \<Rightarrow> bool" where
  "isCampaignRefereeNode kind = (all_digits_after ''referee-'' kind \<or> all_digits_after ''revision-referee-'' kind)"

definition CAMPAIGN_AGENT_NODE_KINDS :: "string list" where
  "CAMPAIGN_AGENT_NODE_KINDS = [''research-plan'', ''writer'', ''theorem-spec'', ''formal-author'', ''formal-review'',
    ''manuscript-integrate'', ''revise'']"

definition isCampaignAgentNode :: "string \<Rightarrow> bool" where
  "isCampaignAgentNode kind = (kind \<in> set CAMPAIGN_AGENT_NODE_KINDS \<or> starts_word ''coder'' kind
    \<or> isCampaignRefereeNode kind)"

record classification =
  cl_primary :: bool
  cl_reproduce :: bool
  cl_revalidateCode :: bool
  cl_revalidateReplay :: bool
  cl_revalidate :: bool
  cl_reproduction :: bool
  cl_compile :: bool
  cl_empirical :: bool

definition campaignEmpiricalNodeClassification :: "string \<Rightarrow> classification" where
  "campaignEmpiricalNodeClassification kind =
    (let primary = starts_unreproduced ''empirical'' kind;
         reproduce = starts_word ''empirical-reproduce'' kind;
         revalidateCode = starts_word ''revalidate-code'' kind;
         revalidateReplay = starts_word ''revalidate-empirical-reproduce'' kind;
         revalidate = starts_unreproduced ''revalidate-empirical'' kind;
         reproduction = reproduce \<or> revalidateReplay;
         compile = kind \<in> {''compile'', ''final-compile'', ''revalidate-compile''} in
     \<lparr>cl_primary = primary, cl_reproduce = reproduce, cl_revalidateCode = revalidateCode,
      cl_revalidateReplay = revalidateReplay, cl_revalidate = revalidate, cl_reproduction = reproduction,
      cl_compile = compile,
      cl_empirical = (primary \<or> reproduction \<or> revalidateCode \<or> revalidate \<or> compile)\<rparr>)"

definition campaignNodeOperation :: "string \<Rightarrow> string" where
  "campaignNodeOperation kind =
    (if kind = ''advanced-numerical-analysis'' then ''advanced-numerical''
     else if kind = ''gpu-scientific-execution'' then ''gpu-scientific''
     else if kind = ''formal-verify'' then ''formal-verification''
     else if kind = ''research-verify'' then ''research-verification''
     else if isCampaignAgentNode kind then ''agent''
     else if kind = ''convergence'' then ''convergence''
     else if kind \<in> {''revalidate-citations'', ''revalidate-artifacts''} then ''quality-revalidation''
     else if kind = ''package'' then ''package''
     else if cl_empirical (campaignEmpiricalNodeClassification kind) then ''empirical''
     else ''noop'')"

section \<open>Resource requests\<close>

datatype resource = Agent | Cpu | Gpu | MemoryMiB

definition all_resources :: "resource list" where
  "all_resources = [Agent, Cpu, Gpu, MemoryMiB]"

fun resource_key :: "resource \<Rightarrow> string" where
  "resource_key Agent = ''agent''"
| "resource_key Cpu = ''cpu''"
| "resource_key Gpu = ''gpu''"
| "resource_key MemoryMiB = ''memoryMiB''"

type_synonym amounts = "resource \<Rightarrow> rat option"

definition normalize_amounts :: "runtime \<Rightarrow> json \<Rightarrow> amounts" where
  "normalize_amounts rt request r =
    map_option (max 0) (js_number rt (Some (or_else (jget (resource_key r) request) (JNum 0))))"

definition requires_gpu :: "json \<Rightarrow> bool" where
  "requires_gpu spec = jtruthy (jget ''requiresGpu'' spec)"

text \<open>
  The memory of an empirical worker. A value that is no number gives NaN, which
  \<open>normalize\<close> reads as 0 (\<open>NaN || 0\<close>).
\<close>

definition worker_memory :: "runtime \<Rightarrow> json \<Rightarrow> rat" where
  "worker_memory rt spec =
    (case js_number rt (Some (or_else (jget ''workerMemoryBytes'' spec) (JInt (4 * 1024 * 1024 * 1024)))) of
       Some q \<Rightarrow> max 1 (of_int \<lceil>q / (1024 * 1024)\<rceil>) | None \<Rightarrow> 0)"

definition reservation_of :: "bool \<Rightarrow> bool \<Rightarrow> bool \<Rightarrow> rat \<Rightarrow> resource \<Rightarrow> rat" where
  "reservation_of agent cpu gpu memory r = (case r of Agent \<Rightarrow> if agent then 1 else 0 | Cpu \<Rightarrow> if cpu then 1 else 0
    | Gpu \<Rightarrow> if gpu then 1 else 0 | MemoryMiB \<Rightarrow> memory)"

text \<open>
  The nodes of the store keep their graph options in \<open>spec\<close>; \<open>requiresGpu\<close> and
  \<open>gpuScientificResourceBudgetHash\<close> are not columns of their own, so the reads of the node itself
  yield \<open>undefined\<close>.
\<close>

definition resourcesForCampaignNode :: "runtime \<Rightarrow> campaign_row \<Rightarrow> node_row \<Rightarrow> (resource \<Rightarrow> rat) result" where
  "resourcesForCampaignNode rt c n =
    (if n_kind n = ''gpu-scientific-execution''
     then if jget ''gpuScientificResourceBudgetHash'' (n_spec n)
            \<noteq> Some (JStr (hashRecord rt ''GpuScientificCampaignResourceBudget'' gpu_budget_payload))
          then Inl ''gpu_scientific_campaign_resource_budget_binding_invalid''
          else Inr (reservation_of False True True 8192)
     else
       let cl = campaignEmpiricalNodeClassification (n_kind n);
           agent = isCampaignAgentNode (n_kind n);
           empirical = cl_empirical cl \<or> n_kind n \<in> {''advanced-numerical-analysis'', ''gpu-scientific-execution'',
             ''formal-verify'', ''package'', ''revalidate-citations'', ''revalidate-artifacts''};
           gpuExecution = cl_primary cl \<or> cl_reproduction cl \<or> cl_revalidate cl
             \<or> n_kind n \<in> {''advanced-numerical-analysis'', ''gpu-scientific-execution''};
           gpu = gpuExecution \<and> (requires_gpu (n_spec n) \<or> requires_gpu (c_spec c)) in
       Inr (reservation_of agent empirical gpu
         (if agent then 2048 else if empirical then worker_memory rt (c_spec c) else 128)))"

text \<open>The request object the engine hands to \<open>acquire\<close>.\<close>

definition request_json :: "(resource \<Rightarrow> rat) \<Rightarrow> json" where
  "request_json q = JObj (map (\<lambda>r. (resource_key r, JNum (q r))) all_resources)"

section \<open>The governor\<close>

record waiter =
  w_id :: nat
  w_request :: amounts
  w_signal :: "nat option"

record governor =
  gov_limits :: amounts
  gov_used :: "resource \<Rightarrow> rat"
  gov_peak :: "resource \<Rightarrow> rat"
  gov_queue :: "waiter list"

datatype settlement = Granted waiter | Rejected waiter string

type_synonym signals = "nat \<Rightarrow> string option"

definition DEFAULT_LIMITS :: json where
  "DEFAULT_LIMITS = JObj [(''agent'', JInt 4), (''cpu'', JInt 4), (''gpu'', JInt 1), (''memoryMiB'', JInt 8192)]"

definition createResourceGovernor :: "runtime \<Rightarrow> json \<Rightarrow> governor" where
  "createResourceGovernor rt limits =
    \<lparr>gov_limits = normalize_amounts rt (JObj (obj_spread (object_entries DEFAULT_LIMITS) (object_entries limits))),
     gov_used = (\<lambda>_. 0), gov_peak = (\<lambda>_. 0), gov_queue = []\<rparr>"

definition fits_amount :: "rat \<Rightarrow> rat option \<Rightarrow> rat option \<Rightarrow> bool" where
  "fits_amount used request limit = (case (request, limit) of (Some q, Some m) \<Rightarrow> used + q \<le> m | _ \<Rightarrow> False)"

definition fits :: "governor \<Rightarrow> amounts \<Rightarrow> bool" where
  "fits g request = list_all (\<lambda>r. fits_amount (gov_used g r) (request r) (gov_limits g r)) all_resources"

text \<open>\<open>amount\<close> reads an amount that has passed \<open>fits\<close> or \<open>acquire\<close>'s holder, where it is a number.\<close>

definition amount :: "rat option \<Rightarrow> rat" where
  "amount q = (case q of Some x \<Rightarrow> x | None \<Rightarrow> 0)"

definition take_resources :: "amounts \<Rightarrow> governor \<Rightarrow> governor" where
  "take_resources request g =
    (let used = (\<lambda>r. gov_used g r + amount (request r)) in
     g\<lparr>gov_used := used, gov_peak := (\<lambda>r. max (gov_peak g r) (used r))\<rparr>)"

definition signal_reason :: "signals \<Rightarrow> nat option \<Rightarrow> string option" where
  "signal_reason aborted s = Option.bind s aborted"

definition abort_message :: "string \<Rightarrow> string" where
  "abort_message reason = ''resource_acquire_aborted:'' @ (if reason = [] then ''aborted'' else reason)"

definition without_index :: "nat \<Rightarrow> 'a list \<Rightarrow> 'a list" where
  "without_index i xs = take i xs @ drop (Suc i) xs"

function drain_from :: "signals \<Rightarrow> nat \<Rightarrow> governor \<Rightarrow> governor \<times> settlement list" where
  "drain_from aborted i g =
    (if i < length (gov_queue g)
     then let w = gov_queue g ! i; removed = g\<lparr>gov_queue := without_index i (gov_queue g)\<rparr> in
       case signal_reason aborted (w_signal w) of
         Some reason \<Rightarrow> map_prod id ((#) (Rejected w (abort_message reason))) (drain_from aborted i removed)
       | None \<Rightarrow>
           if \<not> fits g (w_request w) then drain_from aborted (i + 1) g
           else map_prod id ((#) (Granted w)) (drain_from aborted i (take_resources (w_request w) removed))
     else (g, []))"
  by pat_completeness auto
termination
  by (relation "measure (\<lambda>(aborted, i, g). length (gov_queue g) - i)")
    (auto simp: without_index_def take_resources_def Let_def)

declare drain_from.simps [simp del]

definition drain :: "signals \<Rightarrow> governor \<Rightarrow> governor \<times> settlement list" where
  "drain aborted g = drain_from aborted 0 g"

definition exceeds :: "amounts \<Rightarrow> amounts \<Rightarrow> resource \<Rightarrow> bool" where
  "exceeds request limits r = (case (request r, limits r) of (Some q, Some m) \<Rightarrow> m < q | _ \<Rightarrow> False)"

text \<open>\<open>acquire\<close>: a thrown error, or the governor with the promises settled on the way.\<close>

definition acquire :: "runtime \<Rightarrow> signals \<Rightarrow> nat \<Rightarrow> json \<Rightarrow> nat option \<Rightarrow> governor \<Rightarrow> (governor \<times> settlement list) result" where
  "acquire rt aborted i request s g =
    (let w = \<lparr>w_id = i, w_request = normalize_amounts rt request, w_signal = s\<rparr> in
     case find (exceeds (w_request w) (gov_limits g)) all_resources of
       Some r \<Rightarrow> Inl (''resource_request_exceeds_limit:'' @ resource_key r)
     | None \<Rightarrow> Inr (case signal_reason aborted s of
           Some reason \<Rightarrow> (g, [Rejected w (abort_message reason)])
         | None \<Rightarrow> drain aborted (g\<lparr>gov_queue := gov_queue g @ [w]\<rparr>)))"

text \<open>The abort listener of a queued waiter, and the release function of a granted one.\<close>

definition abort_waiter :: "string \<Rightarrow> waiter \<Rightarrow> governor \<Rightarrow> governor \<times> settlement list" where
  "abort_waiter reason w g = (g\<lparr>gov_queue := filter (\<lambda>x. w_id x \<noteq> w_id w) (gov_queue g)\<rparr>, [Rejected w (abort_message reason)])"

definition release_resources :: "signals \<Rightarrow> waiter \<Rightarrow> governor \<Rightarrow> governor \<times> settlement list" where
  "release_resources aborted w g = drain aborted (g\<lparr>gov_used := (\<lambda>r. gov_used g r - amount (w_request w r))\<rparr>)"

end
