(* ===== verification/Governor_Properties.thy ===== *)
theory Governor_Properties
  imports Resource_Governor Campaign_Example
begin

text \<open>
  The resource governor as a state machine. A client acquires, holds what it was granted and
  releases it once; a signal fires at any moment and its listeners run one after another, with
  other calls in between. The governor never hands out more than its limits, wastes no
  capacity a waiting request could use, and lets no request overtake an earlier one that asks
  for no more.
\<close>

section \<open>One pass over the queue\<close>

text \<open>The reference for the index loop of \<open>drain\<close>: a structural pass that keeps what does not fit.\<close>

fun serve :: "signals \<Rightarrow> governor \<Rightarrow> waiter list \<Rightarrow> governor \<times> waiter list \<times> settlement list" where
  "serve aborted g [] = (g, [], [])"
| "serve aborted g (w # ws) = (case signal_reason aborted (w_signal w) of
     Some reason \<Rightarrow> map_prod id (map_prod id ((#) (Rejected w (abort_message reason)))) (serve aborted g ws)
   | None \<Rightarrow> if fits g (w_request w)
       then map_prod id (map_prod id ((#) (Granted w))) (serve aborted (take_resources (w_request w) g) ws)
       else map_prod id (map_prod ((#) w) id) (serve aborted g ws))"

lemma fits_queue [simp]: "fits (g\<lparr>gov_queue := q\<rparr>) = fits g"
  by (simp add: fits_def fun_eq_iff)

lemma take_resources_queue [simp]:
  "take_resources req (g\<lparr>gov_queue := q\<rparr>) = (take_resources req g)\<lparr>gov_queue := q\<rparr>"
  "gov_queue (take_resources req g) = gov_queue g" "gov_limits (take_resources req g) = gov_limits g"
  "gov_used (take_resources req g) = (\<lambda>r. gov_used g r + amount (req r))"
  "gov_peak (take_resources req g) = (\<lambda>r. max (gov_peak g r) (gov_used g r + amount (req r)))"
  by (simp_all add: take_resources_def Let_def)

lemma serve_queue: "serve aborted (g\<lparr>gov_queue := q\<rparr>) ws = map_prod (gov_queue_update (\<lambda>_. q)) id (serve aborted g ws)"
  by (induction ws arbitrary: g) (auto simp: map_prod_def comp_def split: option.splits prod.splits)

lemma without_index_drop: "i < length q \<Longrightarrow> drop i (without_index i q) = drop (Suc i) q"
  "i < length q \<Longrightarrow> take i (without_index i q) = take i q"
  by (simp_all add: without_index_def)

lemma drain_from_serve:
  "i \<le> length (gov_queue g) \<Longrightarrow> drain_from aborted i g =
    (case serve aborted g (drop i (gov_queue g)) of (g', kept, os) \<Rightarrow> (g'\<lparr>gov_queue := take i (gov_queue g) @ kept\<rparr>, os))"
proof (induction aborted i g rule: drain_from.induct)
  case (1 aborted i g)
  let ?q = "gov_queue g"
  show ?case
  proof (cases "i < length ?q")
    case False
    with 1(4) have "i = length ?q" by simp
    then show ?thesis by (simp add: drain_from.simps [of aborted "length ?q" g])
  next
    case True
    let ?w = "?q ! i"
    let ?g = "g\<lparr>gov_queue := without_index i ?q\<rparr>"
    have d: "drop i ?q = ?w # drop (Suc i) ?q" using True by (simp add: Cons_nth_drop_Suc)
    have len: "i \<le> length (without_index i ?q)" using True by (simp add: without_index_def)
    note step = drain_from.simps [of aborted i g, unfolded Let_def]
    show ?thesis
    proof (cases "signal_reason aborted (w_signal ?w)")
      case (Some reason)
      with 1(3) [OF True HOL.refl HOL.refl Some] len True show ?thesis
        by (simp add: step d serve_queue without_index_drop map_prod_def split: prod.splits)
    next
      case None
      note live = this
      show ?thesis
      proof (cases "fits g (w_request ?w)")
        case False
        with 1(1) [OF True HOL.refl HOL.refl live] True live show ?thesis
          by (simp add: step d take_Suc_conv_app_nth map_prod_def split: prod.splits)
      next
        case fit: True
        with 1(2) [OF True HOL.refl HOL.refl live] len True live show ?thesis
          by (simp add: step d serve_queue without_index_drop map_prod_def split: prod.splits)
      qed
    qed
  qed
qed

lemma drain_serve:
  "drain aborted g = (case serve aborted g (gov_queue g) of (g', kept, os) \<Rightarrow> (g'\<lparr>gov_queue := kept\<rparr>, os))"
  by (simp add: drain_def drain_from_serve)

section \<open>Amounts\<close>

text \<open>\<open>nonneg\<close> holds of every normalized request; \<open>at_most p q\<close> compares two requests amount by amount.\<close>

definition nonneg :: "amounts \<Rightarrow> bool" where
  "nonneg q = (\<forall>r x. q r = Some x \<longrightarrow> 0 \<le> x)"

definition at_most :: "amounts \<Rightarrow> amounts \<Rightarrow> bool" where
  "at_most p q = (\<forall>r y. q r = Some y \<longrightarrow> (\<exists>x. p r = Some x \<and> x \<le> y))"

lemma all_resources_UNIV [simp]: "set all_resources = UNIV"
  using resource.exhaust by (auto simp: all_resources_def)

lemma fits_iff: "fits g q \<longleftrightarrow> (\<forall>r. fits_amount (gov_used g r) (q r) (gov_limits g r))"
  by (simp add: fits_def list_all_iff)

lemma fits_amount_iff: "fits_amount u q l \<longleftrightarrow> (\<exists>x m. q = Some x \<and> l = Some m \<and> u + x \<le> m)"
  by (auto simp: fits_amount_def split: option.splits)

lemma normalize_nonneg [simp]: "nonneg (normalize_amounts rt v)"
  by (auto simp: nonneg_def normalize_amounts_def)

lemma amount_Some [simp]: "amount (Some x) = x"
  by (simp add: amount_def)

lemma amount_nonneg: "nonneg q \<Longrightarrow> 0 \<le> amount (q r)"
  by (auto simp: nonneg_def amount_def split: option.splits)

lemma fits_mono:
  assumes "fits g' q" "\<And>r. gov_used g r \<le> gov_used g' r" "gov_limits g' = gov_limits g" "at_most p q"
  shows "fits g p"
  unfolding fits_iff fits_amount_iff
proof
  fix r
  obtain y m where "q r = Some y" "gov_limits g r = Some m" "gov_used g' r + y \<le> m"
    using assms(1,3) unfolding fits_iff fits_amount_iff by metis
  moreover with assms(4) obtain x where "p r = Some x" "x \<le> y" unfolding at_most_def by blast
  ultimately show "\<exists>x m. p r = Some x \<and> gov_limits g r = Some m \<and> gov_used g r + x \<le> m"
    using assms(2) [of r] by auto
qed

lemma at_most_refl [simp]: "at_most q q"
  by (simp add: at_most_def)

section \<open>What a pass does\<close>

fun grants :: "settlement list \<Rightarrow> waiter list" where
  "grants [] = []"
| "grants (Granted w # os) = w # grants os"
| "grants (Rejected w m # os) = grants os"

definition held_total :: "waiter list \<Rightarrow> resource \<Rightarrow> rat" where
  "held_total ws r = sum_list (map (\<lambda>w. amount (w_request w r)) ws)"

lemma held_total_simps [simp]: "held_total [] r = 0" "held_total (w # ws) r = amount (w_request w r) + held_total ws r"
  "held_total (ws @ vs) r = held_total ws r + held_total vs r"
  by (simp_all add: held_total_def)

definition within_limits :: "governor \<Rightarrow> bool" where
  "within_limits g = (\<forall>r. gov_used g r \<le> gov_peak g r \<and> (\<forall>m. gov_limits g r = Some m \<longrightarrow> gov_peak g r \<le> m))"

lemma grants_iff: "w \<in> set (grants os) \<longleftrightarrow> Granted w \<in> set os"
  by (induction os rule: grants.induct) auto

lemma take_within:
  assumes "within_limits g" "fits g q"
  shows "within_limits (take_resources q g)"
  unfolding within_limits_def
proof (intro allI conjI impI)
  fix r m assume m: "gov_limits (take_resources q g) r = Some m"
  from assms(2) m have "gov_used g r + amount (q r) \<le> m" by (auto simp: fits_iff fits_amount_iff dest!: spec [of _ r])
  with assms(1) m show "gov_peak (take_resources q g) r \<le> m" by (auto simp: within_limits_def)
qed simp

text \<open>The facts of one pass, by induction over the queue.\<close>

lemma serve_frame:
  assumes "serve aborted g ws = (g', kept, os)"
  shows "gov_limits g' = gov_limits g \<and> gov_queue g' = gov_queue g \<and> gov_used g' = (\<lambda>r. gov_used g r + held_total (grants os) r)
    \<and> set kept \<subseteq> set ws \<and> set (grants os) \<subseteq> set ws"
  using assms by (induction ws arbitrary: g g' kept os)
    (fastforce split: option.splits if_splits simp: map_prod_def split: prod.splits)+

lemma serve_within:
  "serve aborted g ws = (g', kept, os) \<Longrightarrow> within_limits g \<Longrightarrow> within_limits g'"
  by (induction ws arbitrary: g g' kept os) (fastforce simp: take_within map_prod_def split: option.splits if_splits prod.splits)+

lemma serve_numbers:
  "serve aborted g ws = (g', kept, os) \<Longrightarrow> w \<in> set (grants os) \<Longrightarrow> \<exists>x. w_request w r = Some x"
  by (induction ws arbitrary: g g' kept os)
    (fastforce simp: map_prod_def fits_iff fits_amount_iff split: option.splits if_splits prod.splits)+

lemma held_total_nonneg: "(\<And>w. w \<in> set ws \<Longrightarrow> nonneg (w_request w)) \<Longrightarrow> 0 \<le> held_total ws r"
  by (induction ws) (auto simp: amount_nonneg)

lemma serve_grows:
  assumes "serve aborted g ws = (g', kept, os)" "\<And>w. w \<in> set ws \<Longrightarrow> nonneg (w_request w)"
  shows "gov_used g r \<le> gov_used g' r"
proof -
  have "0 \<le> held_total (grants os) r"
    by (rule held_total_nonneg) (use serve_frame [OF assms(1)] assms(2) in blast)
  then show ?thesis using serve_frame [OF assms(1)] by simp
qed

lemma serve_kept:
  assumes "serve aborted g ws = (g', kept, os)" "\<And>w. w \<in> set ws \<Longrightarrow> nonneg (w_request w)" "w \<in> set kept"
  shows "signal_reason aborted (w_signal w) = None \<and> \<not> fits g' (w_request w)"
  using assms
proof (induction ws arbitrary: g g' kept os)
  case (Cons v ws)
  show ?case
  proof (cases "signal_reason aborted (w_signal v) = None \<and> \<not> fits g (w_request v)")
    case True
    with Cons.prems(1) obtain ks where sv: "serve aborted g ws = (g', ks, os)" "kept = v # ks"
      by (auto simp: map_prod_def split: prod.splits)
    have "\<not> fits g' (w_request v)"
      using True fits_mono [of g' "w_request v" g "w_request v"] serve_grows [OF sv(1)] serve_frame [OF sv(1)] Cons.prems(2)
      by auto
    with True Cons.IH [OF sv(1)] Cons.prems(2,3) sv(2) show ?thesis by auto
  next
    case False
    with Cons.prems(1) obtain h os' where "serve aborted h ws = (g', kept, os')"
      by (auto simp: map_prod_def split: prod.splits option.splits if_splits)
    with Cons.IH Cons.prems(2,3) show ?thesis by auto
  qed
qed simp

lemma serve_granted_fits:
  assumes "serve aborted g ws = (g', kept, os)" "\<And>w. w \<in> set ws \<Longrightarrow> nonneg (w_request w)" "Granted w \<in> set os"
  shows "fits g (w_request w)"
  using assms
proof (induction ws arbitrary: g g' kept os)
  case (Cons v ws)
  show ?case
  proof (cases "signal_reason aborted (w_signal v) = None \<and> fits g (w_request v)")
    case True
    with Cons.prems(1) obtain os' where sv: "serve aborted (take_resources (w_request v) g) ws = (g', kept, os')" "os = Granted v # os'"
      by (auto simp: map_prod_def split: prod.splits)
    have "fits (take_resources (w_request v) g) (w_request w) \<Longrightarrow> fits g (w_request w)"
      using fits_mono [of "take_resources (w_request v) g" "w_request w" g "w_request w"] Cons.prems(2) [of v]
      by (simp add: amount_nonneg)
    with True Cons.IH [OF sv(1)] Cons.prems(2,3) sv(2) show ?thesis by auto
  next
    case False
    with Cons.prems(1,3) obtain ks os' where "serve aborted g ws = (g', ks, os')" "Granted w \<in> set os'"
      by (auto simp: map_prod_def split: prod.splits option.splits if_splits)
    with Cons.IH Cons.prems(2) show ?thesis by auto
  qed
qed simp

lemma serve_order:
  assumes "serve aborted g (xs @ w # ys) = (g', kept, os)" "\<And>v. v \<in> set (xs @ w # ys) \<Longrightarrow> nonneg (w_request v)"
    "w' \<in> set ys" "w' \<notin> set xs" "w' \<noteq> w" "signal_reason aborted (w_signal w) = None"
    "at_most (w_request w) (w_request w')" "Granted w' \<in> set os"
  shows "Granted w \<in> set os"
  using assms
proof (induction xs arbitrary: g g' kept os)
  case Nil
  show ?case
  proof (rule ccontr)
    assume no: "Granted w \<notin> set os"
    with Nil.prems(1,6) obtain ks where sv: "serve aborted g ys = (g', ks, os)" "\<not> fits g (w_request w)"
      by (auto simp: map_prod_def split: prod.splits if_splits)
    with serve_granted_fits [OF sv(1) _ Nil.prems(8)] Nil.prems(2)
      fits_mono [of g "w_request w'" g "w_request w"] Nil.prems(7) show False by auto
  qed
next
  case (Cons x xs)
  from Cons.prems(1,4,8) obtain h ks os' where "serve aborted h (xs @ w # ys) = (g', ks, os')" "Granted w' \<in> set os'"
      and sub: "Granted w \<in> set os' \<Longrightarrow> Granted w \<in> set os"
    by (auto simp: map_prod_def split: prod.splits option.splits if_splits)
  with Cons.IH [of h g' ks os'] Cons.prems(2-7) show ?case by (intro sub) auto
qed

section \<open>The governor and its clients\<close>

text \<open>
  The machine: the governor, the signals that have fired, the clients that hold a release
  function they have not called, and the number of waiters so far. A call of \<open>acquire\<close> that
  throws changes nothing. A signal sets its reason first and runs its listeners later.
\<close>

record gov_state =
  gs_gov :: governor
  gs_aborted :: signals
  gs_held :: "waiter list"
  gs_next :: nat

inductive gov_reach :: "runtime \<Rightarrow> json \<Rightarrow> gov_state \<Rightarrow> bool" for rt limits where
  created: "gov_reach rt limits \<lparr>gs_gov = createResourceGovernor rt limits, gs_aborted = (\<lambda>_. None), gs_held = [], gs_next = 0\<rparr>"
| acquires: "gov_reach rt limits s \<Longrightarrow> acquire rt (gs_aborted s) (gs_next s) request i (gs_gov s) = Inr (g, os)
    \<Longrightarrow> gov_reach rt limits (s\<lparr>gs_gov := g, gs_held := gs_held s @ grants os, gs_next := Suc (gs_next s)\<rparr>)"
| fires: "gov_reach rt limits s \<Longrightarrow> gs_aborted s i = None
    \<Longrightarrow> gov_reach rt limits (s\<lparr>gs_aborted := (gs_aborted s)(i \<mapsto> reason)\<rparr>)"
| listens: "gov_reach rt limits s \<Longrightarrow> w \<in> set (gov_queue (gs_gov s)) \<Longrightarrow> signal_reason (gs_aborted s) (w_signal w) = Some reason
    \<Longrightarrow> gov_reach rt limits (s\<lparr>gs_gov := fst (abort_waiter reason w (gs_gov s))\<rparr>)"
| releases: "gov_reach rt limits s \<Longrightarrow> gs_held s = xs @ w # ys \<Longrightarrow> release_resources (gs_aborted s) w (gs_gov s) = (g, os)
    \<Longrightarrow> gov_reach rt limits (s\<lparr>gs_gov := g, gs_held := xs @ ys @ grants os\<rparr>)"

definition holders_ok :: "gov_state \<Rightarrow> bool" where
  "holders_ok s = ((\<forall>r. gov_used (gs_gov s) r = held_total (gs_held s) r) \<and> within_limits (gs_gov s)
    \<and> (\<forall>w \<in> set (gs_held s). nonneg (w_request w)))"

definition queue_ok :: "gov_state \<Rightarrow> bool" where
  "queue_ok s = (\<forall>w \<in> set (gov_queue (gs_gov s)). nonneg (w_request w) \<and> (\<forall>r. \<not> exceeds (w_request w) (gov_limits (gs_gov s)) r)
    \<and> (signal_reason (gs_aborted s) (w_signal w) = None \<longrightarrow> \<not> fits (gs_gov s) (w_request w)))"

lemma drain_facts:
  assumes "drain aborted g = (g', os)" "\<forall>w \<in> set (gov_queue g). nonneg (w_request w)"
  shows "gov_limits g' = gov_limits g" "\<And>r. gov_used g' r = gov_used g r + held_total (grants os) r"
    "set (gov_queue g') \<subseteq> set (gov_queue g)" "set (grants os) \<subseteq> set (gov_queue g)"
    "within_limits g \<Longrightarrow> within_limits g'" "\<And>w. w \<in> set (gov_queue g') \<Longrightarrow> \<not> fits g' (w_request w)"
proof -
  obtain h kept where s: "serve aborted g (gov_queue g) = (h, kept, os)" and g': "g' = h\<lparr>gov_queue := kept\<rparr>"
    using assms(1) by (auto simp: drain_serve split: prod.splits)
  show "gov_limits g' = gov_limits g" "\<And>r. gov_used g' r = gov_used g r + held_total (grants os) r"
    "set (gov_queue g') \<subseteq> set (gov_queue g)" "set (grants os) \<subseteq> set (gov_queue g)"
    using serve_frame [OF s] by (simp_all add: g')
  show "within_limits g \<Longrightarrow> within_limits g'" using serve_within [OF s] by (simp add: g' within_limits_def)
  show "\<And>w. w \<in> set (gov_queue g') \<Longrightarrow> \<not> fits g' (w_request w)"
    using serve_kept [OF s] assms(2) by (simp add: g')
qed

lemma acquire_cases:
  assumes "acquire rt aborted i request sg g = Inr (g', os)"
  obtains (rejected) "g' = g" "grants os = []"
  | (queued) w where "drain aborted (g\<lparr>gov_queue := gov_queue g @ [w]\<rparr>) = (g', os)" "nonneg (w_request w)"
      "\<And>r. \<not> exceeds (w_request w) (gov_limits g) r"
  using assms by (auto simp: acquire_def Let_def find_None_iff split: option.splits)

lemma machine_drain:
  assumes "drain (gs_aborted s) h = (g, os)" "\<And>r. gov_used h r = held_total hs r" "within_limits h"
    "\<And>w. w \<in> set hs \<Longrightarrow> nonneg (w_request w)" "\<forall>w \<in> set (gov_queue h). nonneg (w_request w)"
    "\<And>w r. w \<in> set (gov_queue h) \<Longrightarrow> \<not> exceeds (w_request w) (gov_limits h) r"
  shows "holders_ok (s\<lparr>gs_gov := g, gs_held := hs @ grants os, gs_next := n\<rparr>)
    \<and> queue_ok (s\<lparr>gs_gov := g, gs_held := hs @ grants os, gs_next := n\<rparr>)"
proof -
  note f = drain_facts [OF assms(1) assms(5)]
  have "nonneg (w_request w)" if "w \<in> set (hs @ grants os)" for w using that f(4) assms(4,5) by auto
  moreover have "nonneg (w_request w) \<and> (\<forall>r. \<not> exceeds (w_request w) (gov_limits g) r) \<and> \<not> fits g (w_request w)"
    if "w \<in> set (gov_queue g)" for w
    using that f(1,3) f(6) [OF that] assms(5,6) by auto
  ultimately show ?thesis using f(2) f(5) [OF assms(3)] assms(2) by (simp add: holders_ok_def queue_ok_def)
qed

lemma machine_ok: "gov_reach rt limits s \<Longrightarrow> holders_ok s \<and> queue_ok s"
proof (induction rule: gov_reach.induct)
  case created
  have "within_limits (createResourceGovernor rt limits)"
    by (auto simp: within_limits_def createResourceGovernor_def normalize_amounts_def)
  then show ?case by (simp add: holders_ok_def queue_ok_def createResourceGovernor_def)
next
  case (acquires s request i g os)
  from acquires.hyps(2) show ?case
  proof (cases rule: acquire_cases)
    case rejected
    with acquires.IH show ?thesis by (simp add: holders_ok_def queue_ok_def)
  next
    case (queued w)
    have nn: "nonneg (w_request v)" if "v \<in> set (gov_queue (gs_gov s) @ [w])" for v
      using that queued(2) acquires.IH by (auto simp: queue_ok_def)
    have "holders_ok s" using acquires.IH by simp
    moreover have "\<not> exceeds (w_request v) (gov_limits (gs_gov s)) r" if "v \<in> set (gov_queue (gs_gov s) @ [w])" for v r
      using that queued(3) acquires.IH by (auto simp: queue_ok_def)
    ultimately show ?thesis using nn by (intro machine_drain [OF queued(1)]) (auto simp: holders_ok_def within_limits_def)
  qed
next
  case (fires s i reason)
  then show ?case by (auto simp: holders_ok_def queue_ok_def signal_reason_def split: option.splits if_splits bind_splits)
next
  case (listens s w reason)
  then show ?case by (auto simp: holders_ok_def queue_ok_def abort_waiter_def within_limits_def)
next
  case (releases s xs w ys g os)
  let ?g = "(gs_gov s)\<lparr>gov_used := (\<lambda>r. gov_used (gs_gov s) r - amount (w_request w r))\<rparr>"
  have nn: "nonneg (w_request v)" if "v \<in> set (gov_queue ?g)" for v
    using that releases.IH by (auto simp: queue_ok_def)
  have w: "nonneg (w_request w)" using releases.IH releases.hyps(2) by (simp add: holders_ok_def)
  have d: "drain (gs_aborted s) ?g = (g, os)" using releases.hyps(3) by (simp add: release_resources_def)
  have within: "within_limits ?g"
    unfolding within_limits_def
  proof (intro allI conjI impI)
    fix r
    have "gov_used (gs_gov s) r \<le> gov_peak (gs_gov s) r"
      using releases.IH unfolding holders_ok_def within_limits_def by blast
    with amount_nonneg [OF w, of r] show "gov_used ?g r \<le> gov_peak ?g r" by simp
  qed (use releases.IH in \<open>auto simp: holders_ok_def within_limits_def\<close>)
  have "gov_used ?g r = held_total (xs @ ys) r" for r using releases.IH releases.hyps(2) by (simp add: holders_ok_def)
  moreover have "\<not> exceeds (w_request v) (gov_limits ?g) r" if "v \<in> set (gov_queue ?g)" for v r
    using that releases.IH by (simp add: queue_ok_def)
  ultimately show ?case using machine_drain [OF d, where hs = "xs @ ys" and n = "gs_next s"] within nn releases.IH releases.hyps(2)
    by (simp add: holders_ok_def)
qed

text \<open>
  C16. Capacity. In every state the governor can reach, what it counts as used is exactly what
  its clients hold, resource by resource, and neither the usage nor its recorded peak exceeds
  a limit, whatever the order of acquisitions, releases and aborts.
\<close>

theorem governor_within_limits:
  assumes "gov_reach rt limits s"
  shows "gov_used (gs_gov s) r = held_total (gs_held s) r \<and> 0 \<le> gov_used (gs_gov s) r
    \<and> gov_used (gs_gov s) r \<le> gov_peak (gs_gov s) r
    \<and> (\<forall>m. gov_limits (gs_gov s) r = Some m \<longrightarrow> gov_peak (gs_gov s) r \<le> m)"
  using machine_ok [OF assms] held_total_nonneg [of "gs_held s" r] by (auto simp: holders_ok_def within_limits_def)

text \<open>
  C17. No waste and no deadlock. A request that waits with a live signal does not fit into
  what is left, and when no client holds anything, every such request has an amount or a limit that
  is not a number: numeric requests never wait at an idle governor.
\<close>

theorem governor_waits_only_when_full:
  assumes "gov_reach rt limits s" "w \<in> set (gov_queue (gs_gov s))" "signal_reason (gs_aborted s) (w_signal w) = None"
  shows "\<not> fits (gs_gov s) (w_request w)
    \<and> (gs_held s = [] \<longrightarrow> (\<exists>r. w_request w r = None \<or> gov_limits (gs_gov s) r = None))"
proof -
  have ok: "holders_ok s" "queue_ok s" using machine_ok [OF assms(1)] by simp_all
  then have nf: "\<not> fits (gs_gov s) (w_request w)" "\<And>r. \<not> exceeds (w_request w) (gov_limits (gs_gov s)) r"
    using assms(2,3) by (simp_all add: queue_ok_def)
  have "\<exists>r. w_request w r = None \<or> gov_limits (gs_gov s) r = None" if "gs_held s = []"
  proof (rule ccontr)
    assume numeric: "\<not> ?thesis"
    have "fits_amount (gov_used (gs_gov s) r) (w_request w r) (gov_limits (gs_gov s) r)" for r
    proof -
      obtain x m where "w_request w r = Some x" "gov_limits (gs_gov s) r = Some m" using numeric by (metis not_Some_eq)
      then show ?thesis
        using nf(2) [of r] ok(1) \<open>gs_held s = []\<close> by (simp add: exceeds_def fits_amount_def holders_ok_def)
    qed
    with nf(1) show False by (simp add: fits_iff)
  qed
  with nf(1) show ?thesis by blast
qed

text \<open>
  C18. Order. When a pass over the queue grants a request, it also grants every live request that
  stands before it and asks for no more of any resource.
\<close>

theorem drain_never_overtakes:
  assumes "distinct (map w_id (gov_queue g))" "\<forall>w\<in>set (gov_queue g). nonneg (w_request w)"
    "i < j" "j < length (gov_queue g)" "signal_reason aborted (w_signal (gov_queue g ! i)) = None"
    "at_most (w_request (gov_queue g ! i)) (w_request (gov_queue g ! j))"
    "Granted (gov_queue g ! j) \<in> set (snd (drain aborted g))"
  shows "Granted (gov_queue g ! i) \<in> set (snd (drain aborted g))"
proof -
  let ?q = "gov_queue g"
  obtain g' kept os where s: "serve aborted g ?q = (g', kept, os)" using prod_cases3 by blast
  then have os: "snd (drain aborted g) = os" by (simp add: drain_serve)
  have dq: "distinct ?q" using assms(1) by (simp add: distinct_map)
  have split: "?q = take i ?q @ ?q ! i # drop (Suc i) ?q" using assms(3,4) by (simp add: id_take_nth_drop)
  have j: "?q ! j \<in> set (drop (Suc i) ?q)" using assms(3,4) by (auto simp: in_set_conv_nth intro!: exI [of _ "j - Suc i"])
  have "?q ! j \<noteq> ?q ! i" using dq assms(3,4) by (simp add: nth_eq_iff_index_eq)
  moreover have "?q ! j \<notin> set (take i ?q)" using dq assms(3,4) by (auto simp: in_set_conv_nth nth_eq_iff_index_eq)
  moreover have s': "serve aborted g (take i ?q @ ?q ! i # drop (Suc i) ?q) = (g', kept, os)" using s by (simp only: split [symmetric])
  moreover have "nonneg (w_request v)" if "v \<in> set (take i ?q @ ?q ! i # drop (Suc i) ?q)" for v
    using that assms(2) by (simp only: split [symmetric])
  ultimately show ?thesis using serve_order [OF s' _ j _ _ assms(5,6)] assms(7) os by simp
qed

section \<open>A governor at its limit\<close>

text \<open>Two clients ask for the only agent slot; the second waits.\<close>

definition after_acquire :: "runtime \<Rightarrow> json \<Rightarrow> gov_state \<Rightarrow> gov_state" where
  "after_acquire rt request s = (case acquire rt (gs_aborted s) (gs_next s) request None (gs_gov s) of
     Inr (g, os) \<Rightarrow> s\<lparr>gs_gov := g, gs_held := gs_held s @ grants os, gs_next := Suc (gs_next s)\<rparr> | Inl _ \<Rightarrow> s)"

definition ex_limits :: json where
  "ex_limits = JObj [(''agent'', JInt 1)]"

definition ex_idle :: gov_state where
  "ex_idle = \<lparr>gs_gov = createResourceGovernor ex_rt ex_limits, gs_aborted = (\<lambda>_. None), gs_held = [], gs_next = 0\<rparr>"

definition ex_busy :: gov_state where
  "ex_busy = after_acquire ex_rt ex_limits (after_acquire ex_rt ex_limits ex_idle)"

definition ex_waiter :: "nat \<Rightarrow> waiter" where
  "ex_waiter i = \<lparr>w_id = i, w_request = normalize_amounts ex_rt ex_limits, w_signal = None\<rparr>"

definition ex_pair :: governor where
  "ex_pair = (createResourceGovernor ex_rt (JObj [(''agent'', JInt 2)]))\<lparr>gov_queue := [ex_waiter 0, ex_waiter 1]\<rparr>"

lemma after_acquire_reach: "gov_reach rt limits s \<Longrightarrow> gov_reach rt limits (after_acquire rt request s)"
  by (auto simp: after_acquire_def split: sum.splits intro: gov_reach.intros)

lemma ex_busy_reach: "gov_reach ex_rt ex_limits ex_busy"
  unfolding ex_busy_def ex_idle_def by (intro after_acquire_reach gov_reach.created)

theorem governor_within_limits_witness:
  "gov_used (gs_gov ex_busy) Agent = held_total (gs_held ex_busy) Agent \<and> gov_used (gs_gov ex_busy) Agent = 1
    \<and> gov_limits (gs_gov ex_busy) Agent = Some 1 \<and> gov_peak (gs_gov ex_busy) Agent \<le> 1"
proof -
  have "gov_used (gs_gov ex_busy) Agent = 1" "gov_limits (gs_gov ex_busy) Agent = Some 1" by code_simp+
  with governor_within_limits [OF ex_busy_reach, of Agent] show ?thesis by auto
qed

theorem governor_waits_only_when_full_witness:
  "map w_id (gov_queue (gs_gov ex_busy)) = [1] \<and> \<not> fits (gs_gov ex_busy) (w_request (hd (gov_queue (gs_gov ex_busy))))"
proof -
  have q: "map w_id (gov_queue (gs_gov ex_busy)) = [1]"
    "signal_reason (gs_aborted ex_busy) (w_signal (hd (gov_queue (gs_gov ex_busy)))) = None" by code_simp+
  then have "hd (gov_queue (gs_gov ex_busy)) \<in> set (gov_queue (gs_gov ex_busy))" by (intro hd_in_set) auto
  with q governor_waits_only_when_full [OF ex_busy_reach] show ?thesis by blast
qed

lemma ex_pair_granted: "snd (drain (\<lambda>_. None) ex_pair) = [Granted (ex_waiter 0), Granted (ex_waiter 1)]"
proof -
  have "fits ex_pair (w_request (ex_waiter 0))" "fits (take_resources (w_request (ex_waiter 0)) ex_pair) (w_request (ex_waiter 1))"
    by code_simp+
  moreover have "gov_queue ex_pair = [ex_waiter 0, ex_waiter 1]" "w_signal (ex_waiter i) = None" for i
    by (simp_all add: ex_pair_def ex_waiter_def)
  ultimately show ?thesis by (simp add: drain_serve signal_reason_def)
qed

theorem drain_never_overtakes_witness:
  "Granted (ex_waiter 1) \<in> set (snd (drain (\<lambda>_. None) ex_pair)) \<and> Granted (ex_waiter 0) \<in> set (snd (drain (\<lambda>_. None) ex_pair))"
proof -
  have q: "gov_queue ex_pair = [ex_waiter 0, ex_waiter 1]" by (simp add: ex_pair_def)
  have "Granted (gov_queue ex_pair ! 0) \<in> set (snd (drain (\<lambda>_. None) ex_pair))"
    by (rule drain_never_overtakes [where j = 1])
      (simp_all add: q ex_pair_granted, simp_all add: ex_waiter_def signal_reason_def)
  then have "Granted (ex_waiter 0) \<in> set (snd (drain (\<lambda>_. None) ex_pair))" by (simp only: q nth_Cons_0)
  moreover have "Granted (ex_waiter 1) \<in> set (snd (drain (\<lambda>_. None) ex_pair))" by (simp add: ex_pair_granted)
  ultimately show ?thesis by (intro conjI)
qed

end
