(* ===== verification/Campaign_Budget_Policy.thy ===== *)
theory Campaign_Budget_Policy
  imports Resource_Governor Budget_Properties
begin

text \<open>
  The budget decisions of the campaign engine (\<open>campaign-execution-budget-policy.mjs\<close>): elapsed run
  time, the usage a node reserves when it starts, and the blockers before and after a node
  runs. The metering of agent receipts is not part of it. A limit that is absent or null is
  infinite, one that is no number compares false.
\<close>

definition elapsedRunMs :: "campaign_row \<Rightarrow> int \<Rightarrow> int" where
  "elapsedRunMs c now = accumulated_run_ms c + (case last_resumed_at c of Some t \<Rightarrow> max 0 (now - t) | None \<Rightarrow> 0)"

text \<open>\<open>campaignNodeUsageDelta\<close> as the engine calls it before a node starts, without a result.\<close>

definition campaignNodeUsageDelta :: "runtime \<Rightarrow> campaign_row \<Rightarrow> node_row \<Rightarrow> usage_delta result" where
  "campaignNodeUsageDelta rt c n = rbind (resourcesForCampaignNode rt c n) (\<lambda>q.
    let cellMetered = q Cpu \<noteq> 0 \<and> jtruthy (jget ''benchmarkSelector'' (c_spec c)) in
    Inr \<lparr>agentCalls = Some \<lfloor>q Agent\<rfloor>, cpuJobs = Some (if cellMetered then 0 else \<lfloor>q Cpu\<rfloor>),
      gpuJobs = Some (if cellMetered then 0 else \<lfloor>q Gpu\<rfloor>), tokens = Some 0, costUsd = None, pricedAgentCalls = None\<rparr>)"

text \<open>The limit \<open>Number(budgets[key] ?? Infinity)\<close>, as the comparisons the policy makes with it.\<close>

definition budget_entry :: "campaign_row \<Rightarrow> string \<Rightarrow> json option" where
  "budget_entry c key = (case jget key (or_else (jget ''budgets'' (c_spec c)) (JObj [])) of Some JNull \<Rightarrow> None | v \<Rightarrow> v)"

definition limit_holds :: "runtime \<Rightarrow> (rat \<Rightarrow> bool) \<Rightarrow> campaign_row \<Rightarrow> string \<Rightarrow> bool" where
  "limit_holds rt P c key = (case budget_entry c key of None \<Rightarrow> False
     | v \<Rightarrow> (case js_number rt v of Some m \<Rightarrow> P m | None \<Rightarrow> False))"

definition campaignBudgetBlocker :: "runtime \<Rightarrow> campaign_row \<Rightarrow> node_row \<Rightarrow> int \<Rightarrow> string option result" where
  "campaignBudgetBlocker rt c n now = rbind (resourcesForCampaignNode rt c n) (\<lambda>q. Inr (
    if limit_holds rt (\<lambda>m. m \<le> of_int (elapsedRunMs c now)) c ''maxWallTimeMs'' then Some ''campaign_wall_time_budget_exhausted''
    else if q Agent \<noteq> 0 \<and> limit_holds rt (\<lambda>m. m \<le> of_int (agent_call_count c)) c ''maxAgentCalls''
      then Some ''campaign_agent_call_budget_exhausted''
    else if q Cpu \<noteq> 0 \<and> limit_holds rt (\<lambda>m. m \<le> of_int (cpu_job_count c)) c ''maxCpuJobs''
      then Some ''campaign_cpu_job_budget_exhausted''
    else if q Gpu \<noteq> 0 \<and> limit_holds rt (\<lambda>m. m \<le> of_int (gpu_job_count c)) c ''maxGpuJobs''
      then Some ''campaign_gpu_job_budget_exhausted''
    else if limit_holds rt (\<lambda>m. m \<le> of_int (token_count c)) c ''maxTokenCount'' then Some ''campaign_token_budget_exhausted''
    else if q Agent \<noteq> 0 \<and> limit_holds rt (\<lambda>m. m - of_int (token_count c) < 128) c ''maxTokenCount''
      then Some ''campaign_token_budget_exhausted''
    else if cost_known c \<and> limit_holds rt (\<lambda>m. m \<le> cost_usd c) c ''maxCostUsd'' then Some ''campaign_cost_budget_exhausted''
    else None))"

definition postExecutionCampaignBudgetBlocker :: "runtime \<Rightarrow> campaign_row \<Rightarrow> string option" where
  "postExecutionCampaignBudgetBlocker rt c =
    (if limit_holds rt (\<lambda>m. m < of_int (token_count c)) c ''maxTokenCount'' then Some ''campaign_token_budget_exhausted''
     else if cost_known c \<and> limit_holds rt (\<lambda>m. m < cost_usd c) c ''maxCostUsd'' then Some ''campaign_cost_budget_exhausted''
     else None)"

section \<open>The policy and the store agree\<close>

lemma node_resources: "resourcesForCampaignNode rt c n = Inr q \<Longrightarrow> q Agent \<in> {0, 1} \<and> q Cpu \<in> {0, 1} \<and> q Gpu \<in> {0, 1}"
  by (auto simp: resourcesForCampaignNode_def reservation_of_def Let_def split: if_splits)

text \<open>An integral limit, or none and a count that stays below the store's own ceiling.\<close>

definition whole_limit :: "campaign_row \<Rightarrow> string \<Rightarrow> int \<Rightarrow> bool" where
  "whole_limit c key used = (case budget_limit c key of None \<Rightarrow> used < 9000000000000000 | Some JNull \<Rightarrow> used < 9000000000000000
     | Some (JNum q) \<Rightarrow> q = of_int \<lfloor>q\<rfloor> | _ \<Rightarrow> False)"

lemma budget_entry_limit: "budget_entry c key = (case budget_limit c key of Some JNull \<Rightarrow> None | v \<Rightarrow> v)"
proof (cases "jget ''budgets'' (c_spec c)")
  case None
  then show ?thesis by (simp add: budget_entry_def budget_limit_def)
next
  case (Some b)
  have path: "Option.bind v (jpath []) = v" for v by (cases v) simp_all
  show ?thesis using Some by (cases b) (simp_all add: budget_entry_def budget_limit_def or_else_def jtruthy_def path, simp_all add: jget_def)
qed

lemma one_more:
  assumes "whole_limit c key used" "within_limit (of_int used) (budget_limit c key)"
    "x = 0 \<or> x = 1" "x = 1 \<longrightarrow> \<not> limit_holds rt (\<lambda>m. m \<le> of_int used) c key"
  shows "within_limit (of_int (used + x)) (budget_limit c key)"
proof (cases "x = 1")
  case False
  with assms(2,3) show ?thesis by simp
next
  case True
  show ?thesis
  proof (cases "budget_limit c key")
    case None
    with assms(1) True show ?thesis by (simp add: whole_limit_def within_limit_def)
  next
    case (Some v)
    show ?thesis
    proof (cases v)
      case (JNum q)
      obtain m :: int where m: "q = of_int m" using assms(1) Some JNum by (auto simp: whole_limit_def)
      have "\<not> q \<le> of_int used" using assms(4) True Some JNum by (simp add: limit_holds_def budget_entry_limit)
      with m True Some JNum show ?thesis by (simp add: within_limit_def)
    qed (use assms(1) Some True in \<open>simp_all add: whole_limit_def within_limit_def\<close>)
  qed
qed

lemma blocker_clear:
  assumes "campaignBudgetBlocker rt c n now = Inr None" "resourcesForCampaignNode rt c n = Inr q"
  shows "q Agent \<noteq> 0 \<longrightarrow> \<not> limit_holds rt (\<lambda>m. m \<le> of_int (agent_call_count c)) c ''maxAgentCalls''"
    "q Cpu \<noteq> 0 \<longrightarrow> \<not> limit_holds rt (\<lambda>m. m \<le> of_int (cpu_job_count c)) c ''maxCpuJobs''"
    "q Gpu \<noteq> 0 \<longrightarrow> \<not> limit_holds rt (\<lambda>m. m \<le> of_int (gpu_job_count c)) c ''maxGpuJobs''"
  using assms unfolding campaignBudgetBlocker_def by (auto split: if_splits)

lemma start_delta:
  assumes "campaignNodeUsageDelta rt c n = Inr d"
  obtains q where "resourcesForCampaignNode rt c n = Inr q"
    "u_agent (nativeStoreCampaignUsageParameters d) = \<lfloor>q Agent\<rfloor>"
    "u_cpu (nativeStoreCampaignUsageParameters d) \<in> {0, \<lfloor>q Cpu\<rfloor>}" "u_gpu (nativeStoreCampaignUsageParameters d) \<in> {0, \<lfloor>q Gpu\<rfloor>}"
    "u_tokens (nativeStoreCampaignUsageParameters d) = 0" "\<not> u_cost_provided (nativeStoreCampaignUsageParameters d)"
proof -
  obtain q where q: "resourcesForCampaignNode rt c n = Inr q"
    using assms by (cases "resourcesForCampaignNode rt c n") (simp_all add: campaignNodeUsageDelta_def)
  note node_resources [OF q]
  with that [OF q] assms q show ?thesis
    by (auto simp: campaignNodeUsageDelta_def nativeStoreCampaignUsageParameters_def count_or_zero_def Let_def split: if_splits)
qed

lemma within_limit_below: "within_limit y limit \<Longrightarrow> x \<le> y \<Longrightarrow> within_limit x limit"
  by (auto simp: within_limit_def split: option.splits json.splits)

lemma guard_needs_budgets:
  assumes "usage_budget (nativeStoreCampaignUsageParameters d) c"
  shows "within_budgets c"
  using assms unfolding usage_budget_def within_budgets_def by (auto elim!: within_limit_below)

text \<open>
  C19. The engine and the store agree on a campaign that keeps its budgets. When the engine finds
  no budget blocker for a node and the three limits on calls and jobs are whole numbers (or absent,
  with counts below the store's ceiling), the usage it then reserves passes the budget guard of the
  store's start statement exactly when all counts of the campaign are within their limits. A
  campaign whose count for another resource is over its limit, as usage recorded without
  enforcement can leave it, has no blocker but cannot start the node.
\<close>

theorem no_blocker_admits_start:
  assumes "campaignBudgetBlocker rt c n now = Inr None" "campaignNodeUsageDelta rt c n = Inr d"
    "whole_limit c ''maxAgentCalls'' (agent_call_count c)" "whole_limit c ''maxCpuJobs'' (cpu_job_count c)"
    "whole_limit c ''maxGpuJobs'' (gpu_job_count c)"
  shows "usage_budget (nativeStoreCampaignUsageParameters d) c \<longleftrightarrow> within_budgets c"
proof
  assume within: "within_budgets c"
  let ?u = "nativeStoreCampaignUsageParameters d"
  obtain q where q: "resourcesForCampaignNode rt c n = Inr q" "u_agent ?u = \<lfloor>q Agent\<rfloor>" "u_cpu ?u \<in> {0, \<lfloor>q Cpu\<rfloor>}"
    "u_gpu ?u \<in> {0, \<lfloor>q Gpu\<rfloor>}" "u_tokens ?u = 0" "\<not> u_cost_provided ?u" using start_delta [OF assms(2)] by metis
  have one: "within_limit (of_int (used + x)) (budget_limit c key)"
    if "whole_limit c key used" "within_limit (of_int used) (budget_limit c key)" "x \<in> {0, \<lfloor>y\<rfloor>}" "y \<in> {0, 1}"
      "y \<noteq> 0 \<longrightarrow> \<not> limit_holds rt (\<lambda>m. m \<le> of_int used) c key" for key used x y
    using that by (intro one_more [where rt = rt]) auto
  note clear = blocker_clear [OF assms(1) q(1)] and res = node_resources [OF q(1)]
  have "within_limit (of_int (agent_call_count c + u_agent ?u)) (budget_limit c ''maxAgentCalls'')"
    "within_limit (of_int (cpu_job_count c + u_cpu ?u)) (budget_limit c ''maxCpuJobs'')"
    "within_limit (of_int (gpu_job_count c + u_gpu ?u)) (budget_limit c ''maxGpuJobs'')"
    using assms(3-5) within clear res q(2-4) unfolding within_budgets_def by (intro one; simp)+
  with within q(5,6) show "usage_budget ?u c" by (simp add: usage_budget_def within_budgets_def)
qed (rule guard_needs_budgets)

text \<open>
  A campaign with one agent call left, and a node that needs it; and the same campaign after a
  recorded usage took its processor jobs over their limit.
\<close>

definition ex_budgeted :: campaign_row where
  "ex_budgeted = (hd (campaigns ex_db))\<lparr>agent_call_count := 2, cpu_job_count := 0, gpu_job_count := 0, token_count := 0,
    c_spec := JObj [(''budgets'', JObj [(''maxAgentCalls'', JInt 3), (''maxCpuJobs'', JInt 1), (''maxWallTimeMs'', JInt 100000)])]\<rparr>"

definition ex_overspent :: campaign_row where
  "ex_overspent = ex_budgeted\<lparr>cpu_job_count := 2\<rparr>"

definition ex_writer :: node_row where
  "ex_writer = (hd (nodes ex_db))\<lparr>n_kind := ''writer''\<rparr>"

definition ex_call :: usage_delta where
  "ex_call = \<lparr>agentCalls = Some 1, cpuJobs = Some 0, gpuJobs = Some 0, tokens = Some 0, costUsd = None, pricedAgentCalls = None\<rparr>"

theorem no_blocker_admits_start_witness:
  "usage_budget (nativeStoreCampaignUsageParameters ex_call) ex_budgeted
    \<and> campaignBudgetBlocker ex_rt ex_overspent ex_writer 6 = Inr None
    \<and> \<not> usage_budget (nativeStoreCampaignUsageParameters ex_call) ex_overspent"
proof -
  have free: "campaignBudgetBlocker ex_rt c ex_writer 6 = Inr None" "campaignNodeUsageDelta ex_rt c ex_writer = Inr ex_call"
    "whole_limit c ''maxAgentCalls'' (agent_call_count c)" "whole_limit c ''maxCpuJobs'' (cpu_job_count c)"
    "whole_limit c ''maxGpuJobs'' (gpu_job_count c)" if "c = ex_budgeted \<or> c = ex_overspent" for c
    using that by (elim disjE; hypsubst; code_simp)+
  have "within_budgets ex_budgeted" "\<not> within_budgets ex_overspent" by code_simp+
  then show ?thesis
    using no_blocker_admits_start [OF free [of ex_budgeted]] no_blocker_admits_start [OF free [of ex_overspent]] free(1) by blast
qed

end
