(* ===== verification/Launch_Mode_Policy.thy ===== *)
theory Launch_Mode_Policy
  imports Campaign_Definition
begin

text \<open>
  Launch modes and the waiver of token and cost budgets for a direct local run
  (\<open>autonomous-research-launch-mode-policy.mjs\<close>). An argument that is \<open>null\<close> or left out is
  \<open>None\<close> or \<open>Some JNull\<close>. The identities a caller expects are strings. Numbers are
  rationals, so a quotient is exact where the source rounds it to a double. The blockers of a
  pricing inspection are the strings that \<open>resolveAutonomousResearchProviderPricing\<close> put there.
\<close>

section \<open>Shared idioms\<close>

definition is_space :: "char \<Rightarrow> bool" where
  "is_space c = (c \<in> {CHR 0x09, CHR 0x0A, CHR 0x0B, CHR 0x0C, CHR 0x0D, CHR 0x20, CHR 0xA0})"

definition js_trim :: "string \<Rightarrow> string" where
  "js_trim s = rev (dropWhile is_space (rev (dropWhile is_space s)))"

definition absent :: "json option \<Rightarrow> bool" where
  "absent v = (v = None \<or> v = Some JNull)"

definition jprop :: "string \<Rightarrow> json option \<Rightarrow> json option" where
  "jprop k v = Option.bind v (jget k)"

definition jfield :: "string \<Rightarrow> json option \<Rightarrow> json" where
  "jfield k v = (case jprop k v of Some x \<Rightarrow> x | None \<Rightarrow> JNull)"

definition is_true :: "json option \<Rightarrow> bool" where
  "is_true v = (v = Some (JBool True))"

text \<open>A payload with the hash of its record appended, and the check of such a hash.\<close>

definition sealed_record :: "runtime \<Rightarrow> string \<Rightarrow> string \<Rightarrow> (string \<times> json) list \<Rightarrow> json" where
  "sealed_record rt kind hashField es = JObj (es @ [(hashField, JStr (hashRecord rt kind (JObj es)))])"

definition seal_valid :: "runtime \<Rightarrow> string \<Rightarrow> string \<Rightarrow> json option \<Rightarrow> bool" where
  "seal_valid rt kind hashField v = (case v of Some w \<Rightarrow>
     jget hashField w = Some (JStr (hashRecord rt kind (JObj (without_keys [hashField] (object_entries w))))) | None \<Rightarrow> False)"

definition finiteNonNegative :: "runtime \<Rightarrow> json option \<Rightarrow> rat option" where
  "finiteNonNegative rt v = (case js_number rt v of Some q \<Rightarrow> if 0 \<le> q then Some q else None | None \<Rightarrow> None)"

definition finitePositive :: "runtime \<Rightarrow> json option \<Rightarrow> rat option" where
  "finitePositive rt v = (case js_number rt v of Some q \<Rightarrow> if 0 < q then Some q else None | None \<Rightarrow> None)"

definition GOLDEN_BOOTSTRAP :: string where
  "GOLDEN_BOOTSTRAP = ''golden-bootstrap''"

definition PRODUCTION_RUN :: string where
  "PRODUCTION_RUN = ''production-run''"

definition UNLIMITED_BUDGET_SENTINEL :: rat where
  "UNLIMITED_BUDGET_SENTINEL = 9007199254740991"

definition LAUNCH_VALIDITY_SAFETY_MARGIN_MS :: rat where
  "LAUNCH_VALIDITY_SAFETY_MARGIN_MS = 15 * 60 * 1000"

definition WAIVER_KIND :: string where
  "WAIVER_KIND = ''AutonomousResearchDirectLocalRunBudgetWaiver''"

definition WAIVER_HASH_FIELD :: string where
  "WAIVER_HASH_FIELD = ''autonomousResearchDirectLocalRunBudgetWaiverHash''"

definition PROVENANCE_KIND :: string where
  "PROVENANCE_KIND = ''AutonomousResearchDirectLocalRunCliProvenance''"

definition PROVENANCE_HASH_FIELD :: string where
  "PROVENANCE_HASH_FIELD = ''autonomousResearchDirectLocalRunCliProvenanceHash''"

definition requiredIdentity :: "runtime \<Rightarrow> json option \<Rightarrow> string \<Rightarrow> string result" where
  "requiredIdentity rt v errorCode = (let identity = js_trim (str_or rt v) in
     if identity = [] then Inl errorCode else Inr identity)"

definition exactUnlimitedBudgetSentinel :: "json option \<Rightarrow> bool" where
  "exactUnlimitedBudgetSentinel v = (v = Some (JNum UNLIMITED_BUDGET_SENTINEL))"

definition budget_types_ok :: "json option \<Rightarrow> string \<Rightarrow> unit result" where
  "budget_types_ok budgets code =
    rbind (check (case jprop ''maxTokenCount'' budgets of None \<Rightarrow> True
        | Some (JNum q) \<Rightarrow> isSafeInteger q \<and> 0 \<le> q | _ \<Rightarrow> False) (code @ '':maxTokenCount'')) (\<lambda>_.
    check (case jprop ''maxCostUsd'' budgets of None \<Rightarrow> True | Some (JNum q) \<Rightarrow> 0 \<le> q | _ \<Rightarrow> False) (code @ '':maxCostUsd''))"

definition assertDirectLocalRunBudgetTypes :: "json option \<Rightarrow> unit result" where
  "assertDirectLocalRunBudgetTypes budgets = budget_types_ok budgets ''autonomous_research_direct_local_run_budget_invalid''"

definition assertLaunchBudgetTypes :: "json option \<Rightarrow> unit result" where
  "assertLaunchBudgetTypes budgets = budget_types_ok budgets ''autonomous_research_launch_budget_invalid''"

section \<open>Provenance of a direct local run\<close>

definition provenance_entries :: "string \<Rightarrow> string \<Rightarrow> (string \<times> json) list" where
  "provenance_entries campaignId paperId =
    [(''version'', JInt 1), (''kind'', JStr PROVENANCE_KIND), (''scope'', JStr ''direct-local-run''),
     (''issuer'', JStr ''hepta-paper-autonomous-research-cli''),
     (''operatorIssuance'', JStr ''explicit-unlimited-budget-flags-v1''),
     (''requestedLaunchMode'', JStr ''local-run''), (''effectiveLaunchMode'', JStr GOLDEN_BOOTSTRAP),
     (''campaignId'', JStr campaignId), (''paperId'', JStr paperId)]"

definition buildDirectLocalRunCliProvenance :: "runtime \<Rightarrow> json option \<Rightarrow> json option \<Rightarrow> json result" where
  "buildDirectLocalRunCliProvenance rt campaignId paperId =
    rbind (requiredIdentity rt campaignId ''autonomous_research_direct_local_run_campaign_id_required'') (\<lambda>c.
    rbind (requiredIdentity rt paperId ''autonomous_research_direct_local_run_paper_id_required'') (\<lambda>p.
    Inr (sealed_record rt PROVENANCE_KIND PROVENANCE_HASH_FIELD (provenance_entries c p))))"

definition expected_id :: "string option \<Rightarrow> json option \<Rightarrow> bool" where
  "expected_id e v = (case e of None \<Rightarrow> True | Some s \<Rightarrow> v = Some (JStr s))"

definition verifyDirectLocalRunCliProvenance :: "runtime \<Rightarrow> json option \<Rightarrow> string option \<Rightarrow> string option \<Rightarrow> bool" where
  "verifyDirectLocalRunCliProvenance rt prov campaignId paperId =
    (hasExactPlainObjectKeys prov [''version'', ''kind'', ''scope'', ''issuer'', ''operatorIssuance'', ''requestedLaunchMode'',
       ''effectiveLaunchMode'', ''campaignId'', ''paperId'', PROVENANCE_HASH_FIELD]
     \<and> jprop ''version'' prov = Some (JNum 1) \<and> jprop ''kind'' prov = Some (JStr PROVENANCE_KIND)
     \<and> jprop ''scope'' prov = Some (JStr ''direct-local-run'')
     \<and> jprop ''issuer'' prov = Some (JStr ''hepta-paper-autonomous-research-cli'')
     \<and> jprop ''operatorIssuance'' prov = Some (JStr ''explicit-unlimited-budget-flags-v1'')
     \<and> jprop ''requestedLaunchMode'' prov = Some (JStr ''local-run'')
     \<and> jprop ''effectiveLaunchMode'' prov = Some (JStr GOLDEN_BOOTSTRAP)
     \<and> js_trim (str_or rt (jprop ''campaignId'' prov)) \<noteq> [] \<and> js_trim (str_or rt (jprop ''paperId'' prov)) \<noteq> []
     \<and> expected_id campaignId (jprop ''campaignId'' prov) \<and> expected_id paperId (jprop ''paperId'' prov)
     \<and> seal_valid rt PROVENANCE_KIND PROVENANCE_HASH_FIELD prov)"

section \<open>The budget waiver\<close>

definition waiver_entries :: "json option \<Rightarrow> bool \<Rightarrow> bool \<Rightarrow> (string \<times> json) list" where
  "waiver_entries prov unlimitedTokenCount unlimitedCostUsd =
    [(''version'', JInt 2), (''kind'', JStr WAIVER_KIND), (''scope'', JStr ''direct-local-run''),
     (''campaignId'', jfield ''campaignId'' prov), (''paperId'', jfield ''paperId'' prov),
     (''directLocalRunCliProvenanceHash'', jfield PROVENANCE_HASH_FIELD prov),
     (''unlimitedTokenCount'', JBool unlimitedTokenCount), (''unlimitedCostUsd'', JBool unlimitedCostUsd)]"

definition buildDirectLocalRunBudgetWaiver :: "runtime \<Rightarrow> json option \<Rightarrow> json option \<Rightarrow> json option \<Rightarrow> json result" where
  "buildDirectLocalRunBudgetWaiver rt unlimitedTokenCount unlimitedCostUsd prov =
    rbind (check (is_true unlimitedTokenCount \<or> is_true unlimitedCostUsd)
        ''autonomous_research_direct_local_run_budget_waiver_empty'') (\<lambda>_.
    rbind (check (verifyDirectLocalRunCliProvenance rt prov None None)
        ''autonomous_research_direct_local_run_cli_provenance_invalid'') (\<lambda>_.
    Inr (sealed_record rt WAIVER_KIND WAIVER_HASH_FIELD
      (waiver_entries prov (is_true unlimitedTokenCount) (is_true unlimitedCostUsd)))))"

definition verifyDirectLocalRunBudgetWaiver :: "runtime \<Rightarrow> json option \<Rightarrow> string option \<Rightarrow> string option \<Rightarrow> json option \<Rightarrow> bool" where
  "verifyDirectLocalRunBudgetWaiver rt waiver campaignId paperId prov =
    (hasExactPlainObjectKeys waiver [''version'', ''kind'', ''scope'', ''campaignId'', ''paperId'',
       ''directLocalRunCliProvenanceHash'', ''unlimitedTokenCount'', ''unlimitedCostUsd'', WAIVER_HASH_FIELD]
     \<and> jprop ''version'' waiver = Some (JNum 2) \<and> jprop ''kind'' waiver = Some (JStr WAIVER_KIND)
     \<and> jprop ''scope'' waiver = Some (JStr ''direct-local-run'')
     \<and> js_trim (str_or rt (jprop ''campaignId'' waiver)) \<noteq> [] \<and> js_trim (str_or rt (jprop ''paperId'' waiver)) \<noteq> []
     \<and> sha256_field rt (jprop ''directLocalRunCliProvenanceHash'' waiver)
     \<and> expected_id campaignId (jprop ''campaignId'' waiver) \<and> expected_id paperId (jprop ''paperId'' waiver)
     \<and> jprop ''unlimitedTokenCount'' waiver \<in> {Some (JBool True), Some (JBool False)}
     \<and> jprop ''unlimitedCostUsd'' waiver \<in> {Some (JBool True), Some (JBool False)}
     \<and> (is_true (jprop ''unlimitedTokenCount'' waiver) \<or> is_true (jprop ''unlimitedCostUsd'' waiver))
     \<and> (absent prov \<or> verifyDirectLocalRunCliProvenance rt prov (Some (text_of rt (jprop ''campaignId'' waiver)))
            (Some (text_of rt (jprop ''paperId'' waiver)))
          \<and> jprop ''directLocalRunCliProvenanceHash'' waiver = jprop PROVENANCE_HASH_FIELD prov)
     \<and> seal_valid rt WAIVER_KIND WAIVER_HASH_FIELD waiver)"

section \<open>Binding of a waiver to a campaign\<close>

definition verifyDirectLocalRunPreparation :: "runtime \<Rightarrow> json option \<Rightarrow> string option \<Rightarrow> string option \<Rightarrow> bool" where
  "verifyDirectLocalRunPreparation rt preparation campaignId paperId =
    ((case preparation of Some (JObj _) \<Rightarrow> True | _ \<Rightarrow> False)
     \<and> jprop ''version'' preparation = Some (JNum 1)
     \<and> jprop ''kind'' preparation = Some (JStr ''AutonomousResearchLoopPreparationReport'')
     \<and> jprop ''launchMode'' preparation = Some (JStr GOLDEN_BOOTSTRAP)
     \<and> is_true (jprop ''autonomousExecutionLaunchReady'' preparation)
     \<and> expected_id paperId (jprop ''paperId'' (jprop ''proposal'' preparation))
     \<and> verifyDirectLocalRunCliProvenance rt (jprop ''directLocalRunCliProvenance'' preparation) campaignId paperId
     \<and> seal_valid rt ''AutonomousResearchLoopPreparationReport'' ''autonomousResearchLoopPreparationReportHash'' preparation)"

definition assertDirectLocalRunBudgetWaiverBinding ::
    "runtime \<Rightarrow> json option \<Rightarrow> bool \<Rightarrow> json option \<Rightarrow> json option \<Rightarrow> string option \<Rightarrow> string option \<Rightarrow> json option \<Rightarrow> json option result" where
  "assertDirectLocalRunBudgetWaiverBinding rt launchMode localOnly budgets waiver campaignId paperId preparation =
    rbind (assertDirectLocalRunBudgetTypes budgets) (\<lambda>_.
    let tokenSentinel = exactUnlimitedBudgetSentinel (jprop ''maxTokenCount'' budgets);
        costSentinel = exactUnlimitedBudgetSentinel (jprop ''maxCostUsd'' budgets) in
    if \<not> jtruthy waiver \<and> \<not> tokenSentinel \<and> \<not> costSentinel then Inr None
    else
      rbind (check (verifyDirectLocalRunBudgetWaiver rt waiver campaignId paperId None)
          ''autonomous_research_direct_local_run_budget_waiver_invalid'') (\<lambda>_.
      rbind (check (localOnly \<and> launchMode = Some (JStr GOLDEN_BOOTSTRAP))
          ''autonomous_research_direct_local_run_budget_waiver_scope_invalid'') (\<lambda>_.
      rbind (check (jtruthy preparation) ''autonomous_research_direct_local_run_preparation_required'') (\<lambda>_.
      rbind (check (verifyDirectLocalRunPreparation rt preparation campaignId paperId)
          ''autonomous_research_direct_local_run_preparation_invalid'') (\<lambda>_.
      rbind (check (verifyDirectLocalRunBudgetWaiver rt waiver campaignId paperId (jprop ''directLocalRunCliProvenance'' preparation))
          ''autonomous_research_direct_local_run_budget_waiver_binding_invalid'') (\<lambda>_.
      rbind (check (jprop ''unlimitedTokenCount'' waiver = Some (JBool tokenSentinel)
            \<and> jprop ''unlimitedCostUsd'' waiver = Some (JBool costSentinel))
          ''autonomous_research_direct_local_run_budget_waiver_binding_invalid'') (\<lambda>_.
      Inr waiver)))))))"

text \<open>\<open>v || null\<close>.\<close>

definition truthy_or_null :: "json option \<Rightarrow> json option" where
  "truthy_or_null v = (if jtruthy v then v else None)"

text \<open>The call of the definition codec and of the evolution policy, on a specification.\<close>

definition spec_waiver_binding :: "runtime \<Rightarrow> json \<Rightarrow> string \<Rightarrow> string \<Rightarrow> unit result" where
  "spec_waiver_binding rt spec campaignId paperId =
    rbind (assertDirectLocalRunBudgetWaiverBinding rt
      (truthy_or_null (jpath [''autonomousResearchPreparation'', ''launchMode''] spec))
      (is_true (jget ''localOnly'' spec)) (jget ''budgets'' spec)
      (truthy_or_null (jget ''directLocalRunBudgetWaiver'' spec)) (or_null (Some campaignId)) (or_null (Some paperId))
      (truthy_or_null (jget ''autonomousResearchPreparation'' spec))) (\<lambda>_. Inr ())"

definition resolveWaiverForCampaign :: "runtime \<Rightarrow> campaign_row option \<Rightarrow> json option \<Rightarrow> json option result" where
  "resolveWaiverForCampaign rt existing requested =
    (case existing of
       None \<Rightarrow> if jtruthy requested \<and> \<not> verifyDirectLocalRunBudgetWaiver rt requested None None None
         then Inl ''autonomous_research_direct_local_run_budget_waiver_invalid'' else Inr requested
     | Some c \<Rightarrow>
         let persisted = truthy_or_null (jget ''directLocalRunBudgetWaiver'' (c_spec c));
             prov = truthy_or_null (jpath [''autonomousResearchPreparation'', ''directLocalRunCliProvenance''] (c_spec c));
             verify = (\<lambda>w. verifyDirectLocalRunBudgetWaiver rt w (Some (campaign_id c)) (Some (paper_id c)) prov) in
         rbind (if persisted \<noteq> None then spec_waiver_binding rt (c_spec c) (campaign_id c) (paper_id c) else Inr ()) (\<lambda>_.
         if \<not> jtruthy requested then Inr persisted
         else if persisted = None then Inl ''autonomous_research_direct_local_run_budget_waiver_retrofit_forbidden''
         else if \<not> verify requested \<or> \<not> verify persisted then Inl ''autonomous_research_direct_local_run_budget_waiver_invalid''
         else if jprop WAIVER_HASH_FIELD requested \<noteq> jprop WAIVER_HASH_FIELD persisted
           then Inl ''autonomous_research_direct_local_run_budget_waiver_mismatch''
         else Inr persisted))"

section \<open>The launch mode of a stored campaign\<close>

record persisted_mode =
  pm_launchMode :: string
  pm_localOnly :: bool
  pm_legacy :: bool
  pm_budgets :: "(string \<times> json) list"

definition launch_modes :: "string list" where
  "launch_modes = [GOLDEN_BOOTSTRAP, PRODUCTION_RUN]"

definition bool_text :: "bool \<Rightarrow> string" where
  "bool_text b = (if b then ''true'' else ''false'')"

definition resolvePersistedLaunchMode :: "runtime \<Rightarrow> campaign_row option \<Rightarrow> string option \<Rightarrow> bool option \<Rightarrow> persisted_mode result" where
  "resolvePersistedLaunchMode rt campaign requestedMode requestedLocalOnly =
    (let spec = map_option c_spec campaign;
         preparation = truthy_or_null (jprop ''autonomousResearchPreparation'' spec);
         persisted = jprop ''launchMode'' preparation;
         mode = (case persisted of None \<Rightarrow> JStr PRODUCTION_RUN | Some m \<Rightarrow> m);
         localOnly = is_true (jprop ''localOnly'' spec) in
     rbind (check (jprop ''version'' preparation = Some (JNum 1)
           \<and> jprop ''kind'' preparation = Some (JStr ''AutonomousResearchLoopPreparationReport''))
         ''autonomous_research_persisted_preparation_required'') (\<lambda>_.
     rbind (check (seal_valid rt ''AutonomousResearchLoopPreparationReport'' ''autonomousResearchLoopPreparationReportHash'' preparation)
         ''autonomous_research_persisted_preparation_hash_invalid'') (\<lambda>_.
     rbind (check (mode \<in> set (map JStr launch_modes))
         (''autonomous_research_persisted_launch_mode_invalid:'' @ js_string rt mode)) (\<lambda>_.
     rbind (check (case requestedMode of None \<Rightarrow> True | Some m \<Rightarrow> mode = JStr m)
         (''autonomous_research_launch_mode_mismatch:'' @ js_string rt mode @ '':'' @ sqlText requestedMode)) (\<lambda>_.
     rbind (check (case requestedLocalOnly of None \<Rightarrow> True | Some b \<Rightarrow> b = localOnly)
         (''autonomous_research_local_only_mismatch:'' @ bool_text localOnly @ '':''
           @ (case requestedLocalOnly of Some b \<Rightarrow> bool_text b | None \<Rightarrow> []))) (\<lambda>_.
     Inr \<lparr>pm_launchMode = js_string rt mode, pm_localOnly = localOnly, pm_legacy = (persisted = None),
       pm_budgets = object_entries (or_else (jprop ''budgets'' spec) (JObj []))\<rparr>))))))"

section \<open>Budgets\<close>

definition BUDGET_KEYS :: "string list" where
  "BUDGET_KEYS = [''maxWallTimeMs'', ''maxAgentCalls'', ''maxCpuJobs'', ''maxGpuJobs'', ''maxTokenCount'', ''maxCostUsd'', ''maxMemoryMiB'']"

type_synonym budget_table = "(string \<times> rat) list"

definition GOLDEN_BOOTSTRAP_DEFAULT_BUDGETS :: budget_table where
  "GOLDEN_BOOTSTRAP_DEFAULT_BUDGETS = zip BUDGET_KEYS [2 * 60 * 60 * 1000, 48, 128, 16, 300000, 100, 8192]"

definition GOLDEN_BOOTSTRAP_HARD_BUDGETS :: budget_table where
  "GOLDEN_BOOTSTRAP_HARD_BUDGETS = obj_spread GOLDEN_BOOTSTRAP_DEFAULT_BUDGETS
    [(''maxAgentCalls'', 512), (''maxCpuJobs'', 32768), (''maxGpuJobs'', 32768), (''maxTokenCount'', 4000000)]"

definition PRODUCTION_DEFAULT_HARD_BUDGETS :: budget_table where
  "PRODUCTION_DEFAULT_HARD_BUDGETS = zip BUDGET_KEYS [6 * 60 * 60 * 1000, 64, 256, 32, 500000, 100, 8192]"

definition budget_of :: "budget_table \<Rightarrow> string \<Rightarrow> rat" where
  "budget_of t k = (case map_of t k of Some q \<Rightarrow> q | None \<Rightarrow> 0)"

definition normalizedMode :: "runtime \<Rightarrow> json option \<Rightarrow> string result" where
  "normalizedMode rt v = (let mode = js_trim (str_or rt v) in
     if mode \<in> set launch_modes then Inr mode
     else Inl (''autonomous_research_launch_mode_invalid:'' @ (if mode = [] then ''<empty>'' else mode)))"

definition normalized_budget :: "runtime \<Rightarrow> bool \<Rightarrow> json option \<Rightarrow> string \<Rightarrow> (string \<times> rat) result" where
  "normalized_budget rt golden source key =
    (let defaults = (if golden then GOLDEN_BOOTSTRAP_DEFAULT_BUDGETS else PRODUCTION_DEFAULT_HARD_BUDGETS);
         given = jprop key source;
         v = (if given = None then Some (budget_of defaults key) else finiteNonNegative rt given) in
     case v of None \<Rightarrow> Inl (''autonomous_research_launch_budget_invalid:'' @ key)
     | Some q \<Rightarrow> Inr (key, if golden then min q (budget_of GOLDEN_BOOTSTRAP_HARD_BUDGETS key) else q))"

definition normalizedBudgets :: "runtime \<Rightarrow> string \<Rightarrow> json option \<Rightarrow> budget_table result" where
  "normalizedBudgets rt mode budgets =
    rbind (assertLaunchBudgetTypes budgets) (\<lambda>_.
    rmap (normalized_budget rt (mode = GOLDEN_BOOTSTRAP) budgets) BUDGET_KEYS)"

section \<open>Provider pricing\<close>

definition resolveProviderPricing :: "runtime \<Rightarrow> json option \<Rightarrow> json option \<Rightarrow> json option \<Rightarrow> json option \<Rightarrow> json option \<Rightarrow> json option \<Rightarrow> json" where
  "resolveProviderPricing rt authorProvider authorModel reviewerProvider reviewerModel authorCost reviewerCost =
    (let author = finitePositive rt authorCost; reviewer = finitePositive rt reviewerCost;
         blockers = blocker (author = None) ''autonomous_research_research_author_provider_pricing_unknown''
           @ blocker (reviewer = None) ''autonomous_research_formal_reviewer_provider_pricing_unknown'';
         both = (case (author, reviewer) of (Some a, Some r) \<Rightarrow> Some (a, r) | _ \<Rightarrow> None) in
     sealed_record rt ''AutonomousResearchProviderPricingInspection'' ''autonomousResearchProviderPricingInspectionHash''
      [(''version'', JInt 1), (''kind'', JStr ''AutonomousResearchProviderPricingInspection''),
       (''status'', JStr (if blockers \<noteq> [] then ''autonomous_research_provider_pricing_unknown''
          else ''autonomous_research_provider_pricing_bounded'')),
       (''pricingAuthority'', JStr ''operator-configured-maximum-cost-per-provider-call-v1''),
       (''researchAuthor'', JObj [(''provider'', or_else authorProvider JNull), (''model'', or_else authorModel JNull),
          (''maximumCostPerCallUsd'', num_json author)]),
       (''formalReviewer'', JObj [(''provider'', or_else reviewerProvider JNull), (''model'', or_else reviewerModel JNull),
          (''maximumCostPerCallUsd'', num_json reviewer)]),
       (''maximumCostPerCallUsd'', num_json (map_option (\<lambda>(a, r). max a r) both)),
       (''providerCanaryPairMaximumCostUsd'', num_json (map_option (\<lambda>(a, r). a + r) both)),
       (''pricingKnown'', JBool (blockers = [])), (''blockers'', JArr (map JStr blockers))])"

section \<open>The launch gate\<close>

record gate_request =
  q_launchMode :: "json option"
  q_action :: "json option"
  q_budgets :: "json option"
  q_localOnly :: "json option"
  q_waiver :: "json option"
  q_provenance :: "json option"
  q_preparation :: "json option"
  q_pending :: "json option"
  q_campaignId :: "string option"
  q_paperId :: "string option"
  q_pricing :: "json option"
  q_readiness :: "json option"
  q_admissionOnly :: "json option"

text \<open>What the gate finds out about the waiver.\<close>

record waiver_state =
  ws_structural :: bool
  ws_provenance :: bool
  ws_verified :: bool
  ws_common :: bool
  ws_scope :: bool
  ws_pending :: bool
  ws_matches :: bool

definition token_sentinel :: "gate_request \<Rightarrow> bool" where
  "token_sentinel q = exactUnlimitedBudgetSentinel (jprop ''maxTokenCount'' (q_budgets q))"

definition cost_sentinel :: "gate_request \<Rightarrow> bool" where
  "cost_sentinel q = exactUnlimitedBudgetSentinel (jprop ''maxCostUsd'' (q_budgets q))"

definition inspect_waiver :: "runtime \<Rightarrow> string \<Rightarrow> gate_request \<Rightarrow> waiver_state" where
  "inspect_waiver rt mode q =
    (let own = jprop ''directLocalRunCliProvenance'' (q_preparation q);
         provenance = (if jtruthy own then own else q_provenance q);
         provenanceVerified = verifyDirectLocalRunCliProvenance rt provenance (q_campaignId q) (q_paperId q);
         preparationVerified = (\<not> absent (q_preparation q)
           \<and> verifyDirectLocalRunPreparation rt (q_preparation q) (q_campaignId q) (q_paperId q));
         structural = verifyDirectLocalRunBudgetWaiver rt (q_waiver q) (q_campaignId q) (q_paperId q) None;
         verified = (structural \<and> verifyDirectLocalRunBudgetWaiver rt (q_waiver q) (q_campaignId q) (q_paperId q) provenance);
         common = (verified \<and> is_true (q_localOnly q) \<and> mode = GOLDEN_BOOTSTRAP \<and> provenanceVerified) in
     \<lparr>ws_structural = structural, ws_provenance = provenanceVerified, ws_verified = verified, ws_common = common,
      ws_scope = (common \<and> preparationVerified),
      ws_pending = (common \<and> absent (q_preparation q) \<and> is_true (q_pending q)),
      ws_matches = (jprop ''unlimitedTokenCount'' (q_waiver q) = Some (JBool (token_sentinel q))
        \<and> jprop ''unlimitedCostUsd'' (q_waiver q) = Some (JBool (cost_sentinel q)))\<rparr>)"

definition ws_authorized :: "waiver_state \<Rightarrow> bool" where
  "ws_authorized w = (ws_scope w \<or> ws_pending w)"

definition waiver_active :: "waiver_state \<Rightarrow> bool" where
  "waiver_active w = (ws_scope w \<and> ws_matches w)"

definition preflight_active :: "waiver_state \<Rightarrow> bool" where
  "preflight_active w = (ws_pending w \<and> ws_matches w)"

definition waiver_blockers :: "gate_request \<Rightarrow> waiver_state \<Rightarrow> string list" where
  "waiver_blockers q w =
    (if jtruthy (q_waiver q) \<and> \<not> ws_structural w then [''autonomous_research_direct_local_run_budget_waiver_invalid'']
     else if jtruthy (q_waiver q) \<and> \<not> ws_provenance w then [''autonomous_research_direct_local_run_cli_provenance_invalid'']
     else if ws_verified w \<and> \<not> ws_common w then [''autonomous_research_direct_local_run_budget_waiver_scope_invalid'']
     else if ws_verified w \<and> absent (q_preparation q) \<and> \<not> ws_pending w
       then [''autonomous_research_direct_local_run_preparation_required'']
     else if ws_verified w \<and> \<not> ws_authorized w then [''autonomous_research_direct_local_run_preparation_invalid'']
     else [])
    @ blocker ((token_sentinel q \<or> cost_sentinel q) \<and> \<not> ws_authorized w)
        ''autonomous_research_direct_local_run_budget_waiver_required''
    @ blocker (ws_authorized w \<and> \<not> ws_matches w) ''autonomous_research_direct_local_run_budget_waiver_binding_invalid''"

definition waived_budgets :: "gate_request \<Rightarrow> waiver_state \<Rightarrow> budget_table \<Rightarrow> budget_table" where
  "waived_budgets q w t =
    (let t1 = (if waiver_active w \<and> token_sentinel q then obj_set ''maxTokenCount'' UNLIMITED_BUDGET_SENTINEL t else t) in
     if waiver_active w \<and> cost_sentinel q then obj_set ''maxCostUsd'' UNLIMITED_BUDGET_SENTINEL t1 else t1)"

text \<open>The readiness a production launch needs.\<close>

record readiness_state =
  rd_required_ms :: rat
  rd_runtime_ms :: "rat option"
  rd_qualification_ms :: "rat option"
  rd_runtime_window :: bool
  rd_qualification_window :: bool
  rd_generic :: bool
  rd_full :: bool

definition window_ready :: "rat \<Rightarrow> rat option \<Rightarrow> bool" where
  "window_ready needMs remaining = (case remaining of Some ms \<Rightarrow> needMs < ms | None \<Rightarrow> False)"

definition inspect_readiness :: "runtime \<Rightarrow> bool \<Rightarrow> gate_request \<Rightarrow> rat \<Rightarrow> readiness_state" where
  "inspect_readiness rt needed q wallTime =
    (let r = (\<lambda>k. is_true (jprop k (q_readiness q)));
         needMs = wallTime + LAUNCH_VALIDITY_SAFETY_MARGIN_MS;
         runtimeMs = finitePositive rt (jprop ''remainingValidityMs'' (jprop ''runtimeImageReproducibility'' (q_readiness q)));
         qualificationMs = finitePositive rt (jprop ''remainingValidityMs'' (jprop ''fullResearchQualification'' (q_readiness q)));
         runtimeWindow = (\<not> needed \<or> window_ready needMs runtimeMs);
         qualificationWindow = (\<not> needed \<or> window_ready needMs qualificationMs) in
     \<lparr>rd_required_ms = needMs, rd_runtime_ms = runtimeMs, rd_qualification_ms = qualificationMs,
      rd_runtime_window = runtimeWindow, rd_qualification_window = qualificationWindow,
      rd_generic = (\<not> needed \<or> r ''productionGenericCapabilityReady'' \<or> r ''fullyAutonomousResearchSystemReady''),
      rd_full = (\<not> needed
        \<or> (if is_true (q_admissionOnly q) then r ''productionEnqueueAdmissionReady''
            else r ''fullResearchQualificationReady''
              \<and> (r ''boundedGoldenInfrastructureQualificationReady'' \<or> r ''productionGenericResearchQualificationReady'')
              \<and> r ''fullAutomaticResearchWritingReady'' \<and> r ''researchExecutionReleaseAttestorProductionReady'')
          \<and> r ''runtimeImageReproducibilityReady'' \<and> runtimeWindow \<and> qualificationWindow)\<rparr>)"

definition readiness_blockers :: "bool \<Rightarrow> readiness_state \<Rightarrow> string list" where
  "readiness_blockers needed r =
    blocker (\<not> rd_generic r) ''autonomous_research_production_generic_capability_required''
    @ blocker (\<not> rd_full r) ''autonomous_research_production_full_readiness_required''
    @ blocker (needed \<and> \<not> rd_runtime_window r) ''autonomous_research_runtime_receipt_validity_window_insufficient''
    @ blocker (needed \<and> \<not> rd_qualification_window r) ''autonomous_research_qualification_receipt_validity_window_insufficient''"

text \<open>What a provider call may cost and how many calls the ceiling affords.\<close>

definition price_per_call :: "runtime \<Rightarrow> gate_request \<Rightarrow> rat option" where
  "price_per_call rt q = finitePositive rt (jprop ''maximumCostPerCallUsd'' (q_pricing q))"

definition cost_ceiling :: "runtime \<Rightarrow> bool \<Rightarrow> gate_request \<Rightarrow> budget_table \<Rightarrow> rat option" where
  "cost_ceiling rt production q t = finitePositive rt
    (if production then jprop ''maxCostUsd'' (q_budgets q) else Some (JNum (budget_of t ''maxCostUsd'')))"

definition affordable_calls :: "runtime \<Rightarrow> bool \<Rightarrow> bool \<Rightarrow> gate_request \<Rightarrow> budget_table \<Rightarrow> rat option" where
  "affordable_calls rt production waived q t =
    (case (cost_ceiling rt production q t, price_per_call rt q) of
       (Some limit, Some price) \<Rightarrow> if waived then None else Some (of_int \<lfloor>limit / price\<rfloor>)
     | _ \<Rightarrow> None)"

definition pricing_blockers :: "runtime \<Rightarrow> bool \<Rightarrow> bool \<Rightarrow> gate_request \<Rightarrow> budget_table \<Rightarrow> string list" where
  "pricing_blockers rt production waived q t =
    (if \<not> waived \<and> (\<not> is_true (jprop ''pricingKnown'' (q_pricing q)) \<or> price_per_call rt q = None)
     then ''autonomous_research_provider_pricing_required''
       # (case jprop ''blockers'' (q_pricing q) of Some (JArr vs) \<Rightarrow> map (js_string rt) vs | _ \<Rightarrow> [])
     else [])
    @ blocker (production \<and> cost_ceiling rt production q t = None) ''autonomous_research_production_cost_ceiling_required''
    @ (case affordable_calls rt production waived q t of
         Some n \<Rightarrow> blocker (n < 1) ''autonomous_research_production_cost_ceiling_cannot_fund_one_call'' | None \<Rightarrow> [])"

definition funded_budgets :: "rat option \<Rightarrow> budget_table \<Rightarrow> budget_table" where
  "funded_budgets affordable t = (case affordable of
     Some n \<Rightarrow> if n < 1 then t else obj_set ''maxAgentCalls'' (min (budget_of t ''maxAgentCalls'') n) t | None \<Rightarrow> t)"

definition hard_budget_ready :: "budget_table \<Rightarrow> bool" where
  "hard_budget_ready t = list_all (\<lambda>k. 0 < budget_of t k) [''maxWallTimeMs'', ''maxAgentCalls'', ''maxCostUsd'']"

record launch_gate =
  lg_mode :: string
  lg_action :: string
  lg_requested :: bool
  lg_production :: bool
  lg_waiver :: waiver_state
  lg_readiness :: readiness_state
  lg_cost_waived :: bool
  lg_affordable :: "rat option"
  lg_budgets :: budget_table
  lg_blockers :: "string list"

definition launch_actions :: "string list" where
  "launch_actions = [''prepare'', ''launch'', ''status'', ''resume'', ''converge'']"

definition MUTATING_OR_PROVIDER_ACTIONS :: "string list" where
  "MUTATING_OR_PROVIDER_ACTIONS = [''launch'', ''resume'', ''converge'']"

definition decide_gate :: "runtime \<Rightarrow> gate_request \<Rightarrow> string \<Rightarrow> string \<Rightarrow> budget_table \<Rightarrow> launch_gate" where
  "decide_gate rt q mode action t0 =
    (let w = inspect_waiver rt mode q;
         t1 = waived_budgets q w t0;
         requested = action \<in> set MUTATING_OR_PROVIDER_ACTIONS;
         production = (mode = PRODUCTION_RUN);
         waived = ((waiver_active w \<or> preflight_active w) \<and> is_true (jprop ''unlimitedCostUsd'' (q_waiver q)));
         r = inspect_readiness rt (production \<and> requested) q (budget_of t1 ''maxWallTimeMs'');
         affordable = (if requested then affordable_calls rt production waived q t1 else None);
         t2 = funded_budgets affordable t1 in
     \<lparr>lg_mode = mode, lg_action = action, lg_requested = requested, lg_production = production, lg_waiver = w,
      lg_readiness = r, lg_cost_waived = waived, lg_affordable = affordable, lg_budgets = t2,
      lg_blockers = unique (waiver_blockers q w @ readiness_blockers (production \<and> requested) r
        @ (if requested then pricing_blockers rt production waived q t1 else [])
        @ blocker (requested \<and> \<not> hard_budget_ready t2) ''autonomous_research_independent_hard_budget_required'')\<rparr>)"

definition evaluate_gate :: "runtime \<Rightarrow> gate_request \<Rightarrow> launch_gate result" where
  "evaluate_gate rt q =
    rbind (normalizedMode rt (q_launchMode q)) (\<lambda>mode.
    let action = js_trim (str_or rt (q_action q)) in
    rbind (check (action \<in> set launch_actions)
        (''autonomous_research_campaign_action_invalid:'' @ (if action = [] then ''<empty>'' else action))) (\<lambda>_.
    rbind (normalizedBudgets rt mode (q_budgets q)) (\<lambda>t.
    Inr (decide_gate rt q mode action t))))"

definition gate_permits :: "launch_gate \<Rightarrow> bool" where
  "gate_permits g = (lg_blockers g = [] \<and> lg_requested g)"

definition gate_permits_provider :: "gate_request \<Rightarrow> launch_gate \<Rightarrow> bool" where
  "gate_permits_provider q g = (\<not> is_true (q_admissionOnly q) \<and> gate_permits g)"

definition gate_entries :: "gate_request \<Rightarrow> launch_gate \<Rightarrow> (string \<times> json) list" where
  "gate_entries q g =
    (let w = lg_waiver g; r = lg_readiness g; active = waiver_active w;
         ready = (\<lambda>k. JBool (is_true (jprop k (q_readiness q)))) in
     [(''version'', JInt 1), (''kind'', JStr ''AutonomousResearchLaunchModeGate''),
      (''status'', JStr (if lg_blockers g \<noteq> [] then ''autonomous_research_launch_mode_blocked'' else ''autonomous_research_launch_mode_ready'')),
      (''launchMode'', JStr (lg_mode g)), (''action'', JStr (lg_action g)), (''localOnly'', JBool (is_true (q_localOnly q))),
      (''admissionOnly'', JBool (is_true (q_admissionOnly q))), (''providerOrMutationRequested'', JBool (lg_requested g)),
      (''goldenBootstrap'', JBool (lg_mode g = GOLDEN_BOOTSTRAP)), (''productionRun'', JBool (lg_production g)),
      (''fullReadinessVerified'', JBool (rd_full r)),
      (''releaseSignerProductionReady'', ready ''researchExecutionReleaseAttestorProductionReady''),
      (''productionEnqueueAdmissionReady'', ready ''productionEnqueueAdmissionReady''),
      (''productionGenericCapabilityReady'', JBool (rd_generic r)),
      (''runtimeImageReproducibilityReady'', ready ''runtimeImageReproducibilityReady''),
      (''requiredReceiptValidityMs'', JNum (rd_required_ms r)), (''runtimeRemainingValidityMs'', num_json (rd_runtime_ms r)),
      (''qualificationRemainingValidityMs'', num_json (rd_qualification_ms r)),
      (''runtimeValidityWindowReady'', JBool (rd_runtime_window r)), (''qualificationValidityWindowReady'', JBool (rd_qualification_window r)),
      (''providerPricingKnown'', JBool (is_true (jprop ''pricingKnown'' (q_pricing q)))),
      (''providerPricingInspectionHash'', or_else (jprop ''autonomousResearchProviderPricingInspectionHash'' (q_pricing q)) JNull),
      (''maximumCostPerCallUsd'', or_else (jprop ''maximumCostPerCallUsd'' (q_pricing q)) JNull),
      (''providerCanaryPairMaximumCostUsd'', or_else (jprop ''providerCanaryPairMaximumCostUsd'' (q_pricing q)) JNull),
      (''directLocalRunBudgetWaiver'', if active then or_else (q_waiver q) JNull else JNull),
      (''directLocalRunBudgetWaiverHash'', if active then jfield WAIVER_HASH_FIELD (q_waiver q) else JNull),
      (''directLocalRunBudgetWaiverActive'', JBool active), (''directLocalRunCliPreflightActive'', JBool (preflight_active w)),
      (''maximumAffordableAgentCalls'', num_json (lg_affordable g)), (''providerTokenUsageMetered'', JBool False),
      (''tokenBudgetAssurance'', JStr ''prompt_only_not_a_hard_provider_limit''),
      (''costBoundViaConfiguredProviderMaximumPerCall'', JBool (lg_requested g \<and> lg_affordable g \<noteq> None)),
      (''effectiveBudgets'', JObj (map (map_prod id JNum) (lg_budgets g))),
      (''budgetPolicy'', JStr (if active then ''direct-local-run-explicit-token-cost-waiver-v1''
         else if lg_production g then ''production-priced-cost-ceiling-plus-independent-hard-limits-v1''
         else ''golden-bootstrap-priced-call-cost-and-wall-limits-v2'')),
      (''unknownProviderCostTreatedAsUnlimited'', JBool (lg_cost_waived g)),
      (''workspaceMutationPermitted'', JBool (gate_permits g)), (''storeMutationPermitted'', JBool (gate_permits g)),
      (''providerExecutionPermitted'', JBool (gate_permits_provider q g)), (''blockers'', JArr (map JStr (lg_blockers g)))])"

definition evaluateLaunchModeGate :: "runtime \<Rightarrow> gate_request \<Rightarrow> json result" where
  "evaluateLaunchModeGate rt q = rbind (evaluate_gate rt q) (\<lambda>g.
    Inr (sealed_record rt ''AutonomousResearchLaunchModeGate'' ''autonomousResearchLaunchModeGateHash'' (gate_entries q g)))"

end
