(* ===== verification/Launch_Properties.thy ===== *)
theory Launch_Properties
  imports Launch_Mode_Policy Campaign_Example
begin

text \<open>
  Budgets of a launch: a waiver of the token and cost budgets is accepted exactly where it was
  issued, unlimited budgets do not enter a local campaign without one, and a launch the gate permits
  is paid for and bounded.
\<close>

section \<open>Trimmed identities and sealed records\<close>

lemma dropWhile_nonspace: "dropWhile P xs \<noteq> [] \<Longrightarrow> \<exists>x \<in> set (dropWhile P xs). \<not> P x"
  by (meson hd_dropWhile list.set_sel(1))

lemma js_trim_nonspace: "js_trim s \<noteq> [] \<Longrightarrow> \<exists>x \<in> set (js_trim s). \<not> is_space x"
  using dropWhile_nonspace [of is_space "rev (dropWhile is_space s)"] by (auto simp: js_trim_def)

lemma dropWhile_keeps: "x \<in> set xs \<Longrightarrow> \<not> P x \<Longrightarrow> x \<in> set (dropWhile P xs)"
  by (induction xs) auto

lemma js_trim_keeps: "x \<in> set s \<Longrightarrow> \<not> is_space x \<Longrightarrow> x \<in> set (js_trim s)"
  by (simp add: js_trim_def dropWhile_keeps)

lemma js_trim_again: "js_trim s \<noteq> [] \<Longrightarrow> js_trim (js_trim s) \<noteq> []"
  by (metis js_trim_nonspace js_trim_keeps empty_iff list.set(1))

lemma str_or_JStr [simp]: "str_or rt (Some (JStr s)) = s"
  by (cases "s = []") (simp_all add: str_or_def)

lemma jprop_simps [simp]: "jprop k None = None" "jprop k (Some (JObj es)) = map_of es k"
  by (simp_all add: jprop_def)

lemma seal_valid_sealed:
  "hashField \<notin> set (map fst es) \<Longrightarrow> seal_valid rt kind hashField (Some (sealed_record rt kind hashField es))"
proof -
  assume new: "hashField \<notin> set (map fst es)"
  then have "filter (\<lambda>e. fst e \<noteq> hashField) es = es" by (auto simp: filter_id_conv)
  moreover have "map_of es hashField = None" using new by (simp add: map_of_eq_None_iff image_iff)
  ultimately show ?thesis
    by (simp add: seal_valid_def sealed_record_def without_keys_def object_entries_def map_add_def)
qed


lemma sha256_sealed: "sha256_runtime rt \<Longrightarrow> sha256_field rt (Some (JStr (hashRecord rt kind v)))"
  by (simp add: sha256_field_JStr hashRecord_is_sha256)

lemmas waiver_constants = PROVENANCE_KIND_def PROVENANCE_HASH_FIELD_def WAIVER_KIND_def WAIVER_HASH_FIELD_def GOLDEN_BOOTSTRAP_def

lemma provenance_valid:
  assumes "js_trim c \<noteq> []" "js_trim p \<noteq> []"
  shows "verifyDirectLocalRunCliProvenance rt (Some (sealed_record rt PROVENANCE_KIND PROVENANCE_HASH_FIELD (provenance_entries c p)))
    (Some c) (Some p)"
proof -
  have "seal_valid rt PROVENANCE_KIND PROVENANCE_HASH_FIELD
      (Some (sealed_record rt PROVENANCE_KIND PROVENANCE_HASH_FIELD (provenance_entries c p)))"
    by (rule seal_valid_sealed) (simp add: provenance_entries_def waiver_constants)
  with assms show ?thesis
    unfolding verifyDirectLocalRunCliProvenance_def
    by (simp add: sealed_record_def provenance_entries_def hasExactPlainObjectKeys_def waiver_constants expected_id_def)
qed

lemma waiver_valid:
  assumes "js_trim c \<noteq> []" "js_trim p \<noteq> []" "unlimitedTokenCount \<or> unlimitedCostUsd" "sha256_runtime rt"
    "prov = sealed_record rt PROVENANCE_KIND PROVENANCE_HASH_FIELD (provenance_entries c p)"
  shows "verifyDirectLocalRunBudgetWaiver rt (Some (sealed_record rt WAIVER_KIND WAIVER_HASH_FIELD
      (waiver_entries (Some prov) unlimitedTokenCount unlimitedCostUsd))) (Some c) (Some p) (Some prov)"
proof -
  let ?w = "sealed_record rt WAIVER_KIND WAIVER_HASH_FIELD (waiver_entries (Some prov) unlimitedTokenCount unlimitedCostUsd)"
  have seal: "seal_valid rt WAIVER_KIND WAIVER_HASH_FIELD (Some ?w)"
    by (rule seal_valid_sealed) (simp add: waiver_entries_def waiver_constants)
  have prov: "jprop ''campaignId'' (Some prov) = Some (JStr c)" "jprop ''paperId'' (Some prov) = Some (JStr p)"
    "jprop PROVENANCE_HASH_FIELD (Some prov) = Some (JStr (hashRecord rt PROVENANCE_KIND (JObj (provenance_entries c p))))"
    unfolding assms(5) by (simp_all add: sealed_record_def provenance_entries_def waiver_constants)
  have fields: "jprop ''version'' (Some ?w) = Some (JNum 2)" "jprop ''kind'' (Some ?w) = Some (JStr WAIVER_KIND)"
    "jprop ''scope'' (Some ?w) = Some (JStr ''direct-local-run'')" "jprop ''campaignId'' (Some ?w) = Some (JStr c)"
    "jprop ''paperId'' (Some ?w) = Some (JStr p)" "jprop ''directLocalRunCliProvenanceHash'' (Some ?w) = jprop PROVENANCE_HASH_FIELD (Some prov)"
    "jprop ''unlimitedTokenCount'' (Some ?w) = Some (JBool unlimitedTokenCount)"
    "jprop ''unlimitedCostUsd'' (Some ?w) = Some (JBool unlimitedCostUsd)"
    by (simp_all add: sealed_record_def waiver_entries_def jfield_def prov)
  have keys: "hasExactPlainObjectKeys (Some ?w) [''version'', ''kind'', ''scope'', ''campaignId'', ''paperId'',
       ''directLocalRunCliProvenanceHash'', ''unlimitedTokenCount'', ''unlimitedCostUsd'', WAIVER_HASH_FIELD]"
    by (simp add: sealed_record_def waiver_entries_def hasExactPlainObjectKeys_def)
  show ?thesis
    unfolding verifyDirectLocalRunBudgetWaiver_def fields
    using assms(1-4) seal keys prov(3) provenance_valid [OF assms(1,2), of rt]
    by (auto simp: expected_id_def is_true_def text_of_def sha256_sealed assms(5))
qed

text \<open>
  C23. Round trip. The waiver built from a provenance that was built for a campaign and a paper is
  accepted for that campaign and paper together with its provenance, the provenance itself is
  accepted, and for any other campaign both are refused.
\<close>

theorem waiver_round_trip:
  assumes "sha256_runtime rt" "buildDirectLocalRunCliProvenance rt campaign paper = Inr prov"
    "buildDirectLocalRunBudgetWaiver rt unlimitedTokenCount unlimitedCostUsd (Some prov) = Inr w"
  defines "c \<equiv> js_trim (str_or rt campaign)" and "p \<equiv> js_trim (str_or rt paper)"
  shows "verifyDirectLocalRunCliProvenance rt (Some prov) (Some c) (Some p)
    \<and> verifyDirectLocalRunBudgetWaiver rt (Some w) (Some c) (Some p) (Some prov)
    \<and> (verifyDirectLocalRunBudgetWaiver rt (Some w) (Some c') (Some p') (Some prov) \<longrightarrow> c' = c \<and> p' = p)"
proof -
  have ids: "c \<noteq> []" "p \<noteq> []" "prov = sealed_record rt PROVENANCE_KIND PROVENANCE_HASH_FIELD (provenance_entries c p)"
    using assms(2) unfolding c_def p_def
    by (auto simp: buildDirectLocalRunCliProvenance_def requiredIdentity_def Let_def split: if_splits)
  have trimmed: "js_trim c \<noteq> []" "js_trim p \<noteq> []" using ids js_trim_again unfolding c_def p_def by blast+
  have w: "is_true unlimitedTokenCount \<or> is_true unlimitedCostUsd"
    "w = sealed_record rt WAIVER_KIND WAIVER_HASH_FIELD (waiver_entries (Some prov) (is_true unlimitedTokenCount) (is_true unlimitedCostUsd))"
    using assms(3) by (auto simp: buildDirectLocalRunBudgetWaiver_def rbind_Inr_iff)
  have "jprop ''campaignId'' (Some w) = Some (JStr c)" "jprop ''paperId'' (Some w) = Some (JStr p)"
    by (simp_all add: w(2) ids(3) sealed_record_def waiver_entries_def jfield_def provenance_entries_def)
  then have "verifyDirectLocalRunBudgetWaiver rt (Some w) (Some c') (Some p') (Some prov) \<longrightarrow> c' = c \<and> p' = p"
    by (simp add: verifyDirectLocalRunBudgetWaiver_def expected_id_def)
  moreover have "verifyDirectLocalRunBudgetWaiver rt (Some w) (Some c) (Some p) (Some prov)"
    unfolding w(2) using waiver_valid [OF trimmed w(1) assms(1) ids(3)] .
  moreover have "verifyDirectLocalRunCliProvenance rt (Some prov) (Some c) (Some p)"
    unfolding ids(3) by (rule provenance_valid [OF trimmed])
  ultimately show ?thesis by blast
qed

section \<open>Unlimited budgets of a stored campaign\<close>

definition unlimited :: "string \<Rightarrow> json \<Rightarrow> bool" where
  "unlimited key spec = exactUnlimitedBudgetSentinel (jprop key (jget ''budgets'' spec))"

text \<open>What the policy promises of a specification with an unlimited token or cost budget.\<close>

definition waived_for :: "runtime \<Rightarrow> json \<Rightarrow> string \<Rightarrow> string \<Rightarrow> bool" where
  "waived_for rt spec c p =
    (let waiver = jget ''directLocalRunBudgetWaiver'' spec; preparation = jget ''autonomousResearchPreparation'' spec;
         prov = jprop ''directLocalRunCliProvenance'' preparation in
     is_true (jget ''localOnly'' spec) \<and> jprop ''launchMode'' preparation = Some (JStr GOLDEN_BOOTSTRAP)
     \<and> verifyDirectLocalRunCliProvenance rt prov (Some c) (Some p)
     \<and> verifyDirectLocalRunBudgetWaiver rt waiver (Some c) (Some p) prov
     \<and> jprop ''unlimitedTokenCount'' waiver = Some (JBool (unlimited ''maxTokenCount'' spec))
     \<and> jprop ''unlimitedCostUsd'' waiver = Some (JBool (unlimited ''maxCostUsd'' spec)))"

lemma verified_waiver_some: "verifyDirectLocalRunBudgetWaiver rt w c p prov \<Longrightarrow> w \<noteq> None"
  by (cases w) (simp_all add: verifyDirectLocalRunBudgetWaiver_def hasExactPlainObjectKeys_def)

lemma truthy_or_null_Some: "truthy_or_null v \<noteq> None \<Longrightarrow> truthy_or_null v = v"
  by (auto simp: truthy_or_null_def split: if_splits)

lemma binding_checked:
  assumes "assertDirectLocalRunBudgetWaiverBinding rt mode loc budgets waiver campaign paper preparation = Inr r"
  defines "tok \<equiv> exactUnlimitedBudgetSentinel (jprop ''maxTokenCount'' budgets)"
    and "cost \<equiv> exactUnlimitedBudgetSentinel (jprop ''maxCostUsd'' budgets)"
  assumes "tok \<or> cost"
  shows "loc \<and> verifyDirectLocalRunPreparation rt preparation campaign paper
    \<and> verifyDirectLocalRunBudgetWaiver rt waiver campaign paper (jprop ''directLocalRunCliProvenance'' preparation)
    \<and> jprop ''unlimitedTokenCount'' waiver = Some (JBool tok) \<and> jprop ''unlimitedCostUsd'' waiver = Some (JBool cost)"
proof -
  have some: "(\<not> jtruthy waiver \<and> \<not> tok \<and> \<not> cost) = False" using assms(4) by blast
  show ?thesis
    using assms(1) unfolding assertDirectLocalRunBudgetWaiverBinding_def Let_def tok_def [symmetric] cost_def [symmetric] some if_False
      rbind_Inr_iff check_Inr_iff
    by blast
qed

lemma binding_waived:
  assumes "spec_waiver_binding rt spec c p = Inr ()" "c \<noteq> []" "p \<noteq> []"
    "unlimited ''maxTokenCount'' spec \<or> unlimited ''maxCostUsd'' spec"
  shows "waived_for rt spec c p"
proof -
  let ?w = "truthy_or_null (jget ''directLocalRunBudgetWaiver'' spec)"
  let ?prep = "truthy_or_null (jget ''autonomousResearchPreparation'' spec)"
  let ?prov = "jprop ''directLocalRunCliProvenance'' ?prep"
  have ids: "or_null (Some c) = Some c" "or_null (Some p) = Some p" using assms(2,3) by simp_all
  have b: "is_true (jget ''localOnly'' spec)" "verifyDirectLocalRunPreparation rt ?prep (Some c) (Some p)"
    "verifyDirectLocalRunBudgetWaiver rt ?w (Some c) (Some p) ?prov"
    "jprop ''unlimitedTokenCount'' ?w = Some (JBool (unlimited ''maxTokenCount'' spec))"
    "jprop ''unlimitedCostUsd'' ?w = Some (JBool (unlimited ''maxCostUsd'' spec))"
    using assms(1,4) binding_checked unfolding spec_waiver_binding_def ids unlimited_def rbind_Inr_iff by metis+
  have w: "?w = jget ''directLocalRunBudgetWaiver'' spec" using verified_waiver_some [OF b(3)] by (rule truthy_or_null_Some)
  have "?prep \<noteq> None" using b(2) by (cases ?prep) (simp_all add: verifyDirectLocalRunPreparation_def)
  then have prep: "?prep = jget ''autonomousResearchPreparation'' spec" by (rule truthy_or_null_Some)
  show ?thesis using b unfolding w prep waived_for_def Let_def by (simp add: verifyDirectLocalRunPreparation_def)
qed

text \<open>
  C20. Unlimited budgets need a waiver. When the definition codec admits a specification of a
  local, waived or prepared campaign whose token or cost budget is the unlimited sentinel, the
  campaign is local only, was prepared in golden-bootstrap mode, and carries a verified waiver issued
  from a verified command-line provenance for exactly this campaign and paper, with exactly the
  waived budgets unlimited.
\<close>

theorem unlimited_budget_needs_waiver:
  assumes "assertCampaignDefinition rt v spec = Inr ()" "waiver_binding v = spec_waiver_binding rt" "local_mode spec"
    "jget ''campaignId'' spec = Some (JStr c)" "jget ''paperId'' spec = Some (JStr p)"
    "unlimited ''maxTokenCount'' spec \<or> unlimited ''maxCostUsd'' spec"
  shows "waived_for rt spec c p"
proof -
  have "spec_waiver_binding rt spec c p = Inr ()" "c \<noteq> []" "p \<noteq> []"
    using assms(1-5) unfolding assertCampaignDefinition_def Let_def by (auto simp: rbind_Inr_iff jtruthy_def)
  then show ?thesis using assms(6) by (rule binding_waived)
qed

section \<open>The launch gate\<close>

lemma normalizedBudgets_keys:
  assumes "normalizedBudgets rt mode budgets = Inr t"
  shows "map fst t = BUDGET_KEYS \<and> (mode = GOLDEN_BOOTSTRAP \<longrightarrow> (\<forall>(k, q) \<in> set t. q \<le> budget_of GOLDEN_BOOTSTRAP_HARD_BUDGETS k))"
proof -
  have all: "list_all2 (\<lambda>k e. normalized_budget rt (mode = GOLDEN_BOOTSTRAP) budgets k = Inr e) BUDGET_KEYS t"
    using assms by (auto simp: normalizedBudgets_def rbind_Inr_iff rmap_Inr_iff)
  have one: "fst e = k \<and> (mode = GOLDEN_BOOTSTRAP \<longrightarrow> snd e \<le> budget_of GOLDEN_BOOTSTRAP_HARD_BUDGETS k)"
    if "normalized_budget rt (mode = GOLDEN_BOOTSTRAP) budgets k = Inr e" for k e
    using that unfolding normalized_budget_def Let_def by (cases "jprop k budgets") (auto split: option.splits)
  have "map fst t = ks \<and> (mode = GOLDEN_BOOTSTRAP \<longrightarrow> (\<forall>(k, q) \<in> set t. q \<le> budget_of GOLDEN_BOOTSTRAP_HARD_BUDGETS k))"
    if "list_all2 (\<lambda>k e. normalized_budget rt (mode = GOLDEN_BOOTSTRAP) budgets k = Inr e) ks t" for ks
    using that
  proof (induction rule: list_all2_induct)
    case (Cons k ks e t)
    with one [OF Cons(1)] show ?case by (cases e) auto
  qed simp
  from this [OF all] show ?thesis .
qed

lemma budget_of_set [simp]: "budget_of (obj_set k v t) k' = (if k' = k then v else budget_of t k')"
  by (simp add: budget_of_def)

lemma gate_evaluated:
  assumes "evaluate_gate rt q = Inr g"
  obtains mode action t where "normalizedBudgets rt mode (q_budgets q) = Inr t" "g = decide_gate rt q mode action t" "lg_mode g = mode"
  using assms unfolding evaluate_gate_def Let_def rbind_Inr_iff by (auto simp: decide_gate_def Let_def)

lemma normalized_capped:
  assumes "normalizedBudgets rt GOLDEN_BOOTSTRAP budgets = Inr t"
  shows "budget_of t k \<le> budget_of GOLDEN_BOOTSTRAP_HARD_BUDGETS k"
proof (cases "map_of t k")
  case None
  have "0 \<le> budget_of GOLDEN_BOOTSTRAP_HARD_BUDGETS k"
    by (simp add: budget_of_def GOLDEN_BOOTSTRAP_HARD_BUDGETS_def obj_spread_def GOLDEN_BOOTSTRAP_DEFAULT_BUDGETS_def BUDGET_KEYS_def)
  with None show ?thesis by (simp add: budget_of_def)
next
  case (Some x)
  with normalizedBudgets_keys [OF assms] show ?thesis by (auto simp: budget_of_def dest!: map_of_SomeD)
qed

text \<open>
  C22. Golden caps. In golden-bootstrap mode every effective budget stays within its hard limit,
  except a token or cost budget whose unlimited sentinel was requested under an active waiver
  that names it.
\<close>

theorem golden_budgets_capped:
  assumes "evaluate_gate rt q = Inr g" "lg_mode g = GOLDEN_BOOTSTRAP"
  shows "budget_of (lg_budgets g) k \<le> budget_of GOLDEN_BOOTSTRAP_HARD_BUDGETS k
    \<or> (waiver_active (lg_waiver g) \<and> (k = ''maxTokenCount'' \<and> token_sentinel q \<or> k = ''maxCostUsd'' \<and> cost_sentinel q))"
proof -
  obtain action t where t: "normalizedBudgets rt GOLDEN_BOOTSTRAP (q_budgets q) = Inr t" "g = decide_gate rt q GOLDEN_BOOTSTRAP action t"
    using gate_evaluated [OF assms(1)] assms(2) by metis
  let ?t1 = "waived_budgets q (lg_waiver g) t"
  have b: "lg_budgets g = funded_budgets (lg_affordable g) ?t1" unfolding t(2) by (simp add: decide_gate_def Let_def)
  have "budget_of (lg_budgets g) k \<le> budget_of ?t1 k" by (simp add: b funded_budgets_def split: option.splits)
  moreover have "budget_of ?t1 k = budget_of t k
      \<or> waiver_active (lg_waiver g) \<and> (k = ''maxTokenCount'' \<and> token_sentinel q \<or> k = ''maxCostUsd'' \<and> cost_sentinel q)"
    by (simp add: waived_budgets_def Let_def)
  ultimately show ?thesis using normalized_capped [OF t(1), of k] by linarith
qed

lemma blocker_Nil_iff [simp]: "blocker b m = [] \<longleftrightarrow> \<not> b"
  by (simp add: blocker_def)

lemma funded_other: "k \<noteq> ''maxAgentCalls'' \<Longrightarrow> budget_of (funded_budgets n t) k = budget_of t k"
  by (simp add: funded_budgets_def split: option.splits)

lemma affordable_paid:
  assumes "affordable_calls rt production False q t = Some n" "\<not> n < 1"
  shows "\<exists>price limit. price_per_call rt q = Some price \<and> cost_ceiling rt production q t = Some limit
    \<and> budget_of (funded_budgets (Some n) t) ''maxAgentCalls'' * price \<le> limit"
proof -
  obtain price limit where pl: "price_per_call rt q = Some price" "cost_ceiling rt production q t = Some limit" "n = of_int \<lfloor>limit / price\<rfloor>"
    using assms(1) by (auto simp: affordable_calls_def split: option.splits)
  have pos: "0 < price" using pl(1) by (auto simp: price_per_call_def finitePositive_def split: option.splits if_splits)
  have "n \<le> limit / price" using pl(3) of_int_floor_le by simp
  then have "n * price \<le> limit" using pos by (simp add: pos_le_divide_eq)
  moreover have "budget_of (funded_budgets (Some n) t) ''maxAgentCalls'' * price \<le> n * price"
    using pos assms(2) by (simp add: funded_budgets_def)
  ultimately have "budget_of (funded_budgets (Some n) t) ''maxAgentCalls'' * price \<le> limit" by linarith
  with pl(1,2) show ?thesis by blast
qed

lemma pricing_clear:
  assumes "pricing_blockers rt production False q t = []" "0 < budget_of t ''maxCostUsd''"
  shows "\<exists>n. affordable_calls rt production False q t = Some n \<and> \<not> n < 1"
proof -
  obtain price where p: "price_per_call rt q = Some price"
    using assms(1) by (auto simp: pricing_blockers_def split: if_splits)
  obtain limit where l: "cost_ceiling rt production q t = Some limit"
  proof (cases production)
    case True
    with assms(1) that show ?thesis by (auto simp: pricing_blockers_def)
  next
    case False
    with assms(2) that show ?thesis by (simp add: cost_ceiling_def finitePositive_def)
  qed
  from p l assms(1) show ?thesis by (simp add: affordable_calls_def pricing_blockers_def)
qed

lemma cost_ceiling_funded: "cost_ceiling rt production q (funded_budgets n t) = cost_ceiling rt production q t"
  by (simp add: cost_ceiling_def funded_other)

text \<open>
  C21. A permitted launch is bounded and paid for. When the gate permits a mutating action, wall
  time, agent calls and cost are positive; unless a waiver covers the cost, the price of a call is
  known and the agent calls at that price fit under the cost ceiling; an unlimited budget was
  requested only under an authorized waiver; and a production launch has runtime and
  qualification receipts that outlive its wall time by the safety margin.
\<close>

theorem permitted_launch_is_funded:
  assumes "evaluate_gate rt q = Inr g" "gate_permits g"
  shows "hard_budget_ready (lg_budgets g)
    \<and> (lg_cost_waived g \<or> (\<exists>price limit. price_per_call rt q = Some price
          \<and> cost_ceiling rt (lg_production g) q (lg_budgets g) = Some limit
          \<and> budget_of (lg_budgets g) ''maxAgentCalls'' * price \<le> limit))
    \<and> (token_sentinel q \<or> cost_sentinel q \<longrightarrow> ws_authorized (lg_waiver g))
    \<and> (lg_production g \<longrightarrow> list_all (window_ready (budget_of (lg_budgets g) ''maxWallTimeMs'' + LAUNCH_VALIDITY_SAFETY_MARGIN_MS))
          [rd_runtime_ms (lg_readiness g), rd_qualification_ms (lg_readiness g)])"
proof -
  obtain mode action t where t: "g = decide_gate rt q mode action t" using gate_evaluated [OF assms(1)] by metis
  define t1 where "t1 = waived_budgets q (lg_waiver g) t"
  have parts: "lg_production g = (lg_mode g = PRODUCTION_RUN)" "lg_budgets g = funded_budgets (lg_affordable g) t1"
    "lg_affordable g = (if lg_requested g then affordable_calls rt (lg_production g) (lg_cost_waived g) q t1 else None)"
    "lg_readiness g = inspect_readiness rt (lg_production g \<and> lg_requested g) q (budget_of t1 ''maxWallTimeMs'')"
    "lg_blockers g = unique (waiver_blockers q (lg_waiver g) @ readiness_blockers (lg_production g \<and> lg_requested g) (lg_readiness g)
        @ (if lg_requested g then pricing_blockers rt (lg_production g) (lg_cost_waived g) q t1 else [])
        @ blocker (lg_requested g \<and> \<not> hard_budget_ready (lg_budgets g)) ''autonomous_research_independent_hard_budget_required'')"
    unfolding t1_def t by (simp_all add: decide_gate_def Let_def)
  have req: "lg_requested g" and none: "lg_blockers g = []" using assms(2) by (simp_all add: gate_permits_def)
  have clear: "waiver_blockers q (lg_waiver g) = []" "readiness_blockers (lg_production g) (lg_readiness g) = []"
    "pricing_blockers rt (lg_production g) (lg_cost_waived g) q t1 = []" "hard_budget_ready (lg_budgets g)"
    using none req by (simp_all add: parts(5))
  have cost: "0 < budget_of t1 ''maxCostUsd''" using clear(4) by (simp add: hard_budget_ready_def parts(2) funded_other)
  have "lg_cost_waived g \<or> (\<exists>price limit. price_per_call rt q = Some price
          \<and> cost_ceiling rt (lg_production g) q (lg_budgets g) = Some limit
          \<and> budget_of (lg_budgets g) ''maxAgentCalls'' * price \<le> limit)"
  proof (cases "lg_cost_waived g")
    case False
    with clear(3) cost obtain n where "affordable_calls rt (lg_production g) False q t1 = Some n" "\<not> n < 1"
      using pricing_clear [of rt "lg_production g" q t1] by auto
    with affordable_paid False req show ?thesis by (simp add: parts(2,3) cost_ceiling_funded)
  qed simp
  moreover have "token_sentinel q \<or> cost_sentinel q \<longrightarrow> ws_authorized (lg_waiver g)"
    using clear(1) unfolding waiver_blockers_def append_is_Nil_conv blocker_Nil_iff by blast
  moreover have "lg_production g \<longrightarrow> list_all (window_ready (budget_of (lg_budgets g) ''maxWallTimeMs'' + LAUNCH_VALIDITY_SAFETY_MARGIN_MS))
          [rd_runtime_ms (lg_readiness g), rd_qualification_ms (lg_readiness g)]"
    using clear(2) req by (simp add: readiness_blockers_def parts(2,4) inspect_readiness_def Let_def funded_other)
  ultimately show ?thesis using clear(4) by blast
qed

section \<open>A waived local campaign and a golden launch\<close>

definition ex_provenance :: json where
  "ex_provenance = sealed_record ex_rt PROVENANCE_KIND PROVENANCE_HASH_FIELD (provenance_entries ''c'' ''p'')"

definition ex_waiver :: json where
  "ex_waiver = sealed_record ex_rt WAIVER_KIND WAIVER_HASH_FIELD (waiver_entries (Some ex_provenance) True False)"

definition ex_preparation :: json where
  "ex_preparation = sealed_record ex_rt ''AutonomousResearchLoopPreparationReport'' ''autonomousResearchLoopPreparationReportHash''
    [(''version'', JInt 1), (''kind'', JStr ''AutonomousResearchLoopPreparationReport''), (''launchMode'', JStr GOLDEN_BOOTSTRAP),
     (''autonomousExecutionLaunchReady'', JBool True), (''proposal'', JObj [(''paperId'', JStr ''p'')]),
     (''directLocalRunCliProvenance'', ex_provenance)]"

definition ex_nodes :: "json list" where
  "ex_nodes = [JObj [(''nodeId'', JStr ''n''), (''kind'', JStr ''writer''), (''dependencies'', JArr [])]]"

definition ex_local_spec :: json where
  "ex_local_spec = sealed_record ex_rt ''PaperCampaignPlan'' ''campaignPlanHash''
    [(''campaignId'', JStr ''c''), (''paperId'', JStr ''p''), (''localOnly'', JBool True), (''nodes'', JArr ex_nodes),
     (''budgets'', JObj [(''maxTokenCount'', JNum UNLIMITED_BUDGET_SENTINEL)]), (''directLocalRunBudgetWaiver'', ex_waiver),
     (''autonomousResearchPreparation'', ex_preparation)]"

definition ex_launch :: gate_request where
  "ex_launch = \<lparr>q_launchMode = Some (JStr ''golden-bootstrap''), q_action = Some (JStr ''launch''),
    q_budgets = Some (JObj [(''maxAgentCalls'', JInt 900), (''maxCostUsd'', JInt 60)]), q_localOnly = None, q_waiver = None,
    q_provenance = None, q_preparation = None, q_pending = None, q_campaignId = Some ''c'', q_paperId = Some ''p'',
    q_pricing = Some (JObj [(''pricingKnown'', JBool True), (''maximumCostPerCallUsd'', JInt 2)]), q_readiness = None, q_admissionOnly = None\<rparr>"

definition ex_gate :: launch_gate where
  "ex_gate = projr (evaluate_gate ex_rt ex_launch)"

lemma ex_rt_sha256: "sha256_runtime ex_rt"
proof -
  have "is_sha256 (''sha256:'' @ replicate 64 (CHR ''a''))" by code_simp
  then show ?thesis by (simp add: sha256_runtime_def ex_rt_def)
qed

lemma ex_gate_evaluated: "evaluate_gate ex_rt ex_launch = Inr ex_gate"
proof -
  have "\<not> isl (evaluate_gate ex_rt ex_launch)" by code_simp
  then show ?thesis unfolding ex_gate_def by (cases "evaluate_gate ex_rt ex_launch") simp_all
qed

theorem waiver_round_trip_witness:
  "verifyDirectLocalRunBudgetWaiver ex_rt (Some ex_waiver) (Some ''c'') (Some ''p'') (Some ex_provenance)"
proof -
  have "sha256_runtime ex_rt" by (rule ex_rt_sha256)
  moreover have "buildDirectLocalRunCliProvenance ex_rt (Some (JStr ''c'')) (Some (JStr '' p '')) = Inr ex_provenance" by code_simp
  moreover have "buildDirectLocalRunBudgetWaiver ex_rt (Some (JBool True)) None (Some ex_provenance) = Inr ex_waiver" by code_simp
  ultimately have "verifyDirectLocalRunBudgetWaiver ex_rt (Some ex_waiver) (Some (js_trim (str_or ex_rt (Some (JStr ''c'')))))
    (Some (js_trim (str_or ex_rt (Some (JStr '' p ''))))) (Some ex_provenance)"
    using waiver_round_trip by blast
  moreover have "js_trim ''c'' = ''c''" "js_trim '' p '' = ''p''" by code_simp+
  ultimately show ?thesis by simp
qed

lemma ex_local_plan_hash: "jget ''campaignPlanHash'' ex_local_spec
    = Some (JStr (hashRecord ex_rt ''PaperCampaignPlan'' (without_key ''campaignPlanHash'' ex_local_spec)))"
  by (simp add: ex_local_spec_def sealed_record_def without_key_def)

lemma ex_local_fields: "jget ''campaignId'' ex_local_spec = Some (JStr ''c'')" "jget ''paperId'' ex_local_spec = Some (JStr ''p'')"
  "jget ''localOnly'' ex_local_spec = Some (JBool True)" "jget ''nodes'' ex_local_spec = Some (JArr ex_nodes)"
  "jget ''budgets'' ex_local_spec = Some (JObj [(''maxTokenCount'', JNum UNLIMITED_BUDGET_SENTINEL)])"
  "jget ''directLocalRunBudgetWaiver'' ex_local_spec = Some ex_waiver"
  "jget ''autonomousResearchPreparation'' ex_local_spec = Some ex_preparation"
  by (simp_all add: ex_local_spec_def sealed_record_def)

lemma ex_trimmed: "js_trim ''c'' = ''c''" "js_trim ''p'' = ''p''"
  by code_simp+

lemma unbound_waiver: "verifyDirectLocalRunBudgetWaiver rt w c p prov \<Longrightarrow> verifyDirectLocalRunBudgetWaiver rt w c p None"
  by (simp add: verifyDirectLocalRunBudgetWaiver_def absent_def)

lemma ex_waiver_valid: "verifyDirectLocalRunBudgetWaiver ex_rt (Some ex_waiver) (Some ''c'') (Some ''p'') (Some ex_provenance)"
  unfolding ex_waiver_def by (rule waiver_valid) (simp_all add: ex_trimmed ex_rt_sha256 ex_provenance_def)

lemma ex_preparation_fields: "jprop ''launchMode'' (Some ex_preparation) = Some (JStr GOLDEN_BOOTSTRAP)"
  "jprop ''directLocalRunCliProvenance'' (Some ex_preparation) = Some ex_provenance" "jtruthy (Some ex_preparation)" "jtruthy (Some ex_waiver)"
  by (simp_all add: ex_preparation_def ex_waiver_def sealed_record_def jtruthy_def)

lemma ex_preparation_valid: "verifyDirectLocalRunPreparation ex_rt (Some ex_preparation) (Some ''c'') (Some ''p'')"
proof -
  have "seal_valid ex_rt ''AutonomousResearchLoopPreparationReport'' ''autonomousResearchLoopPreparationReportHash'' (Some ex_preparation)"
    unfolding ex_preparation_def by (rule seal_valid_sealed) simp
  moreover have "verifyDirectLocalRunCliProvenance ex_rt (Some ex_provenance) (Some ''c'') (Some ''p'')"
    unfolding ex_provenance_def by (rule provenance_valid) (simp_all add: ex_trimmed)
  ultimately show ?thesis
    unfolding verifyDirectLocalRunPreparation_def ex_preparation_fields
    by (simp add: ex_preparation_def sealed_record_def expected_id_def is_true_def)
qed

lemma ex_local_binding: "spec_waiver_binding ex_rt ex_local_spec ''c'' ''p'' = Inr ()"
proof -
  have "jpath [''autonomousResearchPreparation'', ''launchMode''] ex_local_spec = Some (JStr GOLDEN_BOOTSTRAP)"
    using ex_preparation_fields(1) by (simp add: ex_local_fields jprop_def)
  moreover have "truthy_or_null (Some (JStr GOLDEN_BOOTSTRAP)) = Some (JStr GOLDEN_BOOTSTRAP)"
    by (simp add: truthy_or_null_def jtruthy_def GOLDEN_BOOTSTRAP_def)
  moreover have "jprop ''unlimitedTokenCount'' (Some ex_waiver) = Some (JBool True)" "jprop ''unlimitedCostUsd'' (Some ex_waiver) = Some (JBool False)"
    by (simp_all add: ex_waiver_def sealed_record_def waiver_entries_def)
  ultimately show ?thesis
    using ex_waiver_valid unbound_waiver [OF ex_waiver_valid] ex_preparation_valid
    by (simp add: spec_waiver_binding_def assertDirectLocalRunBudgetWaiverBinding_def assertDirectLocalRunBudgetTypes_def budget_types_ok_def
        ex_local_fields truthy_or_null_def ex_preparation_fields is_true_def exactUnlimitedBudgetSentinel_def check_def
        UNLIMITED_BUDGET_SENTINEL_def isSafeInteger_def)
qed

lemma ex_local_admitted:
  "assertCampaignDefinition ex_rt (ex_verifiers\<lparr>waiver_binding := spec_waiver_binding ex_rt\<rparr>) ex_local_spec = Inr ()"
proof -
  have nodes: "spec_list ''nodes'' ex_local_spec = ex_nodes" by (simp add: spec_list_def ex_local_fields)
  have topology: "rt_blockers (evaluateCampaignReleaseTopology ex_rt ex_nodes) = []"
    "rt_packaging (evaluateCampaignReleaseTopology ex_rt ex_nodes) = False" by code_simp+
  have "jtruthy (jget ''campaignPlanHash'' ex_local_spec)" unfolding ex_local_plan_hash by (simp add: jtruthy_def hashRecord_def digest_def)
  then show ?thesis
    using ex_local_plan_hash ex_local_binding
    by (simp add: assertCampaignDefinition_def Let_def nodes topology check_def local_mode_def ex_local_fields)
      (simp add: ex_nodes_def deps_def jtruthy_def)
qed

theorem unlimited_budget_needs_waiver_witness:
  "unlimited ''maxTokenCount'' ex_local_spec \<and> waived_for ex_rt ex_local_spec ''c'' ''p''"
proof -
  have u: "unlimited ''maxTokenCount'' ex_local_spec"
    by (simp add: unlimited_def ex_local_fields exactUnlimitedBudgetSentinel_def)
  then have "waived_for ex_rt ex_local_spec ''c'' ''p''"
    by (intro unlimited_budget_needs_waiver [OF ex_local_admitted]) (simp_all add: local_mode_def ex_local_fields)
  with u show ?thesis by (intro conjI)
qed

theorem golden_budgets_capped_witness:
  "lg_mode ex_gate = GOLDEN_BOOTSTRAP \<and> \<not> waiver_active (lg_waiver ex_gate) \<and> budget_of (lg_budgets ex_gate) ''maxAgentCalls'' \<le> 512"
proof -
  have "lg_mode ex_gate = GOLDEN_BOOTSTRAP" "\<not> waiver_active (lg_waiver ex_gate)"
    "budget_of GOLDEN_BOOTSTRAP_HARD_BUDGETS ''maxAgentCalls'' = 512" by code_simp+
  with golden_budgets_capped [OF ex_gate_evaluated, of "''maxAgentCalls''"] show ?thesis by auto
qed

theorem permitted_launch_is_funded_witness:
  "gate_permits ex_gate \<and> hard_budget_ready (lg_budgets ex_gate) \<and> budget_of (lg_budgets ex_gate) ''maxAgentCalls'' * 2 \<le> 60"
proof -
  have p: "gate_permits ex_gate" "\<not> lg_cost_waived ex_gate" "price_per_call ex_rt ex_launch = Some 2"
    "cost_ceiling ex_rt (lg_production ex_gate) ex_launch (lg_budgets ex_gate) = Some 60" by code_simp+
  with permitted_launch_is_funded [OF ex_gate_evaluated p(1)] show ?thesis by auto
qed


end
