(* ===== verification/Side_Effect_Gate.thy ===== *)
theory Side_Effect_Gate
  imports Campaign_Action_Store Campaign_Graph
begin

text \<open>
  The gate in front of the external side effects of a node
  (\<open>campaign-node-infrastructure-control.mjs\<close>). Its state is the two collections of the closure,
  the action ordinals and the identifiers of started actions, the database of the campaign
  store, and a record of the external operations it has called. The readiness callbacks and the
  operation are arguments: they are handed in by the caller. The flag \<open>committed\<close> of an error is
  not part of the model.
\<close>

record side_effect_port =
  port_ready :: "bool \<Rightarrow> json \<Rightarrow> unit result"
  port_current :: "json \<Rightarrow> unit result"
  port_started :: "json \<Rightarrow> string \<Rightarrow> string \<Rightarrow> unit result"

record gate_state =
  ga_ordinals :: "(string \<times> rat option) list"
  ga_started :: "string list"
  ga_calls :: "(string \<times> string) list"

type_synonym 'a gate = "gate_state \<times> db \<Rightarrow> 'a result \<times> gate_state \<times> db"

definition gate_return :: "'a \<Rightarrow> 'a gate" where
  "gate_return x w = (Inr x, w)"

definition gate_throw :: "string \<Rightarrow> 'a gate" where
  "gate_throw e w = (Inl e, w)"

definition gate_bind :: "'a gate \<Rightarrow> ('a \<Rightarrow> 'b gate) \<Rightarrow> 'b gate" where
  "gate_bind m k w = (case m w of (Inl e, w') \<Rightarrow> (Inl e, w') | (Inr x, w') \<Rightarrow> k x w')"

definition gate_result :: "'a result \<Rightarrow> 'a gate" where
  "gate_result r w = (r, w)"

definition gate_store :: "'a op \<Rightarrow> 'a gate" where
  "gate_store m w = (case m (snd w) of (r, db) \<Rightarrow> (r, fst w, db))"

definition gate_note_started :: "string \<Rightarrow> unit gate" where
  "gate_note_started i w = (Inr (), (fst w)\<lparr>ga_started := List.insert i (ga_started (fst w))\<rparr>, snd w)"

text \<open>Calling the operation leaves a trace, whether it succeeds or not.\<close>

definition gate_call :: "(string \<Rightarrow> string \<Rightarrow> json result) \<Rightarrow> string \<Rightarrow> string \<Rightarrow> json gate" where
  "gate_call operation i d w = (operation i d, (fst w)\<lparr>ga_calls := ga_calls (fst w) @ [(i, d)]\<rparr>, snd w)"

section \<open>Descriptors\<close>

definition text_includes_any :: "string list \<Rightarrow> string \<Rightarrow> bool" where
  "text_includes_any ws s = list_ex (text_includes (map lower_char s)) ws"

definition gate_resolver_kind :: "string \<Rightarrow> string" where
  "gate_resolver_kind action =
    (if text_includes_any [''attestor'', ''sign'', ''kms''] action then ''deterministic-digest-signer''
     else if text_includes_any [''pdf'', ''formal_native_worker'', ''empirical_cell'', ''local_worker''] action then ''local-worker-inspect''
     else if text_includes_any [''agent'', ''reviewer'', ''provider'', ''portal'', ''submission''] action then ''remote-provider-lookup''
     else ''unqualified'')"

definition previous_ordinal :: "(string \<times> rat option) list \<Rightarrow> string \<Rightarrow> rat" where
  "previous_ordinal os action = (case map_of os action of Some (Some q) \<Rightarrow> q | _ \<Rightarrow> 0)"

definition descriptor_ordinal :: "runtime \<Rightarrow> (string \<times> rat option) list \<Rightarrow> json \<Rightarrow> string \<Rightarrow> rat option" where
  "descriptor_ordinal rt os v action = js_number rt (Some (or_else (jget ''actionOrdinal'' v) (JNum (previous_ordinal os action + 1))))"

definition descriptorFor :: "runtime \<Rightarrow> node_row \<Rightarrow> json \<Rightarrow> json gate" where
  "descriptorFor rt n v w =
    (let action = js_string rt (or_else (jget ''action'' v) (JStr ''unspecified''));
         ordinal = descriptor_ordinal rt (ga_ordinals (fst w)) v action;
         w' = ((fst w)\<lparr>ga_ordinals := obj_set action ordinal (ga_ordinals (fst w))\<rparr>, snd w) in
     (case ordinal of
        Some q \<Rightarrow> if q = of_int \<lfloor>q\<rfloor> then buildCampaignExternalActionDescriptor rt (getCampaign (n_campaign_id n) (snd w)) n v \<lfloor>q\<rfloor>
            (js_string rt (or_else (jget ''resolverKind'' v) (JStr (gate_resolver_kind action))))
          else Inl ''campaign_external_action_descriptor_invalid''
      | None \<Rightarrow> Inl ''campaign_external_action_descriptor_invalid'', w'))"

definition descriptor_call :: "json \<Rightarrow> action_call" where
  "descriptor_call d = \<lparr>ac_action = sqlText (jstr (jget ''action'' d)),
    ac_ordinal = (case jnum (jget ''actionOrdinal'' d) of Some q \<Rightarrow> \<lfloor>q\<rfloor> | None \<Rightarrow> 0),
    ac_resolver = sqlText (jstr (jget ''resolverKind'' d)), ac_digest = jstr (jget ''requestDigest'' d),
    ac_id = jstr (jget ''externalActionId'' d), ac_plan_hash = jstr (jget ''campaignPlanHash'' d),
    ac_spec_hash = jstr (jget ''nodeSemanticSpecHash'' d)\<rparr>"

section \<open>Running an action\<close>

definition recorded_completed :: "external_action option \<Rightarrow> bool" where
  "recorded_completed r = (case r of Some x \<Rightarrow> xa_completed x | None \<Rightarrow> False)"

definition recorded_payload :: "external_action option \<Rightarrow> json" where
  "recorded_payload r = (case r of Some x \<Rightarrow> xa_payload x | None \<Rightarrow> JNull)"

definition recorded_text :: "string \<Rightarrow> external_action \<Rightarrow> string" where
  "recorded_text k x = sqlText (jstr (jget k (xa_descriptor x)))"

definition startDescriptor :: "runtime \<Rightarrow> backend \<Rightarrow> env \<Rightarrow> side_effect_port \<Rightarrow> fence \<Rightarrow> json \<Rightarrow> json \<Rightarrow> external_action option gate" where
  "startDescriptor rt be env port f v d =
    gate_bind (gate_store (markNodeExternalActionStarted rt be env f (descriptor_call d))) (\<lambda>record.
    gate_bind (gate_note_started (action_id_of d)) (\<lambda>_.
    if recorded_completed record then gate_return record
    else gate_bind (gate_result (port_ready port True v)) (\<lambda>_.
      gate_bind (gate_result (port_current port v)) (\<lambda>_.
      gate_bind (gate_result (port_started port v (action_id_of d) (sqlText (jstr (jget ''requestDigest'' d))))) (\<lambda>_.
      gate_return record)))))"

definition markCompleted :: "runtime \<Rightarrow> backend \<Rightarrow> env \<Rightarrow> fence \<Rightarrow> external_action \<Rightarrow> json \<Rightarrow> usage_delta \<Rightarrow> json gate" where
  "markCompleted rt be env f x outcome delta =
    (if recorded_text ''externalActionId'' x = [] then gate_throw ''campaign_external_action_completion_identity_required''
     else gate_bind (gate_store (completeNodeExternalAction rt be env f (recorded_text ''externalActionId'' x) (Some outcome) delta))
       (\<lambda>completed. gate_return (recorded_payload completed)))"

record gate_operation =
  go_operation :: "string \<Rightarrow> string \<Rightarrow> json result"
  go_before_start :: "unit op option"
  go_usage :: "json \<Rightarrow> usage_delta"

definition perform_action :: "runtime \<Rightarrow> backend \<Rightarrow> env \<Rightarrow> fence \<Rightarrow> gate_operation \<Rightarrow> external_action option \<Rightarrow> json gate" where
  "perform_action rt be env f go record = (case record of
     None \<Rightarrow> gate_throw ''TypeError''
   | Some x \<Rightarrow> gate_bind (gate_call (go_operation go) (recorded_text ''externalActionId'' x) (recorded_text ''requestDigest'' x)) (\<lambda>outcome.
       markCompleted rt be env f x outcome (go_usage go outcome)))"

definition gate_run :: "runtime \<Rightarrow> backend \<Rightarrow> env \<Rightarrow> env \<Rightarrow> side_effect_port \<Rightarrow> node_row \<Rightarrow> fence \<Rightarrow> json \<Rightarrow> gate_operation \<Rightarrow> json gate" where
  "gate_run rt be env env' port n f v go =
    gate_bind (gate_result (port_ready port False v)) (\<lambda>_.
    gate_bind (gate_result (port_current port v)) (\<lambda>_.
    gate_bind (descriptorFor rt n v) (\<lambda>d.
    gate_bind (gate_store (getNodeExternalAction rt (sqlText (jstr (jget ''campaignId'' d))) (sqlText (jstr (jget ''nodeId'' d)))
        (action_id_of d))) (\<lambda>existing.
    if recorded_completed existing then gate_return (recorded_payload existing)
    else gate_bind (case go_before_start go of Some m \<Rightarrow> if existing = None then gate_store m else gate_return () | None \<Rightarrow> gate_return ()) (\<lambda>_.
      gate_bind (startDescriptor rt be env port f v d) (\<lambda>record.
      if recorded_completed record then gate_return (recorded_payload record)
      else perform_action rt be env' f go record))))))"

end
