(* ===== verification/Gate_Properties.thy ===== *)
theory Gate_Properties
  imports Side_Effect_Gate Store_Properties
begin

text \<open>
  External actions happen at most once after their completion is recorded: whatever the store
  goes through afterwards, the gate answers a repeated action from the journal.
\<close>

section \<open>Completions in the journal\<close>

abbreviation completed_kind :: string where
  "completed_kind \<equiv> ''campaign_node_external_action_completed''"

definition completion_row :: "string \<Rightarrow> string \<Rightarrow> string \<Rightarrow> event_row \<Rightarrow> bool" where
  "completion_row cid nid aid e = (event_on_node cid nid e \<and> e_kind e \<in> {''campaign_node_external_action_started'', completed_kind}
    \<and> jpath [''detail'', ''externalActionId''] (event_json e) = Some (JStr aid) \<and> event_kind_is completed_kind (event_json e))"

definition journaled :: "string \<Rightarrow> string \<Rightarrow> string \<Rightarrow> db \<Rightarrow> bool" where
  "journaled cid nid aid db = list_ex (completion_row cid nid aid) (events db)"

lemma journaled_steps: "store_steps rt os v promote db db' \<Longrightarrow> journaled cid nid aid db \<Longrightarrow> journaled cid nid aid db'"
  using kept_store.steps_in [of rt os v promote db db'] by (auto simp: journaled_def store_evolves_def table_evolves_eq)

lemma merge_outcomes_None: "merge_outcomes rt d out es = Inr r \<Longrightarrow> r = None \<longleftrightarrow> out = None \<and> es = []"
proof (induction es arbitrary: out)
  case (Cons e es)
  then obtain c where "merge_outcomes rt d (Some c) es = Inr r" by (auto simp: rbind_Inr_iff split: if_splits)
  with Cons.IH [of "Some c"] show ?case by simp
qed auto

lemma checked_is_json: "checked_journal_event rt cid nid aid row = Inr e \<Longrightarrow> e = event_json row"
  by (simp add: checked_journal_event_def Let_def split: if_splits)

lemma checked_all:
  assumes "rmap (checked_journal_event rt cid nid aid) rows = Inr es"
  shows "es = map event_json rows"
proof -
  have "list_all2 (\<lambda>x y. y = event_json x) rows es"
    using assms unfolding rmap_Inr_iff by (rule list_all2_mono) (rule checked_is_json)
  then show ?thesis by (induction rule: list_all2_induct) simp_all
qed

lemma read_completed:
  assumes "readNodeExternalAction rt cid nid aid db = Inr r"
  shows "recorded_completed r \<longleftrightarrow> list_ex (\<lambda>e. event_kind_is completed_kind (event_json e)) (S_externalActionEvents cid nid aid db)"
proof -
  let ?rows = "S_externalActionEvents cid nid aid db"
  obtain es where "rmap (checked_journal_event rt cid nid aid) ?rows = Inr es"
    using assms unfolding readNodeExternalAction_def rbind_Inr_iff by blast
  note es = this checked_all [OF this]
  let ?completed = "filter (event_kind_is completed_kind) es"
  have ex: "list_ex (\<lambda>e. event_kind_is completed_kind (event_json e)) ?rows \<longleftrightarrow> ?completed \<noteq> []"
    by (auto simp: es(2) list_ex_iff filter_empty_conv)
  show ?thesis
  proof (cases "es = []")
    case True
    with assms es(1) ex show ?thesis by (simp add: readNodeExternalAction_def recorded_completed_def)
  next
    case False
    with assms es(1) obtain d out where m: "merge_outcomes rt (entries d) None ?completed = Inr out"
      and r: "recorded_completed r = (out \<noteq> None)"
      unfolding readNodeExternalAction_def
      by (auto simp: rbind_Inr_iff recorded_completed_def Let_def split: list.splits if_splits)
    with merge_outcomes_None [OF m] ex show ?thesis by simp
  qed
qed

lemma journaled_read:
  assumes "readNodeExternalAction rt cid nid aid db = Inr r"
  shows "recorded_completed r \<longleftrightarrow> journaled cid nid aid db"
  using read_completed [OF assms]
  by (auto simp: journaled_def completion_row_def S_externalActionEvents_def select_events_def list_ex_iff)

section \<open>A completed call leaves its completion\<close>

lemma insert_event_appends: "run (insert_event ev) db = Inr db' \<Longrightarrow> ev \<in> set (events db')"
  "insertNativeStoreCampaignEvent ev db = Inr db' \<Longrightarrow> ev \<in> set (events db')"
  by (auto simp: run_def insertNativeStoreCampaignEvent_def required_def insert_event_def split: if_splits)

lemma tx_seq_last: "tx_seq [a, b, c] db = Inr db' \<Longrightarrow> \<exists>d. c d = Inr db'"
  by (auto simp: rbind_Inr_iff)

lemma submit_committed:
  assumes "submit rt be fallback statements m db = (Inr (), db')"
  shows "statements db = Inr db' \<or> applyNativeStoreCampaignMutation rt m db = Inr db'"
  using assms by (auto simp: submit_def mutation_def split: backend.splits sum.splits)

lemma native_completion_inserted:
  assumes "applyCompleteNodeExternalAction rt n f now d completed delta ev db = Inr db'"
  shows "ev \<in> set (events db')"
  using assms unfolding applyCompleteNodeExternalAction_def rbind_Inr_iff
  by (auto dest!: tx_seq_last insert_event_appends(2) simp del: tx_seq.simps)

lemma completion_inserted:
  assumes "submit rt be fallback (tx_seq [a, b, run (insert_event ev)]) (M_completeNodeExternalAction n f now d completed delta ev) db = (Inr (), db')"
  shows "ev \<in> set (events db')"
  using submit_committed [OF assms]
proof (elim disjE)
  assume "tx_seq [a, b, run (insert_event ev)] db = Inr db'"
  from tx_seq_last [OF this] show ?thesis using insert_event_appends(1) by blast
next
  assume "applyNativeStoreCampaignMutation rt (M_completeNodeExternalAction n f now d completed delta ev) db = Inr db'"
  then show ?thesis by (intro native_completion_inserted) simp
qed

lemma completion_row_built:
  assumes "f_node f \<noteq> []"
  shows "completion_row (n_campaign_id n) (f_node f) aid (action_completed_event rt env n f d aid completed delta)"
proof -
  have "map_of (filter (\<lambda>e. fst e \<noteq> ''externalActionId'') es) ''externalActionId'' = None" for es :: "(string \<times> json) list"
    by (auto simp: map_of_eq_None_iff)
  with assms show ?thesis
    by (simp add: completion_row_def action_completed_event_def event_on_node_def event_kind_is_def event_payload_def map_add_def)
qed

lemma completed_call_journaled:
  assumes "completeNodeExternalAction rt be env f aid outcome delta db = (Inr r, db')" "readNode rt (f_node f) db = Inr (Some n)" "f_node f \<noteq> []"
  shows "journaled (n_campaign_id n) (f_node f) aid db'"
proof -
  let ?read = "readNodeExternalAction rt (n_campaign_id n) (f_node f) aid"
  have fences: "fence_required f" "aid \<noteq> []"
    using assms(1) by (auto simp: completeNodeExternalAction_def op_throw_def split: if_splits)
  obtain x where x: "?read db = Inr (Some x)"
    using assms(1,2) fences
    by (auto simp: completeNodeExternalAction_def op_bind_def op_read_def op_throw_def Let_def split: sum.splits option.splits)
  show ?thesis
  proof (cases "xa_completed x")
    case True
    with assms(1,2) fences x have "db' = db"
      by (auto simp: completeNodeExternalAction_def op_bind_def op_read_def op_throw_def op_return_def Let_def split: sum.splits if_splits)
    with journaled_read [OF x] True show ?thesis by (simp add: recorded_completed_def)
  next
    case False
    obtain completed where c: "buildCampaignExternalActionOutcome rt outcome = Inr completed"
      using assms(1,2) fences x
      by (cases "buildCampaignExternalActionOutcome rt outcome")
        (simp_all add: completeNodeExternalAction_def op_bind_def op_read_def Let_def)
    let ?ev = "action_completed_event rt env n f (xa_descriptor x) aid completed delta"
    let ?sub = "submit rt be ''campaign_external_action_completion_failed''
      (tx_seq [guarded (S_markInfrastructureNode f (node_revision n) (nowIso env)),
         run (S_updateCampaignUsage (nativeStoreCampaignUsageParameters delta) (nowIso env) (n_campaign_id n)), run (insert_event ?ev)])
      (M_completeNodeExternalAction n f (nowIso env) (xa_descriptor x) completed delta ?ev)"
    obtain s d where sub: "?sub db = (s, d)" by (cases "?sub db")
    have step: "op_bind (op_catch (op_bind ?sub (\<lambda>_. op_return None))
        (\<lambda>_. op_bind (op_read ?read) (\<lambda>replay.
           if (case replay of None \<Rightarrow> False | Some y \<Rightarrow> xa_completed y \<and> xa_hash y = Some (snd completed))
           then op_return (Some replay) else op_throw ''campaign_external_action_completion_fence_lost'')))
        (\<lambda>r. case r of Some y \<Rightarrow> op_return y | None \<Rightarrow> op_read ?read) db = (Inr r, db')"
      using assms(1,2) fences x c False
      by (simp add: completeNodeExternalAction_def op_bind_def op_read_def op_throw_def Let_def split: if_splits)
    show ?thesis
    proof (cases s)
      case (Inr u)
      with step sub have "db' = d" by (simp add: op_bind_def op_catch_def op_return_def op_read_def)
      moreover have "?ev \<in> set (events d)" using completion_inserted sub Inr by (metis (full_types) unit.exhaust)
      ultimately show ?thesis using completion_row_built [OF assms(3)] unfolding journaled_def list_ex_iff by blast
    next
      case (Inl e)
      with step sub obtain y where "?read d = Inr (Some y)" "xa_completed y" "db' = d"
        by (auto simp: op_bind_def op_catch_def op_return_def op_read_def op_throw_def split: sum.splits if_splits option.splits)
      with journaled_read [of rt "n_campaign_id n" "f_node f" aid d "Some y"] show ?thesis by (simp add: recorded_completed_def)
    qed
  qed
qed

section \<open>The gate\<close>

lemma descriptor_fields:
  assumes "fst (descriptorFor rt n v w) = Inr d"
  shows "jget ''campaignId'' d = Some (JStr (n_campaign_id n))" "jget ''nodeId'' d = Some (JStr (node_id n))"
  using assms unfolding descriptorFor_def
  by (auto simp: Let_def buildCampaignExternalActionDescriptor_def identity_entries_def split: option.splits if_splits)

lemma descriptor_state: "\<exists>o'. snd (descriptorFor rt n v (st, db)) = (st\<lparr>ga_ordinals := o'\<rparr>, db)"
  by (auto simp: descriptorFor_def Let_def)

lemma run_from_journal:
  assumes "journaled (n_campaign_id n) (node_id n) (action_id_of d) db" "fst (descriptorFor rt n v (st, db)) = Inr d"
    "gate_run rt be env env' port n f v go (st, db) = (res, st', db')"
  shows "ga_calls st' = ga_calls st \<and> db' = db"
proof -
  obtain os where ds: "descriptorFor rt n v (st, db) = (Inr d, st\<lparr>ga_ordinals := os\<rparr>, db)"
    using assms(2) descriptor_state [of rt n v st db] by (cases "descriptorFor rt n v (st, db)") auto
  let ?get = "getNodeExternalAction rt (n_campaign_id n) (node_id n) (action_id_of d)"
  have ids: "sqlText (jstr (jget ''campaignId'' d)) = n_campaign_id n" "sqlText (jstr (jget ''nodeId'' d)) = node_id n"
    by (simp_all add: descriptor_fields [OF assms(2)])
  have get: "snd (?get db) = db" "fst (?get db) = Inr r \<Longrightarrow> recorded_completed r" for r
    using assms(1) journaled_read [of rt "n_campaign_id n" "node_id n" "action_id_of d" db r]
    by (simp_all add: getNodeExternalAction_def op_throw_def op_read_def split: if_splits)
  obtain g where g: "?get db = (g, db)" using get(1) by (cases "?get db") simp
  show ?thesis
  proof (cases g)
    case (Inl e)
    with assms(3) ds g show ?thesis
      by (auto simp: gate_run_def gate_bind_def gate_result_def gate_store_def ids split: sum.splits)
  next
    case (Inr r)
    then have "recorded_completed r" using get(2) [of r] g by simp
    with assms(3) ds g Inr show ?thesis
      by (auto simp: gate_run_def gate_bind_def gate_result_def gate_store_def gate_return_def ids split: sum.splits)
  qed
qed

text \<open>
  C7. At most once. After a call that completes an external action has returned, on either
  backend, and after any further operations of the store, running the same action through the
  gate again, in whatever process and attempt, calls no external operation and changes nothing in
  the store: it answers from the journal or fails.
\<close>

theorem completed_action_runs_once:
  assumes "completeNodeExternalAction rt be env f aid outcome delta db = (Inr r, db1)" "readNode rt (f_node f) db = Inr (Some m)"
    "f_node f \<noteq> []" "store_steps rt os v promote db1 db2" "n_campaign_id n = n_campaign_id m" "node_id n = f_node f"
    "fst (descriptorFor rt n request (st, db2)) = Inr d" "action_id_of d = aid"
    "gate_run rt be' env1 env2 port n f' request go (st, db2) = (res, st', db3)"
  shows "ga_calls st' = ga_calls st \<and> db3 = db2"
proof (rule run_from_journal [OF _ assms(7,9)])
  show "journaled (n_campaign_id n) (node_id n) (action_id_of d) db2"
    using journaled_steps [OF assms(4) completed_call_journaled [OF assms(1-3)]] assms(5,6,8) by simp
qed

section \<open>An action of the journal run again\<close>

definition ex_digest :: string where
  "ex_digest = ''sha256:'' @ replicate 64 (CHR ''a'')"

definition ex_action :: json where
  "ex_action = JObj [(''action'', JStr ''agent'')]"

definition ex_gate :: gate_state where
  "ex_gate = \<lparr>ga_ordinals = [], ga_started = [], ga_calls = []\<rparr>"

definition ex_port :: side_effect_port where
  "ex_port = \<lparr>port_ready = (\<lambda>_ _. Inr ()), port_current = (\<lambda>_. Inr ()), port_started = (\<lambda>_ _ _. Inr ())\<rparr>"

definition ex_operation :: gate_operation where
  "ex_operation = \<lparr>go_operation = (\<lambda>_ _. Inr (JInt 2)), go_before_start = None, go_usage = (\<lambda>_. ex_usage)\<rparr>"

definition ex_descriptor :: json where
  "ex_descriptor = JObj (identity_entries (JStr ''c'') (JStr ''a'') (JStr ex_digest) (JStr ex_digest) (JStr ''agent'') 1 (JStr ex_digest)
    (JStr ''remote-provider-lookup'') @ [(''externalActionId'', JStr ex_digest)])"

definition ex_journal :: db where
  "ex_journal = ex_db\<lparr>events := [action_started_event ex_rt (ex_env 6 ''s'') ex_running ex_fence ex_descriptor,
    action_completed_event ex_rt (ex_env 7 ''t'') ex_running ex_fence ex_descriptor ex_digest (JNum 1, ex_digest) ex_usage]\<rparr>"

lemma ex_hash [simp]: "hashRecord ex_rt kind v = ex_digest"
  by (simp add: hashRecord_def digest_def ex_rt_def ex_digest_def)

lemma ex_digest_ok [simp]: "is_sha256 ex_digest" "ex_digest \<noteq> []"
proof -
  show "is_sha256 ex_digest" by code_simp
  then show "ex_digest \<noteq> []" by (rule is_sha256_nonempty)
qed

lemma ex_sha [simp]: "sha256_field ex_rt (Some (JStr ex_digest))"
  by (simp add: sha256_field_JStr)

lemma ex_described: "fst (descriptorFor ex_rt ex_running ex_action (ex_gate, ex_journal)) = Inr ex_descriptor"
proof -
  have kind: "gate_resolver_kind ''agent'' = ''remote-provider-lookup''" by code_simp
  have c: "getCampaign ''c'' ex_journal = Some (mapCampaignRow ex_campaign)"
    by (simp add: getCampaign_def find_campaign_def ex_journal_def ex_db_def ex_campaign_def)
  have fields: "campaign_id (mapCampaignRow ex_campaign) = ''c''" "campaign_id ex_campaign = ''c''" "n_campaign_id ex_running = ''c''" "node_id ex_running = ''a''"
    by (simp_all add: mapCampaignRow_def ex_campaign_def ex_running_def ex_node_def fresh_node_def)
  have "\<not> is_sha256 ''plan''" by code_simp
  then have plan: "campaignPlanIdentityHash ex_rt (mapCampaignRow ex_campaign) = ex_digest"
    by (simp add: campaignPlanIdentityHash_def mapCampaignRow_def ex_campaign_def ex_spec_def)
  have "\<not> sha256_field ex_rt None" by code_simp
  then show ?thesis
    unfolding descriptorFor_def ex_action_def ex_gate_def Let_def fields c
    by (simp add: descriptor_ordinal_def previous_ordinal_def kind buildCampaignExternalActionDescriptor_def fields c plan
        campaignNodeSemanticSpecHash_def campaignExternalActionRequestDigest_def ex_descriptor_def Let_def)
qed

lemma ex_event_hash: "event_sha256 (buildEvent ex_rt env k cid nid kind detail t) = ex_digest"
  by (simp add: buildEvent_def Let_def)

lemma ex_size [simp]: "\<not> MAX_OUTCOME_BYTES < utf8_length (number_text ex_rt 1)"
  by (simp add: ex_rt_def MAX_OUTCOME_BYTES_def utf8_length_def)

lemma ex_read: "\<exists>x. readNodeExternalAction ex_rt ''c'' ''a'' ex_digest ex_journal = Inr (Some x) \<and> xa_completed x \<and> xa_hash x = Some ex_digest"
proof -
  let ?es = "events ex_journal"
  have rows: "S_externalActionEvents ''c'' ''a'' ex_digest ex_journal = ?es"
    by (simp add: S_externalActionEvents_def select_events_def ex_journal_def event_on_node_def action_started_event_def action_completed_event_def
        eventOrder_def ex_env_def ex_fence_def ex_running_def ex_node_def fresh_node_def ex_descriptor_def entries_def identity_entries_def)
  have checked: "rmap (checked_journal_event ex_rt ''c'' ''a'' ex_digest) ?es = Inr (map event_json ?es)"
    by (rule rmap_pure) (auto simp: ex_journal_def checked_journal_event_def Let_def action_started_event_def action_completed_event_def ex_event_hash
        ex_fence_def ex_running_def ex_node_def fresh_node_def ex_descriptor_def entries_def identity_entries_def JOptStr_def)
  have desc: "assertCampaignExternalActionDescriptor ex_rt (jget ''detail'' e) expected = Inr ex_descriptor"
    if "e \<in> set (map event_json ?es)" "expected = [(''campaignId'', JStr ''c''), (''nodeId'', JStr ''a'')] \<or> expected = entries ex_descriptor"
    for e expected
    using that
    by (auto simp: ex_journal_def action_started_event_def action_completed_event_def assertCampaignExternalActionDescriptor_def
        descriptor_well_formed_def descriptor_identity_def ex_descriptor_def entries_def identity_entries_def Let_def isSafeInteger_def)
  let ?first = "event_json (action_started_event ex_rt (ex_env 6 ''s'') ex_running ex_fence ex_descriptor)"
  let ?second = "event_json (action_completed_event ex_rt (ex_env 7 ''t'') ex_running ex_fence ex_descriptor ex_digest (JNum 1, ex_digest) ex_usage)"
  have all: "map event_json ?es = [?first, ?second]" by (simp add: ex_journal_def)
  have kinds: "event_kind_is ''campaign_node_external_action_started'' ?first" "\<not> event_kind_is ''campaign_node_external_action_started'' ?second"
    "event_kind_is ''campaign_node_external_action_completed'' ?second" "\<not> event_kind_is ''campaign_node_external_action_completed'' ?first"
    by (simp_all add: event_kind_is_def action_started_event_def action_completed_event_def)
  have outcome: "assertCampaignExternalActionOutcome ex_rt (jpath [''detail'', ''outcomePayload''] ?second) (jpath [''detail'', ''outcomeHash''] ?second)
      = Inr (JNum 1, ex_digest)"
    by (simp add: assertCampaignExternalActionOutcome_def buildCampaignExternalActionOutcome_def action_completed_event_def Let_def
        ex_descriptor_def entries_def identity_entries_def)
  have merged: "merge_outcomes ex_rt (entries ex_descriptor) None [?second] = Inr (Some (JNum 1, ex_digest))"
    using desc [of ?second "entries ex_descriptor"] outcome all by simp
  show ?thesis
    using desc [of ?first "[(''campaignId'', JStr ''c''), (''nodeId'', JStr ''a'')]"] merged
    by (simp add: readNodeExternalAction_def rows checked all kinds)
qed

lemma ex_read_node: "readNode ex_rt ''a'' ex_journal = Inr (Some ex_running)"
proof -
  have "readNode ex_rt ''a'' ex_journal = readNode ex_rt ''a'' ex_db"
    by (simp add: readNode_def find_node_def ex_journal_def)
  also have "\<dots> = Inr (Some ex_running)" by code_simp
  finally show ?thesis .
qed

lemma ex_completed: "\<exists>r. completeNodeExternalAction ex_rt Native (ex_env 8 ''u'') ex_fence ex_digest (Some (JNum 1)) ex_usage ex_journal = (Inr r, ex_journal)"
proof -
  obtain x where x: "readNodeExternalAction ex_rt ''c'' ''a'' ex_digest ex_journal = Inr (Some x)" "xa_completed x" "xa_hash x = Some ex_digest"
    using ex_read by blast
  have fields: "f_node ex_fence = ''a''" "n_campaign_id ex_running = ''c''" "fence_required ex_fence"
    by (simp_all add: ex_fence_def ex_running_def ex_node_def fresh_node_def fence_required_def)
  show ?thesis
    by (simp add: completeNodeExternalAction_def fields op_bind_def op_read_def op_return_def Let_def ex_read_node x
        buildCampaignExternalActionOutcome_def)
qed

lemma completed_action_runs_once_witness:
  "ga_calls (fst (snd (gate_run ex_rt Native (ex_env 9 ''v'') (ex_env 9 ''w'') ex_port ex_running ex_fence ex_action ex_operation
      (ex_gate, ex_journal)))) = []
   \<and> snd (snd (gate_run ex_rt Native (ex_env 9 ''v'') (ex_env 9 ''w'') ex_port ex_running ex_fence ex_action ex_operation
      (ex_gate, ex_journal))) = ex_journal"
proof -
  obtain r where r: "completeNodeExternalAction ex_rt Native (ex_env 8 ''u'') ex_fence ex_digest (Some (JNum 1)) ex_usage ex_journal = (Inr r, ex_journal)"
    using ex_completed by blast
  obtain res st' db3 where run: "gate_run ex_rt Native (ex_env 9 ''v'') (ex_env 9 ''w'') ex_port ex_running ex_fence ex_action ex_operation
      (ex_gate, ex_journal) = (res, st', db3)"
    by (cases "gate_run ex_rt Native (ex_env 9 ''v'') (ex_env 9 ''w'') ex_port ex_running ex_fence ex_action ex_operation
      (ex_gate, ex_journal)") auto
  have n: "f_node ex_fence = ''a''" "node_id ex_running = f_node ex_fence"
    by (simp_all add: ex_fence_def ex_running_def ex_node_def fresh_node_def)
  have d: "action_id_of ex_descriptor = ex_digest"
    by (simp add: action_id_of_def ex_descriptor_def identity_entries_def)
  have "ga_calls st' = ga_calls ex_gate \<and> db3 = ex_journal"
    by (rule completed_action_runs_once [OF r, where os = ex_os and v = ex_verifiers and promote = ex_promote and m = ex_running
        and ?db2.0 = ex_journal, OF _ _ _ _ _ ex_described d run])
      (simp_all add: n ex_read_node)
  then show ?thesis by (simp add: run) (simp add: ex_gate_def)
qed

end
