(* ===== verification/Theorem_Dsl.thy ===== *)
theory Theorem_Dsl
  imports Process_Identity
begin

text \<open>
  The typed theorem language (\<open>paper-domain/research/typed-theorem-dsl.mjs\<close>,
  \<open>lean-type-identity.mjs\<close>): quantified (in)equalities read from the text of a Lean type and
  compiled back to it. A text is the list of its UTF-16 code units. Unicode normalisation
  (\<open>normalize('NFKC')\<close>) is the argument \<open>nfkc\<close>. An index into a text is the part before it and the
  part from it on.
\<close>

section \<open>Text\<close>

type_synonym utext = "nat list"

definition u :: "string \<Rightarrow> utext" where
  "u s = map of_char s"

abbreviation (input) "c_space \<equiv> 32 :: nat"
abbreviation (input) "c_lparen \<equiv> 40 :: nat"
abbreviation (input) "c_rparen \<equiv> 41 :: nat"
abbreviation (input) "c_star \<equiv> 42 :: nat"
abbreviation (input) "c_plus \<equiv> 43 :: nat"
abbreviation (input) "c_comma \<equiv> 44 :: nat"
abbreviation (input) "c_minus \<equiv> 45 :: nat"
abbreviation (input) "c_colon \<equiv> 58 :: nat"
abbreviation (input) "c_arrow \<equiv> 8594 :: nat"
abbreviation (input) "c_forall \<equiv> 8704 :: nat"
abbreviation (input) "c_cap \<equiv> 8745 :: nat"
abbreviation (input) "c_ne \<equiv> 8800 :: nat"
abbreviation (input) "c_le \<equiv> 8804 :: nat"
abbreviation (input) "c_ge \<equiv> 8805 :: nat"

definition uspace :: "nat \<Rightarrow> bool" where
  "uspace c = (c \<in> {9, 10, 11, 12, 13, 32, 160, 5760, 8232, 8233, 8239, 8287, 12288, 65279} \<or> 8192 \<le> c \<and> c \<le> 8202)"

definition utrim :: "utext \<Rightarrow> utext" where
  "utrim s = rev (dropWhile uspace (rev (dropWhile uspace s)))"

text \<open>\<open>replace(/\s+/g, ' ')\<close> and \<open>split(/\s+/).filter(Boolean)\<close>.\<close>

fun collapse :: "utext \<Rightarrow> utext" where
  "collapse [] = []"
| "collapse (c # cs) = (if uspace c then (case collapse cs of d # ds \<Rightarrow> if d = c_space then d # ds else c_space # d # ds | [] \<Rightarrow> [c_space])
    else c # collapse cs)"

fun uwords :: "utext \<Rightarrow> utext \<Rightarrow> utext list" where
  "uwords w [] = (if w = [] then [] else [w])"
| "uwords w (c # cs) = (if uspace c then (if w = [] then uwords [] cs else w # uwords [] cs) else uwords (w @ [c]) cs)"

definition udigit :: "nat \<Rightarrow> bool" where
  "udigit c = (48 \<le> c \<and> c \<le> 57)"

definition uletter :: "nat \<Rightarrow> bool" where
  "uletter c = (65 \<le> c \<and> c \<le> 90 \<or> 97 \<le> c \<and> c \<le> 122 \<or> c = 95)"

definition SAFE_NAME :: "utext \<Rightarrow> bool" where
  "SAFE_NAME s = (case s of c # cs \<Rightarrow> uletter c \<and> list_all (\<lambda>d. uletter d \<or> udigit d \<or> d = 39) cs | [] \<Rightarrow> False)"

definition unumber :: "utext \<Rightarrow> nat" where
  "unumber s = fold (\<lambda>c n. 10 * n + (c - 48)) s 0"

definition normalize_symbol :: "nat \<Rightarrow> utext" where
  "normalize_symbol c = (if c = c_forall then u ''forall '' else if c = c_arrow then u '' -> '' else if c = c_ne then u '' != ''
    else if c = c_le then u '' <= '' else if c = c_ge then u '' >= '' else [c])"

definition normalizeSource :: "(utext \<Rightarrow> utext) \<Rightarrow> utext \<Rightarrow> utext" where
  "normalizeSource nfkc s = utrim (collapse (concat (map normalize_symbol (nfkc s))))"

section \<open>Parentheses\<close>

definition depth_after :: "int \<Rightarrow> nat \<Rightarrow> int" where
  "depth_after d c = (if c = c_lparen then d + 1 else if c = c_rparen then d - 1 else d)"

fun balanced_from :: "int \<Rightarrow> utext \<Rightarrow> bool" where
  "balanced_from d [] = (d = 0)"
| "balanced_from d (c # cs) = (let d' = depth_after d c in
    if d' = 0 \<and> cs \<noteq> [] then False else if d' < 0 then False else balanced_from d' cs)"

definition balancedOuterParentheses :: "utext \<Rightarrow> bool" where
  "balancedOuterParentheses s = (s \<noteq> [] \<and> hd s = c_lparen \<and> last s = c_rparen \<and> balanced_from 0 s)"

lemma length_utrim: "length (utrim s) \<le> length s"
  unfolding utrim_def by (metis length_dropWhile_le length_rev order_trans)

function strip_loop :: "utext \<Rightarrow> utext" where
  "strip_loop s = (if balancedOuterParentheses s then strip_loop (utrim (butlast (tl s))) else s)"
  by auto

termination
proof (relation "measure length")
  fix s :: utext
  assume "balancedOuterParentheses s"
  then have "s \<noteq> []" by (simp add: balancedOuterParentheses_def)
  then have "length (butlast (tl s)) < length s" by (cases s) auto
  then show "(utrim (butlast (tl s)), s) \<in> measure length"
    using length_utrim [of "butlast (tl s)"] by simp
qed simp

declare strip_loop.simps [simp del]

definition stripOuterParentheses :: "utext \<Rightarrow> utext" where
  "stripOuterParentheses s = strip_loop (utrim s)"

text \<open>The first place outside parentheses where one of the symbols stands.\<close>

fun top_level_split :: "int \<Rightarrow> utext list \<Rightarrow> utext \<Rightarrow> (utext \<times> utext) option" where
  "top_level_split d symbols [] = None"
| "top_level_split d symbols (c # cs) = (let d' = depth_after d c in
    if d' = 0 \<and> list_ex (\<lambda>s. take (length s) (c # cs) = s) symbols then Some ([], c # cs)
    else map_option (\<lambda>(a, b). (c # a, b)) (top_level_split d' symbols cs))"

definition topLevelIndex :: "utext \<Rightarrow> utext list \<Rightarrow> (utext \<times> utext) option" where
  "topLevelIndex s symbols = top_level_split 0 symbols s"

lemma top_level_split_length: "top_level_split d symbols s = Some (a, b) \<Longrightarrow> s = a @ b"
  by (induction d symbols s arbitrary: a rule: top_level_split.induct) (auto simp: Let_def split: if_splits)

lemma top_level_split_nonempty: "top_level_split d symbols s = Some (a, b) \<Longrightarrow> b \<noteq> []"
  by (induction d symbols s arbitrary: a rule: top_level_split.induct) (auto simp: Let_def split: if_splits)

text \<open>\<open>splitTopLevel\<close> is called with the arrow only.\<close>

function split_arrows :: "utext \<Rightarrow> utext list" where
  "split_arrows s = (case topLevelIndex s [u ''->''] of
     Some (a, b) \<Rightarrow> utrim a # split_arrows (utrim (drop 2 b))
   | None \<Rightarrow> [utrim s])"
  by auto

termination
proof (relation "measure length")
  fix s :: utext and a b x
  assume "topLevelIndex s [u ''->''] = Some x" "(a, b) = x"
  then have "s = a @ b" "b \<noteq> []"
    by (auto simp: topLevelIndex_def dest: top_level_split_length top_level_split_nonempty)
  then have "length (drop 2 b) < length s" by (cases b) auto
  then show "(utrim (drop 2 b), s) \<in> measure length"
    using length_utrim [of "drop 2 b"] by simp
qed simp

declare split_arrows.simps [simp del]

section \<open>Domains\<close>

datatype domain = D_nat | D_int | D_bool | D_real | D_fin nat | D_vector_real nat | D_matrix_real nat nat | D_measure_bool
  | D_measure_fin nat | D_optimization_feasible_set_real | D_stochastic_process_nat_bool_real

text \<open>The regular expressions of the domains, read from left to right.\<close>

definition lit :: "string \<Rightarrow> utext \<Rightarrow> utext option" where
  "lit w s = (if take (length w) s = u w then Some (drop (length w) s) else None)"

definition spaces :: "utext \<Rightarrow> utext option" where
  "spaces s = (case s of c # cs \<Rightarrow> if uspace c then Some (dropWhile uspace cs) else None | [] \<Rightarrow> None)"

definition numeral_of :: "nat \<Rightarrow> utext \<Rightarrow> (nat \<times> utext) option" where
  "numeral_of k s = (let ds = takeWhile udigit s in
    if ds = [] \<or> hd ds = 48 \<or> k < length ds then None else Some (unumber ds, dropWhile udigit s))"

definition at_end :: "'a \<Rightarrow> utext \<Rightarrow> 'a option" where
  "at_end x s = (if s = [] then Some x else None)"

definition fin_domain :: "utext \<Rightarrow> domain option" where
  "fin_domain s = Option.bind (lit ''Fin'' s) (\<lambda>s. Option.bind (spaces s) (\<lambda>s. Option.bind (numeral_of 6 s)
    (\<lambda>(n, s). at_end (D_fin n) s)))"

definition vector_domain :: "utext \<Rightarrow> domain option" where
  "vector_domain s = Option.bind (lit ''Vector'' s) (\<lambda>s. Option.bind (spaces s) (\<lambda>s. Option.bind (lit ''Real'' s)
    (\<lambda>s. Option.bind (spaces s) (\<lambda>s. Option.bind (numeral_of 4 s) (\<lambda>(n, s). at_end (D_vector_real n) s)))))"

definition fin_argument :: "utext \<Rightarrow> (nat \<times> utext) option" where
  "fin_argument s = Option.bind (lit ''(Fin'' s) (\<lambda>s. Option.bind (spaces s) (\<lambda>s. Option.bind (numeral_of 4 s)
    (\<lambda>(n, s). map_option (Pair n) (lit '')'' s))))"

definition matrix_domain :: "utext \<Rightarrow> domain option" where
  "matrix_domain s = Option.bind (lit ''Matrix'' s) (\<lambda>s. Option.bind (spaces s) (\<lambda>s. Option.bind (fin_argument s) (\<lambda>(r, s).
    Option.bind (spaces s) (\<lambda>s. Option.bind (fin_argument s) (\<lambda>(c, s). Option.bind (spaces s) (\<lambda>s.
    Option.bind (lit ''Real'' s) (at_end (D_matrix_real r c))))))))"

definition measure_bool_domain :: "utext \<Rightarrow> domain option" where
  "measure_bool_domain s = Option.bind (lit ''MeasureTheory.Measure'' s) (\<lambda>s. Option.bind (spaces s) (\<lambda>s.
    Option.bind (lit ''Bool'' s) (at_end D_measure_bool)))"

definition measure_fin_domain :: "utext \<Rightarrow> domain option" where
  "measure_fin_domain s = Option.bind (lit ''MeasureTheory.Measure'' s) (\<lambda>s. Option.bind (spaces s) (\<lambda>s.
    Option.bind (fin_argument s) (\<lambda>(n, s). at_end (D_measure_fin n) s)))"

definition SUPPORTED_ATOMS :: "(utext \<times> domain) list" where
  "SUPPORTED_ATOMS = [(u ''Nat'', D_nat), (u ''Int'', D_int), (u ''Bool'', D_bool), (u ''Real'', D_real)]"

definition or_try :: "'a option \<Rightarrow> 'a option \<Rightarrow> 'a option" where
  "or_try a b = (case a of Some x \<Rightarrow> Some x | None \<Rightarrow> b)"

definition parseDomain :: "utext \<Rightarrow> domain result" where
  "parseDomain value =
    (let s = stripOuterParentheses value in
     case or_try (map_of SUPPORTED_ATOMS s) (or_try (fin_domain s) (or_try (vector_domain s) (or_try (matrix_domain s)
        (or_try (measure_bool_domain s) (or_try (measure_fin_domain s)
        (if s = u ''Set Real'' then Some D_optimization_feasible_set_real
         else if s = u ''Nat -> Bool -> Real'' then Some D_stochastic_process_nat_bool_real else None)))))) of
       Some d \<Rightarrow> Inr d | None \<Rightarrow> Inl ''typed_theorem_dsl_domain_unsupported'')"

section \<open>Terms and relations\<close>

datatype operator = Intersection | Add | Sub | Mul

datatype dsl_term = Variable utext | Literal int | Boolean bool | Set_univ | Op operator dsl_term dsl_term

datatype relation_symbol = Ne | Ge | Le | Eq | Lt | Gt

record dsl_relation =
  relation :: relation_symbol
  rel_left :: dsl_term
  rel_right :: dsl_term

definition ARITHMETIC :: "(nat \<times> operator) list list" where
  "ARITHMETIC = [[(c_cap, Intersection)], [(c_plus, Add), (c_minus, Sub)], [(c_star, Mul)]]"

definition RELATIONS :: "(utext \<times> relation_symbol) list" where
  "RELATIONS = [(u ''!='', Ne), (u ''>='', Ge), (u ''<='', Le), (u ''='', Eq), (u ''<'', Lt), (u ''>'', Gt)]"

text \<open>
  The scan for an operator goes from the end of the text to its start: the first list is the part
  not yet seen, reversed.
\<close>

definition depth_before :: "int \<Rightarrow> nat \<Rightarrow> int" where
  "depth_before d c = (if c = c_rparen then d + 1 else if c = c_lparen then d - 1 else d)"

fun scan_operator :: "(nat \<times> operator) list \<Rightarrow> int \<Rightarrow> utext \<Rightarrow> utext \<Rightarrow> (operator \<times> utext \<times> utext) option" where
  "scan_operator level d [] after = None"
| "scan_operator level d (c # front) after =
    (let d' = depth_before d c in
     case (if d' = 0 then map_of level c else None) of
       None \<Rightarrow> scan_operator level d' front (c # after)
     | Some operator \<Rightarrow>
         if c = c_minus \<and> front = [] \<or> utrim (rev front) = [] \<or> utrim after = [] then scan_operator level d' front (c # after)
         else Some (operator, utrim (rev front), utrim after))"

fun find_operator :: "(nat \<times> operator) list list \<Rightarrow> utext \<Rightarrow> (operator \<times> utext \<times> utext) option" where
  "find_operator [] s = None"
| "find_operator (level # levels) s = or_try (scan_operator level 0 (rev s) []) (find_operator levels s)"

lemma scan_operator_shorter:
  "scan_operator level d front after = Some (operator, l, r) \<Longrightarrow>
    length l < length front + length after \<and> length r < length front + length after"
proof (induction level d front after rule: scan_operator.induct)
  case (2 level d c front after)
  have "length (utrim (rev front)) \<le> length front" "length (utrim after) \<le> length after"
    using length_utrim [of "rev front"] length_utrim [of after] by simp_all
  with 2 show ?case by (auto simp: Let_def split: if_splits option.splits)
qed simp

lemma find_operator_shorter: "find_operator levels s = Some (operator, l, r) \<Longrightarrow> length l < length s \<and> length r < length s"
  by (induction levels) (auto simp: or_try_def dest!: scan_operator_shorter split: option.splits)

lemma length_strip_loop: "length (strip_loop s) \<le> length s"
proof (induction s rule: strip_loop.induct)
  case (1 s)
  have "length (utrim (butlast (tl s))) \<le> length s" using length_utrim [of "butlast (tl s)"] by simp
  with 1 show ?case by (subst strip_loop.simps) auto
qed

lemma length_strip: "length (stripOuterParentheses s) \<le> length s"
  unfolding stripOuterParentheses_def using length_strip_loop length_utrim order_trans by blast

definition signed_number :: "utext \<Rightarrow> int option" where
  "signed_number s = (case s of [] \<Rightarrow> None
    | c # cs \<Rightarrow> if c = c_minus then (if cs \<noteq> [] \<and> list_all udigit cs then Some (- int (unumber cs)) else None)
        else if list_all udigit s then Some (int (unumber s)) else None)"

definition parse_atom :: "utext list \<Rightarrow> utext \<Rightarrow> dsl_term result" where
  "parse_atom variables s =
    (case signed_number s of Some n \<Rightarrow>
       if \<bar>n\<bar> \<le> 9007199254740991 then Inr (Literal n) else Inl ''typed_theorem_dsl_literal_invalid''
     | None \<Rightarrow>
       if s = u ''true'' \<or> s = u ''false'' then Inr (Boolean (s = u ''true''))
       else if s = u ''Set.univ'' then Inr Set_univ
       else if SAFE_NAME s \<and> s \<in> set variables then Inr (Variable s)
       else Inl ''typed_theorem_dsl_term_unsupported'')"

function parseTerm :: "utext list \<Rightarrow> utext \<Rightarrow> dsl_term result" where
  "parseTerm variables value =
    (let s = stripOuterParentheses value in
     case find_operator ARITHMETIC s of
       Some (operator, l, r) \<Rightarrow>
         rbind (parseTerm variables l) (\<lambda>a. rbind (parseTerm variables r) (\<lambda>b. Inr (Op operator a b)))
     | None \<Rightarrow> parse_atom variables s)"
  by auto

termination
proof (relation "measure (length \<circ> snd)", simp, goal_cases)
  case (1 variables t s x operator y l r)
  then have "length l < length s" by (auto dest: find_operator_shorter)
  then show ?case using 1(1) length_strip [of t] by simp
next
  case (2 variables t s x operator y l r a)
  then have "length r < length s" by (auto dest: find_operator_shorter)
  then show ?case using 2(1) length_strip [of t] by simp
qed

declare parseTerm.simps [simp del]

definition parseRelation :: "utext list \<Rightarrow> utext \<Rightarrow> dsl_relation result" where
  "parseRelation variables value =
    (let s = stripOuterParentheses value in
     case topLevelIndex s (map fst RELATIONS) of
       None \<Rightarrow> Inl ''typed_theorem_dsl_relation_required''
     | Some (front, rest) \<Rightarrow>
       (case find (\<lambda>(symbol, _). take (length symbol) rest = symbol) RELATIONS of
          None \<Rightarrow> Inl ''TypeError''
        | Some (symbol, r) \<Rightarrow>
          let l = utrim front; r' = utrim (drop (length symbol) rest) in
          if l = [] \<or> r' = [] then Inl ''typed_theorem_dsl_relation_invalid''
          else rbind (parseTerm variables l) (\<lambda>a. rbind (parseTerm variables r') (\<lambda>b.
            Inr \<lparr>relation = r, rel_left = a, rel_right = b\<rparr>))))"

section \<open>Binders\<close>

record quantified =
  b_name :: utext
  b_domain :: domain

definition declared_binders :: "utext \<Rightarrow> quantified list result" where
  "declared_binders declaration =
    (case topLevelIndex declaration [u '':''] of
       None \<Rightarrow> Inl ''typed_theorem_dsl_binder_type_missing''
     | Some (front, rest) \<Rightarrow>
       let names = uwords [] (utrim front) in
       rbind (parseDomain (drop 1 rest)) (\<lambda>d.
       if names = [] \<or> list_ex (\<lambda>n. \<not> SAFE_NAME n) names then Inl ''typed_theorem_dsl_binder_name_invalid''
       else Inr (map (\<lambda>n. \<lparr>b_name = n, b_domain = d\<rparr>) names)))"

function read_binders :: "utext \<Rightarrow> (quantified list \<times> utext) result" where
  "read_binders s =
    (if take 7 s = u ''forall '' then
       let rest = utrim (drop 7 s) in
       (case topLevelIndex rest [u '',''] of
          None \<Rightarrow> Inl ''typed_theorem_dsl_binder_separator_missing''
        | Some (front, after) \<Rightarrow>
          rbind (declared_binders (stripOuterParentheses front)) (\<lambda>bs.
          rbind (read_binders (utrim (drop 1 after))) (\<lambda>(bs', body). Inr (bs @ bs', body))))
     else Inr ([], s))"
  by auto

termination
proof (relation "measure length", simp, goal_cases)
  case (1 s t x a b bs)
  then have "t = a @ b" by (auto simp: topLevelIndex_def dest: top_level_split_length)
  moreover have "length t < length s"
    using 1(1,2) length_utrim [of "drop 7 s"] by (cases s) (auto simp: u_def)
  ultimately show ?case using length_utrim [of "drop 1 b"] by simp
qed

declare read_binders.simps [simp del]

definition parseBindersAndBody :: "(utext \<Rightarrow> utext) \<Rightarrow> utext \<Rightarrow> (quantified list \<times> utext) result" where
  "parseBindersAndBody nfkc s =
    rbind (read_binders (normalizeSource nfkc s)) (\<lambda>(bs, body).
    if bs = [] then Inl ''typed_theorem_dsl_binder_required''
    else if \<not> distinct (map b_name bs) then Inl ''typed_theorem_dsl_binder_duplicate''
    else Inr (bs, body))"

section \<open>Compilation to a Lean type\<close>

definition unat_text :: "nat \<Rightarrow> utext" where
  "unat_text n = u (nat_text n)"

definition compileDomain :: "domain \<Rightarrow> utext" where
  "compileDomain d = (case d of
     D_nat \<Rightarrow> u ''Nat'' | D_int \<Rightarrow> u ''Int'' | D_bool \<Rightarrow> u ''Bool'' | D_real \<Rightarrow> u ''Real''
   | D_fin n \<Rightarrow> u ''Fin '' @ unat_text n
   | D_vector_real n \<Rightarrow> u ''Vector Real '' @ unat_text n
   | D_matrix_real r c \<Rightarrow> u ''Matrix (Fin '' @ unat_text r @ u '') (Fin '' @ unat_text c @ u '') Real''
   | D_measure_bool \<Rightarrow> u ''MeasureTheory.Measure Bool''
   | D_measure_fin n \<Rightarrow> u ''MeasureTheory.Measure (Fin '' @ unat_text n @ u '')''
   | D_optimization_feasible_set_real \<Rightarrow> u ''Set Real''
   | D_stochastic_process_nat_bool_real \<Rightarrow> u ''Nat '' @ [c_arrow] @ u '' Bool '' @ [c_arrow] @ u '' Real'')"

definition domainRequiresMathlib :: "domain \<Rightarrow> bool" where
  "domainRequiresMathlib d = (case d of D_nat \<Rightarrow> False | D_int \<Rightarrow> False | D_bool \<Rightarrow> False | D_fin _ \<Rightarrow> False | _ \<Rightarrow> True)"

definition int_text :: "int \<Rightarrow> utext" where
  "int_text n = (if n < 0 then c_minus # unat_text (nat (- n)) else unat_text (nat n))"

definition operator_symbol :: "operator \<Rightarrow> nat" where
  "operator_symbol operator = (case operator of Intersection \<Rightarrow> c_cap | Add \<Rightarrow> c_plus | Sub \<Rightarrow> c_minus | Mul \<Rightarrow> c_star)"

definition precedence :: "operator \<Rightarrow> nat" where
  "precedence operator = (case operator of Intersection \<Rightarrow> 0 | Mul \<Rightarrow> 2 | _ \<Rightarrow> 1)"

definition parenthesized :: "operator \<Rightarrow> nat \<Rightarrow> bool \<Rightarrow> bool" where
  "parenthesized operator parent right =
    (precedence operator < parent \<or> right \<and> precedence operator = parent \<and> operator = Sub)"

primrec compileTerm :: "dsl_term \<Rightarrow> nat \<Rightarrow> bool \<Rightarrow> utext" where
  "compileTerm (Variable x) parent right = x"
| "compileTerm (Literal n) parent right = int_text n"
| "compileTerm (Boolean b) parent right = (if b then u ''true'' else u ''false'')"
| "compileTerm Set_univ parent right = u ''Set.univ''"
| "compileTerm (Op operator l r) parent right =
    (let p = precedence operator;
         source = compileTerm l p False @ [c_space, operator_symbol operator, c_space] @ compileTerm r p True in
     if parenthesized operator parent right then c_lparen # source @ [c_rparen] else source)"

definition relation_text :: "relation_symbol \<Rightarrow> utext" where
  "relation_text r = (case r of Ne \<Rightarrow> [c_ne] | Ge \<Rightarrow> [c_ge] | Le \<Rightarrow> [c_le] | Eq \<Rightarrow> u ''='' | Lt \<Rightarrow> u ''<'' | Gt \<Rightarrow> u ''>'')"

definition compileRelation :: "dsl_relation \<Rightarrow> utext" where
  "compileRelation r = compileTerm (rel_left r) 0 False @ [c_space] @ relation_text (relation r) @ [c_space]
    @ compileTerm (rel_right r) 0 False"

primrec ujoin :: "utext \<Rightarrow> utext list \<Rightarrow> utext" where
  "ujoin sep [] = []"
| "ujoin sep (x # xs) = (if xs = [] then x else x @ sep @ ujoin sep xs)"

record theorem_dsl =
  binders :: "quantified list"
  assumptions :: "dsl_relation list"
  conclusion :: dsl_relation

text \<open>A variable joins the group before it when it has the same domain.\<close>

definition add_binder :: "(utext \<times> utext list) list \<Rightarrow> quantified \<Rightarrow> (utext \<times> utext list) list" where
  "add_binder groups b = (let d = compileDomain (b_domain b) in
    if groups \<noteq> [] \<and> fst (last groups) = d then butlast groups @ [(d, snd (last groups) @ [b_name b])]
    else groups @ [(d, [b_name b])])"

definition binder_groups :: "quantified list \<Rightarrow> (utext \<times> utext list) list" where
  "binder_groups bs = foldl add_binder [] bs"

definition compileTypedTheoremDsl :: "theorem_dsl \<Rightarrow> utext result" where
  "compileTypedTheoremDsl dsl =
    (if binders dsl = [] then Inl ''typed_theorem_dsl_invalid''
     else Inr ([c_forall, c_space] @ ujoin (u '', '') (map (\<lambda>(d, names). ujoin [c_space] names @ u '' : '' @ d) (binder_groups (binders dsl)))
       @ u '', '' @ ujoin [c_space, c_arrow, c_space] (map compileRelation (assumptions dsl @ [conclusion dsl]))))"

section \<open>Identity of a Lean type\<close>

fun replace_arrows :: "utext \<Rightarrow> utext" where
  "replace_arrows (a # b # s) = (if a = 45 \<and> b = 62 then c_arrow # replace_arrows s else a # replace_arrows (b # s))"
| "replace_arrows s = s"

fun wraps_from :: "int \<Rightarrow> utext \<Rightarrow> bool" where
  "wraps_from d [] = True"
| "wraps_from d (c # cs) = (let d' = depth_after d c in if d' = 0 \<and> cs \<noteq> [] then False else wraps_from d' cs)"

definition lean_wrapped :: "utext \<Rightarrow> bool" where
  "lean_wrapped s = (s \<noteq> [] \<and> hd s = c_lparen \<and> last s = c_rparen \<and> wraps_from 0 s)"

function lean_unwrap :: "utext \<Rightarrow> utext" where
  "lean_unwrap s = (if lean_wrapped s then lean_unwrap (utrim (butlast (tl s))) else s)"
  by auto

termination
proof (relation "measure length")
  fix s :: utext
  assume "lean_wrapped s"
  then have "s \<noteq> []" by (simp add: lean_wrapped_def)
  then have "length (butlast (tl s)) < length s" by (cases s) auto
  then show "(utrim (butlast (tl s)), s) \<in> measure length"
    using length_utrim [of "butlast (tl s)"] by simp
qed simp

declare lean_unwrap.simps [simp del]

definition lean_punctuation :: "nat \<Rightarrow> bool" where
  "lean_punctuation c = (c \<in> {c_comma, c_colon, c_arrow, c_lparen, c_rparen, 123, 125, 91, 93})"

definition before_punctuation :: "utext \<Rightarrow> bool" where
  "before_punctuation s = (case dropWhile uspace s of c # _ \<Rightarrow> lean_punctuation c | [] \<Rightarrow> False)"

fun tighten :: "bool \<Rightarrow> utext \<Rightarrow> utext" where
  "tighten after [] = []"
| "tighten after (c # cs) = (if uspace c then if after \<or> before_punctuation cs then tighten after cs else c # tighten False cs
    else c # tighten (lean_punctuation c) cs)"

definition normalizeLeanType :: "utext \<Rightarrow> utext" where
  "normalizeLeanType s = tighten False (lean_unwrap (utrim (collapse (replace_arrows s))))"

definition normalizedType :: "utext \<Rightarrow> utext" where
  "normalizedType s = (case normalizeLeanType s of c # cs \<Rightarrow> if c = c_colon then cs else c # cs | [] \<Rightarrow> [])"

text \<open>\<open>Buffer.from(s, 'utf8')\<close>: a surrogate without its partner becomes the replacement character.\<close>

fun utf8_bytes :: "utext \<Rightarrow> nat list" where
  "utf8_bytes [] = []"
| "utf8_bytes (c # cs) =
    (if c < 128 then c # utf8_bytes cs
     else if c < 2048 then [192 + c div 64, 128 + c mod 64] @ utf8_bytes cs
     else if 55296 \<le> c \<and> c < 56320 then
       (case cs of d # ds \<Rightarrow>
          if 56320 \<le> d \<and> d < 57344 then
            let p = 65536 + (c - 55296) * 1024 + (d - 56320) in
            [240 + p div 262144, 128 + p div 4096 mod 64, 128 + p div 64 mod 64, 128 + p mod 64] @ utf8_bytes ds
          else [239, 191, 189] @ utf8_bytes cs
        | [] \<Rightarrow> [239, 191, 189])
     else if 56320 \<le> c \<and> c < 57344 then [239, 191, 189] @ utf8_bytes cs
     else [224 + c div 4096, 128 + c div 64 mod 64, 128 + c mod 64] @ utf8_bytes cs)"

definition hashText :: "runtime \<Rightarrow> utext \<Rightarrow> string" where
  "hashText rt s = hashBytes rt (map char_of (utf8_bytes s))"

definition normalizedTypeHash :: "runtime \<Rightarrow> utext \<Rightarrow> string option" where
  "normalizedTypeHash rt s = (if normalizedType s = [] then None else Some (hashText rt (normalizedType s)))"

section \<open>From the text of a type to a theorem\<close>

definition mathlib_imported :: "string list \<Rightarrow> quantified list \<Rightarrow> unit result" where
  "mathlib_imported imports bs =
    (if ''Mathlib'' \<notin> set imports \<and> list_ex (\<lambda>b. domainRequiresMathlib (b_domain b)) bs
     then Inl (if list_ex (\<lambda>b. b_domain b = D_real) bs then ''typed_theorem_dsl_real_mathlib_import_required''
       else ''typed_theorem_dsl_mathlib_domain_import_required'')
     else Inr ())"

definition parse_propositions :: "utext list \<Rightarrow> utext \<Rightarrow> (dsl_relation list \<times> dsl_relation) result" where
  "parse_propositions variables body =
    (let ps = split_arrows body in
     if list_ex (\<lambda>p. p = []) ps then Inl ''typed_theorem_dsl_proposition_invalid''
     else rbind (rmap (parseRelation variables) (butlast ps)) (\<lambda>as.
       rbind (parseRelation variables (last ps)) (\<lambda>c. Inr (as, c))))"

definition parse_theorem :: "(utext \<Rightarrow> utext) \<Rightarrow> string list \<Rightarrow> utext \<Rightarrow> theorem_dsl result" where
  "parse_theorem nfkc imports s =
    rbind (parseBindersAndBody nfkc s) (\<lambda>(bs, body).
    rbind (mathlib_imported imports bs) (\<lambda>_.
    rbind (parse_propositions (map b_name bs) body) (\<lambda>(as, c).
    Inr \<lparr>binders = bs, assumptions = as, conclusion = c\<rparr>)))"

record compiled_theorem =
  sourceLeanTypeHash :: string
  sourceLeanNormalizedTypeHash :: "string option"
  allowedImports :: "string list"
  compilation :: "(theorem_dsl \<times> utext) result"

definition compile_checked :: "runtime \<Rightarrow> (utext \<Rightarrow> utext) \<Rightarrow> string list \<Rightarrow> utext \<Rightarrow> (theorem_dsl \<times> utext) result" where
  "compile_checked rt nfkc imports s =
    rbind (parse_theorem nfkc imports s) (\<lambda>dsl.
    rbind (compileTypedTheoremDsl dsl) (\<lambda>t.
    if normalizedTypeHash rt t \<noteq> normalizedTypeHash rt s then Inl ''typed_theorem_dsl_compiler_type_mismatch''
    else Inr (dsl, t)))"

definition other_hash :: "string option \<Rightarrow> string option \<Rightarrow> bool" where
  "other_hash claimed actual = (case claimed of Some h \<Rightarrow> h \<noteq> [] \<and> Some h \<noteq> actual | None \<Rightarrow> False)"

definition buildTypedTheoremDslFromLeanType :: "runtime \<Rightarrow> (utext \<Rightarrow> utext) \<Rightarrow> utext \<Rightarrow> string option \<Rightarrow> string option
    \<Rightarrow> string list \<Rightarrow> compiled_theorem result" where
  "buildTypedTheoremDslFromLeanType rt nfkc leanTypeSource sourceHash typeHash imports =
    (let s = utrim leanTypeSource; is = sortStrings (remdups imports) in
     if other_hash sourceHash (Some (hashText rt s)) \<or> other_hash typeHash (normalizedTypeHash rt s)
     then Inl ''typed_theorem_dsl_source_authority_mismatch''
     else Inr \<lparr>sourceLeanTypeHash = hashText rt s, sourceLeanNormalizedTypeHash = normalizedTypeHash rt s,
       allowedImports = is, compilation = compile_checked rt nfkc is s\<rparr>)"

end
