(* ===== verification/Theorem_Search.thy ===== *)
theory Theorem_Search
  imports Theorem_Dsl
begin

text \<open>
  The search for counterexamples (\<open>searchTypedTheoremDslCounterexample\<close> of
  \<open>typed-theorem-dsl.mjs\<close>). Numbers are binary64 values; as the terms have no division every value
  is an integer, an infinity or NaN, and the sign of zero is never seen. With real variables only,
  the code computes with \<open>BigInt\<close>. The environment is an object of the variables.
\<close>

section \<open>Values of JavaScript\<close>

datatype js_number = Fin int | Pos_inf | Neg_inf | Not_a_number

datatype js_value = Number js_number | Big int | Bool_value bool | Undefined

function bit_length :: "int \<Rightarrow> nat" where
  "bit_length n = (if n \<le> 0 then 0 else Suc (bit_length (n div 2)))"
  by auto

termination
  by (relation "measure nat") auto

declare bit_length.simps [simp del]

text \<open>Rounding of an exact integer to binary64: to nearest, ties to even.\<close>

definition round_half_even :: "int \<Rightarrow> nat \<Rightarrow> int" where
  "round_half_even m e = (let q = m div 2 ^ e; r = m mod 2 ^ e in
    if 2 ^ e < 2 * r \<or> 2 * r = 2 ^ e \<and> odd q then q + 1 else q)"

definition round_magnitude :: "int \<Rightarrow> int" where
  "round_magnitude m = (let e = bit_length m - 53 in round_half_even m e * 2 ^ e)"

definition to_binary64 :: "int \<Rightarrow> js_number" where
  "to_binary64 x = (let v = round_magnitude \<bar>x\<bar> in
    if 1024 < bit_length v then (if x < 0 then Neg_inf else Pos_inf) else Fin (if x < 0 then - v else v))"

definition number_sign :: "js_number \<Rightarrow> int" where
  "number_sign a = (case a of Fin x \<Rightarrow> sgn x | Pos_inf \<Rightarrow> 1 | Neg_inf \<Rightarrow> -1 | Not_a_number \<Rightarrow> 0)"

definition number_negate :: "js_number \<Rightarrow> js_number" where
  "number_negate a = (case a of Fin x \<Rightarrow> Fin (- x) | Pos_inf \<Rightarrow> Neg_inf | Neg_inf \<Rightarrow> Pos_inf | Not_a_number \<Rightarrow> Not_a_number)"

fun number_add :: "js_number \<Rightarrow> js_number \<Rightarrow> js_number" where
  "number_add (Fin x) (Fin y) = to_binary64 (x + y)"
| "number_add Not_a_number b = Not_a_number"
| "number_add a Not_a_number = Not_a_number"
| "number_add (Fin x) b = b"
| "number_add a (Fin y) = a"
| "number_add a b = (if a = b then a else Not_a_number)"

definition number_sub :: "js_number \<Rightarrow> js_number \<Rightarrow> js_number" where
  "number_sub a b = number_add a (number_negate b)"

fun number_mul :: "js_number \<Rightarrow> js_number \<Rightarrow> js_number" where
  "number_mul (Fin x) (Fin y) = to_binary64 (x * y)"
| "number_mul a b = (let s = number_sign a * number_sign b in
    if s = 0 then Not_a_number else if 0 < s then Pos_inf else Neg_inf)"

text \<open>The order of numbers; NaN is neither below nor above anything.\<close>

fun number_less :: "js_number \<Rightarrow> js_number \<Rightarrow> bool" where
  "number_less (Fin x) (Fin y) = (x < y)"
| "number_less Not_a_number b = False"
| "number_less a Not_a_number = False"
| "number_less a b = (a \<noteq> b \<and> (a = Neg_inf \<or> b = Pos_inf))"

definition number_le :: "js_number \<Rightarrow> js_number \<Rightarrow> bool" where
  "number_le a b = (number_less a b \<or> a = b \<and> a \<noteq> Not_a_number)"

definition to_number :: "js_value \<Rightarrow> js_number" where
  "to_number v = (case v of Number a \<Rightarrow> a | Big n \<Rightarrow> Fin n | Bool_value b \<Rightarrow> Fin (if b then 1 else 0) | Undefined \<Rightarrow> Not_a_number)"

text \<open>Mixing a \<open>BigInt\<close> with another type is an error for arithmetic and allowed for comparisons.\<close>

fun js_arith :: "(int \<Rightarrow> int \<Rightarrow> int) \<Rightarrow> (js_number \<Rightarrow> js_number \<Rightarrow> js_number) \<Rightarrow> js_value \<Rightarrow> js_value \<Rightarrow> js_value result" where
  "js_arith big number (Big x) (Big y) = Inr (Big (big x y))"
| "js_arith big number (Big x) b = Inl ''TypeError''"
| "js_arith big number a (Big y) = Inl ''TypeError''"
| "js_arith big number a b = Inr (Number (number (to_number a) (to_number b)))"

fun js_strict_equal :: "js_value \<Rightarrow> js_value \<Rightarrow> bool" where
  "js_strict_equal (Number a) (Number b) = (a = b \<and> a \<noteq> Not_a_number)"
| "js_strict_equal a b = (a = b)"

section \<open>Evaluation\<close>

type_synonym environment = "(utext \<times> js_value) list"

fun termValue :: "dsl_term \<Rightarrow> environment \<Rightarrow> bool \<Rightarrow> js_value result" where
  "termValue (Variable x) env exact = Inr (case map_of env x of Some v \<Rightarrow> v | None \<Rightarrow> Undefined)"
| "termValue (Literal n) env exact = Inr (if exact then Big n else Number (Fin n))"
| "termValue (Boolean b) env exact = Inr (Bool_value b)"
| "termValue Set_univ env exact = Inl ''TypeError''"
| "termValue (Op operator l r) env exact =
    rbind (termValue l env exact) (\<lambda>a. rbind (termValue r env exact) (\<lambda>b.
    case operator of
      Add \<Rightarrow> js_arith (+) number_add a b
    | Sub \<Rightarrow> js_arith (-) number_sub a b
    | Mul \<Rightarrow> js_arith (*) number_mul a b
    | Intersection \<Rightarrow> Inl ''typed_theorem_dsl_evaluation_term_invalid''))"

definition compare_values :: "relation_symbol \<Rightarrow> js_value \<Rightarrow> js_value \<Rightarrow> bool" where
  "compare_values r a b = (case r of
     Eq \<Rightarrow> js_strict_equal a b
   | Ne \<Rightarrow> \<not> js_strict_equal a b
   | Lt \<Rightarrow> number_less (to_number a) (to_number b)
   | Le \<Rightarrow> number_le (to_number a) (to_number b)
   | Gt \<Rightarrow> number_less (to_number b) (to_number a)
   | Ge \<Rightarrow> number_le (to_number b) (to_number a))"

definition relationValue :: "dsl_relation \<Rightarrow> environment \<Rightarrow> bool \<Rightarrow> bool result" where
  "relationValue r env exact =
    rbind (termValue (rel_left r) env exact) (\<lambda>a. rbind (termValue (rel_right r) env exact) (\<lambda>b.
    Inr (compare_values (relation r) a b)))"

section \<open>Search\<close>

record search_bounds =
  natUpperBound :: nat
  intAbsoluteBound :: nat
  realAbsoluteBound :: nat

definition array_from :: "nat \<Rightarrow> (nat \<Rightarrow> int) \<Rightarrow> js_value list result" where
  "array_from n f = (if 4294967295 < int n then Inl ''RangeError'' else Inr (map (\<lambda>i. Number (Fin (f i))) [0..<n]))"

text \<open>A domain is complete when all its values are listed.\<close>

definition valuesForDomain :: "search_bounds \<Rightarrow> domain \<Rightarrow> (bool \<times> js_value list) result" where
  "valuesForDomain b d = (case d of
     D_bool \<Rightarrow> Inr (True, [Bool_value False, Bool_value True])
   | D_fin n \<Rightarrow> rbind (array_from n int) (\<lambda>vs. Inr (True, vs))
   | D_nat \<Rightarrow> rbind (array_from (natUpperBound b + 1) int) (\<lambda>vs. Inr (False, vs))
   | D_int \<Rightarrow> rbind (array_from (intAbsoluteBound b * 2 + 1) (\<lambda>i. int i - int (intAbsoluteBound b))) (\<lambda>vs. Inr (False, vs))
   | D_real \<Rightarrow> rbind (array_from (realAbsoluteBound b * 2 + 1) (\<lambda>i. int i - int (realAbsoluteBound b))) (\<lambda>vs. Inr (False, vs))
   | _ \<Rightarrow> Inl ''typed_theorem_dsl_evaluation_domain_invalid'')"

text \<open>\<open>every\<close> stops at the first assumption that fails, before later ones are evaluated.\<close>

fun all_hold :: "dsl_relation list \<Rightarrow> environment \<Rightarrow> bool \<Rightarrow> bool result" where
  "all_hold [] env exact = Inr True"
| "all_hold (r # rs) env exact = rbind (relationValue r env exact) (\<lambda>b. if b then all_hold rs env exact else Inr False)"

definition exact_value :: "js_value \<Rightarrow> js_value" where
  "exact_value v = (case v of Number (Fin n) \<Rightarrow> Big n | _ \<Rightarrow> v)"

definition refutes :: "theorem_dsl \<Rightarrow> bool \<Rightarrow> environment \<Rightarrow> bool result" where
  "refutes dsl exact env =
    (let env' = (if exact then map (\<lambda>(x, v). (x, exact_value v)) env else env) in
     rbind (all_hold (assumptions dsl) env' exact) (\<lambda>b.
     if b then rbind (relationValue (conclusion dsl) env' exact) (\<lambda>c. Inr (\<not> c)) else Inr False))"

type_synonym search_state = "nat \<times> environment option"

definition env_set :: "utext \<Rightarrow> js_value \<Rightarrow> environment \<Rightarrow> environment" where
  "env_set x v env = (if x \<in> set (map fst env) then map (\<lambda>(y, w). (y, if y = x then v else w)) env else env @ [(x, v)])"

fun visit_values :: "(js_value \<Rightarrow> search_state \<Rightarrow> search_state result) \<Rightarrow> js_value list \<Rightarrow> search_state \<Rightarrow> search_state result" where
  "visit_values f [] st = Inr st"
| "visit_values f (v # vs) st = rbind (f v st) (visit_values f vs)"

primrec visit :: "theorem_dsl \<Rightarrow> bool \<Rightarrow> (utext \<times> js_value list) list \<Rightarrow> environment \<Rightarrow> search_state \<Rightarrow> search_state result" where
  "visit dsl exact [] env st =
    (if snd st \<noteq> None then Inr st
     else rbind (refutes dsl exact env) (\<lambda>b. Inr (fst st + 1, if b then Some env else None)))"
| "visit dsl exact (b # bs) env st =
    (if snd st \<noteq> None then Inr st
     else visit_values (\<lambda>v. visit dsl exact bs (env_set (fst b) v env)) (snd b) st)"

datatype search_status = Counterexample_found | Absent_complete_finite_domain | Inconclusive

datatype search_reason = Witness_evaluates_conclusion_false | All_finite_assignments_checked | Bounded_prefix_exhausted
  | Assignment_limit_exceeded

record search_result =
  sr_status :: search_status
  sr_reason :: search_reason
  checkedAssignments :: nat
  completeFiniteDomain :: bool
  sr_witness :: "environment option"

definition search_outcome :: "bool \<Rightarrow> search_state \<Rightarrow> search_result" where
  "search_outcome all_listed st =
    (let w = snd st in
     \<lparr>sr_status = (if w \<noteq> None then Counterexample_found else if all_listed then Absent_complete_finite_domain else Inconclusive),
      sr_reason = (if w \<noteq> None then Witness_evaluates_conclusion_false
        else if all_listed then All_finite_assignments_checked else Bounded_prefix_exhausted),
      checkedAssignments = fst st, completeFiniteDomain = all_listed, sr_witness = w\<rparr>)"

definition total_assignments :: "js_value list list \<Rightarrow> js_number" where
  "total_assignments vss = foldl (\<lambda>t vs. number_mul t (Fin (int (length vs)))) (Fin 1) vss"

definition within_assignments :: "nat \<Rightarrow> js_number \<Rightarrow> bool" where
  "within_assignments limit t = (case t of Fin n \<Rightarrow> \<bar>n\<bar> \<le> 9007199254740991 \<and> n \<le> int limit | _ \<Rightarrow> False)"

definition safe_bound :: "nat \<Rightarrow> bool" where
  "safe_bound n = (int n \<le> 9007199254740991)"

definition searchTypedTheoremDslCounterexample :: "theorem_dsl \<Rightarrow> search_bounds \<Rightarrow> nat \<Rightarrow> search_result result" where
  "searchTypedTheoremDslCounterexample dsl b maximumAssignments =
    (if \<not> list_all safe_bound [natUpperBound b, intAbsoluteBound b, realAbsoluteBound b, maximumAssignments]
     then Inl ''typed_theorem_dsl_counterexample_bounds_invalid''
     else rbind (rmap (\<lambda>q. valuesForDomain b (b_domain q)) (binders dsl)) (\<lambda>ds.
       if \<not> within_assignments maximumAssignments (total_assignments (map snd ds))
       then Inr \<lparr>sr_status = Inconclusive, sr_reason = Assignment_limit_exceeded, checkedAssignments = 0,
         completeFiniteDomain = False, sr_witness = None\<rparr>
       else rbind (visit dsl (list_all (\<lambda>q. b_domain q = D_real) (binders dsl)) (zip (map b_name (binders dsl)) (map snd ds)) [] (0, None))
         (\<lambda>st. Inr (search_outcome (list_all fst ds) st))))"

definition default_bounds :: search_bounds where
  "default_bounds = \<lparr>natUpperBound = 32, intAbsoluteBound = 16, realAbsoluteBound = 8\<rparr>"

definition DEFAULT_MAXIMUM_ASSIGNMENTS :: nat where
  "DEFAULT_MAXIMUM_ASSIGNMENTS = 4096"

end
