(* ===== verification/Search_Properties.thy ===== *)
theory Search_Properties
  imports Theorem_Search
begin

text \<open>
  The counterexample search against the integers. On typed theorems whose values stay below
  \<open>2 ^ 53\<close> the search computes what the theorem says of integers and booleans: a counterexample
  it reports is one, and over a finite domain it misses none. Outside that range, and where a
  domain has an arithmetic of its own, the theorems at the end show what it reports instead.
\<close>

section \<open>The search visits the assignments in order\<close>

primrec assignments :: "(utext \<times> js_value list) list \<Rightarrow> environment \<Rightarrow> environment list" where
  "assignments [] env = [env]"
| "assignments (b # bs) env = concat (map (\<lambda>v. assignments bs (env_set (fst b) v env)) (snd b))"

fun scan_assignments :: "(environment \<Rightarrow> bool result) \<Rightarrow> environment list \<Rightarrow> search_state \<Rightarrow> search_state result" where
  "scan_assignments f [] st = Inr st"
| "scan_assignments f (e # es) st =
    (if snd st \<noteq> None then Inr st else rbind (f e) (\<lambda>b. scan_assignments f es (fst st + 1, if b then Some e else None)))"

lemma scan_found: "snd st \<noteq> None \<Longrightarrow> scan_assignments f es st = Inr st"
  by (cases es) auto

lemma scan_append: "scan_assignments f (es @ es') st = rbind (scan_assignments f es st) (scan_assignments f es')"
proof (induction es arbitrary: st)
  case (Cons e es)
  show ?case
  proof (cases "snd st = None")
    case True
    then show ?thesis by (cases "f e") (simp_all add: Cons.IH)
  qed (simp add: scan_found)
qed simp

lemma visit_values_scan:
  assumes "\<And>v. f v = scan_assignments g (h v)"
  shows "visit_values f vs = scan_assignments g (concat (map h vs))"
proof (induction vs)
  case (Cons v vs)
  show ?case by (rule ext) (simp add: assms scan_append Cons.IH [unfolded assms])
qed (simp add: fun_eq_iff)

lemma visit_scan: "visit dsl exact bs env = scan_assignments (refutes dsl exact) (assignments bs env)"
proof (induction bs arbitrary: env)
  case Nil
  have "visit dsl exact [] env st = scan_assignments (refutes dsl exact) (assignments [] env) st" for st
    by (cases "refutes dsl exact env") auto
  then show ?case by (rule ext)
next
  case (Cons b bs)
  have "visit_values (\<lambda>v. visit dsl exact bs (env_set (fst b) v env)) (snd b)
      = scan_assignments (refutes dsl exact) (concat (map (\<lambda>v. assignments bs (env_set (fst b) v env)) (snd b)))" for env
    by (rule visit_values_scan) (rule Cons.IH)
  then show ?case by (auto simp: scan_found fun_eq_iff)
qed

lemma scan_pure:
  assumes "\<And>e. e \<in> set es \<Longrightarrow> f e = Inr (g e)"
  shows "\<exists>k. scan_assignments f es (n, None) = Inr (k, find g es)"
  using assms by (induction es arbitrary: n) (auto simp: scan_found)

section \<open>The integers behind the values\<close>

datatype math_value = I int | B bool

datatype kind = Numeric | Logical

fun value_kind :: "math_value \<Rightarrow> kind" where
  "value_kind (I n) = Numeric"
| "value_kind (B b) = Logical"

fun math_arith :: "(int \<Rightarrow> int \<Rightarrow> int) \<Rightarrow> math_value \<Rightarrow> math_value \<Rightarrow> math_value" where
  "math_arith f (I a) (I b) = I (f a b)"
| "math_arith f a b = I 0"

fun term_meaning :: "(utext \<Rightarrow> math_value) \<Rightarrow> dsl_term \<Rightarrow> math_value" where
  "term_meaning m (Variable x) = m x"
| "term_meaning m (Literal n) = I n"
| "term_meaning m (Boolean b) = B b"
| "term_meaning m Set_univ = I 0"
| "term_meaning m (Op operator l r) = (case operator of
     Add \<Rightarrow> math_arith (+) (term_meaning m l) (term_meaning m r)
   | Sub \<Rightarrow> math_arith (-) (term_meaning m l) (term_meaning m r)
   | Mul \<Rightarrow> math_arith (*) (term_meaning m l) (term_meaning m r)
   | Intersection \<Rightarrow> I 0)"

fun math_less :: "math_value \<Rightarrow> math_value \<Rightarrow> bool" where
  "math_less (I a) (I b) = (a < b)"
| "math_less a b = False"

definition relation_holds :: "(utext \<Rightarrow> math_value) \<Rightarrow> dsl_relation \<Rightarrow> bool" where
  "relation_holds m r = (let a = term_meaning m (rel_left r); b = term_meaning m (rel_right r) in
    case relation r of Eq \<Rightarrow> a = b | Ne \<Rightarrow> a \<noteq> b | Lt \<Rightarrow> math_less a b | Gt \<Rightarrow> math_less b a
    | Le \<Rightarrow> math_less a b \<or> a = b | Ge \<Rightarrow> math_less b a \<or> a = b)"

definition theorem_holds :: "theorem_dsl \<Rightarrow> (utext \<Rightarrow> math_value) \<Rightarrow> bool" where
  "theorem_holds dsl m = (list_all (relation_holds m) (assumptions dsl) \<longrightarrow> relation_holds m (conclusion dsl))"

definition domain_kind :: "domain \<Rightarrow> kind" where
  "domain_kind d = (if d = D_bool then Logical else Numeric)"

fun in_domain :: "domain \<Rightarrow> math_value \<Rightarrow> bool" where
  "in_domain D_bool (B b) = True"
| "in_domain D_nat (I n) = (0 \<le> n)"
| "in_domain D_int (I n) = True"
| "in_domain D_real (I n) = True"
| "in_domain (D_fin k) (I n) = (0 \<le> n \<and> n < int k)"
| "in_domain d v = False"

definition assigns :: "theorem_dsl \<Rightarrow> (utext \<Rightarrow> math_value) \<Rightarrow> bool" where
  "assigns dsl m = list_all (\<lambda>q. in_domain (b_domain q) (m (b_name q))) (binders dsl)"

definition env_meaning :: "environment \<Rightarrow> utext \<Rightarrow> math_value" where
  "env_meaning env x = (case map_of env x of Some (Number (Fin n)) \<Rightarrow> I n | Some (Bool_value b) \<Rightarrow> B b | _ \<Rightarrow> I 0)"

section \<open>Typed theorems\<close>

fun term_kind :: "(utext \<Rightarrow> kind option) \<Rightarrow> dsl_term \<Rightarrow> kind option" where
  "term_kind ks (Variable x) = ks x"
| "term_kind ks (Literal n) = Some Numeric"
| "term_kind ks (Boolean b) = Some Logical"
| "term_kind ks Set_univ = None"
| "term_kind ks (Op operator l r) =
    (if operator \<noteq> Intersection \<and> term_kind ks l = Some Numeric \<and> term_kind ks r = Some Numeric then Some Numeric else None)"

definition relation_typed :: "(utext \<Rightarrow> kind option) \<Rightarrow> dsl_relation \<Rightarrow> bool" where
  "relation_typed ks r = (term_kind ks (rel_left r) \<noteq> None \<and> term_kind ks (rel_left r) = term_kind ks (rel_right r)
    \<and> (relation r \<in> {Eq, Ne} \<or> term_kind ks (rel_left r) = Some Numeric))"

definition variable_kinds :: "theorem_dsl \<Rightarrow> utext \<Rightarrow> kind option" where
  "variable_kinds dsl = map_of (map (\<lambda>q. (b_name q, domain_kind (b_domain q))) (binders dsl))"

definition theorem_typed :: "theorem_dsl \<Rightarrow> bool" where
  "theorem_typed dsl = (distinct (map b_name (binders dsl))
    \<and> list_all (relation_typed (variable_kinds dsl)) (conclusion dsl # assumptions dsl))"

section \<open>Values below \<open>2 ^ 53\<close>\<close>

fun term_bound :: "int \<Rightarrow> dsl_term \<Rightarrow> int" where
  "term_bound M (Variable x) = M"
| "term_bound M (Literal n) = \<bar>n\<bar>"
| "term_bound M (Op operator l r) = (if operator = Mul then term_bound M l * term_bound M r else term_bound M l + term_bound M r)"
| "term_bound M t = 0"

fun term_small :: "int \<Rightarrow> dsl_term \<Rightarrow> bool" where
  "term_small M (Op operator l r) = (term_small M l \<and> term_small M r \<and> term_bound M (Op operator l r) < 2 ^ 53)"
| "term_small M t = True"

definition theorem_small :: "int \<Rightarrow> theorem_dsl \<Rightarrow> bool" where
  "theorem_small M dsl = list_all (\<lambda>r. term_small M (rel_left r) \<and> term_small M (rel_right r)) (conclusion dsl # assumptions dsl)"

definition domain_listed :: "search_bounds \<Rightarrow> int \<Rightarrow> domain \<Rightarrow> bool" where
  "domain_listed b M d = (case d of
     D_bool \<Rightarrow> True
   | D_fin n \<Rightarrow> int n \<le> 4294967295 \<and> int n \<le> M
   | D_nat \<Rightarrow> int (natUpperBound b) < 4294967295 \<and> int (natUpperBound b) \<le> M
   | D_int \<Rightarrow> int (intAbsoluteBound b) < 2147483648 \<and> int (intAbsoluteBound b) \<le> M
   | D_real \<Rightarrow> int (realAbsoluteBound b) < 2147483648 \<and> int (realAbsoluteBound b) \<le> M
   | _ \<Rightarrow> False)"

lemma bit_length_bound: "n < 2 ^ k \<Longrightarrow> bit_length n \<le> k"
proof (induction k arbitrary: n)
  case 0
  then show ?case by (subst bit_length.simps) simp
next
  case (Suc k)
  then have "bit_length (n div 2) \<le> k" by simp
  then show ?case by (subst bit_length.simps) simp
qed

lemma to_binary64_exact: "\<bar>x\<bar> < 2 ^ 53 \<Longrightarrow> to_binary64 x = Fin x"
proof -
  assume "\<bar>x\<bar> < 2 ^ 53"
  then have "bit_length \<bar>x\<bar> \<le> 53" by (rule bit_length_bound)
  moreover from this have "round_magnitude \<bar>x\<bar> = \<bar>x\<bar>"
    by (simp add: round_magnitude_def round_half_even_def Let_def)
  ultimately show ?thesis by (simp add: to_binary64_def Let_def)
qed

section \<open>Evaluation is exact\<close>

definition js_of :: "bool \<Rightarrow> math_value \<Rightarrow> js_value" where
  "js_of exact v = (case v of I n \<Rightarrow> if exact then Big n else Number (Fin n) | B b \<Rightarrow> Bool_value b)"

definition magnitude_at_most :: "int \<Rightarrow> math_value \<Rightarrow> bool" where
  "magnitude_at_most M v = (case v of I n \<Rightarrow> \<bar>n\<bar> \<le> M | B b \<Rightarrow> True)"

definition represents :: "(utext \<Rightarrow> kind option) \<Rightarrow> bool \<Rightarrow> int \<Rightarrow> environment \<Rightarrow> (utext \<Rightarrow> math_value) \<Rightarrow> bool" where
  "represents ks exact M env m = (\<forall>x k. ks x = Some k \<longrightarrow>
    map_of env x = Some (js_of exact (m x)) \<and> value_kind (m x) = k \<and> magnitude_at_most M (m x))"

lemma js_of_simps [simp]: "js_of exact (I n) = (if exact then Big n else Number (Fin n))" "js_of exact (B b) = Bool_value b"
  "magnitude_at_most M (I n) \<longleftrightarrow> \<bar>n\<bar> \<le> M" "magnitude_at_most M (B b)"
  by (simp_all add: js_of_def magnitude_at_most_def)

lemma numeric_value: "value_kind v = Numeric \<Longrightarrow> \<exists>n. v = I n"
  by (cases v) auto

lemma arith_exact:
  assumes "\<bar>x\<bar> \<le> a" "\<bar>y\<bar> \<le> b"
  shows "a + b < 2 ^ 53 \<Longrightarrow> number_add (Fin x) (Fin y) = Fin (x + y)"
    "a + b < 2 ^ 53 \<Longrightarrow> number_sub (Fin x) (Fin y) = Fin (x - y)"
    "a * b < 2 ^ 53 \<Longrightarrow> number_mul (Fin x) (Fin y) = Fin (x * y)"
proof -
  show "number_add (Fin x) (Fin y) = Fin (x + y)" if "a + b < 2 ^ 53"
    using assms that by (simp add: to_binary64_exact)
  show "number_sub (Fin x) (Fin y) = Fin (x - y)" if "a + b < 2 ^ 53"
    using assms that by (simp add: number_sub_def number_negate_def to_binary64_exact)
  have "\<bar>x * y\<bar> \<le> a * b" using assms by (auto simp: abs_mult intro: mult_mono)
  then show "number_mul (Fin x) (Fin y) = Fin (x * y)" if "a * b < 2 ^ 53"
    using that by (simp add: to_binary64_exact)
qed

lemma term_exact:
  assumes "represents ks exact M env m"
  shows "term_kind ks t = Some k \<Longrightarrow> exact \<or> term_small M t \<Longrightarrow> termValue t env exact = Inr (js_of exact (term_meaning m t))
    \<and> value_kind (term_meaning m t) = k \<and> magnitude_at_most (term_bound M t) (term_meaning m t)"
proof (induction t arbitrary: k)
  case (Variable x)
  with assms show ?case by (auto simp: represents_def)
next
  case (Op operator l r)
  from Op.prems have kinds: "term_kind ks l = Some Numeric" "term_kind ks r = Some Numeric" "k = Numeric" "operator \<noteq> Intersection"
    by (auto split: if_splits)
  from Op.prems have small: "exact \<or> term_small M l" "exact \<or> term_small M r" by auto
  from Op.IH(1) [OF kinds(1) small(1)] Op.IH(2) [OF kinds(2) small(2)] obtain x y where
    l: "termValue l env exact = Inr (js_of exact (I x))" "term_meaning m l = I x" "\<bar>x\<bar> \<le> term_bound M l" and
    r: "termValue r env exact = Inr (js_of exact (I y))" "term_meaning m r = I y" "\<bar>y\<bar> \<le> term_bound M r"
    by (metis numeric_value js_of_simps(3))
  have "\<bar>x * y\<bar> \<le> term_bound M l * term_bound M r" using l(3) r(3) by (auto simp: abs_mult intro: mult_mono)
  then show ?case
    using Op.prems(2) kinds l r arith_exact [OF l(3) r(3)]
    by (cases operator; cases exact) (auto simp: to_number_def)
qed auto

lemma math_compare: "value_kind v = value_kind w \<Longrightarrow> value_kind v = Numeric \<or> r \<in> {Eq, Ne} \<Longrightarrow>
    compare_values r (js_of exact v) (js_of exact w) =
      (case r of Eq \<Rightarrow> v = w | Ne \<Rightarrow> v \<noteq> w | Lt \<Rightarrow> math_less v w | Gt \<Rightarrow> math_less w v
       | Le \<Rightarrow> math_less v w \<or> v = w | Ge \<Rightarrow> math_less w v \<or> v = w)"
  by (cases v; cases w; cases r; cases exact) (auto simp: compare_values_def to_number_def number_le_def)

lemma relation_exact:
  assumes "represents ks exact M env m" "relation_typed ks r" "exact \<or> term_small M (rel_left r) \<and> term_small M (rel_right r)"
  shows "relationValue r env exact = Inr (relation_holds m r)"
proof -
  from assms(2) obtain k where k: "term_kind ks (rel_left r) = Some k" "term_kind ks (rel_right r) = Some k"
    "relation r \<in> {Eq, Ne} \<or> k = Numeric"
    by (auto simp: relation_typed_def)
  have l: "termValue (rel_left r) env exact = Inr (js_of exact (term_meaning m (rel_left r)))" "value_kind (term_meaning m (rel_left r)) = k"
    using term_exact [OF assms(1) k(1)] assms(3) by auto
  have q: "termValue (rel_right r) env exact = Inr (js_of exact (term_meaning m (rel_right r)))" "value_kind (term_meaning m (rel_right r)) = k"
    using term_exact [OF assms(1) k(2)] assms(3) by auto
  show ?thesis
    using math_compare [of "term_meaning m (rel_left r)" "term_meaning m (rel_right r)" "relation r" exact] k(3) l q
    by (auto simp: relationValue_def relation_holds_def Let_def)
qed

lemma all_hold_exact:
  assumes "\<And>r. r \<in> set rs \<Longrightarrow> relationValue r env exact = Inr (relation_holds m r)"
  shows "all_hold rs env exact = Inr (list_all (relation_holds m) rs)"
  using assms by (induction rs) auto

lemma exact_value_js_of: "exact_value (js_of False v) = js_of True v"
  by (cases v) (auto simp: exact_value_def)

lemma represents_exact: "represents ks False M env m \<Longrightarrow> represents ks True M (map (\<lambda>(x, v). (x, exact_value v)) env) m"
  by (fastforce simp: represents_def map_of_map exact_value_js_of)

lemma refutes_exact:
  assumes "represents (variable_kinds dsl) False M env m" "theorem_typed dsl" "exact \<or> theorem_small M dsl"
  shows "refutes dsl exact env = Inr (\<not> theorem_holds dsl m)"
proof -
  let ?env = "if exact then map (\<lambda>(x, v). (x, exact_value v)) env else env"
  have rep: "represents (variable_kinds dsl) exact M ?env m"
    using assms(1) represents_exact by auto
  have rel: "relationValue r ?env exact = Inr (relation_holds m r)" if "r \<in> set (conclusion dsl # assumptions dsl)" for r
    using assms(2,3) that by (intro relation_exact [OF rep]) (auto simp: theorem_typed_def theorem_small_def list_all_iff)
  have "all_hold (assumptions dsl) ?env exact = Inr (list_all (relation_holds m) (assumptions dsl))"
    by (rule all_hold_exact) (simp add: rel)
  then show ?thesis
    using rel [of "conclusion dsl"] by (simp add: refutes_def theorem_holds_def Let_def)
qed

section \<open>The assignments cover the domains\<close>

definition listed_for :: "int \<Rightarrow> domain \<Rightarrow> bool \<times> js_value list \<Rightarrow> bool" where
  "listed_for M d cv = ((\<forall>v \<in> set (snd cv). \<exists>w. v = js_of False w \<and> in_domain d w \<and> value_kind w = domain_kind d \<and> magnitude_at_most M w)
    \<and> (fst cv \<longrightarrow> (\<forall>w. in_domain d w \<longrightarrow> js_of False w \<in> set (snd cv))))"

lemma numbers_listed:
  assumes "\<And>i. i < n \<Longrightarrow> in_domain d (I (f i)) \<and> \<bar>f i\<bar> \<le> M" "domain_kind d = Numeric"
    "\<And>w. c \<Longrightarrow> in_domain d w \<Longrightarrow> \<exists>i<n. w = I (f i)" "int n \<le> 4294967295"
  shows "\<exists>cv. rbind (array_from n f) (\<lambda>vs. Inr (c, vs)) = Inr cv \<and> listed_for M d cv"
proof -
  have "listed_for M d (c, map (\<lambda>i. Number (Fin (f i))) [0..<n])"
    unfolding listed_for_def
  proof (intro conjI ballI impI allI)
    fix v
    assume "v \<in> set (snd (c, map (\<lambda>i. Number (Fin (f i))) [0..<n]))"
    then obtain i where "i < n" "v = js_of False (I (f i))" by auto
    then show "\<exists>w. v = js_of False w \<and> in_domain d w \<and> value_kind w = domain_kind d \<and> magnitude_at_most M w"
      using assms(1,2) by (intro exI [of _ "I (f i)"]) simp
  qed (use assms(3) in force)
  then show ?thesis using assms(4) by (simp add: array_from_def)
qed

lemma in_fin:
  assumes "in_domain (D_fin k) w"
  shows "\<exists>i<k. w = I (int i)"
proof (cases w)
  case (I n)
  with assms show ?thesis by (intro exI [of _ "nat n"]) auto
qed (use assms in simp)

lemma bools_listed: "listed_for M D_bool (True, [Bool_value False, Bool_value True])"
proof -
  have "\<exists>w. Bool_value b = js_of False w \<and> in_domain D_bool w \<and> value_kind w = Logical \<and> magnitude_at_most M w" for b
    by (rule exI [of _ "B b"]) simp
  moreover have "js_of False w \<in> {Bool_value False, Bool_value True}" if "in_domain D_bool w" for w
    using that by (cases w) auto
  ultimately show ?thesis by (simp add: listed_for_def domain_kind_def)
qed

lemma values_listed: "domain_listed b M d \<Longrightarrow> \<exists>cv. valuesForDomain b d = Inr cv \<and> listed_for M d cv"
proof (cases d)
  case D_bool
  then show ?thesis using bools_listed by (simp add: valuesForDomain_def)
next
  case (D_fin n)
  assume "domain_listed b M d"
  then show ?thesis
    unfolding D_fin valuesForDomain_def domain.case
    by (intro numbers_listed) (auto simp: D_fin domain_listed_def domain_kind_def in_fin)
next
  case D_nat
  assume "domain_listed b M d"
  then show ?thesis
    unfolding D_nat valuesForDomain_def domain.case
    by (intro numbers_listed) (auto simp: D_nat domain_listed_def domain_kind_def)
next
  case D_int
  assume "domain_listed b M d"
  then show ?thesis
    unfolding D_int valuesForDomain_def domain.case
    by (intro numbers_listed) (auto simp: D_int domain_listed_def domain_kind_def)
next
  case D_real
  assume "domain_listed b M d"
  then show ?thesis
    unfolding D_real valuesForDomain_def domain.case
    by (intro numbers_listed) (auto simp: D_real domain_listed_def domain_kind_def)
qed (auto simp: domain_listed_def)

lemma env_set_fresh: "x \<notin> set (map fst env) \<Longrightarrow> env_set x v env = env @ [(x, v)]"
  by (simp add: env_set_def)

lemma assignments_iff:
  "distinct (map fst env @ map fst bs) \<Longrightarrow>
    e \<in> set (assignments bs env) \<longleftrightarrow> (\<exists>vs. list_all2 (\<lambda>v b. v \<in> set (snd b)) vs bs \<and> e = env @ zip (map fst bs) vs)"
proof (induction bs arbitrary: env)
  case (Cons b bs)
  have "e \<in> set (assignments bs (env_set (fst b) v env)) \<longleftrightarrow>
      (\<exists>vs. list_all2 (\<lambda>v b. v \<in> set (snd b)) vs bs \<and> e = env @ (fst b, v) # zip (map fst bs) vs)" for v
    using Cons.prems by (subst env_set_fresh) (auto simp: Cons.IH)
  then show ?case
    by (auto simp: list_all2_Cons2) (metis zip_Cons_Cons)+
qed simp

lemma zip_represents:
  assumes "list_all2 (\<lambda>q v. v = js_of False (m (b_name q)) \<and> value_kind (m (b_name q)) = domain_kind (b_domain q)
      \<and> magnitude_at_most M (m (b_name q))) qs vs"
  shows "represents (map_of (map (\<lambda>q. (b_name q, domain_kind (b_domain q))) qs)) False M (zip (map b_name qs) vs) m"
  using assms by (induction qs vs rule: list_all2_induct) (auto simp: represents_def)

lemma js_of_inject [simp]: "js_of exact v = js_of exact w \<longleftrightarrow> v = w"
  by (cases v; cases w) auto

lemma env_meaning_of: "map_of env x = Some (js_of False w) \<Longrightarrow> env_meaning env x = w"
  by (cases w) (auto simp: env_meaning_def)

abbreviation listed_domains :: "int \<Rightarrow> quantified list \<Rightarrow> (bool \<times> js_value list) list \<Rightarrow> bool" where
  "listed_domains M qs ds \<equiv> list_all2 (\<lambda>q cv. listed_for M (b_domain q) cv) qs ds"

abbreviation variable_lists :: "quantified list \<Rightarrow> (bool \<times> js_value list) list \<Rightarrow> (utext \<times> js_value list) list" where
  "variable_lists qs ds \<equiv> zip (map b_name qs) (map snd ds)"

lemma listed_assignment:
  assumes "listed_domains M qs ds" "distinct (map b_name qs)" "e \<in> set (assignments (variable_lists qs ds) [])"
  shows "represents (map_of (map (\<lambda>q. (b_name q, domain_kind (b_domain q))) qs)) False M e (env_meaning e)
    \<and> list_all (\<lambda>q. in_domain (b_domain q) (env_meaning e (b_name q))) qs"
proof -
  have len: "length qs = length ds" using assms(1) by (rule list_all2_lengthD)
  then have names: "map fst (variable_lists qs ds) = map b_name qs" by simp
  obtain vs where vs: "list_all2 (\<lambda>v b. v \<in> set (snd b)) vs (variable_lists qs ds)" and e: "e = zip (map b_name qs) vs"
    using assms(2,3) assignments_iff [of "[]" "variable_lists qs ds" e] names by auto
  have lens: "length vs = length qs" using list_all2_lengthD [OF vs] len by simp
  have "vs ! i = js_of False (env_meaning e (b_name (qs ! i))) \<and> in_domain (b_domain (qs ! i)) (env_meaning e (b_name (qs ! i)))
      \<and> value_kind (env_meaning e (b_name (qs ! i))) = domain_kind (b_domain (qs ! i)) \<and> magnitude_at_most M (env_meaning e (b_name (qs ! i)))"
    if i: "i < length qs" for i
  proof -
    have "vs ! i \<in> set (snd (ds ! i))" using list_all2_nthD [OF vs, of i] i lens len by simp
    then obtain w where w: "vs ! i = js_of False w" "in_domain (b_domain (qs ! i)) w" "value_kind w = domain_kind (b_domain (qs ! i))" "magnitude_at_most M w"
      using list_all2_nthD [OF assms(1) i] by (auto simp: listed_for_def)
    have "map_of e (b_name (qs ! i)) = Some (vs ! i)"
      using map_of_zip_nth [of "map b_name qs" vs i] assms(2) lens i by (simp add: e)
    then have "env_meaning e (b_name (qs ! i)) = w" using w(1) env_meaning_of by simp
    with w show ?thesis by simp
  qed
  then show ?thesis
    using zip_represents [of "env_meaning e" M qs vs] lens by (auto simp: e list_all2_conv_all_nth list_all_length)
qed

lemma assignment_listed:
  assumes "listed_domains M qs ds" "distinct (map b_name qs)" "list_all fst ds" "list_all (\<lambda>q. in_domain (b_domain q) (m (b_name q))) qs"
  shows "\<exists>e \<in> set (assignments (variable_lists qs ds) []). represents (map_of (map (\<lambda>q. (b_name q, domain_kind (b_domain q))) qs)) False M e m"
proof -
  have len: "length qs = length ds" using assms(1) by (rule list_all2_lengthD)
  let ?vs = "map (\<lambda>q. js_of False (m (b_name q))) qs"
  have in_list: "js_of False (m (b_name (qs ! i))) \<in> set (snd (ds ! i)) \<and> value_kind (m (b_name (qs ! i))) = domain_kind (b_domain (qs ! i))
      \<and> magnitude_at_most M (m (b_name (qs ! i)))" if "i < length qs" for i
  proof -
    have "listed_for M (b_domain (qs ! i)) (ds ! i)" using assms(1) that by (rule list_all2_nthD)
    moreover have "fst (ds ! i)" "in_domain (b_domain (qs ! i)) (m (b_name (qs ! i)))"
      using assms(3,4) that len by (simp_all add: list_all_length)
    ultimately show ?thesis by (fastforce simp: listed_for_def)
  qed
  have "list_all2 (\<lambda>v b. v \<in> set (snd b)) ?vs (variable_lists qs ds)"
    using in_list len by (simp add: list_all2_conv_all_nth)
  then have "zip (map b_name qs) ?vs \<in> set (assignments (variable_lists qs ds) [])"
    using assms(2) len assignments_iff [of "[]" "variable_lists qs ds"] by auto
  moreover have "represents (map_of (map (\<lambda>q. (b_name q, domain_kind (b_domain q))) qs)) False M (zip (map b_name qs) ?vs) m"
    using in_list by (intro zip_represents) (simp add: list_all2_conv_all_nth)
  ultimately show ?thesis by blast
qed

section \<open>What a search reports\<close>

lemma domains_listed:
  assumes "list_all (\<lambda>q. domain_listed b M (b_domain q)) qs"
  shows "\<exists>ds. rmap (\<lambda>q. valuesForDomain b (b_domain q)) qs = Inr ds \<and> listed_domains M qs ds"
  using assms
proof (induction qs)
  case (Cons q qs)
  then obtain ds where "rmap (\<lambda>q. valuesForDomain b (b_domain q)) qs = Inr ds" "listed_domains M qs ds" by auto
  moreover obtain cv where "valuesForDomain b (b_domain q) = Inr cv" "listed_for M (b_domain q) cv"
    using values_listed [of b M "b_domain q"] Cons.prems by auto
  ultimately show ?case by auto
qed simp

definition only_reals :: "theorem_dsl \<Rightarrow> bool" where
  "only_reals dsl = list_all (\<lambda>q. b_domain q = D_real) (binders dsl)"

definition reports_truth :: "theorem_dsl \<Rightarrow> search_result \<Rightarrow> bool" where
  "reports_truth dsl r =
    ((sr_status r = Counterexample_found \<longrightarrow> (\<exists>w. sr_witness r = Some w \<and> assigns dsl (env_meaning w) \<and> \<not> theorem_holds dsl (env_meaning w)))
     \<and> (sr_status r = Absent_complete_finite_domain \<longrightarrow> (\<forall>m. assigns dsl m \<longrightarrow> theorem_holds dsl m)))"

lemma searched_outcome:
  assumes "listed_domains M (binders dsl) ds" "theorem_typed dsl" "only_reals dsl \<or> theorem_small M dsl"
    "scan_assignments (refutes dsl (only_reals dsl)) (assignments (variable_lists (binders dsl) ds) []) (0, None) = Inr st"
  shows "reports_truth dsl (search_outcome (list_all fst ds) st)"
proof -
  let ?es = "assignments (variable_lists (binders dsl) ds) []"
  have distinct: "distinct (map b_name (binders dsl))" using assms(2) by (simp add: theorem_typed_def)
  note listed = listed_assignment [OF assms(1) distinct, folded variable_kinds_def]
  have pure: "refutes dsl (only_reals dsl) e = Inr (\<not> theorem_holds dsl (env_meaning e))" if "e \<in> set ?es" for e
    by (rule refutes_exact [OF conjunct1 [OF listed [OF that]] assms(2,3)])
  have found: "snd st = find (\<lambda>e. \<not> theorem_holds dsl (env_meaning e)) ?es"
    by (rule exE [OF scan_pure [of ?es "refutes dsl (only_reals dsl)" "\<lambda>e. \<not> theorem_holds dsl (env_meaning e)" 0, OF pure]])
      (simp_all add: assms(4))
  show ?thesis
  proof (cases "snd st")
    case None
    have "theorem_holds dsl m" if listed_all: "list_all fst ds" and m: "assigns dsl m" for m
    proof -
      obtain e where e: "e \<in> set ?es" "represents (variable_kinds dsl) False M e m"
        by (rule bexE [OF assignment_listed [OF assms(1) distinct listed_all m [unfolded assigns_def], folded variable_kinds_def]])
      have "theorem_holds dsl (env_meaning e)" using found None e(1) by (simp add: find_None_iff2)
      then show ?thesis using pure [OF e(1)] refutes_exact [OF e(2) assms(2,3)] by simp
    qed
    then show ?thesis by (auto simp: reports_truth_def search_outcome_def Let_def None)
  next
    case (Some e)
    then have "find (\<lambda>e. \<not> theorem_holds dsl (env_meaning e)) ?es = Some e" using found by simp
    then have "e \<in> set ?es" "\<not> theorem_holds dsl (env_meaning e)" by (auto simp: find_Some_iff)
    then show ?thesis
      using listed [of e] by (auto simp: reports_truth_def search_outcome_def Let_def Some assigns_def)
  qed
qed

text \<open>
  C26. A search that stays within its bounds tells the truth about the integers. For every
  typed theorem over booleans, bounded numbers, natural numbers, integers and reals whose terms
  stay below \<open>2 ^ 53\<close> (any size, if all variables are real, where the code uses exact
  integers), the search returns without an error; a witness it reports lies in the domains and
  refutes the theorem; and if it reports that a finite domain has no counterexample, the
  theorem holds for all values of the domains.
\<close>

theorem search_reports_truth:
  assumes "theorem_typed dsl" "only_reals dsl \<or> theorem_small M dsl" "list_all (\<lambda>q. domain_listed b M (b_domain q)) (binders dsl)"
    "list_all safe_bound [natUpperBound b, intAbsoluteBound b, realAbsoluteBound b, limit]"
  shows "\<exists>r. searchTypedTheoremDslCounterexample dsl b limit = Inr r \<and> reports_truth dsl r"
proof -
  obtain ds where ds: "rmap (\<lambda>q. valuesForDomain b (b_domain q)) (binders dsl) = Inr ds" "listed_domains M (binders dsl) ds"
    using domains_listed [OF assms(3)] by blast
  have distinct: "distinct (map b_name (binders dsl))" using assms(1) by (simp add: theorem_typed_def)
  let ?es = "assignments (variable_lists (binders dsl) ds) []"
  have pure: "refutes dsl (only_reals dsl) e = Inr (\<not> theorem_holds dsl (env_meaning e))" if "e \<in> set ?es" for e
    by (rule refutes_exact [OF conjunct1 [OF listed_assignment [OF ds(2) distinct that, folded variable_kinds_def]] assms(1,2)])
  obtain st where st: "scan_assignments (refutes dsl (only_reals dsl)) ?es (0, None) = Inr st"
    by (rule exE [OF scan_pure [of ?es "refutes dsl (only_reals dsl)" "\<lambda>e. \<not> theorem_holds dsl (env_meaning e)" 0, OF pure]])
  define limited where "limited = \<lparr>sr_status = Inconclusive, sr_reason = Assignment_limit_exceeded, checkedAssignments = 0,
         completeFiniteDomain = False, sr_witness = None\<rparr>"
  have search: "searchTypedTheoremDslCounterexample dsl b limit = Inr (if within_assignments limit (total_assignments (map snd ds))
      then search_outcome (list_all fst ds) st else limited)"
    using assms(4) st unfolding searchTypedTheoremDslCounterexample_def ds(1) visit_scan only_reals_def limited_def by simp
  have "reports_truth dsl limited" by (simp add: reports_truth_def limited_def)
  then show ?thesis using searched_outcome [OF ds(2) assms(1,2) st] unfolding search by auto
qed

section \<open>Reports that are wrong\<close>

definition over :: "domain \<Rightarrow> string list \<Rightarrow> relation_symbol \<Rightarrow> dsl_term \<Rightarrow> dsl_term \<Rightarrow> theorem_dsl" where
  "over d xs r a b = \<lparr>binders = map (\<lambda>x. \<lparr>b_name = u x, b_domain = d\<rparr>) xs, assumptions = [],
    conclusion = \<lparr>relation = r, rel_left = a, rel_right = b\<rparr>\<rparr>"

abbreviation var :: "string \<Rightarrow> dsl_term" where
  "var x \<equiv> Variable (u x)"

definition reported :: "theorem_dsl \<Rightarrow> search_status \<Rightarrow> bool" where
  "reported dsl status = (\<exists>r. searchTypedTheoremDslCounterexample dsl default_bounds DEFAULT_MAXIMUM_ASSIGNMENTS = Inr r
    \<and> sr_status r = status)"

text \<open>
  The meaning of a term in Lean when all variables range over one domain: natural numbers
  subtract down to zero, bounded numbers wrap around.
\<close>

definition lean_number :: "domain \<Rightarrow> int \<Rightarrow> int" where
  "lean_number d n = (case d of D_nat \<Rightarrow> max 0 n | D_fin k \<Rightarrow> n mod int k | _ \<Rightarrow> n)"

fun lean_term :: "domain \<Rightarrow> (utext \<Rightarrow> math_value) \<Rightarrow> dsl_term \<Rightarrow> math_value" where
  "lean_term d m (Literal n) = I (lean_number d n)"
| "lean_term d m (Op operator l r) = (case operator of
     Add \<Rightarrow> math_arith (\<lambda>a b. lean_number d (a + b)) (lean_term d m l) (lean_term d m r)
   | Sub \<Rightarrow> math_arith (\<lambda>a b. lean_number d (a - b)) (lean_term d m l) (lean_term d m r)
   | Mul \<Rightarrow> math_arith (\<lambda>a b. lean_number d (a * b)) (lean_term d m l) (lean_term d m r)
   | Intersection \<Rightarrow> I 0)"
| "lean_term d m t = term_meaning m t"

definition lean_relation :: "domain \<Rightarrow> (utext \<Rightarrow> math_value) \<Rightarrow> dsl_relation \<Rightarrow> bool" where
  "lean_relation d m r = (let a = lean_term d m (rel_left r); b = lean_term d m (rel_right r) in
    case relation r of Eq \<Rightarrow> a = b | Ne \<Rightarrow> a \<noteq> b | Lt \<Rightarrow> math_less a b | Gt \<Rightarrow> math_less b a
    | Le \<Rightarrow> math_less a b \<or> a = b | Ge \<Rightarrow> math_less b a \<or> a = b)"

definition lean_valid :: "domain \<Rightarrow> theorem_dsl \<Rightarrow> bool" where
  "lean_valid d dsl = (\<forall>m. assigns dsl m \<longrightarrow> list_all (lean_relation d m) (assumptions dsl) \<longrightarrow> lean_relation d m (conclusion dsl))"

definition subtraction_theorem :: theorem_dsl where
  "subtraction_theorem = over D_nat [''a'', ''b''] Ge (Op Sub (var ''a'') (var ''b'')) (Literal 0)"

definition cancellation_theorem :: theorem_dsl where
  "cancellation_theorem = over D_int [''a''] Eq
    (Op Sub (Op Add (var ''a'') (Literal 9007199254740991)) (Literal 9007199254740991)) (var ''a'')"

definition successor_theorem :: theorem_dsl where
  "successor_theorem = over (D_fin 2) [''a''] Ne (Op Add (var ''a'') (Literal 1)) (Literal 0)"

lemmas search_simps = reported_def searchTypedTheoremDslCounterexample_def over_def default_bounds_def DEFAULT_MAXIMUM_ASSIGNMENTS_def safe_bound_def
  valuesForDomain_def array_from_def total_assignments_def within_assignments_def to_binary64_exact visit_scan env_set_def refutes_def
  relationValue_def compare_values_def to_number_def number_sub_def number_negate_def number_le_def scan_found search_outcome_def u_def

lemma ex_subtraction: "reported subtraction_theorem Counterexample_found"
proof -
  have "[0..<33] = 0 # 1 # [2..<33::nat]" by (simp add: upt_conv_Cons)
  then show ?thesis by (simp add: subtraction_theorem_def search_simps)
qed

lemma ex_succ: "reported successor_theorem Absent_complete_finite_domain"
  by (simp add: successor_theorem_def search_simps upt_conv_Cons)

lemma ex_rounded: "to_binary64 9007199254740993 = Fin 9007199254740992"
  by code_simp

lemma ex_cancellation: "reported cancellation_theorem Counterexample_found"
proof -
  have "[0..<33] = [0..<18] @ 18 # [19..<33::nat]" by (simp add: upt_conv_Cons)
  moreover have "[0..<18] = [0, 1, 2, 3, 4, 5, 6, 7, 8, 9, 10, 11, 12, 13, 14, 15, 16, 17::nat]" by (simp add: upt_conv_Cons)
  ultimately show ?thesis by (simp add: cancellation_theorem_def search_simps ex_rounded)
qed

lemma nat_value: "in_domain D_nat v \<Longrightarrow> \<exists>n. v = I n \<and> 0 \<le> n"
  by (cases v) auto

lemma int_value: "in_domain D_int v \<Longrightarrow> \<exists>n. v = I n"
  by (cases v) auto

text \<open>
  C27. Three wrong reports, with the default bounds. Subtraction of natural numbers is
  computed in the integers, so \<open>a - b >= 0\<close> is refuted. Integers are computed in binary64, so
  \<open>a + 9007199254740991 - 9007199254740991 = a\<close> is refuted. Bounded numbers do not wrap around,
  so \<open>a + 1 != 0\<close> over \<open>Fin 2\<close> is reported as checked for all values. In Lean the first two
  are theorems and the third is false.
\<close>

theorem search_reports_wrong:
  "reported subtraction_theorem Counterexample_found \<and> lean_valid D_nat subtraction_theorem
   \<and> reported cancellation_theorem Counterexample_found \<and> lean_valid D_int cancellation_theorem
   \<and> reported successor_theorem Absent_complete_finite_domain \<and> \<not> lean_valid (D_fin 2) successor_theorem"
proof (intro conjI)
  show "lean_valid D_nat subtraction_theorem"
    by (auto simp: lean_valid_def subtraction_theorem_def over_def assigns_def lean_relation_def lean_number_def dest!: nat_value)
  show "lean_valid D_int cancellation_theorem"
    by (auto simp: lean_valid_def cancellation_theorem_def over_def assigns_def lean_relation_def lean_number_def dest!: int_value)
  show "\<not> lean_valid (D_fin 2) successor_theorem"
    by (auto simp: lean_valid_def successor_theorem_def over_def assigns_def lean_relation_def lean_number_def intro!: exI [of _ "\<lambda>_. I 1"])
qed (fact ex_subtraction ex_cancellation ex_succ)+

definition difference_theorem :: theorem_dsl where
  "difference_theorem = over D_int [''a'', ''b''] Ge (Op Sub (Op Mul (var ''a'') (var ''a'')) (var ''b'')) (Literal (-16))"

lemma search_reports_truth_witness:
  "\<exists>r. searchTypedTheoremDslCounterexample difference_theorem default_bounds DEFAULT_MAXIMUM_ASSIGNMENTS = Inr r \<and> reports_truth difference_theorem r"
proof (rule search_reports_truth [where M = 16])
  show "theorem_typed difference_theorem"
    by (simp add: theorem_typed_def difference_theorem_def over_def relation_typed_def variable_kinds_def domain_kind_def u_def)
  show "only_reals difference_theorem \<or> theorem_small 16 difference_theorem"
    by (simp add: theorem_small_def difference_theorem_def over_def)
  show "list_all (\<lambda>q. domain_listed default_bounds 16 (b_domain q)) (binders difference_theorem)"
    by (simp add: difference_theorem_def over_def domain_listed_def default_bounds_def)
qed (simp add: safe_bound_def default_bounds_def DEFAULT_MAXIMUM_ASSIGNMENTS_def)

end
