(* ===== verification/Dsl_Text.thy ===== *)
theory Dsl_Text
  imports Theorem_Dsl
begin

text \<open>
  Texts the compiler writes and the parser reads: spacing, numerals, parentheses and the scans
  that split a text at an operator, a relation, an arrow or a comma.
\<close>

section \<open>Spacing\<close>

lemma u_simps [simp]: "u [] = []" "u (c # s) = of_char c # u s" "length (u s) = length s"
  by (simp_all add: u_def)

lemma uspace_space [simp]: "uspace 32"
  by (simp add: uspace_def)

text \<open>Text with single spaces between words.\<close>

definition tidy :: "utext \<Rightarrow> bool" where
  "tidy s = (s \<noteq> [] \<and> \<not> uspace (hd s) \<and> \<not> uspace (last s) \<and> (\<forall>t. collapse (s @ t) = s @ collapse t))"

lemma tidy_word: "s \<noteq> [] \<Longrightarrow> list_all (\<lambda>c. \<not> uspace c) s \<Longrightarrow> tidy s"
proof -
  assume s: "s \<noteq> []" "list_all (\<lambda>c. \<not> uspace c) s"
  from s(2) have "collapse (s @ t) = s @ collapse t" for t by (induction s) auto
  with s show ?thesis by (auto simp: tidy_def list_all_iff)
qed

lemma tidy_append: "tidy a \<Longrightarrow> tidy b \<Longrightarrow> tidy (a @ b)"
  by (auto simp: tidy_def)

lemma collapse_gap:
  assumes "tidy b"
  shows "collapse (32 # b @ c) = 32 # b @ collapse c"
proof -
  have "collapse (b @ c) = b @ collapse c" using assms by (simp add: tidy_def)
  moreover obtain d ds where b: "b = d # ds" using assms by (cases b) (auto simp: tidy_def)
  moreover have "d \<noteq> 32" using assms uspace_space by (metis b list.sel(1) tidy_def)
  ultimately show ?thesis by simp
qed

lemma collapse_two_spaces: "collapse (32 # 32 # s) = collapse (32 # s)"
  by (auto split: list.splits)

lemma tidy_spaced: "tidy a \<Longrightarrow> tidy b \<Longrightarrow> tidy (a @ 32 # b)"
  using collapse_gap [of b] by (auto simp: tidy_def)

lemma tidy_collapse: "tidy s \<Longrightarrow> collapse s = s"
  unfolding tidy_def by (metis append_Nil2 collapse.simps(1))

lemma utrim_tidy:
  assumes "tidy s"
  shows "utrim s = s" "utrim (32 # s) = s" "utrim (s @ [32]) = s"
proof -
  have "dropWhile uspace s = s" using assms by (cases s) (auto simp: tidy_def)
  moreover have "dropWhile uspace (rev s) = rev s" using assms by (cases s rule: rev_cases) (auto simp: tidy_def)
  moreover have "dropWhile uspace (s @ [32]) = s @ [32]" using assms by (cases s) (auto simp: tidy_def)
  ultimately show "utrim s = s" "utrim (32 # s) = s" "utrim (s @ [32]) = s" by (simp_all add: utrim_def)
qed

lemma tidy_nonempty: "tidy s \<Longrightarrow> s \<noteq> []"
  by (simp add: tidy_def)

lemma uwords_word: "list_all (\<lambda>c. \<not> uspace c) x \<Longrightarrow> uwords w (x @ s) = uwords (w @ x) s"
  by (induction x arbitrary: w) auto

section \<open>Numerals\<close>

lemma udigit_of_char: "udigit (of_char c) \<longleftrightarrow> is_digit c"
  by (simp add: udigit_def is_digit_iff)

lemma unumber_value: "unumber (u s) = decimal_value s"
proof -
  have "fold (\<lambda>c n. 10 * n + (c - 48)) (u s) k = foldl (\<lambda>n c. 10 * n + digit_value c) k s" for k
    by (induction s arbitrary: k) (simp_all add: digit_value_def)
  then show ?thesis by (simp add: unumber_def decimal_value_def)
qed

lemma unat_text_value [simp]: "unumber (unat_text n) = n"
  by (simp add: unat_text_def unumber_value)

lemma unat_text_digits: "list_all udigit (unat_text n)" "unat_text n \<noteq> []"
  using nat_text_digits [of n] unfolding unat_text_def all_digits_def by (auto simp: u_def list_all_iff udigit_of_char)

lemma udigit_not_space: "udigit c \<Longrightarrow> \<not> uspace c"
  by (auto simp: udigit_def uspace_def)

lemma length_nat_text: "n < 10 ^ k \<Longrightarrow> 0 < k \<Longrightarrow> length (nat_text n) \<le> k"
proof (induction n arbitrary: k rule: nat_text.induct)
  case (1 n)
  show ?case
  proof (cases "n < 10")
    case False
    with 1(2,3) have "1 < k" by (cases "k = 1") auto
    then obtain k' where k: "k = Suc k'" "0 < k'" by (cases k) auto
    have "n div 10 < 10 ^ k'" using 1(2) by (simp add: k less_mult_imp_div_less)
    then have "length (nat_text (n div 10)) \<le> k'" using 1(1) [OF False] k(2) by simp
    then show ?thesis using False by (simp add: nat_text.simps [of n] k)
  qed (use 1 in \<open>simp add: nat_text.simps [of n]\<close>)
qed

lemma nat_text_head: "0 < n \<Longrightarrow> hd (nat_text n) \<noteq> digit_char 0"
proof (induction n rule: nat_text.induct)
  case (1 n)
  show ?case
  proof (cases "n < 10")
    case True
    have "of_char (digit_char n) \<noteq> (of_char (digit_char 0) :: nat)"
      using 1(2) True by (simp add: of_char_digit_char)
    then show ?thesis using True by (auto simp: nat_text.simps [of n])
  next
    case False
    moreover from this have "nat_text (n div 10) \<noteq> []" using nat_text_digits [of "n div 10"] by (auto simp: all_digits_def)
    ultimately show ?thesis using 1(1) by (simp add: nat_text.simps [of n])
  qed
qed

lemma numeral_of_text:
  assumes "0 < n" "n < 10 ^ k" "0 < k" "rest = [] \<or> \<not> udigit (hd rest)"
  shows "numeral_of k (unat_text n @ rest) = Some (n, rest)"
proof -
  have digits: "\<And>c. c \<in> set (unat_text n) \<Longrightarrow> udigit c" using unat_text_digits(1) by (simp add: list_all_iff)
  have "takeWhile udigit (unat_text n @ rest) = unat_text n" "dropWhile udigit (unat_text n @ rest) = rest"
    using assms(4) digits by (cases rest; simp)+
  moreover have "hd (unat_text n) \<noteq> 48"
  proof
    assume "hd (unat_text n) = 48"
    then have "of_char (hd (nat_text n)) = (48::nat)" using unat_text_digits(2) [of n] by (simp add: unat_text_def u_def hd_map)
    then have "of_char (hd (nat_text n)) = (of_char (digit_char 0)::nat)" by (simp add: of_char_digit_char)
    then show False using nat_text_head [OF assms(1)] by simp
  qed
  moreover have "length (unat_text n) \<le> k" using length_nat_text [OF assms(2,3)] by (simp add: unat_text_def)
  ultimately show ?thesis
    using unat_text_digits(2) [of n] by (simp add: numeral_of_def Let_def)
qed

section \<open>Depth\<close>

text \<open>Opening less closing parentheses of a text.\<close>

definition net :: "utext \<Rightarrow> int" where
  "net s = sum_list (map (depth_after 0) s)"

lemma depth_after_add: "depth_after d c = d + depth_after 0 c"
  by (simp add: depth_after_def)

lemma net_simps [simp]: "net [] = 0" "net (c # s) = depth_after 0 c + net s" "net (a @ b) = net a + net b" "net (rev s) = net s"
  by (simp_all add: net_def rev_map [symmetric] sum_list_rev)

lemma foldl_depth_after: "foldl depth_after d s = d + net s"
proof (induction s arbitrary: d)
  case (Cons c s)
  then show ?case by (simp add: depth_after_add [of d c])
qed simp

lemma depth_before_eq: "depth_before d c = d - depth_after 0 c"
  by (simp add: depth_before_def depth_after_def)

lemma foldl_depth_before: "foldl depth_before d s = d - net s"
  by (induction s arbitrary: d) (simp_all add: depth_before_eq)

lemma net_plain: "list_all (\<lambda>c. c \<noteq> 40 \<and> c \<noteq> 41) s \<Longrightarrow> net s = 0"
  by (induction s) (auto simp: depth_after_def)

lemma not_balanced: "foldl depth_after d x = 0 \<Longrightarrow> x \<noteq> [] \<Longrightarrow> y \<noteq> [] \<Longrightarrow> \<not> balanced_from d (x @ y)"
proof (induction x arbitrary: d)
  case (Cons c x)
  show ?case
  proof (cases "x = []")
    case False
    then show ?thesis using Cons.IH [of "depth_after d c"] Cons.prems by (simp add: Let_def)
  qed (use Cons.prems in \<open>simp add: Let_def\<close>)
qed simp

lemma strip_unwrapped: "net x = 0 \<Longrightarrow> x \<noteq> [] \<Longrightarrow> y \<noteq> [] \<Longrightarrow> strip_loop (x @ y) = x @ y"
  using not_balanced [of 0 x y] by (subst strip_loop.simps) (simp add: balancedOuterParentheses_def foldl_depth_after)

lemma strip_plain: "s = [] \<or> hd s \<noteq> 40 \<Longrightarrow> strip_loop s = s"
  by (subst strip_loop.simps) (auto simp: balancedOuterParentheses_def)

section \<open>The first match\<close>

lemma top_level_split_none:
  assumes "\<And>x y. s = x @ y \<Longrightarrow> y \<noteq> [] \<Longrightarrow> \<not> list_ex (\<lambda>t. take (length t) y = t) symbols"
  shows "top_level_split d symbols s = None"
  using assms
proof (induction s arbitrary: d)
  case (Cons c s)
  have "top_level_split (depth_after d c) symbols s = None"
  proof (rule Cons.IH)
    fix x y
    assume "s = x @ y" "y \<noteq> []"
    then show "\<not> list_ex (\<lambda>t. take (length t) y = t) symbols" using Cons.prems [of "c # x" y] by simp
  qed
  moreover have "\<not> list_ex (\<lambda>t. take (length t) (c # s) = t) symbols" using Cons.prems [of "[]" "c # s"] by simp
  ultimately show ?case by (simp add: Let_def)
qed simp

lemma top_level_split_at:
  assumes "\<And>x y. a = x @ y \<Longrightarrow> y \<noteq> [] \<Longrightarrow> \<not> list_ex (\<lambda>t. take (length t) (y @ b) = t) symbols"
    "d + net a = 0" "b \<noteq> []" "hd b \<noteq> 40" "hd b \<noteq> 41" "list_ex (\<lambda>t. take (length t) b = t) symbols"
  shows "top_level_split d symbols (a @ b) = Some (a, b)"
  using assms(1,2)
proof (induction a arbitrary: d)
  case Nil
  then show ?case using assms(3-6) by (cases b) (auto simp: Let_def depth_after_def)
next
  case (Cons c s)
  have "top_level_split (depth_after d c) symbols (s @ b) = Some (s, b)"
  proof (rule Cons.IH)
    fix x y
    assume "s = x @ y" "y \<noteq> []"
    then show "\<not> list_ex (\<lambda>t. take (length t) (y @ b) = t) symbols" using Cons.prems(1) [of "c # x" y] by simp
  qed (use Cons.prems(2) in \<open>simp add: depth_after_add [of d c]\<close>)
  moreover have "\<not> list_ex (\<lambda>t. take (length t) (c # s @ b) = t) symbols" using Cons.prems(1) [of "[]" "c # s"] by simp
  ultimately show ?case by (simp add: Let_def)
qed

text \<open>Single characters: the symbol does not occur before.\<close>

lemma split_at_char:
  assumes "net a = 0" "c \<notin> set a" "c \<noteq> 40" "c \<noteq> 41"
  shows "topLevelIndex (a @ c # b) [[c]] = Some (a, c # b)"
  unfolding topLevelIndex_def
proof (rule top_level_split_at)
  fix x y
  assume "a = x @ y" "y \<noteq> []"
  then show "\<not> list_ex (\<lambda>t. take (length t) (y @ c # b) = t) [[c]]" using assms(2) by (cases y) auto
qed (use assms in auto)

section \<open>The last operator\<close>

text \<open>No operator of the level stands outside parentheses, read from the end.\<close>

fun clear :: "(nat \<times> operator) list \<Rightarrow> int \<Rightarrow> utext \<Rightarrow> bool" where
  "clear level d [] = True"
| "clear level d (c # cs) = ((depth_before d c = 0 \<longrightarrow> map_of level c = None) \<and> clear level (depth_before d c) cs)"

lemma clear_append: "clear level d (a @ b) \<longleftrightarrow> clear level d a \<and> clear level (d - net a) b"
  by (induction a arbitrary: d) (simp_all add: depth_before_eq diff_diff_eq conj_ac)

lemma scan_clear: "clear level d y \<Longrightarrow> scan_operator level d (y @ rest) after = scan_operator level (d - net y) rest (rev y @ after)"
proof (induction y arbitrary: d after)
  case (Cons c y)
  have none: "(if depth_before d c = 0 then map_of level c else None) = None" using Cons.prems by simp
  have "scan_operator level d ((c # y) @ rest) after = scan_operator level (depth_before d c) (y @ rest) (c # after)"
    by (simp add: Let_def none del: if_split)
  also have "\<dots> = scan_operator level (depth_before d c - net y) rest (rev y @ c # after)" using Cons by simp
  finally show ?case by (simp add: depth_before_eq diff_diff_eq)
qed simp

lemma scan_none: "clear level 0 (rev s) \<Longrightarrow> scan_operator level 0 (rev s) [] = None"
  using scan_clear [of level 0 "rev s" "[]" "[]"] by simp

lemma scan_minus_none:
  assumes "clear level 0 (rev s)" "net s = 0"
  shows "scan_operator level 0 (rev (45 # s)) [] = None"
proof -
  have "scan_operator level 0 (rev (45 # s)) [] = scan_operator level 0 [45] s"
    using scan_clear [OF assms(1), of "[45]" "[]"] assms(2) by simp
  also have "\<dots> = None" by (simp add: Let_def depth_before_def split: option.splits)
  finally show ?thesis .
qed

lemma scan_finds_operator:
  assumes "clear level 0 (rev b)" "net b = 0" "map_of level c = Some operator" "map_of level 32 = None" "c \<noteq> 40" "c \<noteq> 41" "tidy a" "tidy b"
  shows "scan_operator level 0 (rev (a @ [32, c, 32] @ b)) [] = Some (operator, a, b)"
proof -
  have "clear level 0 (rev b @ [32])" using assms(1,2,4) by (simp add: clear_append depth_before_def)
  then have "scan_operator level 0 (rev (a @ [32, c, 32] @ b)) [] = scan_operator level 0 (c # 32 # rev a) (32 # b)"
    using scan_clear [of level 0 "rev b @ [32]" "c # 32 # rev a" "[]"] assms(2) by (simp add: depth_after_def)
  also have "\<dots> = Some (operator, a, b)"
    using assms(3,5,6) tidy_nonempty [OF assms(7)] tidy_nonempty [OF assms(8)] utrim_tidy [OF assms(7)] utrim_tidy [OF assms(8)]
    by (simp add: Let_def depth_before_def)
  finally show ?thesis .
qed

end
