(* ===== verification/Dsl_Round_Trip.thy ===== *)
theory Dsl_Round_Trip
  imports Dsl_Text
begin

text \<open>
  What the compiler writes the parser reads back, for terms nested the way the compiler can
  write them: without parentheses it repeats an operator, or one of its precedence, only on the
  left.
\<close>

section \<open>Canonical terms\<close>

definition name_ok :: "utext \<Rightarrow> bool" where
  "name_ok x = (SAFE_NAME x \<and> x \<notin> {u ''true'', u ''false'', u ''forall''})"

text \<open>The text of the term starts with the minus of a negative number.\<close>

fun leads_negative :: "dsl_term \<Rightarrow> nat \<Rightarrow> bool \<Rightarrow> bool" where
  "leads_negative (Literal n) parent right = (n < 0)"
| "leads_negative (Op operator l r) parent right = (\<not> parenthesized operator parent right \<and> leads_negative l (precedence operator) False)"
| "leads_negative t parent right = False"

fun repeats :: "operator \<Rightarrow> dsl_term \<Rightarrow> bool" where
  "repeats operator (Op operator' l r) = (precedence operator' = precedence operator \<and> operator' \<noteq> Sub)"
| "repeats operator t = False"

fun canonical :: "utext list \<Rightarrow> dsl_term \<Rightarrow> bool" where
  "canonical xs (Variable x) = (x \<in> set xs \<and> name_ok x)"
| "canonical xs (Literal n) = (\<bar>n\<bar> \<le> 9007199254740991)"
| "canonical xs (Op operator l r) = (canonical xs l \<and> canonical xs r \<and> \<not> leads_negative r (precedence operator) True \<and> \<not> repeats operator r)"
| "canonical xs t = True"

section \<open>Characters of a term\<close>

definition name_char :: "nat \<Rightarrow> bool" where
  "name_char c = (uletter c \<or> udigit c \<or> c = 39)"

lemma name_char_cases: "name_char c \<Longrightarrow> 48 \<le> c \<and> c \<le> 57 \<or> 65 \<le> c \<and> c \<le> 90 \<or> 97 \<le> c \<and> c \<le> 122 \<or> c = 95 \<or> c = 39"
  by (auto simp: name_char_def uletter_def udigit_def)

lemma safe_name_chars: "SAFE_NAME x \<Longrightarrow> list_all name_char x \<and> x \<noteq> [] \<and> uletter (hd x)"
  by (cases x) (auto simp: SAFE_NAME_def name_char_def list_all_iff)

definition term_char :: "nat \<Rightarrow> bool" where
  "term_char c = (name_char c \<or> c \<in> {32, 40, 41, 42, 43, 45, 46, 8745})"

lemma digits_are_name_chars: "list_all name_char (unat_text n)"
  using unat_text_digits(1) [of n] by (simp add: list_all_iff name_char_def)

lemma operator_symbol_char: "term_char (operator_symbol operator)"
  by (cases operator) (simp_all add: operator_symbol_def term_char_def)

lemma literal_text_chars: "list_all term_char (int_text n)"
  using digits_are_name_chars by (auto simp: int_text_def term_char_def list_all_iff)

lemma term_chars: "canonical xs t \<Longrightarrow> list_all term_char (compileTerm t p r)"
proof (induction t arbitrary: p r)
  case (Variable x)
  then show ?case using safe_name_chars [of x] by (auto simp: name_ok_def term_char_def list_all_iff)
next
  case (Op operator a b)
  then show ?case using operator_symbol_char by (simp add: Let_def) (simp add: term_char_def)
qed (simp_all add: literal_text_chars term_char_def name_char_def uletter_def)

section \<open>Shape of a term\<close>

abbreviation plain :: "utext \<Rightarrow> bool" where
  "plain s \<equiv> list_all (\<lambda>c. c \<noteq> 40 \<and> c \<noteq> 41 \<and> \<not> uspace c) s"

lemma name_plain: "list_all name_char s \<Longrightarrow> plain s"
  by (auto simp: list_all_iff uspace_def dest!: name_char_cases)

lemma literal_plain: "plain (int_text n)" "int_text n \<noteq> []"
  using name_plain [OF digits_are_name_chars] unat_text_digits(2) by (auto simp: int_text_def uspace_def)

lemma atom_plain:
  assumes "canonical xs t" "\<nexists>operator a b. t = Op operator a b"
  shows "plain (compileTerm t p r) \<and> compileTerm t p r \<noteq> []"
proof (cases t)
  case (Variable x)
  with assms safe_name_chars [of x] name_plain [of x] show ?thesis by (simp add: name_ok_def)
qed (use assms literal_plain in \<open>simp_all add: uspace_def\<close>)

lemma plain_tidy: "plain s \<Longrightarrow> s \<noteq> [] \<Longrightarrow> tidy s"
  by (rule tidy_word) (auto simp: list_all_iff)

lemma plain_net: "plain s \<Longrightarrow> net s = 0"
  by (rule net_plain) (auto simp: list_all_iff)

lemma symbol_plain: "operator_symbol operator \<notin> {32, 40, 41}" "\<not> uspace (operator_symbol operator)"
  by (cases operator; simp add: operator_symbol_def uspace_def)+

lemma tidy_parens: "tidy s \<Longrightarrow> tidy (40 # s @ [41])"
proof -
  assume "tidy s"
  then have "tidy ([40] @ s @ [41])"
    by (intro tidy_append) (simp_all add: tidy_word uspace_def)
  then show ?thesis by simp
qed

lemma term_shape: "canonical xs t \<Longrightarrow> tidy (compileTerm t p r) \<and> net (compileTerm t p r) = 0"
proof (induction t arbitrary: p r)
  case (Op operator a b)
  then have a: "tidy (compileTerm a q s)" "net (compileTerm a q s) = 0" and b: "tidy (compileTerm b q s)" "net (compileTerm b q s) = 0" for q s
    by auto
  let ?p = "precedence operator"
  have "tidy [operator_symbol operator]" using symbol_plain by (intro tidy_word) simp_all
  then have "tidy (compileTerm a ?p False @ 32 # [operator_symbol operator] @ 32 # compileTerm b ?p True)"
    using a(1) b(1) by (intro tidy_spaced)
  moreover have "depth_after 0 (operator_symbol operator) = 0" using symbol_plain [of operator] by (simp add: depth_after_def)
  ultimately show ?case
    using a(2) b(2) tidy_parens [of "compileTerm a ?p False @ 32 # [operator_symbol operator] @ 32 # compileTerm b ?p True"]
    by (simp add: Let_def) (simp add: depth_after_def)
qed (use atom_plain plain_tidy plain_net in blast)+

lemma balanced_plain: "0 < d \<Longrightarrow> plain x \<Longrightarrow> balanced_from d (x @ s) = balanced_from d s"
  by (induction x) (simp_all add: depth_after_def)

lemma balanced_skip: "0 < d \<Longrightarrow> canonical xs t \<Longrightarrow> s \<noteq> [] \<Longrightarrow> balanced_from d (compileTerm t p r @ s) = balanced_from d s"
proof (induction t arbitrary: d p r s)
  case (Op operator a b)
  have plain_step: "balanced_from d (c # s) = balanced_from d s" if "0 < d" "c \<noteq> 40" "c \<noteq> 41" for d c and s
    using that by (simp add: depth_after_def)
  have inner: "balanced_from d ((compileTerm a q False @ [32, operator_symbol operator, 32] @ compileTerm b q True) @ s) = balanced_from d s"
    if "0 < d" "s \<noteq> []" for d q s
    using Op that symbol_plain [of operator] by (simp add: plain_step del: balanced_from.simps)
  show ?case
  proof (cases "parenthesized operator p r")
    case True
    have "balanced_from d (40 # x) = balanced_from (d + 1) x" for x using Op.prems(1) by (simp add: depth_after_def)
    moreover have "balanced_from (d + 1) (41 # s) = balanced_from d s" using Op.prems(1) by (simp add: depth_after_def)
    ultimately show ?thesis using True inner [of "d + 1" "41 # s"] Op.prems(1) by (simp add: Let_def del: balanced_from.simps)
  next
    case False
    then show ?thesis using inner Op.prems by (simp add: Let_def del: balanced_from.simps)
  qed
qed (use atom_plain balanced_plain in blast)+

section \<open>Stripping a term\<close>

definition operator_text :: "operator \<Rightarrow> dsl_term \<Rightarrow> dsl_term \<Rightarrow> utext" where
  "operator_text operator a b = compileTerm a (precedence operator) False @ [32, operator_symbol operator, 32]
    @ compileTerm b (precedence operator) True"

lemma compile_operator: "compileTerm (Op operator a b) p r = (if parenthesized operator p r then 40 # operator_text operator a b @ [41]
    else operator_text operator a b)"
  by (simp add: operator_text_def Let_def)

lemma operator_text_shape:
  assumes "canonical xs (Op operator a b)"
  shows "tidy (operator_text operator a b)" "strip_loop (operator_text operator a b) = operator_text operator a b"
    "balanced_from 1 (operator_text operator a b @ [41])"
proof -
  have bare: "compileTerm (Op operator a b) 0 False = operator_text operator a b"
    by (simp add: operator_text_def Let_def parenthesized_def)
  show "tidy (operator_text operator a b)" using term_shape [OF assms, of 0 False] by (simp only: bare)
  have "canonical xs a" using assms by simp
  then have "net (compileTerm a q False) = 0" "compileTerm a q False \<noteq> []" for q
    using term_shape [of xs a q False] tidy_nonempty by auto
  then show "strip_loop (operator_text operator a b) = operator_text operator a b"
    unfolding operator_text_def by (intro strip_unwrapped) auto
  have "balanced_from 1 (compileTerm (Op operator a b) 0 False @ [41]) = balanced_from 1 [41]"
    using assms by (intro balanced_skip) auto
  then show "balanced_from 1 (operator_text operator a b @ [41])" by (simp add: bare depth_after_def del: compileTerm.simps)
qed

lemma strip_operator:
  assumes "canonical xs (Op operator a b)"
  shows "stripOuterParentheses (compileTerm (Op operator a b) p r) = operator_text operator a b"
proof -
  let ?s = "operator_text operator a b"
  note shape = operator_text_shape [OF assms]
  have "balancedOuterParentheses (40 # ?s @ [41])"
    using shape(3) by (simp add: balancedOuterParentheses_def depth_after_def)
  then have "strip_loop (40 # ?s @ [41]) = strip_loop (utrim ?s)" by (subst strip_loop.simps) simp
  then have "strip_loop (40 # ?s @ [41]) = ?s" using shape(1,2) by (simp add: utrim_tidy)
  then show ?thesis
    using shape(1,2) term_shape [OF assms, of p r]
    by (simp add: stripOuterParentheses_def compile_operator utrim_tidy del: compileTerm.simps)
qed

lemma strip_plain_text: "plain s \<Longrightarrow> s \<noteq> [] \<Longrightarrow> stripOuterParentheses s = s"
  using utrim_tidy(1) [OF plain_tidy, of s] by (cases s) (auto simp: stripOuterParentheses_def strip_plain)

section \<open>Finding the operator\<close>

definition level :: "nat \<Rightarrow> (nat \<times> operator) list" where
  "level q = ARITHMETIC ! q"

lemma level_symbol: "q < 3 \<Longrightarrow> map_of (level q) (operator_symbol operator) = (if precedence operator = q then Some operator else None)"
  by (cases operator; cases "q = 0"; cases "q = 1"; cases "q = 2") (auto simp: level_def ARITHMETIC_def operator_symbol_def precedence_def)

lemma level_other: "q < 3 \<Longrightarrow> c \<notin> {42, 43, 45, 8745} \<Longrightarrow> map_of (level q) c = None"
  by (cases "q = 0"; cases "q = 1"; cases "q = 2") (auto simp: level_def ARITHMETIC_def)

lemma level_name: "q < 3 \<Longrightarrow> name_char c \<Longrightarrow> map_of (level q) c = None"
  using name_char_cases [of c] by (intro level_other) auto

lemma clear_none: "\<forall>c \<in> set s. map_of lv c = None \<Longrightarrow> clear lv d s"
  by (induction s arbitrary: d) auto

definition lead_clear :: "nat \<Rightarrow> bool \<Rightarrow> utext \<Rightarrow> bool" where
  "lead_clear q negative s = (if negative then (\<exists>s'. s = 45 # s' \<and> net s' = 0 \<and> clear (level q) 0 (rev s')) else clear (level q) 0 (rev s))"

lemma plain_inside: "0 < d \<Longrightarrow> plain s \<Longrightarrow> clear lv d (rev s)"
proof (induction s)
  case (Cons c s)
  then show ?case using plain_net [of s] by (auto simp: clear_append depth_before_def)
qed simp

lemma clear_inside: "0 < d \<Longrightarrow> canonical xs t \<Longrightarrow> clear lv d (rev (compileTerm t p r))"
proof (induction t arbitrary: d p r)
  case (Op operator a b)
  have "clear lv d (rev (operator_text operator a b))" if "0 < d" for d
    using Op that symbol_plain [of operator] term_shape [of xs b]
    by (simp add: operator_text_def clear_append depth_before_def depth_after_def)
  moreover have "net (operator_text operator a b) = 0"
    using Op.prems term_shape [of xs a] term_shape [of xs b] symbol_plain [of operator] by (simp add: operator_text_def depth_after_def)
  ultimately show ?case
    using Op.prems(1) by (simp add: compile_operator clear_append depth_before_def depth_after_def del: compileTerm.simps)
qed (use atom_plain plain_inside in blast)+

lemma clear_parens:
  assumes "canonical xs (Op operator a b)" "q < 3"
  shows "clear (level q) 0 (rev (40 # operator_text operator a b @ [41]))"
proof -
  have bare: "compileTerm (Op operator a b) 0 False = operator_text operator a b"
    by (simp add: operator_text_def Let_def parenthesized_def)
  have "clear (level q) 1 (rev (operator_text operator a b))" "net (operator_text operator a b) = 0"
    using clear_inside [of 1 xs "Op operator a b" "level q" 0 False] term_shape [OF assms(1), of 0 False] assms by (simp_all only: bare)
  then show ?thesis using assms(2) by (simp add: clear_append depth_before_def level_other)
qed

lemma literal_clear: "q < 3 \<Longrightarrow> lead_clear q (n < 0) (int_text n)"
proof -
  assume q: "q < 3"
  have "map_of (level q) c = None" if "c \<in> set (unat_text k)" for c k
    using that q unat_text_digits(1) [of k] by (intro level_other) (auto simp: list_all_iff udigit_def)
  then have "clear (level q) 0 (rev (unat_text k))" for k by (intro clear_none) simp
  then show ?thesis
    using plain_net [OF name_plain [OF digits_are_name_chars]] by (simp add: lead_clear_def int_text_def)
qed

lemma atom_clear:
  assumes "canonical xs t" "\<nexists>operator a b. t = Op operator a b" "q < 3"
  shows "lead_clear q (leads_negative t p r) (compileTerm t p r)"
proof (cases t)
  case (Variable x)
  then have "list_all name_char x" using assms(1) safe_name_chars by (simp add: name_ok_def)
  then have "\<forall>c \<in> set x. map_of (level q) c = None"
    using assms(3) level_name by (simp add: list_all_iff)
  then show ?thesis by (simp add: Variable lead_clear_def clear_none)
qed (use assms literal_clear in \<open>simp_all add: lead_clear_def level_other depth_before_def\<close>)

lemma lead_clear_append:
  assumes "lead_clear q negative x" "net x = 0" "clear (level q) 0 (rev y)" "net y = 0"
  shows "lead_clear q negative (x @ y)"
  using assms by (auto simp: lead_clear_def clear_append)

text \<open>A level whose operators all bind weaker than those outside the parentheses of the text.\<close>

lemma weaker_clear:
  "canonical xs t \<Longrightarrow> q < p \<Longrightarrow> q < 3 \<Longrightarrow> lead_clear q (leads_negative t p r) (compileTerm t p r)"
proof (induction t arbitrary: p r)
  case (Op operator a b)
  show ?case
  proof (cases "parenthesized operator p r")
    case True
    then show ?thesis using clear_parens [OF Op.prems(1,3)] by (simp add: lead_clear_def compile_operator del: compileTerm.simps)
  next
    case False
    then have q: "q < precedence operator" using Op.prems(2) by (auto simp: parenthesized_def)
    have "lead_clear q (leads_negative b (precedence operator) True) (compileTerm b (precedence operator) True)"
      using Op.IH(2) [of "precedence operator" True] Op.prems q by simp
    then have "clear (level q) 0 (rev ([32, operator_symbol operator, 32] @ compileTerm b (precedence operator) True))"
      using Op.prems q term_shape [of xs b "precedence operator" True] symbol_plain [of operator]
      by (simp add: lead_clear_def clear_append level_symbol level_other depth_before_def)
    then have "lead_clear q (leads_negative a (precedence operator) False) (operator_text operator a b)"
      unfolding operator_text_def
      using Op q term_shape [of xs a "precedence operator" False] term_shape [of xs b "precedence operator" True] symbol_plain [of operator]
      by (intro lead_clear_append) (simp_all add: depth_after_def)
    then show ?thesis using False by (simp add: compile_operator del: compileTerm.simps)
  qed
qed (use atom_clear in blast)+

lemma scan_lead_clear: "lead_clear q negative s \<Longrightarrow> scan_operator (level q) 0 (rev s) [] = None"
  using scan_none scan_minus_none by (auto simp: lead_clear_def split: if_splits)

lemma precedence_levels: "precedence operator < 3"
  by (cases operator) (simp_all add: precedence_def)

lemma right_clear:
  assumes "canonical xs (Op operator a b)"
  shows "clear (level (precedence operator)) 0 (rev (compileTerm b (precedence operator) True))"
proof -
  let ?q = "precedence operator"
  have b: "canonical xs b" "\<not> leads_negative b ?q True" "\<not> repeats operator b" using assms by auto
  show ?thesis
  proof (cases "\<exists>operator' c d. b = Op operator' c d")
    case False
    then have "lead_clear ?q (leads_negative b ?q True) (compileTerm b ?q True)"
      using b(1) precedence_levels by (intro atom_clear) auto
    then show ?thesis using b(2) by (simp add: lead_clear_def)
  next
    case True
    then obtain operator' c d where op: "b = Op operator' c d" by blast
    show ?thesis
    proof (cases "parenthesized operator' ?q True")
      case True
      then show ?thesis
        using clear_parens [of xs operator' c d ?q] b(1) precedence_levels by (simp add: op compile_operator del: compileTerm.simps)
    next
      case False
      then have stronger: "?q < precedence operator'" using b(3) by (auto simp: op parenthesized_def)
      have bare: "\<not> parenthesized operator' (precedence operator') False" by (simp add: parenthesized_def)
      have "lead_clear ?q (leads_negative b (precedence operator') False) (compileTerm b (precedence operator') False)"
        using b(1) stronger precedence_levels by (intro weaker_clear) auto
      then show ?thesis
        using False bare b(2) by (simp add: op compile_operator lead_clear_def del: compileTerm.simps)
    qed
  qed
qed

lemma levels: "ARITHMETIC = [level 0, level 1, level 2]"
  by (simp add: level_def ARITHMETIC_def)

lemma find_operator_text:
  assumes "canonical xs (Op operator a b)"
  shows "find_operator ARITHMETIC (operator_text operator a b)
    = Some (operator, compileTerm a (precedence operator) False, compileTerm b (precedence operator) True)"
proof -
  let ?p = "precedence operator"
  have "\<not> parenthesized operator ?p False" by (simp add: parenthesized_def)
  then have bare: "compileTerm (Op operator a b) ?p False = operator_text operator a b" by (simp add: compile_operator del: compileTerm.simps)
  have weaker: "scan_operator (level q) 0 (rev (operator_text operator a b)) [] = None" if "q < ?p" for q
    using scan_lead_clear [OF weaker_clear [OF assms that, of False]] precedence_levels [of operator] that by (simp only: bare)
  have here: "scan_operator (level ?p) 0 (rev (operator_text operator a b)) []
      = Some (operator, compileTerm a ?p False, compileTerm b ?p True)"
    unfolding operator_text_def
    using assms right_clear [OF assms] term_shape [of xs a ?p False] term_shape [of xs b ?p True] precedence_levels [of operator] symbol_plain [of operator]
    by (intro scan_finds_operator) (simp_all add: level_symbol level_other)
  consider "?p = 0" | "?p = 1" | "?p = 2" using precedence_levels [of operator] by linarith
  then show ?thesis
    using weaker [of 0] weaker [of 1] here by cases (simp_all add: levels or_try_def)
qed

lemma find_operator_atom:
  assumes "canonical xs t" "\<nexists>operator a b. t = Op operator a b"
  shows "find_operator ARITHMETIC (compileTerm t p r) = None"
  using scan_lead_clear [OF atom_clear [OF assms]] by (simp add: levels or_try_def)

section \<open>Parsing a compiled term\<close>

lemma signed_number_text [simp]: "signed_number (int_text n) = Some n"
proof (cases "n < 0")
  case False
  obtain c cs where digits: "unat_text (nat n) = c # cs" using unat_text_digits(2) [of "nat n"] by (cases "unat_text (nat n)") auto
  then have "list_all udigit (c # cs)" "unumber (c # cs) = nat n" using unat_text_digits(1) [of "nat n"] unat_text_value [of "nat n"] by simp_all
  moreover from this have "c \<noteq> 45" by (auto simp: udigit_def)
  ultimately show ?thesis using False by (simp add: signed_number_def int_text_def digits)
qed (use unat_text_digits in \<open>simp add: signed_number_def int_text_def\<close>)

lemma signed_number_name: "SAFE_NAME x \<Longrightarrow> signed_number x = None"
  by (cases x) (auto simp: SAFE_NAME_def signed_number_def uletter_def udigit_def)

lemma parse_name:
  assumes "x \<in> set xs" "name_ok x"
  shows "parse_atom xs x = Inr (Variable x)"
proof -
  have safe: "SAFE_NAME x" using assms(2) by (simp add: name_ok_def)
  have "\<not> name_char 46" by (simp add: name_char_def uletter_def udigit_def)
  then have "46 \<notin> set x" using safe_name_chars [OF safe] by (auto simp: list_all_iff)
  then have "x \<noteq> u ''Set.univ''" by auto
  then show ?thesis using assms signed_number_name [OF safe] by (simp add: parse_atom_def name_ok_def del: u_simps)
qed

lemma parse_atom_text:
  assumes "canonical xs t" "\<nexists>operator a b. t = Op operator a b"
  shows "parse_atom xs (compileTerm t p r) = Inr t"
proof (cases t)
  case (Boolean b)
  then show ?thesis by (cases b) (simp_all add: parse_atom_def signed_number_def udigit_def)
next
  case Set_univ
  then show ?thesis by (simp add: parse_atom_def signed_number_def udigit_def)
qed (use assms parse_name in \<open>simp_all add: parse_atom_def\<close>)

lemma parse_compiled_atom:
  assumes "canonical xs t" "\<nexists>operator a b. t = Op operator a b"
  shows "parseTerm xs (compileTerm t p r) = Inr t"
  using strip_plain_text [of "compileTerm t p r"] atom_plain [OF assms, of p r] find_operator_atom [OF assms, of p r] parse_atom_text [OF assms, of p r]
  by (subst parseTerm.simps) (simp add: Let_def)

lemma parse_compiled_term: "canonical xs t \<Longrightarrow> parseTerm xs (compileTerm t p r) = Inr t"
proof (induction t arbitrary: p r)
  case (Op operator a b)
  show ?case
    using Op.IH Op.prems strip_operator [OF Op.prems, of p r] find_operator_text [OF Op.prems]
    by (subst parseTerm.simps) (simp add: Let_def)
qed (use parse_compiled_atom in blast)+

section \<open>Relations\<close>

text \<open>The text of a relation after normalisation.\<close>

definition relation_symbol_text :: "relation_symbol \<Rightarrow> utext" where
  "relation_symbol_text r = (case r of Ne \<Rightarrow> u ''!='' | Ge \<Rightarrow> u ''>='' | Le \<Rightarrow> u ''<='' | Eq \<Rightarrow> u ''='' | Lt \<Rightarrow> u ''<'' | Gt \<Rightarrow> u ''>'')"

definition relation_source :: "dsl_relation \<Rightarrow> utext" where
  "relation_source r = compileTerm (rel_left r) 0 False @ 32 # relation_symbol_text (relation r) @ 32 # compileTerm (rel_right r) 0 False"

definition canonical_relation :: "utext list \<Rightarrow> dsl_relation \<Rightarrow> bool" where
  "canonical_relation xs r = (canonical xs (rel_left r) \<and> canonical xs (rel_right r))"

lemma relation_symbol_shape: "tidy (relation_symbol_text r)" "net (relation_symbol_text r) = 0"
  by (cases r; auto simp: relation_symbol_text_def uspace_def depth_after_def intro!: tidy_word)+

lemma relation_source_shape:
  assumes "canonical_relation xs r"
  shows "tidy (relation_source r)" "net (relation_source r) = 0"
  using assms term_shape relation_symbol_shape [of "relation r"]
  by (auto simp: relation_source_def canonical_relation_def depth_after_def intro!: tidy_spaced)

lemma relation_found:
  "find (\<lambda>(symbol, _). take (length symbol) (relation_symbol_text r @ 32 # s) = symbol) RELATIONS = Some (relation_symbol_text r, r)"
  by (cases r) (simp_all add: relation_symbol_text_def RELATIONS_def)

lemma relation_symbol_starts: "t \<in> set (map fst RELATIONS) \<Longrightarrow> t \<noteq> [] \<and> hd t \<in> {33, 60, 61, 62}"
  by (auto simp: RELATIONS_def)

lemma no_relation_in_term:
  assumes "canonical xs t" "compileTerm t p r @ [32] = x @ y" "y \<noteq> []"
  shows "\<not> list_ex (\<lambda>s. take (length s) (y @ b) = s) (map fst RELATIONS)"
proof
  assume "list_ex (\<lambda>s. take (length s) (y @ b) = s) (map fst RELATIONS)"
  then obtain s where s: "s \<in> set (map fst RELATIONS)" "take (length s) (y @ b) = s" by (auto simp: list_ex_iff)
  then have "hd y = hd s" using relation_symbol_starts [OF s(1)] assms(3) by (metis hd_append2 hd_take length_greater_0_conv)
  then have "hd y \<in> {33, 60, 61, 62}" using relation_symbol_starts [OF s(1)] by simp
  moreover have "hd y \<in> set (compileTerm t p r @ [32])" using assms(2,3) by simp
  moreover have "\<not> term_char 33" "\<not> term_char 60" "\<not> term_char 61" "\<not> term_char 62"
    by (simp_all add: term_char_def name_char_def uletter_def udigit_def)
  ultimately show False using term_chars [OF assms(1), of p r] by (auto simp: list_all_iff)
qed

lemma relation_split:
  assumes "canonical_relation xs r"
  shows "topLevelIndex (relation_source r) (map fst RELATIONS)
    = Some (compileTerm (rel_left r) 0 False @ [32], relation_symbol_text (relation r) @ 32 # compileTerm (rel_right r) 0 False)"
proof -
  let ?l = "compileTerm (rel_left r) 0 False"
  let ?b = "relation_symbol_text (relation r) @ 32 # compileTerm (rel_right r) 0 False"
  have left: "canonical xs (rel_left r)" using assms by (simp add: canonical_relation_def)
  have "top_level_split 0 (map fst RELATIONS) ((?l @ [32]) @ ?b) = Some (?l @ [32], ?b)"
  proof (rule top_level_split_at)
    show "?b \<noteq> []" "hd ?b \<noteq> 40" "hd ?b \<noteq> 41"
      by (cases "relation r"; simp add: relation_symbol_text_def)+
    show "list_ex (\<lambda>t. take (length t) ?b = t) (map fst RELATIONS)"
      by (cases "relation r") (simp_all add: relation_symbol_text_def RELATIONS_def)
    show "0 + net (?l @ [32]) = 0" using term_shape [OF left] by (simp add: depth_after_def)
  qed (rule no_relation_in_term [OF left])
  then show ?thesis by (simp add: topLevelIndex_def relation_source_def)
qed

lemma strip_relation:
  assumes "canonical_relation xs r"
  shows "stripOuterParentheses (relation_source r) = relation_source r"
proof -
  have "canonical xs (rel_left r)" using assms by (simp add: canonical_relation_def)
  then have "net (compileTerm (rel_left r) 0 False) = 0" "compileTerm (rel_left r) 0 False \<noteq> []"
    using term_shape tidy_nonempty by blast+
  then have "strip_loop (relation_source r) = relation_source r"
    unfolding relation_source_def by (intro strip_unwrapped) auto
  then show ?thesis using relation_source_shape(1) [OF assms] by (simp add: stripOuterParentheses_def utrim_tidy)
qed

lemma parse_relation_source:
  assumes "canonical_relation xs r"
  shows "parseRelation xs (relation_source r) = Inr r"
proof -
  have sides: "canonical xs (rel_left r)" "canonical xs (rel_right r)" using assms by (simp_all add: canonical_relation_def)
  then have tidy: "tidy (compileTerm (rel_left r) 0 False)" "tidy (compileTerm (rel_right r) 0 False)" using term_shape by blast+
  show ?thesis
    using utrim_tidy [OF tidy(1)] utrim_tidy [OF tidy(2)] tidy_nonempty [OF tidy(1)] tidy_nonempty [OF tidy(2)]
      parse_compiled_term [OF sides(1), of 0 False] parse_compiled_term [OF sides(2), of 0 False]
    by (simp add: parseRelation_def strip_relation [OF assms] relation_split [OF assms] relation_found Let_def del: take_append)
qed

section \<open>Propositions\<close>

fun arrow_free :: "utext \<Rightarrow> bool" where
  "arrow_free (a # b # s) = (\<not> (a = 45 \<and> b = 62) \<and> arrow_free (b # s))"
| "arrow_free s = True"

lemma arrow_free_plain: "62 \<notin> set s \<Longrightarrow> arrow_free s"
  by (induction s rule: arrow_free.induct) auto

lemma arrow_free_spaced: "arrow_free a \<Longrightarrow> arrow_free b \<Longrightarrow> arrow_free (a @ 32 # b)"
  by (induction a rule: arrow_free.induct; cases b) auto

lemma arrow_not_free: "\<not> arrow_free (x @ 45 # 62 # y)"
proof (induction x)
  case (Cons c x)
  then show ?case by (cases x) auto
qed simp

lemma relation_arrow_free:
  assumes "canonical_relation xs r"
  shows "arrow_free (relation_source r)"
proof -
  have "\<not> term_char 62" by (simp add: term_char_def name_char_def uletter_def udigit_def)
  then have "arrow_free (compileTerm t p s)" if "canonical xs t" for t p s
    using term_chars [OF that, of p s] by (intro arrow_free_plain) (auto simp: list_all_iff)
  moreover have "arrow_free (relation_symbol_text (relation r))" by (cases "relation r") (simp_all add: relation_symbol_text_def)
  ultimately show ?thesis
    using assms unfolding relation_source_def canonical_relation_def by (intro arrow_free_spaced) simp_all
qed

lemma arrow_split:
  assumes "arrow_free a" "net a = 0"
  shows "topLevelIndex (a @ 32 # 45 # 62 # b) [u ''->''] = Some (a @ [32], 45 # 62 # b)"
proof -
  have "top_level_split 0 [u ''->''] ((a @ [32]) @ 45 # 62 # b) = Some (a @ [32], 45 # 62 # b)"
  proof (rule top_level_split_at)
    fix x y
    assume xy: "a @ [32] = x @ y" "y \<noteq> []"
    have free: "arrow_free (x @ y)" using arrow_free_spaced [OF assms(1), of "[]"] xy(1) by simp
    show "\<not> list_ex (\<lambda>t. take (length t) (y @ 45 # 62 # b) = t) [u ''->'']"
    proof (cases y)
      case (Cons c y')
      show ?thesis
      proof (cases y')
        case Nil
        then have "c = 32" using xy(1) Cons by simp
        then show ?thesis by (simp add: Cons Nil)
      next
        case (Cons d z)
        then show ?thesis using free arrow_not_free [of x z] \<open>y = c # y'\<close> by auto
      qed
    qed (use xy(2) in simp)
  qed (use assms(2) in \<open>simp_all add: depth_after_def\<close>)
  then show ?thesis by (simp add: topLevelIndex_def)
qed

lemma arrow_none: "arrow_free a \<Longrightarrow> topLevelIndex a [u ''->''] = None"
  unfolding topLevelIndex_def
proof (rule top_level_split_none)
  fix x y :: utext
  assume "arrow_free a" "a = x @ y" "y \<noteq> []"
  show "\<not> list_ex (\<lambda>t. take (length t) y = t) [u ''->'']"
  proof
    assume "list_ex (\<lambda>t. take (length t) y = t) [u ''->'']"
    then have "take 2 y = [45, 62]" by (simp add: numeral_2_eq_2)
    then obtain z where "y = 45 # 62 # z" by (cases y; cases "tl y") auto
    then show False using arrow_not_free [of x z] \<open>arrow_free a\<close> \<open>a = x @ y\<close> by simp
  qed
qed

definition proposition_ok :: "utext \<Rightarrow> bool" where
  "proposition_ok t = (tidy t \<and> net t = 0 \<and> arrow_free t)"

lemma join_shape: "ts \<noteq> [] \<Longrightarrow> list_all proposition_ok ts \<Longrightarrow> tidy (ujoin (u '' -> '') ts)"
proof (induction ts)
  case (Cons t ts)
  show ?case
  proof (cases "ts = []")
    case False
    have "tidy [45, 62]" by (rule tidy_word) (simp_all add: uspace_def)
    then have "tidy (t @ 32 # [45, 62] @ 32 # ujoin (u '' -> '') ts)"
      using Cons False by (intro tidy_spaced) (simp_all add: proposition_ok_def)
    then show ?thesis using False by simp
  qed (use Cons.prems in \<open>simp add: proposition_ok_def\<close>)
qed simp

lemma split_joined: "ts \<noteq> [] \<Longrightarrow> list_all proposition_ok ts \<Longrightarrow> split_arrows (ujoin (u '' -> '') ts) = ts"
proof (induction ts)
  case (Cons t ts)
  then have t: "tidy t" "net t = 0" "arrow_free t" by (simp_all add: proposition_ok_def)
  show ?case
  proof (cases "ts = []")
    case True
    then show ?thesis
      using arrow_none [OF t(3)] utrim_tidy(1) [OF t(1)] by (subst split_arrows.simps) simp
  next
    case False
    then have "tidy (ujoin (u '' -> '') ts)" using Cons.prems by (intro join_shape) simp_all
    moreover have "topLevelIndex (t @ 32 # 45 # 62 # 32 # ujoin (u '' -> '') ts) [u ''->'']
        = Some (t @ [32], 45 # 62 # 32 # ujoin (u '' -> '') ts)"
      using arrow_split [OF t(3,2)] by simp
    ultimately have "split_arrows (t @ 32 # 45 # 62 # 32 # ujoin (u '' -> '') ts) = t # ts"
      using Cons False utrim_tidy [OF t(1)] by (subst split_arrows.simps) (simp add: utrim_tidy)
    then show ?thesis using False by simp
  qed
qed simp

lemma relation_proposition_ok: "canonical_relation xs r \<Longrightarrow> proposition_ok (relation_source r)"
  using relation_source_shape relation_arrow_free by (simp add: proposition_ok_def)

lemma parse_joined_relations:
  assumes "list_all (canonical_relation xs) rs" "canonical_relation xs c"
  shows "parse_propositions xs (ujoin (u '' -> '') (map relation_source (rs @ [c]))) = Inr (rs, c)"
proof -
  have ok: "list_all proposition_ok (map relation_source (rs @ [c]))"
    using assms relation_proposition_ok by (auto simp: list_all_iff)
  then have "split_arrows (ujoin (u '' -> '') (map relation_source (rs @ [c]))) = map relation_source (rs @ [c])"
    by (intro split_joined) simp_all
  moreover have "\<not> list_ex (\<lambda>p. p = []) (map relation_source (rs @ [c]))"
    using ok tidy_nonempty by (force simp: list_ex_iff list_all_iff proposition_ok_def)
  moreover have "rmap (parseRelation xs) (map relation_source rs) = Inr rs"
    using assms(1) by (induction rs) (simp_all add: parse_relation_source)
  ultimately show ?thesis
    using parse_relation_source [OF assms(2)] by (simp add: parse_propositions_def Let_def butlast_append)
qed

end
