(* ===== verification/Dsl_Compiled.thy ===== *)
theory Dsl_Compiled
  imports Dsl_Round_Trip Campaign_Example
begin

text \<open>
  The text of a whole theorem: domains, the list of quantified variables, and the
  normalisation that turns the symbols of Lean into the ones the parser splits at.
\<close>

section \<open>Domains\<close>

definition domain_ok :: "domain \<Rightarrow> bool" where
  "domain_ok d = (case d of D_fin n \<Rightarrow> 0 < n \<and> n < 10 ^ 6 | D_vector_real n \<Rightarrow> 0 < n \<and> n < 10 ^ 4
    | D_matrix_real r c \<Rightarrow> 0 < r \<and> r < 10 ^ 4 \<and> 0 < c \<and> c < 10 ^ 4 | D_measure_fin n \<Rightarrow> 0 < n \<and> n < 10 ^ 4 | _ \<Rightarrow> True)"

definition domain_source :: "domain \<Rightarrow> utext" where
  "domain_source d = (if d = D_stochastic_process_nat_bool_real then u ''Nat -> Bool -> Real'' else compileDomain d)"

definition word :: "utext \<Rightarrow> bool" where
  "word s = (s \<noteq> [] \<and> list_all (\<lambda>c. \<not> uspace c) s)"

lemma word_tidy: "word s \<Longrightarrow> tidy s"
  by (simp add: word_def tidy_word)

lemma word_spaced: "word s \<Longrightarrow> tidy t \<Longrightarrow> tidy (s @ 32 # t)"
  by (rule tidy_spaced [OF word_tidy])

lemma word_numeral: "word (unat_text n)" "word (s @ [c]) \<longleftrightarrow> list_all (\<lambda>c. \<not> uspace c) s \<and> \<not> uspace c"
  using unat_text_digits [of n] by (auto simp: word_def list_all_iff udigit_not_space)

lemma word_ascii: "list_all (\<lambda>c. 33 \<le> c \<and> c \<le> 126) s \<Longrightarrow> s \<noteq> [] \<Longrightarrow> word s"
  by (auto simp: word_def list_all_iff uspace_def)

lemma numeral_in_parens: "word (40 # 70 # [105, 110])" "word (unat_text n @ [41])"
  using unat_text_digits(1) [of n] by (auto simp: word_def list_all_iff uspace_def udigit_def)

lemma domain_source_tidy: "tidy (domain_source d)"
proof (cases d)
  case (D_fin n)
  have "tidy ([70, 105, 110] @ 32 # unat_text n)" by (rule word_spaced [OF word_ascii word_tidy [OF word_numeral(1)]]) simp_all
  then show ?thesis by (simp add: D_fin domain_source_def compileDomain_def)
next
  case (D_vector_real n)
  have "tidy (u ''Vector'' @ 32 # u ''Real'' @ 32 # unat_text n)"
    by (intro word_spaced word_tidy [OF word_numeral(1)]; rule word_ascii; simp)
  then show ?thesis by (simp add: D_vector_real domain_source_def compileDomain_def)
next
  case (D_matrix_real r c)
  have "tidy (u ''Matrix'' @ 32 # u ''(Fin'' @ 32 # (unat_text r @ [41]) @ 32 # u ''(Fin'' @ 32 # (unat_text c @ [41]) @ 32 # u ''Real'')"
    by (intro word_spaced word_tidy numeral_in_parens; rule word_ascii; simp)
  then show ?thesis by (simp add: D_matrix_real domain_source_def compileDomain_def)
next
  case (D_measure_fin n)
  have "tidy (u ''MeasureTheory.Measure'' @ 32 # u ''(Fin'' @ 32 # (unat_text n @ [41]))"
    by (intro word_spaced word_tidy numeral_in_parens; rule word_ascii; simp)
  then show ?thesis by (simp add: D_measure_fin domain_source_def compileDomain_def)
next
  case D_measure_bool
  have "tidy (u ''MeasureTheory.Measure'' @ 32 # u ''Bool'')" by (intro word_spaced word_tidy; rule word_ascii; simp)
  then show ?thesis by (simp add: D_measure_bool domain_source_def compileDomain_def)
next
  case D_optimization_feasible_set_real
  have "tidy (u ''Set'' @ 32 # u ''Real'')" by (intro word_spaced word_tidy; rule word_ascii; simp)
  then show ?thesis by (simp add: D_optimization_feasible_set_real domain_source_def compileDomain_def)
next
  case D_stochastic_process_nat_bool_real
  have "tidy (u ''Nat'' @ 32 # u ''->'' @ 32 # u ''Bool'' @ 32 # u ''->'' @ 32 # u ''Real'')"
    by (intro word_spaced word_tidy; rule word_ascii; simp)
  then show ?thesis by (simp add: D_stochastic_process_nat_bool_real domain_source_def)
qed (simp_all add: domain_source_def compileDomain_def uspace_def tidy_word)

lemma numeral_plain: "c \<in> set (unat_text n) \<Longrightarrow> 48 \<le> c \<and> c \<le> 57"
  using unat_text_digits(1) [of n] by (simp add: list_all_iff udigit_def)

lemma numeral_net [simp]: "net (unat_text n) = 0"
  using numeral_plain by (intro net_plain) (force simp: list_all_iff)

lemma domain_source_shape: "net (domain_source d) = 0" "44 \<notin> set (domain_source d)" "domain_source d \<noteq> []" "hd (domain_source d) \<noteq> 40"
  using numeral_plain by (cases d; force simp: domain_source_def compileDomain_def depth_after_def)+

lemma strip_domain: "stripOuterParentheses (32 # domain_source d) = domain_source d"
  using utrim_tidy(2) [OF domain_source_tidy, of d] domain_source_shape(4) [of d] by (simp add: stripOuterParentheses_def strip_plain)

lemma numeral_end: "0 < n \<Longrightarrow> n < 10 ^ k \<Longrightarrow> 0 < k \<Longrightarrow> numeral_of k (unat_text n) = Some (n, [])"
  using numeral_of_text [of n k "[]"] by simp

lemma numeral_paren: "0 < n \<Longrightarrow> n < 10 ^ k \<Longrightarrow> 0 < k \<Longrightarrow> numeral_of k (unat_text n @ 41 # s) = Some (n, 41 # s)"
  using numeral_of_text [of n k "41 # s"] by (simp add: udigit_def)

lemma spaces_numeral: "spaces (32 # unat_text n @ s) = Some (unat_text n @ s)"
proof -
  obtain c cs where "unat_text n = c # cs" "udigit c" using unat_text_digits [of n] by (cases "unat_text n") auto
  then show ?thesis by (simp add: spaces_def udigit_not_space)
qed

lemma spaces_char: "\<not> uspace c \<Longrightarrow> spaces (32 # c # s) = Some (c # s)"
  by (simp add: spaces_def)

lemma parse_domain_source:
  assumes "domain_ok d"
  shows "parseDomain (32 # domain_source d) = Inr d"
proof (cases d)
  case (D_fin n)
  then show ?thesis
    using assms numeral_end [of n 6] spaces_numeral [of n "[]"]
    by (simp add: parseDomain_def strip_domain Let_def) (simp add: domain_source_def compileDomain_def domain_ok_def SUPPORTED_ATOMS_def or_try_def fin_domain_def lit_def at_end_def)
next
  case (D_vector_real n)
  then show ?thesis
    using assms numeral_end [of n 4] spaces_numeral [of n "[]"]
    by (simp add: parseDomain_def strip_domain Let_def) (simp add: domain_source_def compileDomain_def domain_ok_def SUPPORTED_ATOMS_def or_try_def fin_domain_def vector_domain_def
        lit_def at_end_def spaces_char uspace_def)
next
  case (D_matrix_real r c)
  then show ?thesis
    using assms numeral_paren [of r 4] numeral_paren [of c 4] spaces_numeral [of r] spaces_numeral [of c]
    by (simp add: parseDomain_def strip_domain Let_def) (simp add: domain_source_def compileDomain_def domain_ok_def SUPPORTED_ATOMS_def or_try_def fin_domain_def vector_domain_def
        matrix_domain_def fin_argument_def lit_def at_end_def spaces_char uspace_def)
next
  case (D_measure_fin n)
  then show ?thesis
    using assms numeral_paren [of n 4] spaces_numeral [of n]
    by (simp add: parseDomain_def strip_domain Let_def) (simp add: domain_source_def compileDomain_def domain_ok_def SUPPORTED_ATOMS_def or_try_def fin_domain_def vector_domain_def
        matrix_domain_def measure_bool_domain_def measure_fin_domain_def fin_argument_def lit_def at_end_def spaces_char uspace_def)
qed (simp add: parseDomain_def strip_domain Let_def, simp add: domain_source_def compileDomain_def SUPPORTED_ATOMS_def or_try_def fin_domain_def vector_domain_def
        matrix_domain_def measure_bool_domain_def measure_fin_domain_def fin_argument_def lit_def at_end_def spaces_char uspace_def)+

section \<open>Canonical theorems\<close>

text \<open>All variables range over one domain, so that the compiler writes one group of them.\<close>

definition quantifies :: "domain \<Rightarrow> theorem_dsl \<Rightarrow> bool" where
  "quantifies d dsl = (binders dsl \<noteq> [] \<and> domain_ok d \<and> distinct (map b_name (binders dsl))
    \<and> list_all (\<lambda>q. b_domain q = d \<and> SAFE_NAME (b_name q)) (binders dsl))"

definition canonical_theorem :: "domain \<Rightarrow> theorem_dsl \<Rightarrow> bool" where
  "canonical_theorem d dsl = (quantifies d dsl
    \<and> list_all (canonical_relation (map b_name (binders dsl))) (conclusion dsl # assumptions dsl))"

definition names_text :: "theorem_dsl \<Rightarrow> utext" where
  "names_text dsl = ujoin [32] (map b_name (binders dsl))"

definition relations_of :: "theorem_dsl \<Rightarrow> dsl_relation list" where
  "relations_of dsl = assumptions dsl @ [conclusion dsl]"

definition body_source :: "theorem_dsl \<Rightarrow> utext" where
  "body_source dsl = ujoin (u '' -> '') (map relation_source (relations_of dsl))"

definition theorem_source :: "domain \<Rightarrow> theorem_dsl \<Rightarrow> utext" where
  "theorem_source d dsl = u ''forall'' @ 32 # names_text dsl @ 32 # [58] @ 32 # (domain_source d @ [44]) @ 32 # body_source dsl"

lemma safe_name_word: "SAFE_NAME x \<Longrightarrow> word x"
  using safe_name_chars [of x] by (auto simp: word_def list_all_iff uspace_def dest!: name_char_cases)

lemma names_shape:
  assumes "xs \<noteq> []" "list_all SAFE_NAME xs"
  shows "tidy (ujoin [32] xs) \<and> list_all (\<lambda>c. name_char c \<or> c = 32) (ujoin [32] xs) \<and> uletter (hd (ujoin [32] xs))"
  using assms
proof (induction xs)
  case (Cons x xs)
  then have x: "tidy x" "list_all name_char x" "uletter (hd x)" "x \<noteq> []"
    using safe_name_word [of x] safe_name_chars [of x] word_tidy by auto
  show ?case
  proof (cases "xs = []")
    case False
    then have rest: "tidy (ujoin [32] xs)" "list_all (\<lambda>c. name_char c \<or> c = 32) (ujoin [32] xs)" using Cons by simp_all
    then have "tidy (x @ 32 # ujoin [32] xs)" using tidy_spaced [OF x(1) rest(1)] by simp
    then show ?thesis using False rest(2) x by (auto simp: list_all_iff)
  qed (use x in \<open>auto simp: list_all_iff\<close>)
qed simp

lemma names_text_shape:
  assumes "quantifies d dsl"
  shows "tidy (names_text dsl)" "net (names_text dsl) = 0" "44 \<notin> set (names_text dsl)" "58 \<notin> set (names_text dsl)" "hd (names_text dsl) \<noteq> 40"
proof -
  have shape: "tidy (names_text dsl) \<and> list_all (\<lambda>c. name_char c \<or> c = 32) (names_text dsl) \<and> uletter (hd (names_text dsl))"
    unfolding names_text_def using assms by (intro names_shape) (auto simp: quantifies_def list_all_iff)
  then show "tidy (names_text dsl)" by simp
  have other: "\<not> name_char 44" "\<not> name_char 58" "\<not> name_char 40" "\<not> name_char 41" "\<not> uletter 40"
    by (simp_all add: name_char_def uletter_def udigit_def)
  then show "44 \<notin> set (names_text dsl)" "58 \<notin> set (names_text dsl)" "hd (names_text dsl) \<noteq> 40"
    using shape by (auto simp: list_all_iff)
  show "net (names_text dsl) = 0" using shape other by (intro net_plain) (auto simp: list_all_iff)
qed

lemma names_words: "list_all SAFE_NAME xs \<Longrightarrow> uwords [] (ujoin [32] xs) = xs"
proof (induction xs)
  case (Cons x xs)
  then have x: "x \<noteq> []" "list_all (\<lambda>c. \<not> uspace c) x" using safe_name_word [of x] by (auto simp: word_def)
  show ?case using Cons uwords_word [OF x(2), of "[]" "32 # ujoin [32] xs"] uwords_word [OF x(2), of "[]" "[]"] x(1) by auto
qed simp

lemma body_shape:
  assumes "canonical_theorem d dsl"
  shows "tidy (body_source dsl)"
  unfolding body_source_def
  using assms relation_proposition_ok by (intro join_shape) (auto simp: canonical_theorem_def relations_of_def list_all_iff)

lemma theorem_source_tidy: "canonical_theorem d dsl \<Longrightarrow> tidy (theorem_source d dsl)"
  unfolding theorem_source_def
  using names_text_shape(1) body_shape domain_source_tidy
  by (intro tidy_spaced tidy_append) (auto simp: canonical_theorem_def uspace_def tidy_word)

section \<open>Reading the quantifiers\<close>

lemma takeWhile_word: "32 \<notin> set w \<Longrightarrow> takeWhile (\<lambda>c. c \<noteq> (32::nat)) (w @ 32 # s) = w"
  by (induction w) auto

lemma leading_word:
  assumes "32 \<notin> set w" "take 7 (w @ 32 # s) = u ''forall ''"
  shows "w = u ''forall''"
proof -
  define rest where "rest = drop 7 (w @ 32 # s)"
  have "w @ 32 # s = take 7 (w @ 32 # s) @ rest" unfolding rest_def by (rule append_take_drop_id [symmetric])
  then have split: "w @ 32 # s = u ''forall '' @ rest" unfolding assms(2) .
  have "takeWhile (\<lambda>c. c \<noteq> 32) (w @ 32 # s) = u ''forall''" unfolding split by simp
  then show ?thesis using takeWhile_word [OF assms(1)] by simp
qed

lemma term_not_forall: "canonical xs t \<Longrightarrow> take 7 (compileTerm t p r @ 32 # s) \<noteq> u ''forall ''"
proof (induction t arbitrary: p r s)
  case (Op operator a b)
  show ?case
  proof (cases "parenthesized operator p r")
    case False
    then show ?thesis
      using Op.IH(1) [of "precedence operator" False "operator_symbol operator # 32 # compileTerm b (precedence operator) True @ 32 # s"] Op.prems
      by (simp add: compile_operator operator_text_def del: compileTerm.simps u_simps)
  qed (simp add: compile_operator del: compileTerm.simps)
next
  case (Variable x)
  then have "32 \<notin> set x" "x \<noteq> u ''forall''" using safe_name_word [of x] by (auto simp: name_ok_def word_def list_all_iff)
  then show ?case using leading_word [of x s] by auto
next
  case (Literal n)
  have "32 \<notin> set (int_text n)" using literal_plain(1) [of n] by (auto simp: list_all_iff)
  moreover have "int_text n \<noteq> u ''forall''"
    using unat_text_digits(1) [of "nat n"] by (auto simp: int_text_def udigit_def)
  ultimately show ?case using leading_word [of "int_text n" s] by auto
qed simp_all

lemma body_not_forall:
  assumes "canonical_theorem d dsl"
  shows "take 7 (body_source dsl) \<noteq> u ''forall ''"
proof -
  obtain r rs where rs: "relations_of dsl = r # rs" by (cases "relations_of dsl") (auto simp: relations_of_def)
  then have "r \<in> set (relations_of dsl)" by simp
  then have left: "canonical (map b_name (binders dsl)) (rel_left r)"
    using assms by (auto simp: relations_of_def canonical_theorem_def list_all_iff canonical_relation_def)
  obtain s where "body_source dsl = compileTerm (rel_left r) 0 False @ 32 # s"
    by (cases "rs = []") (auto simp: body_source_def rs relation_source_def)
  then show ?thesis using term_not_forall [OF left] by simp
qed

lemma quantifier_list:
  assumes "quantifies d dsl"
  shows "declared_binders (names_text dsl @ 32 # 58 # 32 # domain_source d) = Inr (binders dsl)"
proof -
  note names = names_text_shape [OF assms]
  have split: "topLevelIndex ((names_text dsl @ [32]) @ 58 # 32 # domain_source d) [[58]] = Some (names_text dsl @ [32], 58 # 32 # domain_source d)"
    using names by (intro split_at_char) (simp_all add: depth_after_def)
  have all: "list_all SAFE_NAME (map b_name (binders dsl))" "binders dsl \<noteq> []" "domain_ok d"
    using assms by (auto simp: quantifies_def list_all_iff)
  have "uwords [] (names_text dsl) = map b_name (binders dsl)" unfolding names_text_def by (rule names_words [OF all(1)])
  moreover have "map (\<lambda>n. \<lparr>b_name = n, b_domain = d\<rparr>) (map b_name (binders dsl)) = binders dsl"
    using assms by (auto simp: quantifies_def list_all_iff intro!: nth_equalityI)
  ultimately show ?thesis
    using all split utrim_tidy(3) [OF names(1)] parse_domain_source [OF all(3)]
    by (simp add: declared_binders_def Let_def list_ex_iff list_all_iff)
qed

lemma read_theorem_source:
  assumes "canonical_theorem d dsl"
  shows "read_binders (theorem_source d dsl) = Inr (binders dsl, body_source dsl)"
proof -
  have q: "quantifies d dsl" using assms by (simp add: canonical_theorem_def)
  note names = names_text_shape [OF q]
  note body = body_shape [OF assms]
  let ?decl = "names_text dsl @ 32 # 58 # 32 # domain_source d"
  have colon: "tidy [58]" by (rule tidy_word) (simp_all add: uspace_def)
  have tidy_declaration: "tidy ?decl"
    using tidy_spaced [OF names(1) tidy_spaced [OF colon domain_source_tidy, of d]] by simp
  have comma: "tidy (?decl @ [44])"
    by (rule tidy_append [OF tidy_declaration]) (simp add: tidy_word uspace_def)
  have rest: "tidy (?decl @ 44 # 32 # body_source dsl)"
    using tidy_spaced [OF comma body] by simp
  have split: "topLevelIndex (?decl @ 44 # 32 # body_source dsl) [[44]] = Some (?decl, 44 # 32 # body_source dsl)"
    using names domain_source_shape [of d] by (intro split_at_char) (simp_all add: depth_after_def)
  have "hd ?decl \<noteq> 40" using names(5) tidy_nonempty [OF names(1)] by simp
  then have strip: "stripOuterParentheses ?decl = ?decl"
    using utrim_tidy(1) [OF tidy_declaration] by (simp add: stripOuterParentheses_def strip_plain)
  have "read_binders (body_source dsl) = Inr ([], body_source dsl)"
    using body_not_forall [OF assms] by (subst read_binders.simps) simp
  then show ?thesis
    using split strip quantifier_list [OF q] utrim_tidy(1) [OF rest] utrim_tidy(2) [OF body]
    by (subst read_binders.simps) (simp add: theorem_source_def Let_def)
qed

section \<open>Normalising the compiled text\<close>

definition normal :: "utext \<Rightarrow> utext" where
  "normal s = concat (map normalize_symbol s)"

lemma normal_append [simp]: "normal (a @ b) = normal a @ normal b" "normal [] = []" "normal (c # s) = normalize_symbol c @ normal s"
  by (simp_all add: normal_def)

lemma normal_plain: "list_all (\<lambda>c. c \<notin> {8704, 8594, 8800, 8804, 8805}) s \<Longrightarrow> normal s = s"
  by (induction s) (auto simp: normalize_symbol_def)

lemma normal_term: "canonical xs t \<Longrightarrow> normal (compileTerm t p r) = compileTerm t p r"
proof (rule normal_plain)
  assume "canonical xs t"
  moreover have "\<not> term_char 8704" "\<not> term_char 8594" "\<not> term_char 8800" "\<not> term_char 8804" "\<not> term_char 8805"
    by (simp_all add: term_char_def name_char_def uletter_def udigit_def)
  ultimately show "list_all (\<lambda>c. c \<notin> {8704, 8594, 8800, 8804, 8805}) (compileTerm t p r)"
    using term_chars [of xs t p r] by (auto simp: list_all_iff)
qed

text \<open>\<open>t\<close> is what the spacing of \<open>s\<close> collapses to.\<close>

definition spaced_as :: "utext \<Rightarrow> utext \<Rightarrow> bool" where
  "spaced_as s t = (tidy t \<and> (\<forall>x. collapse (s @ x) = t @ collapse x))"

lemma spaced_refl: "tidy t \<Longrightarrow> spaced_as t t"
  by (simp add: spaced_as_def tidy_def)

lemma collapse_gap_spaced: "spaced_as s t \<Longrightarrow> collapse (32 # s @ x) = 32 # t @ collapse x"
proof -
  assume s: "spaced_as s t"
  then obtain c cs where t: "t = c # cs" "\<not> uspace c" by (cases t) (auto simp: spaced_as_def tidy_def)
  then have "c \<noteq> 32" by auto
  with s t show ?thesis by (simp add: spaced_as_def)
qed

lemma spaced_gap: "spaced_as a b \<Longrightarrow> spaced_as s t \<Longrightarrow> spaced_as (a @ 32 # s) (b @ 32 # t)"
  using collapse_gap_spaced [of s t] by (auto simp: spaced_as_def intro: tidy_spaced)

lemma spaced_wide_gap: "spaced_as a b \<Longrightarrow> spaced_as s t \<Longrightarrow> spaced_as (a @ 32 # 32 # s) (b @ 32 # t)"
  using collapse_gap_spaced [of s t] collapse_two_spaces by (auto simp: spaced_as_def intro: tidy_spaced)

lemma spaced_append: "spaced_as a b \<Longrightarrow> spaced_as s t \<Longrightarrow> spaced_as (a @ s) (b @ t)"
  by (auto simp: spaced_as_def intro: tidy_append)

lemma spaced_relation:
  assumes "canonical_relation xs r"
  shows "spaced_as (normal (compileRelation r)) (relation_source r)"
proof -
  have sides: "canonical xs (rel_left r)" "canonical xs (rel_right r)" using assms by (simp_all add: canonical_relation_def)
  have l: "spaced_as (compileTerm (rel_left r) 0 False) (compileTerm (rel_left r) 0 False)" using term_shape [OF sides(1)] by (simp add: spaced_refl)
  have r: "spaced_as (compileTerm (rel_right r) 0 False) (compileTerm (rel_right r) 0 False)" using term_shape [OF sides(2)] by (simp add: spaced_refl)
  note symbol = spaced_refl [OF relation_symbol_shape(1), of "relation r"]
  show ?thesis
  proof (cases "relation r \<in> {Ne, Le, Ge}")
    case True
    then have "normal (compileRelation r) = compileTerm (rel_left r) 0 False @ 32 # 32 # relation_symbol_text (relation r) @ 32 # 32 # compileTerm (rel_right r) 0 False"
      using normal_term [OF sides(1)] normal_term [OF sides(2)]
      by (auto simp: compileRelation_def relation_text_def relation_symbol_text_def normalize_symbol_def)
    then show ?thesis
      unfolding relation_source_def using spaced_wide_gap [OF l spaced_wide_gap [OF symbol r]] by simp
  next
    case False
    then have "normal (compileRelation r) = compileTerm (rel_left r) 0 False @ 32 # relation_symbol_text (relation r) @ 32 # compileTerm (rel_right r) 0 False"
      using normal_term [OF sides(1)] normal_term [OF sides(2)]
      by (cases "relation r") (auto simp: compileRelation_def relation_text_def relation_symbol_text_def normalize_symbol_def)
    then show ?thesis
      unfolding relation_source_def using spaced_gap [OF l spaced_gap [OF symbol r]] by simp
  qed
qed

lemma spaced_body:
  assumes "rs \<noteq> []" "list_all (canonical_relation xs) rs"
  shows "spaced_as (normal (ujoin [32, 8594, 32] (map compileRelation rs))) (ujoin (u '' -> '') (map relation_source rs))"
  using assms
proof (induction rs)
  case (Cons r rs)
  then have r: "spaced_as (normal (compileRelation r)) (relation_source r)" by (intro spaced_relation [of xs]) simp
  show ?case
  proof (cases "rs = []")
    case False
    then have "spaced_as (normal (ujoin [32, 8594, 32] (map compileRelation rs))) (ujoin (u '' -> '') (map relation_source rs))"
      using Cons by simp
    moreover have "spaced_as [45, 62] [45, 62]" by (intro spaced_refl tidy_word) (simp_all add: uspace_def)
    ultimately have "spaced_as (normal (compileRelation r) @ 32 # 32 # [45, 62] @ 32 # 32 # normal (ujoin [32, 8594, 32] (map compileRelation rs)))
        (relation_source r @ 32 # [45, 62] @ 32 # ujoin (u '' -> '') (map relation_source rs))"
      using r by (intro spaced_wide_gap)
    then show ?thesis using False by (simp add: normalize_symbol_def)
  qed (use r in simp)
qed simp

lemma spaced_domain: "spaced_as (normal (compileDomain d)) (domain_source d)"
proof (cases "d = D_stochastic_process_nat_bool_real")
  case True
  have "spaced_as (u ''Nat'' @ 32 # 32 # [45, 62] @ 32 # 32 # u ''Bool'' @ 32 # 32 # [45, 62] @ 32 # 32 # u ''Real'')
      (u ''Nat'' @ 32 # [45, 62] @ 32 # u ''Bool'' @ 32 # [45, 62] @ 32 # u ''Real'')"
    by (intro spaced_wide_gap spaced_refl tidy_word) (simp_all add: uspace_def)
  then show ?thesis by (simp add: True domain_source_def compileDomain_def normalize_symbol_def)
next
  case False
  have "list_all (\<lambda>c. c \<notin> {8704, 8594, 8800, 8804, 8805}) (compileDomain d)"
    using False numeral_plain by (cases d; force simp: compileDomain_def list_all_iff)
  then show ?thesis using False domain_source_tidy [of d] spaced_refl by (simp add: domain_source_def normal_plain)
qed

section \<open>The compiled theorem\<close>

lemma add_same_group:
  "list_all (\<lambda>q. b_domain q = d) qs \<Longrightarrow> foldl add_binder [(compileDomain d, xs)] qs = [(compileDomain d, xs @ map b_name qs)]"
  by (induction qs arbitrary: xs) (auto simp: add_binder_def Let_def)

lemma one_group:
  assumes "quantifies d dsl"
  shows "binder_groups (binders dsl) = [(compileDomain d, map b_name (binders dsl))]"
proof -
  obtain q qs where qs: "binders dsl = q # qs" using assms by (cases "binders dsl") (auto simp: quantifies_def)
  have "list_all (\<lambda>q. b_domain q = d) (q # qs)" using assms by (auto simp: quantifies_def qs list_all_iff)
  then show ?thesis using add_same_group [of d qs "[b_name q]"] by (simp add: binder_groups_def qs add_binder_def)
qed

definition theorem_text :: "domain \<Rightarrow> theorem_dsl \<Rightarrow> utext" where
  "theorem_text d dsl = 8704 # 32 # names_text dsl @ 32 # 58 # 32 # compileDomain d @ 44 # 32 #
    ujoin [32, 8594, 32] (map compileRelation (relations_of dsl))"

lemma compiled_text: "quantifies d dsl \<Longrightarrow> compileTypedTheoremDsl dsl = Inr (theorem_text d dsl)"
  using one_group [of d dsl] by (simp add: compileTypedTheoremDsl_def theorem_text_def names_text_def relations_of_def quantifies_def)

lemma normalize_compiled:
  assumes "canonical_theorem d dsl" "nfkc (theorem_text d dsl) = theorem_text d dsl"
  shows "normalizeSource nfkc (theorem_text d dsl) = theorem_source d dsl"
proof -
  have q: "quantifies d dsl" using assms(1) by (simp add: canonical_theorem_def)
  note names = names_text_shape [OF q]
  have "list_all (\<lambda>c. name_char c \<or> c = 32) (names_text dsl)"
    unfolding names_text_def using q names_shape [of "map b_name (binders dsl)"] by (auto simp: quantifies_def list_all_iff)
  then have plain: "normal (names_text dsl) = names_text dsl"
    by (intro normal_plain) (auto simp: list_all_iff dest!: name_char_cases)
  have body: "spaced_as (normal (ujoin [32, 8594, 32] (map compileRelation (relations_of dsl)))) (body_source dsl)"
    unfolding body_source_def using assms(1)
    by (intro spaced_body [of _ "map b_name (binders dsl)"]) (auto simp: canonical_theorem_def relations_of_def)
  have words: "spaced_as (u ''forall'') (u ''forall'')" "spaced_as [58] [58]" "spaced_as [44] [44]"
    by (intro spaced_refl tidy_word; simp add: uspace_def)+
  let ?s = "u ''forall'' @ 32 # 32 # names_text dsl @ 32 # [58] @ 32 # (normal (compileDomain d) @ [44])
      @ 32 # normal (ujoin [32, 8594, 32] (map compileRelation (relations_of dsl)))"
  have "spaced_as ?s (theorem_source d dsl)"
    unfolding theorem_source_def
    using names(1) words body spaced_domain by (intro spaced_wide_gap spaced_gap spaced_append) (simp_all add: spaced_refl)
  then have "collapse (?s @ []) = theorem_source d dsl @ collapse []" unfolding spaced_as_def by blast
  moreover have "normal (theorem_text d dsl) = ?s"
    using plain by (simp add: theorem_text_def normalize_symbol_def)
  ultimately have "collapse (normal (theorem_text d dsl)) = theorem_source d dsl" by simp
  then show ?thesis
    using assms(2) utrim_tidy(1) [OF theorem_source_tidy [OF assms(1)]] by (simp add: normalizeSource_def normal_def)
qed

lemma utrim_ends:
  assumes "s \<noteq> []" "\<not> uspace (hd s)" "\<not> uspace (last s)"
  shows "utrim s = s"
proof -
  have "dropWhile uspace s = s" using assms by (cases s) auto
  moreover have "dropWhile uspace (rev s) = rev s" using assms by (cases s rule: rev_cases) auto
  ultimately show ?thesis by (simp add: utrim_def)
qed

lemma join_last: "ts \<noteq> [] \<Longrightarrow> last ts \<noteq> [] \<Longrightarrow> last (ujoin sep ts) = last (last ts) \<and> ujoin sep ts \<noteq> []"
  by (induction ts) auto

lemma trimmed_text:
  assumes "canonical_theorem d dsl"
  shows "utrim (theorem_text d dsl) = theorem_text d dsl"
proof -
  have "canonical (map b_name (binders dsl)) (rel_right (conclusion dsl))"
    using assms by (simp add: canonical_theorem_def canonical_relation_def)
  then have "tidy (compileTerm (rel_right (conclusion dsl)) 0 False)" using term_shape by blast
  then have "\<not> uspace (last (compileRelation (conclusion dsl)))" "compileRelation (conclusion dsl) \<noteq> []"
    by (auto simp: compileRelation_def tidy_def)
  then have "\<not> uspace (last (theorem_text d dsl))"
    using join_last [of "map compileRelation (relations_of dsl)" "[32, 8594, 32]"] by (simp add: theorem_text_def relations_of_def)
  then show ?thesis by (intro utrim_ends) (simp_all add: theorem_text_def uspace_def)
qed

text \<open>
  C24. What is compiled is read back. The text the compiler writes for a theorem over one
  domain whose terms are nested the way the compiler can write them is read back as that
  theorem: names, domain, assumptions, conclusion, every number and every grouping. So a type
  in this form is accepted, with exactly this theorem. (Unicode normalisation leaves the text
  alone, and the imports allow the domain.)
\<close>

theorem compiled_theorem_read_back:
  assumes "canonical_theorem d dsl" "compileTypedTheoremDsl dsl = Inr t" "nfkc t = t"
    "mathlib_imported (sortStrings (remdups imports)) (binders dsl) = Inr ()"
  shows "\<exists>r. buildTypedTheoremDslFromLeanType rt nfkc t None None imports = Inr r \<and> compilation r = Inr (dsl, t)"
proof -
  have q: "quantifies d dsl" using assms(1) by (simp add: canonical_theorem_def)
  then have t: "t = theorem_text d dsl" using compiled_text assms(2) by simp
  have "parse_propositions (map b_name (binders dsl)) (body_source dsl) = Inr (assumptions dsl, conclusion dsl)"
    unfolding body_source_def relations_of_def using assms(1) by (intro parse_joined_relations) (simp_all add: canonical_theorem_def)
  then have "parse_theorem nfkc (sortStrings (remdups imports)) t = Inr dsl"
    using assms(3,4) q read_theorem_source [OF assms(1)] normalize_compiled [OF assms(1), of nfkc]
    by (simp add: t parse_theorem_def parseBindersAndBody_def quantifies_def)
  then show ?thesis
    using assms(2) trimmed_text [OF assms(1)]
    by (simp add: buildTypedTheoremDslFromLeanType_def Let_def other_hash_def compile_checked_def t)
qed

section \<open>Groupings the compiler loses\<close>

lemma grouped_sum_read:
  assumes "canonical xs (Variable x)" "canonical xs (Op Add b c)"
  shows "parseTerm xs (x @ [32, 45, 32] @ compileTerm (Op Add b c) 2 False) = Inr (Op Sub (Variable x) (Op Add b c))"
proof -
  let ?sum = "compileTerm (Op Add b c) 2 False"
  let ?s = "x @ [32, 45, 32] @ ?sum"
  have x: "tidy x" "net x = 0" and sum: "tidy ?sum" "net ?sum = 0"
    using term_shape [OF assms(1), of 0 False] term_shape [OF assms(2), of 2 False] by simp_all
  have parens: "clear (level q) 0 (rev ?sum)" if "q < 3" for q
    using clear_parens [OF assms(2) that] by (simp add: compile_operator parenthesized_def precedence_def del: compileTerm.simps)
  have "clear (level 0) 0 (rev x)" using atom_clear [OF assms(1), of 0 0 False] by (simp add: lead_clear_def)
  then have "clear (level 0) 0 (rev ?s)"
    using parens [of 0] sum by (simp add: clear_append depth_before_def level_other level_def ARITHMETIC_def del: compileTerm.simps)
  then have "scan_operator (level 0) 0 (rev ?s) [] = None" by (rule scan_none)
  moreover have "scan_operator (level 1) 0 (rev ?s) [] = Some (Sub, x, ?sum)"
    using parens [of 1] sum x by (intro scan_finds_operator) (simp_all add: level_def ARITHMETIC_def)
  ultimately have found: "find_operator ARITHMETIC ?s = Some (Sub, x, ?sum)" by (simp add: levels or_try_def)
  have "tidy [45]" by (rule tidy_word) (simp_all add: uspace_def)
  then have "tidy ?s" using tidy_spaced [OF x(1) tidy_spaced [OF _ sum(1)], of "[45]"] by simp
  moreover have "strip_loop ?s = ?s" using strip_unwrapped [OF x(2) tidy_nonempty [OF x(1)], of "[32, 45, 32] @ ?sum"] by simp
  ultimately have strip: "stripOuterParentheses ?s = ?s" by (simp add: stripOuterParentheses_def utrim_tidy del: compileTerm.simps)
  have "parseTerm xs x = Inr (Variable x)" using parse_compiled_term [OF assms(1), of 0 False] by simp
  then show ?thesis
    using strip found parse_compiled_term [OF assms(2), of 2 False] by (subst parseTerm.simps) (simp add: Let_def del: compileTerm.simps)
qed

text \<open>
  C25. A grouping is lost. A difference whose right side is a sum in parentheses is read
  correctly, but compiled without the parentheses; what was written then reads as a sum of the
  difference, a different term.
\<close>

theorem compiled_grouping_lost:
  assumes "canonical [x, y, z] (Variable x)" "canonical [x, y, z] (Op Add (Variable y) (Variable z))"
  shows "parseTerm [x, y, z] (x @ u '' - ('' @ y @ u '' + '' @ z @ u '')'') = Inr (Op Sub (Variable x) (Op Add (Variable y) (Variable z)))
    \<and> parseTerm [x, y, z] (compileTerm (Op Sub (Variable x) (Op Add (Variable y) (Variable z))) 0 False)
      = Inr (Op Add (Op Sub (Variable x) (Variable y)) (Variable z))"
proof
  have "parenthesized Add 2 False" by (simp add: parenthesized_def precedence_def)
  then show "parseTerm [x, y, z] (x @ u '' - ('' @ y @ u '' + '' @ z @ u '')'') = Inr (Op Sub (Variable x) (Op Add (Variable y) (Variable z)))"
    using grouped_sum_read [OF assms] by (simp add: operator_symbol_def)
  have same: "compileTerm (Op Sub (Variable x) (Op Add (Variable y) (Variable z))) 0 False
      = compileTerm (Op Add (Op Sub (Variable x) (Variable y)) (Variable z)) 0 False"
    by (simp add: Let_def parenthesized_def precedence_def operator_symbol_def)
  have "canonical [x, y, z] (Op Add (Op Sub (Variable x) (Variable y)) (Variable z))" using assms by simp
  then show "parseTerm [x, y, z] (compileTerm (Op Sub (Variable x) (Op Add (Variable y) (Variable z))) 0 False)
      = Inr (Op Add (Op Sub (Variable x) (Variable y)) (Variable z))"
    unfolding same by (rule parse_compiled_term)
qed

lemma compiled_grouping_lost_witness:
  "parseTerm [u ''a'', u ''b'', u ''c''] (compileTerm (Op Sub (Variable (u ''a'')) (Op Add (Variable (u ''b'')) (Variable (u ''c'')))) 0 False)
    = Inr (Op Add (Op Sub (Variable (u ''a'')) (Variable (u ''b''))) (Variable (u ''c'')))"
  by (rule conjunct2 [OF compiled_grouping_lost]) (simp_all add: name_ok_def SAFE_NAME_def uletter_def)

definition ex_sum_theorem :: theorem_dsl where
  "ex_sum_theorem = \<lparr>binders = [\<lparr>b_name = u ''a'', b_domain = D_int\<rparr>, \<lparr>b_name = u ''b'', b_domain = D_int\<rparr>],
    assumptions = [\<lparr>relation = Le, rel_left = Op Mul (Variable (u ''a'')) (Op Sub (Variable (u ''b'')) (Literal 1)), rel_right = Variable (u ''b'')\<rparr>],
    conclusion = \<lparr>relation = Ne, rel_left = Variable (u ''a''), rel_right = Op Sub (Literal (-2)) (Op Sub (Variable (u ''b'')) (Literal 3))\<rparr>\<rparr>"

lemma ex_sum_canonical: "canonical_theorem D_int ex_sum_theorem"
  by (simp add: canonical_theorem_def quantifies_def ex_sum_theorem_def domain_ok_def SAFE_NAME_def uletter_def canonical_relation_def name_ok_def
      parenthesized_def precedence_def)

lemma compiled_theorem_read_back_witness:
  "\<exists>r. buildTypedTheoremDslFromLeanType ex_rt id (theorem_text D_int ex_sum_theorem) None None [''Init''] = Inr r
    \<and> compilation r = Inr (ex_sum_theorem, theorem_text D_int ex_sum_theorem)"
proof (rule compiled_theorem_read_back [OF ex_sum_canonical])
  show "compileTypedTheoremDsl ex_sum_theorem = Inr (theorem_text D_int ex_sum_theorem)"
    using ex_sum_canonical by (intro compiled_text) (simp add: canonical_theorem_def)
qed (simp_all add: mathlib_imported_def ex_sum_theorem_def domainRequiresMathlib_def)

end
