(* ===== verification/Theorem_Graph.thy ===== *)
theory Theorem_Graph
  imports External_Action_Contract
begin

text \<open>
  The dependency graph of theorems (\<open>paper-domain/research/typed-theorem-dependency-graph.mjs\<close>):
  its nodes, the topological order in which they are searched, and the proof that the order exists
  exactly for graphs without a cycle. Construction, receipts and execution are in
  \<open>Graph_Construction\<close> and \<open>Graph_Execution\<close>.
\<close>

record theorem_node =
  claimId :: string
  claimKey :: string
  nodeHash :: string
  dependencyClaimIds :: "string list"
  requiredForRelease :: bool

section \<open>Topological order\<close>

text \<open>A \<open>Map\<close> built from a list keeps the last value of a key.\<close>

definition map_of_entries :: "('a \<times> 'b) list \<Rightarrow> 'a \<Rightarrow> 'b option" where
  "map_of_entries es = map_of (rev es)"

definition orderIndex :: "theorem_node list \<Rightarrow> string \<Rightarrow> nat" where
  "orderIndex ns i = (case map_of_entries (zip (map claimId ns) [0..<length ns]) i of Some k \<Rightarrow> k | None \<Rightarrow> 0)"

definition initial_indegree :: "theorem_node list \<Rightarrow> string \<Rightarrow> int" where
  "initial_indegree ns i = (case map_of_entries (map (\<lambda>n. (claimId n, int (length (dependencyClaimIds n)))) ns) i of Some k \<Rightarrow> k | None \<Rightarrow> 0)"

definition dependents :: "theorem_node list \<Rightarrow> string \<Rightarrow> string list" where
  "dependents ns d = concat (map (\<lambda>n. map (\<lambda>_. claimId n) (filter (\<lambda>e. e = d) (dependencyClaimIds n))) ns)"

fun release_dependents :: "(string \<Rightarrow> nat) \<Rightarrow> string list \<Rightarrow> (string \<Rightarrow> int) \<times> string list \<Rightarrow> (string \<Rightarrow> int) \<times> string list" where
  "release_dependents key [] st = st"
| "release_dependents key (d # ds) (indegree, ready) =
    (let indegree' = indegree(d := indegree d - 1) in
     release_dependents key ds (indegree', if indegree' d = 0 then sort_key key (ready @ [d]) else ready))"

definition open_nodes :: "theorem_node list \<Rightarrow> (string \<Rightarrow> int) \<Rightarrow> string set" where
  "open_nodes ns indegree = {i \<in> claimId ` set ns. 0 < indegree i}"

lemma release_measure:
  assumes "set ds \<subseteq> claimId ` set ns"
  shows "length (snd (release_dependents key ds (indegree, ready))) + card (open_nodes ns (fst (release_dependents key ds (indegree, ready))))
    \<le> length ready + card (open_nodes ns indegree)"
  using assms
proof (induction ds arbitrary: indegree ready)
  case (Cons d ds)
  let ?indegree = "indegree(d := indegree d - 1)"
  let ?ready = "if ?indegree d = 0 then sort_key key (ready @ [d]) else ready"
  have finite: "finite (open_nodes ns f)" for f by (simp add: open_nodes_def)
  have "length ?ready + card (open_nodes ns ?indegree) \<le> length ready + card (open_nodes ns indegree)"
  proof (cases "indegree d = 1")
    case True
    then have "open_nodes ns ?indegree = open_nodes ns indegree - {d}" by (auto simp: open_nodes_def)
    moreover have "d \<in> open_nodes ns indegree" using True Cons.prems by (simp add: open_nodes_def)
    ultimately show ?thesis using True card_Suc_Diff1 [OF finite, of d indegree] by simp
  next
    case False
    have "open_nodes ns ?indegree \<subseteq> open_nodes ns indegree" by (auto simp: open_nodes_def split: if_splits)
    then show ?thesis using False card_mono [OF finite] by simp
  qed
  moreover have "length (snd (release_dependents key ds (?indegree, ?ready))) + card (open_nodes ns (fst (release_dependents key ds (?indegree, ?ready))))
      \<le> length ?ready + card (open_nodes ns ?indegree)"
    by (rule Cons.IH) (use Cons.prems in simp)
  ultimately show ?case by (simp add: Let_def)
qed simp

lemma dependents_subset: "set (dependents ns d) \<subseteq> claimId ` set ns"
  by (auto simp: dependents_def)

function order_loop :: "theorem_node list \<Rightarrow> string list \<Rightarrow> (string \<Rightarrow> int) \<Rightarrow> string list \<Rightarrow> string list" where
  "order_loop ns [] indegree found = found"
| "order_loop ns (c # ready) indegree found =
    (let (indegree', ready') = release_dependents (orderIndex ns) (dependents ns c) (indegree, ready) in
     order_loop ns ready' indegree' (found @ [c]))"
  by pat_completeness auto

termination
proof (relation "measure (\<lambda>(ns, ready, indegree, found). length ready + card (open_nodes ns indegree))", simp)
  fix ns c ready indegree and found :: "string list" and x indegree' ready'
  assume "x = release_dependents (orderIndex ns) (dependents ns c) (indegree, ready)" "(indegree', ready') = x"
  then have eq: "release_dependents (orderIndex ns) (dependents ns c) (indegree, ready) = (indegree', ready')" by simp
  show "((ns, ready', indegree', found @ [c]), ns, c # ready, indegree, found)
      \<in> measure (\<lambda>(ns, ready, indegree, found). length ready + card (open_nodes ns indegree))"
    using release_measure [OF dependents_subset, of "orderIndex ns" ns c indegree ready] by (simp add: eq)
qed

definition topologicalOrder :: "theorem_node list \<Rightarrow> string list result" where
  "topologicalOrder ns =
    (if \<not> list_all (\<lambda>n. list_all (\<lambda>d. d \<in> claimId ` set ns) (dependencyClaimIds n)) ns then Inl ''TypeError''
     else let ready = sort_key (orderIndex ns) (filter (\<lambda>i. initial_indegree ns i = 0) (map claimId ns));
              found = order_loop ns ready (initial_indegree ns) [] in
       if length found \<noteq> length ns then Inl ''typed_theorem_dependency_graph_cycle'' else Inr found)"

section \<open>The order is complete and respects dependencies\<close>

text \<open>
  The specification: the dependency relation of the graph, and lists in which the dependencies of a
  node come first.
\<close>

definition graph_ids :: "theorem_node list \<Rightarrow> string set" where
  "graph_ids ns = claimId ` set ns"

definition depends :: "theorem_node list \<Rightarrow> (string \<times> string) set" where
  "depends ns = (\<Union>n\<in>set ns. (\<lambda>d. (d, claimId n)) ` set (dependencyClaimIds n))"

definition after_dependencies :: "theorem_node list \<Rightarrow> string list \<Rightarrow> bool" where
  "after_dependencies ns order =
    (\<forall>k<length order. \<forall>n\<in>set ns. claimId n = order ! k \<longrightarrow> set (dependencyClaimIds n) \<subseteq> set (take k order))"

lemma after_dependencies_snoc:
  assumes "after_dependencies ns order" and "\<And>n. n \<in> set ns \<Longrightarrow> claimId n = c \<Longrightarrow> set (dependencyClaimIds n) \<subseteq> set order"
  shows "after_dependencies ns (order @ [c])"
  using assms by (auto simp: after_dependencies_def nth_append less_Suc_eq)

lemma release_closed:
  assumes "\<forall>x\<in>set ds. int (count_list ds x) \<le> f x" and "\<forall>x\<in>set r. f x = 0" and "distinct r"
    and "release_dependents key ds (f, r) = (f', r')"
  shows "f' = (\<lambda>x. f x - int (count_list ds x)) \<and> distinct r' \<and> set r' = set r \<union> {x \<in> set ds. f' x = 0}"
  using assms
proof (induction ds arbitrary: f r)
  case Nil
  then show ?case by simp
next
  case (Cons d ds)
  let ?f = "f(d := f d - 1)"
  let ?r = "if ?f d = 0 then sort_key key (r @ [d]) else r"
  have counts: "\<forall>x\<in>set ds. int (count_list ds x) \<le> ?f x"
    using Cons.prems(1) by (auto split: if_splits)
  have pos: "1 \<le> f d" using Cons.prems(1) by auto
  have new: "d \<notin> set r" using pos Cons.prems(2) by auto
  have zero: "\<forall>x\<in>set ?r. ?f x = 0" using Cons.prems(2) new by auto
  have distinct: "distinct ?r" using Cons.prems(3) new by simp
  have release: "release_dependents key ds (?f, ?r) = (f', r')" using Cons.prems(4) by (simp add: Let_def)
  note IH = Cons.IH [OF counts zero distinct release]
  have f': "f' = (\<lambda>x. f x - int (count_list (d # ds) x))" using IH by (auto simp: fun_eq_iff)
  have gone: "d \<notin> set ds" if "?f d = 0"
  proof
    assume "d \<in> set ds"
    moreover from this have "count_list ds d \<noteq> 0" by (simp add: count_list_0_iff)
    ultimately show False using counts that by auto
  qed
  have kept: "d \<in> set ds" if "?f d \<noteq> 0" "f' d = 0"
    using that f' count_list_0_iff [of ds d] by (cases "d \<in> set ds") auto
  have "f' d = 0" if "?f d = 0" using f' that gone [OF that] by (simp add: count_notin)
  then have "set ?r \<union> {x \<in> set ds. f' x = 0} = set r \<union> {x \<in> set (d # ds). f' x = 0}"
    using kept by (cases "?f d = 0") auto
  moreover have "distinct r'" "set r' = set ?r \<union> {x \<in> set ds. f' x = 0}" using IH by simp_all
  ultimately show ?case using f' by (intro conjI) simp_all
qed

lemma count_concat_map: "count_list (concat (map g xs)) x = sum_list (map (\<lambda>y. count_list (g y) x) xs)"
  by (induction xs) simp_all

lemma count_dependents:
  assumes "distinct (map claimId ns)" and "n \<in> set ns"
  shows "count_list (dependents ns c) (claimId n) = count_list (dependencyClaimIds n) c"
proof -
  have one: "count_list (map (\<lambda>_. claimId m) (filter (\<lambda>e. e = c) (dependencyClaimIds m))) (claimId n)
      = (if m = n then count_list (dependencyClaimIds n) c else 0)" if "m \<in> set ns" for m
  proof -
    have "count_list (map (\<lambda>_. a) (filter (\<lambda>e. e = c) ds)) b = (if a = b then count_list ds c else 0)"
      for ds :: "string list" and a b :: string by (induction ds) auto
    moreover have "claimId m = claimId n \<longleftrightarrow> m = n"
      using assms that by (auto simp: distinct_map inj_on_def)
    ultimately show ?thesis by simp
  qed
  have "sum_list (map (\<lambda>m. if m = n then k else 0) ns) = k" for k :: nat
  proof -
    have "distinct ns" using assms(1) by (simp add: distinct_map)
    then show ?thesis using assms(2)
      by (simp add: sum_list_distinct_conv_sum_set sum.delta')
  qed
  then show ?thesis using one by (simp add: dependents_def count_concat_map cong: map_cong)
qed

lemma in_dependents: "x \<in> set (dependents ns c) \<longleftrightarrow> (\<exists>n\<in>set ns. x = claimId n \<and> c \<in> set (dependencyClaimIds n))"
  by (auto simp: dependents_def)

lemma initial_indegree_node:
  assumes "distinct (map claimId ns)" and "n \<in> set ns"
  shows "initial_indegree ns (claimId n) = int (length (dependencyClaimIds n))"
proof -
  have "map_of (rev (map (\<lambda>n. (claimId n, int (length (dependencyClaimIds n)))) ns)) (claimId n)
      = Some (int (length (dependencyClaimIds n)))"
    by (rule map_of_is_SomeI) (use assms in \<open>auto simp: rev_map [symmetric] comp_def distinct_map\<close>)
  then show ?thesis by (simp add: initial_indegree_def map_of_entries_def)
qed

text \<open>What the loop of Kahn's algorithm keeps: the indegree of a node counts the dependencies not yet in the result.\<close>

definition missing :: "theorem_node \<Rightarrow> string list \<Rightarrow> string list" where
  "missing n found = filter (\<lambda>d. d \<notin> set found) (dependencyClaimIds n)"

definition order_invariant :: "theorem_node list \<Rightarrow> string list \<Rightarrow> (string \<Rightarrow> int) \<Rightarrow> string list \<Rightarrow> bool" where
  "order_invariant ns ready indegree found \<longleftrightarrow>
    distinct (found @ ready) \<and> set (found @ ready) \<subseteq> graph_ids ns
    \<and> (\<forall>n\<in>set ns. indegree (claimId n) = int (length (missing n found)))
    \<and> (\<forall>n\<in>set ns. missing n found = [] \<longleftrightarrow> claimId n \<in> set (found @ ready))
    \<and> after_dependencies ns found"

lemma missing_snoc:
  "c \<notin> set found \<Longrightarrow> int (length (missing n (found @ [c]))) = int (length (missing n found)) - int (count_list (dependencyClaimIds n) c)"
proof -
  assume "c \<notin> set found"
  then have "length (filter (\<lambda>d. d \<notin> set found) ds) = length (filter (\<lambda>d. d \<notin> set (found @ [c])) ds) + count_list ds c" for ds
    by (induction ds) auto
  then show ?thesis by (simp add: missing_def)
qed

lemma order_invariant_start:
  assumes "distinct (map claimId ns)"
  shows "order_invariant ns (sort_key (orderIndex ns) (filter (\<lambda>i. initial_indegree ns i = 0) (map claimId ns))) (initial_indegree ns) []"
  using assms initial_indegree_node [OF assms]
  by (auto simp: order_invariant_def missing_def after_dependencies_def graph_ids_def)

lemma order_invariant_step:
  assumes ids: "distinct (map claimId ns)" and inv: "order_invariant ns (c # ready) indegree found"
    and release: "release_dependents key (dependents ns c) (indegree, ready) = (indegree', ready')"
  shows "order_invariant ns ready' indegree' (found @ [c])"
proof -
  have fresh: "c \<notin> set found" "distinct found" "c \<notin> set ready" "distinct ready" "set found \<inter> set ready = {}"
    and inside: "set found \<union> insert c (set ready) \<subseteq> graph_ids ns"
    and degree: "\<And>n. n \<in> set ns \<Longrightarrow> indegree (claimId n) = int (length (missing n found))"
    and done_iff: "\<And>n. n \<in> set ns \<Longrightarrow> missing n found = [] \<longleftrightarrow> claimId n \<in> set found \<union> insert c (set ready)"
    and ordered: "after_dependencies ns found"
    using inv by (auto simp: order_invariant_def)
  note less = missing_snoc [OF fresh(1)]
  note count = count_dependents [OF ids, of _ c]
  have counts: "\<forall>x\<in>set (dependents ns c). int (count_list (dependents ns c) x) \<le> indegree x"
  proof
    fix x assume "x \<in> set (dependents ns c)"
    then obtain n where n: "n \<in> set ns" "x = claimId n" by (auto simp: in_dependents)
    show "int (count_list (dependents ns c) x) \<le> indegree x"
      using less [of n] by (simp add: n count degree)
  qed
  have zero: "\<forall>x\<in>set ready. indegree x = 0"
  proof
    fix x assume x: "x \<in> set ready"
    then obtain n where "n \<in> set ns" "x = claimId n" using inside by (auto simp: graph_ids_def)
    then show "indegree x = 0" using x degree [of n] done_iff [of n] by simp
  qed
  note closed = release_closed [OF counts zero fresh(4) release]
  have degree': "indegree' (claimId n) = int (length (missing n (found @ [c])))" if "n \<in> set ns" for n
    using closed less [of n] by (simp add: that count degree)
  have grown: "set ready' = set ready \<union> {x \<in> set (dependents ns c). indegree' x = 0}" and "distinct ready'"
    using closed by simp_all
  have waiting: "x \<notin> insert c (set found)" if dependent: "x \<in> set (dependents ns c)" for x
  proof
    assume x: "x \<in> insert c (set found)"
    obtain n where n: "n \<in> set ns" "x = claimId n" "c \<in> set (dependencyClaimIds n)"
      using dependent by (auto simp: in_dependents)
    then have "missing n found = []" using done_iff x by auto
    then show False using n(3) fresh(1) by (auto simp: missing_def filter_empty_conv)
  qed
  have "distinct ((found @ [c]) @ ready')"
    using fresh \<open>distinct ready'\<close> grown waiting by auto
  moreover have "set ((found @ [c]) @ ready') \<subseteq> graph_ids ns"
    using inside grown dependents_subset [of ns c] by (auto simp: graph_ids_def)
  moreover have "missing n (found @ [c]) = [] \<longleftrightarrow> claimId n \<in> set ((found @ [c]) @ ready')" if n: "n \<in> set ns" for n
  proof -
    have "missing n found = [] \<or> c \<in> set (dependencyClaimIds n)" if "missing n (found @ [c]) = []"
      using that by (auto simp: missing_def filter_empty_conv)
    moreover have "missing n (found @ [c]) = []" if "missing n found = []"
      using that by (auto simp: missing_def filter_empty_conv)
    ultimately show ?thesis
      using n grown done_iff [OF n] degree' [OF n] by (auto simp: in_dependents)
  qed
  moreover have "after_dependencies ns (found @ [c])"
  proof (rule after_dependencies_snoc [OF ordered])
    fix n assume "n \<in> set ns" "claimId n = c"
    then have "missing n found = []" using done_iff by simp
    then show "set (dependencyClaimIds n) \<subseteq> set found" by (auto simp: missing_def filter_empty_conv)
  qed
  ultimately show ?thesis using degree' by (auto simp: order_invariant_def)
qed

lemma order_loop_invariant:
  assumes "distinct (map claimId ns)"
  shows "order_invariant ns ready indegree found \<Longrightarrow> \<exists>indegree'. order_invariant ns [] indegree' (order_loop ns ready indegree found)"
  using assms
proof (induction ns ready indegree found rule: order_loop.induct)
  case (1 ns indegree found)
  then show ?case by auto
next
  case (2 ns c ready indegree found)
  obtain indegree' ready' where release: "release_dependents (orderIndex ns) (dependents ns c) (indegree, ready) = (indegree', ready')"
    by (cases "release_dependents (orderIndex ns) (dependents ns c) (indegree, ready)")
  show ?case
    using 2(1) [OF HOL.refl release [symmetric] order_invariant_step [OF 2(3) 2(2) release] 2(3)] by (simp add: release)
qed

section \<open>Cycles\<close>

definition position :: "string list \<Rightarrow> string \<Rightarrow> nat" where
  "position order x = length (takeWhile (\<lambda>y. y \<noteq> x) order)"

lemma position_first: "j < length order \<Longrightarrow> position order (order ! j) \<le> j"
  using takeWhile_nth [of j "\<lambda>y. y \<noteq> order ! j" order] nth_mem [of j "takeWhile (\<lambda>y. y \<noteq> order ! j) order"]
  by (force simp: position_def not_le [symmetric] dest: set_takeWhileD)

lemma position_nth:
  assumes "x \<in> set order"
  shows "position order x < length order" and "order ! position order x = x"
proof -
  show less: "position order x < length order"
    using assms by (induction order) (auto simp: position_def)
  show "order ! position order x = x"
    using nth_length_takeWhile [of "\<lambda>y. y \<noteq> x" order] less by (simp add: position_def)
qed

lemma ordered_acyclic:
  assumes after: "after_dependencies ns order" and all: "graph_ids ns \<subseteq> set order"
  shows "acyclic (depends ns)"
proof -
  have "position order d < position order (claimId n)" if n: "n \<in> set ns" "d \<in> set (dependencyClaimIds n)" for n d
  proof -
    have member: "claimId n \<in> set order" using n all by (auto simp: graph_ids_def)
    have "d \<in> set (take (position order (claimId n)) order)"
      using after [unfolded after_dependencies_def, rule_format, OF position_nth(1) [OF member] n(1) position_nth(2) [OF member, symmetric]] n(2)
      by blast
    then obtain j where j: "j < position order (claimId n)" "order ! j = d"
      using position_nth(1) [OF member] by (auto simp: in_set_conv_nth)
    have "position order (order ! j) \<le> j" by (rule position_first) (use j(1) position_nth(1) [OF member] in simp)
    then show ?thesis using j by simp
  qed
  then have "depends ns \<subseteq> measure (position order)" by (auto simp: depends_def)
  then show ?thesis by (meson wf_measure wf_subset wf_acyclic)
qed

lemma stuck_cyclic:
  assumes ids: "distinct (map claimId ns)" and resolved: "\<forall>n\<in>set ns. set (dependencyClaimIds n) \<subseteq> graph_ids ns"
    and inv: "order_invariant ns [] indegree found" and stuck: "x \<in> graph_ids ns - set found"
  shows "\<not> acyclic (depends ns)"
proof
  assume "acyclic (depends ns)"
  moreover have "finite (depends ns)" by (simp add: depends_def)
  ultimately have "wf (depends ns)" by (rule finite_acyclic_wf [rotated])
  then obtain z where z: "z \<in> graph_ids ns - set found" "\<And>y. (y, z) \<in> depends ns \<Longrightarrow> y \<notin> graph_ids ns - set found"
    using wfE_min [OF _ stuck] by metis
  then obtain n where n: "n \<in> set ns" "claimId n = z" by (auto simp: graph_ids_def)
  then have "missing n found \<noteq> []" using inv z(1) by (auto simp: order_invariant_def)
  then obtain d where d: "d \<in> set (dependencyClaimIds n)" "d \<notin> set found" by (auto simp: missing_def filter_empty_conv)
  then have "d \<in> graph_ids ns" "(d, z) \<in> depends ns" using resolved n by (auto simp: depends_def)
  then show False using z(2) d(2) by blast
qed

lemma topological_order_spec:
  assumes "distinct (map claimId ns)" and "\<forall>n\<in>set ns. set (dependencyClaimIds n) \<subseteq> graph_ids ns"
  shows "case topologicalOrder ns of
      Inl e \<Rightarrow> e = ''typed_theorem_dependency_graph_cycle'' \<and> \<not> acyclic (depends ns)
    | Inr order \<Rightarrow> acyclic (depends ns) \<and> mset order = mset (map claimId ns) \<and> after_dependencies ns order"
proof -
  let ?found = "order_loop ns (sort_key (orderIndex ns) (filter (\<lambda>i. initial_indegree ns i = 0) (map claimId ns))) (initial_indegree ns) []"
  obtain indegree where inv: "order_invariant ns [] indegree ?found"
    using order_loop_invariant [OF assms(1) order_invariant_start [OF assms(1)]] by blast
  then have found: "distinct ?found" "set ?found \<subseteq> set (map claimId ns)" "after_dependencies ns ?found"
    by (auto simp: order_invariant_def graph_ids_def)
  have ids: "length ns = card (graph_ids ns)"
    using distinct_card [OF assms(1)] by (simp add: graph_ids_def)
  have "length ?found = length ns \<longleftrightarrow> set ?found = graph_ids ns"
  proof
    assume "length ?found = length ns"
    then show "set ?found = graph_ids ns"
      using found(2) ids distinct_card [OF found(1)] by (intro card_subset_eq) (simp_all add: graph_ids_def)
  qed (use ids distinct_card [OF found(1)] in simp)
  moreover have "mset ?found = mset (map claimId ns)" if "set ?found = graph_ids ns"
    by (rule iffD1 [OF set_eq_iff_mset_eq_distinct [OF found(1) assms(1)]]) (use that in \<open>simp add: graph_ids_def\<close>)
  moreover have "set ?found = graph_ids ns \<longleftrightarrow> acyclic (depends ns)"
    using stuck_cyclic [OF assms inv] ordered_acyclic [OF found(3)] found(2) by (auto simp: graph_ids_def)
  moreover have "list_all (\<lambda>n. list_all (\<lambda>d. d \<in> claimId ` set ns) (dependencyClaimIds n)) ns"
    using assms(2) by (auto simp: list_all_iff graph_ids_def)
  ultimately show ?thesis using found(3) by (simp add: topologicalOrder_def Let_def)
qed

definition ex_theorems :: "theorem_node list" where
  "ex_theorems = map (\<lambda>(i, ds, r). \<lparr>claimId = i, claimKey = i, nodeHash = i, dependencyClaimIds = ds, requiredForRelease = r\<rparr>)
    [(''c'', [''b'', ''a''], False), (''b'', [''a''], False), (''a'', [], True)]"

definition ex_cyclic_theorems :: "theorem_node list" where
  "ex_cyclic_theorems = map (\<lambda>n. if claimId n = ''a'' then n\<lparr>dependencyClaimIds := [''c'']\<rparr> else n) ex_theorems"

lemma ex_theorems_ordered: "topologicalOrder ex_theorems = Inr [''a'', ''b'', ''c'']"
  by code_simp

lemma ex_theorems_cyclic: "topologicalOrder ex_cyclic_theorems = Inl ''typed_theorem_dependency_graph_cycle''"
  by code_simp

text \<open>
  C28. The topological order of a theorem graph with distinct claim ids and resolved dependencies: the
  function returns for every graph. It fails with the cycle error exactly when the dependency relation
  has a cycle; otherwise the order lists every claim once, after all its dependencies.
\<close>

theorem topological_order_correct:
  assumes "distinct (map claimId ns)" and "\<forall>n\<in>set ns. set (dependencyClaimIds n) \<subseteq> graph_ids ns"
  shows "case topologicalOrder ns of
      Inl e \<Rightarrow> e = ''typed_theorem_dependency_graph_cycle'' \<and> \<not> acyclic (depends ns)
    | Inr order \<Rightarrow> acyclic (depends ns) \<and> mset order = mset (map claimId ns) \<and> after_dependencies ns order"
  by (rule topological_order_spec [OF assms])

lemma topological_order_correct_witness:
  "acyclic (depends ex_theorems) \<and> after_dependencies ex_theorems [''a'', ''b'', ''c''] \<and> \<not> acyclic (depends ex_cyclic_theorems)"
  using topological_order_correct [of ex_theorems] topological_order_correct [of ex_cyclic_theorems]
  by (simp add: ex_theorems_ordered ex_theorems_cyclic)
    (simp add: ex_cyclic_theorems_def ex_theorems_def graph_ids_def)

end
