(* ===== verification/Graph_Execution.thy ===== *)
theory Graph_Execution
  imports Theorem_Graph Launch_Mode_Policy
begin

text \<open>
  The execution of a theorem graph (\<open>paper-domain/research/typed-theorem-dependency-graph.mjs\<close>): the
  receipt of one search, the receipt of the whole execution, its replay, and the loop that calls the
  search. The search is an argument: it may answer anything, \<open>undefined\<close> (\<open>None\<close>) included, and its
  side effects are a world it threads. Receipts are JSON values; the comparison of two
  \<open>JSON.stringify\<close> texts is the comparison of the values with their key order, and \<open>undefined\<close> in an
  array is written as \<open>null\<close>. The fields of a graph that the execution does not read are left out.
\<close>

record theorem_graph =
  graphHash :: string
  graphSemanticHash :: string
  graph_nodes :: "theorem_node list"
  graph_order :: "string list"

type_synonym receipt = "json option"

section \<open>Receipts of a search\<close>

definition KERNEL_VERIFIED :: string where
  "KERNEL_VERIFIED = ''theorem_dependency_kernel_verified''"

definition REFUTED :: string where
  "REFUTED = ''theorem_dependency_refuted''"

definition BLOCKED_BY_DEPENDENCY :: string where
  "BLOCKED_BY_DEPENDENCY = ''theorem_dependency_blocked_by_dependency''"

definition RESULT_STATUSES :: "string list" where
  "RESULT_STATUSES = [KERNEL_VERIFIED, REFUTED, ''theorem_dependency_search_exhausted'',
    ''theorem_dependency_semantic_review_only'', BLOCKED_BY_DEPENDENCY]"

definition resultOutcomeAllowed :: "theorem_node \<Rightarrow> string \<Rightarrow> bool" where
  "resultOutcomeAllowed n verdict =
    (if verdict = KERNEL_VERIFIED then True
     else if requiredForRelease n then False
     else verdict \<in> {REFUTED, ''theorem_dependency_search_exhausted'', ''theorem_dependency_semantic_review_only'', BLOCKED_BY_DEPENDENCY})"

text \<open>\<open>item?.k\<close>; \<open>item.k\<close>, which throws on \<open>undefined\<close> and \<open>null\<close>; a value as an array element; a default of \<open>null\<close>.\<close>

definition maybe_field :: "string \<Rightarrow> receipt \<Rightarrow> json option" where
  "maybe_field k r = Option.bind r (jget k)"

definition get_field :: "string \<Rightarrow> receipt \<Rightarrow> json option result" where
  "get_field k r = (if r = None \<or> r = Some JNull then Inl ''TypeError'' else Inr (maybe_field k r))"

definition or_json_null :: "json option \<Rightarrow> json" where
  "or_json_null v = (case v of Some w \<Rightarrow> w | None \<Rightarrow> JNull)"

definition node_of_claim :: "theorem_graph \<Rightarrow> json option \<Rightarrow> theorem_node option" where
  "node_of_claim g i = List.find (\<lambda>n. i = Some (JStr (claimId n))) (graph_nodes g)"

definition is_verified :: "receipt \<Rightarrow> bool" where
  "is_verified r = (maybe_field ''status'' r = Some (JStr KERNEL_VERIFIED))"

definition array_of :: "json option \<Rightarrow> json list" where
  "array_of v = (case v of Some (JArr vs) \<Rightarrow> vs | _ \<Rightarrow> [])"

definition attempt_hash :: "json \<Rightarrow> json" where
  "attempt_hash item = or_else (jget ''formalProofSearchAttemptReceiptHash'' item)
    (or_else (jget ''formalProofSearchOperationReceiptHash'' item) item)"

definition sha256_text :: "runtime \<Rightarrow> json \<Rightarrow> bool" where
  "sha256_text rt v = is_sha256 (js_string rt v)"

definition selected_blockers :: "runtime \<Rightarrow> json option \<Rightarrow> string list result" where
  "selected_blockers rt blockers =
    (case or_else blockers (JArr []) of
       JArr vs \<Rightarrow> Inr (sortStrings (unique (map (js_string rt) vs)))
     | _ \<Rightarrow> Inl ''TypeError'')"

record search_answer =
  attemptReceipts :: "json option"
  answer_status :: "json option"
  kernelReceipt :: "json option"
  refutationReceipt :: "json option"
  explanation :: "json option"
  answer_blockers :: "json option"

definition search_receipt_payload ::
    "theorem_graph \<Rightarrow> theorem_node \<Rightarrow> receipt list \<Rightarrow> search_answer \<Rightarrow> string \<Rightarrow> string list \<Rightarrow> (string \<times> json) list" where
  "search_receipt_payload g n imported a verdict blockers =
    [(''version'', JInt 1),
     (''kind'', JStr ''TheoremDependencySearchReceipt''),
     (''status'', JStr verdict),
     (''typedTheoremDependencyGraphHash'', JStr (graphHash g)),
     (''graphSemanticHash'', JStr (graphSemanticHash g)),
     (''claimId'', JStr (claimId n)),
     (''claimKey'', JStr (claimKey n)),
     (''typedTheoremDependencyNodeHash'', JStr (nodeHash n)),
     (''dependencyClaimIds'', JArr (map JStr (dependencyClaimIds n))),
     (''dependencyReceiptHashes'', JArr (map (\<lambda>r. or_json_null (maybe_field ''theoremDependencySearchReceiptHash'' r)) imported)),
     (''dependencyKernelEvidenceHashes'',
       JArr (map (\<lambda>r. or_json_null (maybe_field ''kernelVerificationReceiptHash'' r)) (filter is_verified imported))),
     (''attemptReceiptHashes'', JArr (map attempt_hash (array_of (attemptReceipts a)))),
     (''kernelVerificationReceiptHash'', or_json_null (kernelReceipt a)),
     (''refutationReceiptHash'', or_json_null (refutationReceipt a)),
     (''readableProofExplanationHash'', or_json_null (explanation a)),
     (''releaseDisposition'', JStr (if resultOutcomeAllowed n verdict then ''release_requirement_satisfied'' else ''release_blocked'')),
     (''blockers'', JArr (map JStr blockers)),
     (''externalActionPerformed'', JBool False)]"

definition createTheoremDependencySearchReceipt ::
    "runtime \<Rightarrow> theorem_graph \<Rightarrow> json option \<Rightarrow> receipt list \<Rightarrow> search_answer \<Rightarrow> json result" where
  "createTheoremDependencySearchReceipt rt g i imported a =
    (case (node_of_claim g i, answer_status a) of
       (Some n, Some (JStr verdict)) \<Rightarrow>
         if verdict \<notin> set RESULT_STATUSES then Inl ''theorem_dependency_search_receipt_input_invalid''
         else
           rbind (rmap (get_field ''claimId'') imported) (\<lambda>ids.
           rbind (check (map or_json_null ids = map JStr (dependencyClaimIds n)
               \<and> (list_all is_verified imported \<longleftrightarrow> verdict \<noteq> BLOCKED_BY_DEPENDENCY))
             ''theorem_dependency_search_unverified_dependency_import'') (\<lambda>_.
           rbind (check (list_all (\<lambda>item. sha256_text rt (attempt_hash item)) (array_of (attemptReceipts a)))
             ''theorem_dependency_search_attempt_invalid'') (\<lambda>_.
           rbind (check (list_all (sha256_text rt) (filter (\<lambda>v. v \<noteq> JNull)
               (map or_json_null [kernelReceipt a, refutationReceipt a, explanation a])))
             ''theorem_dependency_search_evidence_hash_invalid'') (\<lambda>_.
           rbind (check ((verdict = KERNEL_VERIFIED \<longleftrightarrow> jtruthy (kernelReceipt a))
               \<and> (verdict = REFUTED \<longleftrightarrow> jtruthy (refutationReceipt a))
               \<and> (verdict = KERNEL_VERIFIED \<longleftrightarrow> jtruthy (explanation a)))
             ''theorem_dependency_search_evidence_status_mismatch'') (\<lambda>_.
           rbind (selected_blockers rt (answer_blockers a)) (\<lambda>blockers.
           rbind (check (verdict = KERNEL_VERIFIED \<longleftrightarrow> blockers = [])
             ''theorem_dependency_search_blocker_status_mismatch'') (\<lambda>_.
           Inr (sealed_record rt ''TheoremDependencySearchReceipt'' ''theoremDependencySearchReceiptHash''
             (search_receipt_payload g n imported a verdict blockers)))))))))
     | _ \<Rightarrow> Inl ''theorem_dependency_search_receipt_input_invalid'')"

section \<open>Receipts of an execution\<close>

text \<open>The answer a receipt claims to come from, and the check that rebuilds every receipt in order.\<close>

definition receipt_answer :: "receipt \<Rightarrow> search_answer" where
  "receipt_answer r = \<lparr>attemptReceipts = maybe_field ''attemptReceiptHashes'' r, answer_status = maybe_field ''status'' r,
    kernelReceipt = maybe_field ''kernelVerificationReceiptHash'' r, refutationReceipt = maybe_field ''refutationReceiptHash'' r,
    explanation = maybe_field ''readableProofExplanationHash'' r, answer_blockers = maybe_field ''blockers'' r\<rparr>"

fun rebuild_receipts :: "runtime \<Rightarrow> theorem_graph \<Rightarrow> (string \<Rightarrow> receipt) \<Rightarrow> receipt list \<Rightarrow> unit result" where
  "rebuild_receipts rt g byClaimId [] = Inr ()"
| "rebuild_receipts rt g byClaimId (r # rs) =
    (case node_of_claim g (maybe_field ''claimId'' r) of
       None \<Rightarrow> Inl ''TypeError''
     | Some n \<Rightarrow>
         rbind (createTheoremDependencySearchReceipt rt g (maybe_field ''claimId'' r) (map byClaimId (dependencyClaimIds n)) (receipt_answer r))
           (\<lambda>rebuilt. if Some rebuilt \<noteq> r then Inl ''theorem_dependency_graph_execution_receipt_invalid''
             else rebuild_receipts rt g (byClaimId(claimId n := r)) rs))"

definition required_failure :: "theorem_graph \<Rightarrow> receipt \<Rightarrow> bool" where
  "required_failure g r = ((case node_of_claim g (maybe_field ''claimId'' r) of Some n \<Rightarrow> requiredForRelease n | None \<Rightarrow> False)
    \<and> \<not> is_verified r)"

definition receipt_id_text :: "runtime \<Rightarrow> receipt \<Rightarrow> string" where
  "receipt_id_text rt r = (case maybe_field ''claimId'' r of Some v \<Rightarrow> js_string rt v | None \<Rightarrow> ''undefined'')"

definition createTheoremDependencyGraphExecutionReceipt :: "runtime \<Rightarrow> theorem_graph \<Rightarrow> receipt list \<Rightarrow> json result" where
  "createTheoremDependencyGraphExecutionReceipt rt g receipts =
    rbind (rmap (get_field ''claimId'') receipts) (\<lambda>ids.
    rbind (check (map or_json_null ids = map JStr (graph_order g)) ''theorem_dependency_graph_execution_order_invalid'') (\<lambda>_.
    rbind (rebuild_receipts rt g (\<lambda>_. None) receipts) (\<lambda>_.
      let failures = filter (required_failure g) receipts in
      Inr (sealed_record rt ''TheoremDependencyGraphExecutionReceipt'' ''theoremDependencyGraphExecutionReceiptHash''
        [(''version'', JInt 1),
         (''kind'', JStr ''TheoremDependencyGraphExecutionReceipt''),
         (''status'', JStr (if failures \<noteq> [] then ''theorem_dependency_graph_execution_blocked''
           else ''theorem_dependency_graph_execution_verified'')),
         (''typedTheoremDependencyGraphHash'', JStr (graphHash g)),
         (''graphSemanticHash'', JStr (graphSemanticHash g)),
         (''topologicalOrder'', JArr (map JStr (graph_order g))),
         (''theoremReceiptHashes'', JArr (map (\<lambda>r. or_json_null (maybe_field ''theoremDependencySearchReceiptHash'' r)) receipts)),
         (''theoremReceipts'', JArr (map or_json_null receipts)),
         (''requiredFailureClaimIds'', JArr (map (\<lambda>r. or_json_null (maybe_field ''claimId'' r)) failures)),
         (''releaseReady'', JBool (failures = [])),
         (''blockers'', JArr (map (\<lambda>r. JStr (''required_theorem_not_kernel_verified:'' @ receipt_id_text rt r)) failures)),
         (''externalActionPerformed'', JBool False)]))))"

section \<open>Replay\<close>

definition createTheoremDependencyGraphReplayReceipt :: "runtime \<Rightarrow> theorem_graph \<Rightarrow> json option \<Rightarrow> json result" where
  "createTheoremDependencyGraphReplayReceipt rt g execution =
    rbind (createTheoremDependencyGraphExecutionReceipt rt g (map Some (array_of (maybe_field ''theoremReceipts'' execution)))) (\<lambda>rebuilt.
      if Some rebuilt \<noteq> execution then Inl ''theorem_dependency_graph_replay_execution_invalid''
      else Inr (sealed_record rt ''TheoremDependencyGraphReplayReceipt'' ''theoremDependencyGraphReplayReceiptHash''
        [(''version'', JInt 1),
         (''kind'', JStr ''TheoremDependencyGraphReplayReceipt''),
         (''status'', JStr (if jtruthy (jget ''releaseReady'' rebuilt) then ''theorem_dependency_graph_replay_verified''
           else ''theorem_dependency_graph_replay_blocked'')),
         (''originalExecutionReceiptHash'', or_json_null (jget ''theoremDependencyGraphExecutionReceiptHash'' rebuilt)),
         (''typedTheoremDependencyGraphHash'', JStr (graphHash g)),
         (''originalGraphSemanticHash'', JStr (graphSemanticHash g)),
         (''replayGraphSemanticHash'', JStr (graphSemanticHash g)),
         (''topologicalOrder'', JArr (map JStr (graph_order g))),
         (''theoremReceiptHashes'', or_json_null (jget ''theoremReceiptHashes'' rebuilt)),
         (''identityMatched'', JBool True),
         (''releaseReady'', or_json_null (jget ''releaseReady'' rebuilt)),
         (''blockers'', or_json_null (jget ''blockers'' rebuilt)),
         (''externalActionPerformed'', JBool False)]))"

definition verifyTheoremDependencyGraphReplayReceipt :: "runtime \<Rightarrow> theorem_graph \<Rightarrow> json option \<Rightarrow> json option \<Rightarrow> bool" where
  "verifyTheoremDependencyGraphReplayReceipt rt g v execution =
    (case createTheoremDependencyGraphReplayReceipt rt g execution of Inl _ \<Rightarrow> False | Inr rebuilt \<Rightarrow> Some rebuilt = v)"

section \<open>The execution\<close>

type_synonym 'w search = "theorem_node \<Rightarrow> receipt list \<Rightarrow> 'w \<Rightarrow> receipt result \<times> 'w"

definition blocked_answer :: search_answer where
  "blocked_answer = \<lparr>attemptReceipts = None, answer_status = Some (JStr BLOCKED_BY_DEPENDENCY), kernelReceipt = None,
    refutationReceipt = None, explanation = None,
    answer_blockers = Some (JArr [JStr ''theorem_dependency_predecessor_not_kernel_verified''])\<rparr>"

fun search_claims ::
    "runtime \<Rightarrow> theorem_graph \<Rightarrow> 'w search \<Rightarrow> string list \<Rightarrow> (string \<Rightarrow> receipt) \<Rightarrow> 'w \<Rightarrow> (string \<Rightarrow> receipt) result \<times> 'w" where
  "search_claims rt g search [] results w = (Inr results, w)"
| "search_claims rt g search (i # is) results w =
    (case node_of_claim g (Some (JStr i)) of
       None \<Rightarrow> (Inl ''TypeError'', w)
     | Some n \<Rightarrow>
         let imported = map results (dependencyClaimIds n);
             (answered, w') =
               (if list_ex (\<lambda>r. \<not> is_verified r) imported
                then (rbind (createTheoremDependencySearchReceipt rt g (Some (JStr i)) imported blocked_answer) (\<lambda>v. Inr (Some v)), w)
                else search n imported w) in
         case answered of Inl e \<Rightarrow> (Inl e, w') | Inr r \<Rightarrow> search_claims rt g search is (results(i := r)) w')"

definition executeTheoremDependencyGraph :: "runtime \<Rightarrow> theorem_graph \<Rightarrow> 'w search \<Rightarrow> 'w \<Rightarrow> json result \<times> 'w" where
  "executeTheoremDependencyGraph rt g search w =
    (case search_claims rt g search (graph_order g) (\<lambda>_. None) w of
       (Inl e, w') \<Rightarrow> (Inl e, w')
     | (Inr results, w') \<Rightarrow> (createTheoremDependencyGraphExecutionReceipt rt g (map results (graph_order g)), w'))"

end
