(* ===== verification/Execution_Properties.thy ===== *)
theory Execution_Properties
  imports Graph_Execution Campaign_Example
begin

text \<open>
  What an accepted execution of a theorem graph shows: verified claims rest on verified claims, the
  release flag is exact, the replay accepts the receipt. A search that answers with receipts of the
  constructor is always accepted.
\<close>

section \<open>When a receipt is created\<close>

lemma ids_match:
  "rmap (get_field k) rs = Inr ids \<and> map or_json_null ids = map JStr is \<longleftrightarrow>
    map (maybe_field k) rs = map (\<lambda>i. Some (JStr i)) is \<and> ids = map (maybe_field k) rs"
proof (induction rs arbitrary: ids "is")
  case Nil
  then show ?case by (cases "is") auto
next
  case (Cons r rs)
  show ?case
  proof (cases "is")
    case Nil
    then show ?thesis by (auto simp: rbind_Inr_iff)
  next
    case (Cons i js)
    have "maybe_field k r \<noteq> None \<Longrightarrow> r \<noteq> None \<and> r \<noteq> Some JNull" by (cases r) (auto simp: maybe_field_def jget_def)
    moreover have "or_json_null x = JStr i \<longleftrightarrow> x = Some (JStr i)" for x by (cases x) (auto simp: or_json_null_def)
    ultimately show ?thesis
      using Cons.IH [of _ js] Cons by (cases ids) (auto simp: rbind_Inr_iff get_field_def split: if_splits)
  qed
qed

definition answer_ok :: "runtime \<Rightarrow> search_answer \<Rightarrow> string \<Rightarrow> string list \<Rightarrow> bool" where
  "answer_ok rt a verdict blockers =
    (list_all (\<lambda>item. sha256_text rt (attempt_hash item)) (array_of (attemptReceipts a))
     \<and> list_all (sha256_text rt) (filter (\<lambda>v. v \<noteq> JNull) (map or_json_null [kernelReceipt a, refutationReceipt a, explanation a]))
     \<and> (verdict = KERNEL_VERIFIED \<longleftrightarrow> jtruthy (kernelReceipt a))
     \<and> (verdict = REFUTED \<longleftrightarrow> jtruthy (refutationReceipt a))
     \<and> (verdict = KERNEL_VERIFIED \<longleftrightarrow> jtruthy (explanation a))
     \<and> selected_blockers rt (answer_blockers a) = Inr blockers
     \<and> (verdict = KERNEL_VERIFIED \<longleftrightarrow> blockers = []))"

definition imports_ok :: "theorem_node \<Rightarrow> receipt list \<Rightarrow> string \<Rightarrow> bool" where
  "imports_ok n imported verdict =
    (map (maybe_field ''claimId'') imported = map (\<lambda>i. Some (JStr i)) (dependencyClaimIds n)
     \<and> (list_all is_verified imported \<longleftrightarrow> verdict \<noteq> BLOCKED_BY_DEPENDENCY))"

definition sealed_receipt :: "runtime \<Rightarrow> theorem_graph \<Rightarrow> theorem_node \<Rightarrow> receipt list \<Rightarrow> search_answer \<Rightarrow> string \<Rightarrow> string list \<Rightarrow> json" where
  "sealed_receipt rt g n imported a verdict blockers =
    sealed_record rt ''TheoremDependencySearchReceipt'' ''theoremDependencySearchReceiptHash''
      (search_receipt_payload g n imported a verdict blockers)"

lemma search_receipt_created:
  "createTheoremDependencySearchReceipt rt g i imported a = Inr v \<longleftrightarrow>
    (\<exists>n verdict blockers. node_of_claim g i = Some n \<and> answer_status a = Some (JStr verdict) \<and> verdict \<in> set RESULT_STATUSES
      \<and> imports_ok n imported verdict \<and> answer_ok rt a verdict blockers
      \<and> v = sealed_receipt rt g n imported a verdict blockers)"
proof (cases "node_of_claim g i")
  case None
  then show ?thesis by (simp add: createTheoremDependencySearchReceipt_def)
next
  case (Some n)
  show ?thesis
  proof (cases "\<exists>verdict. answer_status a = Some (JStr verdict)")
    case False
    then show ?thesis
      by (auto simp: createTheoremDependencySearchReceipt_def split: option.splits json.splits)
  next
    case True
    then obtain verdict where verdict: "answer_status a = Some (JStr verdict)" by blast
    have ids: "(\<exists>ids. rmap (get_field ''claimId'') imported = Inr ids \<and> map or_json_null ids = map JStr (dependencyClaimIds n) \<and> P)
        \<longleftrightarrow> map (maybe_field ''claimId'') imported = map (\<lambda>i. Some (JStr i)) (dependencyClaimIds n) \<and> P" for P
      using ids_match [of "''claimId''" imported _ "dependencyClaimIds n"] by metis
    show ?thesis
      unfolding createTheoremDependencySearchReceipt_def Some verdict
      by (simp add: rbind_Inr_iff ids imports_ok_def answer_ok_def sealed_receipt_def conj_assoc) (use ids in blast)
  qed
qed

lemma node_of_claim_Some: "node_of_claim g i = Some n \<Longrightarrow> n \<in> set (graph_nodes g) \<and> i = Some (JStr (claimId n))"
  by (auto simp: node_of_claim_def find_Some_iff)

lemma sealed_receipt_fields [simp]:
  "maybe_field ''claimId'' (Some (sealed_receipt rt g n imported a verdict blockers)) = Some (JStr (claimId n))"
  "maybe_field ''status'' (Some (sealed_receipt rt g n imported a verdict blockers)) = Some (JStr verdict)"
  by (simp_all add: maybe_field_def sealed_receipt_def sealed_record_def search_receipt_payload_def)

section \<open>A verified claim rests on verified claims\<close>

lemma rebuilt_supported:
  assumes "rebuild_receipts rt g known rs = Inr ()" and "r \<in> set rs" and "is_verified r"
    and "node_of_claim g (maybe_field ''claimId'' r) = Some n" and "d \<in> set (dependencyClaimIds n)"
  shows "\<exists>s\<in>set rs \<union> range known. is_verified s \<and> maybe_field ''claimId'' s = Some (JStr d)"
  using assms
proof (induction rs arbitrary: known)
  case (Cons q rs)
  then obtain m v where m: "node_of_claim g (maybe_field ''claimId'' q) = Some m"
    and v: "createTheoremDependencySearchReceipt rt g (maybe_field ''claimId'' q) (map known (dependencyClaimIds m)) (receipt_answer q) = Inr v"
    and q: "q = Some v" and rest: "rebuild_receipts rt g (known(claimId m := q)) rs = Inr ()"
    by (auto simp: rbind_Inr_iff split: option.splits if_splits)
  show ?case
  proof (cases "r = q")
    case True
    with m Cons.prems(4) have n: "m = n" by simp
    have "imports_ok n (map known (dependencyClaimIds n)) KERNEL_VERIFIED"
      using v Cons.prems(3) True m n q
      by (auto simp: search_receipt_created is_verified_def receipt_answer_def)
    then have "list_all is_verified (map known (dependencyClaimIds n))"
      and ids: "map (maybe_field ''claimId'') (map known (dependencyClaimIds n)) = map (\<lambda>i. Some (JStr i)) (dependencyClaimIds n)"
      by (simp_all add: imports_ok_def KERNEL_VERIFIED_def BLOCKED_BY_DEPENDENCY_def)
    then have "is_verified (known d) \<and> maybe_field ''claimId'' (known d) = Some (JStr d)"
      using Cons.prems(5) by (auto simp: list_all_iff)
    then show ?thesis by blast
  next
    case False
    then have "\<exists>s\<in>set rs \<union> range (known(claimId m := q)). is_verified s \<and> maybe_field ''claimId'' s = Some (JStr d)"
      by (intro Cons.IH [OF rest]) (use Cons.prems in auto)
    then show ?thesis by (auto split: if_splits)
  qed
qed simp

lemma rebuilt_values: "rebuild_receipts rt g known rs = Inr () \<Longrightarrow> \<forall>r\<in>set rs. r \<noteq> None"
  by (induction rs arbitrary: known) (auto simp: rbind_Inr_iff split: option.splits if_splits)

lemma rebuilt_again:
  assumes "createTheoremDependencySearchReceipt rt g i imported a = Inr v"
  shows "createTheoremDependencySearchReceipt rt g (maybe_field ''claimId'' (Some v)) imported (receipt_answer (Some v)) = Inr v"
proof -
  obtain n verdict blockers where n: "node_of_claim g i = Some n" and verdict: "answer_status a = Some (JStr verdict)" "verdict \<in> set RESULT_STATUSES"
    and allowed: "imports_ok n imported verdict" and evidence: "answer_ok rt a verdict blockers"
    and v: "v = sealed_receipt rt g n imported a verdict blockers"
    using assms by (auto simp: search_receipt_created)
  let ?b = "receipt_answer (Some v)"
  have fields: "attemptReceipts ?b = Some (JArr (map attempt_hash (array_of (attemptReceipts a))))"
    "answer_status ?b = Some (JStr verdict)" "kernelReceipt ?b = Some (or_json_null (kernelReceipt a))"
    "refutationReceipt ?b = Some (or_json_null (refutationReceipt a))" "explanation ?b = Some (or_json_null (explanation a))"
    "answer_blockers ?b = Some (JArr (map JStr blockers))"
    by (simp_all add: v receipt_answer_def maybe_field_def sealed_receipt_def sealed_record_def search_receipt_payload_def)
  have keep: "or_json_null (Some x) = x" "array_of (Some (JArr xs)) = xs" for x xs
    by (simp_all add: or_json_null_def array_of_def)
  have truthy: "jtruthy (Some (or_json_null x)) = jtruthy x" for x
    by (cases x) (simp_all add: or_json_null_def jtruthy_def)
  have hash_again: "attempt_hash (attempt_hash x) = attempt_hash x" if "sha256_text rt (attempt_hash x)" for x
  proof -
    have "jget k (attempt_hash x) = None" for k
      using that by (cases "attempt_hash x") (simp_all add: sha256_text_def is_sha256_def jget_def)
    then show ?thesis by (subst attempt_hash_def) simp
  qed
  have "list_all (\<lambda>item. sha256_text rt (attempt_hash item)) (array_of (attemptReceipts a))"
    using evidence by (simp add: answer_ok_def)
  then have attempts: "map attempt_hash (map attempt_hash (array_of (attemptReceipts a))) = map attempt_hash (array_of (attemptReceipts a))"
    by (auto simp: list_all_iff hash_again)
  have selected: "selected_blockers rt (Some (JArr (map JStr blockers))) = Inr blockers"
  proof -
    have "\<exists>xs. blockers = sortStrings (unique xs)"
      using evidence by (auto simp: answer_ok_def selected_blockers_def split: json.splits)
    then obtain xs where xs: "blockers = sortStrings (unique xs)" by blast
    have "distinct blockers" by (simp add: xs unique_def)
    then have "unique blockers = blockers" by (simp add: unique_def distinct_remdups_id)
    moreover have "sortStrings blockers = blockers"
      unfolding xs by (rule sortStrings_cong) (simp add: sortStrings_def mset_sort_by)
    ultimately show ?thesis by (simp add: selected_blockers_def or_else_def jtruthy_def comp_def)
  qed
  have "answer_ok rt ?b verdict blockers"
    using evidence by (simp add: answer_ok_def fields keep truthy selected list_all_iff hash_again) blast
  moreover have "v = sealed_receipt rt g n imported ?b verdict blockers"
    unfolding sealed_receipt_def search_receipt_payload_def fields keep attempts
    by (simp add: v sealed_receipt_def search_receipt_payload_def)
  moreover have "node_of_claim g (maybe_field ''claimId'' (Some v)) = Some n"
    using n node_of_claim_Some [OF n] by (simp add: v)
  ultimately show ?thesis using verdict allowed fields(2) by (auto simp: search_receipt_created)
qed

section \<open>Accepted executions\<close>

definition verified_in :: "json \<Rightarrow> string \<Rightarrow> bool" where
  "verified_in e i = list_ex (\<lambda>r. jget ''claimId'' r = Some (JStr i) \<and> jget ''status'' r = Some (JStr KERNEL_VERIFIED))
    (array_of (jget ''theoremReceipts'' e))"

lemma execution_created:
  assumes "createTheoremDependencyGraphExecutionReceipt rt g receipts = Inr e"
  shows "map (maybe_field ''claimId'') receipts = map (\<lambda>i. Some (JStr i)) (graph_order g)"
    and "rebuild_receipts rt g (\<lambda>_. None) receipts = Inr ()"
    and "jget ''theoremReceipts'' e = Some (JArr (map or_json_null receipts))"
    and "jget ''releaseReady'' e = Some (JBool (filter (required_failure g) receipts = []))"
  using assms ids_match [of "''claimId''" receipts _ "graph_order g"]
  by (auto simp: createTheoremDependencyGraphExecutionReceipt_def rbind_Inr_iff Let_def sealed_record_def)

lemma maybe_field_value: "r \<noteq> None \<Longrightarrow> maybe_field k r = jget k (or_json_null r)"
  by (cases r) (simp_all add: maybe_field_def or_json_null_def)

lemma verified_in_receipts:
  assumes "createTheoremDependencyGraphExecutionReceipt rt g receipts = Inr e"
  shows "verified_in e i \<longleftrightarrow> (\<exists>r\<in>set receipts. maybe_field ''claimId'' r = Some (JStr i) \<and> is_verified r)"
  using rebuilt_values [OF execution_created(2) [OF assms]] maybe_field_value
  by (auto simp: verified_in_def execution_created(3) [OF assms] array_of_def list_ex_iff is_verified_def)

lemma execution_replayed:
  assumes e: "createTheoremDependencyGraphExecutionReceipt rt g receipts = Inr e"
  shows "\<exists>p. createTheoremDependencyGraphReplayReceipt rt g (Some e) = Inr p
    \<and> verifyTheoremDependencyGraphReplayReceipt rt g (Some p) (Some e)"
proof -
  have "map (\<lambda>r. Some (or_json_null r)) receipts = receipts"
    using rebuilt_values [OF execution_created(2) [OF e]] by (intro map_idI) (auto simp: or_json_null_def)
  then have "map Some (array_of (maybe_field ''theoremReceipts'' (Some e))) = receipts"
    by (simp add: maybe_field_def execution_created(3) [OF e] array_of_def comp_def)
  then show ?thesis
    by (simp add: createTheoremDependencyGraphReplayReceipt_def verifyTheoremDependencyGraphReplayReceipt_def e)
qed

lemma node_of_claim_id:
  assumes "distinct (map claimId (graph_nodes g))" and "n \<in> set (graph_nodes g)"
  shows "node_of_claim g (Some (JStr (claimId n))) = Some n"
proof -
  have "node_of_claim g (Some (JStr (claimId n))) \<noteq> None"
    using assms(2) by (auto simp: node_of_claim_def find_None_iff)
  then obtain m where m: "node_of_claim g (Some (JStr (claimId n))) = Some m" by blast
  from node_of_claim_Some [OF m] have "m = n" using assms by (auto simp: distinct_map inj_on_def)
  with m show ?thesis by simp
qed

lemma order_of_graph:
  assumes "distinct (map claimId ns)" and "topologicalOrder ns = Inr order"
  shows "mset order = mset (map claimId ns)" and "after_dependencies ns order"
proof -
  have "\<forall>n\<in>set ns. set (dependencyClaimIds n) \<subseteq> graph_ids ns"
    using assms(2) by (auto simp: topologicalOrder_def graph_ids_def list_all_iff split: if_splits)
  from topological_order_spec [OF assms(1) this] assms(2)
  show "mset order = mset (map claimId ns)" "after_dependencies ns order" by simp_all
qed

lemma supported_claims:
  assumes e: "createTheoremDependencyGraphExecutionReceipt rt g receipts = Inr e"
    and ids: "distinct (map claimId (graph_nodes g))" and n: "n \<in> set (graph_nodes g)"
    and verified: "verified_in e (claimId n)" and d: "d \<in> set (dependencyClaimIds n)"
  shows "verified_in e d"
proof -
  obtain r where r: "r \<in> set receipts" "maybe_field ''claimId'' r = Some (JStr (claimId n))" "is_verified r"
    using verified by (auto simp: verified_in_receipts [OF e])
  have "\<exists>s\<in>set receipts \<union> range (\<lambda>_::string. None). is_verified s \<and> maybe_field ''claimId'' s = Some (JStr d)"
    by (rule rebuilt_supported [OF execution_created(2) [OF e] r(1,3) _ d]) (simp add: r(2) node_of_claim_id [OF ids n])
  moreover have "\<not> is_verified None" by (simp add: is_verified_def maybe_field_def)
  ultimately show ?thesis by (auto simp: verified_in_receipts [OF e])
qed

lemma release_flag:
  assumes e: "createTheoremDependencyGraphExecutionReceipt rt g receipts = Inr e"
    and ids: "distinct (map claimId (graph_nodes g))" and order: "topologicalOrder (graph_nodes g) = Inr (graph_order g)"
  shows "jget ''releaseReady'' e = Some (JBool (list_all (\<lambda>n. requiredForRelease n \<longrightarrow> verified_in e (claimId n)) (graph_nodes g)))"
proof -
  note listed = execution_created(1) [OF e]
  have once: "r = s" if "r \<in> set receipts" "s \<in> set receipts" "maybe_field ''claimId'' r = maybe_field ''claimId'' s" for r s
  proof -
    have "mset (graph_order g) = mset (map claimId (graph_nodes g))" by (rule order_of_graph [OF ids order])
    then have "distinct (graph_order g)" using ids mset_eq_imp_distinct_iff by blast
    then have "distinct (map (\<lambda>i. Some (JStr i)) (graph_order g))" by (simp add: distinct_map inj_on_def)
    then have "inj_on (maybe_field ''claimId'') (set receipts)" using listed by (metis distinct_map)
    then show ?thesis using that by (auto simp: inj_on_def)
  qed
  have has: "\<exists>r\<in>set receipts. maybe_field ''claimId'' r = Some (JStr (claimId n))" if n: "n \<in> set (graph_nodes g)" for n
  proof -
    have "claimId n \<in> set (graph_order g)"
      using n mset_eq_setD [OF order_of_graph(1) [OF ids order]] by simp
    then have "Some (JStr (claimId n)) \<in> set (map (maybe_field ''claimId'') receipts)" by (simp add: listed)
    then show ?thesis by auto
  qed
  have "(\<exists>r\<in>set receipts. required_failure g r) \<longleftrightarrow> (\<exists>n\<in>set (graph_nodes g). requiredForRelease n \<and> \<not> verified_in e (claimId n))"
  proof
    assume "\<exists>r\<in>set receipts. required_failure g r"
    then obtain r n where r: "r \<in> set receipts" "node_of_claim g (maybe_field ''claimId'' r) = Some n" "requiredForRelease n" "\<not> is_verified r"
      by (auto simp: required_failure_def split: option.splits)
    note found = node_of_claim_Some [OF r(2)]
    have "\<not> verified_in e (claimId n)"
    proof
      assume "verified_in e (claimId n)"
      then obtain s where "s \<in> set receipts" "maybe_field ''claimId'' s = Some (JStr (claimId n))" "is_verified s"
        by (auto simp: verified_in_receipts [OF e])
      then show False using once [OF r(1), of s] found r(4) by simp
    qed
    then show "\<exists>n\<in>set (graph_nodes g). requiredForRelease n \<and> \<not> verified_in e (claimId n)" using found r(3) by blast
  next
    assume "\<exists>n\<in>set (graph_nodes g). requiredForRelease n \<and> \<not> verified_in e (claimId n)"
    then obtain n where n: "n \<in> set (graph_nodes g)" "requiredForRelease n" "\<not> verified_in e (claimId n)" by blast
    obtain r where r: "r \<in> set receipts" "maybe_field ''claimId'' r = Some (JStr (claimId n))" using has [OF n(1)] by blast
    then have "\<not> is_verified r" using n(3) by (auto simp: verified_in_receipts [OF e])
    then have "required_failure g r" using n r by (simp add: required_failure_def node_of_claim_id [OF ids n(1)])
    then show "\<exists>r\<in>set receipts. required_failure g r" using r(1) by blast
  qed
  then have "filter (required_failure g) receipts = [] \<longleftrightarrow> list_all (\<lambda>n. requiredForRelease n \<longrightarrow> verified_in e (claimId n)) (graph_nodes g)"
    by (auto simp: filter_empty_conv list_all_iff)
  then show ?thesis using execution_created(4) [OF e] by simp
qed

section \<open>Honest searches\<close>

text \<open>A search is honest when it answers with a receipt that the constructor makes for its arguments.\<close>

definition honest_search :: "runtime \<Rightarrow> theorem_graph \<Rightarrow> 'w search \<Rightarrow> bool" where
  "honest_search rt g search \<longleftrightarrow>
    (\<forall>n\<in>set (graph_nodes g). \<forall>imported w. imports_ok n imported KERNEL_VERIFIED \<longrightarrow>
      (\<exists>a v. createTheoremDependencySearchReceipt rt g (Some (JStr (claimId n))) imported a = Inr v
        \<and> fst (search n imported w) = Inr (Some v)))"

lemma blocked_receipt:
  assumes "node_of_claim g i = Some n" and "map (maybe_field ''claimId'') imported = map (\<lambda>i. Some (JStr i)) (dependencyClaimIds n)"
    and "\<not> list_all is_verified imported"
  shows "\<exists>v. createTheoremDependencySearchReceipt rt g i imported blocked_answer = Inr v"
proof -
  have "sortStrings (unique (map (js_string rt) [JStr b])) = [b]" for b
    by (simp add: unique_def sortStrings_def)
  then have "answer_ok rt blocked_answer BLOCKED_BY_DEPENDENCY [''theorem_dependency_predecessor_not_kernel_verified'']"
    by (simp add: answer_ok_def blocked_answer_def array_of_def or_json_null_def jtruthy_def selected_blockers_def
        or_else_def KERNEL_VERIFIED_def REFUTED_def BLOCKED_BY_DEPENDENCY_def)
  then have "createTheoremDependencySearchReceipt rt g i imported blocked_answer = Inr (sealed_receipt rt g n imported blocked_answer
      BLOCKED_BY_DEPENDENCY [''theorem_dependency_predecessor_not_kernel_verified''])"
    using assms by (auto simp: search_receipt_created imports_ok_def blocked_answer_def RESULT_STATUSES_def)
  then show ?thesis by blast
qed

lemma honest_search_claims:
  assumes honest: "honest_search rt g search" and ids: "distinct (map claimId (graph_nodes g))"
    and "after_dependencies (graph_nodes g) (pre @ is)" and "distinct (pre @ is)" and "set is \<subseteq> graph_ids (graph_nodes g)"
    and "\<forall>i\<in>set pre. maybe_field ''claimId'' (results i) = Some (JStr i)"
  shows "\<exists>final. fst (search_claims rt g search is results w) = Inr final \<and> (\<forall>i. i \<notin> set is \<longrightarrow> final i = results i)
    \<and> rebuild_receipts rt g results (map final is) = Inr () \<and> (\<forall>i\<in>set is. maybe_field ''claimId'' (final i) = Some (JStr i))"
  using assms(3-)
proof (induction "is" arbitrary: pre results w)
  case (Cons i "is")
  obtain n where n: "n \<in> set (graph_nodes g)" "claimId n = i" using Cons.prems(3) by (auto simp: graph_ids_def)
  have node: "node_of_claim g (Some (JStr i)) = Some n" using node_of_claim_id [OF ids n(1)] n(2) by simp
  let ?imported = "map results (dependencyClaimIds n)"
  have "set (dependencyClaimIds n) \<subseteq> set pre"
    using Cons.prems(1) [unfolded after_dependencies_def, rule_format, of "length pre" n] n by simp
  then have named: "map (maybe_field ''claimId'') ?imported = map (\<lambda>i. Some (JStr i)) (dependencyClaimIds n)"
    using Cons.prems(4) by auto
  have "\<exists>v a w'. createTheoremDependencySearchReceipt rt g (Some (JStr i)) ?imported a = Inr v
    \<and> (if list_ex (\<lambda>r. \<not> is_verified r) ?imported
       then (rbind (createTheoremDependencySearchReceipt rt g (Some (JStr i)) ?imported blocked_answer) (\<lambda>v. Inr (Some v)), w)
       else search n ?imported w) = (Inr (Some v), w')"
  proof (cases "list_all is_verified ?imported")
    case True
    then have allowed: "imports_ok n ?imported KERNEL_VERIFIED"
      using named by (simp add: imports_ok_def KERNEL_VERIFIED_def BLOCKED_BY_DEPENDENCY_def)
    then obtain a v where "createTheoremDependencySearchReceipt rt g (Some (JStr i)) ?imported a = Inr v"
      "fst (search n ?imported w) = Inr (Some v)" using honest [unfolded honest_search_def, rule_format, OF n(1) allowed, of w] n(2) by auto
    then show ?thesis using True by (cases "search n ?imported w") (auto simp: list_ex_iff list_all_iff)
  next
    case False
    then show ?thesis using blocked_receipt [OF node named False, of rt] by (auto simp: list_ex_iff list_all_iff)
  qed
  then obtain v a w' where v: "createTheoremDependencySearchReceipt rt g (Some (JStr i)) ?imported a = Inr v"
    and step: "(if list_ex (\<lambda>r. \<not> is_verified r) ?imported
       then (rbind (createTheoremDependencySearchReceipt rt g (Some (JStr i)) ?imported blocked_answer) (\<lambda>v. Inr (Some v)), w)
       else search n ?imported w) = (Inr (Some v), w')" by blast
  have id: "maybe_field ''claimId'' (Some v) = Some (JStr i)"
    using v node n by (auto simp: search_receipt_created)
  let ?results = "results(i := Some v)"
  have known: "\<forall>j\<in>set (pre @ [i]). maybe_field ''claimId'' (?results j) = Some (JStr j)" using Cons.prems(4) id by simp
  have "after_dependencies (graph_nodes g) ((pre @ [i]) @ is)" "distinct ((pre @ [i]) @ is)" "set is \<subseteq> graph_ids (graph_nodes g)"
    using Cons.prems(1-3) by auto
  from Cons.IH [OF this known, of w']
  obtain final where final: "fst (search_claims rt g search is ?results w') = Inr final"
    "\<forall>j. j \<notin> set is \<longrightarrow> final j = ?results j" "rebuild_receipts rt g ?results (map final is) = Inr ()"
    "\<forall>j\<in>set is. maybe_field ''claimId'' (final j) = Some (JStr j)"
    by (elim exE conjE)
  have at: "final i = Some v" using final(2) Cons.prems(2) by simp
  have "fst (search_claims rt g search (i # is) results w) = Inr final"
    by (simp only: search_claims.simps node option.case Let_def step prod.case sum.case final(1))
  moreover have "rebuild_receipts rt g results (map final (i # is)) = Inr ()"
    using rebuilt_again [OF v] final(3) by (simp add: at id node n(2))
  moreover have "\<forall>j. j \<notin> set (i # is) \<longrightarrow> final j = results j" using final(2) by simp
  moreover have "\<forall>j\<in>set (i # is). maybe_field ''claimId'' (final j) = Some (JStr j)" using final(4) at id by simp
  ultimately show ?case by blast
qed simp

lemma honest_execution_accepted:
  assumes honest: "honest_search rt g search" and ids: "distinct (map claimId (graph_nodes g))"
    and order: "topologicalOrder (graph_nodes g) = Inr (graph_order g)"
  shows "\<exists>e w'. executeTheoremDependencyGraph rt g search w = (Inr e, w')"
proof -
  note facts = order_of_graph [OF ids order]
  have distinct: "distinct ([] @ graph_order g)" using ids facts(1) mset_eq_imp_distinct_iff by fastforce
  have inside: "set (graph_order g) \<subseteq> graph_ids (graph_nodes g)" using mset_eq_setD [OF facts(1)] by (simp add: graph_ids_def)
  have "after_dependencies (graph_nodes g) ([] @ graph_order g)" using facts(2) by simp
  from honest_search_claims [OF honest ids this distinct inside, of "\<lambda>_. None" w]
  obtain final where final: "fst (search_claims rt g search (graph_order g) (\<lambda>_. None) w) = Inr final"
    "rebuild_receipts rt g (\<lambda>_. None) (map final (graph_order g)) = Inr ()"
    "\<forall>i\<in>set (graph_order g). maybe_field ''claimId'' (final i) = Some (JStr i)" by auto
  obtain w' where w': "search_claims rt g search (graph_order g) (\<lambda>_. None) w = (Inr final, w')"
    using final(1) by (cases "search_claims rt g search (graph_order g) (\<lambda>_. None) w") simp
  have "map (maybe_field ''claimId'') (map final (graph_order g)) = map (\<lambda>i. Some (JStr i)) (graph_order g)" using final(3) by simp
  then have "\<exists>ids. rmap (get_field ''claimId'') (map final (graph_order g)) = Inr ids \<and> map or_json_null ids = map JStr (graph_order g)"
    using ids_match [of "''claimId''" "map final (graph_order g)" _ "graph_order g"] by blast
  then have "\<exists>e. createTheoremDependencyGraphExecutionReceipt rt g (map final (graph_order g)) = Inr e"
    by (auto simp: createTheoremDependencyGraphExecutionReceipt_def final(2) Let_def check_def)
  then show ?thesis by (auto simp: executeTheoremDependencyGraph_def w')
qed

definition execution_sound :: "runtime \<Rightarrow> theorem_graph \<Rightarrow> json \<Rightarrow> bool" where
  "execution_sound rt g e \<longleftrightarrow>
    (\<forall>n\<in>set (graph_nodes g). verified_in e (claimId n) \<longrightarrow> list_all (verified_in e) (dependencyClaimIds n))
    \<and> jget ''releaseReady'' e = Some (JBool (list_all (\<lambda>n. requiredForRelease n \<longrightarrow> verified_in e (claimId n)) (graph_nodes g)))
    \<and> (\<exists>p. createTheoremDependencyGraphReplayReceipt rt g (Some e) = Inr p
        \<and> verifyTheoremDependencyGraphReplayReceipt rt g (Some p) (Some e))"

lemma accepted_execution_sound:
  assumes "distinct (map claimId (graph_nodes g))" and "topologicalOrder (graph_nodes g) = Inr (graph_order g)"
    and "executeTheoremDependencyGraph rt g search w = (Inr e, w')"
  shows "execution_sound rt g e"
proof -
  obtain receipts where e: "createTheoremDependencyGraphExecutionReceipt rt g receipts = Inr e"
    using assms(3) by (auto simp: executeTheoremDependencyGraph_def split: prod.splits sum.splits)
  show ?thesis
    using supported_claims [OF e assms(1)] release_flag [OF e assms(1,2)] execution_replayed [OF e]
    by (auto simp: list_all_iff execution_sound_def)
qed

section \<open>The example\<close>

definition ex_theorem_graph :: theorem_graph where
  "ex_theorem_graph = \<lparr>graphHash = ''g'', graphSemanticHash = ''s'', graph_nodes = ex_theorems, graph_order = [''a'', ''b'', ''c'']\<rparr>"

definition ex_proof_hash :: string where
  "ex_proof_hash = ''sha256:'' @ replicate 64 (CHR ''0'')"

definition ex_answer :: "theorem_node \<Rightarrow> search_answer" where
  "ex_answer n = (if claimId n = ''a''
    then \<lparr>attemptReceipts = None, answer_status = Some (JStr KERNEL_VERIFIED), kernelReceipt = Some (JStr ex_proof_hash),
      refutationReceipt = None, explanation = Some (JStr ex_proof_hash), answer_blockers = None\<rparr>
    else \<lparr>attemptReceipts = None, answer_status = Some (JStr REFUTED), kernelReceipt = None,
      refutationReceipt = Some (JStr ex_proof_hash), explanation = None, answer_blockers = Some (JArr [JStr ''refuted''])\<rparr>)"

definition ex_search :: "nat search" where
  "ex_search n imported w =
    (rbind (createTheoremDependencySearchReceipt ex_rt ex_theorem_graph (Some (JStr (claimId n))) imported (ex_answer n)) (\<lambda>v. Inr (Some v)), Suc w)"

lemma ex_graph_facts:
  "distinct (map claimId (graph_nodes ex_theorem_graph))"
  "topologicalOrder (graph_nodes ex_theorem_graph) = Inr (graph_order ex_theorem_graph)"
  using ex_theorems_ordered by (simp_all add: ex_theorem_graph_def ex_theorems_def)

lemma ex_search_honest: "honest_search ex_rt ex_theorem_graph ex_search"
  unfolding honest_search_def
proof (intro ballI allI impI)
  fix n imported w
  assume n: "n \<in> set (graph_nodes ex_theorem_graph)" and allowed: "imports_ok n imported KERNEL_VERIFIED"
  have hash: "is_sha256 ex_proof_hash" "ex_proof_hash \<noteq> []" by code_simp+
  have "\<exists>verdict blockers. answer_status (ex_answer n) = Some (JStr verdict) \<and> verdict \<in> {KERNEL_VERIFIED, REFUTED}
      \<and> answer_ok ex_rt (ex_answer n) verdict blockers"
    using hash by (cases "claimId n = ''a''")
      (simp_all add: ex_answer_def answer_ok_def array_of_def or_json_null_def jtruthy_def selected_blockers_def sha256_text_def
        or_else_def KERNEL_VERIFIED_def REFUTED_def unique_def sortStrings_def)
  then obtain verdict blockers where "answer_status (ex_answer n) = Some (JStr verdict)" "verdict \<in> {KERNEL_VERIFIED, REFUTED}"
    "answer_ok ex_rt (ex_answer n) verdict blockers" by blast
  moreover from this have "imports_ok n imported verdict"
    using allowed by (auto simp: imports_ok_def KERNEL_VERIFIED_def REFUTED_def BLOCKED_BY_DEPENDENCY_def)
  ultimately have "createTheoremDependencySearchReceipt ex_rt ex_theorem_graph (Some (JStr (claimId n))) imported (ex_answer n)
      = Inr (sealed_receipt ex_rt ex_theorem_graph n imported (ex_answer n) verdict blockers)"
    using node_of_claim_id [OF ex_graph_facts(1) n] by (auto simp: search_receipt_created RESULT_STATUSES_def)
  then show "\<exists>a v. createTheoremDependencySearchReceipt ex_rt ex_theorem_graph (Some (JStr (claimId n))) imported a = Inr v
      \<and> fst (ex_search n imported w) = Inr (Some v)" by (auto simp: ex_search_def)
qed

section \<open>The property\<close>

text \<open>
  C30. Executing a theorem graph with distinct claim ids in its topological order. Whatever the search
  answers, a receipt the execution returns is sound: a claim that is kernel verified in it has all its
  dependencies kernel verified in it, the release flag is true exactly when every required claim is
  kernel verified, and the replay rebuilds the receipt and its own receipt verifies. If the search
  answers with receipts of the constructor, the execution does return one.
\<close>

theorem graph_execution_sound:
  assumes "distinct (map claimId (graph_nodes g))" and "topologicalOrder (graph_nodes g) = Inr (graph_order g)"
  shows "(\<forall>e w'. executeTheoremDependencyGraph rt g search w = (Inr e, w') \<longrightarrow> execution_sound rt g e)
    \<and> (honest_search rt g search \<longrightarrow> (\<exists>e w'. executeTheoremDependencyGraph rt g search w = (Inr e, w')))"
  using accepted_execution_sound [OF assms, of rt search w] honest_execution_accepted [OF _ assms, of rt search w]
  by (intro conjI allI impI)

lemma graph_execution_sound_witness:
  "\<exists>e w'. executeTheoremDependencyGraph ex_rt ex_theorem_graph ex_search 0 = (Inr e, w') \<and> execution_sound ex_rt ex_theorem_graph e"
  using graph_execution_sound [OF ex_graph_facts, of ex_rt ex_search 0] ex_search_honest by blast

end
