(* ===== verification/Theorem_Specification.thy ===== *)
theory Theorem_Specification
  imports Theorem_Graph
begin

text \<open>
  The dependency checks of a theorem specification (\<open>createTheoremSpecification\<close> in
  \<open>paper-domain/research/theorem-specification.mjs\<close>): unique claim keys, no self reference, no missing
  dependency, and the recursive search for a cycle. The recursion of \<open>visit\<close> has a depth bound, the
  call stack; the number of claims plus one is enough, because each nested call marks another claim.
  The texts, sources and hashes of a claim are checked elsewhere in the function and are not part of
  this record.
\<close>

record theorem_claim =
  tc_claimId :: string
  tc_claimKey :: string
  tc_specificationHash :: string
  tc_dependencyKeys :: "string list"
  tc_releasePolicy :: string

datatype visit_state = Visiting | Visited

definition claim_by_key :: "theorem_claim list \<Rightarrow> string \<Rightarrow> theorem_claim option" where
  "claim_by_key cs = map_of_entries (map (\<lambda>c. (tc_claimKey c, c)) cs)"

fun visit_each :: "(string \<Rightarrow> 's \<Rightarrow> 's result) \<Rightarrow> string list \<Rightarrow> 's \<Rightarrow> 's result" where
  "visit_each f [] st = Inr st"
| "visit_each f (k # ks) st = rbind (f k st) (visit_each f ks)"

fun visit_claim :: "theorem_claim list \<Rightarrow> nat \<Rightarrow> string \<Rightarrow> (string \<Rightarrow> visit_state option) \<Rightarrow> (string \<Rightarrow> visit_state option) result" where
  "visit_claim cs 0 k st = Inl ''RangeError''"
| "visit_claim cs (Suc depth) k st =
    (if st k = Some Visiting then Inl ''theorem_specification_claim_proof_dependency_cycle''
     else if st k = Some Visited then Inr st
     else case claim_by_key cs k of
       None \<Rightarrow> Inl ''TypeError''
     | Some c \<Rightarrow> rbind (visit_each (visit_claim cs depth) (tc_dependencyKeys c) (st(k \<mapsto> Visiting))) (\<lambda>st'. Inr (st'(k \<mapsto> Visited))))"

fun check_references :: "string list \<Rightarrow> theorem_claim list \<Rightarrow> unit result" where
  "check_references keys [] = Inr ()"
| "check_references keys (c # cs) =
    (if tc_claimKey c \<in> set (tc_dependencyKeys c) then Inl ''theorem_specification_claim_proof_dependency_self_reference''
     else if list_ex (\<lambda>d. d \<notin> set keys) (tc_dependencyKeys c) then Inl ''theorem_specification_claim_proof_dependency_missing''
     else check_references keys cs)"

definition check_claim_dependencies :: "theorem_claim list \<Rightarrow> unit result" where
  "check_claim_dependencies cs =
    (let keys = map tc_claimKey cs in
     rbind (check (distinct keys) ''theorem_specification_claim_keys_duplicate'') (\<lambda>_.
     rbind (check_references keys cs) (\<lambda>_.
     rbind (visit_each (visit_claim cs (Suc (length cs))) keys (\<lambda>_. None)) (\<lambda>_. Inr ()))))"

section \<open>The search finds a cycle exactly when there is one\<close>

definition key_depends :: "theorem_claim list \<Rightarrow> (string \<times> string) set" where
  "key_depends cs = (\<Union>c\<in>set cs. (\<lambda>d. (d, tc_claimKey c)) ` set (tc_dependencyKeys c))"

definition claim_keys :: "theorem_claim list \<Rightarrow> string set" where
  "claim_keys cs = tc_claimKey ` set cs"

lemma claim_by_key_Some:
  assumes "distinct (map tc_claimKey cs)"
  shows "claim_by_key cs k = Some c \<longleftrightarrow> c \<in> set cs \<and> tc_claimKey c = k"
  using assms by (auto simp: claim_by_key_def map_of_entries_def rev_map [symmetric] comp_def distinct_map)

text \<open>
  What a call keeps: the claims on the stack stay the same, finished claims stay finished, the
  dependencies of finished claims are finished, and there is no cycle among them.
\<close>

definition finished :: "(string \<Rightarrow> visit_state option) \<Rightarrow> string set" where
  "finished st = {k. st k = Some Visited}"

definition on_stack :: "(string \<Rightarrow> visit_state option) \<Rightarrow> string set" where
  "on_stack st = {k. st k = Some Visiting}"

definition closed_search :: "theorem_claim list \<Rightarrow> (string \<Rightarrow> visit_state option) \<Rightarrow> bool" where
  "closed_search cs st \<longleftrightarrow> (\<forall>d k. (d, k) \<in> key_depends cs \<and> k \<in> finished st \<longrightarrow> d \<in> finished st)
    \<and> acyclic (key_depends cs \<inter> UNIV \<times> finished st)"

definition extends_search :: "(string \<Rightarrow> visit_state option) \<Rightarrow> (string \<Rightarrow> visit_state option) \<Rightarrow> bool" where
  "extends_search st st' \<longleftrightarrow> on_stack st' = on_stack st \<and> finished st \<subseteq> finished st'"

lemma acyclic_insert_top:
  assumes "acyclic (R \<inter> UNIV \<times> B)" and "\<And>d. (d, k) \<in> R \<Longrightarrow> d \<in> B" and "\<And>d b. (d, b) \<in> R \<Longrightarrow> b \<in> B \<Longrightarrow> d \<in> B" and "k \<notin> B"
  shows "acyclic (R \<inter> UNIV \<times> insert k B)"
proof -
  have "(x, y) \<in> (R \<inter> UNIV \<times> insert k B)\<^sup>+ \<Longrightarrow> x \<in> B \<and> (y \<in> B \<longrightarrow> (x, y) \<in> (R \<inter> UNIV \<times> B)\<^sup>+)" for x y
  proof (induction rule: trancl_induct)
    case (base y)
    then show ?case using assms(2,3) by auto
  next
    case (step y z)
    then have "y \<in> B" using assms(2,3) by auto
    with step show ?case by (auto intro: trancl_into_trancl)
  qed
  then show ?thesis using assms(1,4) by (auto simp: acyclic_def)
qed

lemma visit_each_extends:
  assumes "\<And>k st st'. k \<in> set ks \<Longrightarrow> closed_search cs st \<Longrightarrow> f k st = Inr st' \<Longrightarrow>
      closed_search cs st' \<and> extends_search st st' \<and> k \<in> finished st'"
    and "closed_search cs st" and "visit_each f ks st = Inr st'"
  shows "closed_search cs st' \<and> extends_search st st' \<and> set ks \<subseteq> finished st'"
  using assms
proof (induction ks arbitrary: st)
  case Nil
  then show ?case by (simp add: extends_search_def)
next
  case (Cons k ks)
  obtain st1 where st1: "f k st = Inr st1" "visit_each f ks st1 = Inr st'"
    using Cons.prems(3) by (auto simp: rbind_Inr_iff)
  have first: "closed_search cs st1 \<and> extends_search st st1 \<and> k \<in> finished st1"
    by (rule Cons.prems(1) [OF _ Cons.prems(2) st1(1)]) simp
  have rest: "closed_search cs s' \<and> extends_search s s' \<and> q \<in> finished s'"
    if "q \<in> set ks" "closed_search cs s" "f q s = Inr s'" for q s s'
    by (rule Cons.prems(1) [OF _ that(2,3)]) (simp add: that(1))
  have "closed_search cs st' \<and> extends_search st1 st' \<and> set ks \<subseteq> finished st'"
    by (rule Cons.IH [OF rest conjunct1 [OF first] st1(2)])
  then have "closed_search cs st'" "on_stack st' = on_stack st1" "finished st1 \<subseteq> finished st'" "set ks \<subseteq> finished st'"
    by (simp_all add: extends_search_def)
  moreover have "on_stack st1 = on_stack st" "finished st \<subseteq> finished st1" "k \<in> finished st1"
    using first by (simp_all add: extends_search_def)
  ultimately show ?case unfolding extends_search_def by (intro conjI) (simp, simp, blast, force)
qed

lemma visit_claim_extends:
  assumes keys: "distinct (map tc_claimKey cs)"
  shows "closed_search cs st \<Longrightarrow> visit_claim cs depth k st = Inr st' \<Longrightarrow>
    closed_search cs st' \<and> extends_search st st' \<and> k \<in> finished st'"
proof (induction depth arbitrary: k st st')
  case (Suc depth)
  show ?case
  proof (cases "st k")
    case (Some s)
    then show ?thesis using Suc.prems by (cases s) (auto simp: extends_search_def finished_def)
  next
    case None
    obtain c st1 where c: "claim_by_key cs k = Some c"
      and inner: "visit_each (visit_claim cs depth) (tc_dependencyKeys c) (st(k \<mapsto> Visiting)) = Inr st1"
      and st': "st' = st1(k \<mapsto> Visited)"
      using Suc.prems(2) None by (auto simp: rbind_Inr_iff split: option.splits)
    have same: "finished (st(k \<mapsto> Visiting)) = finished st" "on_stack (st(k \<mapsto> Visiting)) = insert k (on_stack st)"
      using None by (auto simp: finished_def on_stack_def)
    have "closed_search cs (st(k \<mapsto> Visiting))" using Suc.prems(1) by (simp add: closed_search_def same)
    from visit_each_extends [OF Suc.IH this inner]
    have facts: "closed_search cs st1 \<and> extends_search (st(k \<mapsto> Visiting)) st1 \<and> set (tc_dependencyKeys c) \<subseteq> finished st1" .
    then have st1: "closed_search cs st1" "on_stack st1 = insert k (on_stack st)" "finished st \<subseteq> finished st1"
      "set (tc_dependencyKeys c) \<subseteq> finished st1" unfolding extends_search_def same by blast+
    have new: "k \<notin> finished st1" proof -
      have "k \<in> on_stack st1" by (simp add: st1(2))
      then show ?thesis by (simp add: on_stack_def finished_def)
    qed
    have top: "d \<in> finished st1" if "(d, k) \<in> key_depends cs" for d
    proof -
      have "d \<in> set (tc_dependencyKeys c)"
        using that c claim_by_key_Some [OF keys] keys by (auto simp: key_depends_def distinct_map inj_on_def)
      then show ?thesis using st1(4) by blast
    qed
    have marked: "finished st' = insert k (finished st1)" "on_stack st' = on_stack st1 - {k}"
      by (auto simp: st' finished_def on_stack_def)
    have "acyclic (key_depends cs \<inter> UNIV \<times> insert k (finished st1))"
      using st1(1) top new by (intro acyclic_insert_top) (auto simp: closed_search_def)
    then have "closed_search cs st'"
      using st1(1) top by (auto simp: closed_search_def marked)
    moreover have "k \<notin> on_stack st" using None by (simp add: on_stack_def)
    ultimately show ?thesis using st1 by (auto simp: extends_search_def marked)
  qed
qed simp

text \<open>Without a cycle the search never meets a claim on its stack, and the depth bound is enough.\<close>

definition unvisited :: "theorem_claim list \<Rightarrow> (string \<Rightarrow> visit_state option) \<Rightarrow> string set" where
  "unvisited cs st = {k \<in> claim_keys cs. st k = None}"

definition stack_above :: "theorem_claim list \<Rightarrow> string \<Rightarrow> (string \<Rightarrow> visit_state option) \<Rightarrow> bool" where
  "stack_above cs k st \<longleftrightarrow> (\<forall>g\<in>on_stack st. (k, g) \<in> (key_depends cs)\<^sup>+)"

lemma finite_unvisited: "finite (unvisited cs st)"
  by (simp add: unvisited_def claim_keys_def)

lemma extends_unvisited:
  assumes "extends_search st st'"
  shows "unvisited cs st' \<subseteq> unvisited cs st"
proof
  fix k assume "k \<in> unvisited cs st'"
  then have k: "k \<in> claim_keys cs" "st' k = None" by (simp_all add: unvisited_def)
  have "k \<notin> on_stack st'" "k \<notin> finished st'" using k(2) by (simp_all add: on_stack_def finished_def)
  then have "k \<notin> on_stack st" "k \<notin> finished st" using assms by (auto simp: extends_search_def)
  then have "st k = None" using visit_state.exhaust by (cases "st k") (auto simp: on_stack_def finished_def)
  with k(1) show "k \<in> unvisited cs st" by (simp add: unvisited_def)
qed

lemma visit_each_returns:
  assumes "\<And>k st. k \<in> set ks \<Longrightarrow> P k st \<Longrightarrow> \<exists>st'. f k st = Inr st' \<and> (\<forall>j\<in>set ks. P j st \<longrightarrow> P j st')"
    and "\<forall>k\<in>set ks. P k st"
  shows "\<exists>st'. visit_each f ks st = Inr st'"
  using assms
proof (induction ks arbitrary: st)
  case (Cons k ks)
  obtain st1 where st1: "f k st = Inr st1" "\<forall>j\<in>set (k # ks). P j st \<longrightarrow> P j st1"
    using Cons.prems(1) [of k st] Cons.prems(2) by auto
  have "\<exists>st'. visit_each f ks st1 = Inr st'"
  proof (rule Cons.IH)
    fix q s assume "q \<in> set ks" "P q s"
    then show "\<exists>st'. f q s = Inr st' \<and> (\<forall>j\<in>set ks. P j s \<longrightarrow> P j st')" using Cons.prems(1) [of q s] by auto
  qed (use Cons.prems(2) st1(2) in auto)
  then show ?case by (simp add: st1(1))
qed simp

lemma visit_claim_returns:
  assumes keys: "distinct (map tc_claimKey cs)" and inside: "\<forall>c\<in>set cs. set (tc_dependencyKeys c) \<subseteq> claim_keys cs"
    and acyclic: "acyclic (key_depends cs)"
  shows "closed_search cs st \<Longrightarrow> stack_above cs k st \<Longrightarrow> k \<in> claim_keys cs \<Longrightarrow> card (unvisited cs st) < depth
    \<Longrightarrow> \<exists>st'. visit_claim cs depth k st = Inr st'"
proof (induction depth arbitrary: k st)
  case (Suc depth)
  have off_stack: "k \<notin> on_stack st" using Suc.prems(2) acyclic by (auto simp: stack_above_def acyclic_def)
  show ?case
  proof (cases "st k")
    case (Some s)
    then show ?thesis using off_stack by (cases s) (auto simp: on_stack_def)
  next
    case None
    obtain c where c: "c \<in> set cs" "tc_claimKey c = k" using Suc.prems(3) by (auto simp: claim_keys_def)
    then have find: "claim_by_key cs k = Some c" by (simp add: claim_by_key_Some [OF keys])
    let ?st = "st(k \<mapsto> Visiting)"
    define ready where "ready j s \<longleftrightarrow> closed_search cs s \<and> stack_above cs j s \<and> card (unvisited cs s) < depth" for j s
    have "\<exists>st'. visit_each (visit_claim cs depth) (tc_dependencyKeys c) ?st = Inr st'"
    proof (rule visit_each_returns [where P = ready])
      fix j s assume j: "j \<in> set (tc_dependencyKeys c)" and s: "ready j s"
      obtain s' where s': "visit_claim cs depth j s = Inr s'"
        using Suc.IH [of s j] s j inside c(1) by (auto simp: ready_def)
      have "closed_search cs s' \<and> extends_search s s'"
        using visit_claim_extends [OF keys _ s'] s by (simp add: ready_def)
      moreover from this have "card (unvisited cs s') \<le> card (unvisited cs s)"
        by (intro card_mono finite_unvisited extends_unvisited) simp
      ultimately have "\<forall>i. ready i s \<longrightarrow> ready i s'"
        by (auto simp: ready_def stack_above_def extends_search_def)
      with s' show "\<exists>st'. visit_claim cs depth j s = Inr st' \<and> (\<forall>i\<in>set (tc_dependencyKeys c). ready i s \<longrightarrow> ready i st')" by blast
    next
      show "\<forall>j\<in>set (tc_dependencyKeys c). ready j ?st"
      proof
        fix j assume j: "j \<in> set (tc_dependencyKeys c)"
        have same: "finished ?st = finished st" "on_stack ?st = insert k (on_stack st)"
          using None by (auto simp: finished_def on_stack_def)
        have edge: "(j, k) \<in> key_depends cs" using j c by (auto simp: key_depends_def)
        then have "stack_above cs j ?st"
          using Suc.prems(2) by (auto simp: stack_above_def same intro: trancl_into_trancl2)
        moreover have "unvisited cs ?st = unvisited cs st - {k}" by (auto simp: unvisited_def)
        then have "card (unvisited cs ?st) < depth"
          using Suc.prems(3,4) None card_Diff1_less [OF finite_unvisited, of k cs st] by (simp add: unvisited_def)
        moreover have "closed_search cs ?st" using Suc.prems(1) by (simp add: closed_search_def same)
        ultimately show "ready j ?st" by (simp add: ready_def)
      qed
    qed
    then obtain st1 where "visit_each (visit_claim cs depth) (tc_dependencyKeys c) ?st = Inr st1" by blast
    then show ?thesis using None find by simp
  qed
qed simp

lemma check_references_Inr:
  "check_references keys cs = Inr () \<longleftrightarrow>
    (\<forall>c\<in>set cs. tc_claimKey c \<notin> set (tc_dependencyKeys c) \<and> set (tc_dependencyKeys c) \<subseteq> set keys)"
  by (induction cs) (auto simp: list_ex_iff)

lemma empty_search: "closed_search cs (\<lambda>_. None)" "on_stack (\<lambda>_. None) = {}" "unvisited cs (\<lambda>_. None) = claim_keys cs"
  by (simp_all add: closed_search_def finished_def on_stack_def unvisited_def acyclic_def)

lemma search_accepts:
  assumes keys: "distinct (map tc_claimKey cs)" and inside: "\<forall>c\<in>set cs. set (tc_dependencyKeys c) \<subseteq> claim_keys cs"
  shows "(\<exists>st. visit_each (visit_claim cs (Suc (length cs))) (map tc_claimKey cs) (\<lambda>_. None) = Inr st) \<longleftrightarrow> acyclic (key_depends cs)"
proof
  assume "\<exists>st. visit_each (visit_claim cs (Suc (length cs))) (map tc_claimKey cs) (\<lambda>_. None) = Inr st"
  then obtain st where st: "visit_each (visit_claim cs (Suc (length cs))) (map tc_claimKey cs) (\<lambda>_. None) = Inr st" by blast
  have "closed_search cs st \<and> extends_search (\<lambda>_. None) st \<and> set (map tc_claimKey cs) \<subseteq> finished st"
    by (rule visit_each_extends [OF visit_claim_extends [OF keys] empty_search(1) st])
  then have "acyclic (key_depends cs \<inter> UNIV \<times> finished st)" "key_depends cs \<subseteq> UNIV \<times> finished st"
    by (auto simp: closed_search_def key_depends_def)
  then show "acyclic (key_depends cs)" by (simp add: Int_absorb2)
next
  assume acyclic: "acyclic (key_depends cs)"
  define ready where "ready j s \<longleftrightarrow> closed_search cs s \<and> on_stack s = {} \<and> card (unvisited cs s) \<le> length cs" for j :: string and s
  show "\<exists>st. visit_each (visit_claim cs (Suc (length cs))) (map tc_claimKey cs) (\<lambda>_. None) = Inr st"
  proof (rule visit_each_returns [where P = ready])
    fix k s assume k: "k \<in> set (map tc_claimKey cs)" and s: "ready k s"
    obtain s' where s': "visit_claim cs (Suc (length cs)) k s = Inr s'"
      using visit_claim_returns [OF keys inside acyclic, of s k "Suc (length cs)"] k s
      by (auto simp: ready_def stack_above_def claim_keys_def)
    have "closed_search cs s' \<and> extends_search s s'" using visit_claim_extends [OF keys _ s'] s by (simp add: ready_def)
    moreover from this have "card (unvisited cs s') \<le> card (unvisited cs s)"
      by (intro card_mono finite_unvisited extends_unvisited) simp
    ultimately have "\<forall>j. ready j s \<longrightarrow> ready j s'" by (auto simp: ready_def extends_search_def)
    with s' show "\<exists>st'. visit_claim cs (Suc (length cs)) k s = Inr st' \<and> (\<forall>j\<in>set (map tc_claimKey cs). ready j s \<longrightarrow> ready j st')"
      by blast
  next
    have "card (claim_keys cs) \<le> length cs" unfolding claim_keys_def by (rule le_trans [OF card_image_le card_length]) simp
    then show "\<forall>k\<in>set (map tc_claimKey cs). ready k (\<lambda>_. None)" by (simp add: ready_def empty_search)
  qed
qed

lemma check_claim_dependencies_iff:
  "check_claim_dependencies cs = Inr () \<longleftrightarrow>
    distinct (map tc_claimKey cs) \<and> (\<forall>c\<in>set cs. set (tc_dependencyKeys c) \<subseteq> claim_keys cs) \<and> acyclic (key_depends cs)"
proof -
  have "\<forall>c\<in>set cs. tc_claimKey c \<notin> set (tc_dependencyKeys c)" if "acyclic (key_depends cs)"
  proof
    fix c assume c: "c \<in> set cs"
    show "tc_claimKey c \<notin> set (tc_dependencyKeys c)"
    proof
      assume "tc_claimKey c \<in> set (tc_dependencyKeys c)"
      then have "(tc_claimKey c, tc_claimKey c) \<in> key_depends cs" using c by (auto simp: key_depends_def)
      then show False using that by (auto simp: acyclic_def)
    qed
  qed
  then show ?thesis
    using search_accepts [of cs]
    by (auto simp: check_claim_dependencies_def Let_def rbind_Inr_iff check_references_Inr claim_keys_def check_def split: if_splits)
qed

end
