(* ===== verification/Graph_Construction.thy ===== *)
theory Graph_Construction
  imports Theorem_Specification Graph_Execution Campaign_Example
begin

text \<open>
  The construction of the theorem graph and its verifier (\<open>createTypedTheoremDependencyGraph\<close> and
  \<open>verifyTypedTheoremDependencyGraph\<close> in \<open>paper-domain/research/typed-theorem-dependency-graph.mjs\<close>), and
  the agreement of the two searches for a cycle: the recursive one of the specification and the
  topological order. Of the two verifiers the construction calls, the dependency checks are those of
  \<open>Theorem_Specification\<close>; their remaining checks are the argument \<open>others\<close>.
\<close>

record theorem_obligation =
  ob_claimId :: string
  ob_specificationHash :: string
  ob_hash :: string
  ob_goalAuthority :: json
  ob_leanDeclarationName :: json
  ob_leanTypeSourceHash :: json
  ob_leanNormalizedTypeHash :: json
  ob_typedTheoremDslHash :: json
  ob_typedTheoremDsl :: json

record theorem_specification =
  ts_hash :: string
  ts_claims :: "theorem_claim list"

record obligation_bundle =
  tb_hash :: string
  tb_obligations :: "theorem_obligation list"

definition claim_id_by_key :: "theorem_claim list \<Rightarrow> string \<Rightarrow> string option" where
  "claim_id_by_key cs = map_of_entries (map (\<lambda>c. (tc_claimKey c, tc_claimId c)) cs)"

definition obligation_by_claim_id :: "theorem_obligation list \<Rightarrow> string \<Rightarrow> theorem_obligation option" where
  "obligation_by_claim_id obs = map_of_entries (map (\<lambda>q. (ob_claimId q, q)) obs)"

definition machine_search_eligible :: "theorem_obligation \<Rightarrow> bool" where
  "machine_search_eligible q = (jget ''machineSearchEligible'' (ob_typedTheoremDsl q) = Some (JBool True))"

definition node_payload :: "theorem_claim \<Rightarrow> theorem_obligation \<Rightarrow> string list \<Rightarrow> (string \<times> json) list" where
  "node_payload c q ids =
    [(''version'', JInt 1),
     (''kind'', JStr ''TypedTheoremDependencyNode''),
     (''claimId'', JStr (tc_claimId c)),
     (''claimKey'', JStr (tc_claimKey c)),
     (''theoremSpecificationClaimHash'', JStr (tc_specificationHash c)),
     (''typedTheoremObligationHash'', JStr (ob_hash q)),
     (''dependencyClaimKeys'', JArr (map JStr (tc_dependencyKeys c))),
     (''dependencyClaimIds'', JArr (map JStr ids)),
     (''releasePolicy'', JStr (tc_releasePolicy c)),
     (''requiredForRelease'', JBool (tc_releasePolicy c = ''required'')),
     (''searchPolicy'', JStr (if machine_search_eligible q then ''bounded_machine_search_then_kernel''
       else ''semantic_review_only_then_external_kernel_candidate'')),
     (''machineSearchEligible'', JBool (machine_search_eligible q)),
     (''exactLeanTypeAuthority'', JBool (ob_goalAuthority q = JStr ''exact_dynamic_lean_type'')),
     (''leanDeclarationName'', ob_leanDeclarationName q),
     (''leanTypeSourceHash'', ob_leanTypeSourceHash q),
     (''leanNormalizedTypeHash'', ob_leanNormalizedTypeHash q),
     (''typedTheoremDslHash'', ob_typedTheoremDslHash q),
     (''typedTheoremDsl'', ob_typedTheoremDsl q),
     (''dependencyImportPolicy'', JStr ''only-kernel-verified-predecessor-declarations-from-this-graph'')]"

definition dependency_id :: "(string \<Rightarrow> string option) \<Rightarrow> string \<Rightarrow> string result" where
  "dependency_id idByKey k =
    (case idByKey k of None \<Rightarrow> Inl ''typed_theorem_dependency_graph_dependency_missing''
     | Some i \<Rightarrow> if i = [] then Inl ''typed_theorem_dependency_graph_dependency_missing'' else Inr i)"

text \<open>A node is the record the order and the execution read, and its JSON value.\<close>

definition graphNode :: "runtime \<Rightarrow> theorem_claim \<Rightarrow> theorem_obligation \<Rightarrow> (string \<Rightarrow> string option) \<Rightarrow> (theorem_node \<times> json) result" where
  "graphNode rt c q idByKey =
    rbind (rmap (dependency_id idByKey) (tc_dependencyKeys c)) (\<lambda>ids.
      Inr (\<lparr>claimId = tc_claimId c, claimKey = tc_claimKey c,
             nodeHash = hashRecord rt ''TypedTheoremDependencyNode'' (JObj (node_payload c q ids)),
             dependencyClaimIds = ids, requiredForRelease = (tc_releasePolicy c = ''required'')\<rparr>,
           sealed_record rt ''TypedTheoremDependencyNode'' ''typedTheoremDependencyNodeHash'' (node_payload c q ids)))"

definition node_of_obligation ::
    "runtime \<Rightarrow> theorem_obligation list \<Rightarrow> (string \<Rightarrow> string option) \<Rightarrow> theorem_claim \<Rightarrow> (theorem_node \<times> json) result" where
  "node_of_obligation rt obs idByKey c =
    (case obligation_by_claim_id obs (tc_claimId c) of
       None \<Rightarrow> Inl ''typed_theorem_dependency_graph_obligation_missing''
     | Some q \<Rightarrow>
         if ob_specificationHash q \<noteq> tc_specificationHash c then Inl ''typed_theorem_dependency_graph_obligation_missing''
         else graphNode rt c q idByKey)"

definition graph_edges :: "runtime \<Rightarrow> theorem_node list \<Rightarrow> json list" where
  "graph_edges rt ns = concat (map (\<lambda>n. map (\<lambda>d. sealed_record rt ''TypedTheoremDependencyEdge'' ''edgeHash''
    [(''fromClaimId'', JStr d), (''toClaimId'', JStr (claimId n)), (''relation'', JStr ''kernel_verified_declaration_import'')])
    (dependencyClaimIds n)) ns)"

definition semantic_node :: "json \<Rightarrow> json" where
  "semantic_node v = JObj (map (\<lambda>k. (k, or_json_null (jget k v)))
    [''claimId'', ''theoremSpecificationClaimHash'', ''typedTheoremObligationHash'', ''dependencyClaimIds'',
     ''requiredForRelease'', ''leanNormalizedTypeHash'', ''typedTheoremDslHash''])"

definition graph_semantic_hash :: "runtime \<Rightarrow> json list \<Rightarrow> json list \<Rightarrow> string list \<Rightarrow> string" where
  "graph_semantic_hash rt vs edges order = hashRecord rt ''TypedTheoremDependencyGraphSemantic''
    (JObj [(''nodes'', JArr (map semantic_node vs)), (''edges'', JArr edges), (''topologicalOrder'', JArr (map JStr order))])"

definition graph_payload ::
    "theorem_specification \<Rightarrow> obligation_bundle \<Rightarrow> json list \<Rightarrow> json list \<Rightarrow> string list \<Rightarrow> string \<Rightarrow> (string \<times> json) list" where
  "graph_payload s b vs edges order semantic =
    [(''version'', JInt 1),
     (''kind'', JStr ''TypedTheoremDependencyGraph''),
     (''status'', JStr ''typed_theorem_dependency_graph_ready''),
     (''theoremSpecificationHash'', JStr (ts_hash s)),
     (''typedTheoremObligationBundleHash'', JStr (tb_hash b)),
     (''nodeCount'', JInt (int (length vs))),
     (''edgeCount'', JInt (int (length edges))),
     (''nodes'', JArr vs),
     (''edges'', JArr edges),
     (''topologicalOrder'', JArr (map JStr order)),
     (''graphSemanticHash'', JStr semantic),
     (''limitations'', JObj [(''openWorldTheoremDiscoveryGuaranteed'', JBool False),
       (''dependencyCompletenessKernelInferred'', JBool False),
       (''naturalLanguageDependencySemanticsKernelProven'', JBool False)])]"

definition createTypedTheoremDependencyGraph ::
    "runtime \<Rightarrow> bool \<Rightarrow> theorem_specification \<Rightarrow> obligation_bundle \<Rightarrow> (theorem_graph \<times> json) result" where
  "createTypedTheoremDependencyGraph rt others s b =
    rbind (check (check_claim_dependencies (ts_claims s) = Inr () \<and> others) ''typed_theorem_dependency_graph_authority_invalid'') (\<lambda>_.
    rbind (rmap (node_of_obligation rt (tb_obligations b) (claim_id_by_key (ts_claims s))) (ts_claims s)) (\<lambda>nodes.
    rbind (topologicalOrder (map fst nodes)) (\<lambda>order.
      let edges = graph_edges rt (map fst nodes);
          semantic = graph_semantic_hash rt (map snd nodes) edges order;
          payload = graph_payload s b (map snd nodes) edges order semantic in
      Inr (\<lparr>graphHash = hashRecord rt ''TypedTheoremDependencyGraph'' (JObj payload), graphSemanticHash = semantic,
             graph_nodes = map fst nodes, graph_order = order\<rparr>,
           sealed_record rt ''TypedTheoremDependencyGraph'' ''typedTheoremDependencyGraphHash'' payload))))"

section \<open>The verifier\<close>

definition hasExactObjectKeys :: "json option \<Rightarrow> string list \<Rightarrow> bool" where
  "hasExactObjectKeys v ks = (case v of
     Some (JObj es) \<Rightarrow> join [CHR 0x00] (sortStrings (map fst es)) = join [CHR 0x00] (sortStrings ks) | _ \<Rightarrow> False)"

definition GRAPH_KEYS :: "string list" where
  "GRAPH_KEYS = [''edgeCount'', ''edges'', ''graphSemanticHash'', ''kind'', ''limitations'', ''nodeCount'',
    ''nodes'', ''status'', ''theoremSpecificationHash'', ''topologicalOrder'',
    ''typedTheoremDependencyGraphHash'', ''typedTheoremObligationBundleHash'', ''version'']"

text \<open>The blockers of the verifier; the graph is valid when there is none.\<close>

definition verifyTypedTheoremDependencyGraph ::
    "runtime \<Rightarrow> bool \<Rightarrow> json option \<Rightarrow> theorem_specification \<Rightarrow> obligation_bundle \<Rightarrow> string list" where
  "verifyTypedTheoremDependencyGraph rt others graph s b =
    (let shape = (if hasExactObjectKeys graph GRAPH_KEYS then [] else [''typed_theorem_dependency_graph_shape_invalid'']) in
     case createTypedTheoremDependencyGraph rt others s b of
       Inl e \<Rightarrow> unique (shape @ [e, ''typed_theorem_dependency_graph_not_canonical''])
     | Inr (g, doc) \<Rightarrow> unique (shape @ (if Some doc \<noteq> graph then [''typed_theorem_dependency_graph_not_canonical''] else [])))"

section \<open>The nodes of a specification\<close>

lemma rmap_total: "(\<And>x. x \<in> set xs \<Longrightarrow> \<exists>y. f x = Inr y) \<Longrightarrow> \<exists>ys. rmap f xs = Inr ys"
  by (induction xs) fastforce+

lemma rmap_Inl: "rmap f xs = Inl e \<Longrightarrow> \<exists>x\<in>set xs. f x = Inl e"
  by (induction xs) (auto simp: rbind_def split: sum.splits)

lemma list_all2_member: "list_all2 P xs ys \<Longrightarrow> y \<in> set ys \<Longrightarrow> \<exists>x\<in>set xs. P x y"
  by (induction rule: list_all2_induct) auto

lemma claim_id_by_key_Some:
  assumes "distinct (map tc_claimKey cs)"
  shows "claim_id_by_key cs k = Some i \<longleftrightarrow> (\<exists>c\<in>set cs. tc_claimKey c = k \<and> tc_claimId c = i)"
  using assms by (auto simp: claim_id_by_key_def map_of_entries_def rev_map [symmetric] comp_def distinct_map)

definition has_obligation :: "theorem_obligation list \<Rightarrow> theorem_claim \<Rightarrow> bool" where
  "has_obligation obs c = (case obligation_by_claim_id obs (tc_claimId c) of
     None \<Rightarrow> False | Some q \<Rightarrow> ob_specificationHash q = tc_specificationHash c)"

lemma node_built:
  assumes keys: "distinct (map tc_claimKey cs)" and ids: "[] \<notin> tc_claimId ` set cs" and inside: "set (tc_dependencyKeys c) \<subseteq> claim_keys cs"
  shows "node_of_obligation rt obs (claim_id_by_key cs) c = Inl e \<longleftrightarrow>
    e = ''typed_theorem_dependency_graph_obligation_missing'' \<and> \<not> has_obligation obs c"
proof -
  have resolved: "\<exists>i. dependency_id (claim_id_by_key cs) k = Inr i" if k: "k \<in> set (tc_dependencyKeys c)" for k
  proof -
    obtain d where d: "d \<in> set cs" "tc_claimKey d = k" using k inside by (auto simp: claim_keys_def)
    then have "claim_id_by_key cs k = Some (tc_claimId d)" using claim_id_by_key_Some [OF keys] by blast
    moreover have "tc_claimId d \<noteq> []" using ids d(1) by force
    ultimately show ?thesis by (simp add: dependency_id_def)
  qed
  have "\<exists>js. rmap (dependency_id (claim_id_by_key cs)) (tc_dependencyKeys c) = Inr js" by (rule rmap_total) (rule resolved)
  then show ?thesis by (auto simp: node_of_obligation_def has_obligation_def graphNode_def split: option.splits)
qed

lemma node_fields:
  assumes "node_of_obligation rt obs idByKey c = Inr (n, v)"
  shows "claimId n = tc_claimId c" and "map Some (dependencyClaimIds n) = map idByKey (tc_dependencyKeys c)"
proof -
  obtain js where js: "rmap (dependency_id idByKey) (tc_dependencyKeys c) = Inr js" "claimId n = tc_claimId c" "dependencyClaimIds n = js"
    using assms by (auto simp: node_of_obligation_def graphNode_def rbind_Inr_iff split: option.splits if_splits)
  have "list_all2 (\<lambda>k i. idByKey k = Some i) (tc_dependencyKeys c) js"
    using js(1) unfolding rmap_Inr_iff
    by (rule list_all2_mono) (auto simp: dependency_id_def split: option.splits if_splits)
  then have "map Some js = map idByKey (tc_dependencyKeys c)"
    by (auto simp: list_eq_iff_nth_eq list_all2_conv_all_nth)
  with js(2,3) show "claimId n = tc_claimId c" "map Some (dependencyClaimIds n) = map idByKey (tc_dependencyKeys c)" by simp_all
qed

section \<open>The two searches for a cycle agree\<close>

lemma nodes_acyclic:
  assumes keys: "distinct (map tc_claimKey cs)" and ids: "distinct (map tc_claimId cs)" and acyclic: "acyclic (key_depends cs)"
    and nodes: "list_all2 (\<lambda>c p. node_of_obligation rt obs (claim_id_by_key cs) c = Inr p) cs ps"
  shows "acyclic (depends (map fst ps))"
proof -
  define key_of where "key_of i = (case map_of (map (\<lambda>c. (tc_claimId c, tc_claimKey c)) cs) i of Some k \<Rightarrow> k | None \<Rightarrow> [])" for i
  have key_of: "key_of (tc_claimId c) = tc_claimKey c" if "c \<in> set cs" for c
  proof -
    have "map_of (map (\<lambda>c. (tc_claimId c, tc_claimKey c)) cs) (tc_claimId c) = Some (tc_claimKey c)"
      by (rule map_of_is_SomeI) (use ids that in \<open>auto simp: comp_def\<close>)
    then show ?thesis by (simp add: key_of_def)
  qed
  have "(key_of d, key_of i) \<in> key_depends cs" if edge: "(d, i) \<in> depends (map fst ps)" for d i
  proof -
    obtain n v where n: "(n, v) \<in> set ps" "d \<in> set (dependencyClaimIds n)" "claimId n = i"
      using edge by (auto simp: depends_def)
    then obtain c where c: "c \<in> set cs" "node_of_obligation rt obs (claim_id_by_key cs) c = Inr (n, v)"
      using list_all2_member [OF nodes n(1)] by blast
    note fields = node_fields [OF c(2)]
    have "Some d \<in> set (map Some (dependencyClaimIds n))" using n(2) by simp
    then obtain k where k: "k \<in> set (tc_dependencyKeys c)" "claim_id_by_key cs k = Some d" using fields(2) by auto
    then obtain e where "e \<in> set cs" "tc_claimKey e = k" "tc_claimId e = d" using claim_id_by_key_Some [OF keys] by blast
    then have "key_of d = k" using key_of by blast
    moreover have "key_of i = tc_claimKey c" using key_of [OF c(1)] fields(1) n(3) by simp
    ultimately show ?thesis using c(1) k(1) by (auto simp: key_depends_def)
  qed
  then have "depends (map fst ps) \<subseteq> inv_image (key_depends cs) key_of" by (auto simp: inv_image_def)
  moreover have "finite (key_depends cs)" by (simp add: key_depends_def)
  then have "wf (inv_image (key_depends cs) key_of)" using finite_acyclic_wf [OF _ acyclic] by (intro wf_inv_image)
  ultimately show ?thesis by (meson wf_subset wf_acyclic)
qed

lemma nodes_resolved:
  assumes keys: "distinct (map tc_claimKey cs)"
    and nodes: "list_all2 (\<lambda>c p. node_of_obligation rt obs (claim_id_by_key cs) c = Inr p) cs ps"
  shows "map claimId (map fst ps) = map tc_claimId cs"
    and "\<forall>n\<in>set (map fst ps). set (dependencyClaimIds n) \<subseteq> graph_ids (map fst ps)"
proof -
  have fields: "claimId (fst p) = tc_claimId c \<and> map Some (dependencyClaimIds (fst p)) = map (claim_id_by_key cs) (tc_dependencyKeys c)"
    if "node_of_obligation rt obs (claim_id_by_key cs) c = Inr p" for c p
    using node_fields [of rt obs "claim_id_by_key cs" c "fst p" "snd p"] that by simp
  show same: "map claimId (map fst ps) = map tc_claimId cs"
    using nodes fields by (auto simp: list_eq_iff_nth_eq list_all2_conv_all_nth)
  have "set (dependencyClaimIds (fst p)) \<subseteq> set (map tc_claimId cs)" if p: "p \<in> set ps" for p
  proof
    fix d assume d: "d \<in> set (dependencyClaimIds (fst p))"
    obtain c where "node_of_obligation rt obs (claim_id_by_key cs) c = Inr p"
      using list_all2_member [OF nodes p] by blast
    then have "Some d \<in> set (map (claim_id_by_key cs) (tc_dependencyKeys c))" using d fields by (metis image_eqI list.set_map)
    then obtain k where "claim_id_by_key cs k = Some d" by auto
    then show "d \<in> set (map tc_claimId cs)" using claim_id_by_key_Some [OF keys] by auto
  qed
  then show "\<forall>n\<in>set (map fst ps). set (dependencyClaimIds n) \<subseteq> graph_ids (map fst ps)"
    unfolding same [symmetric] graph_ids_def by (simp add: image_image)
qed

lemma graph_keys: "hasExactObjectKeys (Some (sealed_record rt ''TypedTheoremDependencyGraph'' ''typedTheoremDependencyGraphHash''
  (graph_payload s b vs edges order semantic))) GRAPH_KEYS"
proof -
  have "mset (map fst (graph_payload s b vs edges order semantic @ [(''typedTheoremDependencyGraphHash'', v)])) = mset GRAPH_KEYS" for v
    by (simp add: graph_payload_def GRAPH_KEYS_def add_mset_commute)
  from sortStrings_cong [OF this] show ?thesis by (simp add: hasExactObjectKeys_def sealed_record_def)
qed

lemma graph_verified:
  assumes "createTypedTheoremDependencyGraph rt others s b = Inr (g, doc)"
  shows "verifyTypedTheoremDependencyGraph rt others (Some doc) s b = []"
proof -
  obtain vs edges order semantic where "doc = sealed_record rt ''TypedTheoremDependencyGraph'' ''typedTheoremDependencyGraphHash''
      (graph_payload s b vs edges order semantic)"
    using assms by (auto simp: createTypedTheoremDependencyGraph_def rbind_Inr_iff Let_def)
  then have "hasExactObjectKeys (Some doc) GRAPH_KEYS" by (simp add: graph_keys)
  then show ?thesis by (simp add: verifyTypedTheoremDependencyGraph_def assms)
qed

definition graph_of_claims :: "theorem_claim list \<Rightarrow> theorem_graph \<Rightarrow> bool" where
  "graph_of_claims cs g \<longleftrightarrow> map claimId (graph_nodes g) = map tc_claimId cs
    \<and> topologicalOrder (graph_nodes g) = Inr (graph_order g)
    \<and> mset (graph_order g) = mset (map tc_claimId cs) \<and> after_dependencies (graph_nodes g) (graph_order g)"

definition ex_claims :: "theorem_claim list" where
  "ex_claims = map (\<lambda>(i, ds). \<lparr>tc_claimId = ''theorem:'' @ i, tc_claimKey = i, tc_specificationHash = i, tc_dependencyKeys = ds,
    tc_releasePolicy = ''required''\<rparr>) [(''c'', [''b'', ''a'']), (''b'', [''a'']), (''a'', [])]"

definition ex_specification :: theorem_specification where
  "ex_specification = \<lparr>ts_hash = ''s'', ts_claims = ex_claims\<rparr>"

definition ex_bundle :: obligation_bundle where
  "ex_bundle = \<lparr>tb_hash = ''b'', tb_obligations = map (\<lambda>c. \<lparr>ob_claimId = tc_claimId c, ob_specificationHash = tc_specificationHash c,
    ob_hash = ''o'', ob_goalAuthority = JNull, ob_leanDeclarationName = JNull, ob_leanTypeSourceHash = JNull,
    ob_leanNormalizedTypeHash = JNull, ob_typedTheoremDslHash = JNull, ob_typedTheoremDsl = JNull\<rparr>) ex_claims\<rparr>"

lemma ex_claims_checked: "check_claim_dependencies ex_claims = Inr ()"
  by code_simp

lemma ex_claims_obligations: "list_all (has_obligation (tb_obligations ex_bundle)) ex_claims"
  by code_simp

text \<open>
  C29. The theorem graph of a specification whose claim ids are distinct and not empty. The recursive
  search of the specification accepts the claims exactly when their keys are unique, all dependencies
  are claims, and the dependencies have no cycle. The construction fails only when this check or
  another check of the two verifiers fails, or when a claim has no obligation; in particular the
  topological order never reports a cycle the specification did not. Otherwise the graph has the
  claims as nodes, its order is a topological order of them, and its verifier accepts the graph.
\<close>

theorem verified_specification_has_graph:
  assumes "distinct (map tc_claimId (ts_claims s))" and "[] \<notin> set (map tc_claimId (ts_claims s))"
  shows "(check_claim_dependencies (ts_claims s) = Inr () \<longleftrightarrow> distinct (map tc_claimKey (ts_claims s))
      \<and> (\<forall>c\<in>set (ts_claims s). set (tc_dependencyKeys c) \<subseteq> claim_keys (ts_claims s)) \<and> acyclic (key_depends (ts_claims s)))
    \<and> (case createTypedTheoremDependencyGraph rt others s b of
        Inl e \<Rightarrow> e = ''typed_theorem_dependency_graph_authority_invalid'' \<and> (check_claim_dependencies (ts_claims s) \<noteq> Inr () \<or> \<not> others)
          \<or> e = ''typed_theorem_dependency_graph_obligation_missing'' \<and> \<not> list_all (has_obligation (tb_obligations b)) (ts_claims s)
      | Inr (g, doc) \<Rightarrow> graph_of_claims (ts_claims s) g \<and> verifyTypedTheoremDependencyGraph rt others (Some doc) s b = [])"
  (is "_ \<and> ?graph")
proof
  let ?cs = "ts_claims s"
  let ?f = "node_of_obligation rt (tb_obligations b) (claim_id_by_key ?cs)"
  show ?graph
  proof (cases "check_claim_dependencies ?cs = Inr () \<and> others")
    case False
    then show ?thesis by (auto simp: createTypedTheoremDependencyGraph_def check_def)
  next
    case True
    then have keys: "distinct (map tc_claimKey ?cs)" and inside: "\<forall>c\<in>set ?cs. set (tc_dependencyKeys c) \<subseteq> claim_keys ?cs"
      and acyclic: "acyclic (key_depends ?cs)" by (simp_all add: check_claim_dependencies_iff)
    show ?thesis
    proof (cases "rmap ?f ?cs")
      case (Inl e)
      then obtain c where c: "c \<in> set ?cs" "?f c = Inl e" using rmap_Inl by blast
      then have "e = ''typed_theorem_dependency_graph_obligation_missing'' \<and> \<not> has_obligation (tb_obligations b) c"
        using node_built [OF keys] assms(2) inside by simp
      then show ?thesis using True Inl c(1) by (auto simp: createTypedTheoremDependencyGraph_def check_def list_all_iff)
    next
      case (Inr ps)
      then have nodes: "list_all2 (\<lambda>c p. ?f c = Inr p) ?cs ps" by (simp add: rmap_Inr_iff)
      note resolved = nodes_resolved [OF keys nodes]
      have distinct: "distinct (map claimId (map fst ps))" by (simp only: resolved(1) assms(1))
      note spec = topological_order_spec [OF distinct resolved(2)]
      obtain order where order: "topologicalOrder (map fst ps) = Inr order"
        using spec nodes_acyclic [OF keys assms(1) acyclic nodes] by (cases "topologicalOrder (map fst ps)") auto
      obtain g doc where g: "createTypedTheoremDependencyGraph rt others s b = Inr (g, doc)" "graph_nodes g = map fst ps" "graph_order g = order"
        using True by (simp add: createTypedTheoremDependencyGraph_def Inr order check_def Let_def)
      have "mset order = mset (map tc_claimId ?cs)" "after_dependencies (map fst ps) order"
        using spec by (simp_all only: order sum.case resolved(1))
      then have "graph_of_claims ?cs g"
        by (simp only: graph_of_claims_def g(2,3) order resolved(1))
      then show ?thesis using graph_verified [OF g(1)] by (simp add: g(1))
    qed
  qed
qed (rule check_claim_dependencies_iff)

lemma verified_specification_has_graph_witness:
  "acyclic (key_depends ex_claims) \<and> (\<exists>g doc. createTypedTheoremDependencyGraph ex_rt True ex_specification ex_bundle = Inr (g, doc)
    \<and> graph_of_claims ex_claims g \<and> verifyTypedTheoremDependencyGraph ex_rt True (Some doc) ex_specification ex_bundle = [])"
  using verified_specification_has_graph [of ex_specification True ex_bundle ex_rt] ex_claims_checked ex_claims_obligations
  by (cases "createTypedTheoremDependencyGraph ex_rt True ex_specification ex_bundle")
    (auto simp: ex_specification_def ex_claims_def)

end
