(* ===== verification/Spec2Isabelle.thy ===== *)
theory Spec2Isabelle
  imports Process_Identity Campaign_Lifecycle_Store Claim_Properties Contract_Properties Policy_Properties Recovery_Properties Release_Properties Graph_Properties Governor_Properties Campaign_Budget_Policy Launch_Properties Gate_Properties Search_Properties Dsl_Compiled Execution_Properties Graph_Construction
begin

text \<open>
  The research campaigns of hepta-paper: the durable store, the policies above it and the
  gates in front of it, and the typed theorem language of the research pipeline.

  A campaign is a graph of nodes (prepare, research, experiment, review, package, ...) that
  worker processes claim, run and complete. Everything that must survive a crash is in an SQLite
  database. A worker owns a node through a lease with a generation number and an attempt id,
  and passes both (the fence) with every later call. External side effects are journaled before
  and after they happen. Budgets are checked where usage is recorded. Each write exists twice: as a
  list of statements (legacy backend) and as a named mutation executed by a writer (native
  backend).

  Theories and sources (below \<open>src/\<close>).

  \<^item> \<open>Prelude\<close>: results that are a value or an error message, \<open>x || null\<close>, sorting, list lemmas.
  \<^item> \<open>Record_Hash\<close>: JSON values, canonical serialisation, record hashes
    (\<open>workflow-kernel/record-hash.mjs\<close>), coercions of JavaScript.
  \<^item> \<open>Process_Identity\<close>: \<open>workflow-kernel/runtime/process-identity.mjs\<close>.
  \<^item> \<open>Campaign_Model\<close>: the rows and their mappers (\<open>paper-adapters/persistence/sqlite-campaign-row-mappers.mjs\<close>,
    \<open>store/migrations\<close>).
  \<^item> \<open>Campaign_State_Policy\<close>: \<open>paper-domain/automation/campaign-state-policy.mjs\<close>.
  \<^item> \<open>Campaign_Database\<close>, \<open>Campaign_Statements\<close>, \<open>Campaign_Mutations\<close>: transactions, mutation boundary and
    queries; the statements of \<open>native-store-campaign-mutation-plan.mjs\<close> (\<open>S_...\<close>); the native
    transactions of \<open>native-store-campaign-mutation-execution.mjs\<close> (\<open>M_...\<close>).
  \<^item> \<open>External_Action_Contract\<close>: descriptors, outcomes and reservations
    (\<open>campaign-external-action-journal-contract.mjs\<close>, \<open>native-store-campaign-infrastructure-reservation.mjs\<close>).
  \<^item> \<open>Campaign_Lease_Store\<close>, \<open>Campaign_Action_Store\<close>, \<open>Campaign_Prepared_Store\<close>,
    \<open>Campaign_Lifecycle_Store\<close>: the operations of the store, one definition per exported function of the
    \<open>sqlite-campaign-*-operations.mjs\<close> files.
  \<^item> \<open>Campaign_Definition\<close>: definition codec, release topology gate, execution admission, evolution
    on resume.
  \<^item> \<open>Release_Authority\<close>: the promotion receipt of \<open>campaign-release-contracts.mjs\<close>, the query of the
    current release and the promotion of a completed campaign (\<open>sqlite-campaign-release-query-repository.mjs\<close>,
    \<open>sqlite-campaign-release-authority-repository.mjs\<close>), the second writer of releases beside \<open>completeNode\<close>.
  \<^item> \<open>Campaign_Graph\<close>: the graph of every campaign mode (\<open>campaign-mode-graph.mjs\<close> and its parts).
  \<^item> \<open>Launch_Mode_Policy\<close>: \<open>autonomous-research-launch-mode-policy.mjs\<close>.
  \<^item> \<open>Resource_Governor\<close>, \<open>Campaign_Budget_Policy\<close>, \<open>Side_Effect_Gate\<close>: the parts of
    \<open>paper-application/automation\<close> a worker runs through: node kinds and the governor, budget
    blockers, the gate in front of external actions.
  \<^item> \<open>Theorem_Dsl\<close>, \<open>Theorem_Search\<close>: parser, compiler and counterexample search of the typed theorem language
    (\<open>paper-domain/research/typed-theorem-dsl.mjs\<close>, \<open>lean-type-identity.mjs\<close>). \<open>Theorem_Specification\<close>:
    the dependency checks of \<open>theorem-specification.mjs\<close>. \<open>Theorem_Graph\<close>, \<open>Graph_Execution\<close>, \<open>Graph_Construction\<close>:
    the order in which a graph of theorems is searched, the receipts and the replay, the graph and its verifier
    (\<open>typed-theorem-dependency-graph.mjs\<close>).
  \<^item> \<open>Store_Contract\<close>, \<open>Store_Machine\<close>, \<open>Store_Invariants\<close>, \<open>Store_Evolution\<close>: the reasoning.
    A relation between databases that every statement keeps is kept by every transaction,
    mutation and operation; this is proved once in the locales \<open>db_preorder\<close> and
    \<open>statement_contract\<close> and interpreted on the invariant and on the orders of evolution.
  \<^item> \<open>Graph_Order\<close>, \<open>Graph_Identity\<close>, \<open>Graph_Release\<close>: generated graphs, block by block.
  \<^item> \<open>Dsl_Text\<close>, \<open>Dsl_Round_Trip\<close>, \<open>Dsl_Compiled\<close>: texts of the theorem language, terms and relations that are
    read back, the compiled theorem.
  \<^item> \<open>Campaign_Example\<close>: the campaign the witnesses run on. \<open>..._Properties\<close>: the properties.

  What is shown.

  \<^item> Every history (\<open>Store_Properties\<close>): the invariant of the store holds in every database
    reachable by any interleaving of operations of any processes on either backend; the journal only grows;
    completed nodes keep their results; two holders of a lease of one generation are one attempt;
    a superseded fence never owns a lease again. \<open>Release_Properties\<close>: a release published by either
    writer rests on the completed package node and the campaign it names, when promotions are made by the
    release contract (\<open>contract_promotion\<close>).
  \<^item> Single operations (\<open>Fence_Properties\<close>, \<open>Budget_Properties\<close>, \<open>Claim_Properties\<close>): a stale attempt
    changes nothing, but for starting a node whose lease it still holds and deferring a node a pause put back
    into the queue; budgets hold where they are enforced, a claim takes one ready node, and when
    the policy selects a node a claim succeeds.
  \<^item> The two backends agree (\<open>Backend_Properties\<close>) on the control operations and on the worker operations listed
    there; not claimed are failures that settle siblings, the two journal operations on external actions and the
    infrastructure deferral. In creation and in the recovery of attempts with completed actions the native backend
    fails or leaves work out (\<open>Recovery_Properties\<close>).
  \<^item> Pure policies (\<open>Policy_Properties\<close>): the SQL projection computes the status and the review round of
    the policy's projection, and its phase where \<open>localeCompare\<close> orders the ids as SQLite does (it need not: an
    example is given); ready selection is a prefix of the priority order; the cancellation cascade is the root
    and everything that depends on it. \<open>Contract_Properties\<close>: round trips of builders and verifiers.
  \<^item> Generated graphs (\<open>Graph_Properties\<close>): ids are unique, dependencies point backwards, the release gate
    of the codec accepts them exactly when a full campaign requires research verification, the scheduler never
    gets stuck.
  \<^item> Above the store: the governor keeps its limits, does not idle and does not overtake
    (\<open>Governor_Properties\<close>); a node the engine does not block passes the budget guard of the start
    statement exactly when all counts of the campaign are within their limits, for whole limits
    (\<open>Campaign_Budget_Policy\<close>); unlimited budgets need a waiver, permitted launches are funded
    (\<open>Launch_Properties\<close>); a completed external action is never called again (\<open>Gate_Properties\<close>).
  \<^item> Theorems: the compiled text of a theorem is read back as that theorem, but a sum or difference on the
    right of a subtraction loses its grouping (\<open>Dsl_Compiled\<close>). Below 2^53 the counterexample search
    reports the truth about the integers; three reports outside of that are wrong in Lean
    (\<open>Search_Properties\<close>). The order of a theorem graph is a topological order and exists unless there is a
    cycle (\<open>Theorem_Graph\<close>); the recursive search for a cycle in the specification agrees with it
    (\<open>Graph_Construction\<close>); in an accepted execution verified claims rest on verified claims and the release
    flag is exact, whatever the search answered (\<open>Execution_Properties\<close>).

  Modelling decisions.

  \<^item> A thrown error is its message. A failed transaction leaves the database as it was (SQLite
    rolls back). A statement returns the number of rows it changed; a comparison with NULL is false.
  \<^item> Timestamps are integers (milliseconds); the ISO strings of the columns sort in the same order.
    Columns that hold JSON text hold the value. Strings are lists of 8-bit code units. Numbers
    of JSON are exact rationals and NaN is \<open>None\<close>; unknown cost counts as zero where the code writes \<open>|| 0\<close>.
    Rounds and reviewer counts of a graph are whole numbers.
  \<^item> What comes from outside is an argument: SHA-256, ICU collation and number text (\<open>runtime\<close>), clock and UUIDs
    (\<open>env\<close>), process probes (\<open>os\<close>), verifiers of intake records (\<open>verifiers\<close>; the waiver
    binding is instantiated by the modelled one as \<open>spec_waiver_binding\<close>), the release promotion
    (\<open>promote\<close>, instantiated by \<open>contract_promotion\<close>, whose verifiers of bundles, authority records and sealed
    files are the fields of \<open>release_checks\<close>), the verifiers of numerical plans (\<open>plan_checks\<close>), the callbacks of the gate,
    the remaining checks of theorem specifications and bundles (\<open>others\<close>).
    No property assumes that SHA-256 is injective.
  \<^item> Texts of theorems are lists of UTF-16 code units and their Unicode normalisation is the argument \<open>nfkc\<close>; an
    index into a text is the pair of the parts before and after it. Numbers of the search are binary64 with exact
    rounding (integers, infinities, NaN), without the sign of zero.
  \<^item> The comparison of two \<open>JSON.stringify\<close> texts of receipts is the comparison of the values with their key order. The
    search of a theorem graph is an argument that may answer anything and threads its own world.
  \<^item> A drain of the governor is one step; a client releases once what it holds (the release function of
    the code does not guard against a second call).
  \<^item> The only fuel is the depth of the recursive cycle search in \<open>Theorem_Specification\<close>, the number of claims plus
    one, shown to be enough. Other loops are structural recursions, or \<open>function\<close>s with a measure: the cancellation
    cascade by the nodes not yet cancelled, the parser by the length of the text, the topological order by
    the ready nodes plus the nodes with open dependencies.

  Not modelled.

  \<^item> Contracts of the machine intake: they need Unicode normalisation, dataset mounts and plugin
    registries. The verifiers are arguments of the admission check.
  \<^item> The convergence of referee scores (binary64 arithmetic), the campaign plan builder around the
    mode graph, the dispatch loop of the engine and its prompts.
  \<^item> The verifiers of release bundles and authority records, telemetry, the \<open>committed\<close> flag a write
    coordinator puts on errors, the metering of agent receipts.
  \<^item> The hash over a finished typed theorem and its constant fields; texts, sources and lineage of a theorem
    specification and the obligation bundle.
  \<^item> Submission, journals, packaging, numerical kernels, runtime images, composition roots,
    command line, migrations and tests.
\<close>

end
